(* ===== verification/Prelude.thy ===== *)
theory Prelude
  imports Main "HOL-Library.Multiset" "HOL-Library.Countable"
begin

text \<open>
  Shared vocabulary of the development: how Go's strings, errors and clock readings are
  written, the delivery of goroutine results over a buffered channel, and the lemma
  collections the component theories extend.

  Go strings are byte sequences; they are modelled as \<^typ>\<open>string\<close>. White space is the ASCII
  set of \<^verbatim>\<open>unicode.IsSpace\<close>. Instants are nanoseconds and durations nanosecond differences,
  both of type \<^typ>\<open>int\<close>; a millisecond count is what \<^verbatim>\<open>Duration.Milliseconds\<close> returns.
\<close>

named_theorems engine_defs
named_theorems budget_simps
named_theorems verdict_simps

section \<open>Clock readings\<close>

text \<open>
  \<open>T n k\<close> is the reading of the clock at program point \<open>k\<close> of loop iteration \<open>n\<close> (iteration
  0 is the code before the loop). The readings are arbitrary: no theorem of the
  development depends on how long the code takes unless it says so.
\<close>

type_synonym clock = "nat \<Rightarrow> nat \<Rightarrow> int"

definition Milliseconds :: "int \<Rightarrow> int" where
  "Milliseconds d = (if d < 0 then - ((- d) div 1000000) else d div 1000000)"

text \<open>
  Arithmetic on \<^verbatim>\<open>int\<close> and \<^verbatim>\<open>Duration\<close> wraps at 64 bits; \<^verbatim>\<open>time.Duration(ms) * time.Millisecond\<close> is a count of
  nanoseconds.
\<close>

definition wrap64 :: "int \<Rightarrow> int" where
  "wrap64 i = (i + 2 ^ 63) mod 2 ^ 64 - 2 ^ 63"

definition milliseconds :: "int \<Rightarrow> int" where
  "milliseconds ms = wrap64 (ms * 1000000)"

lemma milliseconds_exact: "\<bar>ms\<bar> \<le> 9223372036854 \<Longrightarrow> milliseconds ms = ms * 1000000"
  by (auto simp: milliseconds_def wrap64_def)

lemma Milliseconds_nonneg [simp]: "0 \<le> d \<Longrightarrow> 0 \<le> Milliseconds d"
  by (simp add: Milliseconds_def pos_imp_zdiv_nonneg_iff)

lemma Milliseconds_0 [simp]: "Milliseconds 0 = 0"
  by (simp add: Milliseconds_def)

section \<open>Strings\<close>

text \<open>\<^verbatim>\<open>strings.HasPrefix\<close>, \<^verbatim>\<open>strings.Contains\<close>, \<^verbatim>\<open>strings.TrimSpace\<close>, \<^verbatim>\<open>strings.Fields\<close>.\<close>

definition HasPrefix :: "string \<Rightarrow> string \<Rightarrow> bool" where
  "HasPrefix s p \<longleftrightarrow> take (length p) s = p"

fun Contains :: "string \<Rightarrow> string \<Rightarrow> bool" where
  "Contains [] sub = (sub = [])"
| "Contains (c # s) sub = (HasPrefix (c # s) sub \<or> Contains s sub)"

definition IsSpace :: "char \<Rightarrow> bool" where
  "IsSpace c \<longleftrightarrow> c \<in> {CHR '' '', CHR 0x09, CHR 0x0A, CHR 0x0B, CHR 0x0C, CHR 0x0D}"

definition TrimSpace :: "string \<Rightarrow> string" where
  "TrimSpace s = rev (dropWhile IsSpace (rev (dropWhile IsSpace s)))"

fun Fields_acc :: "string \<Rightarrow> string \<Rightarrow> string list" where
  "Fields_acc [] w = (if w = [] then [] else [w])"
| "Fields_acc (c # s) w =
     (if IsSpace c then (if w = [] then Fields_acc s [] else w # Fields_acc s [])
      else Fields_acc s (w @ [c]))"

definition Fields :: "string \<Rightarrow> string list" where
  "Fields s = Fields_acc s []"

lemma HasPrefix_append [simp]: "HasPrefix (p @ s) p"
  by (simp add: HasPrefix_def)

lemma HasPrefix_iff: "HasPrefix s p \<longleftrightarrow> (\<exists>r. s = p @ r)"
  by (metis HasPrefix_def append_eq_conv_conj append_take_drop_id)

lemma Contains_iff: "Contains s sub \<longleftrightarrow> (\<exists>a b. s = a @ sub @ b)"
proof (induction s sub rule: Contains.induct)
  case (1 sub)
  then show ?case by auto
next
  case (2 c s sub)
  show ?case
  proof
    assume "Contains (c # s) sub"
    then consider r where "c # s = sub @ r" | a b where "s = a @ sub @ b"
      using "2.IH" by (auto simp: HasPrefix_iff)
    then show "\<exists>a b. c # s = a @ sub @ b"
    proof cases
      case 1
      then show ?thesis by (intro exI [of _ "[]"] exI [of _ r]) simp
    next
      case 2
      then show ?thesis by (intro exI [of _ "c # a"] exI [of _ b]) simp
    qed
  next
    assume "\<exists>a b. c # s = a @ sub @ b"
    then obtain a b where ab: "c # s = a @ sub @ b" by blast
    show "Contains (c # s) sub"
    proof (cases a)
      case Nil
      with ab have "HasPrefix (c # s) sub" unfolding HasPrefix_iff by auto
      then show ?thesis by simp
    next
      case (Cons d a')
      with ab have "s = a' @ sub @ b" by simp
      with "2.IH" show ?thesis by auto
    qed
  qed
qed

lemma length_dropWhile_rev_le: "length (TrimSpace s) \<le> length s"
  using length_dropWhile_le [of IsSpace s]
    length_dropWhile_le [of IsSpace "rev (dropWhile IsSpace s)"]
  by (simp add: TrimSpace_def)

text \<open>Decimal rendering, for the verbs \<^verbatim>\<open>%d\<close>.\<close>

fun digits_of :: "nat \<Rightarrow> string" where
  "digits_of n = (if n < 10 then [char_of (48 + n)] else digits_of (n div 10) @ [char_of (48 + n mod 10)])"

declare digits_of.simps [simp del]

definition Itoa :: "int \<Rightarrow> string" where
  "Itoa i = (if i < 0 then ''-'' @ digits_of (nat (- i)) else digits_of (nat i))"

text \<open>\<^verbatim>\<open>strings.Split\<close> at a character, \<^verbatim>\<open>strings.Join\<close>, and the lists of trimmed, non-empty parts
  that settings are made of. Letter case is that of ASCII.\<close>

fun split_on :: "char \<Rightarrow> string \<Rightarrow> string list" where
  "split_on c [] = [[]]"
| "split_on c (x # s) =
     (if x = c then [] # split_on c s
      else (x # hd (split_on c s)) # tl (split_on c s))"

fun join_with :: "string \<Rightarrow> string list \<Rightarrow> string" where
  "join_with sep [] = []"
| "join_with sep [w] = w"
| "join_with sep (w # v # ws) = w @ sep @ join_with sep (v # ws)"

definition trimmed_parts :: "char \<Rightarrow> string \<Rightarrow> string list" where
  "trimmed_parts c s = filter (\<lambda>w. w \<noteq> '''') (map TrimSpace (split_on c s))"

definition comma_list :: "string \<Rightarrow> string list" where
  "comma_list s = trimmed_parts (CHR '','') s"

definition ToLower :: "string \<Rightarrow> string" where
  "ToLower = map (\<lambda>c. if 65 \<le> (of_char c :: nat) \<and> (of_char c :: nat) \<le> 90 then char_of ((of_char c :: nat) + 32) else c)"

definition ToUpper :: "string \<Rightarrow> string" where
  "ToUpper = map (\<lambda>c. if 97 \<le> (of_char c :: nat) \<and> (of_char c :: nat) \<le> 122 then char_of ((of_char c :: nat) - 32) else c)"

lemma split_on_ne [simp]: "split_on c s \<noteq> []"
  by (cases s) auto

lemma split_on_append: "split_on c (s @ c # t) = split_on c s @ split_on c t"
  by (induction s) simp_all

lemma split_on_no [simp]: "c \<notin> set s \<Longrightarrow> split_on c s = [s]"
  by (induction s) auto

lemma split_on_notin: "w \<in> set (split_on c s) \<Longrightarrow> c \<notin> set w"
proof (induction s arbitrary: w)
  case (Cons x s)
  then show ?case
    by (cases "split_on c s") (auto split: if_splits)
qed simp

lemma join_with_Cons: "join_with sep ((x # w) # ws) = x # join_with sep (w # ws)"
  by (cases ws) simp_all

lemma join_split_on: "join_with [c] (split_on c s) = s"
proof (induction s)
  case (Cons x s)
  then show ?case by (cases "split_on c s") (auto simp: neq_Nil_conv join_with_Cons)
qed simp

lemma comma_list_append: "comma_list (s @ '','' @ t) = comma_list s @ comma_list t"
  by (simp add: comma_list_def trimmed_parts_def split_on_append)

section \<open>Loops that stop at an element\<close>

text \<open>The elements a loop visits that breaks after the first one satisfying \<open>stop\<close>.\<close>

definition upto_first :: "('a \<Rightarrow> bool) \<Rightarrow> 'a list \<Rightarrow> 'a list" where
  "upto_first stop xs = takeWhile (\<lambda>x. \<not> stop x) xs @
     (case find stop xs of None \<Rightarrow> [] | Some x \<Rightarrow> [x])"

lemma upto_first_Nil [simp]: "upto_first stop [] = []"
  by (simp add: upto_first_def)

lemma upto_first_Cons:
  "upto_first stop (x # xs) = (if stop x then [x] else x # upto_first stop xs)"
  by (simp add: upto_first_def)

lemma set_upto_first: "set (upto_first stop xs) \<subseteq> set xs"
  by (induction xs) (auto simp: upto_first_Cons)

section \<open>Errors\<close>

text \<open>
  An \<^verbatim>\<open>error\<close> value: an \<^verbatim>\<open>*AIProviderError\<close> carries a category beside its text, any other
  error only its text (what \<^verbatim>\<open>Error()\<close> returns).
\<close>

datatype go_error = AIProviderError string string | PlainError string

fun error_text :: "go_error \<Rightarrow> string" where
  "error_text (AIProviderError c m) = m"
| "error_text (PlainError m) = m"

section \<open>Dynamic values\<close>

text \<open>
  \<^verbatim>\<open>any\<close> / \<^verbatim>\<open>interface{}\<close> values as JSON decoding and the CEL variables produce them; a finite \<^verbatim>\<open>float64\<close>
  is the rational number it stands for.
\<close>

datatype dyn =
    DNil
  | DBool bool
  | DInt int
  | DFloat rat
  | DString string
  | DList "dyn list"
  | DMap "(string \<times> dyn) list"

text \<open>Go's conversion of a \<^verbatim>\<open>float64\<close> to \<^verbatim>\<open>int\<close> drops the fraction.\<close>

definition int_of_float :: "rat \<Rightarrow> int" where
  "int_of_float f = (if f < 0 then - floor (- f) else floor f)"

section \<open>Delivery of goroutine results\<close>

text \<open>
  The AI engines start one goroutine per policy; each sends exactly one result on a
  channel buffered for all of them, and the collecting loop selects between the channel and
  a 100 ms timer. A schedule is a list of choices: \<open>None\<close> lets the timer fire, \<open>Some j\<close>
  lets the \<open>j\<close>-th pending goroutine send. When the schedule is used up the pending
  goroutines send in their order, so that every schedule is a complete run and every
  interleaving of sends and timeouts is the run of some schedule.
\<close>

datatype 'r event = Tick | Recv 'r

fun deliver :: "nat option list \<Rightarrow> 'r list \<Rightarrow> 'r event list" where
  "deliver [] rs = map Recv rs"
| "deliver (None # sch) rs = Tick # deliver sch rs"
| "deliver (Some j # sch) rs =
     (if j < length rs then Recv (rs ! j) # deliver sch (take j rs @ drop (Suc j) rs)
      else deliver sch rs)"

fun received :: "'r event list \<Rightarrow> 'r list" where
  "received [] = []"
| "received (Tick # es) = received es"
| "received (Recv r # es) = r # received es"

lemma received_map_Recv [simp]: "received (map Recv rs) = rs"
  by (induction rs) auto

lemma mset_received_deliver [simp]: "mset (received (deliver sch rs)) = mset rs"
proof (induction sch rs rule: deliver.induct)
  case (3 j sch rs)
  show ?case
  proof (cases "j < length rs")
    case True
    with 3 have "mset (received (deliver (Some j # sch) rs)) =
        add_mset (rs ! j) (mset (take j rs @ drop (Suc j) rs))" by simp
    also have "\<dots> = mset (take j rs @ rs ! j # drop (Suc j) rs)" by simp
    also have "\<dots> = mset rs" using True by (simp flip: id_take_nth_drop)
    finally show ?thesis .
  next
    case False
    with 3 show ?thesis by simp
  qed
qed simp_all

lemma set_received_deliver [simp]: "set (received (deliver sch rs)) = set rs"
  by (metis mset_received_deliver set_mset_mset)

lemma length_received_deliver [simp]: "length (received (deliver sch rs)) = length rs"
  by (metis mset_received_deliver size_mset)

text \<open>Every order of arrival has a schedule.\<close>

lemma deliver_covers:
  assumes "mset xs = mset rs"
  shows "\<exists>sch. received (deliver sch rs) = xs \<and> deliver sch rs = map Recv xs"
  using assms
proof (induction xs arbitrary: rs)
  case Nil
  then have "rs = []" by simp
  then show ?case by (intro exI [of _ "[]"]) simp
next
  case (Cons x xs)
  then have "x \<in> set rs" by (metis list.set_intros(1) set_mset_mset)
  then obtain j where j: "j < length rs" "rs ! j = x" by (auto simp: in_set_conv_nth)
  have "mset rs = mset (take j rs @ rs ! j # drop (Suc j) rs)"
    using j(1) by (simp flip: id_take_nth_drop)
  with j(2) Cons.prems have "mset xs = mset (take j rs @ drop (Suc j) rs)" by simp
  from Cons.IH [OF this] obtain sch where
    "deliver sch (take j rs @ drop (Suc j) rs) = map Recv xs" by blast
  with j have "deliver (Some j # sch) rs = map Recv (x # xs)" by simp
  then show ?case by (intro exI [of _ "Some j # sch"]) (simp del: deliver.simps)
qed

end
