(* ===== verification/Budget.thy ===== *)
theory Budget
  imports Prelude
begin

text \<open>
  \<^verbatim>\<open>internal/gateway/blocking_budget.go\<close>: the cumulative blocking budget of one request and the
  per-phase trackers that charge it. A \<^verbatim>\<open>*BlockingBudget\<close> that is shared by several phases is
  passed from one to the next; a tracker is paired with the budget it points to. A nil budget
  is \<open>None\<close>. Each method that reads the clock takes the reading as its first argument. Each
  method holds the mutex from start to end, so it is one step.
\<close>

record BlockingBudget =
  maxBlockingMs :: int
  bb_startTime :: int
  totalBlockedMs :: int
  exhausted :: bool

definition NewBlockingBudget :: "int \<Rightarrow> int \<Rightarrow> BlockingBudget" where
  "NewBlockingBudget now maxMs =
     \<lparr> maxBlockingMs = maxMs, bb_startTime = now, totalBlockedMs = 0, exhausted = False \<rparr>"

definition RemainingMs :: "BlockingBudget \<Rightarrow> int" where
  "RemainingMs b =
     (if exhausted b then 0
      else let remaining = maxBlockingMs b - totalBlockedMs b
           in if remaining < 0 then 0 else remaining)"

definition IsExhausted :: "BlockingBudget \<Rightarrow> bool" where
  "IsExhausted b = exhausted b"

definition ConsumeBlocking :: "int \<Rightarrow> BlockingBudget \<Rightarrow> int \<times> BlockingBudget" where
  "ConsumeBlocking ms b =
     (if exhausted b then (0, b)
      else let remaining = maxBlockingMs b - totalBlockedMs b in
        if remaining \<le> 0 then (0, b\<lparr> exhausted := True \<rparr>)
        else let consumed = (if ms > remaining then remaining else ms);
                 b1 = (if ms > remaining then b\<lparr> exhausted := True \<rparr> else b)
             in (consumed, b1\<lparr> totalBlockedMs := totalBlockedMs b1 + consumed \<rparr>))"

definition BlockingDeadline :: "int \<Rightarrow> BlockingBudget \<Rightarrow> int" where
  "BlockingDeadline now b =
     (let remaining = maxBlockingMs b - totalBlockedMs b in
      if remaining \<le> 0 \<or> exhausted b then now else now + remaining * 1000000)"

section \<open>Phase trackers\<close>

record PhaseTracker =
  pt_startTime :: int
  pt_blockedMs :: int
  pt_evaluationMs :: int
  pt_decided :: bool

definition StartPhase :: "int \<Rightarrow> PhaseTracker" where
  "StartPhase now =
     \<lparr> pt_startTime = now, pt_blockedMs = 0, pt_evaluationMs = 0, pt_decided = False \<rparr>"

definition MarkDecided :: "int \<Rightarrow> PhaseTracker \<times> BlockingBudget \<Rightarrow> PhaseTracker \<times> BlockingBudget" where
  "MarkDecided now pb =
     (case pb of (p, b) \<Rightarrow>
        if pt_decided p then (p, b)
        else case ConsumeBlocking (Milliseconds (now - pt_startTime p)) b of
               (blocked, b') \<Rightarrow> (p\<lparr> pt_decided := True, pt_blockedMs := blocked \<rparr>, b'))"

definition Finalize :: "int \<Rightarrow> PhaseTracker \<times> BlockingBudget \<Rightarrow> (int \<times> int) \<times> PhaseTracker \<times> BlockingBudget" where
  "Finalize now pb =
     (case pb of (p, b) \<Rightarrow>
        let evalMs = Milliseconds (now - pt_startTime p);
            p1 = p\<lparr> pt_evaluationMs := evalMs \<rparr>
        in if \<not> pt_decided p1
           then case ConsumeBlocking evalMs b of
                  (blocked, b') \<Rightarrow> ((blocked, evalMs), p1\<lparr> pt_blockedMs := blocked \<rparr>, b')
           else ((pt_blockedMs p1, evalMs), p1, b))"

definition ShouldBlock :: "PhaseTracker \<times> BlockingBudget \<Rightarrow> bool" where
  "ShouldBlock pb = (case pb of (p, b) \<Rightarrow> \<not> pt_decided p \<and> \<not> IsExhausted b)"

definition RemainingBlockingMs :: "PhaseTracker \<times> BlockingBudget \<Rightarrow> int" where
  "RemainingBlockingMs pb = (case pb of (p, b) \<Rightarrow> if pt_decided p then 0 else RemainingMs b)"

text \<open>The phase of an evaluation whose budget may be nil.\<close>

type_synonym phase = "(PhaseTracker \<times> BlockingBudget) option"

definition phase_start :: "int \<Rightarrow> BlockingBudget option \<Rightarrow> phase" where
  "phase_start now budget = map_option (\<lambda>b. (StartPhase now, b)) budget"

definition phase_mark :: "int \<Rightarrow> phase \<Rightarrow> phase" where
  "phase_mark now ph = map_option (MarkDecided now) ph"

definition phase_budget :: "phase \<Rightarrow> BlockingBudget option" where
  "phase_budget ph = map_option snd ph"

text \<open>
  The end of a phase: \<^verbatim>\<open>if phaseTracker != nil { blockedMs, evaluationMs = phaseTracker.Finalize() }
  else { evaluationMs = time.Since(phaseStart).Milliseconds() }\<close>.
\<close>

definition phase_finalize :: "int \<Rightarrow> int \<Rightarrow> phase \<Rightarrow> (int \<times> int) \<times> phase" where
  "phase_finalize now phaseStart ph =
     (case ph of
        None \<Rightarrow> ((0, Milliseconds (now - phaseStart)), None)
      | Some pb \<Rightarrow> (case Finalize now pb of (t, pb') \<Rightarrow> (t, Some pb')))"

section \<open>The budget is never overdrawn\<close>

text \<open>
  \<open>budget_ok\<close>: what has been charged is within the maximum (0 for a non-positive maximum).
  \<open>budget_step b b'\<close>: \<open>b'\<close> is a later state of the budget \<open>b\<close>: same maximum, still within it,
  and exhaustion is never undone.
\<close>

definition budget_ok :: "BlockingBudget \<Rightarrow> bool" where
  "budget_ok b \<longleftrightarrow> totalBlockedMs b \<le> max 0 (maxBlockingMs b)"

definition budget_step :: "BlockingBudget \<Rightarrow> BlockingBudget \<Rightarrow> bool" where
  "budget_step b b' \<longleftrightarrow> maxBlockingMs b' = maxBlockingMs b \<and> bb_startTime b' = bb_startTime b \<and>
     (budget_ok b \<longrightarrow> budget_ok b') \<and>
     (exhausted b \<longrightarrow> b' = b)"

definition budget_step_opt :: "BlockingBudget option \<Rightarrow> BlockingBudget option \<Rightarrow> bool" where
  "budget_step_opt = rel_option budget_step"

lemma budget_ok_new [budget_simps, simp]: "budget_ok (NewBlockingBudget now m)"
  by (simp add: budget_ok_def NewBlockingBudget_def)

lemma budget_step_refl [budget_simps, simp]: "budget_step b b"
  by (simp add: budget_step_def)

lemma budget_step_trans [trans]: "budget_step a b \<Longrightarrow> budget_step b c \<Longrightarrow> budget_step a c"
  by (auto simp: budget_step_def)

lemma budget_step_opt_refl [budget_simps, simp]: "budget_step_opt b b"
  by (cases b) (auto simp: budget_step_opt_def)

lemma budget_step_opt_trans [trans]:
  "budget_step_opt a b \<Longrightarrow> budget_step_opt b c \<Longrightarrow> budget_step_opt a c"
  by (cases a; cases b; cases c) (auto simp: budget_step_opt_def intro: budget_step_trans)

lemma budget_step_opt_Some [simp]:
  "budget_step_opt (Some b) ob \<longleftrightarrow> (\<exists>b'. ob = Some b' \<and> budget_step b b')"
  by (cases ob) (auto simp: budget_step_opt_def)

lemma budget_step_opt_None [simp]: "budget_step_opt None ob \<longleftrightarrow> ob = None"
  by (cases ob) (auto simp: budget_step_opt_def)

lemma ConsumeBlocking_step: "budget_step b (snd (ConsumeBlocking ms b))"
  by (auto simp: ConsumeBlocking_def budget_step_def budget_ok_def Let_def)

lemma ConsumeBlocking_le: "0 \<le> ms \<Longrightarrow> fst (ConsumeBlocking ms b) \<le> ms \<and> 0 \<le> fst (ConsumeBlocking ms b)"
  by (auto simp: ConsumeBlocking_def Let_def)

lemma ConsumeBlocking_charges:
  "totalBlockedMs (snd (ConsumeBlocking ms b)) = totalBlockedMs b + fst (ConsumeBlocking ms b)"
  by (auto simp: ConsumeBlocking_def Let_def)

lemma MarkDecided_step: "budget_step (snd pb) (snd (MarkDecided now pb))"
  using ConsumeBlocking_step [of "snd pb" "Milliseconds (now - pt_startTime (fst pb))"]
  by (auto simp: MarkDecided_def split: prod.splits)

lemma MarkDecided_decided [simp]: "pt_decided (fst (MarkDecided now pb))"
  by (auto simp: MarkDecided_def split: prod.splits)

lemma MarkDecided_again [simp]: "MarkDecided t' (MarkDecided t pb) = MarkDecided t pb"
  by (auto simp: MarkDecided_def split: prod.splits)

lemma Finalize_step: "budget_step (snd pb) (snd (snd (Finalize now pb)))"
  using ConsumeBlocking_step [of "snd pb" "Milliseconds (now - pt_startTime (fst pb))"]
  by (auto simp: Finalize_def Let_def split: prod.splits)

text \<open>Once decided, finalising a phase reports the recorded blocking time and charges nothing.\<close>

lemma Finalize_decided:
  "pt_decided (fst pb) \<Longrightarrow> snd (snd (Finalize now pb)) = snd pb \<and>
     fst (fst (Finalize now pb)) = pt_blockedMs (fst pb)"
  by (auto simp: Finalize_def Let_def split: prod.splits)

lemma phase_budget_start [budget_simps, simp]: "phase_budget (phase_start now b) = b"
  by (cases b) (auto simp: phase_budget_def phase_start_def)

lemma phase_mark_step [budget_simps, simp]:
  "budget_step_opt (phase_budget ph) (phase_budget (phase_mark now ph))"
  by (cases ph) (auto simp: phase_budget_def phase_mark_def MarkDecided_step)

lemma phase_finalize_step [budget_simps, simp]:
  "budget_step_opt (phase_budget ph) (phase_budget (snd (phase_finalize now start ph)))"
  using Finalize_step [of "the ph" now]
  by (cases ph) (auto simp: phase_budget_def phase_finalize_def split: prod.splits)

lemma phase_finalize_budget:
  "phase_finalize now start ph = (t, ph') \<Longrightarrow> budget_step_opt (phase_budget ph) (phase_budget ph')"
  using phase_finalize_step [of ph now start] by (simp del: phase_finalize_step)

lemma phase_none [simp]: "phase_start now None = None" "phase_mark now None = None"
  by (auto simp: phase_start_def phase_mark_def)

section \<open>A sequence of phases\<close>

text \<open>
  What the validation phases of one request do to the shared budget: any interleaving of
  charges and reads. Only charges change it.
\<close>

datatype budget_op = OpConsume int | OpRead

fun budget_run :: "BlockingBudget \<Rightarrow> budget_op list \<Rightarrow> int list \<times> BlockingBudget" where
  "budget_run b [] = ([], b)"
| "budget_run b (OpRead # os) = budget_run b os"
| "budget_run b (OpConsume ms # os) =
     (case ConsumeBlocking ms b of (c, b1) \<Rightarrow>
      case budget_run b1 os of (cs, b2) \<Rightarrow> (c # cs, b2))"

lemma budget_run_step: "budget_step b (snd (budget_run b os))"
proof (induction b os rule: budget_run.induct)
  case (3 b ms os)
  obtain c b1 where c: "ConsumeBlocking ms b = (c, b1)" by force
  with ConsumeBlocking_step [of b ms] have "budget_step b b1" by simp
  moreover have "budget_step b1 (snd (budget_run b1 os))" using 3 c by simp
  ultimately show ?case using c by (auto split: prod.splits intro: budget_step_trans)
qed auto

lemma budget_run_total:
  "totalBlockedMs (snd (budget_run b os)) = totalBlockedMs b + sum_list (fst (budget_run b os))"
proof (induction b os rule: budget_run.induct)
  case (3 b ms os)
  obtain c b1 where c: "ConsumeBlocking ms b = (c, b1)" by force
  with ConsumeBlocking_charges [of ms b] have "totalBlockedMs b1 = totalBlockedMs b + c" by simp
  with 3 c show ?case by (auto split: prod.splits)
qed auto

text \<open>
  C27. However many phases charge a fresh budget, and whatever they ask for, the amounts they are
  granted add up to at most the configured maximum, and that sum is what the budget reports.
\<close>

theorem budget_never_overdrawn:
  "sum_list (fst (budget_run (NewBlockingBudget now m) os)) \<le> max 0 m \<and>
   totalBlockedMs (snd (budget_run (NewBlockingBudget now m) os)) =
     sum_list (fst (budget_run (NewBlockingBudget now m) os))"
proof -
  let ?b = "NewBlockingBudget now m"
  have "budget_step ?b (snd (budget_run ?b os))" by (rule budget_run_step)
  then have "budget_ok (snd (budget_run ?b os))" "maxBlockingMs (snd (budget_run ?b os)) = m"
    by (auto simp: budget_step_def) (auto simp: NewBlockingBudget_def)
  moreover have "totalBlockedMs ?b = 0" by (simp add: NewBlockingBudget_def)
  ultimately show ?thesis using budget_run_total [of ?b os] by (auto simp: budget_ok_def)
qed

end
