(* ===== verification/Policies.thy ===== *)
theory Policies
  imports Prelude
begin

text \<open>
  The policy vocabulary of \<^verbatim>\<open>internal/config/config.go\<close>: actions and modes (string types with
  named constants, as in the source), the rule records of the four rule files, and the
  resolution of an effective mode.
\<close>

type_synonym PolicyAction = string
type_synonym PolicyMode = string

abbreviation PolicyActionAllow :: PolicyAction where "PolicyActionAllow \<equiv> ''allow''"
abbreviation PolicyActionDeny :: PolicyAction where "PolicyActionDeny \<equiv> ''deny''"
abbreviation PolicyActionRedact :: PolicyAction where "PolicyActionRedact \<equiv> ''redact''"
abbreviation PolicyModeAuditOnly :: PolicyMode where "PolicyModeAuditOnly \<equiv> ''audit_only''"
abbreviation PolicyModeEnforce :: PolicyMode where "PolicyModeEnforce \<equiv> ''enforce''"

definition PolicyMode_IsValid :: "PolicyMode \<Rightarrow> bool" where
  "PolicyMode_IsValid m \<longleftrightarrow> m = PolicyModeAuditOnly \<or> m = PolicyModeEnforce"

definition PolicyMode_Normalize :: "PolicyMode \<Rightarrow> PolicyMode \<Rightarrow> PolicyMode" where
  "PolicyMode_Normalize m defaultMode = (if m = '''' then defaultMode else m)"

definition IsAuditOnly :: "PolicyMode \<Rightarrow> bool" where
  "IsAuditOnly m \<longleftrightarrow> m = PolicyModeAuditOnly"

definition ResolvePolicyMode :: "PolicyMode \<Rightarrow> PolicyMode \<Rightarrow> PolicyMode" where
  "ResolvePolicyMode topLevelMode ruleMode =
     (if topLevelMode = PolicyModeAuditOnly then PolicyModeAuditOnly
      else if ruleMode = PolicyModeAuditOnly then PolicyModeAuditOnly
      else PolicyModeEnforce)"

lemma ResolvePolicyMode_valid [simp]: "PolicyMode_IsValid (ResolvePolicyMode t r)"
  by (simp add: ResolvePolicyMode_def PolicyMode_IsValid_def)

lemma ResolvePolicyMode_audit [simp]:
  "IsAuditOnly (ResolvePolicyMode t r) \<longleftrightarrow> IsAuditOnly t \<or> IsAuditOnly r"
  by (simp add: ResolvePolicyMode_def IsAuditOnly_def)

section \<open>Rule records\<close>

record Policy =
  p_Name :: string
  p_Description :: string
  p_Expression :: string
  p_MCPExpression :: string
  p_CLIExpression :: string
  p_Action :: PolicyAction
  p_Message :: string
  p_Enabled :: "bool option"
  p_Mode :: PolicyMode

definition Policy_IsEnabled :: "Policy \<Rightarrow> bool" where
  "Policy_IsEnabled p = (case p_Enabled p of None \<Rightarrow> True | Some b \<Rightarrow> b)"

record ConfigAIPolicy =
  cap_Name :: string
  cap_Description :: string
  cap_Prompt :: string
  cap_Action :: PolicyAction
  cap_Message :: string
  cap_Enabled :: "bool option"
  cap_Mode :: PolicyMode

definition AIPolicy_IsEnabled :: "ConfigAIPolicy \<Rightarrow> bool" where
  "AIPolicy_IsEnabled p = (case cap_Enabled p of None \<Rightarrow> True | Some b \<Rightarrow> b)"

record ResponsePolicy =
  rp_Name :: string
  rp_Description :: string
  rp_Expression :: string
  rp_Action :: PolicyAction
  rp_Message :: string
  rp_RedactionPattern :: string
  rp_RedactionReplacement :: string
  rp_Enabled :: "bool option"
  rp_Mode :: PolicyMode

definition ResponsePolicy_IsEnabled :: "ResponsePolicy \<Rightarrow> bool" where
  "ResponsePolicy_IsEnabled p = (case rp_Enabled p of None \<Rightarrow> True | Some b \<Rightarrow> b)"

record ConfigAIResponsePolicy =
  carp_Name :: string
  carp_Description :: string
  carp_Prompt :: string
  carp_Action :: PolicyAction
  carp_Message :: string
  carp_Enabled :: "bool option"
  carp_Mode :: PolicyMode

definition AIResponsePolicy_IsEnabled :: "ConfigAIResponsePolicy \<Rightarrow> bool" where
  "AIResponsePolicy_IsEnabled p = (case carp_Enabled p of None \<Rightarrow> True | Some b \<Rightarrow> b)"

section \<open>Normalisation of unset modes\<close>

text \<open>The four phases of the configuration, each a top-level mode and its rules.\<close>

record PhaseModes =
  pm_ReqCELMode :: PolicyMode
  pm_ReqCELRules :: "Policy list"
  pm_ReqAIMode :: PolicyMode
  pm_ReqAIRules :: "ConfigAIPolicy list"
  pm_RespCELMode :: PolicyMode
  pm_RespCELRules :: "ResponsePolicy list"
  pm_RespAIMode :: PolicyMode
  pm_RespAIRules :: "ConfigAIResponsePolicy list"

definition normalizePolicyModes :: "PhaseModes \<Rightarrow> PhaseModes" where
  "normalizePolicyModes cfg = cfg
     \<lparr> pm_ReqCELMode := PolicyMode_Normalize (pm_ReqCELMode cfg) PolicyModeAuditOnly,
       pm_ReqAIMode := PolicyMode_Normalize (pm_ReqAIMode cfg) PolicyModeAuditOnly,
       pm_RespCELMode := PolicyMode_Normalize (pm_RespCELMode cfg) PolicyModeAuditOnly,
       pm_RespAIMode := PolicyMode_Normalize (pm_RespAIMode cfg) PolicyModeAuditOnly,
       pm_ReqCELRules := map (\<lambda>p. p\<lparr> p_Mode := PolicyMode_Normalize (p_Mode p) PolicyModeEnforce \<rparr>) (pm_ReqCELRules cfg),
       pm_ReqAIRules := map (\<lambda>p. p\<lparr> cap_Mode := PolicyMode_Normalize (cap_Mode p) PolicyModeEnforce \<rparr>) (pm_ReqAIRules cfg),
       pm_RespCELRules := map (\<lambda>p. p\<lparr> rp_Mode := PolicyMode_Normalize (rp_Mode p) PolicyModeEnforce \<rparr>) (pm_RespCELRules cfg),
       pm_RespAIRules := map (\<lambda>p. p\<lparr> carp_Mode := PolicyMode_Normalize (carp_Mode p) PolicyModeEnforce \<rparr>) (pm_RespAIRules cfg) \<rparr>"

lemma PolicyMode_Normalize_idem [simp]:
  "d \<noteq> '''' \<Longrightarrow> PolicyMode_Normalize (PolicyMode_Normalize m d) d = PolicyMode_Normalize m d"
  by (simp add: PolicyMode_Normalize_def)

lemma normalizePolicyModes_idem:
  "normalizePolicyModes (normalizePolicyModes cfg) = normalizePolicyModes cfg"
  by (simp add: normalizePolicyModes_def)

end
