(* ===== verification/Results.thy ===== *)
theory Results
  imports Policies
begin

text \<open>
  The result and audit records every component exchanges (\<^verbatim>\<open>tool_validation.go\<close>,
  \<^verbatim>\<open>response_validation.go\<close>, \<^verbatim>\<open>audit_entry.go\<close>), the small functions over them, and the
  fields of the MCP library's requests and results that the source reads. Pointers that may be
  nil are options; a receive-only completion channel is \<open>None\<close> when nil and otherwise the
  completion it will deliver.
\<close>

section \<open>Audit details of one phase\<close>

record AuditRulesRuleResult =
  arr_Rule :: string
  arr_Action :: string
  arr_Mode :: string
  arr_Result :: string
  arr_EvaluationMs :: int
  arr_Error :: string

record AuditRulesResult =
  ar_Action :: string
  ar_BlockedMs :: int
  ar_EvaluationMs :: int
  ar_DecidingRule :: string
  ar_Reason :: string
  ar_Results :: "AuditRulesRuleResult list"

record AuditAIRuleResult =
  aair_Rule :: string
  aair_Action :: string
  aair_Mode :: string
  aair_Result :: string
  aair_EvaluationMs :: int
  aair_Error :: string

record AuditAIResult =
  aai_Action :: string
  aai_BlockedMs :: int
  aai_EvaluationMs :: int
  aai_DecidingRule :: string
  aai_Reason :: string
  aai_RequestID :: string
  aai_Results :: "AuditAIRuleResult list"

record AsyncCompletion =
  ac_AIDetails :: "AuditAIResult option"
  ac_EvaluationMs :: int

definition modeToAuditString :: "PolicyMode \<Rightarrow> string" where
  "modeToAuditString mode = (if mode = PolicyModeAuditOnly then ''audit_only'' else '''')"

definition classifyProviderError :: "go_error \<Rightarrow> string" where
  "classifyProviderError err =
     (case err of AIProviderError category msg \<Rightarrow> category | PlainError msg \<Rightarrow> ''api_error'')"

definition formatAuditError :: "string \<Rightarrow> go_error option \<Rightarrow> string" where
  "formatAuditError category err =
     (case err of
        None \<Rightarrow> category
      | Some e \<Rightarrow>
          if category = ''timeout''
          then ''timeout: rule evaluation exceeded max_rule_evaluation_ms limit''
          else if category = ''canceled'' then ''canceled: rule evaluation was canceled''
          else let msg = error_text e;
                   msg' = (if length msg > 100 then take 100 msg @ ''...'' else msg)
               in category @ '': '' @ msg')"

text \<open>The audit text of an error is bounded: at most 103 bytes follow the category and ": ".\<close>

lemma formatAuditError_length:
  "length (formatAuditError category err) \<le> length category + 105"
  by (auto simp: formatAuditError_def Let_def split: option.splits)

section \<open>Request validation results\<close>

record ValidationResult =
  vr_PolicyName :: string
  vr_PolicyType :: string
  vr_Action :: PolicyAction
  vr_Mode :: PolicyMode
  vr_Message :: string
  vr_DurationMs :: int

record ValidationResults =
  Results :: "ValidationResult list"
  Allowed :: bool
  Message :: string
  AllowCount :: int
  DenyCount :: int
  RecommendedAction :: PolicyAction
  FailedOpen :: bool
  AuditModeBypass :: bool
  RulesDetails :: "AuditRulesResult option"
  AIDetails :: "AuditAIResult option"
  Async :: "AsyncCompletion option"

text \<open>The zero value of the struct.\<close>

definition no_results :: ValidationResults where
  "no_results = \<lparr> Results = [], Allowed = False, Message = '''', AllowCount = 0, DenyCount = 0,
     RecommendedAction = '''', FailedOpen = False, AuditModeBypass = False,
     RulesDetails = None, AIDetails = None, Async = None \<rparr>"

definition DenyingRuleNames :: "ValidationResults \<Rightarrow> string list" where
  "DenyingRuleNames v =
     map vr_PolicyName (filter (\<lambda>r. vr_Action r = PolicyActionDeny) (Results v))"

abbreviation ActionReasonRequestPolicy :: string where "ActionReasonRequestPolicy \<equiv> ''request_policy''"
abbreviation ActionReasonResponsePolicy :: string where "ActionReasonResponsePolicy \<equiv> ''response_policy''"
abbreviation ActionReasonAuditMode :: string where "ActionReasonAuditMode \<equiv> ''audit_mode''"
abbreviation ActionReasonFailOpen :: string where "ActionReasonFailOpen \<equiv> ''fail_open''"

definition DeriveAuditActionReason :: "bool \<Rightarrow> bool \<Rightarrow> bool \<Rightarrow> string \<Rightarrow> string" where
  "DeriveAuditActionReason allowed auditModeBypass failedOpen denyReason =
     (if \<not> allowed then denyReason
      else if auditModeBypass then ActionReasonAuditMode
      else if failedOpen then ActionReasonFailOpen
      else '''')"

section \<open>Response validation results\<close>

record ResponseValidationResult =
  rvr_PolicyName :: string
  rvr_PolicyType :: string
  rvr_Action :: PolicyAction
  rvr_Mode :: PolicyMode
  rvr_Message :: string
  rvr_Error :: string
  rvr_RedactedContent :: string
  rvr_DurationMs :: int

record ResponseValidationResults =
  rResults :: "ResponseValidationResult list"
  rAllowed :: bool
  rMessage :: string
  rRedactedContent :: "string option"
  rRecommendedAction :: PolicyAction
  rFailedOpen :: bool
  rAuditModeBypass :: bool
  rRulesDetails :: "AuditRulesResult option"
  rAIDetails :: "AuditAIResult option"
  rAsync :: "AsyncCompletion option"

definition no_response_results :: ResponseValidationResults where
  "no_response_results = \<lparr> rResults = [], rAllowed = False, rMessage = '''',
     rRedactedContent = None, rRecommendedAction = '''', rFailedOpen = False,
     rAuditModeBypass = False, rRulesDetails = None, rAIDetails = None, rAsync = None \<rparr>"

definition count_action :: "PolicyAction \<Rightarrow> ResponseValidationResult list \<Rightarrow> int" where
  "count_action a rs = int (length (filter (\<lambda>r. rvr_Action r = a) rs))"

definition resp_AllowCount :: "ResponseValidationResults \<Rightarrow> int" where
  "resp_AllowCount r = count_action PolicyActionAllow (rResults r)"

definition resp_DenyCount :: "ResponseValidationResults \<Rightarrow> int" where
  "resp_DenyCount r = count_action PolicyActionDeny (rResults r)"

definition resp_RedactCount :: "ResponseValidationResults \<Rightarrow> int" where
  "resp_RedactCount r = count_action PolicyActionRedact (rResults r)"

definition resp_DenyingRuleNames :: "ResponseValidationResults \<Rightarrow> string list" where
  "resp_DenyingRuleNames r =
     map rvr_PolicyName (filter (\<lambda>x. rvr_Action x = PolicyActionDeny) (rResults r))"

lemma count_action_nonneg [simp]: "0 \<le> count_action a rs"
  by (simp add: count_action_def)

lemma count_action_pos: "0 < count_action a rs \<longleftrightarrow> (\<exists>r \<in> set rs. rvr_Action r = a)"
  by (auto simp: count_action_def filter_empty_conv)

section \<open>MCP requests and results\<close>

text \<open>
  The MCP library's \<^verbatim>\<open>CallToolRequest\<close> and \<^verbatim>\<open>CallToolResult\<close>, with the fields the gateway
  reads. Arguments are a dynamic value; content items are text, images, embedded resources or
  something else the gateway passes over.
\<close>

record CallToolRequest =
  Method :: string
  ToolName :: string
  Arguments :: dyn
  Meta :: "dyn option"

datatype content =
    TextContent string
  | ImageContent string string
  | EmbeddedResource dyn
  | OtherContent string

record CallToolResult =
  IsError :: bool
  Content :: "content list"
  ResultMeta :: "(string \<times> dyn) list option"

text \<open>
  The loops that overwrite the first text item of a result with redacted text
  (\<^verbatim>\<open>ResponseValidationChain.Handle\<close> and \<^verbatim>\<open>Gateway.HandleToolCall\<close>).
\<close>

fun replace_first_text :: "string \<Rightarrow> content list \<Rightarrow> content list" where
  "replace_first_text s [] = []"
| "replace_first_text s (TextContent t # cs) = TextContent s # cs"
| "replace_first_text s (c # cs) = c # replace_first_text s cs"

fun first_text :: "content list \<Rightarrow> string option" where
  "first_text [] = None"
| "first_text (TextContent t # cs) = Some t"
| "first_text (c # cs) = first_text cs"

lemma length_replace_first_text [simp]: "length (replace_first_text s cs) = length cs"
  by (induction s cs rule: replace_first_text.induct) auto

lemma replace_first_text_Nil [simp]: "replace_first_text s cs = [] \<longleftrightarrow> cs = []"
  by (metis length_0_conv length_replace_first_text)

lemma first_text_replace [simp]:
  "first_text (replace_first_text s cs) = (if first_text cs = None then None else Some s)"
  by (induction s cs rule: replace_first_text.induct) auto

lemma replace_first_text_twice [simp]:
  "replace_first_text s (replace_first_text t cs) = replace_first_text s cs"
  by (induction t cs rule: replace_first_text.induct) auto

end
