(* ===== verification/EngineContract.thy ===== *)
theory EngineContract
  imports Budget Results
begin

text \<open>
  The contract between the request policy engines (\<^verbatim>\<open>CELPolicyEngine\<close>, \<^verbatim>\<open>AIPolicyEngine\<close>, each with
  \<^verbatim>\<open>EvaluateToolCall\<close> and \<^verbatim>\<open>EvaluateCLICommand\<close>) and what merges their results
  (\<^verbatim>\<open>PolicyEvaluator\<close>, \<^verbatim>\<open>ToolValidationChain\<close>, the HTTP handlers). An engine takes the shared budget
  and returns an error or results together with the budget afterwards.
\<close>

type_synonym engine =
  "BlockingBudget option \<Rightarrow> (go_error + ValidationResults) \<times> BlockingBudget option"

locale request_engine =
  fixes evaluate :: engine
  assumes budget_law: "budget_step_opt b (snd (evaluate b))"
    and count_law: "fst (evaluate b) = Inr r \<Longrightarrow> 0 \<le> AllowCount r \<and> 0 \<le> DenyCount r"
    and verdict_law: "fst (evaluate b) = Inr r \<Longrightarrow> Allowed r \<longleftrightarrow> DenyCount r = 0"
    and deny_law: "fst (evaluate b) = Inr r \<Longrightarrow> \<not> Allowed r \<Longrightarrow>
      RecommendedAction r = PolicyActionDeny"
    and bypass_law: "fst (evaluate b) = Inr r \<Longrightarrow> AuditModeBypass r \<Longrightarrow>
      Allowed r \<and> RecommendedAction r = PolicyActionDeny"
begin

lemma denied_iff: "fst (evaluate b) = Inr r \<Longrightarrow> \<not> Allowed r \<longleftrightarrow> 0 < DenyCount r"
  using count_law [of b r] verdict_law [of b r] by auto

lemma denied_no_bypass: "fst (evaluate b) = Inr r \<Longrightarrow> \<not> Allowed r \<Longrightarrow> \<not> AuditModeBypass r"
  using bypass_law by blast

lemma bypass_recommends_deny:
  "fst (evaluate b) = Inr r \<Longrightarrow> AuditModeBypass r \<Longrightarrow> DenyCount r = 0 \<and> RecommendedAction r = PolicyActionDeny"
  using bypass_law verdict_law by blast

end

section \<open>Response engines\<close>

text \<open>
  The contract of the two response engines (\<^verbatim>\<open>CELResponsePolicyEngine\<close>,
  \<^verbatim>\<open>AIResponsePolicyEngine\<close>) with \<^verbatim>\<open>ResponseValidationChain\<close>.
\<close>

type_synonym response_engine =
  "BlockingBudget option \<Rightarrow> (go_error + ResponseValidationResults) \<times> BlockingBudget option"

locale response_evaluator =
  fixes evaluate :: response_engine
  assumes rbudget_law: "budget_step_opt b (snd (evaluate b))"
    and rdeny_law: "fst (evaluate b) = Inr r \<Longrightarrow> \<not> rAllowed r \<Longrightarrow> rRecommendedAction r = PolicyActionDeny"
    and rredact_law: "fst (evaluate b) = Inr r \<Longrightarrow> rRecommendedAction r = PolicyActionRedact \<Longrightarrow>
      rAllowed r \<and> rRedactedContent r \<noteq> None"
    and rbypass_law: "fst (evaluate b) = Inr r \<Longrightarrow> rAuditModeBypass r \<Longrightarrow>
      rAllowed r \<and> rRedactedContent r = None"
begin

lemma redaction_allowed:
  "fst (evaluate b) = Inr r \<Longrightarrow> rRecommendedAction r = PolicyActionRedact \<Longrightarrow> rAllowed r"
  using rredact_law by blast

lemma denied_no_bypass:
  "fst (evaluate b) = Inr r \<Longrightarrow> \<not> rAllowed r \<Longrightarrow> \<not> rAuditModeBypass r"
  using rbypass_law by blast

end

end
