(* ===== verification/Loading.thy ===== *)
theory Loading
  imports Policies
begin

text \<open>
  Loading of rules into an engine. The four \<^verbatim>\<open>LoadPolicies\<close> methods (CEL and AI, request and
  response) have the same loop: a name seen before is an error, a disabled rule is skipped,
  otherwise the rule is checked and appended. What differs, the checks and the stored record,
  is the argument \<open>check\<close>: an error, \<open>Inr None\<close> for a skipped rule, or the record to append.
  Rules appended before an error stay in the engine, as in the source.
\<close>

datatype load_error =
    InvalidTopLevelMode PolicyMode
  | DuplicateName string
  | NoExpression string
  | MCPCompileError string go_error
  | CLICompileError string go_error
  | CompileError string go_error
  | InvalidAction PolicyAction string
  | PromptPlaceholder string

fun load_loop ::
  "('rule \<Rightarrow> string) \<Rightarrow> ('rule \<Rightarrow> load_error + 'loaded option) \<Rightarrow> string set \<Rightarrow> 'loaded list \<Rightarrow>
     'rule list \<Rightarrow> load_error option \<times> 'loaded list" where
  "load_loop name check seenNames loaded [] = (None, loaded)"
| "load_loop name check seenNames loaded (policy # policies) =
     (if name policy \<in> seenNames then (Some (DuplicateName (name policy)), loaded)
      else case check policy of
        Inl err \<Rightarrow> (Some err, loaded)
      | Inr None \<Rightarrow> load_loop name check (insert (name policy) seenNames) loaded policies
      | Inr (Some c) \<Rightarrow>
          load_loop name check (insert (name policy) seenNames) (loaded @ [c]) policies)"

text \<open>The body shared by the four methods: the mode of the phase must have been normalised.\<close>

definition load_rules ::
  "('rule \<Rightarrow> string) \<Rightarrow> ('rule \<Rightarrow> load_error + 'loaded option) \<Rightarrow> PolicyMode \<Rightarrow> 'loaded list \<Rightarrow>
     'rule list \<Rightarrow> load_error option \<times> 'loaded list" where
  "load_rules name check topLevelMode loaded policies =
     (if \<not> PolicyMode_IsValid topLevelMode then (Some (InvalidTopLevelMode topLevelMode), loaded)
      else load_loop name check {} loaded policies)"

lemma load_loop_append:
  "\<exists>new. snd (load_loop name check seen loaded rs) = loaded @ new \<and>
     (\<forall>c \<in> set new. \<exists>r \<in> set rs. check r = Inr (Some c))"
proof (induction rs arbitrary: seen loaded)
  case (Cons r rs)
  consider (stop) "\<exists>e. load_loop name check seen loaded (r # rs) = (Some e, loaded)"
    | (skip) "load_loop name check seen loaded (r # rs) =
        load_loop name check (insert (name r) seen) loaded rs"
    | (add) c where "check r = Inr (Some c)" "load_loop name check seen loaded (r # rs) =
        load_loop name check (insert (name r) seen) (loaded @ [c]) rs"
    by (cases "name r \<in> seen"; cases "check r"; cases "projr (check r)") auto
  then show ?case
  proof cases
    case stop
    then show ?thesis by (intro exI [of _ "[]"]) auto
  next
    case skip
    with Cons.IH show ?thesis by (metis list.set_intros(2))
  next
    case (add c)
    from Cons.IH [of "insert (name r) seen" "loaded @ [c]"] obtain new where
      "snd (load_loop name check (insert (name r) seen) (loaded @ [c]) rs) = loaded @ [c] @ new"
      "\<forall>c \<in> set new. \<exists>r \<in> set rs. check r = Inr (Some c)" by auto
    with add show ?thesis by (intro exI [of _ "c # new"]) auto
  qed
qed simp

lemma load_loop_success:
  "load_loop name check seen loaded rs = (None, out) \<Longrightarrow>
     distinct (map name rs) \<and> set (map name rs) \<inter> seen = {} \<and>
     (\<forall>r \<in> set rs. \<exists>o'. check r = Inr o') \<and>
     out = loaded @ List.map_filter (\<lambda>r. case check r of Inr (Some c) \<Rightarrow> Some c | _ \<Rightarrow> None) rs"
proof (induction rs arbitrary: seen loaded)
  case (Cons r rs)
  then have fresh: "name r \<notin> seen" by (auto split: if_splits)
  with Cons.prems obtain o' where o': "check r = Inr o'" by (auto split: sum.splits)
  let ?loaded = "loaded @ (case o' of None \<Rightarrow> [] | Some c \<Rightarrow> [c])"
  from Cons.prems fresh o' have "load_loop name check (insert (name r) seen) ?loaded rs = (None, out)"
    by (auto split: option.splits)
  from Cons.IH [OF this] fresh o' show ?case
    by (auto simp: List.map_filter_def split: option.splits)
qed (simp add: List.map_filter_def)

lemma load_rules_success:
  assumes "load_rules name check tm loaded rs = (None, out)"
  shows "PolicyMode_IsValid tm \<and> distinct (map name rs) \<and> (\<forall>r \<in> set rs. \<exists>o'. check r = Inr o') \<and>
     out = loaded @ List.map_filter (\<lambda>r. case check r of Inr (Some c) \<Rightarrow> Some c | _ \<Rightarrow> None) rs"
  using assms load_loop_success [of name check "{}" loaded rs out]
  by (auto simp: load_rules_def split: if_splits)

lemma load_rules_append:
  "\<exists>new. snd (load_rules name check tm loaded rs) = loaded @ new \<and>
     (\<forall>c \<in> set new. \<exists>r \<in> set rs. check r = Inr (Some c))"
  using load_loop_append [of name check "{}" loaded rs]
  by (cases "PolicyMode_IsValid tm") (auto simp: load_rules_def)

lemma load_loop_None_iff:
  "fst (load_loop name check seen loaded rs) = None \<longleftrightarrow>
     distinct (map name rs) \<and> set (map name rs) \<inter> seen = {} \<and> (\<forall>r \<in> set rs. \<exists>o'. check r = Inr o')"
  by (induction name check seen loaded rs rule: load_loop.induct)
    (auto split: sum.splits option.splits)

lemma load_rules_None_iff:
  "fst (load_rules name check tm loaded rs) = None \<longleftrightarrow>
     PolicyMode_IsValid tm \<and> distinct (map name rs) \<and> (\<forall>r \<in> set rs. \<exists>o'. check r = Inr o')"
  by (auto simp: load_rules_def load_loop_None_iff)

section \<open>The contract of a loader\<close>

text \<open>
  A loader takes the mode of the phase, the rules already loaded and the rules of a file;
  \<open>mode_of\<close> reads the effective mode of a loaded rule. The engines rely on loading only
  appending, and on an \<^verbatim>\<open>audit_only\<close> phase making every rule \<^verbatim>\<open>audit_only\<close>.
\<close>

locale rule_loader =
  fixes load :: "PolicyMode \<Rightarrow> 'loaded list \<Rightarrow> 'rule list \<Rightarrow> load_error option \<times> 'loaded list"
    and mode_of :: "'loaded \<Rightarrow> PolicyMode"
    and name_of :: "'rule \<Rightarrow> string"
  assumes append_law: "\<exists>new. snd (load tm loaded rs) = loaded @ new \<and>
      (\<forall>c \<in> set new. PolicyMode_IsValid (mode_of c) \<and> (IsAuditOnly tm \<longrightarrow> IsAuditOnly (mode_of c)))"
    and distinct_law: "fst (load tm loaded rs) = None \<Longrightarrow> distinct (map name_of rs)"
    and mode_law: "fst (load tm loaded rs) = None \<Longrightarrow> PolicyMode_IsValid tm"
begin

lemma audit_only_phase:
  assumes "IsAuditOnly tm" and "c \<in> set (snd (load tm [] rs))"
  shows "IsAuditOnly (mode_of c)"
  using append_law [of tm "[]" rs] assms by auto

lemma load_extends: "set loaded \<subseteq> set (snd (load tm loaded rs))"
  using append_law [of tm loaded rs] by auto

lemma loaded_modes_valid:
  assumes "c \<in> set (snd (load tm [] rs))"
  shows "PolicyMode_IsValid (mode_of c)"
  using append_law [of tm "[]" rs] assms by auto

end

text \<open>
  What is loaded, against a specification of one rule: \<open>wanted r\<close> says whether the rule is to be
  loaded at all and \<open>as r c\<close> what it is loaded as.
\<close>

lemma map_filter_list_all2:
  assumes "\<And>x. x \<in> set xs \<Longrightarrow> (\<exists>y. f x = Some y \<and> P x \<and> R x y) \<or> (f x = None \<and> \<not> P x)"
  shows "list_all2 R (filter P xs) (List.map_filter f xs)"
  using assms by (induction xs) (fastforce simp: List.map_filter_def)+

lemma load_rules_exact:
  assumes some: "\<And>r c. check r = Inr (Some c) \<Longrightarrow> wanted r \<and> loaded_as r c"
    and none: "\<And>r. check r = Inr None \<Longrightarrow> \<not> wanted r"
    and loadable: "\<And>r. (\<exists>o'. check r = Inr o') \<longleftrightarrow> loadable r"
  shows "if PolicyMode_IsValid tm \<and> distinct (map name rs) \<and> list_all loadable rs
     then \<exists>new. load_rules name check tm loaded rs = (None, loaded @ new) \<and>
       list_all2 loaded_as (filter wanted rs) new
     else fst (load_rules name check tm loaded rs) \<noteq> None"
proof (cases "fst (load_rules name check tm loaded rs) = None")
  case True
  then obtain out where out: "load_rules name check tm loaded rs = (None, out)"
    by (metis prod.collapse)
  let ?f = "\<lambda>r. case check r of Inr (Some c) \<Rightarrow> Some c | _ \<Rightarrow> None"
  from load_rules_success [OF out] have "out = loaded @ List.map_filter ?f rs"
    and ok: "\<forall>r \<in> set rs. \<exists>o'. check r = Inr o'" by auto
  moreover have "list_all2 loaded_as (filter wanted rs) (List.map_filter ?f rs)"
  proof (rule map_filter_list_all2)
    fix r assume "r \<in> set rs"
    with ok obtain o' where "check r = Inr o'" by blast
    with some none show "(\<exists>c. ?f r = Some c \<and> wanted r \<and> loaded_as r c) \<or>
        (?f r = None \<and> \<not> wanted r)"
      by (cases o') auto
  qed
  ultimately show ?thesis using True out load_rules_None_iff [of name check tm loaded rs] loadable
    by (auto simp: list_all_iff)
next
  case False
  with load_rules_None_iff [of name check tm loaded rs] loadable show ?thesis
    by (auto simp: list_all_iff)
qed

text \<open>
  \<open>load_rules\<close> meets the contract whenever the check stores the resolved mode: what each engine
  has to show of its own check.
\<close>

lemma load_rules_contract:
  assumes "\<And>tm r c. check tm r = Inr (Some c) \<Longrightarrow> \<exists>m. mode_of c = ResolvePolicyMode tm m"
  shows "rule_loader (\<lambda>tm. load_rules name (check tm) tm) mode_of name"
proof
  fix tm loaded rs
  obtain new where new: "snd (load_rules name (check tm) tm loaded rs) = loaded @ new"
    "\<forall>c \<in> set new. \<exists>r \<in> set rs. check tm r = Inr (Some c)"
    using load_rules_append [of name "check tm" tm loaded rs] by blast
  have "PolicyMode_IsValid (mode_of c) \<and> (IsAuditOnly tm \<longrightarrow> IsAuditOnly (mode_of c))"
    if "c \<in> set new" for c
  proof -
    from new(2) that obtain r where "check tm r = Inr (Some c)" by blast
    with assms obtain m where "mode_of c = ResolvePolicyMode tm m" by blast
    then show ?thesis by simp
  qed
  with new(1) show "\<exists>new. snd (load_rules name (check tm) tm loaded rs) = loaded @ new \<and>
      (\<forall>c \<in> set new. PolicyMode_IsValid (mode_of c) \<and> (IsAuditOnly tm \<longrightarrow> IsAuditOnly (mode_of c)))"
    by blast
next
  fix tm loaded rs
  assume "fst (load_rules name (check tm) tm loaded rs) = None"
  then obtain out where "load_rules name (check tm) tm loaded rs = (None, out)"
    by (metis prod.collapse)
  from load_rules_success [OF this] show "distinct (map name rs)" and "PolicyMode_IsValid tm"
    by auto
qed

end
