(* ===== verification/CELEngine.thy ===== *)
theory CELEngine
  imports EngineContract Loading
begin

text \<open>
  \<^verbatim>\<open>internal/gateway/cel_engine.go\<close>: loading of the deterministic request rules and their
  evaluation against an MCP tool call and against a CLI command. The CEL library is not part of
  the repository: its \<^verbatim>\<open>Compile\<close>, \<^verbatim>\<open>Program\<close> and \<^verbatim>\<open>Eval\<close> are the fields of a record the
  definitions take as an argument, and every theorem holds for any of them.
\<close>

section \<open>The CEL library as a parameter\<close>

record ('ast, 'prg) cel_env =
  cel_compile :: "string \<Rightarrow> go_error + 'ast"
  cel_program :: "'ast \<Rightarrow> go_error + 'prg"
  cel_eval :: "'prg \<Rightarrow> dyn \<Rightarrow> go_error + dyn"

text \<open>The two functions the engine binds into the environment, \<^verbatim>\<open>has\<close> and \<^verbatim>\<open>get\<close>.\<close>

definition cel_has :: "dyn \<Rightarrow> dyn \<Rightarrow> bool" where
  "cel_has lhs rhs =
     (case lhs of
        DMap kvs \<Rightarrow> (case rhs of DString field \<Rightarrow> map_of kvs field \<noteq> None | _ \<Rightarrow> False)
      | _ \<Rightarrow> False)"

definition cel_get :: "dyn list \<Rightarrow> go_error + dyn" where
  "cel_get args =
     (if length args \<noteq> 3 then Inl (PlainError ''get() requires exactly 3 arguments'')
      else Inr (case args ! 0 of
        DMap kvs \<Rightarrow>
          (case args ! 1 of
             DString field \<Rightarrow> (case map_of kvs field of None \<Rightarrow> args ! 2 | Some val \<Rightarrow> val)
           | _ \<Rightarrow> args ! 2)
      | _ \<Rightarrow> args ! 2))"

text \<open>The safe access the default rules rely on: \<^verbatim>\<open>get\<close> agrees with \<^verbatim>\<open>has\<close>.\<close>

lemma cel_get_has:
  "cel_get [obj, field, dflt] =
     Inr (if cel_has obj field
          then (case (obj, field) of (DMap kvs, DString f) \<Rightarrow> the (map_of kvs f) | _ \<Rightarrow> dflt)
          else dflt)"
  by (auto simp: cel_get_def cel_has_def split: dyn.splits option.splits)

section \<open>Loading\<close>

record CELPolicy =
  cp_Name :: string
  cp_Description :: string
  cp_MCPExpression :: string
  cp_CLIExpression :: string
  cp_Action :: PolicyAction
  cp_Message :: string
  cp_Mode :: PolicyMode

text \<open>\<^verbatim>\<open>if expr != "" { _, issues := env.Compile(expr); ... }\<close>\<close>

definition compile_issue :: "('ast, 'prg) cel_env \<Rightarrow> string \<Rightarrow> go_error option" where
  "compile_issue env expr =
     (if expr = '''' then None
      else case cel_compile env expr of Inl err \<Rightarrow> Some err | Inr _ \<Rightarrow> None)"

text \<open>The body of the loading loop for one rule, after the check of its name.\<close>

definition cel_check_policy ::
  "('ast, 'prg) cel_env \<Rightarrow> bool \<Rightarrow> PolicyMode \<Rightarrow> Policy \<Rightarrow> load_error + CELPolicy option" where
  "cel_check_policy env loadDisabled topLevelMode policy =
     (if \<not> Policy_IsEnabled policy \<and> \<not> loadDisabled then Inr None
      else let effectiveMode = ResolvePolicyMode topLevelMode (p_Mode policy);
               mcpExpr = (if p_MCPExpression policy = '''' then p_Expression policy
                          else p_MCPExpression policy)
      in if mcpExpr = '''' \<and> p_CLIExpression policy = ''''
      then Inl (NoExpression (p_Name policy))
      else case compile_issue env mcpExpr of
        Some err \<Rightarrow> Inl (MCPCompileError (p_Name policy) err)
      | None \<Rightarrow>
      (case compile_issue env (p_CLIExpression policy) of
        Some err \<Rightarrow> Inl (CLICompileError (p_Name policy) err)
      | None \<Rightarrow>
      if p_Action policy \<noteq> PolicyActionAllow \<and> p_Action policy \<noteq> PolicyActionDeny
      then Inl (InvalidAction (p_Action policy) (p_Name policy))
      else Inr (Some \<lparr> cp_Name = p_Name policy, cp_Description = p_Description policy,
                cp_MCPExpression = mcpExpr, cp_CLIExpression = p_CLIExpression policy,
                cp_Action = p_Action policy, cp_Message = p_Message policy,
                cp_Mode = effectiveMode \<rparr>)))"

definition cel_LoadPolicies ::
  "('ast, 'prg) cel_env \<Rightarrow> bool list \<Rightarrow> PolicyMode \<Rightarrow> CELPolicy list \<Rightarrow> Policy list \<Rightarrow>
     load_error option \<times> CELPolicy list" where
  "cel_LoadPolicies env includeDisabled topLevelMode loaded policies =
     (let loadDisabled = (includeDisabled \<noteq> [] \<and> hd includeDisabled)
      in load_rules p_Name (cel_check_policy env loadDisabled topLevelMode) topLevelMode
           loaded policies)"

section \<open>Evaluation of a tool call\<close>

definition mcp_vars :: "CallToolRequest \<Rightarrow> dyn" where
  "mcp_vars req =
     (let meta = (case Meta req of Some m \<Rightarrow> m | None \<Rightarrow> DMap []) in
      DMap [(''request'', DMap [(''method'', DString (Method req)),
                                (''params'', DMap [(''name'', DString (ToolName req)),
                                                   (''arguments'', Arguments req),
                                                   (''meta'', meta)])])])"

text \<open>The local variables of the evaluation loop.\<close>

record cel_run =
  cr_Results :: "ValidationResult list"
  cr_ruleResults :: "AuditRulesRuleResult list"
  cr_decidingRule :: string
  cr_decidingReason :: string
  cr_finalAction :: string
  cr_earlyTerminated :: bool
  cr_auditOnlyDeny :: bool
  cr_FailedOpen :: bool
  cr_AllowCount :: int
  cr_DenyCount :: int
  cr_phase :: phase

definition cel_run_init :: "phase \<Rightarrow> cel_run" where
  "cel_run_init ph = \<lparr> cr_Results = [], cr_ruleResults = [], cr_decidingRule = '''',
     cr_decidingReason = '''', cr_finalAction = ''allow'', cr_earlyTerminated = False,
     cr_auditOnlyDeny = False, cr_FailedOpen = False, cr_AllowCount = 0, cr_DenyCount = 0,
     cr_phase = ph \<rparr>"

text \<open>
  A rule that cannot be evaluated is recorded with result "error"; under an enforcing rule the
  evaluation fails open and stops.
\<close>

definition cel_rule_failed :: "clock \<Rightarrow> nat \<Rightarrow> CELPolicy \<Rightarrow> string \<Rightarrow> cel_run \<Rightarrow> cel_run" where
  "cel_rule_failed T i policy errorText st =
     (let st1 = st\<lparr> cr_ruleResults := cr_ruleResults st @
            [\<lparr> arr_Rule = cp_Name policy, arr_Action = cp_Action policy,
               arr_Mode = modeToAuditString (cp_Mode policy), arr_Result = ''error'',
               arr_EvaluationMs = Milliseconds (T i 1 - T i 0), arr_Error = errorText \<rparr>] \<rparr>
      in if \<not> IsAuditOnly (cp_Mode policy)
         then st1\<lparr> cr_phase := phase_mark (T i 2) (cr_phase st1),
                   cr_FailedOpen := True, cr_earlyTerminated := True \<rparr>
         else st1)"

text \<open>A rule whose expression evaluated to a boolean.\<close>

definition cel_rule_decided :: "clock \<Rightarrow> nat \<Rightarrow> CELPolicy \<Rightarrow> bool \<Rightarrow> cel_run \<Rightarrow> cel_run" where
  "cel_rule_decided T i policy result st =
     (let ruleDurationMs = Milliseconds (T i 1 - T i 0);
          ruleResult = (if result then cp_Action policy
                        else if cp_Action policy = PolicyActionDeny then PolicyActionAllow
                        else PolicyActionDeny);
          st1 = st\<lparr> cr_ruleResults := cr_ruleResults st @
            [\<lparr> arr_Rule = cp_Name policy, arr_Action = cp_Action policy,
               arr_Mode = modeToAuditString (cp_Mode policy), arr_Result = ruleResult,
               arr_EvaluationMs = ruleDurationMs, arr_Error = '''' \<rparr>] \<rparr>
      in if \<not> result then st1
         else let st2 = st1\<lparr> cr_Results := cr_Results st1 @
            [\<lparr> vr_PolicyName = cp_Name policy, vr_PolicyType = ''cel'', vr_Action = cp_Action policy,
               vr_Mode = cp_Mode policy, vr_Message = cp_Message policy,
               vr_DurationMs = ruleDurationMs \<rparr>] \<rparr>
         in if cp_Action policy = PolicyActionDeny
            then if \<not> IsAuditOnly (cp_Mode policy)
                 then st2\<lparr> cr_phase := phase_mark (T i 2) (cr_phase st2),
                           cr_finalAction := ''deny'', cr_decidingRule := cp_Name policy,
                           cr_decidingReason := cp_Message policy,
                           cr_DenyCount := cr_DenyCount st2 + 1, cr_earlyTerminated := True \<rparr>
                 else st2\<lparr> cr_auditOnlyDeny := True \<rparr>
            else if cp_Action policy = PolicyActionAllow \<and> \<not> IsAuditOnly (cp_Mode policy)
            then st2\<lparr> cr_AllowCount := cr_AllowCount st2 + 1 \<rparr>
            else st2)"

definition cel_tool_step ::
  "('ast, 'prg) cel_env \<Rightarrow> dyn \<Rightarrow> clock \<Rightarrow> nat \<Rightarrow> CELPolicy \<Rightarrow> cel_run \<Rightarrow> cel_run" where
  "cel_tool_step env vars T i policy st =
     (if cp_MCPExpression policy = '''' then st
      else case cel_compile env (cp_MCPExpression policy) of
        Inl err \<Rightarrow> cel_rule_failed T i policy (formatAuditError ''compile_error'' (Some err)) st
      | Inr ast \<Rightarrow> (case cel_program env ast of
          Inl err \<Rightarrow> cel_rule_failed T i policy (formatAuditError ''program_error'' (Some err)) st
        | Inr prg \<Rightarrow> (case cel_eval env prg vars of
            Inl err \<Rightarrow> cel_rule_failed T i policy (formatAuditError ''eval_error'' (Some err)) st
          | Inr out \<Rightarrow> (case out of
              DBool result \<Rightarrow> cel_rule_decided T i policy result st
            | _ \<Rightarrow> cel_rule_failed T i policy ''policy did not return a boolean'' st))))"

fun cel_tool_loop ::
  "('ast, 'prg) cel_env \<Rightarrow> dyn \<Rightarrow> clock \<Rightarrow> nat \<Rightarrow> CELPolicy list \<Rightarrow> cel_run \<Rightarrow> cel_run" where
  "cel_tool_loop env vars T i [] st = st"
| "cel_tool_loop env vars T i (policy # policies) st =
     (let st' = cel_tool_step env vars T i policy st
      in if cr_earlyTerminated st' then st'
         else cel_tool_loop env vars T (Suc i) policies st')"

text \<open>The code after the loop: timing, final decision, message, audit details.\<close>

fun first_allow_message :: "ValidationResult list \<Rightarrow> string" where
  "first_allow_message [] = ''''"
| "first_allow_message (r # rs) =
     (if vr_Action r = PolicyActionAllow \<and> \<not> IsAuditOnly (vr_Mode r) \<and> vr_Message r \<noteq> ''''
      then vr_Message r else first_allow_message rs)"

definition cel_tool_finish ::
  "clock \<Rightarrow> nat \<Rightarrow> cel_run \<Rightarrow> ValidationResults \<times> BlockingBudget option" where
  "cel_tool_finish T n st =
     (case phase_finalize (T (Suc n) 0) (T 0 0) (cr_phase st) of
        ((blockedMs, evaluationMs), ph) \<Rightarrow>
      let results = no_results\<lparr> Results := cr_Results st, FailedOpen := cr_FailedOpen st,
             AllowCount := cr_AllowCount st, DenyCount := cr_DenyCount st \<rparr>;
          results1 =
            (if cr_finalAction st = ''deny''
             then results\<lparr> Allowed := False, Message := cr_decidingReason st,
                            RecommendedAction := PolicyActionDeny \<rparr>
             else if cr_auditOnlyDeny st
             then results\<lparr> Allowed := True, AuditModeBypass := True,
                            RecommendedAction := PolicyActionDeny,
                            Message := ''CEL policy would deny but mode is audit_only'' \<rparr>
             else if FailedOpen results
             then results\<lparr> Allowed := True,
                            Message := ''CEL evaluation failed, allowing request (fail-open)'' \<rparr>
             else if AllowCount results > 0
             then results\<lparr> Allowed := True, RecommendedAction := PolicyActionAllow,
                            Message := first_allow_message (Results results) \<rparr>
             else results\<lparr> Allowed := True, Message := ''No policies matched'' \<rparr>);
          celDetails =
            \<lparr> ar_Action = cr_finalAction st, ar_BlockedMs = blockedMs,
              ar_EvaluationMs = evaluationMs,
              ar_DecidingRule = (if cr_decidingRule st \<noteq> '''' then cr_decidingRule st else ''''),
              ar_Reason = (if cr_decidingRule st \<noteq> '''' then cr_decidingReason st else ''''),
              ar_Results = cr_ruleResults st \<rparr>
      in (results1\<lparr> RulesDetails := Some celDetails \<rparr>, phase_budget ph))"

definition cel_EvaluateToolCall ::
  "('ast, 'prg) cel_env \<Rightarrow> CELPolicy list \<Rightarrow> CallToolRequest \<Rightarrow> clock \<Rightarrow> engine" where
  "cel_EvaluateToolCall env policies req T budget = map_prod Inr id
     (let phaseTracker = phase_start (T 0 1) budget;
          vars = mcp_vars req
      in cel_tool_finish T (length policies)
           (cel_tool_loop env vars T 1 policies (cel_run_init phaseTracker)))"


section \<open>What loading guarantees\<close>

text \<open>
  A rule that is loaded is enabled (unless disabled rules are asked for), has an expression,
  compiles, and has an action the phase knows and a resolved mode.
\<close>

definition cel_loaded_as ::
  "('ast, 'prg) cel_env \<Rightarrow> bool \<Rightarrow> PolicyMode \<Rightarrow> Policy \<Rightarrow> CELPolicy \<Rightarrow> bool" where
  "cel_loaded_as env ld tm p c \<longleftrightarrow>
     (Policy_IsEnabled p \<or> ld) \<and> cp_Name c = p_Name p \<and> cp_Message c = p_Message p \<and>
     cp_Action c = p_Action p \<and> cp_Action c \<in> {PolicyActionAllow, PolicyActionDeny} \<and>
     cp_Mode c = ResolvePolicyMode tm (p_Mode p) \<and>
     cp_CLIExpression c = p_CLIExpression p \<and>
     cp_MCPExpression c = (if p_MCPExpression p = '''' then p_Expression p else p_MCPExpression p) \<and>
     \<not> (cp_MCPExpression c = '''' \<and> cp_CLIExpression c = '''') \<and>
     compile_issue env (cp_MCPExpression c) = None \<and> compile_issue env (cp_CLIExpression c) = None"

lemma cel_check_policy_Some:
  "cel_check_policy env ld tm p = Inr (Some c) \<Longrightarrow> cel_loaded_as env ld tm p c"
  by (auto simp: cel_check_policy_def cel_loaded_as_def Let_def split: if_splits option.splits)

lemma cel_check_policy_wanted:
  "cel_check_policy env ld tm p = Inr (Some c) \<Longrightarrow> Policy_IsEnabled p \<or> ld"
  by (auto simp: cel_check_policy_def Let_def split: if_splits)

lemma cel_check_policy_None:
  "cel_check_policy env ld tm p = Inr None \<Longrightarrow> \<not> (Policy_IsEnabled p \<or> ld)"
  by (auto simp: cel_check_policy_def Let_def split: if_splits option.splits)

text \<open>When a rule can be loaded: it is left out, or it has an expression and all of it is valid.\<close>

definition cel_loadable :: "('ast, 'prg) cel_env \<Rightarrow> bool \<Rightarrow> Policy \<Rightarrow> bool" where
  "cel_loadable env ld p \<longleftrightarrow>
     (if Policy_IsEnabled p \<or> ld
      then let mcpExpr = (if p_MCPExpression p = '''' then p_Expression p else p_MCPExpression p)
           in \<not> (mcpExpr = '''' \<and> p_CLIExpression p = '''') \<and>
              compile_issue env mcpExpr = None \<and> compile_issue env (p_CLIExpression p) = None \<and>
              p_Action p \<in> {PolicyActionAllow, PolicyActionDeny}
      else True)"

lemma cel_check_policy_loadable:
  "(\<exists>o'. cel_check_policy env ld tm p = Inr o') \<longleftrightarrow> cel_loadable env ld p"
  by (auto simp: cel_check_policy_def cel_loadable_def Let_def split: option.splits)

interpretation cel_rules: rule_loader "cel_LoadPolicies env inc" cp_Mode p_Name
  for env :: "('ast, 'prg) cel_env" and inc
  unfolding cel_LoadPolicies_def [abs_def] Let_def
  by (rule load_rules_contract) (metis cel_check_policy_Some cel_loaded_as_def)

text \<open>
  Loading the CEL request rules succeeds exactly when the mode of the phase is valid, no two
  rules share a name, and every rule that is to be loaded has an expression, compiles and has a
  known action. Then the rules already loaded are kept and, in file order, exactly the enabled
  rules are appended, with the legacy expression resolved and the effective mode.
\<close>

lemma cel_load_exact:
  "let ld = (inc \<noteq> [] \<and> hd inc) in
   if PolicyMode_IsValid tm \<and> distinct (map p_Name ps) \<and> list_all (cel_loadable env ld) ps
   then \<exists>new. cel_LoadPolicies env inc tm loaded ps = (None, loaded @ new) \<and>
     list_all2 (cel_loaded_as env ld tm) (filter (\<lambda>p. Policy_IsEnabled p \<or> ld) ps) new
   else fst (cel_LoadPolicies env inc tm loaded ps) \<noteq> None"
  unfolding cel_LoadPolicies_def Let_def
proof (rule load_rules_exact, goal_cases)
  case (1 p c)
  show ?case by (rule conjI [OF cel_check_policy_wanted [OF 1] cel_check_policy_Some [OF 1]])
next
  case (2 p)
  then show ?case by (rule cel_check_policy_None)
next
  case (3 p)
  show ?case by (rule cel_check_policy_loadable)
qed

section \<open>Evaluation refines first-match policy evaluation\<close>

text \<open>
  The specification: what one rule's expression says about the request, and which rule of the
  list is the first that stops the evaluation of an enforcing engine.
\<close>

datatype outcome = Skipped | Failed | Matched | Unmatched

definition run_outcome :: "('ast, 'prg) cel_env \<Rightarrow> dyn \<Rightarrow> string \<Rightarrow> outcome" where
  "run_outcome env vars expr =
     (case cel_compile env expr of Inl _ \<Rightarrow> Failed
      | Inr ast \<Rightarrow> (case cel_program env ast of Inl _ \<Rightarrow> Failed
      | Inr prg \<Rightarrow> (case cel_eval env prg vars of Inl _ \<Rightarrow> Failed
      | Inr out \<Rightarrow> (case out of DBool b \<Rightarrow> (if b then Matched else Unmatched) | _ \<Rightarrow> Failed))))"

definition expr_outcome :: "('ast, 'prg) cel_env \<Rightarrow> dyn \<Rightarrow> string \<Rightarrow> outcome" where
  "expr_outcome env vars expr = (if expr = '''' then Skipped else run_outcome env vars expr)"

definition stops :: "(CELPolicy \<Rightarrow> outcome) \<Rightarrow> CELPolicy \<Rightarrow> bool" where
  "stops oc p \<longleftrightarrow> \<not> IsAuditOnly (cp_Mode p) \<and>
     (oc p = Failed \<or> (oc p = Matched \<and> cp_Action p = PolicyActionDeny))"

definition examined :: "(CELPolicy \<Rightarrow> outcome) \<Rightarrow> CELPolicy list \<Rightarrow> CELPolicy list" where
  "examined oc ps = upto_first (stops oc) ps"

definition mcp_outcome :: "('ast, 'prg) cel_env \<Rightarrow> dyn \<Rightarrow> CELPolicy \<Rightarrow> outcome" where
  "mcp_outcome env vars p = expr_outcome env vars (cp_MCPExpression p)"

lemma examined_Nil [simp]: "examined oc [] = []"
  by (simp add: examined_def)

lemma examined_Cons:
  "examined oc (p # ps) = (if stops oc p then [p] else p # examined oc ps)"
  by (simp add: examined_def upto_first_Cons)

text \<open>One step, by the outcome of the rule's expression.\<close>

lemma cel_tool_step_outcome:
  "case mcp_outcome env vars p of
     Skipped \<Rightarrow> cel_tool_step env vars T i p st = st
   | Failed \<Rightarrow> \<exists>e. cel_tool_step env vars T i p st = cel_rule_failed T i p e st
   | Matched \<Rightarrow> cel_tool_step env vars T i p st = cel_rule_decided T i p True st
   | Unmatched \<Rightarrow> cel_tool_step env vars T i p st = cel_rule_decided T i p False st"
  by (auto simp: mcp_outcome_def expr_outcome_def run_outcome_def cel_tool_step_def split: sum.split dyn.split)

lemma cel_tool_step_cases:
  obtains (Skipped) "mcp_outcome env vars p = Skipped" "cel_tool_step env vars T i p st = st"
  | (Failed) e where "mcp_outcome env vars p = Failed" 
      "cel_tool_step env vars T i p st = cel_rule_failed T i p e st"
  | (Matched) "mcp_outcome env vars p = Matched"
      "cel_tool_step env vars T i p st = cel_rule_decided T i p True st"
  | (Unmatched) "mcp_outcome env vars p = Unmatched"
      "cel_tool_step env vars T i p st = cel_rule_decided T i p False st"
  using cel_tool_step_outcome [where env = env and vars = vars and p = p and T = T and i = i and st = st]
  by (cases "mcp_outcome env vars p") auto

text \<open>The loop variables, as sums over the rules the loop has examined.\<close>

definition enforced_allow :: "(CELPolicy \<Rightarrow> outcome) \<Rightarrow> CELPolicy \<Rightarrow> bool" where
  "enforced_allow oc p \<longleftrightarrow>
     oc p = Matched \<and> cp_Action p = PolicyActionAllow \<and> \<not> IsAuditOnly (cp_Mode p)"

definition audited_deny :: "(CELPolicy \<Rightarrow> outcome) \<Rightarrow> CELPolicy \<Rightarrow> bool" where
  "audited_deny oc p \<longleftrightarrow>
     oc p = Matched \<and> cp_Action p = PolicyActionDeny \<and> IsAuditOnly (cp_Mode p)"

definition rule_result :: "outcome \<Rightarrow> PolicyAction \<Rightarrow> string" where
  "rule_result oc action =
     (if oc = Failed then ''error''
      else if oc = Matched then action
      else if action = PolicyActionDeny then PolicyActionAllow else PolicyActionDeny)"

definition rule_audit :: "(CELPolicy \<Rightarrow> outcome) \<Rightarrow> CELPolicy list \<Rightarrow> (string \<times> string) list" where
  "rule_audit oc ps = map (\<lambda>p. (cp_Name p, rule_result (oc p) (cp_Action p)))
     (filter (\<lambda>p. oc p \<noteq> Skipped) ps)"

lemma cel_tool_loop_spec:
  assumes "\<not> cr_earlyTerminated st"
  shows "let oc = mcp_outcome env vars; st' = cel_tool_loop env vars T i ps st;
             ex = examined oc ps; hit = find (stops oc) ps in
    cr_FailedOpen st' = (cr_FailedOpen st \<or> (\<exists>p. hit = Some p \<and> oc p = Failed)) \<and>
    cr_finalAction st' = (case hit of Some p \<Rightarrow> if oc p = Failed then cr_finalAction st else ''deny''
                          | None \<Rightarrow> cr_finalAction st) \<and>
    cr_decidingRule st' = (case hit of Some p \<Rightarrow> if oc p = Failed then cr_decidingRule st else cp_Name p
                          | None \<Rightarrow> cr_decidingRule st) \<and>
    cr_decidingReason st' = (case hit of Some p \<Rightarrow> if oc p = Failed then cr_decidingReason st else cp_Message p
                          | None \<Rightarrow> cr_decidingReason st) \<and>
    cr_DenyCount st' = cr_DenyCount st + (case hit of Some p \<Rightarrow> if oc p = Failed then 0 else 1 | None \<Rightarrow> 0) \<and>
    cr_AllowCount st' = cr_AllowCount st + int (length (filter (enforced_allow oc) ex)) \<and>
    cr_auditOnlyDeny st' = (cr_auditOnlyDeny st \<or> (\<exists>p \<in> set ex. audited_deny oc p)) \<and>
    map (\<lambda>r. (arr_Rule r, arr_Result r)) (cr_ruleResults st') =
      map (\<lambda>r. (arr_Rule r, arr_Result r)) (cr_ruleResults st) @ rule_audit oc ex \<and>
    budget_step_opt (phase_budget (cr_phase st)) (phase_budget (cr_phase st'))"
  using assms
proof (induction ps arbitrary: i st)
  case Nil
  then show ?case by (simp add: rule_audit_def)
next
  case (Cons p ps)
  let ?st = "cel_tool_step env vars T i p st"
  show ?case
    by (rule cel_tool_step_cases [where env = env and vars = vars and p = p and T = T and i = i and st = st];
        insert Cons.IH [of ?st "Suc i"] Cons.prems;
        auto simp: Let_def stops_def examined_Cons rule_audit_def rule_result_def enforced_allow_def
          audited_deny_def cel_rule_failed_def cel_rule_decided_def split: if_splits option.splits)
qed

text \<open>
  The decision of the first rule that stops the evaluation: a matching enforced deny refuses, an
  enforced rule that cannot be evaluated gives up (and fails open); without either the call is
  permitted.
\<close>

datatype decision = Permit | Refuse CELPolicy | GiveUp CELPolicy

definition cel_decide :: "(CELPolicy \<Rightarrow> outcome) \<Rightarrow> CELPolicy list \<Rightarrow> decision" where
  "cel_decide oc ps =
     (case find (stops oc) ps of
        None \<Rightarrow> Permit
      | Some p \<Rightarrow> if oc p = Failed then GiveUp p else Refuse p)"

text \<open>The whole evaluation of a list of rules against a set of variables.\<close>

definition cel_run_all ::
  "('ast, 'prg) cel_env \<Rightarrow> dyn \<Rightarrow> CELPolicy list \<Rightarrow> clock \<Rightarrow> BlockingBudget option \<Rightarrow>
     ValidationResults \<times> BlockingBudget option" where
  "cel_run_all env vars ps T b =
     cel_tool_finish T (length ps)
       (cel_tool_loop env vars T 1 ps (cel_run_init (phase_start (T 0 1) b)))"

lemma cel_EvaluateToolCall_run_all:
  "cel_EvaluateToolCall env ps req T b = map_prod Inr id (cel_run_all env (mcp_vars req) ps T b)"
  by (simp add: cel_EvaluateToolCall_def cel_run_all_def Let_def)

definition refines_decision :: "decision \<Rightarrow> (CELPolicy \<Rightarrow> outcome) \<Rightarrow> CELPolicy list \<Rightarrow> ValidationResults \<Rightarrow> bool" where
  "refines_decision d oc ps res \<longleftrightarrow>
     (Allowed res \<longleftrightarrow> (\<forall>p. d \<noteq> Refuse p)) \<and>
     (FailedOpen res \<longleftrightarrow> (\<exists>p. d = GiveUp p)) \<and>
     DenyCount res = (case d of Refuse p \<Rightarrow> 1 | _ \<Rightarrow> 0) \<and>
     AllowCount res = int (length (filter (enforced_allow oc) (examined oc ps))) \<and>
     (AuditModeBypass res \<longleftrightarrow> Allowed res \<and> (\<exists>p \<in> set (examined oc ps). audited_deny oc p)) \<and>
     (RecommendedAction res = PolicyActionDeny \<longleftrightarrow> \<not> Allowed res \<or> AuditModeBypass res) \<and>
     (case d of Refuse p \<Rightarrow> Message res = cp_Message p | _ \<Rightarrow> True)"

lemma cel_run_all_decision:
  "refines_decision (cel_decide (mcp_outcome env vars) ps) (mcp_outcome env vars) ps
     (fst (cel_run_all env vars ps T b))"
proof -
  let ?st = "cel_tool_loop env vars T 1 ps (cel_run_init (phase_start (T 0 1) b))"
  have init: "\<not> cr_earlyTerminated (cel_run_init (phase_start (T 0 1) b))"
    by (simp add: cel_run_init_def)
  note spec = cel_tool_loop_spec [OF init, of env vars T 1 ps, unfolded Let_def]
  show ?thesis
  proof (cases "find (stops (mcp_outcome env vars)) ps")
    case None
    with spec show ?thesis unfolding cel_run_all_def refines_decision_def cel_decide_def cel_tool_finish_def
      by (simp add: cel_run_init_def no_results_def Let_def split: prod.split)
  next
    case (Some p)
    with spec show ?thesis unfolding cel_run_all_def refines_decision_def cel_decide_def cel_tool_finish_def
      by (cases "mcp_outcome env vars p = Failed") (simp_all add: cel_run_init_def no_results_def Let_def split: prod.split)
  qed
qed

lemma cel_run_all_audit:
  "\<exists>d. RulesDetails (fst (cel_run_all env vars ps T b)) = Some d \<and>
     map (\<lambda>r. (arr_Rule r, arr_Result r)) (ar_Results d) =
       rule_audit (mcp_outcome env vars) (examined (mcp_outcome env vars) ps) \<and>
     ar_Action d = (case cel_decide (mcp_outcome env vars) ps of Refuse p \<Rightarrow> ''deny'' | _ \<Rightarrow> ''allow'') \<and>
     ar_DecidingRule d = (case cel_decide (mcp_outcome env vars) ps of Refuse p \<Rightarrow> cp_Name p | _ \<Rightarrow> '''')"
proof -
  let ?st = "cel_tool_loop env vars T 1 ps (cel_run_init (phase_start (T 0 1) b))"
  have init: "\<not> cr_earlyTerminated (cel_run_init (phase_start (T 0 1) b))"
    by (simp add: cel_run_init_def)
  note spec = cel_tool_loop_spec [OF init, of env vars T 1 ps, unfolded Let_def]
  show ?thesis
    using spec unfolding cel_run_all_def cel_decide_def cel_tool_finish_def
    by (auto simp: cel_run_init_def no_results_def Let_def split: prod.split option.splits)
qed

lemma cel_run_all_budget: "budget_step_opt b (snd (cel_run_all env vars ps T b))"
proof -
  let ?st = "cel_tool_loop env vars T 1 ps (cel_run_init (phase_start (T 0 1) b))"
  have init: "\<not> cr_earlyTerminated (cel_run_init (phase_start (T 0 1) b))"
    by (simp add: cel_run_init_def)
  have "budget_step_opt b (phase_budget (cr_phase ?st))"
    using cel_tool_loop_spec [OF init, of env vars T 1 ps] by (simp add: cel_run_init_def Let_def)
  also have "budget_step_opt (phase_budget (cr_phase ?st)) (snd (cel_run_all env vars ps T b))"
    by (auto simp: cel_run_all_def cel_tool_finish_def Let_def dest: phase_finalize_budget
        split: prod.split)
  finally show ?thesis .
qed

lemma cel_run_all_contract:
  "request_engine (\<lambda>b. map_prod Inr id (cel_run_all env vars ps T b))"
proof
  fix b
  show "budget_step_opt b (snd (map_prod Inr id (cel_run_all env vars ps T b)))"
    by (simp add: cel_run_all_budget)
qed (use cel_run_all_decision [of env vars ps T] in
      \<open>auto simp: refines_decision_def split: decision.splits\<close>)

interpretation cel_tool: request_engine "cel_EvaluateToolCall env ps req T"
  for env :: "('ast, 'prg) cel_env" and ps req T
  using cel_run_all_contract [of env "mcp_vars req" ps T]
  by (simp add: cel_EvaluateToolCall_run_all [abs_def])

section \<open>Properties\<close>

text \<open>
  C16. The CEL engine always returns, and its results are those of the first rule, in file order,
  that stops an enforcing engine: a matching enforced deny refuses with its message and counts
  one denial; an enforced rule that fails to compile, to run or to give a boolean fails open; with
  neither, the call is allowed. Audit-only rules never change the verdict: they only set the
  bypass flag and the recommended action.
\<close>

theorem cel_tool_call_decides:
  "\<exists>r. fst (cel_EvaluateToolCall env ps req T b) = Inr r \<and>
     refines_decision (cel_decide (mcp_outcome env (mcp_vars req)) ps)
       (mcp_outcome env (mcp_vars req)) ps r"
  using cel_run_all_decision [of env "mcp_vars req" ps T b]
  by (simp add: cel_EvaluateToolCall_run_all)

text \<open>
  The audit record of a CEL evaluation lists, in file order, exactly the rules that were
  evaluated: those with an MCP expression, up to and including the rule that stopped the
  evaluation, each with its result; the action and the deciding rule are those of the verdict.
\<close>

lemma cel_tool_call_audit:
  "\<exists>r d. fst (cel_EvaluateToolCall env ps req T b) = Inr r \<and> RulesDetails r = Some d \<and>
     map (\<lambda>x. (arr_Rule x, arr_Result x)) (ar_Results d) =
       rule_audit (mcp_outcome env (mcp_vars req)) (examined (mcp_outcome env (mcp_vars req)) ps) \<and>
     ar_Action d = (if Allowed r then ''allow'' else ''deny'') \<and>
     ar_DecidingRule d = (case cel_decide (mcp_outcome env (mcp_vars req)) ps of
                            Refuse p \<Rightarrow> cp_Name p | _ \<Rightarrow> '''')"
  using cel_run_all_audit [of env "mcp_vars req" ps T b] cel_run_all_decision [of env "mcp_vars req" ps T b]
  by (auto simp: cel_EvaluateToolCall_run_all refines_decision_def split: decision.splits)

text \<open>
  A phase configured \<^verbatim>\<open>audit_only\<close> never blocks: whatever rules are loaded under it, each tool
  call is allowed, without failing open and without a denial counted.
\<close>

lemma cel_audit_only_phase_allows:
  "\<exists>r. fst (cel_EvaluateToolCall env (snd (cel_LoadPolicies env inc PolicyModeAuditOnly [] ps)) req T b) = Inr r \<and>
     Allowed r \<and> \<not> FailedOpen r \<and> DenyCount r = 0"
proof -
  let ?ps = "snd (cel_LoadPolicies env inc PolicyModeAuditOnly [] ps)"
  let ?oc = "mcp_outcome env (mcp_vars req)"
  have "IsAuditOnly (cp_Mode p)" if "p \<in> set ?ps" for p
    using cel_rules.audit_only_phase that by (metis IsAuditOnly_def)
  then have "find (stops ?oc) ?ps = None" by (auto simp: find_None_iff stops_def)
  then have "cel_decide ?oc ?ps = Permit" by (simp add: cel_decide_def)
  with cel_run_all_decision [of env "mcp_vars req" ?ps T b] show ?thesis
    by (simp add: cel_EvaluateToolCall_run_all refines_decision_def)
qed

end
