(* ===== verification/CELCli.thy ===== *)
theory CELCli
  imports CELEngine
begin

text \<open>
  \<^verbatim>\<open>internal/gateway/cel_engine.go\<close>, the second half: the evaluation of a CLI command, which
  repeats the code of the tool call evaluation over the rules' CLI expressions, the variables
  it is given (\<^verbatim>\<open>BuildCLIContext\<close>), and the masking of argument values
  (\<^verbatim>\<open>extractCLIArgumentFlags\<close>). The CLI code is translated on its own and then shown to agree
  with the tool call code.
\<close>

section \<open>The request\<close>

record CLIClientInfo =
  Hostname :: string
  Username :: string
  OS :: string
  OSVersion :: string
  Arch :: string
  Shell :: string
  CLIVersion :: string

record CLIValidationRequest =
  Command :: string
  CArguments :: "string list"
  WorkingDirectory :: string
  ClientInfo :: "CLIClientInfo option"

definition BuildCLIContext :: "CLIValidationRequest \<Rightarrow> dyn" where
  "BuildCLIContext req =
     (let clientInfo = (case ClientInfo req of
            None \<Rightarrow> [(''hostname'', DString ''''), (''username'', DString ''''),
                     (''os'', DString ''''), (''arch'', DString ''''),
                     (''shell'', DString ''''), (''cli_version'', DString '''')]
          | Some ci \<Rightarrow> [(''hostname'', DString (Hostname ci)), (''username'', DString (Username ci)),
                        (''os'', DString (OS ci)), (''arch'', DString (Arch ci)),
                        (''shell'', DString (Shell ci)), (''cli_version'', DString (CLIVersion ci))])
      in DMap [(''cli'', DMap [(''command'', DString (Command req)),
                              (''arguments'', DList (map DString (CArguments req))),
                              (''working_directory'', DString (WorkingDirectory req)),
                              (''client_info'', DMap clientInfo)])])"

section \<open>Evaluation of a CLI command\<close>

definition cel_cli_match ::
  "clock \<Rightarrow> nat \<Rightarrow> CELPolicy \<Rightarrow> bool \<Rightarrow> cel_run \<Rightarrow> cel_run" where
  "cel_cli_match T i policy result st =
     (let ruleResult =
            (if result then cp_Action policy
             else if cp_Action policy = PolicyActionDeny then PolicyActionAllow
             else PolicyActionDeny);
          st1 = st\<lparr> cr_ruleResults := cr_ruleResults st @
            [\<lparr> arr_Rule = cp_Name policy, arr_Action = cp_Action policy,
               arr_Mode = modeToAuditString (cp_Mode policy), arr_Result = ruleResult,
               arr_EvaluationMs = Milliseconds (T i 1 - T i 0), arr_Error = '''' \<rparr>] \<rparr>
      in if result
         then let st2 = st1\<lparr> cr_Results := cr_Results st1 @
                [\<lparr> vr_PolicyName = cp_Name policy, vr_PolicyType = ''cel'',
                   vr_Action = cp_Action policy, vr_Mode = cp_Mode policy,
                   vr_Message = cp_Message policy,
                   vr_DurationMs = Milliseconds (T i 1 - T i 0) \<rparr>] \<rparr>
              in if cp_Action policy = PolicyActionDeny
                 then (if IsAuditOnly (cp_Mode policy)
                       then st2\<lparr> cr_auditOnlyDeny := True \<rparr>
                       else st2\<lparr> cr_phase := phase_mark (T i 2) (cr_phase st2),
                                 cr_finalAction := ''deny'',
                                 cr_decidingRule := cp_Name policy,
                                 cr_decidingReason := cp_Message policy,
                                 cr_DenyCount := cr_DenyCount st2 + 1,
                                 cr_earlyTerminated := True \<rparr>)
                 else if cp_Action policy = PolicyActionAllow
                 then (if IsAuditOnly (cp_Mode policy) then st2
                       else st2\<lparr> cr_AllowCount := cr_AllowCount st2 + 1 \<rparr>)
                 else st2
         else st1)"

definition cel_cli_step ::
  "('ast, 'prg) cel_env \<Rightarrow> dyn \<Rightarrow> clock \<Rightarrow> nat \<Rightarrow> CELPolicy \<Rightarrow> cel_run \<Rightarrow> cel_run" where
  "cel_cli_step env vars T i policy st =
     (let failed = (\<lambda>errorText.
            let st1 = st\<lparr> cr_ruleResults := cr_ruleResults st @
                  [\<lparr> arr_Rule = cp_Name policy, arr_Action = cp_Action policy,
                     arr_Mode = modeToAuditString (cp_Mode policy), arr_Result = ''error'',
                     arr_EvaluationMs = Milliseconds (T i 1 - T i 0),
                     arr_Error = errorText \<rparr>] \<rparr>
            in if IsAuditOnly (cp_Mode policy) then st1
               else st1\<lparr> cr_phase := phase_mark (T i 2) (cr_phase st1),
                         cr_FailedOpen := True, cr_earlyTerminated := True \<rparr>)
      in if cp_CLIExpression policy = '''' then st
         else case cel_compile env (cp_CLIExpression policy) of
           Inl issues \<Rightarrow> failed (formatAuditError ''compile_error'' (Some issues))
         | Inr ast \<Rightarrow>
        (case cel_program env ast of
           Inl err \<Rightarrow> failed (formatAuditError ''program_error'' (Some err))
         | Inr prg \<Rightarrow>
        (case cel_eval env prg vars of
           Inl err \<Rightarrow> failed (formatAuditError ''eval_error'' (Some err))
         | Inr (DBool result) \<Rightarrow> cel_cli_match T i policy result st
         | Inr _ \<Rightarrow> failed ''policy did not return a boolean'')))"

fun cel_cli_loop ::
  "('ast, 'prg) cel_env \<Rightarrow> dyn \<Rightarrow> clock \<Rightarrow> nat \<Rightarrow> CELPolicy list \<Rightarrow> cel_run \<Rightarrow> cel_run" where
  "cel_cli_loop env vars T i [] st = st"
| "cel_cli_loop env vars T i (policy # policies) st =
     (let st' = cel_cli_step env vars T i policy st
      in if cr_earlyTerminated st' then st'
         else cel_cli_loop env vars T (Suc i) policies st')"

definition cel_cli_finish ::
  "clock \<Rightarrow> nat \<Rightarrow> cel_run \<Rightarrow> ValidationResults \<times> BlockingBudget option" where
  "cel_cli_finish T n st =
     (case phase_finalize (T (Suc n) 0) (T 0 0) (cr_phase st) of
        ((blockedMs, evaluationMs), ph) \<Rightarrow>
      let results = no_results\<lparr> Results := cr_Results st, AllowCount := cr_AllowCount st,
             DenyCount := cr_DenyCount st, FailedOpen := cr_FailedOpen st \<rparr>;
          decided =
            (if cr_finalAction st = ''deny''
             then results\<lparr> Allowed := False, Message := cr_decidingReason st,
                            RecommendedAction := PolicyActionDeny \<rparr>
             else if cr_auditOnlyDeny st
             then results\<lparr> Allowed := True, AuditModeBypass := True,
                            RecommendedAction := PolicyActionDeny,
                            Message := ''CEL policy would deny but mode is audit_only'' \<rparr>
             else if FailedOpen results
             then results\<lparr> Allowed := True,
                            Message := ''CEL evaluation failed, allowing request (fail-open)'' \<rparr>
             else if 0 < AllowCount results
             then results\<lparr> Allowed := True, RecommendedAction := PolicyActionAllow,
                            Message :=
                              (case find (\<lambda>r. vr_Action r = PolicyActionAllow \<and>
                                     \<not> IsAuditOnly (vr_Mode r) \<and> vr_Message r \<noteq> '''')
                                   (Results results) of
                                 Some r \<Rightarrow> vr_Message r | None \<Rightarrow> Message results) \<rparr>
             else results\<lparr> Allowed := True, Message := ''No policies matched'' \<rparr>)
      in (decided\<lparr> RulesDetails := Some
            \<lparr> ar_Action = cr_finalAction st, ar_BlockedMs = blockedMs,
              ar_EvaluationMs = evaluationMs,
              ar_DecidingRule = (if cr_decidingRule st = '''' then '''' else cr_decidingRule st),
              ar_Reason = (if cr_decidingRule st = '''' then '''' else cr_decidingReason st),
              ar_Results = cr_ruleResults st \<rparr> \<rparr>, phase_budget ph))"

definition cel_EvaluateCLICommand ::
  "('ast, 'prg) cel_env \<Rightarrow> CELPolicy list \<Rightarrow> CLIValidationRequest \<Rightarrow> clock \<Rightarrow> engine" where
  "cel_EvaluateCLICommand env policies req T budget =
     (let phaseTracker = phase_start (T 0 1) budget;
          vars = BuildCLIContext req;
          st = cel_cli_loop env vars T 1 policies (cel_run_init phaseTracker);
          (results, budget') = cel_cli_finish T (length policies) st
      in (Inr results, budget'))"

section \<open>The CLI code agrees with the tool call code\<close>

text \<open>
  A rule set seen from the command line: each rule with its CLI expression in the place of the
  MCP one.
\<close>

definition as_mcp :: "CELPolicy \<Rightarrow> CELPolicy" where
  "as_mcp p = p\<lparr> cp_MCPExpression := cp_CLIExpression p \<rparr>"

lemma as_mcp_sel [simp]:
  "cp_MCPExpression (as_mcp p) = cp_CLIExpression p" "cp_Name (as_mcp p) = cp_Name p"
  "cp_Action (as_mcp p) = cp_Action p" "cp_Mode (as_mcp p) = cp_Mode p"
  "cp_Message (as_mcp p) = cp_Message p"
  by (simp_all add: as_mcp_def)

lemma cel_cli_match_decided: "cel_cli_match T i p result st = cel_rule_decided T i (as_mcp p) result st"
  by (simp add: cel_cli_match_def cel_rule_decided_def Let_def)

lemma cel_cli_step_tool: "cel_cli_step env vars T i p st = cel_tool_step env vars T i (as_mcp p) st"
proof (cases "cp_CLIExpression p = ''''")
  case False
  then show ?thesis
    by (simp add: cel_cli_step_def cel_tool_step_def cel_rule_failed_def cel_cli_match_decided
        Let_def split: sum.split dyn.split)
qed (simp add: cel_cli_step_def cel_tool_step_def)

lemma cel_cli_loop_tool:
  "cel_cli_loop env vars T i ps st = cel_tool_loop env vars T i (map as_mcp ps) st"
  by (induction env vars T i ps st rule: cel_cli_loop.induct)
    (simp_all add: cel_cli_step_tool Let_def)

lemma first_allow_message_find:
  "first_allow_message rs =
     (case find (\<lambda>r. vr_Action r = PolicyActionAllow \<and> \<not> IsAuditOnly (vr_Mode r) \<and>
            vr_Message r \<noteq> '''') rs of Some r \<Rightarrow> vr_Message r | None \<Rightarrow> '''')"
  by (induction rs) auto

lemma cel_cli_finish_tool: "cel_cli_finish T n st = cel_tool_finish T n st"
  by (simp add: cel_cli_finish_def cel_tool_finish_def first_allow_message_find no_results_def
      Let_def split: prod.split option.split)

lemma cel_EvaluateCLICommand_run_all:
  "cel_EvaluateCLICommand env ps req T b =
     map_prod Inr id (cel_run_all env (BuildCLIContext req) (map as_mcp ps) T b)"
  by (simp add: cel_EvaluateCLICommand_def cel_run_all_def cel_cli_loop_tool cel_cli_finish_tool
      split: prod.split)

interpretation cel_cli: request_engine "cel_EvaluateCLICommand env ps req T"
  for env :: "('ast, 'prg) cel_env" and ps req T
  using cel_run_all_contract [of env "BuildCLIContext req" "map as_mcp ps" T]
  by (simp add: cel_EvaluateCLICommand_run_all [abs_def])

text \<open>An evaluator that ignores its variables gives the same run for any of them.\<close>

lemma cel_tool_step_fixed:
  "cel_tool_step (env\<lparr> cel_eval := \<lambda>prg vars. cel_eval env prg v \<rparr>) vars T i p st =
     cel_tool_step env v T i p st"
  by (auto simp: cel_tool_step_def split: sum.split)

lemma cel_tool_loop_fixed:
  "cel_tool_loop (env\<lparr> cel_eval := \<lambda>prg vars. cel_eval env prg v \<rparr>) vars T i ps st =
     cel_tool_loop env v T i ps st"
  by (induction ps arbitrary: i st) (simp_all add: cel_tool_step_fixed Let_def)

text \<open>
  The evaluation of a CLI command is the evaluation of a tool call in which each rule's CLI
  expression takes the place of its MCP expression and the variables are the CLI context: the two
  copies of the code decide, count, report and charge the budget identically.
\<close>

lemma cel_cli_agrees:
  "cel_EvaluateCLICommand env ps creq T b =
     cel_EvaluateToolCall (env\<lparr> cel_eval := \<lambda>prg vars. cel_eval env prg (BuildCLIContext creq) \<rparr>)
       (map as_mcp ps) treq T b"
  by (simp add: cel_EvaluateCLICommand_run_all cel_EvaluateToolCall_run_all cel_run_all_def
      cel_tool_loop_fixed)

section \<open>Masking of argument values\<close>

fun indexOf_from :: "int \<Rightarrow> string \<Rightarrow> char \<Rightarrow> int" where
  "indexOf_from i [] c = - 1"
| "indexOf_from i (x # s) c = (if x = c then i else indexOf_from (i + 1) s c)"

definition indexOf :: "string \<Rightarrow> char \<Rightarrow> int" where
  "indexOf s c = indexOf_from 0 s c"

fun extract_flags_loop :: "bool \<Rightarrow> string list \<Rightarrow> string list" where
  "extract_flags_loop skipNext [] = []"
| "extract_flags_loop skipNext (arg # args) =
     (if skipNext then ''[value]'' # extract_flags_loop False args
      else if arg \<noteq> [] \<and> hd arg = CHR ''-''
      then (if indexOf arg (CHR ''='') > 0
            then take (nat (indexOf arg (CHR ''=''))) arg # extract_flags_loop False args
            else arg # extract_flags_loop (args \<noteq> [] \<and> hd args \<noteq> [] \<and> hd (hd args) \<noteq> CHR ''-'') args)
      else arg # extract_flags_loop False args)"

definition extractCLIArgumentFlags :: "string list \<Rightarrow> string list" where
  "extractCLIArgumentFlags args = (if args = [] then [] else extract_flags_loop False args)"

text \<open>
  What the masking does to an argument, given the one before it: a flag loses what follows its
  "=", and the argument after a flag without "=" is replaced unless it is a flag itself.
\<close>

definition is_flag :: "string \<Rightarrow> bool" where
  "is_flag a \<longleftrightarrow> a \<noteq> [] \<and> hd a = CHR ''-''"

definition flag_value :: "string \<Rightarrow> string \<Rightarrow> bool" where
  "flag_value prev arg \<longleftrightarrow> is_flag prev \<and> CHR ''='' \<notin> set prev \<and> arg \<noteq> [] \<and> \<not> is_flag arg"

definition mask_arg :: "string \<Rightarrow> string \<Rightarrow> string" where
  "mask_arg prev arg =
     (if flag_value prev arg then ''[value]''
      else if is_flag arg then takeWhile (\<lambda>c. c \<noteq> CHR ''='') arg else arg)"

lemma indexOf_from_ge: "c \<in> set s \<Longrightarrow> i \<le> indexOf_from i s c"
  by (induction i s c rule: indexOf_from.induct) force+

lemma indexOf_from_none: "c \<notin> set s \<Longrightarrow> indexOf_from i s c = - 1"
  by (induction i s c rule: indexOf_from.induct) auto

lemma indexOf_from_take:
  "c \<in> set s \<Longrightarrow> take (nat (indexOf_from i s c - i)) s = takeWhile (\<lambda>x. x \<noteq> c) s"
proof (induction i s c rule: indexOf_from.induct)
  case (2 i x s c)
  show ?case
  proof (cases "x = c")
    case False
    with 2 have "c \<in> set s" by simp
    with False indexOf_from_ge [of c s "i + 1"]
    have "nat (indexOf_from i (x # s) c - i) = Suc (nat (indexOf_from (i + 1) s c - (i + 1)))"
      by simp
    with 2 False show ?thesis by simp
  qed simp
qed simp

lemma indexOf_flag:
  assumes "is_flag a"
  shows "indexOf a (CHR ''='') > 0 \<longleftrightarrow> CHR ''='' \<in> set a"
proof (cases a)
  case (Cons x a')
  with assms have "x \<noteq> CHR ''=''" by (auto simp: is_flag_def)
  with Cons indexOf_from_ge [of "CHR ''=''" a' 1] indexOf_from_none [of "CHR ''=''" a' 1]
  show ?thesis by (cases "CHR ''='' \<in> set a'") (auto simp: indexOf_def)
qed (use assms in \<open>simp add: is_flag_def\<close>)

lemma extract_flags_loop_map2:
  "extract_flags_loop (args \<noteq> [] \<and> flag_value prev (hd args)) args =
     map2 mask_arg (prev # args) args"
proof (induction args arbitrary: prev)
  case (Cons arg args)
  let ?E = "CHR ''=''"
  consider (masked) "flag_value prev arg"
    | (kv) "\<not> flag_value prev arg" "is_flag arg" "?E \<in> set arg"
    | (flag) "\<not> flag_value prev arg" "is_flag arg" "?E \<notin> set arg"
    | (positional) "\<not> flag_value prev arg" "\<not> is_flag arg" by blast
  then show ?case
  proof cases
    case masked
    then have "\<not> flag_value arg a" for a by (simp add: flag_value_def)
    with Cons.IH [of arg] have "extract_flags_loop False args = map2 mask_arg (arg # args) args"
      by simp
    with masked show ?thesis by (simp add: mask_arg_def)
  next
    case kv
    then have "\<not> flag_value arg a" for a by (simp add: flag_value_def)
    with Cons.IH [of arg] have "extract_flags_loop False args = map2 mask_arg (arg # args) args"
      by simp
    moreover from kv have "take (nat (indexOf arg ?E)) arg = takeWhile (\<lambda>c. c \<noteq> ?E) arg"
      using indexOf_from_take [of ?E arg 0] by (simp add: indexOf_def)
    moreover from kv have "indexOf arg ?E > 0" "arg \<noteq> [] \<and> hd arg = CHR ''-''"
      using indexOf_flag [of arg] by (simp_all add: is_flag_def)
    ultimately show ?thesis using kv by (simp add: mask_arg_def)
  next
    case flag
    have "extract_flags_loop (arg # args \<noteq> [] \<and> flag_value prev (hd (arg # args))) (arg # args) =
        arg # extract_flags_loop (args \<noteq> [] \<and> hd args \<noteq> [] \<and> hd (hd args) \<noteq> CHR ''-'') args"
      using flag(1) indexOf_flag [OF flag(2)] flag(3) flag(2) [unfolded is_flag_def]
      by (simp del: list.map zip_Cons_Cons)
    also have "(args \<noteq> [] \<and> hd args \<noteq> [] \<and> hd (hd args) \<noteq> CHR ''-'') =
        (args \<noteq> [] \<and> flag_value arg (hd args))"
      using flag by (auto simp: flag_value_def is_flag_def)
    also note Cons.IH
    finally have "extract_flags_loop (arg # args \<noteq> [] \<and> flag_value prev (hd (arg # args))) (arg # args) =
        arg # map2 mask_arg (arg # args) args" .
    moreover from flag have "takeWhile (\<lambda>c. c \<noteq> ?E) arg = arg"
      by (auto simp: takeWhile_eq_all_conv)
    with flag have "mask_arg prev arg = arg" by (simp add: mask_arg_def)
    ultimately show ?thesis by (simp only: zip_Cons_Cons list.map prod.case)
  next
    case positional
    then have "\<not> flag_value arg a" for a by (simp add: flag_value_def)
    with Cons.IH [of arg] have "extract_flags_loop False args = map2 mask_arg (arg # args) args"
      by simp
    moreover from positional have "\<not> (arg \<noteq> [] \<and> hd arg = CHR ''-'')" by (simp add: is_flag_def)
    ultimately show ?thesis using positional by (auto simp: mask_arg_def)
  qed
qed simp

text \<open>
  Masking for the logs keeps one entry per argument: a flag keeps only what is before its
  "=", a non-flag argument right after a flag without "=" becomes "[value]", and anything else
  is unchanged.
\<close>

lemma extract_flags_pointwise:
  "extractCLIArgumentFlags args = map2 mask_arg ('''' # args) args"
  using extract_flags_loop_map2 [of args "''''"]
  by (simp add: extractCLIArgumentFlags_def flag_value_def is_flag_def)

end
