(* ===== verification/JsonSanitize.thy ===== *)
theory JsonSanitize
  imports Prelude "HOL-Library.Sublist"
begin

text \<open>
  \<^verbatim>\<open>internal/gateway/json_sanitize.go\<close>: the repair of invalid escape sequences in the JSON an AI
  model returns, applied by both AI engines before decoding. The index loop is a recursion over
  the rest of the input that carries the byte before it (\<^verbatim>\<open>data[i-1]\<close>).
\<close>

abbreviation (input) quote_char :: char where "quote_char \<equiv> CHR 0x22"
abbreviation (input) backslash :: char where "backslash \<equiv> CHR 0x5C"

definition isValidJSONEscape :: "char \<Rightarrow> bool" where
  "isValidJSONEscape c \<longleftrightarrow>
     c \<in> {quote_char, backslash, CHR ''/'', CHR ''b'', CHR ''f'', CHR ''n'', CHR ''r'', CHR ''t'', CHR ''u''}"

fun sanitize_loop :: "char option \<Rightarrow> bool \<Rightarrow> string \<Rightarrow> string" where
  "sanitize_loop prev inString [] = []"
| "sanitize_loop prev inString (c # data) =
     (if c = quote_char \<and> prev \<noteq> Some backslash
      then c # sanitize_loop (Some c) (\<not> inString) data
      else if \<not> inString then c # sanitize_loop (Some c) inString data
      else if c = backslash
      then (case data of
              [] \<Rightarrow> [c]
            | nxt # data' \<Rightarrow>
                if isValidJSONEscape nxt then c # nxt # sanitize_loop (Some nxt) inString data'
                else backslash # backslash # nxt # sanitize_loop (Some nxt) inString data')
      else c # sanitize_loop (Some c) inString data)"

definition SanitizeJSONEscapes :: "string \<Rightarrow> string" where
  "SanitizeJSONEscapes data =
     (if backslash \<notin> set data then data else sanitize_loop None False data)"

text \<open>The fast path returns what the loop would.\<close>

lemma sanitize_loop_no_backslash: "backslash \<notin> set data \<Longrightarrow> sanitize_loop prev b data = data"
  by (induction prev b data rule: sanitize_loop.induct) auto

lemma SanitizeJSONEscapes_loop: "SanitizeJSONEscapes data = sanitize_loop None False data"
  by (simp add: SanitizeJSONEscapes_def sanitize_loop_no_backslash)

text \<open>Every backslash is followed by a character that may follow it, reading left to right.\<close>

fun escapes_ok :: "string \<Rightarrow> bool" where
  "escapes_ok [] = True"
| "escapes_ok [c] = True"
| "escapes_ok (c # n # s) =
     (if c = backslash then isValidJSONEscape n \<and> escapes_ok s else escapes_ok (n # s))"

text \<open>Outside a string the loop looks at one byte at a time, also in the middle of an escape.\<close>

lemma sanitize_loop_ok: "escapes_ok data \<Longrightarrow> sanitize_loop prev b data = data"
proof (induction data arbitrary: prev b rule: escapes_ok.induct)
  case (3 c n s)
  show ?case
  proof (cases "c = backslash")
    case True
    with 3 have "\<And>p b. sanitize_loop p b s = s" "isValidJSONEscape n" by auto
    with True show ?thesis by simp
  next
    case False
    with 3 have "\<And>p b. sanitize_loop p b (n # s) = n # s" by (simp del: sanitize_loop.simps)
    with False show ?thesis by (simp add: sanitize_loop.simps(2) [of prev b c "n # s"] del: sanitize_loop.simps)
  qed
qed auto

lemma sanitize_loop_idem: "sanitize_loop prev b (sanitize_loop prev b data) = sanitize_loop prev b data"
proof (induction prev b data rule: sanitize_loop.induct)
  case (2 prev inString c data)
  show ?case
  proof (cases "inString \<and> c = backslash")
    case True
    then show ?thesis using 2 by (cases data) (auto simp: isValidJSONEscape_def)
  next
    case False
    with 2 show ?thesis by auto
  qed
qed simp

lemma sanitize_loop_subseq: "subseq data (sanitize_loop prev b data)"
proof (induction prev b data rule: sanitize_loop.induct)
  case (2 prev inString c data)
  show ?case
  proof (cases "inString \<and> c = backslash")
    case True
    then show ?thesis using 2 by (cases data) (auto intro: list_emb_Cons)
  next
    case False
    with 2 show ?thesis by auto
  qed
qed simp

text \<open>
  The repair is idempotent, only inserts bytes (the input is a subsequence of the output), and
  leaves every input alone whose escapes are all valid.
\<close>

lemma sanitize_conservative:
  "SanitizeJSONEscapes (SanitizeJSONEscapes data) = SanitizeJSONEscapes data \<and>
   subseq data (SanitizeJSONEscapes data) \<and>
   (escapes_ok data \<longrightarrow> SanitizeJSONEscapes data = data)"
  by (simp add: SanitizeJSONEscapes_loop sanitize_loop_idem sanitize_loop_subseq sanitize_loop_ok)

lemma sanitize_conservative_witness:
  "SanitizeJSONEscapes [quote_char, backslash, CHR ''n'', quote_char] =
     [quote_char, backslash, CHR ''n'', quote_char]"
  using sanitize_conservative [of "[quote_char, backslash, CHR ''n'', quote_char]"]
  by (simp add: isValidJSONEscape_def)

text \<open>
  The closing quote of a string that ends in an escaped backslash is taken for an escaped quote,
  so that an invalid escape in the next string is not repaired: \<^verbatim>\<open>"\\" "\W"\<close> stays as it is,
  while \<^verbatim>\<open>"\W"\<close> alone is repaired.
\<close>

lemma sanitize_misses_escape:
  "SanitizeJSONEscapes [quote_char, backslash, CHR ''W'', quote_char] =
     [quote_char, backslash, backslash, CHR ''W'', quote_char] \<and>
   SanitizeJSONEscapes [quote_char, backslash, backslash, quote_char, CHR '' '',
       quote_char, backslash, CHR ''W'', quote_char] =
     [quote_char, backslash, backslash, quote_char, CHR '' '',
       quote_char, backslash, CHR ''W'', quote_char]"
  by (simp add: SanitizeJSONEscapes_def isValidJSONEscape_def)

end
