(* ===== verification/AIEngine.thy ===== *)
theory AIEngine
  imports EngineContract Loading CELCli JsonSanitize
begin

text \<open>
  \<^verbatim>\<open>internal/gateway/ai_engine.go\<close>: loading of the AI request rules and their evaluation against
  a tool call. Each rule runs in a goroutine of its own; the engine collects the results from a
  buffered channel until the enforcing rules have answered, one of them denies, or the blocking
  deadline passes, and hands what is left to a background collector.

  The provider client, the JSON library and \<^verbatim>\<open>fmt\<close>'s \<^verbatim>\<open>%v\<close> are parameters (\<open>ai_env\<close>). A schedule
  fixes when the goroutines send and when the 100 ms timer fires (\<open>deliver\<close>); the clock is a
  function of the loop iteration. Every theorem holds for every schedule and clock.
\<close>

section \<open>Operations and provider requests\<close>

record Operation =
  op_Type :: string
  op_Name :: string
  op_Arguments :: dyn

definition NewMCPOperation :: "CallToolRequest \<Rightarrow> Operation" where
  "NewMCPOperation req =
     \<lparr> op_Type = ''mcp_tool'', op_Name = ToolName req, op_Arguments = Arguments req \<rparr>"

definition NewCLIOperation :: "CLIValidationRequest \<Rightarrow> Operation" where
  "NewCLIOperation req =
     \<lparr> op_Type = ''cli'', op_Name = Command req, op_Arguments = DList (map DString (CArguments req)) \<rparr>"

record AIRequest =
  Model :: string
  UserPrompt :: string
  ResponseSchema :: dyn
  Parameters :: "(string \<times> dyn) list"

record AICompletionResult =
  ParsedJSON :: string
  ProviderRequestID :: string

record AIResponse =
  ai_Allowed :: bool
  ai_Message :: string

text \<open>
  What the engine calls: \<open>Generate i timeout request\<close> is the answer to the \<open>i\<close>-th goroutine's
  request under a timeout in nanoseconds, with the time it took.
\<close>

record ai_env =
  ai_Generate :: "nat \<Rightarrow> int \<Rightarrow> AIRequest \<Rightarrow> int \<times> (go_error + AICompletionResult)"
  ai_Unmarshal :: "string \<Rightarrow> go_error + AIResponse"
  ai_MarshalIndent :: "Operation \<Rightarrow> go_error + string"
  ai_Sprint :: "dyn \<Rightarrow> string"
  ai_Schema :: dyn

record ai_config =
  cfg_Model :: string
  cfg_Parameters :: "(string \<times> dyn) list"
  maxRuleEvaluationMs :: int

abbreviation (input) newline :: string where "newline \<equiv> [CHR 0x0A]"

definition formatOperation :: "ai_env \<Rightarrow> Operation \<Rightarrow> string" where
  "formatOperation env op =
     (case ai_MarshalIndent env op of
        Inl err \<Rightarrow> ''Type: '' @ op_Type op @ newline @ ''Name: '' @ op_Name op @ newline @
                   ''Arguments: '' @ ai_Sprint env (op_Arguments op)
      | Inr jsonBytes \<Rightarrow> jsonBytes)"

section \<open>Loading\<close>

record AIPolicy =
  ap_Name :: string
  ap_Description :: string
  ap_Prompt :: string
  ap_Action :: PolicyAction
  ap_Message :: string
  ap_Mode :: PolicyMode

definition ai_check_policy :: "PolicyMode \<Rightarrow> ConfigAIPolicy \<Rightarrow> load_error + AIPolicy option" where
  "ai_check_policy topLevelMode policy =
     (if \<not> AIPolicy_IsEnabled policy then Inr None
      else let effectiveMode = ResolvePolicyMode topLevelMode (cap_Mode policy)
      in if Contains (cap_Prompt policy) ''%s'' then Inl (PromptPlaceholder (cap_Name policy))
      else if cap_Action policy \<noteq> PolicyActionAllow \<and> cap_Action policy \<noteq> PolicyActionDeny
      then Inl (InvalidAction (cap_Action policy) (cap_Name policy))
      else Inr (Some \<lparr> ap_Name = cap_Name policy, ap_Description = cap_Description policy,
             ap_Prompt = cap_Prompt policy, ap_Action = cap_Action policy,
             ap_Message = cap_Message policy, ap_Mode = effectiveMode \<rparr>))"

definition ai_LoadPolicies ::
  "PolicyMode \<Rightarrow> AIPolicy list \<Rightarrow> ConfigAIPolicy list \<Rightarrow> load_error option \<times> AIPolicy list" where
  "ai_LoadPolicies topLevelMode loaded policies =
     load_rules cap_Name (ai_check_policy topLevelMode) topLevelMode loaded policies"

interpretation ai_rules: rule_loader ai_LoadPolicies ap_Mode cap_Name
  unfolding ai_LoadPolicies_def [abs_def]
  by (rule load_rules_contract) (auto simp: ai_check_policy_def Let_def split: if_splits)

section \<open>One rule\<close>

record aiRuleResult =
  res_rule :: string
  res_action :: PolicyAction
  res_mode :: PolicyMode
  res_result :: string
  res_message :: string
  res_evaluationMs :: int
  res_err :: "go_error option"
  res_errCategory :: string
  res_providerRequestID :: string

text \<open>The result of a goroutine whose call or whose decoding failed.\<close>

definition ai_rule_error :: "AIPolicy \<Rightarrow> int \<Rightarrow> go_error \<Rightarrow> string \<Rightarrow> aiRuleResult" where
  "ai_rule_error p durationMs err errCategory =
     \<lparr> res_rule = ap_Name p, res_action = ap_Action p, res_mode = ap_Mode p,
       res_result = ''error'', res_message = '''', res_evaluationMs = durationMs,
       res_err = Some err, res_errCategory = errCategory, res_providerRequestID = '''' \<rparr>"

definition ai_ruleTimeout :: "ai_config \<Rightarrow> int" where
  "ai_ruleTimeout cfg =
     (let ruleTimeout = maxRuleEvaluationMs cfg * 1000000
      in if ruleTimeout \<le> 0 then 10 * 1000000000 else ruleTimeout)"

text \<open>The body of the goroutine of one policy.\<close>

definition ai_rule_eval :: "ai_env \<Rightarrow> ai_config \<Rightarrow> string \<Rightarrow> nat \<Rightarrow> AIPolicy \<Rightarrow> aiRuleResult" where
  "ai_rule_eval env cfg operationStr i p =
     (let userPrompt = ap_Prompt p @ newline @ newline @ ''Tool call:'' @ newline @ operationStr
      in case ai_Generate env i (ai_ruleTimeout cfg)
                \<lparr> Model = cfg_Model cfg, UserPrompt = userPrompt,
                  ResponseSchema = ai_Schema env, Parameters = cfg_Parameters cfg \<rparr> of
        (elapsed, Inl err) \<Rightarrow>
          ai_rule_error p (Milliseconds elapsed) err (classifyProviderError err)
      | (elapsed, Inr result) \<Rightarrow>
          (case ai_Unmarshal env (SanitizeJSONEscapes (ParsedJSON result)) of
             Inl err \<Rightarrow> ai_rule_error p (Milliseconds elapsed) err ''parse_error''
           | Inr aiResp \<Rightarrow>
               \<lparr> res_rule = ap_Name p, res_action = ap_Action p, res_mode = ap_Mode p,
                 res_result =
                   (if ap_Action p = PolicyActionDeny
                    then (if ai_Allowed aiResp then ''allow'' else ''deny'')
                    else (if ai_Allowed aiResp then ''allow'' else ''deny'')),
                 res_message = ai_Message aiResp, res_evaluationMs = Milliseconds elapsed,
                 res_err = None, res_errCategory = '''',
                 res_providerRequestID = ProviderRequestID result \<rparr>))"

definition ai_launch :: "(nat \<Rightarrow> AIPolicy \<Rightarrow> aiRuleResult) \<Rightarrow> AIPolicy list \<Rightarrow> aiRuleResult list" where
  "ai_launch eval policies = map2 eval [0..<length policies] policies"

section \<open>Collecting the results\<close>

definition ai_audit_result :: "aiRuleResult \<Rightarrow> AuditAIRuleResult" where
  "ai_audit_result result =
     \<lparr> aair_Rule = res_rule result, aair_Action = res_action result,
       aair_Mode = (if res_mode result = PolicyModeAuditOnly then ''audit_only'' else ''''),
       aair_Result = res_result result, aair_EvaluationMs = res_evaluationMs result,
       aair_Error = (case res_err result of
                       None \<Rightarrow> ''''
                     | Some err \<Rightarrow> formatAuditError (res_errCategory result) (Some err)) \<rparr>"

text \<open>The loops that remember the last non-empty provider request id.\<close>

definition ai_track_id :: "string \<Rightarrow> aiRuleResult \<Rightarrow> string" where
  "ai_track_id lastRequestID result =
     (if res_providerRequestID result \<noteq> '''' then res_providerRequestID result else lastRequestID)"

text \<open>The background collector when every policy is \<^verbatim>\<open>audit_only\<close>.\<close>

definition ai_collect_all :: "int \<Rightarrow> int \<Rightarrow> phase \<Rightarrow> aiRuleResult list \<Rightarrow> AsyncCompletion" where
  "ai_collect_all now evalStartTime phaseTracker rs =
     (let evaluationMs = snd (fst (phase_finalize now evalStartTime phaseTracker))
      in \<lparr> ac_AIDetails = Some
             \<lparr> aai_Action = ''allow'', aai_BlockedMs = 0, aai_EvaluationMs = evaluationMs,
               aai_DecidingRule = '''', aai_Reason = '''',
               aai_RequestID = foldl ai_track_id '''' rs,
               aai_Results = map (\<lambda>r. (ai_audit_result r)\<lparr> aair_Mode := ''audit_only'' \<rparr>) rs \<rparr>,
           ac_EvaluationMs = evaluationMs \<rparr>)"

text \<open>The local variables of the collecting loop.\<close>

record ai_run =
  air_auditResults :: "AuditAIRuleResult list"
  air_decidingRule :: string
  air_decidingReason :: string
  air_blockedMs :: int
  air_decided :: bool
  air_finalAction :: string
  air_auditOnlyDeny :: bool
  air_failedOpen :: bool
  air_lastRequestID :: string
  air_remainingEnabled :: int
  air_remainingTotal :: int
  air_phase :: phase
  air_async :: "AsyncCompletion option"

definition ai_run_init :: "phase \<Rightarrow> bool \<Rightarrow> int \<Rightarrow> int \<Rightarrow> ai_run" where
  "ai_run_init ph exh enabledPolicies totalPolicies =
     \<lparr> air_auditResults = [], air_decidingRule = '''', air_decidingReason = '''',
       air_blockedMs = 0, air_decided = exh, air_finalAction = ''allow'',
       air_auditOnlyDeny = False, air_failedOpen = exh, air_lastRequestID = '''',
       air_remainingEnabled = enabledPolicies, air_remainingTotal = totalPolicies,
       air_phase = ph, air_async = None \<rparr>"

text \<open>\<open>blockingDeadline\<close> is \<open>None\<close> when it is the zero time.\<close>

definition ai_check_deadline :: "int \<Rightarrow> int option \<Rightarrow> clock \<Rightarrow> nat \<Rightarrow> ai_run \<Rightarrow> ai_run" where
  "ai_check_deadline evalStartTime blockingDeadline T n st =
     (if \<not> air_decided st \<and> (case blockingDeadline of None \<Rightarrow> False | Some d \<Rightarrow> T n 0 > d)
      then st\<lparr> air_phase := phase_mark (T n 1) (air_phase st),
               air_blockedMs := Milliseconds (T n 2 - evalStartTime), air_decided := True,
               air_finalAction := ''allow'', air_failedOpen := True \<rparr>
      else st)"

definition ai_check_enabled :: "int \<Rightarrow> clock \<Rightarrow> nat \<Rightarrow> ai_run \<Rightarrow> ai_run" where
  "ai_check_enabled evalStartTime T n st =
     (if \<not> air_decided st \<and> air_remainingEnabled st = 0
      then st\<lparr> air_phase := phase_mark (T n 3) (air_phase st),
               air_blockedMs := Milliseconds (T n 4 - evalStartTime), air_decided := True \<rparr>
      else st)"

text \<open>The background collector of the results a decision did not wait for.\<close>

definition ai_collect_rest :: "int \<Rightarrow> int \<Rightarrow> aiRuleResult list \<Rightarrow> ai_run \<Rightarrow> AsyncCompletion" where
  "ai_collect_rest now evalStartTime channel st =
     (let rs = take (nat (air_remainingTotal st)) channel;
          evaluationMs = Milliseconds (now - evalStartTime)
      in \<lparr> ac_AIDetails = Some
             \<lparr> aai_Action = air_finalAction st, aai_BlockedMs = air_blockedMs st,
               aai_EvaluationMs = evaluationMs,
               aai_DecidingRule = (if air_decidingRule st \<noteq> '''' then air_decidingRule st else ''''),
               aai_Reason = (if air_decidingRule st \<noteq> '''' then air_decidingReason st else ''''),
               aai_RequestID = foldl ai_track_id (air_lastRequestID st) rs,
               aai_Results = air_auditResults st @ map ai_audit_result rs \<rparr>,
           ac_EvaluationMs = evaluationMs \<rparr>)"

text \<open>A result received by the loop.\<close>

definition ai_receive :: "int \<Rightarrow> clock \<Rightarrow> nat \<Rightarrow> aiRuleResult \<Rightarrow> ai_run \<Rightarrow> ai_run" where
  "ai_receive evalStartTime T n result st =
     (let st1 = st\<lparr> air_remainingTotal := air_remainingTotal st - 1,
            air_remainingEnabled := (if \<not> IsAuditOnly (res_mode result)
                                     then air_remainingEnabled st - 1 else air_remainingEnabled st),
            air_auditResults := air_auditResults st @ [ai_audit_result result],
            air_lastRequestID := ai_track_id (air_lastRequestID st) result,
            air_auditOnlyDeny := (if res_mode result = PolicyModeAuditOnly \<and> res_result result = ''deny''
                                  then True else air_auditOnlyDeny st) \<rparr>
      in if \<not> air_decided st1 \<and> \<not> IsAuditOnly (res_mode result)
         then (if res_result result = ''deny''
               then st1\<lparr> air_phase := phase_mark (T n 5) (air_phase st1),
                         air_blockedMs := Milliseconds (T n 6 - evalStartTime),
                         air_decided := True, air_finalAction := ''deny'',
                         air_decidingRule := res_rule result,
                         air_decidingReason := res_message result \<rparr>
               else if res_result result = ''error'' then st1\<lparr> air_failedOpen := True \<rparr>
               else st1)
         else st1)"

text \<open>Leaving the loop with results still to come.\<close>

definition ai_break :: "int \<Rightarrow> int \<Rightarrow> int \<Rightarrow> aiRuleResult list \<Rightarrow> ai_run \<Rightarrow> ai_run" where
  "ai_break auditOnlyPolicies now evalStartTime channel st =
     (if auditOnlyPolicies > 0 \<and> air_remainingTotal st > 0
      then st\<lparr> air_async := Some (ai_collect_rest now evalStartTime channel st) \<rparr>
      else st)"

text \<open>
  The top of an iteration: \<open>Inl\<close> when the loop ends (its condition fails, or it breaks, leaving
  the rest to the collector when there are \<^verbatim>\<open>audit_only\<close> policies), \<open>Inr\<close> when it goes on to
  the select.
\<close>

definition ai_turn ::
  "int \<Rightarrow> int option \<Rightarrow> int \<Rightarrow> clock \<Rightarrow> nat \<Rightarrow> aiRuleResult event list \<Rightarrow> ai_run \<Rightarrow> ai_run + ai_run" where
  "ai_turn evalStartTime blockingDeadline auditOnlyPolicies T n es st =
     (if \<not> air_remainingTotal st > 0 then Inl st
      else let st1 = ai_check_enabled evalStartTime T n
                       (ai_check_deadline evalStartTime blockingDeadline T n st)
      in if air_decided st1 \<and> air_remainingTotal st1 > 0
         then Inl (ai_break auditOnlyPolicies (T n 7) evalStartTime (received es) st1)
         else Inr st1)"

text \<open>The loop; \<open>None\<close> would be waiting forever for results that no goroutine sends.\<close>

fun ai_loop ::
  "int \<Rightarrow> int option \<Rightarrow> int \<Rightarrow> clock \<Rightarrow> nat \<Rightarrow> aiRuleResult event list \<Rightarrow> ai_run \<Rightarrow> ai_run option" where
  "ai_loop t0 dl ao T n [] st =
     (case ai_turn t0 dl ao T n [] st of Inl st' \<Rightarrow> Some st' | Inr st1 \<Rightarrow> None)"
| "ai_loop t0 dl ao T n (Tick # es) st =
     (case ai_turn t0 dl ao T n (Tick # es) st of
        Inl st' \<Rightarrow> Some st' | Inr st1 \<Rightarrow> ai_loop t0 dl ao T (Suc n) es st1)"
| "ai_loop t0 dl ao T n (Recv result # es) st =
     (case ai_turn t0 dl ao T n (Recv result # es) st of
        Inl st' \<Rightarrow> Some st'
      | Inr st1 \<Rightarrow> ai_loop t0 dl ao T (Suc n) es (ai_receive t0 T n result st1))"

text \<open>The code after the loop.\<close>

definition ai_finish :: "int \<Rightarrow> int \<Rightarrow> ai_run \<Rightarrow> ValidationResults \<times> BlockingBudget option" where
  "ai_finish evalStartTime now st =
     (case phase_finalize now evalStartTime (air_phase st) of
        ((trackedBlockedMs, evaluationMs), ph) \<Rightarrow>
      let blockedMs = (if air_phase st \<noteq> None then trackedBlockedMs
                       else if \<not> air_decided st then Milliseconds (now - evalStartTime)
                       else air_blockedMs st);
          results = no_results\<lparr> Async := air_async st \<rparr>;
          results1 =
            (if Async results = None
             then results\<lparr> AIDetails := Some
                    \<lparr> aai_Action = air_finalAction st, aai_BlockedMs = blockedMs,
                      aai_EvaluationMs = evaluationMs,
                      aai_DecidingRule = (if air_decidingRule st \<noteq> '''' then air_decidingRule st else ''''),
                      aai_Reason = (if air_decidingRule st \<noteq> '''' then air_decidingReason st else ''''),
                      aai_RequestID = air_lastRequestID st, aai_Results = air_auditResults st \<rparr> \<rparr>
             else results);
          results2 = results1\<lparr> Allowed := (air_finalAction st = ''allow''),
                               FailedOpen := air_failedOpen st \<rparr>
      in (if air_finalAction st = ''deny''
          then results2\<lparr> Message := ''Maybe Don't, A policy failed.'', DenyCount := 1,
                          RecommendedAction := PolicyActionDeny \<rparr>
          else if air_failedOpen st
          then results2\<lparr> Message := ''AI validation failed, allowing request (fail-open)'',
                          AllowCount := 1 \<rparr>
          else if air_auditOnlyDeny st
          then results2\<lparr> AuditModeBypass := True, RecommendedAction := PolicyActionDeny,
                          Message := ''AI policy would deny but mode is audit_only'',
                          AllowCount := 1 \<rparr>
          else results2\<lparr> Message := ''All policies passed, maybe do.'', AllowCount := 1,
                          RecommendedAction := PolicyActionAllow \<rparr>,
          phase_budget ph))"

section \<open>Evaluation of a tool call\<close>

definition ai_EvaluateToolCall ::
  "ai_env \<Rightarrow> ai_config \<Rightarrow> AIPolicy list \<Rightarrow> CallToolRequest \<Rightarrow> nat option list \<Rightarrow> clock \<Rightarrow>
     BlockingBudget option \<Rightarrow> ((go_error + ValidationResults) \<times> BlockingBudget option) option" where
  "ai_EvaluateToolCall env cfg policies req sch T budget =
     (if policies = []
      then Some (Inr (no_results\<lparr> Allowed := True, Message := ''No policies configured'' \<rparr>), budget)
      else
      let phaseTracker = phase_start (T 0 0) budget;
          evalStartTime = T 0 1;
          enabledPolicies = int (length (filter (\<lambda>p. \<not> IsAuditOnly (ap_Mode p)) policies));
          auditOnlyPolicies = int (length (filter (\<lambda>p. IsAuditOnly (ap_Mode p)) policies));
          allAuditOnly = (enabledPolicies = 0 \<and> auditOnlyPolicies > 0);
          operationStr = formatOperation env (NewMCPOperation req);
          es = deliver sch (ai_launch (ai_rule_eval env cfg operationStr) policies)
      in if allAuditOnly
      then let ph = phase_mark (T 0 2) phaseTracker
           in Some (Inr (no_results\<lparr> Allowed := True,
                  Message := ''All policies are audit_only, proceeding without blocking'',
                  AllowCount := 1,
                  Async := Some (ai_collect_all (T 0 3) evalStartTime ph (received es)) \<rparr>),
                phase_budget ph)
      else case budget of
        None \<Rightarrow> Some (Inl (PlainError ''BlockingBudget is required for AI validation - this indicates a code path that bypasses budget initialization''), None)
      | Some b \<Rightarrow>
          let blockingDeadline = (if IsExhausted b then None else Some (BlockingDeadline (T 0 4) b));
              st = ai_run_init phaseTracker (IsExhausted b) enabledPolicies (int (length policies))
          in map_option (map_prod Inr id \<circ> ai_finish evalStartTime (T 0 5))
               (ai_loop evalStartTime blockingDeadline auditOnlyPolicies T 1 es st))"

section \<open>What the loop computes\<close>

definition enforced :: "aiRuleResult \<Rightarrow> bool" where
  "enforced r \<longleftrightarrow> \<not> IsAuditOnly (res_mode r)"

definition ai_denies :: "aiRuleResult \<Rightarrow> bool" where
  "ai_denies r \<longleftrightarrow> enforced r \<and> res_result r = ''deny''"

definition ai_fails :: "aiRuleResult \<Rightarrow> bool" where
  "ai_fails r \<longleftrightarrow> enforced r \<and> res_result r = ''error''"

definition audit_denies :: "aiRuleResult \<Rightarrow> bool" where
  "audit_denies r \<longleftrightarrow> \<not> enforced r \<and> res_result r = ''deny''"

text \<open>No reading of the clock in the loop is after the deadline.\<close>

definition in_time :: "int option \<Rightarrow> clock \<Rightarrow> bool" where
  "in_time dl T \<longleftrightarrow> (\<forall>n. case dl of None \<Rightarrow> True | Some d \<Rightarrow> T n 0 \<le> d)"

text \<open>The state at the start of an iteration that has made no decision yet.\<close>

definition ai_waiting :: "aiRuleResult event list \<Rightarrow> ai_run \<Rightarrow> bool" where
  "ai_waiting es st \<longleftrightarrow> \<not> air_decided st \<and> air_finalAction st = ''allow'' \<and> air_async st = None \<and>
     air_remainingTotal st = int (length (received es)) \<and>
     air_remainingEnabled st = int (length (filter enforced (received es)))"

text \<open>What the rest of the loop makes of the results \<open>rs\<close> still to come, in order of arrival.\<close>

definition ai_verdict :: "bool \<Rightarrow> aiRuleResult list \<Rightarrow> ai_run \<Rightarrow> ai_run \<Rightarrow> bool" where
  "ai_verdict ontime rs st st' \<longleftrightarrow>
     (air_finalAction st' = ''deny'' \<and>
        (\<exists>r \<in> set rs. ai_denies r \<and> air_decidingRule st' = res_rule r \<and> air_decidingReason st' = res_message r) \<or>
      air_finalAction st' = ''allow'' \<and>
        (ontime \<longrightarrow> (\<forall>r \<in> set rs. \<not> ai_denies r) \<and>
           air_failedOpen st' = (air_failedOpen st \<or> (\<exists>r \<in> set rs. ai_fails r)))) \<and>
     (air_auditOnlyDeny st' \<longrightarrow> air_auditOnlyDeny st \<or> (\<exists>r \<in> set rs. audit_denies r))"

definition ai_trail :: "int \<Rightarrow> aiRuleResult list \<Rightarrow> ai_run \<Rightarrow> ai_run \<Rightarrow> bool" where
  "ai_trail ao rs st st' \<longleftrightarrow>
     (case air_async st' of
        Some c \<Rightarrow> \<exists>d. ac_AIDetails c = Some d \<and> aai_Action d = air_finalAction st' \<and>
          aai_Results d = air_auditResults st @ map ai_audit_result rs
      | None \<Rightarrow> \<exists>k \<le> length rs. (0 < ao \<longrightarrow> k = length rs) \<and>
          air_auditResults st' = air_auditResults st @ map ai_audit_result (take k rs))"

lemma ai_turn_cases:
  assumes "ai_waiting es st"
  obtains (Wait) "ai_turn t0 dl ao T n es st = Inr st" "0 < air_remainingTotal st"
      "\<exists>r \<in> set (received es). enforced r"
  | (Empty) "ai_turn t0 dl ao T n es st = Inl st" "received es = []"
  | (Expired) st1 where "\<not> in_time dl T" "ai_turn t0 dl ao T n es st = Inl (ai_break ao (T n 7) t0 (received es) st1)"
      "st1 = st\<lparr> air_phase := phase_mark (T n 1) (air_phase st),
         air_blockedMs := Milliseconds (T n 2 - t0), air_decided := True,
         air_finalAction := ''allow'', air_failedOpen := True \<rparr>"
  | (Complete) st1 where "\<forall>r \<in> set (received es). \<not> enforced r"
      "ai_turn t0 dl ao T n es st = Inl (ai_break ao (T n 7) t0 (received es) st1)"
      "st1 = st\<lparr> air_phase := phase_mark (T n 3) (air_phase st),
         air_blockedMs := Milliseconds (T n 4 - t0), air_decided := True \<rparr>"
proof -
  let ?exp = "case dl of None \<Rightarrow> False | Some d \<Rightarrow> T n 0 > d"
  note w = assms [unfolded ai_waiting_def]
  have late: "\<not> in_time dl T" if ?exp
    using that by (auto simp: in_time_def not_le split: option.splits)
  consider "received es = []" | "received es \<noteq> []" ?exp
    | "received es \<noteq> []" "\<not> ?exp" "air_remainingEnabled st = 0"
    | "received es \<noteq> []" "\<not> ?exp" "air_remainingEnabled st \<noteq> 0" by blast
  then show thesis
  proof cases
    case 1
    with w show ?thesis by (intro Empty) (auto simp: ai_turn_def)
  next
    case 2
    with w late show ?thesis
      by (intro Expired) (auto simp: ai_turn_def ai_check_deadline_def ai_check_enabled_def Let_def)
  next
    case 3
    with w have "\<forall>r \<in> set (received es). \<not> enforced r" by (simp add: filter_empty_conv)
    with 3 w show ?thesis
      by (intro Complete) (auto simp: ai_turn_def ai_check_deadline_def ai_check_enabled_def Let_def)
  next
    case 4
    with w have "\<exists>r \<in> set (received es). enforced r" by (auto simp: filter_empty_conv)
    with 4 w show ?thesis
      by (intro Wait) (auto simp: ai_turn_def ai_check_deadline_def ai_check_enabled_def Let_def)
  qed
qed

text \<open>Leaving the loop.\<close>

lemma ai_break_sel [simp]:
  "air_finalAction (ai_break ao now t0 rs st) = air_finalAction st"
  "air_failedOpen (ai_break ao now t0 rs st) = air_failedOpen st"
  "air_auditOnlyDeny (ai_break ao now t0 rs st) = air_auditOnlyDeny st"
  "air_auditResults (ai_break ao now t0 rs st) = air_auditResults st"
  "air_decidingRule (ai_break ao now t0 rs st) = air_decidingRule st"
  "air_decidingReason (ai_break ao now t0 rs st) = air_decidingReason st"
  "air_phase (ai_break ao now t0 rs st) = air_phase st"
  by (simp_all add: ai_break_def)

lemma ai_break_trail:
  assumes "air_async st = None" "air_remainingTotal st = int (length rs)"
    "air_auditResults st = air_auditResults st0"
  shows "ai_trail ao rs st0 (ai_break ao now t0 rs st)"
  using assms by (cases "rs = []") (auto simp: ai_trail_def ai_break_def ai_collect_rest_def Let_def)

lemma ai_loop_decided:
  assumes "air_decided st" "air_remainingTotal st = int (length (received es))"
  shows "ai_loop t0 dl ao T n es st = Some (ai_break ao (T n 7) t0 (received es) st)"
proof -
  have "ai_turn t0 dl ao T n es st = Inl (ai_break ao (T n 7) t0 (received es) st)"
    using assms by (auto simp: ai_turn_def ai_break_def ai_check_deadline_def ai_check_enabled_def Let_def)
  then show ?thesis by (cases "(t0, dl, ao, T, n, es, st)" rule: ai_loop.cases) auto
qed

text \<open>The effect of a result, by whether it denies.\<close>

lemma ai_receive_deny:
  assumes "ai_waiting (Recv r # es) st" "ai_denies r" and st1: "st1 = ai_receive t0 T n r st"
  shows "air_decided st1" "air_finalAction st1 = ''deny''" "air_decidingRule st1 = res_rule r"
    "air_decidingReason st1 = res_message r" "air_async st1 = None"
    "air_remainingTotal st1 = int (length (received es))"
    "air_auditResults st1 = air_auditResults st @ [ai_audit_result r]"
    "air_auditOnlyDeny st1 = air_auditOnlyDeny st"
    "budget_step_opt (phase_budget (air_phase st)) (phase_budget (air_phase st1))"
  using assms
  by (auto simp: st1 ai_receive_def ai_waiting_def ai_denies_def enforced_def IsAuditOnly_def Let_def)

lemma ai_receive_wait:
  assumes "ai_waiting (Recv r # es) st" "\<not> ai_denies r" and st1: "st1 = ai_receive t0 T n r st"
  shows "ai_waiting es st1" "air_auditResults st1 = air_auditResults st @ [ai_audit_result r]"
    "air_failedOpen st1 = (air_failedOpen st \<or> ai_fails r)"
    "air_auditOnlyDeny st1 = (air_auditOnlyDeny st \<or> audit_denies r)"
    "air_phase st1 = air_phase st"
  using assms
  by (auto simp: st1 ai_receive_def ai_waiting_def ai_denies_def ai_fails_def audit_denies_def
      enforced_def IsAuditOnly_def Let_def)

lemma ai_trail_Cons:
  assumes "ai_trail ao rs st1 st'" "air_auditResults st1 = air_auditResults st @ [ai_audit_result r]"
  shows "ai_trail ao (r # rs) st st'"
proof (cases "air_async st'")
  case None
  with assms obtain k where "k \<le> length rs" "0 < ao \<longrightarrow> k = length rs"
    "air_auditResults st' = air_auditResults st @ map ai_audit_result (take (Suc k) (r # rs))"
    by (auto simp: ai_trail_def)
  with None show ?thesis unfolding ai_trail_def by (auto intro!: exI [of _ "Suc k"])
qed (use assms in \<open>auto simp: ai_trail_def\<close>)

lemma ai_loop_spec:
  assumes "ai_waiting es st"
  shows "\<exists>st'. ai_loop t0 dl ao T n es st = Some st' \<and>
    ai_verdict (in_time dl T) (received es) st st' \<and> ai_trail ao (received es) st st' \<and>
    budget_step_opt (phase_budget (air_phase st)) (phase_budget (air_phase st'))"
  using assms
proof (induction es arbitrary: n st)
  case Nil
  then have "ai_turn t0 dl ao T n [] st = Inl st" by (simp add: ai_turn_def ai_waiting_def)
  with Nil show ?case by (auto simp: ai_verdict_def ai_trail_def ai_waiting_def)
next
  case (Cons e es)
  have leave: ?case if "ai_turn t0 dl ao T n (e # es) st = Inl (ai_break ao (T n 7) t0 (received (e # es)) st1)"
    "air_async st1 = None" "air_remainingTotal st1 = int (length (received (e # es)))"
    "air_auditResults st1 = air_auditResults st" "ai_verdict (in_time dl T) (received (e # es)) st st1"
    "budget_step_opt (phase_budget (air_phase st)) (phase_budget (air_phase st1))" for st1
  proof -
    have "ai_loop t0 dl ao T n (e # es) st = Some (ai_break ao (T n 7) t0 (received (e # es)) st1)"
      using that(1) by (cases e) auto
    with that(2-) ai_break_trail [of st1 "received (e # es)" st] show ?thesis
      by (auto simp: ai_verdict_def)
  qed
  from Cons.prems show ?case
  proof (cases rule: ai_turn_cases [where ?t0.0 = t0 and dl = dl and ao = ao and T = T and n = n, consumes 1])
    case Wait
    show ?thesis
    proof (cases e)
      case Tick
      with Cons.prems have "ai_waiting es st" by (simp add: ai_waiting_def)
      from Cons.IH [OF this, of "Suc n"] Wait Tick show ?thesis by auto
    next
      case (Recv r)
      note w = Cons.prems [unfolded Recv]
      let ?st = "ai_receive t0 T n r st"
      have step: "ai_loop t0 dl ao T n (e # es) st = ai_loop t0 dl ao T (Suc n) es ?st"
        using Wait Recv by simp
      show ?thesis
      proof (cases "ai_denies r")
        case True
        note d = ai_receive_deny [OF w True refl, of t0 T n]
        have "ai_loop t0 dl ao T (Suc n) es ?st = Some (ai_break ao (T (Suc n) 7) t0 (received es) ?st)"
          by (rule ai_loop_decided [OF d(1,6)])
        moreover have "ai_trail ao (received (e # es)) st (ai_break ao (T (Suc n) 7) t0 (received es) ?st)"
          using ai_trail_Cons [OF ai_break_trail [OF d(5,6) refl] d(7)] Recv by simp
        ultimately show ?thesis using d True Recv step
          by (intro exI [of _ "ai_break ao (T (Suc n) 7) t0 (received es) ?st"])
            (auto simp: ai_verdict_def)
      next
        case False
        note f = ai_receive_wait [OF w False refl, of t0 T n]
        from Cons.IH [OF f(1), of "Suc n"] obtain st' where
          st': "ai_loop t0 dl ao T (Suc n) es ?st = Some st'"
            "ai_verdict (in_time dl T) (received es) ?st st'" "ai_trail ao (received es) ?st st'"
            "budget_step_opt (phase_budget (air_phase ?st)) (phase_budget (air_phase st'))"
          by blast
        moreover have "ai_verdict (in_time dl T) (received (e # es)) st st'"
          using st'(2) f(3,4) False Recv by (auto simp: ai_verdict_def)
        moreover have "ai_trail ao (received (e # es)) st st'"
          using ai_trail_Cons [OF st'(3) f(2)] Recv by simp
        ultimately show ?thesis using step f(5) by auto
      qed
    qed
  next
    case Empty
    then have "ai_loop t0 dl ao T n (e # es) st = Some st" by (cases e) auto
    with Empty Cons.prems show ?thesis
      by (auto simp: ai_verdict_def ai_trail_def ai_waiting_def)
  next
    case (Expired st1)
    with Cons.prems show ?thesis
      by (intro leave [of st1]) (auto simp: ai_waiting_def ai_verdict_def)
  next
    case (Complete st1)
    with Cons.prems show ?thesis
      by (intro leave [of st1]) (auto simp: ai_waiting_def ai_verdict_def ai_denies_def ai_fails_def)
  qed
qed

section \<open>The evaluation for any evaluator of one rule\<close>

text \<open>
  The evaluation of a list of policies, given the body of the goroutine. \<open>ai_rule_evaluator\<close> is
  what the engine relies on: a result names its rule and carries its mode.
\<close>

definition ai_evaluate ::
  "(nat \<Rightarrow> AIPolicy \<Rightarrow> aiRuleResult) \<Rightarrow> AIPolicy list \<Rightarrow> nat option list \<Rightarrow> clock \<Rightarrow>
     BlockingBudget option \<Rightarrow> ((go_error + ValidationResults) \<times> BlockingBudget option) option" where
  "ai_evaluate eval policies sch T budget =
     (let es = deliver sch (ai_launch eval policies);
          enabledPolicies = int (length (filter (\<lambda>p. \<not> IsAuditOnly (ap_Mode p)) policies));
          auditOnlyPolicies = int (length (filter (\<lambda>p. IsAuditOnly (ap_Mode p)) policies))
      in if policies = []
      then Some (Inr (no_results\<lparr> Allowed := True, Message := ''No policies configured'' \<rparr>), budget)
      else if enabledPolicies = 0 \<and> auditOnlyPolicies > 0
      then Some (Inr (no_results\<lparr> Allowed := True,
                  Message := ''All policies are audit_only, proceeding without blocking'',
                  AllowCount := 1,
                  Async := Some (ai_collect_all (T 0 3) (T 0 1)
                             (phase_mark (T 0 2) (phase_start (T 0 0) budget)) (received es)) \<rparr>),
                phase_budget (phase_mark (T 0 2) (phase_start (T 0 0) budget)))
      else case budget of
        None \<Rightarrow> Some (Inl (PlainError ''BlockingBudget is required for AI validation - this indicates a code path that bypasses budget initialization''), None)
      | Some b \<Rightarrow>
          map_option (map_prod Inr id \<circ> ai_finish (T 0 1) (T 0 5))
            (ai_loop (T 0 1) (if IsExhausted b then None else Some (BlockingDeadline (T 0 4) b))
               auditOnlyPolicies T 1 es
               (ai_run_init (phase_start (T 0 0) budget) (IsExhausted b) enabledPolicies
                  (int (length policies)))))"

lemma ai_EvaluateToolCall_evaluate:
  "ai_EvaluateToolCall env cfg ps req sch T b =
     ai_evaluate (ai_rule_eval env cfg (formatOperation env (NewMCPOperation req))) ps sch T b"
  by (simp add: ai_EvaluateToolCall_def ai_evaluate_def Let_def split: option.split)

text \<open>The verdict of the final state.\<close>

lemma ai_finish_results:
  "\<exists>v b'. ai_finish t0 now st = (v, b') \<and> budget_step_opt (phase_budget (air_phase st)) b' \<and>
     Allowed v = (air_finalAction st = ''allow'') \<and> FailedOpen v = air_failedOpen st \<and>
     Async v = air_async st \<and>
     DenyCount v = (if air_finalAction st = ''deny'' then 1 else 0) \<and> 0 \<le> AllowCount v \<and>
     (RecommendedAction v = PolicyActionDeny \<longleftrightarrow> air_finalAction st = ''deny'' \<or> AuditModeBypass v) \<and>
     (AuditModeBypass v \<longleftrightarrow> air_finalAction st \<noteq> ''deny'' \<and> \<not> air_failedOpen st \<and> air_auditOnlyDeny st) \<and>
     (air_async st = None \<longrightarrow> (\<exists>d. AIDetails v = Some d \<and> aai_Results d = air_auditResults st))"
proof -
  obtain tb ev ph where f: "phase_finalize now t0 (air_phase st) = ((tb, ev), ph)" by (metis surj_pair)
  then have "budget_step_opt (phase_budget (air_phase st)) (phase_budget ph)" by (rule phase_finalize_budget)
  then show ?thesis by (simp add: ai_finish_def f no_results_def Let_def)
qed

text \<open>The loop as the evaluation starts it.\<close>

lemma ai_loop_start_waiting:
  assumes "length (received es) = tot" "length (filter enforced (received es)) = en"
  shows "ai_waiting es (ai_run_init ph False (int en) (int tot))"
  using assms by (simp add: ai_waiting_def ai_run_init_def)

lemma ai_loop_start_exhausted:
  assumes "length (received es) = tot"
  shows "ai_loop t0 dl ao T n es (ai_run_init ph True en (int tot)) =
     Some (ai_break ao (T n 7) t0 (received es) (ai_run_init ph True en (int tot)))"
  by (rule ai_loop_decided) (use assms in \<open>simp_all add: ai_run_init_def\<close>)

lemma deliver_filter [simp]: "length (filter P (received (deliver sch rs))) = length (filter P rs)"
  by (metis mset_filter mset_received_deliver size_mset)

text \<open>
  What an evaluation promises of the results \<open>rs\<close> of its goroutines, whatever their order.
\<close>

definition ai_meets :: "bool \<Rightarrow> aiRuleResult list \<Rightarrow> ValidationResults \<Rightarrow> bool" where
  "ai_meets ontime rs v \<longleftrightarrow>
     (if Allowed v
      then DenyCount v = 0 \<and>
        (ontime \<longrightarrow> (\<forall>r \<in> set rs. \<not> ai_denies r) \<and> FailedOpen v = (\<exists>r \<in> set rs. ai_fails r))
      else DenyCount v = 1 \<and> RecommendedAction v = PolicyActionDeny \<and> \<not> AuditModeBypass v \<and>
        (\<exists>r \<in> set rs. ai_denies r)) \<and>
     0 \<le> AllowCount v \<and>
     (AuditModeBypass v \<longrightarrow> Allowed v \<and> RecommendedAction v = PolicyActionDeny \<and>
        (\<exists>r \<in> set rs. audit_denies r))"

definition ai_on_time :: "BlockingBudget option \<Rightarrow> clock \<Rightarrow> bool" where
  "ai_on_time budget T \<longleftrightarrow>
     (case budget of None \<Rightarrow> True
      | Some b \<Rightarrow> \<not> exhausted b \<and> in_time (Some (BlockingDeadline (T 0 4) b)) T)"

definition ai_trail_of :: "ValidationResults \<Rightarrow> AuditAIResult option" where
  "ai_trail_of v = (case Async v of Some c \<Rightarrow> ac_AIDetails c | None \<Rightarrow> AIDetails v)"

lemma ai_finish_meets:
  assumes "ai_verdict ontime rs st0 st" "\<not> air_failedOpen st0" "\<not> air_auditOnlyDeny st0"
    "ai_finish t0 now st = (v, b')" "set rs = set rs'"
  shows "ai_meets ontime rs' v"
  using ai_finish_results [of t0 now st] assms by (auto simp: ai_verdict_def ai_meets_def)

lemma ai_finish_trail:
  assumes "ai_trail ao rs st0 st" "air_auditResults st0 = []" "0 < ao" "ai_finish t0 now st = (v, b')"
  shows "\<exists>d. ai_trail_of v = Some d \<and> aai_Results d = map ai_audit_result rs"
  using ai_finish_results [of t0 now st] assms
  by (cases "air_async st") (auto simp: ai_trail_def ai_trail_of_def)

lemma ai_audit_result_Rule [simp]: "aair_Rule (ai_audit_result r) = res_rule r"
  by (simp add: ai_audit_result_def)

locale ai_rule_evaluator =
  fixes eval :: "nat \<Rightarrow> AIPolicy \<Rightarrow> aiRuleResult"
  assumes mode_law: "res_mode (eval i p) = ap_Mode p"
    and name_law: "res_rule (eval i p) = ap_Name p"
begin

lemma enforced_eval [simp]: "enforced (eval i p) \<longleftrightarrow> \<not> IsAuditOnly (ap_Mode p)"
  by (simp add: enforced_def mode_law)

lemma length_launch [simp]: "length (ai_launch eval ps) = length ps"
  by (simp add: ai_launch_def)

lemma set_launch: "set (ai_launch eval ps) = {eval i (ps ! i) |i. i < length ps}"
  by (force simp: ai_launch_def set_zip)

lemma launch_enforced:
  "length (filter enforced (ai_launch eval ps)) = length (filter (\<lambda>p. \<not> IsAuditOnly (ap_Mode p)) ps)"
proof -
  have "filter enforced (ai_launch eval ps) =
      map (\<lambda>(i, p). eval i p) (filter ((\<lambda>p. \<not> IsAuditOnly (ap_Mode p)) \<circ> snd) (zip [0..<length ps] ps))"
    unfolding ai_launch_def filter_map by (rule arg_cong [where f = "map _"], rule filter_cong) auto
  then show ?thesis
    using arg_cong [OF filter_map [of "\<lambda>p. \<not> IsAuditOnly (ap_Mode p)" snd "zip [0..<length ps] ps"],
        of length] by simp
qed

lemma launch_names: "map res_rule (ai_launch eval ps) = map ap_Name ps"
proof -
  have "map res_rule (ai_launch eval ps) = map (ap_Name \<circ> snd) (zip [0..<length ps] ps)"
    by (auto simp: ai_launch_def name_law)
  also have "\<dots> = map ap_Name (map snd (zip [0..<length ps] ps))" by (simp only: map_map)
  also have "map snd (zip [0..<length ps] ps) = ps" by simp
  finally show ?thesis .
qed

lemma received_names:
  "mset (map res_rule (received (deliver sch (ai_launch eval ps)))) = mset (map ap_Name ps)"
  by (metis launch_names mset_map mset_received_deliver)

lemma no_enforced_result:
  assumes "\<forall>p \<in> set ps. IsAuditOnly (ap_Mode p)" "r \<in> set (ai_launch eval ps)"
  shows "\<not> ai_denies r \<and> \<not> ai_fails r"
  using assms by (auto simp: set_launch ai_denies_def ai_fails_def)

text \<open>Each way the evaluation can go.\<close>

lemma evaluate_audit_only:
  assumes "\<forall>p \<in> set ps. IsAuditOnly (ap_Mode p)"
  shows "\<exists>v b'. ai_evaluate eval ps sch T b = Some (Inr v, b') \<and> budget_step_opt b b' \<and>
    ai_meets True (ai_launch eval ps) v \<and>
    (ps \<noteq> [] \<longrightarrow> (\<exists>d. ai_trail_of v = Some d \<and> mset (map aair_Rule (aai_Results d)) = mset (map ap_Name ps)))"
proof (cases "ps = []")
  case True
  then show ?thesis by (simp add: ai_evaluate_def ai_meets_def no_results_def ai_launch_def)
next
  case False
  with assms have f: "filter (\<lambda>p. \<not> IsAuditOnly (ap_Mode p)) ps = []"
    "filter (\<lambda>p. IsAuditOnly (ap_Mode p)) ps = ps" by (auto simp: filter_empty_conv)
  have m: "phase_budget (phase_start (T 0 0) b) = b" by simp
  show ?thesis
    using False f no_enforced_result [OF assms] received_names [of sch ps]
      phase_mark_step [of "phase_start (T 0 0) b" "T 0 2"]
    by (simp add: ai_evaluate_def ai_meets_def no_results_def ai_trail_of_def ai_collect_all_def
        Let_def multiset.map_comp comp_def del: phase_mark_step)
qed

lemma evaluate_no_budget:
  assumes "p \<in> set ps" "\<not> IsAuditOnly (ap_Mode p)"
  shows "\<exists>e. ai_evaluate eval ps sch T None = Some (Inl e, None)"
  using assms by (auto simp: ai_evaluate_def Let_def filter_empty_conv)

lemma evaluate_exhausted:
  assumes "p \<in> set ps" "\<not> IsAuditOnly (ap_Mode p)" "exhausted b"
  shows "\<exists>v. ai_evaluate eval ps sch T (Some b) = Some (Inr v, Some b) \<and> Allowed v \<and> FailedOpen v \<and>
    ai_meets False (ai_launch eval ps) v \<and>
    ((\<exists>p \<in> set ps. IsAuditOnly (ap_Mode p)) \<longrightarrow>
      (\<exists>d. ai_trail_of v = Some d \<and> mset (map aair_Rule (aai_Results d)) = mset (map ap_Name ps)))"
proof -
  let ?es = "deliver sch (ai_launch eval ps)" and ?ph = "phase_start (T 0 0) (Some b)"
  let ?ao = "int (length (filter (\<lambda>p. IsAuditOnly (ap_Mode p)) ps))"
  let ?en = "int (length (filter (\<lambda>p. \<not> IsAuditOnly (ap_Mode p)) ps))"
  let ?st0 = "ai_run_init ?ph True ?en (int (length ps))"
  let ?st = "ai_break ?ao (T 1 7) (T 0 1) (received ?es) ?st0"
  obtain v b' where v: "ai_finish (T 0 1) (T 0 5) ?st = (v, b')" by (metis surj_pair)
  have "ai_trail ?ao (received ?es) ?st0 ?st"
    by (rule ai_break_trail) (simp_all add: ai_run_init_def)
  note trail = ai_finish_trail [OF this _ _ v]
  have "ai_evaluate eval ps sch T (Some b) = Some (Inr v, b')"
    using assms v ai_loop_start_exhausted [of ?es "length ps" "T 0 1" None ?ao T 1 ?ph ?en]
    by (auto simp: ai_evaluate_def Let_def filter_empty_conv IsExhausted_def)
  moreover have "budget_step_opt (Some b) b'"
    using ai_finish_results [of "T 0 1" "T 0 5" ?st] v by (auto simp: ai_run_init_def)
  with assms(3) have "b' = Some b" by (auto simp: budget_step_def)
  moreover have "Allowed v" "FailedOpen v" "DenyCount v = 0" "0 \<le> AllowCount v" "\<not> AuditModeBypass v"
    using ai_finish_results [of "T 0 1" "T 0 5" ?st] v by (auto simp: ai_run_init_def)
  moreover have "\<exists>d. ai_trail_of v = Some d \<and> mset (map aair_Rule (aai_Results d)) = mset (map ap_Name ps)"
    if "\<exists>p \<in> set ps. IsAuditOnly (ap_Mode p)"
  proof -
    from that have "0 < ?ao" by (auto simp: filter_empty_conv)
    with trail received_names [of sch ps] show ?thesis by (auto simp: ai_run_init_def multiset.map_comp comp_def)
  qed
  ultimately show ?thesis by (simp add: ai_meets_def)
qed

lemma evaluate_waiting:
  assumes "p \<in> set ps" "\<not> IsAuditOnly (ap_Mode p)" "\<not> exhausted b"
  shows "\<exists>v b'. ai_evaluate eval ps sch T (Some b) = Some (Inr v, Some b') \<and> budget_step b b' \<and>
    ai_meets (ai_on_time (Some b) T) (ai_launch eval ps) v \<and>
    ((\<exists>p \<in> set ps. IsAuditOnly (ap_Mode p)) \<longrightarrow>
      (\<exists>d. ai_trail_of v = Some d \<and> mset (map aair_Rule (aai_Results d)) = mset (map ap_Name ps)))"
proof -
  let ?es = "deliver sch (ai_launch eval ps)" and ?ph = "phase_start (T 0 0) (Some b)"
  let ?ao = "int (length (filter (\<lambda>p. IsAuditOnly (ap_Mode p)) ps))"
  let ?en = "length (filter (\<lambda>p. \<not> IsAuditOnly (ap_Mode p)) ps)"
  let ?dl = "Some (BlockingDeadline (T 0 4) b)"
  let ?st0 = "ai_run_init ?ph False (int ?en) (int (length ps))"
  have "ai_waiting ?es ?st0"
    by (rule ai_loop_start_waiting) (simp_all add: launch_enforced)
  from ai_loop_spec [OF this, of "T 0 1" ?dl ?ao T 1] obtain st where
    st: "ai_loop (T 0 1) ?dl ?ao T 1 ?es ?st0 = Some st"
      "ai_verdict (in_time ?dl T) (received ?es) ?st0 st" "ai_trail ?ao (received ?es) ?st0 st"
      "budget_step_opt (phase_budget ?ph) (phase_budget (air_phase st))"
    by (auto simp: ai_run_init_def)
  obtain v ob where v: "ai_finish (T 0 1) (T 0 5) st = (v, ob)" by (metis surj_pair)
  have "ai_evaluate eval ps sch T (Some b) = Some (Inr v, ob)"
    using assms v st(1) by (auto simp: ai_evaluate_def Let_def filter_empty_conv IsExhausted_def)
  moreover have "budget_step_opt (Some b) ob"
  proof -
    have "budget_step_opt (Some b) (phase_budget (air_phase st))" using st(4) by simp
    also have "budget_step_opt (phase_budget (air_phase st)) ob"
      using ai_finish_results [of "T 0 1" "T 0 5" st] v by auto
    finally show ?thesis .
  qed
  moreover have "ai_meets (in_time ?dl T) (ai_launch eval ps) v"
    by (rule ai_finish_meets [OF st(2) _ _ v]) (simp_all add: ai_run_init_def)
  moreover have "\<exists>d. ai_trail_of v = Some d \<and> mset (map aair_Rule (aai_Results d)) = mset (map ap_Name ps)"
    if "\<exists>p \<in> set ps. IsAuditOnly (ap_Mode p)"
  proof -
    from that have "0 < ?ao" by (auto simp: filter_empty_conv)
    with ai_finish_trail [OF st(3) _ _ v] received_names [of sch ps] show ?thesis
      by (auto simp: ai_run_init_def multiset.map_comp comp_def)
  qed
  ultimately show ?thesis using assms(3) by (auto simp: ai_on_time_def)
qed

text \<open>All cases together, and the contract of a request engine.\<close>

lemma evaluate_spec:
  "\<exists>out b'. ai_evaluate eval ps sch T b = Some (out, b') \<and> budget_step_opt b b' \<and>
     (isl out \<longleftrightarrow> b = None \<and> (\<exists>p \<in> set ps. \<not> IsAuditOnly (ap_Mode p))) \<and>
     (\<not> isl out \<longrightarrow> ai_meets (ai_on_time b T) (ai_launch eval ps) (projr out) \<and>
        ((\<exists>p \<in> set ps. IsAuditOnly (ap_Mode p)) \<longrightarrow>
          (\<exists>d. ai_trail_of (projr out) = Some d \<and>
             mset (map aair_Rule (aai_Results d)) = mset (map ap_Name ps))))"
proof (cases "\<forall>p \<in> set ps. IsAuditOnly (ap_Mode p)")
  case True
  from evaluate_audit_only [OF this, of sch T b] obtain v b' where
    v: "ai_evaluate eval ps sch T b = Some (Inr v, b')" "budget_step_opt b b'"
      "ai_meets True (ai_launch eval ps) v"
      "ps \<noteq> [] \<longrightarrow> (\<exists>d. ai_trail_of v = Some d \<and> mset (map aair_Rule (aai_Results d)) = mset (map ap_Name ps))"
    by blast
  from v(3) have "ai_meets (ai_on_time b T) (ai_launch eval ps) v"
    by (auto simp: ai_meets_def split: if_splits)
  with v True show ?thesis by auto
next
  case False
  then obtain p where p: "p \<in> set ps" "\<not> IsAuditOnly (ap_Mode p)" by blast
  show ?thesis
  proof (cases b)
    case None
    with p evaluate_no_budget [OF p, of sch T] show ?thesis by auto
  next
    case (Some b0)
    show ?thesis
    proof (cases "exhausted b0")
      case True
      with evaluate_exhausted [OF p True, of sch T] Some show ?thesis
        by (auto simp: ai_on_time_def)
    next
      case False
      from evaluate_waiting [OF p False, of sch T] Some show ?thesis by auto
    qed
  qed
qed

lemma evaluate_contract: "request_engine (\<lambda>b. the (ai_evaluate eval ps sch T b))"
proof
  fix b
  show "budget_step_opt b (snd (the (ai_evaluate eval ps sch T b)))"
    using evaluate_spec [of ps sch T b] by auto
next
  fix b v assume "fst (the (ai_evaluate eval ps sch T b)) = Inr v"
  with evaluate_spec [of ps sch T b] have m: "ai_meets (ai_on_time b T) (ai_launch eval ps) v" by auto
  show "0 \<le> AllowCount v \<and> 0 \<le> DenyCount v" and "Allowed v \<longleftrightarrow> DenyCount v = 0"
    and "\<not> Allowed v \<Longrightarrow> RecommendedAction v = PolicyActionDeny"
    and "AuditModeBypass v \<Longrightarrow> Allowed v \<and> RecommendedAction v = PolicyActionDeny"
    using m by (auto simp: ai_meets_def split: if_splits)
qed

end

section \<open>The tool call evaluation\<close>

interpretation ai_tool_rule: ai_rule_evaluator "ai_rule_eval env cfg operationStr"
  for env cfg operationStr
  by unfold_locales
    (auto simp: ai_rule_eval_def ai_rule_error_def Let_def split: prod.split sum.split)

definition ai_tool_engine ::
  "ai_env \<Rightarrow> ai_config \<Rightarrow> AIPolicy list \<Rightarrow> CallToolRequest \<Rightarrow> nat option list \<Rightarrow> clock \<Rightarrow> engine" where
  "ai_tool_engine env cfg ps req sch T = (\<lambda>b. the (ai_EvaluateToolCall env cfg ps req sch T b))"

interpretation ai_tool: request_engine "ai_tool_engine env cfg ps req sch T"
  for env cfg ps req sch T
  unfolding ai_tool_engine_def ai_EvaluateToolCall_evaluate
  by (rule ai_tool_rule.evaluate_contract)

text \<open>The answers of the goroutines of a tool call.\<close>

definition ai_answers :: "ai_env \<Rightarrow> ai_config \<Rightarrow> AIPolicy list \<Rightarrow> CallToolRequest \<Rightarrow> aiRuleResult list" where
  "ai_answers env cfg ps req =
     ai_launch (ai_rule_eval env cfg (formatOperation env (NewMCPOperation req))) ps"

text \<open>
  C19. The AI engine returns under every schedule of goroutines, timers and clock readings: the
  collecting loop never waits for a result nobody sends. It returns an error exactly when an
  enforcing rule is loaded and no budget is given, and it only ever charges the budget.
\<close>

theorem ai_tool_call_returns:
  "\<exists>out b'. ai_EvaluateToolCall env cfg ps req sch T b = Some (out, b') \<and>
     budget_step_opt b b' \<and>
     (isl out \<longleftrightarrow> b = None \<and> (\<exists>p \<in> set ps. \<not> IsAuditOnly (ap_Mode p)))"
  using ai_tool_rule.evaluate_spec [of env cfg "formatOperation env (NewMCPOperation req)" ps sch T b]
  by (auto simp: ai_EvaluateToolCall_evaluate)

text \<open>
  The AI engine denies a tool call only if the answer of an enforcing rule is a denial, whatever
  the order of arrival, the timeouts and the budget; an \<^verbatim>\<open>audit_only\<close> rule never denies, and the
  bypass flag is only set when an \<^verbatim>\<open>audit_only\<close> rule answered with a denial.
\<close>

lemma ai_denial_sound:
  "case ai_EvaluateToolCall env cfg ps req sch T b of
     Some (Inr v, _) \<Rightarrow>
       (if Allowed v then DenyCount v = 0
        else DenyCount v = 1 \<and> (\<exists>r \<in> set (ai_answers env cfg ps req). ai_denies r)) \<and>
       (if AuditModeBypass v
        then Allowed v \<and> (\<exists>r \<in> set (ai_answers env cfg ps req). audit_denies r) else True)
   | Some (Inl e, _) \<Rightarrow> b = None
   | None \<Rightarrow> False"
proof -
  obtain out b' where o: "ai_EvaluateToolCall env cfg ps req sch T b = Some (out, b')"
    "isl out \<longrightarrow> b = None" "\<not> isl out \<longrightarrow> ai_meets (ai_on_time b T) (ai_answers env cfg ps req) (projr out)"
    using ai_tool_rule.evaluate_spec [of env cfg "formatOperation env (NewMCPOperation req)" ps sch T b]
    by (auto simp: ai_EvaluateToolCall_evaluate ai_answers_def)
  then show ?thesis by (cases out) (auto simp: ai_meets_def)
qed

text \<open>
  C18. As long as no clock reading is after the blocking deadline, the verdict does not depend on the
  schedule: the call is allowed exactly when no enforcing rule's answer is a denial, and an allowed
  call has failed open exactly when some enforcing rule could not answer.
\<close>

theorem ai_verdict_independent_of_order:
  assumes "\<not> exhausted b" and "in_time (Some (BlockingDeadline (T 0 4) b)) T"
  shows "\<exists>v b'. ai_EvaluateToolCall env cfg ps req sch T (Some b) = Some (Inr v, Some b') \<and>
     (Allowed v \<longleftrightarrow> (\<forall>r \<in> set (ai_answers env cfg ps req). \<not> ai_denies r)) \<and>
     (Allowed v \<longrightarrow> FailedOpen v = (\<exists>r \<in> set (ai_answers env cfg ps req). ai_fails r))"
proof -
  from assms have ot: "ai_on_time (Some b) T" by (simp add: ai_on_time_def)
  obtain out b' where o: "ai_EvaluateToolCall env cfg ps req sch T (Some b) = Some (out, Some b')"
    "\<not> isl out" "ai_meets True (ai_answers env cfg ps req) (projr out)"
    using ai_tool_rule.evaluate_spec [of env cfg "formatOperation env (NewMCPOperation req)" ps sch T "Some b"] ot
    by (auto simp: ai_EvaluateToolCall_evaluate ai_answers_def)
  then show ?thesis by (cases out) (auto simp: ai_meets_def split: if_splits)
qed

text \<open>
  An exhausted budget never blocks a request on the AI rules: the call is allowed, as a failure
  to decide when an enforcing rule is loaded, and the budget is left as it is.
\<close>

lemma ai_exhausted_fails_open:
  assumes "exhausted b"
  shows "\<exists>v. ai_EvaluateToolCall env cfg ps req sch T (Some b) = Some (Inr v, Some b) \<and> Allowed v \<and>
     FailedOpen v = (\<exists>p \<in> set ps. \<not> IsAuditOnly (ap_Mode p))"
proof (cases "\<exists>p \<in> set ps. \<not> IsAuditOnly (ap_Mode p)")
  case True
  then obtain p where "p \<in> set ps" "\<not> IsAuditOnly (ap_Mode p)" by blast
  from ai_tool_rule.evaluate_exhausted [OF this assms, of env cfg "formatOperation env (NewMCPOperation req)" sch T]
  show ?thesis using True by (auto simp: ai_EvaluateToolCall_evaluate)
next
  case False
  then have a: "\<forall>p \<in> set ps. IsAuditOnly (ap_Mode p)" by blast
  obtain v b' where v: "ai_EvaluateToolCall env cfg ps req sch T (Some b) = Some (Inr v, b')"
    "budget_step_opt (Some b) b'" "ai_meets True (ai_answers env cfg ps req) v"
    using ai_tool_rule.evaluate_audit_only [OF a, of env cfg "formatOperation env (NewMCPOperation req)" sch T "Some b"]
    by (auto simp: ai_EvaluateToolCall_evaluate ai_answers_def)
  moreover from v(2) assms have "b' = Some b" by (auto simp: budget_step_def)
  ultimately show ?thesis using False ai_tool_rule.no_enforced_result [OF a]
    by (auto simp: ai_meets_def ai_answers_def split: if_splits)
qed

text \<open>
  When some loaded rule is \<^verbatim>\<open>audit_only\<close>, the audit trail is complete: the details delivered with
  the results, or later on the completion channel, hold one entry for each loaded rule, whenever
  the decision was made.
\<close>

lemma ai_audit_trail_complete:
  assumes "\<exists>p \<in> set ps. IsAuditOnly (ap_Mode p)"
  shows "case ai_EvaluateToolCall env cfg ps req sch T b of
       Some (Inr v, _) \<Rightarrow> \<exists>d. ai_trail_of v = Some d \<and>
         mset (map aair_Rule (aai_Results d)) = mset (map ap_Name ps)
     | Some (Inl e, _) \<Rightarrow> b = None
     | None \<Rightarrow> False"
proof -
  obtain out b' where o: "ai_EvaluateToolCall env cfg ps req sch T b = Some (out, b')"
    "isl out \<longrightarrow> b = None" "\<not> isl out \<longrightarrow> (\<exists>d. ai_trail_of (projr out) = Some d \<and>
       mset (map aair_Rule (aai_Results d)) = mset (map ap_Name ps))"
    using ai_tool_rule.evaluate_spec [of env cfg "formatOperation env (NewMCPOperation req)" ps sch T b] assms
    by (auto simp: ai_EvaluateToolCall_evaluate)
  then show ?thesis by (cases out) auto
qed

text \<open>
  An AI phase configured \<^verbatim>\<open>audit_only\<close> never blocks: whatever rules are loaded under it and
  whatever the model answers, each call is allowed without failing open, also without a budget.
\<close>

lemma ai_audit_only_phase_allows:
  "\<exists>v b'. ai_EvaluateToolCall env cfg (snd (ai_LoadPolicies PolicyModeAuditOnly [] cps)) req sch T b =
       Some (Inr v, b') \<and> Allowed v \<and> \<not> FailedOpen v \<and> DenyCount v = 0"
proof -
  let ?ps = "snd (ai_LoadPolicies PolicyModeAuditOnly [] cps)"
  have a: "\<forall>p \<in> set ?ps. IsAuditOnly (ap_Mode p)"
    using ai_rules.audit_only_phase [of PolicyModeAuditOnly _ cps] by (simp add: IsAuditOnly_def)
  from ai_tool_rule.evaluate_audit_only [OF a, of env cfg "formatOperation env (NewMCPOperation req)" sch T b]
    ai_tool_rule.no_enforced_result [OF a]
  show ?thesis by (auto simp: ai_EvaluateToolCall_evaluate ai_meets_def split: if_splits)
qed

section \<open>Instances\<close>

text \<open>A provider that refuses everything, and one policy of each mode.\<close>

definition refusing_env :: ai_env where
  "refusing_env =
     \<lparr> ai_Generate = \<lambda>i timeout req. (0, Inr \<lparr> ParsedJSON = '''', ProviderRequestID = '''' \<rparr>),
       ai_Unmarshal = \<lambda>s. Inr \<lparr> ai_Allowed = False, ai_Message = ''no'' \<rparr>,
       ai_MarshalIndent = \<lambda>op. Inr (op_Name op), ai_Sprint = \<lambda>d. '''', ai_Schema = DNil \<rparr>"

definition sample_cfg :: ai_config where
  "sample_cfg = \<lparr> cfg_Model = ''m'', cfg_Parameters = [], maxRuleEvaluationMs = 1000 \<rparr>"

definition sample_policy :: "PolicyMode \<Rightarrow> AIPolicy" where
  "sample_policy mode = \<lparr> ap_Name = ''rule'', ap_Description = '''', ap_Prompt = ''check'',
     ap_Action = PolicyActionDeny, ap_Message = '''', ap_Mode = mode \<rparr>"

definition sample_call :: CallToolRequest where
  "sample_call = \<lparr> Method = ''tools/call'', ToolName = ''rm'', Arguments = DNil, Meta = None \<rparr>"

lemmas sample_defs = refusing_env_def sample_cfg_def sample_policy_def sample_call_def

lemma ai_verdict_independent_of_order_witness:
  "\<exists>v b'. ai_EvaluateToolCall refusing_env sample_cfg [sample_policy PolicyModeEnforce] sample_call
      [None, Some 0] (\<lambda>n k. 0) (Some (NewBlockingBudget 0 1000)) = Some (Inr v, Some b') \<and> \<not> Allowed v"
proof -
  have r: "\<exists>r \<in> set (ai_answers refusing_env sample_cfg [sample_policy PolicyModeEnforce] sample_call). ai_denies r"
    by (simp add: sample_defs ai_answers_def ai_launch_def ai_rule_eval_def ai_denies_def enforced_def
        IsAuditOnly_def)
  have b: "\<not> exhausted (NewBlockingBudget 0 1000)"
    "in_time (Some (BlockingDeadline 0 (NewBlockingBudget 0 1000))) (\<lambda>n k. 0)"
    by (simp_all add: NewBlockingBudget_def in_time_def BlockingDeadline_def)
  show ?thesis
    using ai_verdict_independent_of_order [of "NewBlockingBudget 0 1000" "\<lambda>n k. 0" refusing_env sample_cfg
        "[sample_policy PolicyModeEnforce]" sample_call "[None, Some 0]"] r b by auto
qed

lemma ai_exhausted_fails_open_witness:
  "\<exists>v. ai_EvaluateToolCall refusing_env sample_cfg [sample_policy PolicyModeEnforce] sample_call
      [] (\<lambda>n k. 0) (Some ((NewBlockingBudget 0 0)\<lparr> exhausted := True \<rparr>)) =
        Some (Inr v, Some ((NewBlockingBudget 0 0)\<lparr> exhausted := True \<rparr>)) \<and> Allowed v \<and> FailedOpen v"
  using ai_exhausted_fails_open [of "(NewBlockingBudget 0 0)\<lparr> exhausted := True \<rparr>" refusing_env sample_cfg
      "[sample_policy PolicyModeEnforce]" sample_call "[]" "\<lambda>n k. 0"]
  by (simp add: sample_policy_def IsAuditOnly_def)

lemma ai_audit_trail_complete_witness:
  "case ai_EvaluateToolCall refusing_env sample_cfg
       [sample_policy PolicyModeAuditOnly, sample_policy PolicyModeEnforce] sample_call
       [Some 1] (\<lambda>n k. 0) (Some (NewBlockingBudget 0 1000)) of
     Some (Inr v, _) \<Rightarrow> \<exists>d. ai_trail_of v = Some d \<and> mset (map aair_Rule (aai_Results d)) = mset [''rule'', ''rule'']
   | _ \<Rightarrow> False"
  using ai_audit_trail_complete [where ps = "[sample_policy PolicyModeAuditOnly, sample_policy PolicyModeEnforce]"
      and env = refusing_env and cfg = sample_cfg and req = sample_call and sch = "[Some 1]"
      and T = "\<lambda>n k. 0" and b = "Some (NewBlockingBudget 0 1000)"]
  by (simp add: sample_policy_def IsAuditOnly_def split: option.splits sum.splits prod.splits)

text \<open>
  Without an \<^verbatim>\<open>audit_only\<close> rule nothing collects what arrives after an early denial: of two
  enforcing rules that both deny, the audit details hold one.
\<close>

lemma early_denial_drops_results:
  "\<exists>v b' d. ai_EvaluateToolCall refusing_env sample_cfg
      [sample_policy PolicyModeEnforce, sample_policy PolicyModeEnforce] sample_call
      [] (\<lambda>n k. 0) (Some (NewBlockingBudget 0 1000)) = Some (Inr v, b') \<and>
     ai_trail_of v = Some d \<and> length (aai_Results d) = 1"
  by (simp add: sample_defs ai_EvaluateToolCall_def IsAuditOnly_def IsExhausted_def NewBlockingBudget_def
      BlockingDeadline_def ai_launch_def ai_rule_eval_def ai_turn_def ai_check_deadline_def
      ai_check_enabled_def ai_run_init_def ai_receive_def ai_break_def ai_finish_def Let_def
      phase_start_def phase_mark_def MarkDecided_def StartPhase_def ConsumeBlocking_def
      phase_finalize_def Finalize_def no_results_def ai_trail_of_def)

end
