(* ===== verification/AICli.thy ===== *)
theory AICli
  imports AIEngine
begin

text \<open>
  \<^verbatim>\<open>internal/gateway/ai_engine.go\<close>, \<^verbatim>\<open>EvaluateCLICommand\<close>: the second copy of the collecting loop,
  over a CLI command. It is translated on its own, with the audit entries and the background
  collectors written out in place as the source has them, and shown to compute what the tool
  call copy computes; its contract follows.
\<close>

section \<open>One rule\<close>

definition ai_cli_rule_eval :: "ai_env \<Rightarrow> ai_config \<Rightarrow> string \<Rightarrow> nat \<Rightarrow> AIPolicy \<Rightarrow> aiRuleResult" where
  "ai_cli_rule_eval env cfg operationStr i p =
     (let base = \<lparr> res_rule = ap_Name p, res_action = ap_Action p, res_mode = ap_Mode p,
                   res_result = ''error'', res_message = '''', res_evaluationMs = 0,
                   res_err = None, res_errCategory = '''', res_providerRequestID = '''' \<rparr>;
          ruleTimeout = (if maxRuleEvaluationMs cfg * 1000000 \<le> 0 then 10 * 1000000000
                         else maxRuleEvaluationMs cfg * 1000000);
          userPrompt = ap_Prompt p @ newline @ newline @ ''CLI command:'' @ newline @ operationStr;
          (elapsed, answer) = ai_Generate env i ruleTimeout
            \<lparr> Model = cfg_Model cfg, UserPrompt = userPrompt,
              ResponseSchema = ai_Schema env, Parameters = cfg_Parameters cfg \<rparr>;
          timed = base\<lparr> res_evaluationMs := Milliseconds elapsed \<rparr>
      in case answer of
           Inl err \<Rightarrow> timed\<lparr> res_err := Some err, res_errCategory := classifyProviderError err \<rparr>
         | Inr result \<Rightarrow>
             (case ai_Unmarshal env (SanitizeJSONEscapes (ParsedJSON result)) of
                Inl err \<Rightarrow> timed\<lparr> res_err := Some err, res_errCategory := ''parse_error'' \<rparr>
              | Inr aiResp \<Rightarrow> timed
                  \<lparr> res_result := (if ap_Action p = PolicyActionDeny
                                  then if ai_Allowed aiResp then ''allow'' else ''deny''
                                  else if ai_Allowed aiResp then ''allow'' else ''deny''),
                    res_message := ai_Message aiResp,
                    res_providerRequestID := ProviderRequestID result \<rparr>))"

section \<open>The collecting loop\<close>

text \<open>The background collectors: results in, the audit entries and last request id accumulated.\<close>

fun ai_cli_collect ::
  "bool \<Rightarrow> AuditAIRuleResult list \<Rightarrow> string \<Rightarrow> aiRuleResult list \<Rightarrow> AuditAIRuleResult list \<times> string" where
  "ai_cli_collect allAuditOnly asyncResults requestID [] = (asyncResults, requestID)"
| "ai_cli_collect allAuditOnly asyncResults requestID (result # rs) =
     ai_cli_collect allAuditOnly
       (asyncResults @ [\<lparr> aair_Rule = res_rule result, aair_Action = res_action result,
          aair_Mode = (if allAuditOnly \<or> res_mode result = PolicyModeAuditOnly then ''audit_only'' else ''''),
          aair_Result = res_result result, aair_EvaluationMs = res_evaluationMs result,
          aair_Error = (if res_err result \<noteq> None
                        then formatAuditError (res_errCategory result) (res_err result) else '''') \<rparr>])
       (if res_providerRequestID result \<noteq> '''' then res_providerRequestID result else requestID)
       rs"

text \<open>The two checks at the top of an iteration and the break into the background.\<close>

definition ai_cli_turn ::
  "int \<Rightarrow> int option \<Rightarrow> int \<Rightarrow> clock \<Rightarrow> nat \<Rightarrow> aiRuleResult event list \<Rightarrow> ai_run \<Rightarrow> ai_run + ai_run" where
  "ai_cli_turn evalStartTime blockingDeadline auditOnlyPolicies T n es st =
     (if air_remainingTotal st \<le> 0 then Inl st
      else
      let expired = (\<not> air_decided st \<and> blockingDeadline \<noteq> None \<and> the blockingDeadline < T n 0);
          st1 = (if expired
                 then st\<lparr> air_phase := phase_mark (T n 1) (air_phase st),
                          air_blockedMs := Milliseconds (T n 2 - evalStartTime),
                          air_decided := True, air_finalAction := ''allow'',
                          air_failedOpen := True \<rparr>
                 else st);
          st2 = (if \<not> air_decided st1 \<and> air_remainingEnabled st1 = 0
                 then st1\<lparr> air_phase := phase_mark (T n 3) (air_phase st1),
                           air_blockedMs := Milliseconds (T n 4 - evalStartTime),
                           air_decided := True \<rparr>
                 else st1)
      in if \<not> air_decided st2 then Inr st2
         else if auditOnlyPolicies > 0
         then let (asyncResults, requestID) = ai_cli_collect False (air_auditResults st2)
                    (air_lastRequestID st2) (take (nat (air_remainingTotal st2)) (received es));
                  evaluationMs = Milliseconds (T n 7 - evalStartTime);
                  aiDetails = \<lparr> aai_Action = air_finalAction st2, aai_BlockedMs = air_blockedMs st2,
                    aai_EvaluationMs = evaluationMs, aai_DecidingRule = '''', aai_Reason = '''',
                    aai_RequestID = requestID, aai_Results = asyncResults \<rparr>;
                  aiDetails' = (if air_decidingRule st2 \<noteq> ''''
                    then aiDetails\<lparr> aai_DecidingRule := air_decidingRule st2,
                                    aai_Reason := air_decidingReason st2 \<rparr>
                    else aiDetails)
              in Inl (st2\<lparr> air_async := Some \<lparr> ac_AIDetails = Some aiDetails',
                                              ac_EvaluationMs = evaluationMs \<rparr> \<rparr>)
         else Inl st2)"

definition ai_cli_receive :: "int \<Rightarrow> clock \<Rightarrow> nat \<Rightarrow> aiRuleResult \<Rightarrow> ai_run \<Rightarrow> ai_run" where
  "ai_cli_receive evalStartTime T n result st =
     (let auditResult =
            \<lparr> aair_Rule = res_rule result, aair_Action = res_action result,
              aair_Mode = (if res_mode result = PolicyModeAuditOnly then ''audit_only'' else ''''),
              aair_Result = res_result result, aair_EvaluationMs = res_evaluationMs result,
              aair_Error = (if res_err result \<noteq> None
                            then formatAuditError (res_errCategory result) (res_err result) else '''') \<rparr>;
          st1 = st\<lparr> air_remainingTotal := air_remainingTotal st - 1,
                    air_auditResults := air_auditResults st @ [auditResult] \<rparr>;
          st2 = (if IsAuditOnly (res_mode result) then st1
                 else st1\<lparr> air_remainingEnabled := air_remainingEnabled st1 - 1 \<rparr>);
          st3 = (if res_providerRequestID result = '''' then st2
                 else st2\<lparr> air_lastRequestID := res_providerRequestID result \<rparr>);
          st4 = (if res_mode result = PolicyModeAuditOnly \<and> res_result result = ''deny''
                 then st3\<lparr> air_auditOnlyDeny := True \<rparr> else st3)
      in if air_decided st4 \<or> IsAuditOnly (res_mode result) then st4
         else if res_result result = ''deny''
         then st4\<lparr> air_phase := phase_mark (T n 5) (air_phase st4),
                   air_blockedMs := Milliseconds (T n 6 - evalStartTime),
                   air_decided := True, air_finalAction := ''deny'',
                   air_decidingRule := res_rule result, air_decidingReason := res_message result \<rparr>
         else if res_result result = ''error'' then st4\<lparr> air_failedOpen := True \<rparr>
         else st4)"

fun ai_cli_loop ::
  "int \<Rightarrow> int option \<Rightarrow> int \<Rightarrow> clock \<Rightarrow> nat \<Rightarrow> aiRuleResult event list \<Rightarrow> ai_run \<Rightarrow> ai_run option" where
  "ai_cli_loop t0 dl ao T n [] st =
     (case ai_cli_turn t0 dl ao T n [] st of Inl st' \<Rightarrow> Some st' | Inr st1 \<Rightarrow> None)"
| "ai_cli_loop t0 dl ao T n (Tick # es) st =
     (case ai_cli_turn t0 dl ao T n (Tick # es) st of
        Inl st' \<Rightarrow> Some st' | Inr st1 \<Rightarrow> ai_cli_loop t0 dl ao T (Suc n) es st1)"
| "ai_cli_loop t0 dl ao T n (Recv result # es) st =
     (case ai_cli_turn t0 dl ao T n (Recv result # es) st of
        Inl st' \<Rightarrow> Some st'
      | Inr st1 \<Rightarrow> ai_cli_loop t0 dl ao T (Suc n) es (ai_cli_receive t0 T n result st1))"

section \<open>The result\<close>

definition ai_cli_finish :: "int \<Rightarrow> int \<Rightarrow> ai_run \<Rightarrow> ValidationResults \<times> BlockingBudget option" where
  "ai_cli_finish evalStartTime now st =
     (let ((tracked, evaluationMs), ph) = phase_finalize now evalStartTime (air_phase st);
          blockedMs = (case air_phase st of
              Some _ \<Rightarrow> tracked
            | None \<Rightarrow> if air_decided st then air_blockedMs st else Milliseconds (now - evalStartTime));
          aiDetails = \<lparr> aai_Action = air_finalAction st, aai_BlockedMs = blockedMs,
            aai_EvaluationMs = evaluationMs, aai_DecidingRule = '''', aai_Reason = '''',
            aai_RequestID = air_lastRequestID st, aai_Results = air_auditResults st \<rparr>;
          aiDetails' = (if air_decidingRule st \<noteq> ''''
            then aiDetails\<lparr> aai_DecidingRule := air_decidingRule st, aai_Reason := air_decidingReason st \<rparr>
            else aiDetails);
          results = no_results
            \<lparr> Async := air_async st,
              AIDetails := (case air_async st of None \<Rightarrow> Some aiDetails' | Some _ \<Rightarrow> None),
              Allowed := (air_finalAction st = ''allow''), FailedOpen := air_failedOpen st \<rparr>
      in (if air_finalAction st = ''deny''
          then results\<lparr> Message := ''Maybe Don't, A policy failed.'', DenyCount := 1,
                         RecommendedAction := PolicyActionDeny \<rparr>
          else if air_failedOpen st
          then results\<lparr> Message := ''AI validation failed, allowing request (fail-open)'', AllowCount := 1 \<rparr>
          else if air_auditOnlyDeny st
          then results\<lparr> AuditModeBypass := True, RecommendedAction := PolicyActionDeny,
                         Message := ''AI policy would deny but mode is audit_only'', AllowCount := 1 \<rparr>
          else results\<lparr> Message := ''All policies passed, maybe do.'', AllowCount := 1,
                         RecommendedAction := PolicyActionAllow \<rparr>,
          phase_budget ph))"

definition ai_EvaluateCLICommand ::
  "ai_env \<Rightarrow> ai_config \<Rightarrow> AIPolicy list \<Rightarrow> CLIValidationRequest \<Rightarrow> nat option list \<Rightarrow> clock \<Rightarrow>
     BlockingBudget option \<Rightarrow> ((go_error + ValidationResults) \<times> BlockingBudget option) option" where
  "ai_EvaluateCLICommand env cfg policies req sch T budget =
     (if length policies = 0
      then Some (Inr (no_results\<lparr> Allowed := True, Message := ''No policies configured'' \<rparr>), budget)
      else
      let phaseTracker = phase_start (T 0 0) budget;
          evalStartTime = T 0 1;
          enabledPolicies = length (filter (\<lambda>p. \<not> IsAuditOnly (ap_Mode p)) policies);
          auditOnlyPolicies = length (filter (\<lambda>p. IsAuditOnly (ap_Mode p)) policies);
          operationStr = formatOperation env (NewCLIOperation req);
          es = deliver sch (ai_launch (ai_cli_rule_eval env cfg operationStr) policies)
      in if enabledPolicies = 0 \<and> auditOnlyPolicies > 0
      then let ph = phase_mark (T 0 2) phaseTracker;
               (auditResults, requestID) = ai_cli_collect True [] '''' (received es);
               ((_, evaluationMs), _) = phase_finalize (T 0 3) evalStartTime ph
           in Some (Inr (no_results\<lparr> Allowed := True,
                  Message := ''All policies are audit_only, proceeding without blocking'',
                  AllowCount := 1,
                  Async := Some \<lparr> ac_AIDetails = Some
                      \<lparr> aai_Action = ''allow'', aai_BlockedMs = 0, aai_EvaluationMs = evaluationMs,
                        aai_DecidingRule = '''', aai_Reason = '''', aai_RequestID = requestID,
                        aai_Results = auditResults \<rparr>, ac_EvaluationMs = evaluationMs \<rparr> \<rparr>),
                phase_budget ph)
      else case budget of
        None \<Rightarrow> Some (Inl (PlainError ''BlockingBudget is required for AI validation - this indicates a code path that bypasses budget initialization''), None)
      | Some b \<Rightarrow>
          (case ai_cli_loop evalStartTime
                  (if IsExhausted b then None else Some (BlockingDeadline (T 0 4) b))
                  (int auditOnlyPolicies) T 1 es
                  (ai_run_init phaseTracker (IsExhausted b) (int enabledPolicies) (int (length policies))) of
             None \<Rightarrow> None
           | Some st \<Rightarrow> (case ai_cli_finish evalStartTime (T 0 5) st of
                          (results, budget') \<Rightarrow> Some (Inr results, budget'))))"

section \<open>Agreement with the tool call copy\<close>

lemma ai_cli_collect_map:
  "ai_cli_collect aa acc i rs =
     (acc @ map (\<lambda>r. if aa then (ai_audit_result r)\<lparr> aair_Mode := ''audit_only'' \<rparr> else ai_audit_result r) rs,
      foldl ai_track_id i rs)"
  by (induction aa acc i rs rule: ai_cli_collect.induct)
    (auto simp: ai_audit_result_def ai_track_id_def split: option.split)

lemma ai_cli_turn_tool: "ai_cli_turn t0 dl ao T n es st = ai_turn t0 dl ao T n es st"
proof (cases "air_remainingTotal st \<le> 0")
  case False
  then show ?thesis
    by (cases dl) (auto simp: ai_cli_turn_def ai_turn_def ai_check_deadline_def ai_check_enabled_def
        ai_break_def ai_collect_rest_def ai_cli_collect_map Let_def)
qed (simp add: ai_cli_turn_def ai_turn_def)

lemma ai_cli_receive_tool: "ai_cli_receive t0 T n r st = ai_receive t0 T n r st"
proof -
  have entry: "\<lparr> aair_Rule = res_rule r, aair_Action = res_action r,
      aair_Mode = (if res_mode r = PolicyModeAuditOnly then ''audit_only'' else ''''),
      aair_Result = res_result r, aair_EvaluationMs = res_evaluationMs r,
      aair_Error = (if res_err r \<noteq> None
                    then formatAuditError (res_errCategory r) (res_err r) else '''') \<rparr> = ai_audit_result r"
    by (simp add: ai_audit_result_def split: option.split)
  show ?thesis
    unfolding ai_cli_receive_def ai_receive_def entry Let_def ai_track_id_def
    by (cases st; cases "IsAuditOnly (res_mode r)"; cases "res_providerRequestID r = ''''";
        cases "res_result r = ''deny''") (simp_all add: IsAuditOnly_def)
qed

lemma ai_cli_loop_tool: "ai_cli_loop t0 dl ao T n es st = ai_loop t0 dl ao T n es st"
  by (induction t0 dl ao T n es st rule: ai_loop.induct)
    (auto simp: ai_cli_turn_tool ai_cli_receive_tool split: sum.split)

lemma ai_cli_finish_tool: "ai_cli_finish t0 now st = ai_finish t0 now st"
  by (auto simp: ai_cli_finish_def ai_finish_def no_results_def Let_def split: prod.split option.split)

lemma ai_EvaluateCLICommand_evaluate:
  "ai_EvaluateCLICommand env cfg ps req sch T b =
     ai_evaluate (ai_cli_rule_eval env cfg (formatOperation env (NewCLIOperation req))) ps sch T b"
proof -
  have fin: "(case ai_cli_finish t0 now st of (r, b') \<Rightarrow> Some (Inr r, b')) =
      Some (map_prod Inr id (ai_finish t0 now st))" for t0 now st
    by (simp add: ai_cli_finish_tool split: prod.split)
  show ?thesis
    by (cases b)
      (auto simp: ai_EvaluateCLICommand_def ai_evaluate_def ai_collect_all_def ai_cli_collect_map
        ai_cli_loop_tool fin Let_def split: prod.split option.split)
qed

interpretation ai_cli_rule: ai_rule_evaluator "ai_cli_rule_eval env cfg operationStr"
  for env cfg operationStr
  by unfold_locales (auto simp: ai_cli_rule_eval_def Let_def split: prod.split sum.split)

definition ai_cli_engine ::
  "ai_env \<Rightarrow> ai_config \<Rightarrow> AIPolicy list \<Rightarrow> CLIValidationRequest \<Rightarrow> nat option list \<Rightarrow> clock \<Rightarrow> engine" where
  "ai_cli_engine env cfg ps req sch T = (\<lambda>b. the (ai_EvaluateCLICommand env cfg ps req sch T b))"

interpretation ai_cli: request_engine "ai_cli_engine env cfg ps req sch T"
  for env cfg ps req sch T
  unfolding ai_cli_engine_def ai_EvaluateCLICommand_evaluate
  by (rule ai_cli_rule.evaluate_contract)

text \<open>
  The two copies of the AI evaluation agree: if the provider answers the CLI prompts of a
  command as it answers the tool call prompts of a request, rule by rule, then the evaluation of
  the command is the evaluation of the call, under every schedule, clock and budget: the same
  verdict, message, audit details and charge.
\<close>

lemma ai_cli_agrees:
  assumes "ai_launch (ai_cli_rule_eval env cfg (formatOperation env (NewCLIOperation creq))) ps =
    ai_answers env cfg ps treq"
  shows "ai_EvaluateCLICommand env cfg ps creq sch T b = ai_EvaluateToolCall env cfg ps treq sch T b"
  using assms
  by (simp add: ai_EvaluateCLICommand_evaluate ai_EvaluateToolCall_evaluate ai_evaluate_def ai_answers_def)

definition sample_command :: CLIValidationRequest where
  "sample_command = \<lparr> Command = ''rm'', CArguments = [''-rf''], WorkingDirectory = '''', ClientInfo = None \<rparr>"

lemma ai_cli_agrees_witness:
  "ai_EvaluateCLICommand refusing_env sample_cfg [sample_policy PolicyModeEnforce] sample_command
     [None] (\<lambda>n k. 5) (Some (NewBlockingBudget 0 10)) =
   ai_EvaluateToolCall refusing_env sample_cfg [sample_policy PolicyModeEnforce] sample_call
     [None] (\<lambda>n k. 5) (Some (NewBlockingBudget 0 10))"
proof (rule ai_cli_agrees)
  show "ai_launch (ai_cli_rule_eval refusing_env sample_cfg
          (formatOperation refusing_env (NewCLIOperation sample_command))) [sample_policy PolicyModeEnforce] =
        ai_answers refusing_env sample_cfg [sample_policy PolicyModeEnforce] sample_call"
    by (simp add: ai_launch_def ai_answers_def ai_cli_rule_eval_def ai_rule_eval_def sample_defs Let_def)
qed

text \<open>
  A CLI command is denied by the AI rules only if an enforcing rule answered with a denial, and
  the evaluation returns under every schedule.
\<close>

lemma ai_cli_denial_sound:
  "case ai_EvaluateCLICommand env cfg ps req sch T b of
     Some (Inr v, b') \<Rightarrow> budget_step_opt b b' \<and>
       (if Allowed v then DenyCount v = 0
        else DenyCount v = 1 \<and>
          (\<exists>r \<in> set (ai_launch (ai_cli_rule_eval env cfg (formatOperation env (NewCLIOperation req))) ps).
             ai_denies r))
   | Some (Inl e, _) \<Rightarrow> b = None
   | None \<Rightarrow> False"
proof -
  let ?rs = "ai_launch (ai_cli_rule_eval env cfg (formatOperation env (NewCLIOperation req))) ps"
  obtain out b' where o: "ai_EvaluateCLICommand env cfg ps req sch T b = Some (out, b')"
    "budget_step_opt b b'" "isl out \<longrightarrow> b = None" "\<not> isl out \<longrightarrow> ai_meets (ai_on_time b T) ?rs (projr out)"
    using ai_cli_rule.evaluate_spec [of env cfg "formatOperation env (NewCLIOperation req)" ps sch T b]
    by (auto simp: ai_EvaluateCLICommand_evaluate)
  then show ?thesis by (cases out) (auto simp: ai_meets_def)
qed

end
