(* ===== verification/CELResponse.thy ===== *)
theory CELResponse
  imports CELEngine
begin

text \<open>
  \<^verbatim>\<open>internal/gateway/cel_response_engine.go\<close>: the deterministic rules over tool responses, with
  the actions allow, deny and redact. The CEL library is the same parameter as for requests; the
  \<^verbatim>\<open>regexp\<close> package is a second one.
\<close>

section \<open>Loading\<close>

record 're regexp_lib =
  re_Compile :: "string \<Rightarrow> go_error + 're"
  re_ReplaceAllString :: "'re \<Rightarrow> string \<Rightarrow> string \<Rightarrow> string"

record CELResponsePolicy =
  crp_Name :: string
  crp_Description :: string
  crp_Expression :: string
  crp_Action :: PolicyAction
  crp_Message :: string
  crp_Mode :: PolicyMode
  crp_RedactionPattern :: string
  crp_RedactionReplacement :: string

definition celr_check_policy ::
  "('ast, 'prg) cel_env \<Rightarrow> bool \<Rightarrow> PolicyMode \<Rightarrow> ResponsePolicy \<Rightarrow>
     load_error + CELResponsePolicy option" where
  "celr_check_policy env loadDisabled topLevelMode policy =
     (if \<not> ResponsePolicy_IsEnabled policy \<and> \<not> loadDisabled then Inr None
      else case cel_compile env (rp_Expression policy) of
        Inl err \<Rightarrow> Inl (CompileError (rp_Name policy) err)
      | Inr _ \<Rightarrow>
          if rp_Action policy \<noteq> PolicyActionAllow \<and> rp_Action policy \<noteq> PolicyActionDeny \<and>
             rp_Action policy \<noteq> PolicyActionRedact
          then Inl (InvalidAction (rp_Action policy) (rp_Name policy))
          else Inr (Some \<lparr> crp_Name = rp_Name policy, crp_Description = rp_Description policy,
                 crp_Expression = rp_Expression policy, crp_Action = rp_Action policy,
                 crp_Message = rp_Message policy,
                 crp_Mode = ResolvePolicyMode topLevelMode (rp_Mode policy),
                 crp_RedactionPattern = rp_RedactionPattern policy,
                 crp_RedactionReplacement = rp_RedactionReplacement policy \<rparr>))"

definition celr_LoadPolicies ::
  "('ast, 'prg) cel_env \<Rightarrow> bool list \<Rightarrow> PolicyMode \<Rightarrow> CELResponsePolicy list \<Rightarrow>
     ResponsePolicy list \<Rightarrow> load_error option \<times> CELResponsePolicy list" where
  "celr_LoadPolicies env includeDisabled topLevelMode loaded policies =
     (let loadDisabled = (includeDisabled \<noteq> [] \<and> hd includeDisabled)
      in load_rules rp_Name (celr_check_policy env loadDisabled topLevelMode) topLevelMode
           loaded policies)"

lemma celr_check_policy_mode:
  "celr_check_policy env ld tm p = Inr (Some c) \<Longrightarrow> crp_Mode c = ResolvePolicyMode tm (rp_Mode p)"
  by (auto simp: celr_check_policy_def split: if_splits sum.splits)

interpretation celr_rules: rule_loader "celr_LoadPolicies env inc" crp_Mode rp_Name
  for env :: "('ast, 'prg) cel_env" and inc
  unfolding celr_LoadPolicies_def [abs_def] Let_def
  by (rule load_rules_contract) (use celr_check_policy_mode in blast)

section \<open>What the rules see\<close>

definition content_item :: "content \<Rightarrow> dyn list" where
  "content_item item =
     (case item of
        TextContent t \<Rightarrow> [DMap [(''type'', DString ''text''), (''text'', DString t)]]
      | ImageContent d m \<Rightarrow> [DMap [(''type'', DString ''image''), (''data'', DString d),
                                   (''mimeType'', DString m)]]
      | EmbeddedResource r \<Rightarrow> [DMap [(''type'', DString ''resource''), (''resource'', r)]]
      | OtherContent _ \<Rightarrow> [])"

definition extractResponseData :: "CallToolResult \<Rightarrow> dyn" where
  "extractResponseData result =
     (let dat = [(''isError'', DBool (IsError result))];
          dat1 = (if Content result \<noteq> []
                  then dat @ [(''content'', DList (concat (map content_item (Content result))))]
                  else dat);
          dat2 = (case ResultMeta result of
                    Some extra \<Rightarrow> dat1 @ [(''meta'', DMap extra)]
                  | None \<Rightarrow> dat1)
      in DMap dat2)"

definition getTextContent :: "CallToolResult \<Rightarrow> string" where
  "getTextContent result = (case first_text (Content result) of Some t \<Rightarrow> t | None \<Rightarrow> '''')"

definition applyRedaction :: "'re regexp_lib \<Rightarrow> string \<Rightarrow> string \<Rightarrow> string \<Rightarrow> string" where
  "applyRedaction lib body pattern replacement =
     (if pattern = '''' then ''[REDACTED]''
      else let repl = (if replacement = '''' then ''[REDACTED]'' else replacement)
      in case re_Compile lib pattern of
           Inl err \<Rightarrow> body
         | Inr re \<Rightarrow> re_ReplaceAllString lib re body repl)"

definition response_vars :: "CallToolRequest \<Rightarrow> CallToolResult \<Rightarrow> dyn" where
  "response_vars req result =
     DMap [(''request'', DMap [(''method'', DString (Method req)),
                              (''params'', DMap [(''name'', DString (ToolName req)),
                                                 (''arguments'', Arguments req)])]),
           (''response'', extractResponseData result)]"

section \<open>Evaluation\<close>

record celr_run =
  crr_Results :: "ResponseValidationResult list"
  crr_ruleResults :: "AuditRulesRuleResult list"
  crr_decidingRule :: string
  crr_decidingReason :: string
  crr_finalAction :: string
  crr_earlyTerminated :: bool
  crr_redactedContent :: "string option"
  crr_Allowed :: bool
  crr_Message :: string
  crr_FailedOpen :: bool
  crr_phase :: phase

definition celr_run_init :: "phase \<Rightarrow> celr_run" where
  "celr_run_init ph = \<lparr> crr_Results = [], crr_ruleResults = [], crr_decidingRule = '''',
     crr_decidingReason = '''', crr_finalAction = ''allow'', crr_earlyTerminated = False,
     crr_redactedContent = None, crr_Allowed = True, crr_Message = '''', crr_FailedOpen = False,
     crr_phase = ph \<rparr>"

definition celr_rule_failed :: "clock \<Rightarrow> nat \<Rightarrow> CELResponsePolicy \<Rightarrow> string \<Rightarrow> celr_run \<Rightarrow> celr_run" where
  "celr_rule_failed T i policy errorText st =
     (let st1 = st\<lparr> crr_ruleResults := crr_ruleResults st @
            [\<lparr> arr_Rule = crp_Name policy, arr_Action = crp_Action policy,
               arr_Mode = modeToAuditString (crp_Mode policy), arr_Result = ''error'',
               arr_EvaluationMs = Milliseconds (T i 1 - T i 0), arr_Error = errorText \<rparr>] \<rparr>
      in if \<not> IsAuditOnly (crp_Mode policy)
         then st1\<lparr> crr_phase := phase_mark (T i 2) (crr_phase st1),
                   crr_FailedOpen := True, crr_earlyTerminated := True \<rparr>
         else st1)"

text \<open>The actions of a rule whose expression matched.\<close>

definition celr_deny :: "clock \<Rightarrow> nat \<Rightarrow> CELResponsePolicy \<Rightarrow> celr_run \<Rightarrow> celr_run" where
  "celr_deny T i policy st =
     (if \<not> IsAuditOnly (crp_Mode policy)
      then st\<lparr> crr_phase := phase_mark (T i 2) (crr_phase st), crr_finalAction := ''deny'',
               crr_decidingRule := crp_Name policy, crr_decidingReason := crp_Message policy,
               crr_Allowed := False,
               crr_Message := (if crr_Message st = '''' then crp_Message policy else crr_Message st),
               crr_earlyTerminated := True \<rparr>
      else st)"

definition celr_redact ::
  "'re regexp_lib \<Rightarrow> string \<Rightarrow> CELResponsePolicy \<Rightarrow> ResponseValidationResult \<Rightarrow> celr_run \<Rightarrow> celr_run" where
  "celr_redact lib body policy entry st =
     (if body \<noteq> ''''
      then let redacted = applyRedaction lib body (crp_RedactionPattern policy)
                            (crp_RedactionReplacement policy);
               st1 = st\<lparr> crr_Results := butlast (crr_Results st) @
                           [entry\<lparr> rvr_RedactedContent := redacted \<rparr>] \<rparr>
           in if \<not> IsAuditOnly (crp_Mode policy)
              then st1\<lparr> crr_finalAction := (if crr_finalAction st1 = ''allow'' then ''redact''
                                            else crr_finalAction st1),
                        crr_redactedContent := Some redacted \<rparr>
              else st1
      else st)"

definition celr_rule_decided ::
  "'re regexp_lib \<Rightarrow> string \<Rightarrow> clock \<Rightarrow> nat \<Rightarrow> CELResponsePolicy \<Rightarrow> bool \<Rightarrow> celr_run \<Rightarrow> celr_run" where
  "celr_rule_decided lib body T i policy matched st =
     (let ruleDurationMs = Milliseconds (T i 1 - T i 0);
          ruleResult = (if matched then crp_Action policy
                        else if crp_Action policy = PolicyActionAllow then PolicyActionDeny
                        else PolicyActionAllow);
          st1 = st\<lparr> crr_ruleResults := crr_ruleResults st @
            [\<lparr> arr_Rule = crp_Name policy, arr_Action = crp_Action policy,
               arr_Mode = modeToAuditString (crp_Mode policy), arr_Result = ruleResult,
               arr_EvaluationMs = ruleDurationMs, arr_Error = '''' \<rparr>] \<rparr>
      in if \<not> matched then st1
         else let entry = \<lparr> rvr_PolicyName = crp_Name policy, rvr_PolicyType = ''cel'',
                    rvr_Action = crp_Action policy, rvr_Mode = crp_Mode policy,
                    rvr_Message = crp_Message policy, rvr_Error = '''',
                    rvr_RedactedContent = '''', rvr_DurationMs = ruleDurationMs \<rparr>;
                  st2 = st1\<lparr> crr_Results := crr_Results st1 @ [entry] \<rparr>
         in if crp_Action policy = PolicyActionDeny then celr_deny T i policy st2
            else if crp_Action policy = PolicyActionRedact then celr_redact lib body policy entry st2
            else st2)"

definition celr_step ::
  "('ast, 'prg) cel_env \<Rightarrow> 're regexp_lib \<Rightarrow> dyn \<Rightarrow> string \<Rightarrow> clock \<Rightarrow> nat \<Rightarrow> CELResponsePolicy \<Rightarrow>
     celr_run \<Rightarrow> celr_run" where
  "celr_step env lib vars body T i policy st =
     (case cel_compile env (crp_Expression policy) of
        Inl err \<Rightarrow> celr_rule_failed T i policy (formatAuditError ''compile_error'' (Some err)) st
      | Inr ast \<Rightarrow> (case cel_program env ast of
          Inl err \<Rightarrow> celr_rule_failed T i policy (formatAuditError ''program_error'' (Some err)) st
        | Inr prg \<Rightarrow> (case cel_eval env prg vars of
            Inl err \<Rightarrow> celr_rule_failed T i policy (formatAuditError ''eval_error'' (Some err)) st
          | Inr out \<Rightarrow> (case out of
              DBool matched \<Rightarrow> celr_rule_decided lib body T i policy matched st
            | _ \<Rightarrow> celr_rule_failed T i policy ''policy did not return a boolean'' st))))"

fun celr_loop ::
  "('ast, 'prg) cel_env \<Rightarrow> 're regexp_lib \<Rightarrow> dyn \<Rightarrow> string \<Rightarrow> clock \<Rightarrow> nat \<Rightarrow> CELResponsePolicy list \<Rightarrow>
     celr_run \<Rightarrow> celr_run" where
  "celr_loop env lib vars body T i [] st = st"
| "celr_loop env lib vars body T i (policy # policies) st =
     (let st' = celr_step env lib vars body T i policy st
      in if crr_earlyTerminated st' then st'
         else celr_loop env lib vars body T (Suc i) policies st')"

definition celr_finish ::
  "clock \<Rightarrow> nat \<Rightarrow> celr_run \<Rightarrow> ResponseValidationResults \<times> BlockingBudget option" where
  "celr_finish T n st =
     (case phase_finalize (T (Suc n) 0) (T 0 0) (crr_phase st) of
        ((blockedMs, evaluationMs), ph) \<Rightarrow>
      let message =
            (if crr_Message st \<noteq> '''' then crr_Message st
             else if crr_FailedOpen st
             then ''CEL response evaluation failed, allowing response (fail-open)''
             else if crr_finalAction st = ''deny''
             then (if crr_decidingReason st = '''' then ''Response denied by CEL policy''
                   else crr_decidingReason st)
             else if crr_finalAction st = ''redact'' then ''Response content redacted by CEL policy''
             else ''No CEL response policies matched'');
          recommended =
            (if crr_FailedOpen st then ''''
             else if crr_finalAction st = ''deny'' then PolicyActionDeny
             else if crr_finalAction st = ''redact'' then PolicyActionRedact
             else PolicyActionAllow);
          celDetails =
            \<lparr> ar_Action = crr_finalAction st, ar_BlockedMs = blockedMs,
              ar_EvaluationMs = evaluationMs,
              ar_DecidingRule = (if crr_decidingRule st \<noteq> '''' then crr_decidingRule st else ''''),
              ar_Reason = (if crr_decidingRule st \<noteq> '''' then crr_decidingReason st else ''''),
              ar_Results = crr_ruleResults st \<rparr>
      in (no_response_results\<lparr> rResults := crr_Results st, rAllowed := crr_Allowed st,
            rMessage := message, rRedactedContent := crr_redactedContent st,
            rRecommendedAction := recommended, rFailedOpen := crr_FailedOpen st,
            rRulesDetails := Some celDetails \<rparr>, phase_budget ph))"

definition celr_EvaluateResponse ::
  "('ast, 'prg) cel_env \<Rightarrow> 're regexp_lib \<Rightarrow> CELResponsePolicy list \<Rightarrow> CallToolRequest \<Rightarrow>
     CallToolResult \<Rightarrow> clock \<Rightarrow> response_engine" where
  "celr_EvaluateResponse env lib policies req result T budget = map_prod Inr id
     (let phaseTracker = phase_start (T 0 1) budget;
          vars = response_vars req result
      in celr_finish T (length policies)
           (celr_loop env lib vars (getTextContent result) T 1 policies (celr_run_init phaseTracker)))"

section \<open>First-match decisions with redaction\<close>

definition response_outcome :: "('ast, 'prg) cel_env \<Rightarrow> dyn \<Rightarrow> CELResponsePolicy \<Rightarrow> outcome" where
  "response_outcome env vars p = run_outcome env vars (crp_Expression p)"

text \<open>The rules that end the evaluation, and those whose redaction takes effect.\<close>

definition rstops :: "(CELResponsePolicy \<Rightarrow> outcome) \<Rightarrow> CELResponsePolicy \<Rightarrow> bool" where
  "rstops oc p \<longleftrightarrow> \<not> IsAuditOnly (crp_Mode p) \<and>
     (oc p = Failed \<or> (oc p = Matched \<and> crp_Action p = PolicyActionDeny))"

definition rredacts :: "(CELResponsePolicy \<Rightarrow> outcome) \<Rightarrow> CELResponsePolicy \<Rightarrow> bool" where
  "rredacts oc p \<longleftrightarrow>
     \<not> IsAuditOnly (crp_Mode p) \<and> oc p = Matched \<and> crp_Action p = PolicyActionRedact"

definition redaction_of ::
  "'re regexp_lib \<Rightarrow> string \<Rightarrow> (CELResponsePolicy \<Rightarrow> outcome) \<Rightarrow> CELResponsePolicy list \<Rightarrow> string option" where
  "redaction_of lib body oc ps =
     (case filter (rredacts oc) ps of
        [] \<Rightarrow> None
      | rs \<Rightarrow> if body = '''' then None
              else Some (applyRedaction lib body (crp_RedactionPattern (last rs))
                           (crp_RedactionReplacement (last rs))))"

lemma redaction_of_Nil [simp]: "redaction_of lib body oc [] = None"
  by (simp add: redaction_of_def)

lemma redaction_of_Cons:
  "redaction_of lib body oc (p # ps) =
     (case redaction_of lib body oc ps of
        Some r \<Rightarrow> Some r
      | None \<Rightarrow> if rredacts oc p \<and> body \<noteq> ''''
               then Some (applyRedaction lib body (crp_RedactionPattern p) (crp_RedactionReplacement p))
               else None)"
  by (cases "filter (rredacts oc) ps") (auto simp: redaction_of_def)

lemma celr_step_outcome:
  "case response_outcome env vars p of
     Failed \<Rightarrow> \<exists>e. celr_step env lib vars body T i p st = celr_rule_failed T i p e st
   | Matched \<Rightarrow> celr_step env lib vars body T i p st = celr_rule_decided lib body T i p True st
   | Unmatched \<Rightarrow> celr_step env lib vars body T i p st = celr_rule_decided lib body T i p False st
   | Skipped \<Rightarrow> False"
  by (auto simp: response_outcome_def run_outcome_def celr_step_def split: sum.split dyn.split)

lemma celr_step_cases:
  obtains (Failed) e where "response_outcome env vars p = Failed"
      "celr_step env lib vars body T i p st = celr_rule_failed T i p e st"
  | (Matched) "response_outcome env vars p = Matched"
      "celr_step env lib vars body T i p st = celr_rule_decided lib body T i p True st"
  | (Unmatched) "response_outcome env vars p = Unmatched"
      "celr_step env lib vars body T i p st = celr_rule_decided lib body T i p False st"
  using celr_step_outcome [where env = env and vars = vars and p = p and lib = lib and body = body
      and T = T and i = i and st = st]
  by (cases "response_outcome env vars p") auto

text \<open>The state while the loop runs: nothing has been decided but redactions.\<close>

definition celr_running :: "celr_run \<Rightarrow> bool" where
  "celr_running st \<longleftrightarrow> \<not> crr_earlyTerminated st \<and> \<not> crr_FailedOpen st \<and> crr_Allowed st \<and>
     crr_Message st = '''' \<and> crr_decidingRule st = '''' \<and>
     crr_finalAction st = (if crr_redactedContent st = None then ''allow'' else ''redact'')"

lemma celr_step_effect:
  assumes "celr_running st" and oc: "oc = response_outcome env vars"
    and st': "st' = celr_step env lib vars body T i p st"
  shows "crr_earlyTerminated st' = rstops oc p \<and>
    crr_redactedContent st' = (if rredacts oc p \<and> body \<noteq> ''''
       then Some (applyRedaction lib body (crp_RedactionPattern p) (crp_RedactionReplacement p))
       else crr_redactedContent st) \<and>
    budget_step_opt (phase_budget (crr_phase st)) (phase_budget (crr_phase st')) \<and>
    (if rstops oc p
     then crr_FailedOpen st' = (oc p = Failed) \<and> crr_Allowed st' = (oc p = Failed) \<and>
       (if oc p = Failed then crr_finalAction st' \<noteq> ''deny'' \<and> crr_Message st' = ''''
        else crr_finalAction st' = ''deny'' \<and> crr_Message st' = crp_Message p \<and>
          crr_decidingReason st' = crp_Message p)
     else celr_running st')"
  using assms(1) unfolding oc st'
  by (rule_tac celr_step_cases [where env = env and vars = vars and p = p and lib = lib and body = body
        and T = T and i = i and st = st])
    (auto simp: celr_running_def rstops_def rredacts_def celr_rule_failed_def celr_rule_decided_def
        celr_deny_def celr_redact_def Let_def)

text \<open>What the loop leaves behind.\<close>

definition celr_outcome ::
  "'re regexp_lib \<Rightarrow> string \<Rightarrow> (CELResponsePolicy \<Rightarrow> outcome) \<Rightarrow> CELResponsePolicy list \<Rightarrow>
     string option \<Rightarrow> celr_run \<Rightarrow> bool" where
  "celr_outcome lib body oc ps before st' \<longleftrightarrow>
     crr_redactedContent st' =
       (case redaction_of lib body oc (upto_first (rstops oc) ps) of None \<Rightarrow> before | r \<Rightarrow> r) \<and>
     (case find (rstops oc) ps of
        None \<Rightarrow> celr_running st'
      | Some p \<Rightarrow> crr_FailedOpen st' = (oc p = Failed) \<and> crr_Allowed st' = (oc p = Failed) \<and>
          (if oc p = Failed then crr_finalAction st' \<noteq> ''deny'' \<and> crr_Message st' = ''''
           else crr_finalAction st' = ''deny'' \<and> crr_Message st' = crp_Message p \<and>
             crr_decidingReason st' = crp_Message p))"

lemma celr_loop_spec:
  assumes "celr_running st"
  shows "celr_outcome lib body (response_outcome env vars) ps (crr_redactedContent st)
      (celr_loop env lib vars body T i ps st) \<and>
    budget_step_opt (phase_budget (crr_phase st))
      (phase_budget (crr_phase (celr_loop env lib vars body T i ps st)))"
  using assms
proof (induction ps arbitrary: i st)
  case Nil
  then show ?case by (simp add: celr_outcome_def)
next
  case (Cons p ps)
  let ?oc = "response_outcome env vars" and ?st = "celr_step env lib vars body T i p st"
  note e = celr_step_effect [OF Cons.prems refl refl, of env lib vars body T i p]
  show ?case
  proof (cases "rstops ?oc p")
    case True
    then have "\<not> rredacts ?oc p" by (auto simp: rstops_def rredacts_def)
    with True e show ?thesis by (simp add: celr_outcome_def upto_first_Cons redaction_of_Cons)
  next
    case False
    with e have run: "celr_running ?st" and go: "\<not> crr_earlyTerminated ?st" by auto
    have "budget_step_opt (phase_budget (crr_phase st))
        (phase_budget (crr_phase (celr_loop env lib vars body T (Suc i) ps ?st)))"
      using e Cons.IH [OF run, of "Suc i"] by (metis budget_step_opt_trans)
    with Cons.IH [OF run, of "Suc i"] go False e show ?thesis
      by (auto simp: celr_outcome_def upto_first_Cons redaction_of_Cons split: option.splits)
  qed
qed

text \<open>
  The specification: the first enforced rule that cannot be evaluated, or that matches with
  action deny, ends the evaluation; the redaction in force is that of the last enforced redact
  rule that matched before, applied to the text of the response.
\<close>

definition celr_refines ::
  "'re regexp_lib \<Rightarrow> string \<Rightarrow> (CELResponsePolicy \<Rightarrow> outcome) \<Rightarrow> CELResponsePolicy list \<Rightarrow>
     ResponseValidationResults \<Rightarrow> bool" where
  "celr_refines lib body oc ps r \<longleftrightarrow>
     rRedactedContent r = redaction_of lib body oc (upto_first (rstops oc) ps) \<and>
     \<not> rAuditModeBypass r \<and>
     (case find (rstops oc) ps of
        None \<Rightarrow> rAllowed r \<and> \<not> rFailedOpen r \<and>
          rRecommendedAction r = (if rRedactedContent r = None then PolicyActionAllow else PolicyActionRedact)
      | Some p \<Rightarrow>
          if oc p = Failed then rAllowed r \<and> rFailedOpen r \<and> rRecommendedAction r = ''''
          else \<not> rAllowed r \<and> \<not> rFailedOpen r \<and> rRecommendedAction r = PolicyActionDeny \<and>
            rMessage r = (if crp_Message p = '''' then ''Response denied by CEL policy'' else crp_Message p))"

lemma celr_finish_refines:
  assumes "celr_outcome lib body oc ps None st"
  shows "celr_refines lib body oc ps (fst (celr_finish T n st))"
proof -
  obtain b e ph where f: "phase_finalize (T (Suc n) 0) (T 0 0) (crr_phase st) = ((b, e), ph)"
    by (metis surj_pair)
  show ?thesis
  proof (cases "find (rstops oc) ps")
    case None
    with assms show ?thesis
      by (auto simp: celr_outcome_def celr_refines_def celr_finish_def celr_running_def f
          no_response_results_def Let_def split: option.splits)
  next
    case (Some p)
    with assms show ?thesis
      by (auto simp: celr_outcome_def celr_refines_def celr_finish_def f no_response_results_def Let_def
          split: option.splits if_splits)
  qed
qed

lemma celr_finish_budget:
  "budget_step_opt (phase_budget (crr_phase st)) (snd (celr_finish T n st))"
  by (auto simp: celr_finish_def Let_def dest: phase_finalize_budget split: prod.split)

lemma celr_running_init: "celr_running (celr_run_init ph)"
  by (simp add: celr_running_def celr_run_init_def)

lemma celr_evaluate_spec:
  "\<exists>r. fst (celr_EvaluateResponse env lib ps req result T b) = Inr r \<and>
     celr_refines lib (getTextContent result) (response_outcome env (response_vars req result)) ps r"
proof -
  let ?st = "celr_loop env lib (response_vars req result) (getTextContent result) T 1 ps
    (celr_run_init (phase_start (T 0 1) b))"
  have "celr_outcome lib (getTextContent result) (response_outcome env (response_vars req result)) ps None ?st"
    using celr_loop_spec [OF celr_running_init, of lib "getTextContent result" env _ ps "phase_start (T 0 1) b" T 1]
    by (simp add: celr_run_init_def)
  from celr_finish_refines [OF this, of T "length ps"] show ?thesis
    by (auto simp: celr_EvaluateResponse_def Let_def)
qed

text \<open>
  C22. The CEL response engine always returns, and decides by the first enforced rule that fails or
  matches with action deny: a failure allows the response (fail-open), a deny withholds it with the
  rule's message, and without either the response is allowed. The redacted content it returns is the
  text of the response as redacted by the last enforced redact rule that matched before that rule.
\<close>

theorem celr_response_decides:
  "\<exists>r. fst (celr_EvaluateResponse env lib ps req result T b) = Inr r \<and>
     celr_refines lib (getTextContent result) (response_outcome env (response_vars req result)) ps r"
  by (rule celr_evaluate_spec)

lemma celr_response_budget: "budget_step_opt b (snd (celr_EvaluateResponse env lib ps req result T b))"
proof -
  let ?st = "celr_loop env lib (response_vars req result) (getTextContent result) T 1 ps
    (celr_run_init (phase_start (T 0 1) b))"
  have "budget_step_opt b (phase_budget (crr_phase ?st))"
    using celr_loop_spec [OF celr_running_init, of lib "getTextContent result" env
        "response_vars req result" ps "phase_start (T 0 1) b" T 1]
    by (simp add: celr_run_init_def)
  also have "budget_step_opt (phase_budget (crr_phase ?st)) (snd (celr_finish T (length ps) ?st))"
    by (rule celr_finish_budget)
  finally show ?thesis by (simp add: celr_EvaluateResponse_def Let_def)
qed

lemma celr_refines_contract:
  assumes "celr_refines lib body oc ps r"
  shows "\<not> rAllowed r \<Longrightarrow> rRecommendedAction r = PolicyActionDeny"
    and "rRecommendedAction r = PolicyActionRedact \<Longrightarrow> rAllowed r \<and> rRedactedContent r \<noteq> None"
    and "\<not> rAuditModeBypass r"
  using assms by (auto simp: celr_refines_def split: option.splits if_splits)

interpretation celr: response_evaluator "celr_EvaluateResponse env lib ps req result T"
  for env :: "('ast, 'prg) cel_env" and lib :: "'re regexp_lib" and ps req result T
proof
  fix b
  show "budget_step_opt b (snd (celr_EvaluateResponse env lib ps req result T b))"
    by (rule celr_response_budget)
next
  fix b r assume r: "fst (celr_EvaluateResponse env lib ps req result T b) = Inr r"
  let ?st = "celr_loop env lib (response_vars req result) (getTextContent result) T 1 ps
    (celr_run_init (phase_start (T 0 1) b))"
  have "celr_outcome lib (getTextContent result) (response_outcome env (response_vars req result)) ps None ?st"
    using celr_loop_spec [OF celr_running_init, of lib "getTextContent result" env _ ps "phase_start (T 0 1) b" T 1]
    by (simp add: celr_run_init_def)
  from celr_finish_refines [OF this, of T "length ps"] r
  have c: "celr_refines lib (getTextContent result) (response_outcome env (response_vars req result)) ps r"
    by (auto simp: celr_EvaluateResponse_def Let_def)
  note l = celr_refines_contract [OF c]
  show "\<not> rAllowed r \<Longrightarrow> rRecommendedAction r = PolicyActionDeny" by (rule l(1))
  show "rRecommendedAction r = PolicyActionRedact \<Longrightarrow> rAllowed r \<and> rRedactedContent r \<noteq> None" by (rule l(2))
  show "rAuditModeBypass r \<Longrightarrow> rAllowed r \<and> rRedactedContent r = None" using l(3) by blast
qed

text \<open>
  A response phase configured \<^verbatim>\<open>audit_only\<close> never touches a response: whatever rules are loaded
  under it, the response is allowed, not redacted, and nothing fails open.
\<close>

lemma celr_audit_only_phase_passes:
  "\<exists>r. fst (celr_EvaluateResponse env lib (snd (celr_LoadPolicies env inc PolicyModeAuditOnly [] cps))
         req result T b) = Inr r \<and>
     rAllowed r \<and> \<not> rFailedOpen r \<and> rRedactedContent r = None \<and> rRecommendedAction r = PolicyActionAllow"
proof -
  let ?ps = "snd (celr_LoadPolicies env inc PolicyModeAuditOnly [] cps)"
  let ?oc = "response_outcome env (response_vars req result)"
  let ?st = "celr_loop env lib (response_vars req result) (getTextContent result) T 1 ?ps
    (celr_run_init (phase_start (T 0 1) b))"
  have a: "IsAuditOnly (crp_Mode p)" if "p \<in> set ?ps" for p
    using celr_rules.audit_only_phase [of PolicyModeAuditOnly _ env inc cps] that
    by (simp add: IsAuditOnly_def)
  then have n: "find (rstops ?oc) ?ps = None" by (auto simp: find_None_iff rstops_def)
  moreover have "filter (rredacts ?oc) (upto_first (rstops ?oc) ?ps) = []"
    using a set_upto_first [of "rstops ?oc" ?ps] by (auto simp: filter_empty_conv rredacts_def)
  then have "redaction_of lib (getTextContent result) ?oc (upto_first (rstops ?oc) ?ps) = None"
    by (simp add: redaction_of_def)
  moreover have "celr_outcome lib (getTextContent result) ?oc ?ps None ?st"
    using celr_loop_spec [OF celr_running_init, of lib "getTextContent result" env _ ?ps "phase_start (T 0 1) b" T 1]
    by (simp add: celr_run_init_def)
  note celr_finish_refines [OF this, of T "length ?ps"]
  ultimately show ?thesis
    by (simp add: celr_EvaluateResponse_def celr_refines_def Let_def)
qed

text \<open>
  Two consequences worth knowing. Each redaction starts from the text of the response, so of two
  enforced redact rules that match only the last one's redaction is returned; and a pattern that
  does not compile, which loading does not check, returns the text unredacted.
\<close>

lemma last_redaction_wins:
  "rredacts oc p \<Longrightarrow> rredacts oc q \<Longrightarrow> body \<noteq> '''' \<Longrightarrow>
     redaction_of lib body oc [p, q] =
       Some (applyRedaction lib body (crp_RedactionPattern q) (crp_RedactionReplacement q))"
  by (simp add: redaction_of_def)

lemma invalid_pattern_unredacted:
  "pattern \<noteq> '''' \<Longrightarrow> re_Compile lib pattern = Inl err \<Longrightarrow>
     applyRedaction lib body pattern replacement = body"
  by (simp add: applyRedaction_def)

end
