(* ===== verification/AIResponseEngine.thy ===== *)
theory AIResponseEngine
  imports EngineContract Loading AIEngine
begin

text \<open>
  \<^verbatim>\<open>internal/gateway/ai_response_engine.go\<close>: the AI rules over tool responses. As for requests a
  goroutine per rule sends one result; the loop has no deadline of its own (the budget caps the
  timeout of the rules instead), and a rule can redact. Provider, JSON decoding and \<^verbatim>\<open>fmt\<close>'s
  \<^verbatim>\<open>%+v\<close> are parameters.
\<close>

section \<open>Rules and their loading\<close>

record AIResponsePolicy =
  arp_Name :: string
  arp_Description :: string
  arp_Prompt :: string
  arp_Action :: PolicyAction
  arp_Message :: string
  arp_Mode :: PolicyMode

definition air_check_policy ::
  "PolicyMode \<Rightarrow> ConfigAIResponsePolicy \<Rightarrow> load_error + AIResponsePolicy option" where
  "air_check_policy topLevelMode policy =
     (if \<not> AIResponsePolicy_IsEnabled policy then Inr None
      else if Contains (carp_Prompt policy) ''%s'' then Inl (PromptPlaceholder (carp_Name policy))
      else if carp_Action policy \<noteq> PolicyActionAllow \<and> carp_Action policy \<noteq> PolicyActionDeny \<and>
              carp_Action policy \<noteq> PolicyActionRedact
      then Inl (InvalidAction (carp_Action policy) (carp_Name policy))
      else Inr (Some \<lparr> arp_Name = carp_Name policy, arp_Description = carp_Description policy,
             arp_Prompt = carp_Prompt policy, arp_Action = carp_Action policy,
             arp_Message = carp_Message policy,
             arp_Mode = ResolvePolicyMode topLevelMode (carp_Mode policy) \<rparr>))"

definition air_LoadPolicies ::
  "PolicyMode \<Rightarrow> AIResponsePolicy list \<Rightarrow> ConfigAIResponsePolicy list \<Rightarrow>
     load_error option \<times> AIResponsePolicy list" where
  "air_LoadPolicies topLevelMode loaded policies =
     load_rules carp_Name (air_check_policy topLevelMode) topLevelMode loaded policies"

interpretation air_rules: rule_loader air_LoadPolicies arp_Mode carp_Name
  unfolding air_LoadPolicies_def [abs_def]
  by (rule load_rules_contract) (auto simp: air_check_policy_def split: if_splits)

section \<open>One rule\<close>

record AIResponseEvaluation =
  ev_Allowed :: bool
  ev_Message :: string
  ev_RedactedContent :: string

definition DetermineResponseDecision :: "PolicyAction \<Rightarrow> bool \<Rightarrow> string \<Rightarrow> string \<Rightarrow> string" where
  "DetermineResponseDecision action allowed redactedContent originalContent =
     (if action = PolicyActionRedact
      then (if redactedContent \<noteq> ''''
            then (if TrimSpace redactedContent = TrimSpace originalContent then ''allow'' else ''redact'')
            else ''allow'')
      else if \<not> allowed then ''deny'' else ''allow'')"

record aiResponseRuleResult =
  rr_policy :: AIResponsePolicy
  rr_result :: string
  rr_message :: string
  rr_redacted :: string
  rr_evaluationMs :: int
  rr_err :: "go_error option"
  rr_errCategory :: string

record air_env =
  are_Generate :: "nat \<Rightarrow> int \<Rightarrow> AIRequest \<Rightarrow> int \<times> (go_error + AICompletionResult)"
  are_Unmarshal :: "string \<Rightarrow> go_error + AIResponseEvaluation"
  are_SprintResource :: "dyn \<Rightarrow> string"
  are_SprintMeta :: "(string \<times> dyn) list \<Rightarrow> string"
  are_Schema :: dyn

fun format_items :: "air_env \<Rightarrow> nat \<Rightarrow> content list \<Rightarrow> string" where
  "format_items env i [] = ''''"
| "format_items env i (item # items) =
     (case item of
        TextContent t \<Rightarrow> ''  ['' @ Itoa (int i) @ ''] Text: '' @ t @ newline
      | ImageContent d m \<Rightarrow> ''  ['' @ Itoa (int i) @ ''] Image (MIME: '' @ m @ '', Data length: '' @
          Itoa (int (length d)) @ '' bytes)'' @ newline
      | EmbeddedResource r \<Rightarrow> ''  ['' @ Itoa (int i) @ ''] Resource: '' @ are_SprintResource env r @ newline
      | OtherContent _ \<Rightarrow> '''') @ format_items env (Suc i) items"

definition formatResponseForAI :: "air_env \<Rightarrow> CallToolResult \<Rightarrow> string" where
  "formatResponseForAI env result =
     (let formatted = ''IsError: '' @ (if IsError result then ''true'' else ''false'') @ newline;
          formatted1 = (if Content result \<noteq> []
                        then formatted @ ''Content:'' @ newline @ format_items env 0 (Content result)
                        else formatted)
      in case ResultMeta result of
           Some extra \<Rightarrow> if extra \<noteq> [] then formatted1 @ ''Meta: '' @ are_SprintMeta env extra @ newline
                          else formatted1
         | None \<Rightarrow> formatted1)"

text \<open>The timeout of a rule is capped by what is left of the blocking budget.\<close>

definition air_ruleTimeout :: "int \<Rightarrow> BlockingBudget option \<Rightarrow> int" where
  "air_ruleTimeout maxMs budget =
     (let ruleTimeout = (if maxMs * 1000000 \<le> 0 then 10 * 1000000000 else maxMs * 1000000)
      in case budget of
           None \<Rightarrow> ruleTimeout
         | Some b \<Rightarrow>
             let remainingMs = RemainingMs b
             in if remainingMs > 0
                then (if remainingMs * 1000000 < ruleTimeout then remainingMs * 1000000 else ruleTimeout)
                else 100 * 1000000)"

definition air_rule_eval ::
  "air_env \<Rightarrow> ai_config \<Rightarrow> int \<Rightarrow> string \<Rightarrow> nat \<Rightarrow> AIResponsePolicy \<Rightarrow> aiResponseRuleResult" where
  "air_rule_eval env cfg ruleTimeout responseStr i p =
     (let userPrompt = arp_Prompt p @ newline @ newline @ ''Response content:'' @ newline @ responseStr
      in case are_Generate env i ruleTimeout
                \<lparr> Model = cfg_Model cfg, UserPrompt = userPrompt,
                  ResponseSchema = are_Schema env, Parameters = cfg_Parameters cfg \<rparr> of
        (elapsed, Inl err) \<Rightarrow>
          \<lparr> rr_policy = p, rr_result = ''error'',
            rr_message = ''Failed to evaluate response policy: '' @ error_text err,
            rr_redacted = '''', rr_evaluationMs = Milliseconds elapsed, rr_err = Some err,
            rr_errCategory = classifyProviderError err \<rparr>
      | (elapsed, Inr result) \<Rightarrow>
          (case are_Unmarshal env (SanitizeJSONEscapes (ParsedJSON result)) of
             Inl err \<Rightarrow>
               \<lparr> rr_policy = p, rr_result = ''error'',
                 rr_message = ''Failed to parse AI response: '' @ error_text err,
                 rr_redacted = '''', rr_evaluationMs = Milliseconds elapsed, rr_err = Some err,
                 rr_errCategory = ''parse_error'' \<rparr>
           | Inr evaluation \<Rightarrow>
               \<lparr> rr_policy = p,
                 rr_result = DetermineResponseDecision (arp_Action p) (ev_Allowed evaluation)
                   (ev_RedactedContent evaluation) responseStr,
                 rr_message = ev_Message evaluation, rr_redacted = ev_RedactedContent evaluation,
                 rr_evaluationMs = Milliseconds elapsed, rr_err = None, rr_errCategory = '''' \<rparr>))"

definition air_launch ::
  "(nat \<Rightarrow> AIResponsePolicy \<Rightarrow> aiResponseRuleResult) \<Rightarrow> AIResponsePolicy list \<Rightarrow> aiResponseRuleResult list" where
  "air_launch eval policies = map2 eval [0..<length policies] policies"

section \<open>Collecting the results\<close>

definition air_audit_result :: "aiResponseRuleResult \<Rightarrow> AuditAIRuleResult" where
  "air_audit_result r =
     \<lparr> aair_Rule = arp_Name (rr_policy r), aair_Action = arp_Action (rr_policy r),
       aair_Mode = modeToAuditString (arp_Mode (rr_policy r)), aair_Result = rr_result r,
       aair_EvaluationMs = rr_evaluationMs r,
       aair_Error = (case rr_err r of None \<Rightarrow> '''' | Some err \<Rightarrow> formatAuditError (rr_errCategory r) (Some err)) \<rparr>"

record air_loop_state =
  ls_Results :: "ResponseValidationResult list"
  ls_Allowed :: bool
  ls_ruleResults :: "AuditAIRuleResult list"
  ls_decidingRule :: string
  ls_decidingReason :: string
  ls_finalAction :: string
  ls_decided :: bool
  ls_redactedContent :: "string option"
  ls_auditOnlyDeny :: bool
  ls_failedOpen :: bool
  ls_remainingEnabled :: int
  ls_remainingTotal :: int
  ls_phase :: phase
  ls_async :: "AsyncCompletion option"

definition air_loop_init :: "phase \<Rightarrow> int \<Rightarrow> int \<Rightarrow> air_loop_state" where
  "air_loop_init ph enabledPolicies totalPolicies =
     \<lparr> ls_Results = [], ls_Allowed = True, ls_ruleResults = [], ls_decidingRule = '''',
       ls_decidingReason = '''', ls_finalAction = ''allow'', ls_decided = False,
       ls_redactedContent = None, ls_auditOnlyDeny = False, ls_failedOpen = False,
       ls_remainingEnabled = enabledPolicies, ls_remainingTotal = totalPolicies,
       ls_phase = ph, ls_async = None \<rparr>"

text \<open>
  Leaving the loop with results to come: the blocking time is captured by finalising the tracker,
  and the collector appends what arrives later.
\<close>

definition air_break ::
  "int \<Rightarrow> clock \<Rightarrow> nat \<Rightarrow> int \<Rightarrow> aiResponseRuleResult list \<Rightarrow> air_loop_state \<Rightarrow> air_loop_state" where
  "air_break auditOnlyPolicies T n phaseStart channel st =
     (if auditOnlyPolicies > 0 \<and> ls_remainingTotal st > 0
      then let ((blocked, _), ph) = phase_finalize (T n 3) phaseStart (ls_phase st);
               capturedBlockedMs = (if ls_phase st \<noteq> None then blocked else 0);
               evaluationMs = Milliseconds (T n 4 - phaseStart);
               rs = take (nat (ls_remainingTotal st)) channel
           in st\<lparr> ls_phase := ph,
                  ls_async := Some \<lparr> ac_AIDetails = Some
                    \<lparr> aai_Action = ls_finalAction st, aai_BlockedMs = capturedBlockedMs,
                      aai_EvaluationMs = evaluationMs,
                      aai_DecidingRule = (if ls_decidingRule st \<noteq> '''' then ls_decidingRule st else ''''),
                      aai_Reason = (if ls_decidingRule st \<noteq> '''' then ls_decidingReason st else ''''),
                      aai_RequestID = '''',
                      aai_Results = ls_ruleResults st @ map air_audit_result rs \<rparr>,
                    ac_EvaluationMs = evaluationMs \<rparr> \<rparr>
      else st)"

definition air_turn ::
  "int \<Rightarrow> int \<Rightarrow> clock \<Rightarrow> nat \<Rightarrow> aiResponseRuleResult event list \<Rightarrow> air_loop_state \<Rightarrow>
     air_loop_state + air_loop_state" where
  "air_turn phaseStart auditOnlyPolicies T n es st =
     (if \<not> ls_remainingTotal st > 0 then Inl st
      else let st1 = (if \<not> ls_decided st \<and> ls_remainingEnabled st = 0
                      then st\<lparr> ls_phase := phase_mark (T n 0) (ls_phase st), ls_decided := True \<rparr>
                      else st)
      in if ls_decided st1 \<and> ls_remainingTotal st1 > 0
         then Inl (air_break auditOnlyPolicies T n phaseStart (received es) st1)
         else Inr st1)"

definition air_receive :: "clock \<Rightarrow> nat \<Rightarrow> aiResponseRuleResult \<Rightarrow> air_loop_state \<Rightarrow> air_loop_state" where
  "air_receive T n r st =
     (let mode = arp_Mode (rr_policy r);
          st1 = st\<lparr> ls_remainingTotal := ls_remainingTotal st - 1,
            ls_remainingEnabled := (if \<not> IsAuditOnly mode then ls_remainingEnabled st - 1
                                    else ls_remainingEnabled st),
            ls_ruleResults := ls_ruleResults st @ [air_audit_result r],
            ls_auditOnlyDeny := (if mode = PolicyModeAuditOnly \<and> rr_result r = ''deny''
                                 then True else ls_auditOnlyDeny st),
            ls_Results := ls_Results st @
              [\<lparr> rvr_PolicyName = arp_Name (rr_policy r), rvr_PolicyType = ''ai'',
                 rvr_Action = rr_result r, rvr_Mode = mode, rvr_Message = rr_message r,
                 rvr_Error = (case rr_err r of None \<Rightarrow> ''''
                              | Some err \<Rightarrow> formatAuditError (rr_errCategory r) (Some err)),
                 rvr_RedactedContent = rr_redacted r, rvr_DurationMs = rr_evaluationMs r \<rparr>] \<rparr>
      in if \<not> ls_decided st1 \<and> \<not> IsAuditOnly mode
         then (if rr_result r = ''deny''
               then st1\<lparr> ls_phase := phase_mark (T n 1) (ls_phase st1), ls_finalAction := ''deny'',
                         ls_decidingRule := arp_Name (rr_policy r),
                         ls_decidingReason := rr_message r,
                         ls_Allowed := False, ls_decided := True \<rparr>
               else if rr_result r = ''error'' then st1\<lparr> ls_failedOpen := True \<rparr>
               else if rr_result r = ''redact''
               then st1\<lparr> ls_finalAction := (if ls_finalAction st1 = ''allow'' then ''redact''
                                            else ls_finalAction st1),
                         ls_redactedContent := (if rr_redacted r \<noteq> '''' then Some (rr_redacted r)
                                                else ls_redactedContent st1) \<rparr>
               else st1)
         else st1)"

fun air_loop ::
  "int \<Rightarrow> int \<Rightarrow> clock \<Rightarrow> nat \<Rightarrow> aiResponseRuleResult event list \<Rightarrow> air_loop_state \<Rightarrow> air_loop_state option" where
  "air_loop t0 ao T n [] st =
     (case air_turn t0 ao T n [] st of Inl st' \<Rightarrow> Some st' | Inr st1 \<Rightarrow> None)"
| "air_loop t0 ao T n (Tick # es) st =
     (case air_turn t0 ao T n (Tick # es) st of
        Inl st' \<Rightarrow> Some st' | Inr st1 \<Rightarrow> air_loop t0 ao T (Suc n) es st1)"
| "air_loop t0 ao T n (Recv r # es) st =
     (case air_turn t0 ao T n (Recv r # es) st of
        Inl st' \<Rightarrow> Some st' | Inr st1 \<Rightarrow> air_loop t0 ao T (Suc n) es (air_receive T n r st1))"

definition air_finish ::
  "int \<Rightarrow> int \<Rightarrow> air_loop_state \<Rightarrow> ResponseValidationResults \<times> BlockingBudget option" where
  "air_finish phaseStart now st =
     (case phase_finalize now phaseStart (ls_phase st) of
        ((blockedMs, evaluationMs), ph) \<Rightarrow>
      let results = no_response_results\<lparr> rResults := ls_Results st, rAllowed := ls_Allowed st,
            rRedactedContent := (if ls_redactedContent st \<noteq> None \<and> ls_finalAction st = ''redact''
                                 then ls_redactedContent st else None),
            rFailedOpen := ls_failedOpen st, rAsync := ls_async st \<rparr>;
          results1 =
            (if ls_finalAction st = ''deny''
             then results\<lparr> rAllowed := False,
                            rMessage := (if ls_decidingReason st = '''' then ''Response denied by AI policy''
                                         else ls_decidingReason st),
                            rRecommendedAction := PolicyActionDeny \<rparr>
             else if ls_finalAction st = ''redact''
             then results\<lparr> rMessage := ''Response content redacted by AI policy'',
                            rRecommendedAction := PolicyActionRedact \<rparr>
             else if ls_failedOpen st
             then results\<lparr> rMessage := ''AI response validation failed, allowing response (fail-open)'' \<rparr>
             else if ls_auditOnlyDeny st
             then results\<lparr> rAuditModeBypass := True, rRecommendedAction := PolicyActionDeny,
                            rMessage := ''AI response policy would deny but mode is audit_only'' \<rparr>
             else results\<lparr> rMessage := ''All AI response policies passed'',
                            rRecommendedAction := PolicyActionAllow \<rparr>)
      in (if rAsync results1 = None
          then results1\<lparr> rAIDetails := Some
                 \<lparr> aai_Action = ls_finalAction st, aai_BlockedMs = blockedMs,
                   aai_EvaluationMs = evaluationMs,
                   aai_DecidingRule = (if ls_decidingRule st \<noteq> '''' then ls_decidingRule st else ''''),
                   aai_Reason = (if ls_decidingRule st \<noteq> '''' then ls_decidingReason st else ''''),
                   aai_RequestID = '''', aai_Results = ls_ruleResults st \<rparr> \<rparr>
          else results1, phase_budget ph))"

section \<open>Evaluation of a response\<close>

text \<open>The background collector when every policy is \<^verbatim>\<open>audit_only\<close>.\<close>

definition air_collect_all :: "int \<Rightarrow> int \<Rightarrow> phase \<Rightarrow> aiResponseRuleResult list \<Rightarrow> AsyncCompletion" where
  "air_collect_all now phaseStart phaseTracker rs =
     (let evaluationMs = snd (fst (phase_finalize now phaseStart phaseTracker))
      in \<lparr> ac_AIDetails = Some
             \<lparr> aai_Action = ''allow'', aai_BlockedMs = 0, aai_EvaluationMs = evaluationMs,
               aai_DecidingRule = '''', aai_Reason = '''', aai_RequestID = '''',
               aai_Results = map (\<lambda>r. (air_audit_result r)\<lparr> aair_Mode := ''audit_only'' \<rparr>) rs \<rparr>,
           ac_EvaluationMs = evaluationMs \<rparr>)"

definition air_EvaluateResponse ::
  "air_env \<Rightarrow> ai_config \<Rightarrow> AIResponsePolicy list \<Rightarrow> CallToolResult \<Rightarrow> nat option list \<Rightarrow> clock \<Rightarrow>
     BlockingBudget option \<Rightarrow> ((go_error + ResponseValidationResults) \<times> BlockingBudget option) option" where
  "air_EvaluateResponse env cfg policies toolResult sch T budget =
     (let phaseStart = T 0 0;
          phaseTracker = phase_start (T 0 1) budget;
          results = no_response_results\<lparr> rAllowed := True \<rparr>
      in if policies = []
      then (case phase_finalize (T 0 2) phaseStart phaseTracker of ((blockedMs, evaluationMs), ph) \<Rightarrow>
              Some (Inr (results\<lparr> rMessage := ''No AI response policies configured'',
                      rAIDetails := Some
                        \<lparr> aai_Action = ''allow'', aai_BlockedMs = blockedMs,
                          aai_EvaluationMs = evaluationMs, aai_DecidingRule = '''', aai_Reason = '''',
                          aai_RequestID = '''', aai_Results = [] \<rparr> \<rparr>), phase_budget ph))
      else
      let enabledPolicies = int (length (filter (\<lambda>p. \<not> IsAuditOnly (arp_Mode p)) policies));
          auditOnlyPolicies = int (length (filter (\<lambda>p. IsAuditOnly (arp_Mode p)) policies));
          responseStr = formatResponseForAI env toolResult;
          ruleTimeout = air_ruleTimeout (maxRuleEvaluationMs cfg) budget;
          es = deliver sch (air_launch (air_rule_eval env cfg ruleTimeout responseStr) policies)
      in if enabledPolicies = 0 \<and> auditOnlyPolicies > 0
      then let ph = phase_mark (T 0 3) phaseTracker
           in Some (Inr (results\<lparr> rAllowed := True,
                  rMessage := ''All policies are audit_only, proceeding without blocking'',
                  rAsync := Some (air_collect_all (T 0 4) phaseStart ph (received es)) \<rparr>),
                phase_budget ph)
      else map_option (map_prod Inr id \<circ> air_finish phaseStart (T 0 5))
             (air_loop phaseStart auditOnlyPolicies T 1 es
                (air_loop_init phaseTracker enabledPolicies (int (length policies)))))"

section \<open>What the loop computes\<close>

definition rr_enforced :: "aiResponseRuleResult \<Rightarrow> bool" where
  "rr_enforced r \<longleftrightarrow> \<not> IsAuditOnly (arp_Mode (rr_policy r))"

definition rr_denies :: "aiResponseRuleResult \<Rightarrow> bool" where
  "rr_denies r \<longleftrightarrow> rr_enforced r \<and> rr_result r = ''deny''"

definition rr_fails :: "aiResponseRuleResult \<Rightarrow> bool" where
  "rr_fails r \<longleftrightarrow> rr_enforced r \<and> rr_result r = ''error''"

definition rr_redacts :: "aiResponseRuleResult \<Rightarrow> bool" where
  "rr_redacts r \<longleftrightarrow> rr_enforced r \<and> rr_result r = ''redact''"

text \<open>A result that redacts carries the redacted text.\<close>

definition rr_ok :: "aiResponseRuleResult \<Rightarrow> bool" where
  "rr_ok r \<longleftrightarrow> (rr_result r = ''redact'' \<longrightarrow> rr_redacted r \<noteq> '''')"

definition air_waiting :: "aiResponseRuleResult event list \<Rightarrow> air_loop_state \<Rightarrow> bool" where
  "air_waiting es st \<longleftrightarrow> \<not> ls_decided st \<and> ls_async st = None \<and> ls_Allowed st \<and>
     ls_finalAction st = (if ls_redactedContent st = None then ''allow'' else ''redact'') \<and>
     ls_remainingTotal st = int (length (received es)) \<and>
     ls_remainingEnabled st = int (length (filter rr_enforced (received es)))"

definition air_verdict :: "aiResponseRuleResult list \<Rightarrow> air_loop_state \<Rightarrow> air_loop_state \<Rightarrow> bool" where
  "air_verdict rs st st' \<longleftrightarrow>
     (if \<exists>r \<in> set rs. rr_denies r
      then ls_finalAction st' = ''deny'' \<and> \<not> ls_Allowed st' \<and>
        (\<exists>r \<in> set rs. rr_denies r \<and> ls_decidingRule st' = arp_Name (rr_policy r) \<and>
           ls_decidingReason st' = rr_message r)
      else ls_finalAction st' = (if ls_redactedContent st' = None then ''allow'' else ''redact'') \<and>
        ls_Allowed st' \<and>
        ls_failedOpen st' = (ls_failedOpen st \<or> (\<exists>r \<in> set rs. rr_fails r)) \<and>
        (case ls_redactedContent st' of
           None \<Rightarrow> ls_redactedContent st = None \<and> (\<forall>r \<in> set rs. \<not> rr_redacts r)
         | Some c \<Rightarrow> ls_redactedContent st = Some c \<or> (\<exists>r \<in> set rs. rr_redacts r \<and> rr_redacted r = c)))"

lemma air_turn_waiting:
  assumes "air_waiting es st"
  obtains (Wait) "air_turn t0 ao T n es st = Inr st"
  | (Empty) "air_turn t0 ao T n es st = Inl st" "received es = []"
  | (Complete) st1 where "\<forall>r \<in> set (received es). \<not> rr_enforced r"
      "air_turn t0 ao T n es st = Inl (air_break ao T n t0 (received es) st1)"
      "st1 = st\<lparr> ls_phase := phase_mark (T n 0) (ls_phase st), ls_decided := True \<rparr>"
proof -
  note w = assms [unfolded air_waiting_def]
  consider "received es = []" | "received es \<noteq> []" "ls_remainingEnabled st = 0"
    | "received es \<noteq> []" "ls_remainingEnabled st \<noteq> 0" by blast
  then show thesis
  proof cases
    case 1
    with w show ?thesis by (intro Empty) (auto simp: air_turn_def)
  next
    case 2
    with w have "\<forall>r \<in> set (received es). \<not> rr_enforced r" by (simp add: filter_empty_conv)
    with 2 w show ?thesis by (intro Complete) (auto simp: air_turn_def Let_def)
  next
    case 3
    with w show ?thesis by (intro Wait) (auto simp: air_turn_def Let_def)
  qed
qed

lemma air_break_sel [simp]:
  "ls_finalAction (air_break ao T n t0 rs st) = ls_finalAction st"
  "ls_failedOpen (air_break ao T n t0 rs st) = ls_failedOpen st"
  "ls_Allowed (air_break ao T n t0 rs st) = ls_Allowed st"
  "ls_redactedContent (air_break ao T n t0 rs st) = ls_redactedContent st"
  "ls_auditOnlyDeny (air_break ao T n t0 rs st) = ls_auditOnlyDeny st"
  "ls_decidingRule (air_break ao T n t0 rs st) = ls_decidingRule st"
  "ls_decidingReason (air_break ao T n t0 rs st) = ls_decidingReason st"
  by (auto simp: air_break_def Let_def split: prod.split)

lemma air_break_budget [simp]:
  "budget_step_opt (phase_budget (ls_phase st)) (phase_budget (ls_phase (air_break ao T n t0 rs st)))"
  by (auto simp: air_break_def Let_def dest: phase_finalize_budget split: prod.split)

lemma air_verdict_break [simp]:
  "air_verdict rs st (air_break ao T n t0 rs' st1) = air_verdict rs st st1"
  by (simp add: air_verdict_def)

lemma air_loop_decided:
  assumes "ls_decided st" "ls_remainingTotal st = int (length (received es))"
  shows "air_loop t0 ao T n es st = Some (air_break ao T n t0 (received es) st)"
proof -
  have "air_turn t0 ao T n es st = Inl (air_break ao T n t0 (received es) st)"
    using assms by (auto simp: air_turn_def air_break_def Let_def)
  then show ?thesis by (cases "(t0, ao, T, n, es, st)" rule: air_loop.cases) auto
qed

lemma air_receive_deny:
  assumes "air_waiting (Recv r # es) st" "rr_denies r" and st1: "st1 = air_receive T n r st"
  shows "ls_decided st1" "ls_remainingTotal st1 = int (length (received es))"
    "air_verdict (r # rs) st st1"
    "budget_step_opt (phase_budget (ls_phase st)) (phase_budget (ls_phase st1))"
  using assms
  by (auto simp: st1 air_receive_def air_waiting_def air_verdict_def rr_denies_def rr_enforced_def Let_def)

lemma air_receive_wait:
  assumes "air_waiting (Recv r # es) st" "\<not> rr_denies r" "rr_ok r" and st1: "st1 = air_receive T n r st"
  shows "air_waiting es st1" "ls_failedOpen st1 = (ls_failedOpen st \<or> rr_fails r)"
    "ls_redactedContent st1 = (if rr_redacts r then Some (rr_redacted r) else ls_redactedContent st)"
    "ls_phase st1 = ls_phase st"
  using assms
  by (auto simp: st1 air_receive_def air_waiting_def rr_ok_def rr_denies_def rr_fails_def rr_redacts_def
      rr_enforced_def Let_def)

lemma air_verdict_Cons:
  assumes "air_verdict rs st1 st'" "\<not> rr_denies r"
    "ls_failedOpen st1 = (ls_failedOpen st \<or> rr_fails r)"
    "ls_redactedContent st1 = (if rr_redacts r then Some (rr_redacted r) else ls_redactedContent st)"
  shows "air_verdict (r # rs) st st'"
proof (cases "\<exists>r \<in> set rs. rr_denies r")
  case True
  with assms show ?thesis by (auto simp: air_verdict_def)
next
  case False
  with assms show ?thesis
    by (cases "ls_redactedContent st'") (auto simp: air_verdict_def split: if_splits)
qed

lemma air_loop_spec:
  assumes "air_waiting es st" "\<forall>r \<in> set (received es). rr_ok r"
  shows "\<exists>st'. air_loop t0 ao T n es st = Some st' \<and> air_verdict (received es) st st' \<and>
    budget_step_opt (phase_budget (ls_phase st)) (phase_budget (ls_phase st'))"
  using assms
proof (induction es arbitrary: n st)
  case Nil
  then have "air_turn t0 ao T n [] st = Inl st" by (simp add: air_turn_def air_waiting_def)
  with Nil show ?case by (auto simp: air_verdict_def air_waiting_def split: option.splits)
next
  case (Cons e es)
  from Cons.prems(1) show ?case
  proof (cases rule: air_turn_waiting [where ?t0.0 = t0 and ao = ao and T = T and n = n, consumes 1])
    case Wait
    show ?thesis
    proof (cases e)
      case Tick
      with Cons.prems have "air_waiting es st" by (simp add: air_waiting_def)
      from Cons.IH [OF this, of "Suc n"] Wait Tick Cons.prems(2) show ?thesis by auto
    next
      case (Recv r)
      note w = Cons.prems(1) [unfolded Recv]
      let ?st = "air_receive T n r st"
      have step: "air_loop t0 ao T n (e # es) st = air_loop t0 ao T (Suc n) es ?st"
        using Wait Recv by simp
      show ?thesis
      proof (cases "rr_denies r")
        case True
        note d = air_receive_deny [OF w True refl, where T = T and n = n]
        have "budget_step_opt (phase_budget (ls_phase st))
            (phase_budget (ls_phase (air_break ao T (Suc n) t0 (received es) ?st)))"
          using d(4) air_break_budget by (rule budget_step_opt_trans)
        with d(3) [where rs = "received es"] Recv step air_loop_decided [OF d(1,2), of t0 ao T "Suc n"]
        show ?thesis by auto
      next
        case False
        have ok: "rr_ok r" "\<forall>r \<in> set (received es). rr_ok r" using Cons.prems(2) Recv by auto
        note f = air_receive_wait [OF w False ok(1) refl, where T = T and n = n]
        from Cons.IH [OF f(1) ok(2), of "Suc n"] obtain st' where
          st': "air_loop t0 ao T (Suc n) es ?st = Some st'" "air_verdict (received es) ?st st'"
            "budget_step_opt (phase_budget (ls_phase ?st)) (phase_budget (ls_phase st'))" by blast
        with air_verdict_Cons [OF st'(2) False f(2,3)] step f(4) Recv show ?thesis by auto
      qed
    qed
  next
    case Empty
    then have "air_loop t0 ao T n (e # es) st = Some st" by (cases e) auto
    with Empty Cons.prems show ?thesis
      by (auto simp: air_verdict_def air_waiting_def split: option.splits)
  next
    case (Complete st1)
    then have "air_loop t0 ao T n (e # es) st = Some (air_break ao T n t0 (received (e # es)) st1)"
      by (cases e) auto
    moreover have "air_verdict (received (e # es)) st st1"
      using Complete Cons.prems(1)
      by (auto simp: air_verdict_def air_waiting_def rr_denies_def rr_fails_def rr_redacts_def
          split: option.splits)
    moreover have "budget_step_opt (phase_budget (ls_phase st)) (phase_budget (ls_phase st1))"
      using Complete by simp
    then have "budget_step_opt (phase_budget (ls_phase st))
        (phase_budget (ls_phase (air_break ao T n t0 (received (e # es)) st1)))"
      using air_break_budget by (rule budget_step_opt_trans)
    ultimately show ?thesis by auto
  qed
qed

section \<open>The evaluation\<close>

text \<open>What the results promise of the answers \<open>rs\<close> of the rules, whatever their order.\<close>

definition air_meets :: "aiResponseRuleResult list \<Rightarrow> ResponseValidationResults \<Rightarrow> bool" where
  "air_meets rs v \<longleftrightarrow>
     (if \<exists>r \<in> set rs. rr_denies r
      then \<not> rAllowed v \<and> rRecommendedAction v = PolicyActionDeny \<and> rRedactedContent v = None
      else rAllowed v \<and> rFailedOpen v = (\<exists>r \<in> set rs. rr_fails r) \<and>
        (case rRedactedContent v of
           None \<Rightarrow> (\<forall>r \<in> set rs. \<not> rr_redacts r) \<and> rRecommendedAction v \<noteq> PolicyActionRedact
         | Some c \<Rightarrow> rRecommendedAction v = PolicyActionRedact \<and>
             (\<exists>r \<in> set rs. rr_redacts r \<and> rr_redacted r = c))) \<and>
     (rAuditModeBypass v \<longrightarrow> rAllowed v \<and> rRedactedContent v = None)"

lemma air_finish_meets:
  assumes "air_verdict rs st0 st" "\<not> ls_failedOpen st0" "ls_redactedContent st0 = None" "set rs = set rs'"
  shows "air_meets rs' (fst (air_finish t0 now st))"
proof -
  obtain b e ph where f: "phase_finalize now t0 (ls_phase st) = ((b, e), ph)" by (metis surj_pair)
  show ?thesis
  proof (cases "\<exists>r \<in> set rs. rr_denies r")
    case True
    with assms show ?thesis
      by (simp add: air_verdict_def air_meets_def air_finish_def f no_response_results_def Let_def)
  next
    case False
    with assms show ?thesis
      by (cases "ls_redactedContent st")
        (auto simp: air_verdict_def air_meets_def air_finish_def f no_response_results_def Let_def)
  qed
qed

lemma air_finish_budget: "budget_step_opt (phase_budget (ls_phase st)) (snd (air_finish t0 now st))"
  by (auto simp: air_finish_def Let_def dest: phase_finalize_budget split: prod.split)

lemma air_rule_eval_ok: "rr_ok (air_rule_eval env cfg tmo str i p)"
  by (auto simp: rr_ok_def air_rule_eval_def DetermineResponseDecision_def Let_def split: prod.split sum.split)

lemma air_rule_eval_policy [simp]: "rr_policy (air_rule_eval env cfg tmo str i p) = p"
  by (auto simp: air_rule_eval_def Let_def split: prod.split sum.split)

lemma air_launch_ok: "r \<in> set (air_launch (air_rule_eval env cfg tmo str) ps) \<Longrightarrow> rr_ok r"
  by (auto simp: air_launch_def set_zip air_rule_eval_ok)

lemma air_launch_policies: "map rr_policy (air_launch (air_rule_eval env cfg tmo str) ps) = ps"
proof -
  have "map rr_policy (air_launch (air_rule_eval env cfg tmo str) ps) = map snd (zip [0..<length ps] ps)"
    by (simp add: air_launch_def comp_def case_prod_beta)
  also have "\<dots> = ps" by simp
  finally show ?thesis .
qed

lemma air_launch_length [simp]: "length (air_launch eval ps) = length ps"
  by (simp add: air_launch_def)

lemma air_launch_enforced:
  "length (filter rr_enforced (air_launch (air_rule_eval env cfg tmo str) ps)) =
     length (filter (\<lambda>p. \<not> IsAuditOnly (arp_Mode p)) ps)"
proof -
  let ?rs = "air_launch (air_rule_eval env cfg tmo str) ps"
  have "length (filter rr_enforced ?rs) = length (filter (\<lambda>p. \<not> IsAuditOnly (arp_Mode p)) (map rr_policy ?rs))"
    by (simp add: filter_map comp_def rr_enforced_def [abs_def])
  then show ?thesis by (simp only: air_launch_policies)
qed

text \<open>The answers of the rules to a response.\<close>

definition air_answers ::
  "air_env \<Rightarrow> ai_config \<Rightarrow> AIResponsePolicy list \<Rightarrow> CallToolResult \<Rightarrow> BlockingBudget option \<Rightarrow>
     aiResponseRuleResult list" where
  "air_answers env cfg ps toolResult budget =
     air_launch (air_rule_eval env cfg (air_ruleTimeout (maxRuleEvaluationMs cfg) budget)
       (formatResponseForAI env toolResult)) ps"

lemma air_evaluate_spec:
  "\<exists>v b'. air_EvaluateResponse env cfg ps toolResult sch T b = Some (Inr v, b') \<and>
     budget_step_opt b b' \<and> air_meets (air_answers env cfg ps toolResult b) v"
proof -
  let ?rs = "air_answers env cfg ps toolResult b"
  let ?ph = "phase_start (T 0 1) b"
  consider (none) "ps = []" | (audit) "ps \<noteq> []" "\<forall>p \<in> set ps. IsAuditOnly (arp_Mode p)"
    | (enforcing) p where "p \<in> set ps" "\<not> IsAuditOnly (arp_Mode p)" by blast
  then show ?thesis
  proof cases
    case none
    obtain bl e ph where f: "phase_finalize (T 0 2) (T 0 0) ?ph = ((bl, e), ph)" by (metis surj_pair)
    from phase_finalize_budget [OF this] have "budget_step_opt b (phase_budget ph)" by simp
    with none f show ?thesis
      by (simp add: air_EvaluateResponse_def Let_def air_meets_def air_answers_def air_launch_def
          no_response_results_def)
  next
    case audit
    have m: "set (map rr_policy ?rs) = set ps" by (simp add: air_answers_def air_launch_policies del: set_map)
    have n: "\<forall>r \<in> set ?rs. \<not> rr_enforced r"
    proof
      fix r assume "r \<in> set ?rs"
      then have "rr_policy r \<in> set ps" using m by force
      with audit(2) show "\<not> rr_enforced r" by (simp add: rr_enforced_def)
    qed
    have "budget_step_opt b (phase_budget (phase_mark (T 0 3) ?ph))"
      using phase_mark_step [of ?ph "T 0 3"] by (simp del: phase_mark_step)
    with audit n show ?thesis
      by (auto simp: air_EvaluateResponse_def Let_def air_meets_def filter_empty_conv rr_denies_def
          rr_fails_def rr_redacts_def no_response_results_def)
  next
    case (enforcing p)
    let ?ao = "int (length (filter (\<lambda>p. IsAuditOnly (arp_Mode p)) ps))"
    let ?en = "int (length (filter (\<lambda>p. \<not> IsAuditOnly (arp_Mode p)) ps))"
    let ?es = "deliver sch ?rs" and ?st0 = "air_loop_init ?ph ?en (int (length ps))"
    have "air_waiting ?es ?st0"
      by (simp add: air_waiting_def air_loop_init_def air_answers_def air_launch_enforced)
    moreover have "\<forall>r \<in> set (received ?es). rr_ok r" by (auto simp: air_answers_def air_launch_ok)
    ultimately obtain st where st: "air_loop (T 0 0) ?ao T 1 ?es ?st0 = Some st"
      "air_verdict (received ?es) ?st0 st"
      "budget_step_opt (phase_budget (ls_phase ?st0)) (phase_budget (ls_phase st))"
      using air_loop_spec by blast
    obtain v b' where v: "air_finish (T 0 0) (T 0 5) st = (v, b')" by (metis surj_pair)
    have "air_EvaluateResponse env cfg ps toolResult sch T b = Some (Inr v, b')"
      using enforcing st(1) v
      by (auto simp: air_EvaluateResponse_def Let_def filter_empty_conv air_answers_def)
    moreover have "air_meets ?rs v"
      using air_finish_meets [OF st(2), of ?rs "T 0 0" "T 0 5"] v by (simp add: air_loop_init_def)
    moreover have "budget_step_opt b b'"
    proof -
      have "budget_step_opt b (phase_budget (ls_phase st))" using st(3) by (simp add: air_loop_init_def)
      also have "budget_step_opt (phase_budget (ls_phase st)) b'"
        using air_finish_budget [of st "T 0 0" "T 0 5"] v by simp
      finally show ?thesis .
    qed
    ultimately show ?thesis by blast
  qed
qed

definition air_engine ::
  "air_env \<Rightarrow> ai_config \<Rightarrow> AIResponsePolicy list \<Rightarrow> CallToolResult \<Rightarrow> nat option list \<Rightarrow> clock \<Rightarrow>
     response_engine" where
  "air_engine env cfg ps toolResult sch T = (\<lambda>b. the (air_EvaluateResponse env cfg ps toolResult sch T b))"

interpretation air: response_evaluator "air_engine env cfg ps toolResult sch T"
  for env cfg ps toolResult sch T
proof
  fix b
  show "budget_step_opt b (snd (air_engine env cfg ps toolResult sch T b))"
    using air_evaluate_spec [of env cfg ps toolResult sch T b] by (auto simp: air_engine_def)
next
  fix b r assume "fst (air_engine env cfg ps toolResult sch T b) = Inr r"
  with air_evaluate_spec [of env cfg ps toolResult sch T b]
  have m: "air_meets (air_answers env cfg ps toolResult b) r" by (auto simp: air_engine_def)
  show "\<not> rAllowed r \<Longrightarrow> rRecommendedAction r = PolicyActionDeny"
    and "rRecommendedAction r = PolicyActionRedact \<Longrightarrow> rAllowed r \<and> rRedactedContent r \<noteq> None"
    and "rAuditModeBypass r \<Longrightarrow> rAllowed r \<and> rRedactedContent r = None"
    using m by (auto simp: air_meets_def split: if_splits option.splits)
qed

text \<open>
  C21. The AI response engine returns under every schedule and its verdict does not depend on it: the
  response is withheld exactly when an enforcing rule's answer is a denial; otherwise it has failed
  open exactly when some enforcing rule could not answer, and it is redacted exactly when some
  enforcing rule redacts, with the text one of these rules gave.
\<close>

theorem air_response_verdict:
  "\<exists>v b'. air_EvaluateResponse env cfg ps toolResult sch T b = Some (Inr v, b') \<and>
     air_meets (air_answers env cfg ps toolResult b) v"
  using air_evaluate_spec [of env cfg ps toolResult sch T b] by blast

text \<open>
  An AI response phase configured \<^verbatim>\<open>audit_only\<close> never touches a response, whatever rules are
  loaded under it and whatever the model answers.
\<close>

lemma air_audit_only_phase_passes:
  "\<exists>v b'. air_EvaluateResponse env cfg (snd (air_LoadPolicies PolicyModeAuditOnly [] cps)) result sch T b =
       Some (Inr v, b') \<and> rAllowed v \<and> \<not> rFailedOpen v \<and> rRedactedContent v = None"
proof -
  let ?ps = "snd (air_LoadPolicies PolicyModeAuditOnly [] cps)"
  let ?rs = "air_answers env cfg ?ps result b"
  have "IsAuditOnly (arp_Mode p)" if "p \<in> set ?ps" for p
    using air_rules.audit_only_phase [of PolicyModeAuditOnly _ cps] that by (simp add: IsAuditOnly_def)
  moreover have "rr_policy r \<in> set ?ps" if "r \<in> set ?rs" for r
    using that air_launch_policies unfolding air_answers_def by (metis image_eqI set_map)
  ultimately have n: "\<not> rr_enforced r" if "r \<in> set ?rs" for r
    using that by (auto simp: rr_enforced_def)
  from air_evaluate_spec obtain v b' where v: "air_EvaluateResponse env cfg ?ps result sch T b = Some (Inr v, b')"
    "air_meets ?rs v" by blast
  then have "rAllowed v \<and> \<not> rFailedOpen v \<and> rRedactedContent v = None"
    using n by (auto simp: air_meets_def rr_denies_def rr_fails_def rr_redacts_def split: if_splits option.splits)
  with v(1) show ?thesis by blast
qed

text \<open>
  What a rule's answer decides, as a table: only a redact rule redacts, and only with a text that
  differs from the content shown to the model (white space around it apart); a redact rule never
  denies; any other rule denies exactly when the model does not allow.
\<close>

lemma response_decision_table:
  "(DetermineResponseDecision action allowed redactedText original = ''redact'' \<longleftrightarrow>
      action = PolicyActionRedact \<and> redactedText \<noteq> '''' \<and> TrimSpace redactedText \<noteq> TrimSpace original) \<and>
   (DetermineResponseDecision action allowed redactedText original = ''deny'' \<longleftrightarrow>
      action \<noteq> PolicyActionRedact \<and> \<not> allowed) \<and>
   DetermineResponseDecision action allowed redactedText original \<in> {''allow'', ''deny'', ''redact''}"
  by (simp add: DetermineResponseDecision_def)

text \<open>
  The text the engine compares with is the rendering it shows to the model, so that a model that
  echoes the plain text of a response redacts it with itself.
\<close>

definition plain_result :: CallToolResult where
  "plain_result = \<lparr> IsError = False, Content = [TextContent ''ok''], ResultMeta = None \<rparr>"

lemma TrimSpace_Cons: "\<not> IsSpace c \<Longrightarrow> TrimSpace (c # s) = c # rev (dropWhile IsSpace (rev s))"
  by (simp add: TrimSpace_def dropWhile_append3)

lemma echo_of_plain_text_redacts:
  "DetermineResponseDecision PolicyActionRedact True ''ok'' (formatResponseForAI env plain_result) = ''redact''"
proof -
  have "\<exists>rest. formatResponseForAI env plain_result = CHR ''I'' # rest"
    by (simp add: formatResponseForAI_def plain_result_def Let_def)
  then obtain rest where "formatResponseForAI env plain_result = CHR ''I'' # rest" by blast
  then show ?thesis
    by (simp add: DetermineResponseDecision_def TrimSpace_Cons IsSpace_def)
qed

end
