(* ===== verification/Evaluator.thy ===== *)
theory Evaluator
  imports CELCli AICli
begin

text \<open>
  \<^verbatim>\<open>internal/gateway/policy_evaluator.go\<close> and the request chain of
  \<^verbatim>\<open>internal/gateway/tool_validation.go\<close>: the two ways the results of the CEL and the AI engine are
  combined, one used by the HTTP validation handlers, the other by the gateway's tool calls. Both
  run the engines in order on one shared budget.
\<close>

section \<open>The evaluator\<close>

record engine_methods =
  EvaluateToolCall :: "CallToolRequest \<Rightarrow> engine"
  EvaluateCLICommand :: "CLIValidationRequest \<Rightarrow> engine"

record PolicyEvaluator =
  CELEngine :: "engine_methods option"
  AIEngine :: "engine_methods option"
  MaxBlockingMs :: int

definition newBlockingBudget :: "int \<Rightarrow> PolicyEvaluator \<Rightarrow> BlockingBudget" where
  "newBlockingBudget now e =
     (let maxMs = (if MaxBlockingMs e = 0 then 90000 else MaxBlockingMs e)
      in NewBlockingBudget now maxMs)"

definition mergeEngineResults :: "ValidationResults \<Rightarrow> ValidationResults \<Rightarrow> ValidationResults" where
  "mergeEngineResults final eng =
     (let final1 = final
        \<lparr> Results := Results final @ Results eng,
          AllowCount := AllowCount final + AllowCount eng,
          DenyCount := DenyCount final + DenyCount eng,
          RulesDetails := (if RulesDetails eng \<noteq> None then RulesDetails eng else RulesDetails final),
          AIDetails := (if AIDetails eng \<noteq> None then AIDetails eng else AIDetails final),
          Async := (if Async eng \<noteq> None then Async eng else Async final),
          AuditModeBypass := (if AuditModeBypass eng then True else AuditModeBypass final),
          FailedOpen := (if FailedOpen eng then True else FailedOpen final) \<rparr>
      in if \<not> Allowed eng \<and> \<not> AuditModeBypass eng
         then final1\<lparr> Allowed := False,
                      Message := (if Message final1 = '''' then Message eng else Message final1) \<rparr>
         else final1)"

definition finalizeResults :: "string \<Rightarrow> ValidationResults \<Rightarrow> ValidationResults" where
  "finalizeResults subjectLabel results =
     (let results1 = (if \<not> Allowed results then results\<lparr> AuditModeBypass := False \<rparr> else results)
      in if Message results1 = ''''
         then results1\<lparr> Message := (if Allowed results1 then subjectLabel @ '' approved by policy''
                                     else subjectLabel @ '' denied by policy'') \<rparr>
         else results1)"

text \<open>One engine's turn: its error fails open, its results are merged.\<close>

definition merge_turn ::
  "engine \<Rightarrow> ValidationResults \<times> BlockingBudget option \<Rightarrow> ValidationResults \<times> BlockingBudget option" where
  "merge_turn eng fb =
     (case eng (snd fb) of
        (Inl err, b') \<Rightarrow> ((fst fb)\<lparr> FailedOpen := True \<rparr>, b')
      | (Inr r, b') \<Rightarrow> (mergeEngineResults (fst fb) r, b'))"

definition no_policies_results :: ValidationResults where
  "no_policies_results =
     no_results\<lparr> Allowed := True, Message := ''No validation policies configured'' \<rparr>"

definition evaluateToolCallWithBudget ::
  "int \<Rightarrow> PolicyEvaluator \<Rightarrow> CallToolRequest \<Rightarrow> BlockingBudget option \<Rightarrow>
     ValidationResults \<times> BlockingBudget option" where
  "evaluateToolCallWithBudget now e req budget =
     (if CELEngine e = None \<and> AIEngine e = None then (no_policies_results, budget)
      else let b = (case budget of None \<Rightarrow> Some (newBlockingBudget now e) | Some b \<Rightarrow> Some b);
               s0 = (no_results\<lparr> Allowed := True \<rparr>, b);
               s1 = (case CELEngine e of None \<Rightarrow> s0 | Some m \<Rightarrow> merge_turn (EvaluateToolCall m req) s0);
               s2 = (case AIEngine e of None \<Rightarrow> s1 | Some m \<Rightarrow> merge_turn (EvaluateToolCall m req) s1)
      in (finalizeResults ''Tool call'' (fst s2), snd s2))"

definition evaluateCLICommandWithBudget ::
  "int \<Rightarrow> PolicyEvaluator \<Rightarrow> CLIValidationRequest \<Rightarrow> BlockingBudget option \<Rightarrow>
     ValidationResults \<times> BlockingBudget option" where
  "evaluateCLICommandWithBudget now e req budget =
     (if CELEngine e = None \<and> AIEngine e = None then (no_policies_results, budget)
      else let b = (case budget of None \<Rightarrow> Some (newBlockingBudget now e) | Some b \<Rightarrow> Some b);
               s0 = (no_results\<lparr> Allowed := True \<rparr>, b);
               s1 = (case CELEngine e of None \<Rightarrow> s0 | Some m \<Rightarrow> merge_turn (EvaluateCLICommand m req) s0);
               s2 = (case AIEngine e of None \<Rightarrow> s1 | Some m \<Rightarrow> merge_turn (EvaluateCLICommand m req) s1)
      in (finalizeResults ''Command'' (fst s2), snd s2))"

definition pe_EvaluateToolCall :: "int \<Rightarrow> PolicyEvaluator \<Rightarrow> CallToolRequest \<Rightarrow> ValidationResults" where
  "pe_EvaluateToolCall now e req = fst (evaluateToolCallWithBudget now e req None)"

definition pe_EvaluateCLICommand :: "int \<Rightarrow> PolicyEvaluator \<Rightarrow> CLIValidationRequest \<Rightarrow> ValidationResults" where
  "pe_EvaluateCLICommand now e req = fst (evaluateCLICommandWithBudget now e req None)"

text \<open>A shell tool is evaluated both ways under one budget.\<close>

definition pe_EvaluateShellCommand ::
  "int \<Rightarrow> PolicyEvaluator \<Rightarrow> CLIValidationRequest \<Rightarrow> CallToolRequest \<Rightarrow>
     (ValidationResults \<times> ValidationResults) \<times> BlockingBudget option" where
  "pe_EvaluateShellCommand now e cliReq mcpReq =
     (case evaluateCLICommandWithBudget now e cliReq (Some (newBlockingBudget now e)) of
        (cliResults, b1) \<Rightarrow>
      (case evaluateToolCallWithBudget now e mcpReq b1 of
        (mcpResults, b2) \<Rightarrow> ((cliResults, mcpResults), b2)))"

section \<open>The chain of the gateway\<close>

record chain_state =
  ch_results :: ValidationResults
  ch_error :: "go_error option"
  ch_foundDeny :: bool
  ch_foundAllow :: bool
  ch_denyMessage :: string
  ch_allowMessage :: string

definition chain_init :: chain_state where
  "chain_init = \<lparr> ch_results = no_results, ch_error = None, ch_foundDeny = False,
     ch_foundAllow = False, ch_denyMessage = '''', ch_allowMessage = '''' \<rparr>"

definition chain_error :: "go_error \<Rightarrow> chain_state \<Rightarrow> chain_state" where
  "chain_error err st = st\<lparr> ch_error := Some (case ch_error st of
       None \<Rightarrow> err
     | Some e \<Rightarrow> PlainError (error_text e @ '' '' @ error_text err)) \<rparr>"

definition chain_merge :: "ValidationResults \<Rightarrow> chain_state \<Rightarrow> chain_state" where
  "chain_merge results st =
     (let final = ch_results st;
          final1 = final
            \<lparr> Results := Results final @ Results results,
              AllowCount := AllowCount final + AllowCount results,
              DenyCount := DenyCount final + DenyCount results,
              RulesDetails := (if RulesDetails results \<noteq> None then RulesDetails results else RulesDetails final),
              AIDetails := (if AIDetails results \<noteq> None then AIDetails results else AIDetails final),
              Async := (if Async results \<noteq> None then Async results else Async final),
              FailedOpen := (if FailedOpen results then True else FailedOpen final) \<rparr>;
          final2 = (if AuditModeBypass results
                    then final1\<lparr> AuditModeBypass := True,
                                 RecommendedAction := (if RecommendedAction results \<noteq> ''''
                                                       then RecommendedAction results
                                                       else RecommendedAction final1) \<rparr>
                    else final1);
          st1 = st\<lparr> ch_results := final2 \<rparr>;
          st2 = (if \<not> ch_foundDeny st1 \<and> DenyCount results > 0 \<and> Message results \<noteq> ''''
                 then st1\<lparr> ch_denyMessage := Message results, ch_foundDeny := True \<rparr> else st1)
      in if \<not> ch_foundAllow st2 \<and> AllowCount results > 0 \<and> Message results \<noteq> ''''
         then st2\<lparr> ch_allowMessage := Message results, ch_foundAllow := True \<rparr> else st2)"

fun chain_loop :: "engine list \<Rightarrow> chain_state \<times> BlockingBudget option \<Rightarrow> chain_state \<times> BlockingBudget option" where
  "chain_loop [] sb = sb"
| "chain_loop (handler # handlers) (st, b) =
     (case handler b of
        (Inl err, b') \<Rightarrow> chain_loop handlers (chain_error err st, b')
      | (Inr results, b') \<Rightarrow> chain_loop handlers (chain_merge results st, b'))"

definition chain_finish :: "chain_state \<Rightarrow> ValidationResults" where
  "chain_finish st =
     (let final = ch_results st in
      if ch_foundDeny st
      then final\<lparr> Allowed := False, Message := ch_denyMessage st,
                  RecommendedAction := PolicyActionDeny, AuditModeBypass := False \<rparr>
      else if ch_foundAllow st
      then (let final1 = final\<lparr> Allowed := True, Message := ch_allowMessage st \<rparr>
            in if \<not> AuditModeBypass final1 \<and> \<not> FailedOpen final1
               then final1\<lparr> RecommendedAction := PolicyActionAllow \<rparr> else final1)
      else (let final1 = final\<lparr> Allowed := True \<rparr>
            in if \<not> AuditModeBypass final1 \<and> \<not> FailedOpen final1
               then final1\<lparr> RecommendedAction := PolicyActionAllow \<rparr> else final1))"

definition chain_Handle ::
  "engine list \<Rightarrow> BlockingBudget option \<Rightarrow> (ValidationResults \<times> go_error option) \<times> BlockingBudget option" where
  "chain_Handle handlers b =
     (case chain_loop handlers (chain_init, b) of
        (st, b') \<Rightarrow> ((chain_finish st, ch_error st), b'))"

section \<open>Merging two engines\<close>

text \<open>
  Both combinations rest on the contract of the engines only: this is the client side of
  \<open>request_engine\<close>. \<open>outs\<close> are the results of the engines that returned some.
\<close>

definition results_of :: "(go_error + ValidationResults) \<Rightarrow> ValidationResults list" where
  "results_of out = (case out of Inl _ \<Rightarrow> [] | Inr r \<Rightarrow> [r])"

definition merged_verdict :: "(go_error + ValidationResults) list \<Rightarrow> ValidationResults \<Rightarrow> bool" where
  "merged_verdict outs f \<longleftrightarrow>
     (let rs = concat (map results_of outs) in
      (Allowed f \<longleftrightarrow> (\<forall>r \<in> set rs. Allowed r)) \<and>
      (Allowed f \<longleftrightarrow> DenyCount f = 0) \<and>
      DenyCount f = sum_list (map DenyCount rs) \<and> AllowCount f = sum_list (map AllowCount rs) \<and>
      (FailedOpen f \<longleftrightarrow> (\<exists>o' \<in> set outs. isl o') \<or> (\<exists>r \<in> set rs. FailedOpen r)) \<and>
      (AuditModeBypass f \<longleftrightarrow> Allowed f \<and> (\<exists>r \<in> set rs. AuditModeBypass r)) \<and>
      Message f \<noteq> '''')"

lemma mergeEngineResults_sel [simp]:
  "DenyCount (mergeEngineResults f r) = DenyCount f + DenyCount r"
  "AllowCount (mergeEngineResults f r) = AllowCount f + AllowCount r"
  "Allowed (mergeEngineResults f r) = (Allowed f \<and> (Allowed r \<or> AuditModeBypass r))"
  "FailedOpen (mergeEngineResults f r) = (FailedOpen f \<or> FailedOpen r)"
  "AuditModeBypass (mergeEngineResults f r) = (AuditModeBypass f \<or> AuditModeBypass r)"
  by (auto simp: mergeEngineResults_def Let_def)

lemma mergeEngineResults_details [simp]:
  "Results (mergeEngineResults f r) = Results f @ Results r"
  "RulesDetails (mergeEngineResults f r) = (if RulesDetails r \<noteq> None then RulesDetails r else RulesDetails f)"
  "AIDetails (mergeEngineResults f r) = (if AIDetails r \<noteq> None then AIDetails r else AIDetails f)"
  "Async (mergeEngineResults f r) = (if Async r \<noteq> None then Async r else Async f)"
  by (auto simp: mergeEngineResults_def Let_def)

lemma finalizeResults_details [simp]:
  "Results (finalizeResults l r) = Results r" "RulesDetails (finalizeResults l r) = RulesDetails r"
  "AIDetails (finalizeResults l r) = AIDetails r" "Async (finalizeResults l r) = Async r"
  by (simp_all add: finalizeResults_def Let_def)

lemma merge_turn_fields:
  assumes "merge_turn eng (f, b) = (f', b')"
  shows "case eng b of
      (Inl e, b1) \<Rightarrow> f' = f\<lparr> FailedOpen := True \<rparr> \<and> b' = b1
    | (Inr r, b1) \<Rightarrow> b' = b1 \<and> DenyCount f' = DenyCount f + DenyCount r \<and>
        AllowCount f' = AllowCount f + AllowCount r \<and>
        Allowed f' = (Allowed f \<and> (Allowed r \<or> AuditModeBypass r)) \<and>
        FailedOpen f' = (FailedOpen f \<or> FailedOpen r) \<and>
        AuditModeBypass f' = (AuditModeBypass f \<or> AuditModeBypass r)"
  using assms by (auto simp: merge_turn_def split: prod.splits sum.splits)

lemma finalizeResults_fields [simp]:
  "Allowed (finalizeResults l r) = Allowed r" "DenyCount (finalizeResults l r) = DenyCount r"
  "AllowCount (finalizeResults l r) = AllowCount r" "FailedOpen (finalizeResults l r) = FailedOpen r"
  "AuditModeBypass (finalizeResults l r) = (Allowed r \<and> AuditModeBypass r)"
  "Message (finalizeResults l r) = '''' \<Longrightarrow> False"
  by (auto simp: finalizeResults_def Let_def split: if_splits)

locale engine_pair = C: request_engine cel + A: request_engine ai
  for cel :: engine and ai :: engine
begin

lemma cel_laws:
  assumes "cel b = (Inr r, b')"
  shows "0 \<le> AllowCount r" "0 \<le> DenyCount r" "Allowed r \<longleftrightarrow> DenyCount r = 0"
    "AuditModeBypass r \<Longrightarrow> Allowed r"
  using C.count_law [of b r] C.verdict_law [of b r] C.bypass_law [of b r] assms by auto

lemma ai_laws:
  assumes "ai b = (Inr r, b')"
  shows "0 \<le> AllowCount r" "0 \<le> DenyCount r" "Allowed r \<longleftrightarrow> DenyCount r = 0"
    "AuditModeBypass r \<Longrightarrow> Allowed r"
  using A.count_law [of b r] A.verdict_law [of b r] A.bypass_law [of b r] assms by auto

lemma pair_budget: "budget_step_opt b (snd (ai (snd (cel b))))"
  using C.budget_law [of b] A.budget_law [of "snd (cel b)"] by (rule budget_step_opt_trans)

lemma pair_verdict:
  assumes "cel b = (oc, b1)" "ai b1 = (oa, b2)"
    "merge_turn ai (merge_turn cel (no_results\<lparr> Allowed := True \<rparr>, b)) = (f, b')"
  shows "merged_verdict [oc, oa] (finalizeResults l f) \<and> b' = b2"
proof -
  obtain f1 b1' where m1: "merge_turn cel (no_results\<lparr> Allowed := True \<rparr>, b) = (f1, b1')"
    by (metis surj_pair)
  note t1 = merge_turn_fields [OF m1] and t2 = merge_turn_fields [OF assms(3) [unfolded m1]]
  have b1: "b1' = b1" using t1 assms(1) by (auto split: sum.splits)
  have msg: "Message (finalizeResults l f) \<noteq> ''''"
    using finalizeResults_fields(6) by blast
  have c: "0 \<le> AllowCount r \<and> 0 \<le> DenyCount r \<and> (Allowed r \<longleftrightarrow> DenyCount r = 0) \<and> (AuditModeBypass r \<longrightarrow> Allowed r)"
    if "oc = Inr r" for r using cel_laws [of b r b1] assms(1) that by blast
  have a: "0 \<le> AllowCount r \<and> 0 \<le> DenyCount r \<and> (Allowed r \<longleftrightarrow> DenyCount r = 0) \<and> (AuditModeBypass r \<longrightarrow> Allowed r)"
    if "oa = Inr r" for r using ai_laws [of b1 r b2] assms(2) that by blast
  show ?thesis
  proof (cases oc; cases oa)
    fix e e' assume o: "oc = Inl e" "oa = Inl e'"
    with t1 t2 assms(1,2) b1 msg show ?thesis by (auto simp: merged_verdict_def results_of_def no_results_def)
  next
    fix e r assume o: "oc = Inl e" "oa = Inr r"
    with t1 t2 assms(1,2) b1 msg a [of r] show ?thesis
      by (auto simp: merged_verdict_def results_of_def no_results_def)
  next
    fix r e assume o: "oc = Inr r" "oa = Inl e"
    with t1 t2 assms(1,2) b1 msg c [of r] show ?thesis
      by (auto simp: merged_verdict_def results_of_def no_results_def)
  next
    fix r r' assume o: "oc = Inr r" "oa = Inr r'"
    with t1 t2 assms(1,2) b1 have f: "b' = b2" "DenyCount f = DenyCount r + DenyCount r'"
      "AllowCount f = AllowCount r + AllowCount r'"
      "Allowed f = ((Allowed r \<or> AuditModeBypass r) \<and> (Allowed r' \<or> AuditModeBypass r'))"
      "FailedOpen f = (FailedOpen r \<or> FailedOpen r')"
      "AuditModeBypass f = (AuditModeBypass r \<or> AuditModeBypass r')"
      by (simp_all add: no_results_def)
    have s: "DenyCount r + DenyCount r' = 0 \<longleftrightarrow> DenyCount r = 0 \<and> DenyCount r' = 0"
      using c [OF o(1)] a [OF o(2)] by linarith
    have "Allowed f \<longleftrightarrow> Allowed r \<and> Allowed r'" using f(4) c [OF o(1)] a [OF o(2)] by blast
    with f s msg o c [OF o(1)] a [OF o(2)] show ?thesis
      by (simp add: merged_verdict_def results_of_def)
  qed
qed

end

section \<open>The combinations of the model's engines\<close>

definition cel_methods ::
  "('ast, 'prg) cel_env \<Rightarrow> CELPolicy list \<Rightarrow> clock \<Rightarrow> engine_methods" where
  "cel_methods env ps T =
     \<lparr> EvaluateToolCall = \<lambda>req. cel_EvaluateToolCall env ps req T,
       EvaluateCLICommand = \<lambda>req. cel_EvaluateCLICommand env ps req T \<rparr>"

definition ai_methods ::
  "ai_env \<Rightarrow> ai_config \<Rightarrow> AIPolicy list \<Rightarrow> nat option list \<Rightarrow> clock \<Rightarrow> engine_methods" where
  "ai_methods env cfg ps sch T =
     \<lparr> EvaluateToolCall = \<lambda>req. ai_tool_engine env cfg ps req sch T,
       EvaluateCLICommand = \<lambda>req. ai_cli_engine env cfg ps req sch T \<rparr>"

definition loaded_evaluator ::
  "('ast, 'prg) cel_env \<Rightarrow> CELPolicy list \<Rightarrow> clock \<Rightarrow> ai_env \<Rightarrow> ai_config \<Rightarrow> AIPolicy list \<Rightarrow>
     nat option list \<Rightarrow> clock \<Rightarrow> int \<Rightarrow> PolicyEvaluator" where
  "loaded_evaluator cenv cps cT aenv cfg aps sch aT maxMs =
     \<lparr> CELEngine = Some (cel_methods cenv cps cT), AIEngine = Some (ai_methods aenv cfg aps sch aT),
       MaxBlockingMs = maxMs \<rparr>"

interpretation tool_pair: engine_pair "cel_EvaluateToolCall cenv cps req cT"
    "ai_tool_engine aenv cfg aps req sch aT"
  for cenv :: "('ast, 'prg) cel_env" and cps req cT aenv cfg aps sch aT
  by unfold_locales

interpretation cli_pair: engine_pair "cel_EvaluateCLICommand cenv cps req cT"
    "ai_cli_engine aenv cfg aps req sch aT"
  for cenv :: "('ast, 'prg) cel_env" and cps req cT aenv cfg aps sch aT
  by unfold_locales

lemma evaluator_tool_merge:
  "evaluateToolCallWithBudget now (loaded_evaluator cenv cps cT aenv cfg aps sch aT maxMs) req (Some b) =
     (case merge_turn (ai_tool_engine aenv cfg aps req sch aT)
            (merge_turn (cel_EvaluateToolCall cenv cps req cT) (no_results\<lparr> Allowed := True \<rparr>, Some b)) of
        (f, b') \<Rightarrow> (finalizeResults ''Tool call'' f, b'))"
  by (simp add: evaluateToolCallWithBudget_def loaded_evaluator_def cel_methods_def ai_methods_def
      split: prod.split)

lemma evaluator_cli_merge:
  "evaluateCLICommandWithBudget now (loaded_evaluator cenv cps cT aenv cfg aps sch aT maxMs) req (Some b) =
     (case merge_turn (ai_cli_engine aenv cfg aps req sch aT)
            (merge_turn (cel_EvaluateCLICommand cenv cps req cT) (no_results\<lparr> Allowed := True \<rparr>, Some b)) of
        (f, b') \<Rightarrow> (finalizeResults ''Command'' f, b'))"
  by (simp add: evaluateCLICommandWithBudget_def loaded_evaluator_def cel_methods_def ai_methods_def
      split: prod.split)

lemma evaluator_fresh_budget:
  "evaluateToolCallWithBudget now (loaded_evaluator cenv cps cT aenv cfg aps sch aT maxMs) req None =
     evaluateToolCallWithBudget now (loaded_evaluator cenv cps cT aenv cfg aps sch aT maxMs) req
       (Some (newBlockingBudget now (loaded_evaluator cenv cps cT aenv cfg aps sch aT maxMs)))"
  by (simp add: evaluateToolCallWithBudget_def loaded_evaluator_def)

lemma merge_turn_budget: "snd (merge_turn eng fb) = snd (eng (snd fb))"
  by (auto simp: merge_turn_def split: prod.split sum.split)

lemma evaluator_tool_budget:
  "budget_step_opt (Some b)
     (snd (evaluateToolCallWithBudget now (loaded_evaluator cenv cps cT aenv cfg aps sch aT maxMs) req (Some b)))"
  using tool_pair.pair_budget [where b = "Some b" and cenv = cenv and cps = cps and req = req and cT = cT
      and aenv = aenv and cfg = cfg and aps = aps and sch = sch and aT = aT]
  by (simp add: evaluator_tool_merge case_prod_beta merge_turn_budget)

lemma evaluator_cli_budget:
  "budget_step_opt (Some b)
     (snd (evaluateCLICommandWithBudget now (loaded_evaluator cenv cps cT aenv cfg aps sch aT maxMs) req (Some b)))"
  using cli_pair.pair_budget [where b = "Some b" and cenv = cenv and cps = cps and req = req and cT = cT
      and aenv = aenv and cfg = cfg and aps = aps and sch = sch and aT = aT]
  by (simp add: evaluator_cli_merge case_prod_beta merge_turn_budget)

lemma evaluator_tool_verdict:
  assumes "cel_EvaluateToolCall cenv cps req cT (Some b) = (oc, b1)"
    "ai_tool_engine aenv cfg aps req sch aT b1 = (oa, b2)"
  shows "\<exists>f. evaluateToolCallWithBudget now (loaded_evaluator cenv cps cT aenv cfg aps sch aT maxMs) req (Some b)
      = (f, b2) \<and> merged_verdict [oc, oa] f"
proof -
  obtain f b' where m: "merge_turn (ai_tool_engine aenv cfg aps req sch aT)
      (merge_turn (cel_EvaluateToolCall cenv cps req cT) (no_results\<lparr> Allowed := True \<rparr>, Some b)) = (f, b')"
    by (metis surj_pair)
  from tool_pair.pair_verdict [OF assms m, of "''Tool call''"] m show ?thesis
    by (simp add: evaluator_tool_merge)
qed

section \<open>What the loaded policies decide\<close>

definition cli_outcome :: "('ast, 'prg) cel_env \<Rightarrow> dyn \<Rightarrow> CELPolicy \<Rightarrow> outcome" where
  "cli_outcome env vars p = expr_outcome env vars (cp_CLIExpression p)"

definition call_refused :: "('ast, 'prg) cel_env \<Rightarrow> CELPolicy list \<Rightarrow> CallToolRequest \<Rightarrow> bool" where
  "call_refused env ps req =
     (case cel_decide (mcp_outcome env (mcp_vars req)) ps of Refuse p \<Rightarrow> True | _ \<Rightarrow> False)"

definition command_refused :: "('ast, 'prg) cel_env \<Rightarrow> CELPolicy list \<Rightarrow> CLIValidationRequest \<Rightarrow> bool" where
  "command_refused env ps req =
     (case cel_decide (cli_outcome env (BuildCLIContext req)) ps of Refuse p \<Rightarrow> True | _ \<Rightarrow> False)"

definition ai_cli_answers :: "ai_env \<Rightarrow> ai_config \<Rightarrow> AIPolicy list \<Rightarrow> CLIValidationRequest \<Rightarrow> aiRuleResult list" where
  "ai_cli_answers env cfg ps req =
     ai_launch (ai_cli_rule_eval env cfg (formatOperation env (NewCLIOperation req))) ps"

text \<open>
  The verdict the loaded policies may give: what the CEL rules refuse is not allowed, and anything
  else is allowed unless an enforcing AI rule answered with a denial. When the AI rules answer in time, which
  is before the budget that the CEL rules have left runs out, each such denial counts.
\<close>

definition call_in_time ::
  "('ast, 'prg) cel_env \<Rightarrow> CELPolicy list \<Rightarrow> clock \<Rightarrow> clock \<Rightarrow> BlockingBudget \<Rightarrow> CallToolRequest \<Rightarrow> bool" where
  "call_in_time cenv cps cT aT b req \<longleftrightarrow> ai_on_time (snd (cel_EvaluateToolCall cenv cps req cT (Some b))) aT"

definition command_in_time ::
  "('ast, 'prg) cel_env \<Rightarrow> CELPolicy list \<Rightarrow> clock \<Rightarrow> clock \<Rightarrow> BlockingBudget \<Rightarrow> CLIValidationRequest \<Rightarrow> bool" where
  "command_in_time cenv cps cT aT b req \<longleftrightarrow> ai_on_time (snd (cel_EvaluateCLICommand cenv cps req cT (Some b))) aT"

definition policy_verdict :: "bool \<Rightarrow> bool \<Rightarrow> aiRuleResult list \<Rightarrow> ValidationResults \<Rightarrow> bool" where
  "policy_verdict intime refused answers f \<longleftrightarrow>
     (Allowed f \<longleftrightarrow> DenyCount f = 0) \<and>
     (if refused then \<not> Allowed f
      else if intime then Allowed f \<longleftrightarrow> \<not> list_ex ai_denies answers
      else Allowed f \<or> list_ex ai_denies answers) \<and>
     \<not> (AuditModeBypass f \<and> \<not> Allowed f) \<and> Message f \<noteq> '''' \<and> RulesDetails f \<noteq> None"

lemma policy_verdictD:
  "policy_verdict intime refused answers f \<Longrightarrow> if refused then \<not> Allowed f else Allowed f \<or> list_ex ai_denies answers"
  "policy_verdict intime refused answers f \<Longrightarrow> RulesDetails f \<noteq> None"
  "policy_verdict intime refused answers f \<Longrightarrow>
     if refused then \<not> Allowed f
     else if intime then Allowed f \<longleftrightarrow> \<not> list_ex ai_denies answers
     else Allowed f \<or> list_ex ai_denies answers"
  unfolding policy_verdict_def by (auto split: if_splits)

lemma refuse_iff: "(case d of Refuse p \<Rightarrow> True | _ \<Rightarrow> False) \<longleftrightarrow> (\<exists>p. d = Refuse p)"
  by (cases d) auto

lemma command_refused_mcp:
  "command_refused env ps req \<longleftrightarrow>
     (\<exists>p. cel_decide (mcp_outcome env (BuildCLIContext req)) (map as_mcp ps) = Refuse p)"
proof -
  let ?vars = "BuildCLIContext req"
  have o: "mcp_outcome env ?vars (as_mcp p) = cli_outcome env ?vars p" for p
    by (simp add: mcp_outcome_def cli_outcome_def)
  have s: "stops (mcp_outcome env ?vars) (as_mcp p) = stops (cli_outcome env ?vars) p" for p
    by (simp add: stops_def o)
  have "find (stops (mcp_outcome env ?vars)) (map as_mcp ps) =
      map_option as_mcp (find (stops (cli_outcome env ?vars)) ps)"
    by (induction ps) (simp_all add: s)
  then show ?thesis by (auto simp: command_refused_def refuse_iff cel_decide_def o split: option.split)
qed

lemma merged_policy_verdict:
  assumes "merged_verdict [Inr r, oa] f" "RulesDetails f \<noteq> None"
    "refines_decision d oc ps r" "refused \<longleftrightarrow> (\<exists>p. d = Refuse p)"
    "oa = Inr ra" "ai_meets intime answers ra"
  shows "policy_verdict intime refused answers f"
proof -
  have r: "Allowed r \<longleftrightarrow> \<not> refused" using assms(3,4) by (simp add: refines_decision_def)
  have a: "Allowed ra \<or> list_ex ai_denies answers" "intime \<Longrightarrow> Allowed ra \<longleftrightarrow> \<not> list_ex ai_denies answers"
    using assms(6) by (auto simp: ai_meets_def list_ex_iff split: if_splits)
  have f: "Allowed f \<longleftrightarrow> Allowed r \<and> Allowed ra"
    "Allowed f \<longleftrightarrow> DenyCount f = 0" "AuditModeBypass f \<Longrightarrow> Allowed f" "Message f \<noteq> ''''"
    using assms(1) by (auto simp: assms(5) merged_verdict_def results_of_def Let_def)
  show ?thesis
    unfolding policy_verdict_def using r a f assms(2) by auto
qed

lemma merge_turn_rules:
  "RulesDetails (fst (merge_turn eng fb)) = None \<Longrightarrow> RulesDetails (fst fb) = None"
  by (auto simp: merge_turn_def split: prod.splits sum.splits if_splits)

lemma merge_turn_first_rules:
  "eng b = (Inr r, b') \<Longrightarrow> RulesDetails r \<noteq> None \<Longrightarrow>
     RulesDetails (fst (merge_turn eng (f, b))) \<noteq> None"
  by (simp add: merge_turn_def)

lemma cel_tool_decided:
  obtains r b' where "cel_EvaluateToolCall env ps req T b = (Inr r, b')" "RulesDetails r \<noteq> None"
    "refines_decision (cel_decide (mcp_outcome env (mcp_vars req)) ps) (mcp_outcome env (mcp_vars req)) ps r"
  using cel_run_all_decision [of env "mcp_vars req" ps T b] cel_run_all_audit [of env "mcp_vars req" ps T b]
  by (cases "cel_run_all env (mcp_vars req) ps T b") (auto simp: cel_EvaluateToolCall_run_all)

lemma cel_cli_decided:
  obtains r b' where "cel_EvaluateCLICommand env ps req T b = (Inr r, b')" "RulesDetails r \<noteq> None"
    "refines_decision (cel_decide (mcp_outcome env (BuildCLIContext req)) (map as_mcp ps))
       (mcp_outcome env (BuildCLIContext req)) (map as_mcp ps) r"
  using cel_run_all_decision [of env "BuildCLIContext req" "map as_mcp ps" T b]
    cel_run_all_audit [of env "BuildCLIContext req" "map as_mcp ps" T b]
  by (cases "cel_run_all env (BuildCLIContext req) (map as_mcp ps) T b")
    (auto simp: cel_EvaluateCLICommand_run_all)

lemma evaluator_tool_policy:
  fixes cenv :: "('ast, 'prg) cel_env"
  assumes e_def: "e = loaded_evaluator cenv cps cT aenv cfg aps sch aT maxMs"
  shows "\<exists>f b'. evaluateToolCallWithBudget now e req (Some b) = (f, Some b') \<and>
    policy_verdict (call_in_time cenv cps cT aT b req) (call_refused cenv cps req) (ai_answers aenv cfg aps req) f"
proof -
  obtain r b1 where c: "cel_EvaluateToolCall cenv cps req cT (Some b) = (Inr r, b1)" "RulesDetails r \<noteq> None"
    "refines_decision (cel_decide (mcp_outcome cenv (mcp_vars req)) cps) (mcp_outcome cenv (mcp_vars req)) cps r"
    by (rule cel_tool_decided)
  have "b1 \<noteq> None" using cel_tool.budget_law [of "Some b" cenv cps req cT] c(1) by auto
  then obtain oa b2 where a: "ai_EvaluateToolCall aenv cfg aps req sch aT b1 = Some (oa, b2)"
    "\<not> isl oa" "ai_meets (ai_on_time b1 aT) (ai_answers aenv cfg aps req) (projr oa)"
    using ai_tool_rule.evaluate_spec [of aenv cfg "formatOperation aenv (NewMCPOperation req)" aps sch aT b1]
    by (auto simp: ai_EvaluateToolCall_evaluate ai_answers_def)
  from a(1) have a': "ai_tool_engine aenv cfg aps req sch aT b1 = (oa, b2)" by (simp add: ai_tool_engine_def)
  obtain f b' where m: "merge_turn (ai_tool_engine aenv cfg aps req sch aT)
      (merge_turn (cel_EvaluateToolCall cenv cps req cT) (no_results\<lparr> Allowed := True \<rparr>, Some b)) = (f, b')"
    by (metis surj_pair)
  have e: "evaluateToolCallWithBudget now e req (Some b) = (finalizeResults ''Tool call'' f, b')"
    using m by (simp add: e_def evaluator_tool_merge)
  have d: "RulesDetails f \<noteq> None"
    using m merge_turn_rules merge_turn_first_rules [of "cel_EvaluateToolCall cenv cps req cT", OF c(1,2)]
    by (metis fst_conv)
  have ra: "oa = Inr (projr oa)" using a(2) by (cases oa) auto
  from merged_policy_verdict [OF _ _ c(3) _ ra a(3), of "finalizeResults ''Tool call'' f" "call_refused cenv cps req"]
    tool_pair.pair_verdict [OF c(1) a' m, of "''Tool call''"] d
  have v: "policy_verdict (call_in_time cenv cps cT aT b req) (call_refused cenv cps req) (ai_answers aenv cfg aps req) (finalizeResults ''Tool call'' f)"
    by (simp add: call_refused_def refuse_iff call_in_time_def c(1))
  have "budget_step_opt (Some b) b'"
    using evaluator_tool_budget [of b now cenv cps cT aenv cfg aps sch aT maxMs req] e by (simp add: e_def)
  then obtain b'' where "b' = Some b''" by auto
  with e v show ?thesis by blast
qed

lemma evaluator_cli_policy:
  fixes cenv :: "('ast, 'prg) cel_env"
  assumes e_def: "e = loaded_evaluator cenv cps cT aenv cfg aps sch aT maxMs"
  shows "\<exists>f b'. evaluateCLICommandWithBudget now e req (Some b) = (f, Some b') \<and>
    policy_verdict (command_in_time cenv cps cT aT b req) (command_refused cenv cps req) (ai_cli_answers aenv cfg aps req) f"
proof -
  obtain r b1 where c: "cel_EvaluateCLICommand cenv cps req cT (Some b) = (Inr r, b1)" "RulesDetails r \<noteq> None"
    "refines_decision (cel_decide (mcp_outcome cenv (BuildCLIContext req)) (map as_mcp cps))
       (mcp_outcome cenv (BuildCLIContext req)) (map as_mcp cps) r"
    by (rule cel_cli_decided)
  have "b1 \<noteq> None" using cel_cli.budget_law [of "Some b" cenv cps req cT] c(1) by auto
  then obtain oa b2 where a: "ai_EvaluateCLICommand aenv cfg aps req sch aT b1 = Some (oa, b2)"
    "\<not> isl oa" "ai_meets (ai_on_time b1 aT) (ai_cli_answers aenv cfg aps req) (projr oa)"
    using ai_cli_rule.evaluate_spec [of aenv cfg "formatOperation aenv (NewCLIOperation req)" aps sch aT b1]
    by (auto simp: ai_EvaluateCLICommand_evaluate ai_cli_answers_def)
  from a(1) have a': "ai_cli_engine aenv cfg aps req sch aT b1 = (oa, b2)" by (simp add: ai_cli_engine_def)
  obtain f b' where m: "merge_turn (ai_cli_engine aenv cfg aps req sch aT)
      (merge_turn (cel_EvaluateCLICommand cenv cps req cT) (no_results\<lparr> Allowed := True \<rparr>, Some b)) = (f, b')"
    by (metis surj_pair)
  have e: "evaluateCLICommandWithBudget now e req (Some b) = (finalizeResults ''Command'' f, b')"
    using m by (simp add: e_def evaluator_cli_merge)
  have d: "RulesDetails f \<noteq> None"
    using m merge_turn_rules merge_turn_first_rules [of "cel_EvaluateCLICommand cenv cps req cT", OF c(1,2)]
    by (metis fst_conv)
  have ra: "oa = Inr (projr oa)" using a(2) by (cases oa) auto
  from merged_policy_verdict [OF _ _ c(3) _ ra a(3), of "finalizeResults ''Command'' f" "command_refused cenv cps req"]
    cli_pair.pair_verdict [OF c(1) a' m, of "''Command''"] d
  have v: "policy_verdict (command_in_time cenv cps cT aT b req) (command_refused cenv cps req) (ai_cli_answers aenv cfg aps req) (finalizeResults ''Command'' f)"
    by (simp add: command_refused_mcp command_in_time_def c(1))
  have "budget_step_opt (Some b) b'"
    using evaluator_cli_budget [of b now cenv cps cT aenv cfg aps sch aT maxMs req] e by (simp add: e_def)
  then obtain b'' where "b' = Some b''" by auto
  with e v show ?thesis by blast
qed

text \<open>The entry points: a call, a command, and a shell command put both ways.\<close>

lemma tool_call_policy:
  assumes e_def: "e = loaded_evaluator cenv cps cT aenv cfg aps sch aT maxMs"
  shows "policy_verdict (call_in_time cenv cps cT aT (newBlockingBudget now e) req) (call_refused cenv cps req) (ai_answers aenv cfg aps req) (pe_EvaluateToolCall now e req)"
  using evaluator_tool_policy [OF e_def, of now req "newBlockingBudget now e"]
  by (auto simp: pe_EvaluateToolCall_def e_def evaluator_fresh_budget)

lemma cli_command_policy:
  assumes e_def: "e = loaded_evaluator cenv cps cT aenv cfg aps sch aT maxMs"
  shows "policy_verdict (command_in_time cenv cps cT aT (newBlockingBudget now e) req) (command_refused cenv cps req) (ai_cli_answers aenv cfg aps req) (pe_EvaluateCLICommand now e req)"
proof -
  have "evaluateCLICommandWithBudget now e req None =
      evaluateCLICommandWithBudget now e req (Some (newBlockingBudget now e))"
    by (simp add: evaluateCLICommandWithBudget_def loaded_evaluator_def e_def)
  with evaluator_cli_policy [OF e_def, of now req "newBlockingBudget now e"]
  show ?thesis by (auto simp: pe_EvaluateCLICommand_def)
qed

lemma shell_policy:
  assumes e_def: "e = loaded_evaluator cenv cps cT aenv cfg aps sch aT maxMs"
  obtains c t b b1 where "pe_EvaluateShellCommand now e creq treq = ((c, t), b)"
    "policy_verdict (command_in_time cenv cps cT aT (newBlockingBudget now e) creq)
       (command_refused cenv cps creq) (ai_cli_answers aenv cfg aps creq) c"
    "snd (evaluateCLICommandWithBudget now e creq (Some (newBlockingBudget now e))) = Some b1"
    "policy_verdict (call_in_time cenv cps cT aT b1 treq) (call_refused cenv cps treq) (ai_answers aenv cfg aps treq) t"
proof -
  obtain c b1 where c: "evaluateCLICommandWithBudget now e creq (Some (newBlockingBudget now e)) = (c, Some b1)"
    "policy_verdict (command_in_time cenv cps cT aT (newBlockingBudget now e) creq)
       (command_refused cenv cps creq) (ai_cli_answers aenv cfg aps creq) c"
    using evaluator_cli_policy [OF e_def, of now creq "newBlockingBudget now e"] by blast
  obtain t b2 where t: "evaluateToolCallWithBudget now e treq (Some b1) = (t, Some b2)"
    "policy_verdict (call_in_time cenv cps cT aT b1 treq) (call_refused cenv cps treq) (ai_answers aenv cfg aps treq) t"
    using evaluator_tool_policy [OF e_def, of now treq b1] by blast
  from that [OF _ c(2) _ t(2)] c(1) t(1) show thesis by (simp add: pe_EvaluateShellCommand_def)
qed

text \<open>
  C17. A tool call evaluated by both engines is allowed exactly when no denial is counted. A refusal
  by the CEL rules cannot be overridden by the AI rules; without one, the call is denied only if an
  enforcing AI rule answered with a denial. A denied call never carries the bypass flag, and the
  results always carry a message.
\<close>

theorem evaluator_decides:
  "let f = pe_EvaluateToolCall now (loaded_evaluator cenv cps cT aenv cfg aps sch aT maxMs) req in
     (Allowed f \<longleftrightarrow> DenyCount f = 0) \<and>
     (if \<exists>p. cel_decide (mcp_outcome cenv (mcp_vars req)) cps = Refuse p then \<not> Allowed f
      else Allowed f \<or> (\<exists>r \<in> set (ai_answers aenv cfg aps req). ai_denies r)) \<and>
     \<not> (AuditModeBypass f \<and> \<not> Allowed f) \<and> Message f \<noteq> ''''"
  using tool_call_policy [OF refl, where cenv = cenv and cps = cps and cT = cT and aenv = aenv and cfg = cfg and
      aps = aps and sch = sch and aT = aT and maxMs = maxMs and req = req and now = now]
  by (auto simp: policy_verdict_def call_refused_def refuse_iff list_ex_iff Let_def split: if_splits)

text \<open>
  A shell tool, evaluated both as a command and as a tool call, is charged to one budget: what
  both evaluations together block stays within the configured maximum (90 seconds when none is
  configured), whatever the engines, rules and answers.
\<close>

lemma shell_evaluation_bounded:
  "\<exists>b. snd (pe_EvaluateShellCommand now (loaded_evaluator cenv cps cT aenv cfg aps sch aT maxMs) creq treq) = Some b \<and>
     totalBlockedMs b \<le> max 0 (if maxMs = 0 then 90000 else maxMs)"
proof -
  let ?e = "loaded_evaluator cenv cps cT aenv cfg aps sch aT maxMs"
  let ?b = "newBlockingBudget now ?e"
  obtain f1 b1 where m1: "evaluateCLICommandWithBudget now ?e creq (Some ?b) = (f1, b1)" by (metis surj_pair)
  have s1: "budget_step_opt (Some ?b) b1"
    using evaluator_cli_budget [of ?b now cenv cps cT aenv cfg aps sch aT maxMs creq] m1 by simp
  then obtain b1' where b1': "b1 = Some b1'" by auto
  obtain f2 b2 where m2: "evaluateToolCallWithBudget now ?e treq (Some b1') = (f2, b2)" by (metis surj_pair)
  have "budget_step_opt (Some b1') b2"
    using evaluator_tool_budget [of b1' now cenv cps cT aenv cfg aps sch aT maxMs treq] m2 by simp
  with s1 b1' have "budget_step_opt (Some ?b) b2" by (auto intro: budget_step_trans)
  then obtain b where b: "b2 = Some b" "budget_step ?b b" by auto
  have "budget_ok ?b" by (simp add: newBlockingBudget_def Let_def)
  with b(2) have "budget_ok b" "maxBlockingMs b = maxBlockingMs ?b" by (auto simp: budget_step_def)
  then have "totalBlockedMs b \<le> max 0 (if maxMs = 0 then 90000 else maxMs)"
    by (cases "maxMs = 0")
      (simp_all add: budget_ok_def newBlockingBudget_def loaded_evaluator_def NewBlockingBudget_def Let_def)
  with b(1) m1 m2 b1' show ?thesis by (simp add: pe_EvaluateShellCommand_def)
qed

section \<open>The chain against the evaluator\<close>

lemma chain_merge_sel [simp]:
  "Results (ch_results (chain_merge r st)) = Results (ch_results st) @ Results r"
  "AllowCount (ch_results (chain_merge r st)) = AllowCount (ch_results st) + AllowCount r"
  "DenyCount (ch_results (chain_merge r st)) = DenyCount (ch_results st) + DenyCount r"
  "RulesDetails (ch_results (chain_merge r st)) =
     (if RulesDetails r \<noteq> None then RulesDetails r else RulesDetails (ch_results st))"
  "AIDetails (ch_results (chain_merge r st)) =
     (if AIDetails r \<noteq> None then AIDetails r else AIDetails (ch_results st))"
  "Async (ch_results (chain_merge r st)) = (if Async r \<noteq> None then Async r else Async (ch_results st))"
  "ch_foundDeny (chain_merge r st) = (ch_foundDeny st \<or> DenyCount r > 0 \<and> Message r \<noteq> '''')"
  "ch_error (chain_merge r st) = ch_error st"
  by (auto simp: chain_merge_def Let_def)

lemma chain_error_sel [simp]:
  "ch_results (chain_error e st) = ch_results st" "ch_foundDeny (chain_error e st) = ch_foundDeny st"
  by (simp_all add: chain_error_def)

lemma chain_finish_sel [simp]:
  "Results (chain_finish st) = Results (ch_results st)"
  "AllowCount (chain_finish st) = AllowCount (ch_results st)"
  "DenyCount (chain_finish st) = DenyCount (ch_results st)"
  "RulesDetails (chain_finish st) = RulesDetails (ch_results st)"
  "AIDetails (chain_finish st) = AIDetails (ch_results st)"
  "Async (chain_finish st) = Async (ch_results st)"
  "Allowed (chain_finish st) = (\<not> ch_foundDeny st)"
  by (simp_all add: chain_finish_def Let_def)

text \<open>What the two combinations have in common, for a chain state and merged results.\<close>

definition same_merge :: "chain_state \<Rightarrow> ValidationResults \<Rightarrow> bool" where
  "same_merge st f \<longleftrightarrow> Results (ch_results st) = Results f \<and>
     AllowCount (ch_results st) = AllowCount f \<and> DenyCount (ch_results st) = DenyCount f \<and>
     RulesDetails (ch_results st) = RulesDetails f \<and> AIDetails (ch_results st) = AIDetails f \<and>
     Async (ch_results st) = Async f"

lemma chain_step_same:
  assumes "same_merge st f"
  shows "case handler b of
      (Inl e, b') \<Rightarrow> merge_turn handler (f, b) = (f\<lparr> FailedOpen := True \<rparr>, b') \<and>
        same_merge (chain_error e st) (f\<lparr> FailedOpen := True \<rparr>)
    | (Inr r, b') \<Rightarrow> merge_turn handler (f, b) = (mergeEngineResults f r, b') \<and>
        same_merge (chain_merge r st) (mergeEngineResults f r)"
  using assms by (auto simp: merge_turn_def same_merge_def split: prod.split sum.split)

lemma chain_loop_same:
  assumes "same_merge st f" "chain_loop hs (st, b) = (st', b')"
  shows "\<exists>f'. foldl (\<lambda>fb h. merge_turn h fb) (f, b) hs = (f', b') \<and> same_merge st' f'"
  using assms
proof (induction hs arbitrary: st f b)
  case (Cons h hs)
  note s = chain_step_same [OF Cons.prems(1), of h b]
  show ?case
  proof (cases "h b")
    case (Pair o' b1)
    with s Cons.prems(2) Cons.IH show ?thesis by (cases o') auto
  qed
qed simp

text \<open>
  For the same request, engines and budget, the gateway's chain and the evaluator collect the same
  per-rule results, counts, audit details and pending background work, and charge the budget alike;
  the evaluator allows exactly when the chain has counted no denial, which is what the gateway tests.
\<close>

lemma chain_agrees_with_evaluator:
  "let (f, b1) = evaluateToolCallWithBudget now (loaded_evaluator cenv cps cT aenv cfg aps sch aT maxMs) req (Some b);
       ((c, err), b2) = chain_Handle [cel_EvaluateToolCall cenv cps req cT, ai_tool_engine aenv cfg aps req sch aT] (Some b)
   in Results c = Results f \<and> AllowCount c = AllowCount f \<and> DenyCount c = DenyCount f \<and>
      RulesDetails c = RulesDetails f \<and> AIDetails c = AIDetails f \<and> Async c = Async f \<and> b2 = b1 \<and>
      (Allowed f \<longleftrightarrow> DenyCount c = 0)"
proof -
  let ?cel = "cel_EvaluateToolCall cenv cps req cT" and ?ai = "ai_tool_engine aenv cfg aps req sch aT"
  obtain st b2 where l: "chain_loop [?cel, ?ai] (chain_init, Some b) = (st, b2)" by (metis surj_pair)
  have "same_merge chain_init (no_results\<lparr> Allowed := True \<rparr>)"
    by (simp add: same_merge_def chain_init_def no_results_def)
  from chain_loop_same [OF this l] obtain f where
    f: "merge_turn ?ai (merge_turn ?cel (no_results\<lparr> Allowed := True \<rparr>, Some b)) = (f, b2)" "same_merge st f"
    by auto
  obtain oc bc where oc: "?cel (Some b) = (oc, bc)" by (metis surj_pair)
  obtain oa ba where oa: "?ai bc = (oa, ba)" by (metis surj_pair)
  from tool_pair.pair_verdict [OF oc oa f(1), of "''Tool call''"]
  have "Allowed (finalizeResults ''Tool call'' f) \<longleftrightarrow> DenyCount (finalizeResults ''Tool call'' f) = 0"
    unfolding merged_verdict_def Let_def by blast
  then have "Allowed f \<longleftrightarrow> DenyCount f = 0" by simp
  with f l show ?thesis
    by (simp add: chain_Handle_def evaluator_tool_merge same_merge_def)
qed

text \<open>
  The chain itself looks for a message too: an enforced deny of a rule without a message leaves
  \<^verbatim>\<open>Allowed\<close> true although the denial is counted.
\<close>

definition always_true_env :: "(unit, unit) cel_env" where
  "always_true_env = \<lparr> cel_compile = \<lambda>s. Inr (), cel_program = \<lambda>a. Inr (), cel_eval = \<lambda>p v. Inr (DBool True) \<rparr>"

definition silent_deny :: CELPolicy where
  "silent_deny = \<lparr> cp_Name = ''d'', cp_Description = '''', cp_MCPExpression = ''true'',
     cp_CLIExpression = '''', cp_Action = PolicyActionDeny, cp_Message = '''', cp_Mode = PolicyModeEnforce \<rparr>"

lemma chain_allows_silent_deny:
  "let ((c, err), b') = chain_Handle [cel_EvaluateToolCall always_true_env [silent_deny] sample_call (\<lambda>n k. 0)] None
   in Allowed c \<and> DenyCount c = 1"
  by (simp add: chain_Handle_def chain_init_def cel_EvaluateToolCall_def cel_tool_step_def
      cel_rule_decided_def cel_run_init_def always_true_env_def silent_deny_def cel_tool_finish_def
      phase_finalize_def no_results_def IsAuditOnly_def Let_def)

end
