(* ===== verification/ToolNames.thy ===== *)
theory ToolNames
  imports Prelude
begin

text \<open>
  \<^verbatim>\<open>internal/gateway/client_manager.go\<close> and \<^verbatim>\<open>native_tools.go\<close>: the names under which the
  gateway offers the tools of its downstream clients, and the template of a forwarded
  credential.
\<close>

text \<open>\<^verbatim>\<open>strings.SplitN(s, sep, 2)\<close> for a non-empty separator, when it yields two parts.\<close>

fun split_first :: "string \<Rightarrow> string \<Rightarrow> (string \<times> string) option" where
  "split_first sep [] = None"
| "split_first sep (c # s) =
     (if HasPrefix (c # s) sep then Some ([], drop (length sep) (c # s))
      else map_option (\<lambda>(a, b). (c # a, b)) (split_first sep s))"

definition ParsePrefixedName :: "string \<Rightarrow> go_error + string \<times> string" where
  "ParsePrefixedName prefixedName =
     (case split_first ''__'' prefixedName of
        None \<Rightarrow> Inl (PlainError (''invalid prefixed name format: '' @ prefixedName))
      | Some (clientName, originalName) \<Rightarrow> Inr (clientName, originalName))"

definition PrefixName :: "string \<Rightarrow> string \<Rightarrow> string" where
  "PrefixName clientName originalName = clientName @ ''__'' @ originalName"

definition IsNativeTool :: "string \<Rightarrow> bool" where
  "IsNativeTool toolName = HasPrefix toolName ''maybedont__''"

text \<open>\<^verbatim>\<open>strings.ReplaceAll\<close> for the non-empty string \<open>x # old\<close>.\<close>

function ReplaceAll :: "string \<Rightarrow> char \<Rightarrow> string \<Rightarrow> string \<Rightarrow> string" where
  "ReplaceAll [] x old new = []"
| "ReplaceAll (c # s) x old new =
     (if HasPrefix (c # s) (x # old) then new @ ReplaceAll (drop (length old) s) x old new
      else c # ReplaceAll s x old new)"
  by pat_completeness auto
termination by (relation "measure (\<lambda>(s, x, old, new). length s)") auto

definition formatCredentialValue :: "string \<Rightarrow> string \<Rightarrow> string" where
  "formatCredentialValue template v =
     (if template = '''' then v else ReplaceAll template (CHR ''{'') ''value}'' v)"

section \<open>Round trips\<close>

lemma split_first_Some: "split_first sep s = Some (a, b) \<Longrightarrow> s = a @ sep @ b"
proof (induction sep s arbitrary: a rule: split_first.induct)
  case (2 sep c s)
  show ?case
  proof (cases "HasPrefix (c # s) sep")
    case True
    then obtain r where r: "c # s = sep @ r" by (auto simp: HasPrefix_iff)
    from True 2(2) have "a = []" "b = drop (length sep) (c # s)" by auto
    with r show ?thesis by simp
  next
    case False
    with 2 show ?thesis by auto
  qed
qed simp

lemma split_first_None: "sep \<noteq> [] \<Longrightarrow> split_first sep s = None \<longleftrightarrow> \<not> Contains s sep"
  by (induction s) auto

text \<open>The first occurrence of the separator is where one expects it when it does not start earlier.\<close>

lemma HasPrefix_take: "length p \<le> n \<Longrightarrow> HasPrefix (take n s) p \<longleftrightarrow> HasPrefix s p"
  by (simp add: HasPrefix_def min_def)

lemma underscore_prefix:
  "HasPrefix (c # a @ ''__'' @ b) ''__'' \<longleftrightarrow> HasPrefix (c # a @ ''_'') ''__''"
  by (cases a) (simp_all add: HasPrefix_def)

lemma split_first_append:
  "split_first ''__'' (a @ ''__'' @ b) = Some (a, b) \<longleftrightarrow> \<not> Contains (a @ ''_'') ''__''"
proof (induction a)
  case Nil
  show ?case by (simp add: HasPrefix_def)
next
  case (Cons c a)
  show ?case
  proof (cases "HasPrefix (c # a @ ''_'') ''__''")
    case True
    then have "HasPrefix (c # a @ ''__'' @ b) ''__''" unfolding underscore_prefix .
    then have "split_first ''__'' (c # a @ ''__'' @ b) = Some ([], drop 2 (c # a @ ''__'' @ b))"
      by (simp add: numeral_2_eq_2 del: drop_Suc_Cons)
    with True show ?thesis by simp
  next
    case False
    then have "\<not> HasPrefix (c # a @ ''__'' @ b) ''__''" unfolding underscore_prefix .
    then have "split_first ''__'' ((c # a) @ ''__'' @ b) =
        map_option (\<lambda>(x, y). (c # x, y)) (split_first ''__'' (a @ ''__'' @ b))" by simp
    moreover have "map_option (\<lambda>(x, y). (c # x, y)) o' = Some (c # a, b) \<longleftrightarrow> o' = Some (a, b)" for o'
      by (cases o') auto
    ultimately show ?thesis using Cons.IH False by simp
  qed
qed

text \<open>
  C28. The name of a tool is parsed back to its client and its own name exactly when the client's name
  does not contain "__" and does not end in "_"; and whatever name parses is the prefixed name of
  the parts, a name without "__" being the only kind that does not parse.
\<close>

theorem prefixed_name_roundtrip:
  "(ParsePrefixedName (PrefixName clientName originalName) = Inr (clientName, originalName) \<longleftrightarrow>
      \<not> Contains (clientName @ ''_'') ''__'') \<and>
   (case ParsePrefixedName s of
      Inr (c, n) \<Rightarrow> PrefixName c n = s
    | Inl e \<Rightarrow> \<not> Contains s ''__'')"
proof -
  have "ParsePrefixedName (PrefixName clientName originalName) = Inr (clientName, originalName) \<longleftrightarrow>
      split_first ''__'' (clientName @ ''__'' @ originalName) = Some (clientName, originalName)"
    by (auto simp: ParsePrefixedName_def PrefixName_def split: option.splits)
  moreover have "case ParsePrefixedName s of Inr (c, n) \<Rightarrow> PrefixName c n = s | Inl e \<Rightarrow> \<not> Contains s ''__''"
    using split_first_None [of "''__''" s]
    by (auto simp: ParsePrefixedName_def PrefixName_def split: option.splits dest: split_first_Some)
  ultimately show ?thesis by (simp only: split_first_append)
qed

text \<open>A template without the placeholder is sent as it is, whatever the credential.\<close>

lemma ReplaceAll_none: "\<not> Contains s (x # old) \<Longrightarrow> ReplaceAll s x old new = s"
  by (induction s) auto

lemma ReplaceAll_here:
  "\<not> Contains (s @ old') (x # old) \<Longrightarrow> ReplaceAll ((x # old) @ s) x old new = new @ ReplaceAll s x old new"
  by (simp add: HasPrefix_def)

lemma bearer_template:
  "formatCredentialValue ''Bearer {value}'' v = ''Bearer '' @ v"
  by (simp add: formatCredentialValue_def HasPrefix_def)

end
