(* ===== verification/ResponseChain.thy ===== *)
theory ResponseChain
  imports CELResponse AIResponseEngine
begin

text \<open>
  \<^verbatim>\<open>internal/gateway/response_validation.go\<close>: the chain of response handlers. The source passes a
  pointer to the tool result, whose first text item a redaction overwrites, so that a later
  handler and the caller see the redacted text; the result is therefore threaded through the loop
  and returned.
\<close>

type_synonym response_handler = "CallToolResult \<Rightarrow> response_engine"

text \<open>The results of one handler, merged into the final results.\<close>

definition rchain_merge ::
  "ResponseValidationResults \<Rightarrow> ResponseValidationResults \<times> CallToolResult \<Rightarrow>
     ResponseValidationResults \<times> CallToolResult" where
  "rchain_merge results fc =
     (let (final, currentResult) = fc;
          final1 = final\<lparr> rResults := rResults final @ rResults results \<rparr>;
          final2 = (if \<not> rAllowed results
                    then final1\<lparr> rAllowed := False,
                                 rMessage := (if rMessage final1 = '''' then rMessage results
                                              else rMessage final1) \<rparr>
                    else final1);
          (final3, current) =
            (case rRedactedContent results of
               None \<Rightarrow> (final2, currentResult)
             | Some redacted \<Rightarrow>
                 (final2\<lparr> rRedactedContent := rRedactedContent results \<rparr>,
                  if Content currentResult \<noteq> []
                  then currentResult\<lparr> Content := replace_first_text redacted (Content currentResult) \<rparr>
                  else currentResult));
          final4 = final3
            \<lparr> rRulesDetails := (if rRulesDetails results \<noteq> None then rRulesDetails results
                               else rRulesDetails final3),
              rAIDetails := (if rAIDetails results \<noteq> None then rAIDetails results else rAIDetails final3),
              rAsync := (if rAsync results \<noteq> None then rAsync results else rAsync final3),
              rFailedOpen := (if rFailedOpen results then True else rFailedOpen final3) \<rparr>;
          final5 = (if rAuditModeBypass results
                    then final4\<lparr> rAuditModeBypass := True,
                                 rRecommendedAction := (if rRecommendedAction results \<noteq> ''''
                                                        then rRecommendedAction results
                                                        else rRecommendedAction final4) \<rparr>
                    else final4)
      in (final5, current))"

fun rchain_loop ::
  "response_handler list \<Rightarrow> (ResponseValidationResults \<times> CallToolResult) \<times> BlockingBudget option \<Rightarrow>
     (ResponseValidationResults \<times> CallToolResult) \<times> BlockingBudget option" where
  "rchain_loop [] s = s"
| "rchain_loop (handler # handlers) (fc, b) =
     (case handler (snd fc) b of
        (Inl err, b') \<Rightarrow> rchain_loop handlers (fc, b')
      | (Inr results, b') \<Rightarrow> rchain_loop handlers (rchain_merge results fc, b'))"

definition rchain_Handle ::
  "response_handler list \<Rightarrow> CallToolResult \<Rightarrow> BlockingBudget option \<Rightarrow>
     (ResponseValidationResults \<times> CallToolResult) \<times> BlockingBudget option" where
  "rchain_Handle handlers result b =
     (case rchain_loop handlers ((no_response_results\<lparr> rAllowed := True \<rparr>, result), b) of
        ((final, current), b') \<Rightarrow>
      let message = (if rMessage final = ''''
                     then (if resp_DenyCount final > 0 then ''Response denied by policy''
                           else if resp_RedactCount final > 0 then ''Response content redacted''
                           else ''Response validation passed'')
                     else rMessage final)
      in ((final\<lparr> rMessage := message \<rparr>, current), b'))"

section \<open>What the chain does to the response\<close>

lemma rchain_merge_sel [simp]:
  "rAllowed (fst (rchain_merge r fc)) = (rAllowed (fst fc) \<and> rAllowed r)"
  "rRedactedContent (fst (rchain_merge r fc)) =
     (case rRedactedContent r of None \<Rightarrow> rRedactedContent (fst fc) | Some c \<Rightarrow> Some c)"
  "rFailedOpen (fst (rchain_merge r fc)) = (rFailedOpen (fst fc) \<or> rFailedOpen r)"
  "rAuditModeBypass (fst (rchain_merge r fc)) = (rAuditModeBypass (fst fc) \<or> rAuditModeBypass r)"
  "rResults (fst (rchain_merge r fc)) = rResults (fst fc) @ rResults r"
  by (auto simp: rchain_merge_def Let_def split: prod.split option.split)

lemma rchain_merge_current [simp]:
  "snd (rchain_merge r fc) =
     (case rRedactedContent r of
        None \<Rightarrow> snd fc
      | Some c \<Rightarrow> (snd fc)\<lparr> Content := replace_first_text c (Content (snd fc)) \<rparr>)"
  by (auto simp: rchain_merge_def Let_def split: prod.split option.split)

text \<open>The result after the chain, as a function of the result before and of what is reported.\<close>

definition redact_result :: "string option \<Rightarrow> CallToolResult \<Rightarrow> CallToolResult" where
  "redact_result red result =
     (case red of None \<Rightarrow> result
      | Some c \<Rightarrow> result\<lparr> Content := replace_first_text c (Content result) \<rparr>)"

lemma redact_result_twice [simp]:
  "redact_result (Some c) (redact_result red result) = redact_result (Some c) result"
  by (simp add: redact_result_def split: option.split)

lemma redact_result_None [simp]: "redact_result None result = result"
  by (simp add: redact_result_def)

text \<open>The outputs of the handlers, each on the result as the earlier ones left it.\<close>

fun rchain_outs ::
  "response_handler list \<Rightarrow> CallToolResult \<Rightarrow> BlockingBudget option \<Rightarrow> ResponseValidationResults list" where
  "rchain_outs [] result b = []"
| "rchain_outs (handler # handlers) result b =
     (case handler result b of
        (Inl err, b') \<Rightarrow> rchain_outs handlers result b'
      | (Inr r, b') \<Rightarrow> r # rchain_outs handlers (redact_result (rRedactedContent r) result) b')"

fun last_redaction :: "ResponseValidationResults list \<Rightarrow> string option" where
  "last_redaction [] = None"
| "last_redaction (r # rs) =
     (case last_redaction rs of None \<Rightarrow> rRedactedContent r | Some c \<Rightarrow> Some c)"

lemma rchain_merge_redact: "snd (rchain_merge r fc) = redact_result (rRedactedContent r) (snd fc)"
  by (auto simp: redact_result_def split: option.split)

lemma rchain_loop_spec:
  "let ((f, cur), b') = rchain_loop hs (fc, b); outs = rchain_outs hs (snd fc) b in
     (rAllowed f \<longleftrightarrow> rAllowed (fst fc) \<and> (\<forall>r \<in> set outs. rAllowed r)) \<and>
     (rFailedOpen f \<longleftrightarrow> rFailedOpen (fst fc) \<or> (\<exists>r \<in> set outs. rFailedOpen r)) \<and>
     (rAuditModeBypass f \<longleftrightarrow> rAuditModeBypass (fst fc) \<or> (\<exists>r \<in> set outs. rAuditModeBypass r)) \<and>
     rRedactedContent f =
       (case last_redaction outs of None \<Rightarrow> rRedactedContent (fst fc) | Some c \<Rightarrow> Some c) \<and>
     rResults f = rResults (fst fc) @ concat (map rResults outs) \<and>
     cur = redact_result (last_redaction outs) (snd fc)"
proof (induction hs arbitrary: fc b)
  case (Cons h hs)
  show ?case
  proof (cases "h (snd fc) b")
    case (Pair o' b1)
    show ?thesis
    proof (cases o')
      case (Inl e)
      with Pair Cons.IH [of fc b1] show ?thesis by simp
    next
      case (Inr r)
      have red: "redact_result (last_redaction (r # rs)) x =
          redact_result (last_redaction rs) (redact_result (rRedactedContent r) x)" for rs x
        by (cases "last_redaction rs") auto
      from Inr Pair Cons.IH [of "rchain_merge r fc" b1] show ?thesis
        by (auto simp: rchain_merge_redact red Let_def split: prod.splits option.splits
            simp del: rchain_merge_current)
    qed
  qed
qed (auto split: prod.split)

lemma rchain_Handle_pair:
  assumes "rchain_Handle hs raw b = ((f, cur), b')"
  shows "rAllowed f \<longleftrightarrow> list_all rAllowed (rchain_outs hs raw b)"
    and "rRedactedContent f = last_redaction (rchain_outs hs raw b)"
proof -
  obtain f1 cur1 b1 where l: "rchain_loop hs ((no_response_results\<lparr> rAllowed := True \<rparr>, raw), b) = ((f1, cur1), b1)"
    by (metis surj_pair)
  with assms have "rAllowed f = rAllowed f1" "rRedactedContent f = rRedactedContent f1"
    by (auto simp: rchain_Handle_def Let_def)
  with l rchain_loop_spec [of hs "(no_response_results\<lparr> rAllowed := True \<rparr>, raw)" b]
  show "rAllowed f \<longleftrightarrow> list_all rAllowed (rchain_outs hs raw b)"
    and "rRedactedContent f = last_redaction (rchain_outs hs raw b)"
    by (auto simp: no_response_results_def list_all_iff Let_def split: option.splits)
qed

text \<open>The chain over the loaded response rules: the CEL engine first, then the AI engine.\<close>

lemma loaded_response_chain:
  fixes env :: "('ast, 'prg) cel_env" and lib :: "'re regexp_lib"
  assumes cr_def: "cr = (\<lambda>result. celr_EvaluateResponse env lib rps req result rT)"
    and ar_def: "ar = (\<lambda>result. air_engine renv cfg arps result sch arT)"
    and f: "rchain_Handle [cr, ar] raw b = ((f, cur), b')"
  obtains rc ra b1 where "celr_refines lib (getTextContent raw) (response_outcome env (response_vars req raw)) rps rc"
    "air_meets (air_answers renv cfg arps (redact_result (rRedactedContent rc) raw) b1) ra"
    "rAllowed f \<longleftrightarrow> rAllowed rc \<and> rAllowed ra" "budget_step_opt b b1"
    "rRedactedContent f = (case rRedactedContent ra of None \<Rightarrow> rRedactedContent rc | Some c \<Rightarrow> Some c)"
proof -
  obtain rc b1 where c: "celr_EvaluateResponse env lib rps req raw rT b = (Inr rc, b1)"
    "celr_refines lib (getTextContent raw) (response_outcome env (response_vars req raw)) rps rc"
    "budget_step_opt b b1"
    using celr_evaluate_spec [of env lib rps req raw rT b] celr_response_budget [of b env lib rps req raw rT]
    by (cases "celr_EvaluateResponse env lib rps req raw rT b") auto
  let ?mid = "redact_result (rRedactedContent rc) raw"
  obtain ra b2 where a: "air_engine renv cfg arps ?mid sch arT b1 = (Inr ra, b2)"
    "air_meets (air_answers renv cfg arps ?mid b1) ra"
    using air_evaluate_spec [of renv cfg arps ?mid sch arT b1] by (auto simp: air_engine_def)
  have "rchain_outs [cr, ar] raw b = [rc, ra]"
    using c(1) a(1) by (simp add: cr_def ar_def)
  then have "rAllowed f \<longleftrightarrow> rAllowed rc \<and> rAllowed ra"
    "rRedactedContent f = (case rRedactedContent ra of None \<Rightarrow> rRedactedContent rc | Some c \<Rightarrow> Some c)"
    using rchain_Handle_pair [OF f] by (auto split: option.split)
  with c(2,3) a(2) that show thesis by blast
qed

text \<open>
  What the two engines together decide: the verdict, and the text put in the place of the first one,
  if any, out of whether the CEL rules deny, the redaction they compute, and the answers of the AI
  rules. The CEL rules deny when the first enforced one that fails or denies is a denial.
\<close>

definition cel_denies_response :: "(CELResponsePolicy \<Rightarrow> outcome) \<Rightarrow> CELResponsePolicy list \<Rightarrow> bool" where
  "cel_denies_response oc ps = (case find (rstops oc) ps of None \<Rightarrow> False | Some p \<Rightarrow> oc p \<noteq> Failed)"

definition cel_redaction ::
  "'re regexp_lib \<Rightarrow> string \<Rightarrow> (CELResponsePolicy \<Rightarrow> outcome) \<Rightarrow> CELResponsePolicy list \<Rightarrow> string option" where
  "cel_redaction lib body oc ps = redaction_of lib body oc (upto_first (rstops oc) ps)"

definition chosen_text :: "aiResponseRuleResult list \<Rightarrow> string option \<Rightarrow> string option \<Rightarrow> bool" where
  "chosen_text rs red x =
     (if list_ex rr_redacts rs \<and> \<not> list_ex rr_denies rs
      then list_ex (\<lambda>ans. rr_redacts ans \<and> x = Some (rr_redacted ans)) rs
      else x = red)"

lemma loaded_response_verdict:
  fixes env :: "('ast, 'prg) cel_env" and lib :: "'re regexp_lib"
  assumes cr_def: "cr = (\<lambda>result. celr_EvaluateResponse env lib rps req result rT)"
    and ar_def: "ar = (\<lambda>result. air_engine renv cfg arps result sch arT)"
    and f: "rchain_Handle [cr, ar] raw b = ((f, cur), b')"
    and oc_def: "oc = response_outcome env (response_vars req raw)"
    and red_def: "red = cel_redaction lib (getTextContent raw) oc rps"
  obtains b1 where "budget_step_opt b b1"
    "rAllowed f \<longleftrightarrow> \<not> cel_denies_response oc rps \<and>
       \<not> list_ex rr_denies (air_answers renv cfg arps (redact_result red raw) b1)"
    "chosen_text (air_answers renv cfg arps (redact_result red raw) b1) red (rRedactedContent f)"
proof -
  obtain rc ra b1 where r: "celr_refines lib (getTextContent raw) oc rps rc"
    "air_meets (air_answers renv cfg arps (redact_result (rRedactedContent rc) raw) b1) ra"
    "rAllowed f \<longleftrightarrow> rAllowed rc \<and> rAllowed ra" "budget_step_opt b b1"
    "rRedactedContent f = (case rRedactedContent ra of None \<Rightarrow> rRedactedContent rc | Some c \<Rightarrow> Some c)"
    unfolding oc_def by (rule loaded_response_chain [OF cr_def ar_def f])
  have rc: "rRedactedContent rc = red" "rAllowed rc \<longleftrightarrow> \<not> cel_denies_response oc rps"
    using r(1) by (auto simp: celr_refines_def red_def cel_redaction_def cel_denies_response_def
        split: option.splits if_splits)
  let ?rs = "air_answers renv cfg arps (redact_result red raw) b1"
  have ra: "rAllowed ra \<longleftrightarrow> \<not> list_ex rr_denies ?rs"
    "chosen_text ?rs red (rRedactedContent f)"
    using r(2) unfolding r(5) rc(1) chosen_text_def air_meets_def list_ex_iff
    by (auto split: option.splits if_splits)
  with that [OF r(4)] r(3) rc show thesis by simp
qed

text \<open>
  C23. The response chain denies exactly when one of its handlers denies, runs every handler on the
  result as the earlier ones left it, and changes the caller's result in its first text item only:
  to the last redaction of any handler, which is also the content it reports.
\<close>

theorem response_chain_effect:
  "let ((f, cur), b') = rchain_Handle hs result b; outs = rchain_outs hs result b in
     (rAllowed f \<longleftrightarrow> list_all rAllowed outs) \<and>
     (rFailedOpen f \<longleftrightarrow> (\<exists>r \<in> set outs. rFailedOpen r)) \<and>
     rRedactedContent f = last_redaction outs \<and>
     cur = redact_result (rRedactedContent f) result \<and>
     length (Content cur) = length (Content result) \<and> IsError cur = IsError result \<and>
     rMessage f \<noteq> ''''"
proof -
  obtain f cur b' where l: "rchain_loop hs ((no_response_results\<lparr> rAllowed := True \<rparr>, result), b) = ((f, cur), b')"
    by (metis surj_pair)
  have cur: "length (Content (redact_result x result)) = length (Content result)"
    "IsError (redact_result x result) = IsError result" for x
    by (auto simp: redact_result_def split: option.split)
  from rchain_loop_spec [of hs "(no_response_results\<lparr> rAllowed := True \<rparr>, result)" b] l cur show ?thesis
    by (auto simp: rchain_Handle_def no_response_results_def Let_def list_all_iff split: option.splits)
qed

text \<open>
  The bypass flag of a handler survives the denial of another one (the request side clears it), and
  the default message speaks of a denial when a rule in \<^verbatim>\<open>audit_only\<close> matched an allowed response.
\<close>

definition bypassing :: response_handler where
  "bypassing result b =
     (Inr (no_response_results\<lparr> rAllowed := True, rAuditModeBypass := True,
        rRecommendedAction := PolicyActionDeny \<rparr>), b)"

definition denying :: response_handler where
  "denying result b =
     (Inr (no_response_results\<lparr> rAllowed := False, rRecommendedAction := PolicyActionDeny \<rparr>), b)"

lemma response_bypass_kept_on_denial:
  "let ((f, cur), b') = rchain_Handle [denying, bypassing] result None
   in \<not> rAllowed f \<and> rAuditModeBypass f"
  by (simp add: rchain_Handle_def denying_def bypassing_def rchain_merge_def no_response_results_def Let_def)

definition audited_deny_rule :: CELResponsePolicy where
  "audited_deny_rule = \<lparr> crp_Name = ''d'', crp_Description = '''', crp_Expression = ''true'',
     crp_Action = PolicyActionDeny, crp_Message = '''', crp_Mode = PolicyModeAuditOnly,
     crp_RedactionPattern = '''', crp_RedactionReplacement = '''' \<rparr>"

definition true_env :: "(unit, unit) cel_env" where
  "true_env = \<lparr> cel_compile = \<lambda>s. Inr (), cel_program = \<lambda>a. Inr (), cel_eval = \<lambda>p v. Inr (DBool True) \<rparr>"

lemma allowed_response_reported_denied:
  "let ((f, cur), b') = rchain_Handle
         [\<lambda>res. celr_EvaluateResponse true_env (lib :: 're regexp_lib) [audited_deny_rule] req res (\<lambda>n k. 0)]
         result None
   in rAllowed f \<and> rMessage f = ''Response denied by policy''"
  by (simp add: rchain_Handle_def celr_EvaluateResponse_def celr_step_def celr_rule_decided_def
      celr_deny_def celr_run_init_def true_env_def audited_deny_rule_def celr_finish_def
      phase_finalize_def rchain_merge_def no_response_results_def IsAuditOnly_def resp_DenyCount_def
      count_action_def Let_def)

end
