(* ===== verification/AuditLog.thy ===== *)
theory AuditLog
  imports Results CELCli "HOL-Library.AList"
begin

text \<open>
  The audit entry and the context that builds it along a tool call (\<^verbatim>\<open>audit_entry.go\<close>). Instants
  that the source formats as RFC 3339 text are kept as instants. A completion channel is what it
  will deliver.
\<close>

section \<open>The entry\<close>

record AuditAIProvider =
  aip_Provider :: string
  aip_Model :: string
  aip_EndpointHost :: string
  aip_EndpointPath :: string

record AuditToolInfo =
  ati_Name :: string
  ati_Client :: string
  ati_PrefixedName :: string
  ati_Params :: "(string \<times> dyn) list option"
  ati_CalledAt :: "int option"
  ati_DurationMs :: "int option"

record AuditCLIInfo =
  aci_Command :: string
  aci_Arguments :: "string list"
  aci_WorkingDirectory :: string
  aci_ClientInfo :: "CLIClientInfo option"

record UpstreamRequestInfo =
  uri_RequestID :: string
  uri_ExternalID :: string
  uri_ClientID :: string
  uri_SessionID :: string
  uri_ClientIP :: string
  uri_UserAgent :: string

record AuditValidationInfo =
  avi_CEL :: "AuditRulesResult option"
  avi_AI :: "AuditAIResult option"

record AuditEntry =
  ae_Source :: string
  ae_ValidationStarted :: int
  ae_CreatedAt :: int
  ae_Tool :: "AuditToolInfo option"
  ae_CLI :: "AuditCLIInfo option"
  ae_UpstreamRequest :: UpstreamRequestInfo
  ae_AI :: "AuditAIProvider option"
  ae_RequestValidation :: "AuditValidationInfo option"
  ae_ResponseValidation :: "AuditValidationInfo option"
  ae_RecommendedAction :: string
  ae_Action :: string
  ae_ActionReason :: string
  ae_DurationMs :: int
  ae_TotalBlockedMs :: int

section \<open>The context\<close>

record AuditContext =
  ac_entry :: AuditEntry
  ac_validationStart :: int
  ac_requestAICompletion :: "AsyncCompletion option"
  ac_responseAICompletion :: "AsyncCompletion option"

definition NewAuditContext ::
  "int \<Rightarrow> string \<Rightarrow> string \<Rightarrow> string \<Rightarrow> string \<Rightarrow> string \<Rightarrow> string \<Rightarrow> AuditContext" where
  "NewAuditContext now prefixedToolName clientName toolName sessionID clientIP requestID =
     \<lparr> ac_entry =
         \<lparr> ae_Source = ''mcp'', ae_ValidationStarted = now, ae_CreatedAt = 0,
           ae_Tool = Some \<lparr> ati_Name = toolName, ati_Client = clientName,
             ati_PrefixedName = prefixedToolName, ati_Params = None, ati_CalledAt = None,
             ati_DurationMs = None \<rparr>,
           ae_CLI = None,
           ae_UpstreamRequest = \<lparr> uri_RequestID = requestID, uri_ExternalID = '''', uri_ClientID = '''',
             uri_SessionID = sessionID, uri_ClientIP = clientIP, uri_UserAgent = '''' \<rparr>,
           ae_AI = None, ae_RequestValidation = None, ae_ResponseValidation = None,
           ae_RecommendedAction = '''', ae_Action = '''', ae_ActionReason = '''',
           ae_DurationMs = 0, ae_TotalBlockedMs = 0 \<rparr>,
       ac_validationStart = now, ac_requestAICompletion = None, ac_responseAICompletion = None \<rparr>"

definition on_entry :: "(AuditEntry \<Rightarrow> AuditEntry) \<Rightarrow> AuditContext \<Rightarrow> AuditContext" where
  "on_entry f ac = ac\<lparr> ac_entry := f (ac_entry ac) \<rparr>"

definition SetToolParams :: "(string \<times> dyn) list \<Rightarrow> AuditContext \<Rightarrow> AuditContext" where
  "SetToolParams params =
     on_entry (\<lambda>e. e\<lparr> ae_Tool := map_option (\<lambda>t. t\<lparr> ati_Params := Some params \<rparr>) (ae_Tool e) \<rparr>)"

definition SetUserAgentHeader :: "string \<Rightarrow> AuditContext \<Rightarrow> AuditContext" where
  "SetUserAgentHeader userAgent =
     on_entry (\<lambda>e. e\<lparr> ae_UpstreamRequest := (ae_UpstreamRequest e)\<lparr> uri_UserAgent := userAgent \<rparr> \<rparr>)"

definition SetAIProvider :: "AuditAIProvider \<Rightarrow> AuditContext \<Rightarrow> AuditContext" where
  "SetAIProvider provider = on_entry (\<lambda>e. e\<lparr> ae_AI := Some provider \<rparr>)"

definition SetToolCalledAt :: "int \<Rightarrow> AuditContext \<Rightarrow> AuditContext" where
  "SetToolCalledAt now =
     on_entry (\<lambda>e. e\<lparr> ae_Tool := map_option (\<lambda>t. t\<lparr> ati_CalledAt := Some now \<rparr>) (ae_Tool e) \<rparr>)"

definition SetToolDuration :: "int \<Rightarrow> AuditContext \<Rightarrow> AuditContext" where
  "SetToolDuration durationMs =
     on_entry (\<lambda>e. e\<lparr> ae_Tool := map_option (\<lambda>t. t\<lparr> ati_DurationMs := Some durationMs \<rparr>) (ae_Tool e) \<rparr>)"

definition no_validation :: AuditValidationInfo where
  "no_validation = \<lparr> avi_CEL = None, avi_AI = None \<rparr>"

definition validation_info :: "AuditValidationInfo option \<Rightarrow> AuditValidationInfo" where
  "validation_info v = (case v of None \<Rightarrow> no_validation | Some i \<Rightarrow> i)"

definition SetRequestValidationRules :: "AuditRulesResult \<Rightarrow> AuditContext \<Rightarrow> AuditContext" where
  "SetRequestValidationRules rulesResult =
     on_entry (\<lambda>e. e\<lparr> ae_RequestValidation :=
       Some ((validation_info (ae_RequestValidation e))\<lparr> avi_CEL := Some rulesResult \<rparr>) \<rparr>)"

definition SetRequestValidationAI :: "AuditAIResult \<Rightarrow> AuditContext \<Rightarrow> AuditContext" where
  "SetRequestValidationAI aiResult =
     on_entry (\<lambda>e. e\<lparr> ae_RequestValidation :=
       Some ((validation_info (ae_RequestValidation e))\<lparr> avi_AI := Some aiResult \<rparr>) \<rparr>)"

definition SetResponseValidationRules :: "AuditRulesResult \<Rightarrow> AuditContext \<Rightarrow> AuditContext" where
  "SetResponseValidationRules rulesResult =
     on_entry (\<lambda>e. e\<lparr> ae_ResponseValidation :=
       Some ((validation_info (ae_ResponseValidation e))\<lparr> avi_CEL := Some rulesResult \<rparr>) \<rparr>)"

definition SetResponseValidationAI :: "AuditAIResult \<Rightarrow> AuditContext \<Rightarrow> AuditContext" where
  "SetResponseValidationAI aiResult =
     on_entry (\<lambda>e. e\<lparr> ae_ResponseValidation :=
       Some ((validation_info (ae_ResponseValidation e))\<lparr> avi_AI := Some aiResult \<rparr>) \<rparr>)"

definition SetActions :: "string \<Rightarrow> string \<Rightarrow> string \<Rightarrow> AuditContext \<Rightarrow> AuditContext" where
  "SetActions recommended actual reason =
     on_entry (\<lambda>e. e\<lparr> ae_RecommendedAction := recommended, ae_Action := actual, ae_ActionReason := reason \<rparr>)"

definition SetTotalBlockedMs :: "int \<Rightarrow> AuditContext \<Rightarrow> AuditContext" where
  "SetTotalBlockedMs blockedMs = on_entry (\<lambda>e. e\<lparr> ae_TotalBlockedMs := blockedMs \<rparr>)"

definition SetRequestAIResultsAsync :: "AsyncCompletion \<Rightarrow> AuditContext \<Rightarrow> AuditContext" where
  "SetRequestAIResultsAsync completion ac = ac\<lparr> ac_requestAICompletion := Some completion \<rparr>"

definition SetResponseAIResultsAsync :: "AsyncCompletion \<Rightarrow> AuditContext \<Rightarrow> AuditContext" where
  "SetResponseAIResultsAsync completion ac = ac\<lparr> ac_responseAICompletion := Some completion \<rparr>"

definition HasAsyncWork :: "AuditContext \<Rightarrow> bool" where
  "HasAsyncWork ac \<longleftrightarrow> ac_requestAICompletion ac \<noteq> None \<or> ac_responseAICompletion ac \<noteq> None"

definition FinalizeEntry :: "int \<Rightarrow> AuditContext \<Rightarrow> AuditEntry" where
  "FinalizeEntry now ac = (ac_entry ac)\<lparr> ae_CreatedAt := now,
     ae_DurationMs := Milliseconds (now - ac_validationStart ac) \<rparr>"

definition FinalizeAsync :: "int \<Rightarrow> AuditContext \<Rightarrow> AuditEntry" where
  "FinalizeAsync now ac =
     (let ac1 = (case ac_requestAICompletion ac of None \<Rightarrow> ac
                 | Some completion \<Rightarrow> (case ac_AIDetails completion of None \<Rightarrow> ac
                     | Some d \<Rightarrow> SetRequestValidationAI d ac));
          ac2 = (case ac_responseAICompletion ac1 of None \<Rightarrow> ac1
                 | Some completion \<Rightarrow> (case ac_AIDetails completion of None \<Rightarrow> ac1
                     | Some d \<Rightarrow> SetResponseValidationAI d ac1))
      in FinalizeEntry now ac2)"

lemmas audit_setters = on_entry_def SetToolParams_def SetUserAgentHeader_def SetAIProvider_def
  SetToolDuration_def SetRequestValidationRules_def SetRequestValidationAI_def
  SetResponseValidationRules_def SetResponseValidationAI_def SetActions_def SetTotalBlockedMs_def
  SetRequestAIResultsAsync_def SetResponseAIResultsAsync_def FinalizeEntry_def

text \<open>The parts of an entry that finalising it leaves alone.\<close>

lemma FinalizeAsync_sel [simp]:
  "ae_Tool (FinalizeAsync now ac) = ae_Tool (ac_entry ac)"
  "ae_Action (FinalizeAsync now ac) = ae_Action (ac_entry ac)"
  "ae_RecommendedAction (FinalizeAsync now ac) = ae_RecommendedAction (ac_entry ac)"
  "ae_ActionReason (FinalizeAsync now ac) = ae_ActionReason (ac_entry ac)"
  "ae_TotalBlockedMs (FinalizeAsync now ac) = ae_TotalBlockedMs (ac_entry ac)"
  "ae_UpstreamRequest (FinalizeAsync now ac) = ae_UpstreamRequest (ac_entry ac)"
  by (auto simp: FinalizeAsync_def audit_setters Let_def split: option.split)

section \<open>Writing the entry\<close>

text \<open>\<^verbatim>\<open>populateRequestValidationAudit\<close> and \<^verbatim>\<open>populateResponseValidationAudit\<close>.\<close>

definition populateRequestValidationAudit :: "ValidationResults \<Rightarrow> AuditContext \<Rightarrow> AuditContext" where
  "populateRequestValidationAudit results audit =
     (if length (Results results) = 0 \<and> RulesDetails results = None \<and> AIDetails results = None \<and>
         Async results = None
      then audit
      else
      let audit1 = (case RulesDetails results of None \<Rightarrow> audit | Some d \<Rightarrow> SetRequestValidationRules d audit);
          audit2 = (case AIDetails results of None \<Rightarrow> audit1 | Some d \<Rightarrow> SetRequestValidationAI d audit1)
      in (case Async results of None \<Rightarrow> audit2 | Some c \<Rightarrow> SetRequestAIResultsAsync c audit2))"

definition populateResponseValidationAudit :: "ResponseValidationResults \<Rightarrow> AuditContext \<Rightarrow> AuditContext" where
  "populateResponseValidationAudit results audit =
     (if length (rResults results) = 0 \<and> rRulesDetails results = None \<and> rAIDetails results = None \<and>
         rAsync results = None
      then audit
      else
      let audit1 = (case rRulesDetails results of None \<Rightarrow> audit | Some d \<Rightarrow> SetResponseValidationRules d audit);
          audit2 = (case rAIDetails results of None \<Rightarrow> audit1 | Some d \<Rightarrow> SetResponseValidationAI d audit1)
      in (case rAsync results of None \<Rightarrow> audit2 | Some c \<Rightarrow> SetResponseAIResultsAsync c audit2))"

text \<open>
  The closure \<^verbatim>\<open>writeAuditLog\<close> of \<^verbatim>\<open>HandleToolCall\<close>: the entry it hands to the writer. With work
  pending the entry is written in the background, once the pending results are in.
\<close>

datatype audit_write = WrittenNow AuditEntry | WrittenLater AuditEntry

fun written_entry :: "audit_write \<Rightarrow> AuditEntry" where
  "written_entry (WrittenNow e) = e"
| "written_entry (WrittenLater e) = e"

definition writeAuditLog :: "int \<Rightarrow> int \<Rightarrow> AuditContext \<Rightarrow> audit_write" where
  "writeAuditLog now totalBlocked audit =
     (let toolDuration = (case ae_Tool (ac_entry audit) of
            None \<Rightarrow> 0
          | Some t \<Rightarrow> (case ati_DurationMs t of None \<Rightarrow> 0 | Some d \<Rightarrow> d));
          audit1 = SetTotalBlockedMs (totalBlocked + toolDuration) audit
      in if HasAsyncWork audit1 then WrittenLater (FinalizeAsync now audit1)
         else WrittenNow (FinalizeEntry now audit1))"

lemma writeAuditLog_sel [simp]:
  "ae_Tool (written_entry (writeAuditLog now tb ac)) = ae_Tool (ac_entry ac)"
  "ae_Action (written_entry (writeAuditLog now tb ac)) = ae_Action (ac_entry ac)"
  "ae_RecommendedAction (written_entry (writeAuditLog now tb ac)) = ae_RecommendedAction (ac_entry ac)"
  "ae_ActionReason (written_entry (writeAuditLog now tb ac)) = ae_ActionReason (ac_entry ac)"
  "ae_UpstreamRequest (written_entry (writeAuditLog now tb ac)) = ae_UpstreamRequest (ac_entry ac)"
  by (simp_all add: writeAuditLog_def Let_def audit_setters)

lemma populate_sel [simp]:
  "ae_Tool (ac_entry (populateRequestValidationAudit r ac)) = ae_Tool (ac_entry ac)"
  "ae_UpstreamRequest (ac_entry (populateRequestValidationAudit r ac)) = ae_UpstreamRequest (ac_entry ac)"
  "ae_Tool (ac_entry (populateResponseValidationAudit q ac)) = ae_Tool (ac_entry ac)"
  "ae_UpstreamRequest (ac_entry (populateResponseValidationAudit q ac)) = ae_UpstreamRequest (ac_entry ac)"
  by (auto simp: populateRequestValidationAudit_def populateResponseValidationAudit_def audit_setters Let_def
      split: option.split)

end
