(* ===== verification/DownstreamConfig.thy ===== *)
theory DownstreamConfig
  imports ToolNames "HOL-Library.AList"
begin

text \<open>
  The downstream servers of a configuration (\<^verbatim>\<open>internal/config/config.go\<close>): their settings, how
  environment variables set them, and the aliases and defaults filled in. A Go map is a list of
  pairs in the order in which a loop over it would visit it, which Go leaves open; where that order
  can matter it is an argument.
\<close>

section \<open>Settings of a server\<close>

record CredentialMapping =
  cm_SourceHeader :: string
  cm_TargetHeader :: string
  cm_Format :: string

record ClientConfig =
  cc_Type :: string
  cc_DownstreamURL :: string
  cc_URL :: string
  cc_Command :: string
  cc_CommandArgs :: "string list"
  cc_Args :: "string list"
  cc_StartupTimeoutMs :: int
  cc_InitializationRetries :: int
  cc_RetryDelayMs :: int
  cc_CapabilityDiscoveryDelayMs :: int
  cc_CapabilityDiscoveryRetries :: int
  cc_CapabilityRetryDelayMs :: int
  cc_SSEHeaders :: "(string \<times> string) list"
  cc_HTTPHeaders :: "(string \<times> string) list"
  cc_PassThroughEnabled :: bool
  cc_PassThroughHeaders :: "CredentialMapping list"

definition no_client :: ClientConfig where
  "no_client = \<lparr> cc_Type = '''', cc_DownstreamURL = '''', cc_URL = '''', cc_Command = '''',
     cc_CommandArgs = [], cc_Args = [], cc_StartupTimeoutMs = 0, cc_InitializationRetries = 0,
     cc_RetryDelayMs = 0, cc_CapabilityDiscoveryDelayMs = 0, cc_CapabilityDiscoveryRetries = 0,
     cc_CapabilityRetryDelayMs = 0, cc_SSEHeaders = [], cc_HTTPHeaders = [],
     cc_PassThroughEnabled = False, cc_PassThroughHeaders = [] \<rparr>"

definition no_mapping :: CredentialMapping where
  "no_mapping = \<lparr> cm_SourceHeader = '''', cm_TargetHeader = '''', cm_Format = '''' \<rparr>"

section \<open>Numbers and truth values\<close>

text \<open>\<^verbatim>\<open>strconv.Atoi\<close> on a 64-bit system and \<^verbatim>\<open>strconv.ParseBool\<close>.\<close>

definition decimal :: "char \<Rightarrow> int option" where
  "decimal c = (let n = of_char c in if 48 \<le> n \<and> n \<le> 57 then Some (n - 48) else None)"

definition Atoi :: "string \<Rightarrow> int option" where
  "Atoi s =
     (let (neg, ds) = (case s of [] \<Rightarrow> (False, s)
            | c # s' \<Rightarrow> if c = CHR ''-'' then (True, s') else if c = CHR ''+'' then (False, s') else (False, s))
      in if ds = [] \<or> list_ex (\<lambda>c. decimal c = None) ds then None
         else let n = foldl (\<lambda>a c. a * 10 + the (decimal c)) 0 ds;
                  v = (if neg then - n else n)
         in if v < - (2 ^ 63) \<or> v > 2 ^ 63 - 1 then None else Some v)"

definition ParseBool :: "string \<Rightarrow> bool option" where
  "ParseBool s =
     (if s \<in> {''1'', ''t'', ''T'', ''true'', ''TRUE'', ''True''} then Some True
      else if s \<in> {''0'', ''f'', ''F'', ''false'', ''FALSE'', ''False''} then Some False else None)"

section \<open>Parsing\<close>

text \<open>\<^verbatim>\<open>strings.SplitN(s, sep, n)\<close> for a one-character separator: at most \<open>n\<close> parts.\<close>

fun SplitN :: "char \<Rightarrow> nat \<Rightarrow> string \<Rightarrow> string list" where
  "SplitN c 0 s = []"
| "SplitN c (Suc 0) s = [s]"
| "SplitN c (Suc (Suc n)) s =
     (if c \<in> set s
      then takeWhile (\<lambda>x. x \<noteq> c) s # SplitN c (Suc n) (tl (dropWhile (\<lambda>x. x \<noteq> c) s))
      else [s])"

definition mapping_error :: "int \<Rightarrow> string \<Rightarrow> go_error" where
  "mapping_error i msg = PlainError (''header mapping '' @ Itoa i @ msg)"

fun parse_headers :: "int \<Rightarrow> string list \<Rightarrow> CredentialMapping list \<Rightarrow> go_error + CredentialMapping list" where
  "parse_headers i [] mappings = Inr mappings"
| "parse_headers i (part0 # parts0) mappings =
     (let headerPart = TrimSpace part0 in
      if headerPart = '''' then parse_headers (i + 1) parts0 mappings
      else if CHR '':'' \<notin> set headerPart
      then Inl (mapping_error i '' must contain at least one colon (format: source_header:target_header[:format])'')
      else let parts = SplitN (CHR '':'') 3 headerPart;
               mapping = \<lparr> cm_SourceHeader = TrimSpace (parts ! 0), cm_TargetHeader = TrimSpace (parts ! 1),
                 cm_Format = (if length parts > 2 then TrimSpace (parts ! 2) else '''') \<rparr>
      in if cm_SourceHeader mapping = '''' then Inl (mapping_error i '': source_header cannot be empty'')
         else if cm_TargetHeader mapping = '''' then Inl (mapping_error i '': target_header cannot be empty'')
         else parse_headers (i + 1) parts0 (mappings @ [mapping]))"

definition parseCompactHeaders :: "string \<Rightarrow> go_error + CredentialMapping list" where
  "parseCompactHeaders s =
     (if s = '''' then Inr [] else parse_headers 0 (split_on (CHR '';'') s) [])"

definition splitCommaSeparated :: "string \<Rightarrow> string list" where
  "splitCommaSeparated s = (if s = '''' then [] else comma_list s)"

definition knownClientConfigFields :: "string list" where
  "knownClientConfigFields = [''TYPE'', ''URL'', ''DOWNSTREAM_URL'', ''COMMAND'', ''ARGS'', ''COMMAND_ARGS'',
     ''STARTUP_TIMEOUT_MS'', ''INITIALIZATION_RETRIES'', ''RETRY_DELAY_MS'',
     ''CAPABILITY_DISCOVERY_DELAY_MS'', ''CAPABILITY_DISCOVERY_RETRIES'', ''CAPABILITY_RETRY_DELAY_MS'',
     ''AUTH_PASS_THROUGH_ENABLED'', ''AUTH_PASS_THROUGH_HEADERS'', ''SSE_HEADERS'', ''HTTP_HEADERS'']"

definition isValidFieldPath :: "string \<Rightarrow> bool" where
  "isValidFieldPath path =
     (if path = '''' then False
      else if List.member knownClientConfigFields path then True
      else list_ex (\<lambda>field. HasPrefix path (field @ ''_'')) knownClientConfigFields)"

text \<open>The loop over the split points: \<open>front\<close> are the parts of the client's name so far.\<close>

fun find_client :: "string list \<Rightarrow> string list \<Rightarrow> (string \<times> string) option" where
  "find_client front [] = None"
| "find_client front (part # parts) =
     (let candidateClient = join_with ''_'' (front @ [part]); candidatePath = join_with ''_'' parts
      in if isValidFieldPath candidatePath
         then Some (ToLower (map (\<lambda>c. if c = CHR ''_'' then CHR ''-'' else c) candidateClient), candidatePath)
         else find_client (front @ [part]) parts)"

definition extractClientNameAndPath :: "string \<Rightarrow> (string \<times> string) option" where
  "extractClientNameAndPath suffix = find_client [] (split_on (CHR ''_'') suffix)"

section \<open>Applying environment variables\<close>

definition TrimPrefix :: "string \<Rightarrow> string \<Rightarrow> string" where
  "TrimPrefix s p = (if HasPrefix s p then drop (length p) s else s)"

definition applyIndexedHeader :: "ClientConfig \<Rightarrow> string \<Rightarrow> string \<Rightarrow> ClientConfig" where
  "applyIndexedHeader client fieldPath val =
     (let parts = SplitN (CHR ''_'') 2 (TrimPrefix fieldPath ''AUTH_PASS_THROUGH_HEADERS_'') in
      if length parts \<noteq> 2 then client
      else case Atoi (parts ! 0) of
        None \<Rightarrow> client
      | Some index \<Rightarrow>
          if index < 0 then client
          else let i = nat index; hs = cc_PassThroughHeaders client;
                   grown = hs @ replicate (Suc i - length hs) no_mapping;
                   m = grown ! i; fieldName = parts ! 1;
                   m' = (if fieldName = ''SOURCE_HEADER'' then m\<lparr> cm_SourceHeader := val \<rparr>
                         else if fieldName = ''TARGET_HEADER'' then m\<lparr> cm_TargetHeader := val \<rparr>
                         else if fieldName = ''FORMAT'' then m\<lparr> cm_Format := val \<rparr> else m)
          in client\<lparr> cc_PassThroughHeaders := grown[i := m'] \<rparr>)"

definition set_int :: "(int \<Rightarrow> ClientConfig) \<Rightarrow> ClientConfig \<Rightarrow> string \<Rightarrow> ClientConfig" where
  "set_int f client val = (case Atoi val of Some v \<Rightarrow> f v | None \<Rightarrow> client)"

definition applyClientConfigField :: "string \<Rightarrow> string \<Rightarrow> ClientConfig \<Rightarrow> ClientConfig" where
  "applyClientConfigField fieldPath val client =
     (if fieldPath = ''TYPE'' then client\<lparr> cc_Type := val \<rparr>
      else if fieldPath = ''URL'' then client\<lparr> cc_URL := val \<rparr>
      else if fieldPath = ''DOWNSTREAM_URL'' then client\<lparr> cc_DownstreamURL := val \<rparr>
      else if fieldPath = ''COMMAND'' then client\<lparr> cc_Command := val \<rparr>
      else if fieldPath = ''ARGS'' then client\<lparr> cc_Args := splitCommaSeparated val \<rparr>
      else if fieldPath = ''COMMAND_ARGS'' then client\<lparr> cc_CommandArgs := splitCommaSeparated val \<rparr>
      else if fieldPath = ''STARTUP_TIMEOUT_MS''
      then set_int (\<lambda>v. client\<lparr> cc_StartupTimeoutMs := v \<rparr>) client val
      else if fieldPath = ''INITIALIZATION_RETRIES''
      then set_int (\<lambda>v. client\<lparr> cc_InitializationRetries := v \<rparr>) client val
      else if fieldPath = ''RETRY_DELAY_MS''
      then set_int (\<lambda>v. client\<lparr> cc_RetryDelayMs := v \<rparr>) client val
      else if fieldPath = ''CAPABILITY_DISCOVERY_DELAY_MS''
      then set_int (\<lambda>v. client\<lparr> cc_CapabilityDiscoveryDelayMs := v \<rparr>) client val
      else if fieldPath = ''CAPABILITY_DISCOVERY_RETRIES''
      then set_int (\<lambda>v. client\<lparr> cc_CapabilityDiscoveryRetries := v \<rparr>) client val
      else if fieldPath = ''CAPABILITY_RETRY_DELAY_MS''
      then set_int (\<lambda>v. client\<lparr> cc_CapabilityRetryDelayMs := v \<rparr>) client val
      else if fieldPath = ''AUTH_PASS_THROUGH_ENABLED''
      then (case ParseBool val of Some v \<Rightarrow> client\<lparr> cc_PassThroughEnabled := v \<rparr> | None \<Rightarrow> client)
      else if fieldPath = ''AUTH_PASS_THROUGH_HEADERS''
      then (case parseCompactHeaders val of
              Inr headers \<Rightarrow> client\<lparr> cc_PassThroughHeaders := headers \<rparr> | Inl e \<Rightarrow> client)
      else if HasPrefix fieldPath ''AUTH_PASS_THROUGH_HEADERS_'' then applyIndexedHeader client fieldPath val
      else if HasPrefix fieldPath ''HTTP_HEADERS_''
      then client\<lparr> cc_HTTPHeaders := AList.update (TrimPrefix fieldPath ''HTTP_HEADERS_'') val (cc_HTTPHeaders client) \<rparr>
      else if HasPrefix fieldPath ''SSE_HEADERS_''
      then client\<lparr> cc_SSEHeaders := AList.update (TrimPrefix fieldPath ''SSE_HEADERS_'') val (cc_SSEHeaders client) \<rparr>
      else client)"

text \<open>
  The whole scan. \<open>environ\<close> holds "KEY=value" texts; \<open>order\<close> rearranges the fields of a client into
  the order in which the map of them is visited.
\<close>

definition downstream_vars :: "string \<Rightarrow> string list \<Rightarrow> (string \<times> string) list" where
  "downstream_vars prefix environ =
     foldl (\<lambda>vars env.
        let key = takeWhile (\<lambda>c. c \<noteq> CHR ''='') env; val = drop (length key + 1) env in
        if CHR ''='' \<in> set env \<and> key \<noteq> '''' \<and> HasPrefix key prefix then AList.update key val vars else vars)
       [] environ"

definition group_vars :: "string \<Rightarrow> (string \<times> string) list \<Rightarrow> (string \<times> (string \<times> string) list) list" where
  "group_vars prefix vars =
     foldl (\<lambda>groups (key, val).
        case extractClientNameAndPath (TrimPrefix key prefix) of
          None \<Rightarrow> groups
        | Some (clientName, fieldPath) \<Rightarrow>
            AList.update clientName
              (AList.update fieldPath val (case map_of groups clientName of None \<Rightarrow> [] | Some fs \<Rightarrow> fs)) groups)
       [] vars"

definition parseDownstreamServersFromEnv ::
  "((string \<times> string) list \<Rightarrow> (string \<times> string) list) \<Rightarrow> (string \<times> ClientConfig) list \<Rightarrow> string \<Rightarrow>
     string list \<Rightarrow> (string \<times> ClientConfig) list" where
  "parseDownstreamServersFromEnv order servers envPrefix environ =
     (let prefix = envPrefix @ ''_DOWNSTREAM_MCP_SERVERS_''
      in foldl (\<lambda>svs (clientName, fields).
           let client = (case map_of svs clientName of None \<Rightarrow> no_client | Some c \<Rightarrow> c)
           in AList.update clientName
                (foldl (\<lambda>c (fieldPath, val). applyClientConfigField fieldPath val c) client (order fields)) svs)
         servers (group_vars prefix (downstream_vars prefix environ)))"

definition ConfigPathToEnvVar :: "string \<Rightarrow> string" where
  "ConfigPathToEnvVar path =
     ''MAYBE_DONT_'' @ ToUpper (map (\<lambda>c. if c = CHR ''.'' \<or> c = CHR ''-'' then CHR ''_'' else c)
       (filter (\<lambda>c. c \<noteq> CHR '']'') (map (\<lambda>c. if c = CHR ''['' then CHR ''_'' else c) path)))"

section \<open>Aliases and defaults\<close>

definition resolve_aliases :: "ClientConfig \<Rightarrow> ClientConfig" where
  "resolve_aliases client =
     (let c1 = (if cc_URL client \<noteq> '''' \<and> cc_DownstreamURL client = ''''
                then client\<lparr> cc_DownstreamURL := cc_URL client \<rparr> else client)
      in if length (cc_Args c1) > 0 \<and> length (cc_CommandArgs c1) = 0
         then c1\<lparr> cc_CommandArgs := cc_Args c1 \<rparr> else c1)"

definition client_defaults :: "ClientConfig \<Rightarrow> ClientConfig" where
  "client_defaults client = client
     \<lparr> cc_StartupTimeoutMs := (if cc_StartupTimeoutMs client = 0 then 30000 else cc_StartupTimeoutMs client),
       cc_InitializationRetries :=
         (if cc_InitializationRetries client = 0 then 5 else cc_InitializationRetries client),
       cc_RetryDelayMs := (if cc_RetryDelayMs client = 0 then 100 else cc_RetryDelayMs client),
       cc_CapabilityDiscoveryDelayMs :=
         (if cc_CapabilityDiscoveryDelayMs client = 0
          then (if cc_Type client = ''stdio'' then 1000 else 0) else cc_CapabilityDiscoveryDelayMs client),
       cc_CapabilityDiscoveryRetries :=
         (if cc_CapabilityDiscoveryRetries client = 0 then 3 else cc_CapabilityDiscoveryRetries client),
       cc_CapabilityRetryDelayMs :=
         (if cc_CapabilityRetryDelayMs client = 0 then 500 else cc_CapabilityRetryDelayMs client) \<rparr>"

lemma normalized_idem:
  "client_defaults (client_defaults c) = client_defaults c"
  "resolve_aliases (resolve_aliases c) = resolve_aliases c"
  by (simp_all add: client_defaults_def resolve_aliases_def Let_def)

section \<open>Trimmed texts\<close>

lemma TrimSpace_idem [simp]: "TrimSpace (TrimSpace s) = TrimSpace s"
proof -
  have d: "dropWhile P (dropWhile P xs) = dropWhile P xs" for P :: "char \<Rightarrow> bool" and xs
    by (induction xs) auto
  let ?t = "dropWhile IsSpace s" and ?u = "rev (dropWhile IsSpace (rev (dropWhile IsSpace s)))"
  have "dropWhile IsSpace ?u = ?u"
  proof (cases "?u = []")
    case False
    have "\<exists>r. ?t = ?u @ r"
      by (metis rev_append rev_rev_ident takeWhile_dropWhile_id)
    then obtain r where r: "?t = ?u @ r" by blast
    with False have "hd ?u = hd ?t" "?t \<noteq> []" by (metis hd_append2, metis append_is_Nil_conv)
    with hd_dropWhile [of IsSpace s] have "\<not> IsSpace (hd ?u)" by simp
    with False show ?thesis by (cases ?u) auto
  next
    case True
    then show ?thesis by (simp only: dropWhile.simps)
  qed
  then show ?thesis by (simp add: TrimSpace_def d)
qed

lemma trimmed_append:
  assumes "TrimSpace a = a" "TrimSpace b = b" "a \<noteq> []" "b \<noteq> []"
  shows "TrimSpace (a @ m @ b) = a @ m @ b"
proof -
  have h: "\<not> IsSpace (hd x)" "\<not> IsSpace (last x)" if "TrimSpace x = x" "x \<noteq> []" for x
  proof -
    from that show "\<not> IsSpace (last x)"
      by (metis TrimSpace_def hd_dropWhile last_rev rev_is_Nil_conv rev_rev_ident)
    from that show "\<not> IsSpace (hd x)"
      by (metis TrimSpace_def hd_append2 hd_dropWhile rev_append rev_is_Nil_conv rev_rev_ident
          takeWhile_dropWhile_id dropWhile.simps(1))
  qed
  have "dropWhile IsSpace (a @ m @ b) = a @ m @ b"
    using h(1) [OF assms(1,3)] assms(3) by (cases a) auto
  moreover have "dropWhile IsSpace (rev (a @ m @ b)) = rev (a @ m @ b)"
    using h(2) [OF assms(2,4)] assms(4) by (cases b rule: rev_cases) auto
  ultimately show ?thesis by (simp only: TrimSpace_def rev_rev_ident)
qed

lemma set_TrimSpace: "set (TrimSpace s) \<subseteq> set s"
proof
  fix x
  assume "x \<in> set (TrimSpace s)"
  then have "x \<in> set (dropWhile IsSpace (rev (dropWhile IsSpace s)))" by (simp add: TrimSpace_def)
  from set_dropWhileD [OF this] have "x \<in> set (dropWhile IsSpace s)" by simp
  from set_dropWhileD [OF this] show "x \<in> set s" by simp
qed

lemma split_on_join:
  "list_all (\<lambda>w. c \<notin> set w) ws \<Longrightarrow> ws \<noteq> [] \<Longrightarrow> split_on c (join_with [c] ws) = ws"
  by (induction "[c]" ws rule: join_with.induct) (auto simp: split_on_append)

section \<open>Header mappings in their compact form\<close>

definition print_mapping :: "CredentialMapping \<Rightarrow> string" where
  "print_mapping m = cm_SourceHeader m @ '':'' @ cm_TargetHeader m @
     (if cm_Format m = '''' then '''' else '':'' @ cm_Format m)"

definition print_headers :: "CredentialMapping list \<Rightarrow> string" where
  "print_headers ms = join_with '';'' (map print_mapping ms)"

definition mapping_ok :: "CredentialMapping \<Rightarrow> bool" where
  "mapping_ok m \<longleftrightarrow> cm_SourceHeader m \<noteq> '''' \<and> cm_TargetHeader m \<noteq> '''' \<and>
     TrimSpace (cm_SourceHeader m) = cm_SourceHeader m \<and> TrimSpace (cm_TargetHeader m) = cm_TargetHeader m \<and>
     TrimSpace (cm_Format m) = cm_Format m \<and>
     CHR '':'' \<notin> set (cm_SourceHeader m @ cm_TargetHeader m) \<and>
     CHR '';'' \<notin> set (cm_SourceHeader m @ cm_TargetHeader m @ cm_Format m)"

lemma SplitN_at: "c \<notin> set a \<Longrightarrow> SplitN c (Suc (Suc n)) (a @ c # b) = a # SplitN c (Suc n) b"
  by (simp add: takeWhile_append dropWhile_append)

lemma SplitN_3:
  assumes "c \<in> set s"
  shows "\<exists>a b. c \<notin> set a \<and> c \<notin> set b \<and> set a \<subseteq> set s \<and> set b \<subseteq> set s \<and>
    (SplitN c 3 s = [a, b] \<or> (\<exists>d. SplitN c 3 s = [a, b, d] \<and> set d \<subseteq> set s))"
proof -
  obtain a r where s: "s = a @ c # r" "c \<notin> set a"
    using assms by (metis split_list_first)
  show ?thesis
  proof (cases "c \<in> set r")
    case True
    then obtain b d where r: "r = b @ c # d" "c \<notin> set b" by (metis split_list_first)
    with s have "SplitN c 3 s = [a, b, d]" by (simp add: numeral_3_eq_3 SplitN_at del: SplitN.simps(3))
    with s r show ?thesis by auto
  next
    case False
    with s have "SplitN c 3 s = [a, r]" by (simp add: numeral_3_eq_3 takeWhile_append dropWhile_append)
    with s False show ?thesis by auto
  qed
qed

lemma parse_headers_ok:
  assumes "list_all (\<lambda>p. CHR '';'' \<notin> set p) parts" "list_all mapping_ok ms"
  shows "case parse_headers i parts ms of Inl e \<Rightarrow> True | Inr ms' \<Rightarrow> list_all mapping_ok ms'"
  using assms
proof (induction i parts ms rule: parse_headers.induct)
  case (2 i p ps ms)
  let ?h = "TrimSpace p"
  show ?case
  proof (cases "?h = '''' \<or> CHR '':'' \<notin> set ?h")
    case True
    with 2 show ?thesis by (auto simp: Let_def)
  next
    case False
    have n: "CHR '';'' \<notin> set ?h" using 2(3) set_TrimSpace [of p] by auto
    from False SplitN_3 [of "CHR '':''" ?h] obtain a b where
      ab: "CHR '':'' \<notin> set a" "CHR '':'' \<notin> set b" "set a \<subseteq> set ?h" "set b \<subseteq> set ?h"
      "SplitN (CHR '':'') 3 ?h = [a, b] \<or> (\<exists>d. SplitN (CHR '':'') 3 ?h = [a, b, d] \<and> set d \<subseteq> set ?h)"
      by blast
    let ?parts = "SplitN (CHR '':'') 3 ?h"
    let ?m = "\<lparr> cm_SourceHeader = TrimSpace (?parts ! 0), cm_TargetHeader = TrimSpace (?parts ! 1),
      cm_Format = (if length ?parts > 2 then TrimSpace (?parts ! 2) else '''') \<rparr>"
    have t: "TrimSpace '''' = ''''" by (simp add: TrimSpace_def)
    have ok: "mapping_ok ?m" if "cm_SourceHeader ?m \<noteq> ''''" "cm_TargetHeader ?m \<noteq> ''''"
      using ab n that set_TrimSpace [of a] set_TrimSpace [of b]
      by (auto simp: mapping_ok_def t dest!: subsetD [OF set_TrimSpace])
    show ?thesis
    proof (cases "cm_SourceHeader ?m = '''' \<or> cm_TargetHeader ?m = ''''")
      case True
      with False show ?thesis by (auto simp: Let_def)
    next
      case c: False
      with ok 2(4) have "list_all mapping_ok (ms @ [?m])" by simp
      with 2(2) [OF refl _ _ refl refl] 2(3) False c show ?thesis by (simp add: Let_def)
    qed
  qed
qed simp

lemma print_mapping_parts:
  assumes "mapping_ok m"
  shows "TrimSpace (print_mapping m) = print_mapping m" "print_mapping m \<noteq> ''''"
    "CHR '':'' \<in> set (print_mapping m)" "CHR '';'' \<notin> set (print_mapping m)"
    "SplitN (CHR '':'') 3 (print_mapping m) =
       [cm_SourceHeader m, cm_TargetHeader m] @ (if cm_Format m = '''' then [] else [cm_Format m])"
proof -
  note ok = assms [unfolded mapping_ok_def]
  show "TrimSpace (print_mapping m) = print_mapping m"
  proof (cases "cm_Format m = ''''")
    case True
    with ok trimmed_append [of "cm_SourceHeader m" "cm_TargetHeader m" "'':''"]
    show ?thesis by (simp add: print_mapping_def)
  next
    case False
    with ok trimmed_append [of "cm_SourceHeader m" "cm_Format m" "'':'' @ cm_TargetHeader m @ '':''"]
    show ?thesis by (simp add: print_mapping_def)
  qed
  show "print_mapping m \<noteq> ''''" "CHR '':'' \<in> set (print_mapping m)" "CHR '';'' \<notin> set (print_mapping m)"
    using ok by (auto simp: print_mapping_def)
  show "SplitN (CHR '':'') 3 (print_mapping m) =
       [cm_SourceHeader m, cm_TargetHeader m] @ (if cm_Format m = '''' then [] else [cm_Format m])"
  proof (cases "cm_Format m = ''''")
    case True
    with ok have "SplitN (CHR '':'') 3 (cm_SourceHeader m @ CHR '':'' # cm_TargetHeader m) =
        [cm_SourceHeader m, cm_TargetHeader m]"
      by (simp add: numeral_3_eq_3 SplitN_at del: SplitN.simps(3)) simp
    with True show ?thesis by (simp add: print_mapping_def)
  next
    case False
    with ok have "SplitN (CHR '':'') 3 (cm_SourceHeader m @ CHR '':'' # cm_TargetHeader m @ CHR '':'' # cm_Format m) =
        [cm_SourceHeader m, cm_TargetHeader m, cm_Format m]"
      by (simp add: numeral_3_eq_3 SplitN_at del: SplitN.simps(3))
    with False show ?thesis by (simp add: print_mapping_def)
  qed
qed

lemma parse_printed:
  "list_all mapping_ok ms \<Longrightarrow> parse_headers i (map print_mapping ms) acc = Inr (acc @ ms)"
proof (induction ms arbitrary: i acc)
  case (Cons m ms)
  then have ok: "mapping_ok m" by simp
  note p = print_mapping_parts [OF ok]
  have m: "\<lparr> cm_SourceHeader = cm_SourceHeader m, cm_TargetHeader = cm_TargetHeader m, cm_Format = cm_Format m \<rparr> = m"
    by simp
  from ok Cons show ?case
    by (cases "cm_Format m = ''''") (simp_all add: p Let_def mapping_ok_def)
qed simp

text \<open>
  Header mappings survive their compact form. Whatever text is accepted, every mapping read from it
  has a source and a target, without blanks around them and without the separators, and printing
  the mappings and reading them again gives the same mappings in the same order.
\<close>

lemma compact_headers_roundtrip:
  "case parseCompactHeaders s of
     Inl e \<Rightarrow> True
   | Inr ms \<Rightarrow> list_all mapping_ok ms \<and> parseCompactHeaders (print_headers ms) = Inr ms"
proof (cases "parseCompactHeaders s")
  case (Inr ms)
  have "list_all (\<lambda>p. CHR '';'' \<notin> set p) (split_on (CHR '';'') s)"
    using split_on_notin by (fastforce simp: list_all_iff)
  from parse_headers_ok [OF this, of "[]" 0] Inr have ok: "list_all mapping_ok ms"
    by (auto simp: parseCompactHeaders_def split: if_splits)
  have "parseCompactHeaders (print_headers ms) = Inr ms"
  proof (cases "ms = []")
    case False
    have "list_all (\<lambda>w. CHR '';'' \<notin> set w) (map print_mapping ms)"
      using ok print_mapping_parts(4) by (auto simp: list_all_iff)
    from split_on_join [OF this] False have "split_on (CHR '';'') (print_headers ms) = map print_mapping ms"
      by (simp add: print_headers_def)
    moreover from this False ok have "print_headers ms \<noteq> ''''"
      by (cases ms rule: list.exhaust; cases "tl ms") (auto simp: print_headers_def print_mapping_parts)
    ultimately show ?thesis using parse_printed [OF ok, of 0 "[]"] by (simp add: parseCompactHeaders_def)
  qed (simp add: print_headers_def parseCompactHeaders_def)
  with ok Inr show ?thesis by simp
qed simp

section \<open>Variables that go astray\<close>

text \<open>
  The name of a client ends at the first word that can start a setting: the variables of a client
  called "my-url-server" are taken for settings of a client "my" that do not exist, and have no
  effect.
\<close>

lemma client_name_cut_short:
  "extractClientNameAndPath ''MY_URL_SERVER_TYPE'' = Some (''my'', ''URL_SERVER_TYPE'') \<and>
   applyClientConfigField ''URL_SERVER_TYPE'' ''http'' c = c"
proof
  show "extractClientNameAndPath ''MY_URL_SERVER_TYPE'' = Some (''my'', ''URL_SERVER_TYPE'')" by code_simp
  show "applyClientConfigField ''URL_SERVER_TYPE'' ''http'' c = c"
    by (simp add: applyClientConfigField_def HasPrefix_def)
qed

text \<open>
  With the compact and the indexed form of the header mappings both set, the outcome depends on the
  order in which the map of variables is visited.
\<close>

lemma mapping_forms_conflict:
  "let compact = applyClientConfigField ''AUTH_PASS_THROUGH_HEADERS'' ''A:B'';
       indexed = applyClientConfigField ''AUTH_PASS_THROUGH_HEADERS_0_SOURCE_HEADER'' ''C''
   in map cm_SourceHeader (cc_PassThroughHeaders (compact (indexed no_client))) = [''A''] \<and>
      map cm_SourceHeader (cc_PassThroughHeaders (indexed (compact no_client))) = [''C'']"
  by code_simp

end
