(* ===== verification/Session.thy ===== *)
theory Session
  imports Results DownstreamConfig "HOL-Library.AList"
begin

text \<open>
  Upstream sessions and their downstream clients (\<^verbatim>\<open>session.go\<close>) and the lookup the gateway uses
  (\<^verbatim>\<open>ClientManager.GetSessionClient\<close>). Sessions are shared objects: the manager's map holds
  addresses into a store of session objects, so that an operation that has looked a session up
  still acts on the same object after the map has dropped it. A downstream connection is an
  abstract handle; the store records which handles were closed.
\<close>

section \<open>One session\<close>

text \<open>
  Tools, prompts and resources of a server are their names. A capability that a server may lack is an
  option; its value says whether it tells of changes to its list.
\<close>

record ServerCapabilities =
  caps_Tools :: "bool option"
  caps_Prompts :: "bool option"
  caps_Resources :: "bool option"

record 'c SessionClientInfo =
  sci_Name :: string
  sci_Client :: "'c option"
  sci_Config :: ClientConfig
  sci_Capabilities :: "ServerCapabilities option"
  sci_Tools :: "string list"
  sci_Prompts :: "string list"
  sci_Resources :: "string list"
  sci_Templates :: "string list"

record 'c Session =
  ses_ID :: string
  ses_CreatedAt :: int
  ses_clientIP :: string
  ses_userAgent :: string
  ses_lastActivity :: int
  ses_clients :: "(string \<times> 'c SessionClientInfo) list"
  ses_closing :: bool
  ses_connected :: bool

definition NewSession :: "int \<Rightarrow> string \<Rightarrow> 'c Session" where
  "NewSession now sessionID =
     \<lparr> ses_ID = sessionID, ses_CreatedAt = now, ses_clientIP = '''', ses_userAgent = '''',
       ses_lastActivity = now, ses_clients = [], ses_closing = False, ses_connected = False \<rparr>"

definition TouchActivity :: "int \<Rightarrow> 'c Session \<Rightarrow> 'c Session" where
  "TouchActivity now s = s\<lparr> ses_lastActivity := now \<rparr>"

definition IsExpired :: "int \<Rightarrow> int \<Rightarrow> 'c Session \<Rightarrow> bool" where
  "IsExpired now timeout s \<longleftrightarrow> now - ses_lastActivity s > timeout"

definition SetClientIP :: "string \<Rightarrow> 'c Session \<Rightarrow> 'c Session" where
  "SetClientIP ip s = s\<lparr> ses_clientIP := ip \<rparr>"

definition SetUserAgent :: "string \<Rightarrow> 'c Session \<Rightarrow> 'c Session" where
  "SetUserAgent userAgent s = s\<lparr> ses_userAgent := userAgent \<rparr>"

definition SetConnected :: "bool \<Rightarrow> 'c Session \<Rightarrow> 'c Session" where
  "SetConnected connected s = s\<lparr> ses_connected := connected \<rparr>"

definition GetClient :: "string \<Rightarrow> 'c Session \<Rightarrow> 'c SessionClientInfo option" where
  "GetClient clientName s = map_of (ses_clients s) clientName"

definition SetClient ::
  "string \<Rightarrow> 'c SessionClientInfo \<Rightarrow> 'c Session \<Rightarrow> bool \<times> 'c Session" where
  "SetClient clientName clientInfo s =
     (if ses_closing s then (False, s)
      else (True, s\<lparr> ses_clients := AList.update clientName clientInfo (ses_clients s) \<rparr>))"

text \<open>The handles a session holds, and closing them; \<open>closeErr\<close> is what closing a handle answers.\<close>

definition handles :: "'c Session \<Rightarrow> 'c list" where
  "handles s = List.map_filter (\<lambda>(n, info). sci_Client info) (ses_clients s)"

definition close_error :: "('c \<Rightarrow> go_error option) \<Rightarrow> string \<times> 'c SessionClientInfo \<Rightarrow> string option" where
  "close_error closeErr = (\<lambda>(name, info). case sci_Client info of
     None \<Rightarrow> None
   | Some c \<Rightarrow> map_option (\<lambda>e. ''failed to close client '' @ name @ '': '' @ error_text e) (closeErr c))"

definition Session_Close :: "('c \<Rightarrow> go_error option) \<Rightarrow> 'c Session \<Rightarrow> (string list \<times> 'c list) \<times> 'c Session" where
  "Session_Close closeErr s =
     ((List.map_filter (close_error closeErr) (ses_clients s), handles s),
      s\<lparr> ses_closing := True, ses_clients := [] \<rparr>)"

section \<open>The session manager\<close>

datatype session_error = SessionExpired string string | SessionExists string | ClientError string

record 'c SessionManager =
  sm_sessions :: "(string \<times> nat) list"
  sm_store :: "'c Session list"
  sm_closed :: "'c list"
  sm_sessionTimeout :: int

definition NewSessionManagerWithTimeout :: "int \<Rightarrow> 'c SessionManager" where
  "NewSessionManagerWithTimeout timeout =
     \<lparr> sm_sessions = [], sm_store = [], sm_closed = [], sm_sessionTimeout = timeout \<rparr>"

definition NewSessionManager :: "'c SessionManager" where
  "NewSessionManager = NewSessionManagerWithTimeout (30 * 60 * 1000000000)"

text \<open>A method called on the session object at an address.\<close>

definition at_session :: "nat \<Rightarrow> ('c Session \<Rightarrow> 'c Session) \<Rightarrow> 'c SessionManager \<Rightarrow> 'c SessionManager" where
  "at_session a f sm = sm\<lparr> sm_store := (sm_store sm)[a := f (sm_store sm ! a)] \<rparr>"

definition close_at ::
  "('c \<Rightarrow> go_error option) \<Rightarrow> nat \<Rightarrow> 'c SessionManager \<Rightarrow> string list \<times> 'c SessionManager" where
  "close_at closeErr a sm = (case Session_Close closeErr (sm_store sm ! a) of ((errs, cs), s) \<Rightarrow>
     (errs, sm\<lparr> sm_store := (sm_store sm)[a := s], sm_closed := sm_closed sm @ cs \<rparr>))"

definition HasSession :: "string \<Rightarrow> 'c SessionManager \<Rightarrow> bool" where
  "HasSession sessionID sm \<longleftrightarrow> map_of (sm_sessions sm) sessionID \<noteq> None"

definition GetAllSessions :: "'c SessionManager \<Rightarrow> string list" where
  "GetAllSessions sm = map fst (sm_sessions sm)"

definition CreateSession :: "int \<Rightarrow> string \<Rightarrow> 'c SessionManager \<Rightarrow> (session_error + nat) \<times> 'c SessionManager" where
  "CreateSession now sessionID sm =
     (case map_of (sm_sessions sm) sessionID of
        Some a \<Rightarrow> (Inl (SessionExists sessionID), sm)
      | None \<Rightarrow> let a = length (sm_store sm) in
          (Inr a, sm\<lparr> sm_sessions := (sessionID, a) # sm_sessions sm,
                      sm_store := sm_store sm @ [NewSession now sessionID] \<rparr>))"

definition GetSession :: "int \<Rightarrow> string \<Rightarrow> 'c SessionManager \<Rightarrow> nat option \<times> 'c SessionManager" where
  "GetSession now sessionID sm =
     (case map_of (sm_sessions sm) sessionID of
        None \<Rightarrow> (None, sm)
      | Some a \<Rightarrow> (Some a, at_session a (TouchActivity now) sm))"

definition DeleteSession ::
  "('c \<Rightarrow> go_error option) \<Rightarrow> string \<Rightarrow> 'c SessionManager \<Rightarrow> string list \<times> 'c SessionManager" where
  "DeleteSession closeErr sessionID sm =
     (case map_of (sm_sessions sm) sessionID of
        None \<Rightarrow> ([], sm)
      | Some a \<Rightarrow> close_at closeErr a (sm\<lparr> sm_sessions := AList.delete sessionID (sm_sessions sm) \<rparr>))"

definition expired_at :: "int \<Rightarrow> 'c SessionManager \<Rightarrow> nat \<Rightarrow> bool" where
  "expired_at now sm a \<longleftrightarrow> IsExpired now (sm_sessionTimeout sm) (sm_store sm ! a)"

text \<open>Closing the sessions a critical section has taken out of the map, one after the other.\<close>

fun close_sessions ::
  "('c \<Rightarrow> go_error option) \<Rightarrow> (string \<times> nat) list \<Rightarrow> 'c SessionManager \<Rightarrow> string list \<times> 'c SessionManager" where
  "close_sessions closeErr [] sm = ([], sm)"
| "close_sessions closeErr ((sessionID, a) # rest) sm =
     (case close_at closeErr a sm of (errs, sm1) \<Rightarrow>
      case close_sessions closeErr rest sm1 of (errs', sm2) \<Rightarrow>
        (map (\<lambda>e. ''failed to close session '' @ sessionID @ '': '' @ e) errs @ errs', sm2))"

definition cleanupExpiredSessions ::
  "('c \<Rightarrow> go_error option) \<Rightarrow> int \<Rightarrow> 'c SessionManager \<Rightarrow> 'c SessionManager" where
  "cleanupExpiredSessions closeErr now sm =
     snd (close_sessions closeErr (filter (\<lambda>(i, a). expired_at now sm a) (sm_sessions sm))
       (sm\<lparr> sm_sessions := filter (\<lambda>(i, a). \<not> expired_at now sm a) (sm_sessions sm) \<rparr>))"

definition CloseAllSessions ::
  "('c \<Rightarrow> go_error option) \<Rightarrow> 'c SessionManager \<Rightarrow> string list \<times> 'c SessionManager" where
  "CloseAllSessions closeErr sm = close_sessions closeErr (sm_sessions sm) (sm\<lparr> sm_sessions := [] \<rparr>)"

definition sm_GetSessionClient ::
  "int \<Rightarrow> string \<Rightarrow> string \<Rightarrow> 'c SessionManager \<Rightarrow> 'c SessionClientInfo option \<times> 'c SessionManager" where
  "sm_GetSessionClient now sessionID clientName sm =
     (case map_of (sm_sessions sm) sessionID of
        None \<Rightarrow> (None, sm)
      | Some a \<Rightarrow> let sm' = at_session a (TouchActivity now) sm
                  in (GetClient clientName (sm_store sm' ! a), sm'))"

definition SetSessionClient ::
  "string \<Rightarrow> string \<Rightarrow> 'c SessionClientInfo \<Rightarrow> 'c SessionManager \<Rightarrow> bool \<times> 'c SessionManager" where
  "SetSessionClient sessionID clientName clientInfo sm =
     (case map_of (sm_sessions sm) sessionID of
        None \<Rightarrow> (False, sm)
      | Some a \<Rightarrow> (case SetClient clientName clientInfo (sm_store sm ! a) of (ok, s) \<Rightarrow>
                     (ok, sm\<lparr> sm_store := (sm_store sm)[a := s] \<rparr>)))"

section \<open>The lookup of the gateway\<close>

definition cm_GetSessionClient ::
  "int \<Rightarrow> string \<Rightarrow> string \<Rightarrow> 'c SessionManager \<Rightarrow>
     (session_error + 'c SessionClientInfo) \<times> 'c SessionManager" where
  "cm_GetSessionClient now sessionID clientName sm =
     (if \<not> HasSession sessionID sm
      then (Inl (SessionExpired sessionID ''session no longer exists (server may have restarted)''), sm)
      else case sm_GetSessionClient now sessionID clientName sm of
        (None, sm') \<Rightarrow> (Inl (ClientError (''client '' @ [CHR 0x27] @ clientName @ [CHR 0x27] @
             '' not connected for this session. Call '' @ [CHR 0x27] @ ''maybedont__discover_tools'' @
             [CHR 0x27] @ '' with client filter '' @ [CHR 0x27] @ clientName @ [CHR 0x27] @ '' to connect'')), sm')
      | (Some info, sm') \<Rightarrow> (Inr info, sm'))"

section \<open>Every interleaving\<close>

text \<open>
  The manager and the sessions have a lock each; what an operation does under one lock is one step.
  Looking a session up and w_storing a client in it are two steps, so are dropping sessions from the
  map and closing them. \<open>w_detached\<close> are the sessions a goroutine has dropped and will close,
  \<open>w_inflight\<close> the new connections not yet offered to a session, \<open>w_storing\<close> those whose session has
  been looked up, \<open>w_displaced\<close> those a store of the same name has overwritten.
\<close>

record 'c world =
  w_sm :: "'c SessionManager"
  w_opened :: "'c list"
  w_inflight :: "'c list"
  w_storing :: "(nat \<times> string \<times> 'c) list"
  w_detached :: "nat list"
  w_displaced :: "'c list"

definition client_info :: "string \<Rightarrow> 'c \<Rightarrow> 'c SessionClientInfo" where
  "client_info name c = \<lparr> sci_Name = name, sci_Client = Some c, sci_Config = no_client, sci_Capabilities = None,
     sci_Tools = [], sci_Prompts = [], sci_Resources = [], sci_Templates = [] \<rparr>"

definition init_world :: "int \<Rightarrow> 'c world" where
  "init_world timeout = \<lparr> w_sm = NewSessionManagerWithTimeout timeout, w_opened = [], w_inflight = [],
     w_storing = [], w_detached = [], w_displaced = [] \<rparr>"

definition held_by_name :: "string \<Rightarrow> 'c Session \<Rightarrow> 'c list" where
  "held_by_name name s = (case GetClient name s of
     None \<Rightarrow> [] | Some info \<Rightarrow> (case sci_Client info of None \<Rightarrow> [] | Some c \<Rightarrow> [c]))"

inductive session_step :: "'c world \<Rightarrow> 'c world \<Rightarrow> bool" where
  create: "session_step w (w\<lparr> w_sm := snd (CreateSession now sid (w_sm w)) \<rparr>)"
| touch: "session_step w (w\<lparr> w_sm := snd (GetSession now sid (w_sm w)) \<rparr>)"
| detach: "session_step w (w\<lparr> w_sm := (w_sm w)\<lparr> sm_sessions := filter (\<lambda>p. \<not> P p) (sm_sessions (w_sm w)) \<rparr>,
                     w_detached := map snd (filter P (sm_sessions (w_sm w))) @ w_detached w \<rparr>)"
| close: "a \<in> set (w_detached w) \<Longrightarrow>
    session_step w (w\<lparr> w_sm := snd (close_at closeErr a (w_sm w)), w_detached := remove1 a (w_detached w) \<rparr>)"
| connect: "c \<notin> set (w_opened w) \<Longrightarrow>
    session_step w (w\<lparr> w_opened := c # w_opened w, w_inflight := c # w_inflight w \<rparr>)"
| orphan: "c \<in> set (w_inflight w) \<Longrightarrow> \<not> HasSession sid (w_sm w) \<Longrightarrow>
    session_step w (w\<lparr> w_sm := (w_sm w)\<lparr> sm_closed := sm_closed (w_sm w) @ [c] \<rparr>, w_inflight := remove1 c (w_inflight w) \<rparr>)"
| lookup: "c \<in> set (w_inflight w) \<Longrightarrow> map_of (sm_sessions (w_sm w)) sid = Some a \<Longrightarrow>
    session_step w (w\<lparr> w_inflight := remove1 c (w_inflight w), w_storing := (a, name, c) # w_storing w \<rparr>)"
| store: "(a, name, c) \<in> set (w_storing w) \<Longrightarrow> SetClient name (client_info name c) (sm_store (w_sm w) ! a) = (True, s) \<Longrightarrow>
    session_step w (w\<lparr> w_sm := (w_sm w)\<lparr> sm_store := (sm_store (w_sm w))[a := s] \<rparr>,
              w_storing := remove1 (a, name, c) (w_storing w),
              w_displaced := held_by_name name (sm_store (w_sm w) ! a) @ w_displaced w \<rparr>)"
| reject: "(a, name, c) \<in> set (w_storing w) \<Longrightarrow> SetClient name (client_info name c) (sm_store (w_sm w) ! a) = (False, s) \<Longrightarrow>
    session_step w (w\<lparr> w_sm := (w_sm w)\<lparr> sm_closed := sm_closed (w_sm w) @ [c] \<rparr>,
              w_storing := remove1 (a, name, c) (w_storing w) \<rparr>)"

inductive session_reachable :: "int \<Rightarrow> 'c world \<Rightarrow> bool" for timeout where
  start: "session_reachable timeout (init_world timeout)"
| more: "session_reachable timeout w \<Longrightarrow> session_step w w' \<Longrightarrow> session_reachable timeout w'"

definition addrs :: "'c world \<Rightarrow> nat list" where
  "addrs w = map snd (sm_sessions (w_sm w)) @ w_detached w"

definition session_ok :: "nat list \<Rightarrow> nat \<Rightarrow> 'c Session \<Rightarrow> bool" where
  "session_ok as a s \<longleftrightarrow> (ses_closing s \<longleftrightarrow> a \<notin> set as) \<and> (ses_closing s \<longrightarrow> ses_clients s = [])"

definition wf_world :: "'c world \<Rightarrow> bool" where
  "wf_world w \<longleftrightarrow>
     distinct (map fst (sm_sessions (w_sm w))) \<and> distinct (addrs w) \<and>
     set (addrs w) \<subseteq> {..<length (sm_store (w_sm w))} \<and>
     (\<forall>(a, n, c) \<in> set (w_storing w). a < length (sm_store (w_sm w))) \<and>
     (\<forall>a < length (sm_store (w_sm w)). session_ok (addrs w) a (sm_store (w_sm w) ! a))"

definition held :: "'c SessionManager \<Rightarrow> 'c multiset" where
  "held m = sum_list (map (\<lambda>s. mset (handles s)) (sm_store m))"

definition accounted :: "'c world \<Rightarrow> bool" where
  "accounted w \<longleftrightarrow> mset (w_opened w) =
     mset (w_inflight w) + mset (map (snd \<circ> snd) (w_storing w)) + held (w_sm w) +
     mset (sm_closed (w_sm w)) + mset (w_displaced w)"

lemma handles_Nil [simp]: "ses_clients s = [] \<Longrightarrow> handles s = []"
  by (simp add: handles_def map_filter_simps)

lemma handles_update:
  "mset (List.map_filter (\<lambda>(n, info). sci_Client info) (AList.update k (client_info k c) xs)) +
     mset (case map_of xs k of None \<Rightarrow> [] | Some info \<Rightarrow> (case sci_Client info of None \<Rightarrow> [] | Some c \<Rightarrow> [c])) =
   add_mset c (mset (List.map_filter (\<lambda>(n, info). sci_Client info) xs))"
  by (induction xs) (auto simp: map_filter_simps client_info_def split: option.splits)

lemma SetClient_handles:
  assumes "SetClient name (client_info name c) s = (True, s')"
  shows "mset (handles s') + mset (held_by_name name s) = add_mset c (mset (handles s))"
  using assms handles_update [of name c "ses_clients s"]
  by (auto simp: SetClient_def handles_def held_by_name_def GetClient_def split: if_splits)

lemma sum_list_map_update:
  fixes f :: "'a \<Rightarrow> 'b multiset"
  shows "a < length xs \<Longrightarrow> sum_list (map f (xs[a := s])) + f (xs ! a) = sum_list (map f xs) + f s"
proof (induction xs arbitrary: a)
  case (Cons x xs)
  then show ?case by (cases a) (auto simp: ac_simps)
qed simp

lemma held_update:
  "a < length (sm_store m) \<Longrightarrow>
     held (m\<lparr> sm_store := (sm_store m)[a := s] \<rparr>) + mset (handles (sm_store m ! a)) =
     held m + mset (handles s)"
  using sum_list_map_update [of a "sm_store m" "\<lambda>s. mset (handles s)" s] by (simp add: held_def)

lemma held_sel [simp]:
  "held (m\<lparr> sm_sessions := x \<rparr>) = held m" "held (m\<lparr> sm_closed := y \<rparr>) = held m"
  by (simp_all add: held_def)

lemma CreateSession_sel:
  assumes "CreateSession now sid m = (r, m')"
  shows "held m' = held m" "sm_closed m' = sm_closed m"
  using assms by (auto simp: CreateSession_def held_def NewSession_def Let_def split: option.splits)

lemma GetSession_sel:
  assumes "GetSession now sid m = (r, m')" "\<forall>(i, a) \<in> set (sm_sessions m). a < length (sm_store m)"
  shows "held m' = held m" "sm_closed m' = sm_closed m" "sm_sessions m' = sm_sessions m"
proof -
  have "held (at_session a (TouchActivity now) m) = held m" if "map_of (sm_sessions m) sid = Some a" for a
    using held_update [of a m "TouchActivity now (sm_store m ! a)"] map_of_SomeD [OF that] assms(2)
    by (auto simp: at_session_def TouchActivity_def handles_def)
  then show "held m' = held m" "sm_closed m' = sm_closed m" "sm_sessions m' = sm_sessions m"
    using assms(1) by (auto simp: GetSession_def at_session_def split: option.splits)
qed

lemma close_at_sel:
  assumes "a < length (sm_store m)"
  shows "held (snd (close_at ce a m)) + mset (sm_closed (snd (close_at ce a m))) = held m + mset (sm_closed m)"
    and "sm_sessions (snd (close_at ce a m)) = sm_sessions m"
    and "sm_store (snd (close_at ce a m)) =
      (sm_store m)[a := (sm_store m ! a)\<lparr> ses_closing := True, ses_clients := [] \<rparr>]"
  using held_update [OF assms, of "(sm_store m ! a)\<lparr> ses_closing := True, ses_clients := [] \<rparr>"]
  by (auto simp: close_at_def Session_Close_def held_def ac_simps)

lemma mset_remove1_add: "x \<in> set xs \<Longrightarrow> mset xs = add_mset x (mset xs - {#x#})"
  by simp

lemma map_remove1_add:
  "x \<in> set xs \<Longrightarrow> mset (map f xs) = add_mset (f x) (mset (map f (remove1 x xs)))"
  by (induction xs) auto

lemma take_over:
  assumes "h' + mset old = h + mset new" "mset new + mset gone = add_mset c (mset old)"
  shows "h' + mset gone = add_mset c h"
proof -
  have "h' + mset gone + mset old = add_mset c h + mset old"
    using assms by (metis add.assoc add.commute add_mset_add_single union_mset_add_mset_left)
  then show ?thesis by simp
qed

lemma step_accounted: "session_step w w' \<Longrightarrow> wf_world w \<Longrightarrow> accounted w \<Longrightarrow> accounted w'"
proof (induction rule: session_step.induct)
  case (create w now sid)
  then show ?case
    using CreateSession_sel [OF surjective_pairing, of now sid "w_sm w"] by (simp add: accounted_def)
next
  case (touch w now sid)
  then have "\<forall>(i, a) \<in> set (sm_sessions (w_sm w)). a < length (sm_store (w_sm w))"
    by (auto simp: wf_world_def addrs_def)
  with touch show ?case
    using GetSession_sel [OF surjective_pairing, of "w_sm w" now sid] by (simp add: accounted_def)
next
  case (detach w P)
  then show ?case by (simp add: accounted_def)
next
  case (close a w closeErr)
  then have "a < length (sm_store (w_sm w))"
    by (auto simp: wf_world_def addrs_def)
  with close show ?case
    using close_at_sel(1) [of a "w_sm w" closeErr] by (simp add: accounted_def ac_simps)
next
  case (connect c w)
  then show ?case by (simp add: accounted_def)
next
  case (orphan c w sid)
  then show ?case
    using mset_remove1_add [of c "w_inflight w"] by (simp add: accounted_def)
next
  case (lookup c w sid a name)
  then show ?case
    using mset_remove1_add [of c "w_inflight w"] by (simp add: accounted_def)
next
  case (store a name c w s)
  then have "a < length (sm_store (w_sm w))"
    by (auto simp: wf_world_def)
  then have "held ((w_sm w)\<lparr> sm_store := (sm_store (w_sm w))[a := s] \<rparr>) + mset (handles (sm_store (w_sm w) ! a)) =
     held (w_sm w) + mset (handles s)"
    by (rule held_update)
  from take_over [OF this SetClient_handles [OF store(2)]] store(4) map_remove1_add [OF store(1), of "snd \<circ> snd"]
  show ?case by (simp add: accounted_def)
next
  case (reject a name c w s)
  then show ?case
    using map_remove1_add [OF reject(1), of "snd \<circ> snd"] by (simp add: accounted_def)
qed

text \<open>The well-formedness of the sessions in the store, under a change of one of them.\<close>

lemma session_ok_update:
  assumes "\<forall>a < length xs. session_ok as a (xs ! a)" "session_ok as b s"
  shows "\<forall>a < length (xs[b := s]). session_ok as a (xs[b := s] ! a)"
  using assms by (cases "b < length xs") (auto simp: nth_list_update)

lemma mset_filter_parts: "mset (map f (filter (\<lambda>p. \<not> P p) xs)) + mset (map f (filter P xs)) = mset (map f xs)"
  by (induction xs) auto

lemma addrs_detach:
  assumes "addrs w = map snd xs @ d"
  shows "mset (map snd (filter (\<lambda>p. \<not> P p) xs) @ map snd (filter P xs) @ d) = mset (addrs w)"
  using mset_filter_parts [of snd P xs] by (simp add: assms add.assoc [symmetric])

lemma step_wf: "session_step w w' \<Longrightarrow> wf_world w \<Longrightarrow> wf_world w'"
proof (induction rule: session_step.induct)
  case (create w now sid)
  then show ?case
    unfolding wf_world_def
    by (auto simp: CreateSession_def NewSession_def addrs_def session_ok_def Let_def nth_append less_Suc_eq
        map_of_eq_None_iff split: option.split)
next
  case (touch w now sid)
  show ?case
  proof (cases "map_of (sm_sessions (w_sm w)) sid")
    case None
    with touch show ?thesis by (simp add: GetSession_def)
  next
    case (Some a)
    let ?s = "TouchActivity now (sm_store (w_sm w) ! a)"
    from touch Some have "a < length (sm_store (w_sm w))"
      by (auto simp: wf_world_def addrs_def dest!: map_of_SomeD)
    with touch have "session_ok (addrs w) a ?s"
      by (auto simp: wf_world_def session_ok_def TouchActivity_def)
    with touch session_ok_update [of "sm_store (w_sm w)" "addrs w" a ?s] Some show ?thesis
      unfolding wf_world_def by (simp add: GetSession_def at_session_def addrs_def)
  qed
next
  case (detach w P)
  let ?xs = "sm_sessions (w_sm w)"
  let ?as = "map snd (filter (\<lambda>p. \<not> P p) ?xs) @ map snd (filter P ?xs) @ w_detached w"
  have m: "mset ?as = mset (addrs w)"
    by (rule addrs_detach) (simp add: addrs_def)
  then have "set ?as = set (addrs w)" "distinct ?as = distinct (addrs w)"
    by (metis mset_eq_setD, metis mset_eq_imp_distinct_iff)
  with detach show ?case
    unfolding wf_world_def by (auto simp: addrs_def session_ok_def distinct_map_filter)
next
  case (close a w closeErr)
  then have "a < length (sm_store (w_sm w))" and d: "distinct (addrs w)"
    by (auto simp: wf_world_def addrs_def)
  let ?s = "(sm_store (w_sm w) ! a)\<lparr> ses_closing := True, ses_clients := [] \<rparr>"
  let ?as = "map snd (sm_sessions (w_sm w)) @ remove1 a (w_detached w)"
  have as: "set ?as = set (addrs w) - {a}" "distinct ?as"
    using close(1) d by (auto simp: addrs_def set_remove1_eq distinct_remove1)
  then have "\<forall>b < length (sm_store (w_sm w)). b \<noteq> a \<longrightarrow> session_ok ?as b (sm_store (w_sm w) ! b)"
    using close(2) by (auto simp: wf_world_def session_ok_def)
  then have "\<forall>b < length ((sm_store (w_sm w))[a := ?s]). session_ok ?as b ((sm_store (w_sm w))[a := ?s] ! b)"
    using as \<open>a < length (sm_store (w_sm w))\<close> by (auto simp: nth_list_update session_ok_def)
  with close as \<open>a < length (sm_store (w_sm w))\<close> show ?case
    unfolding wf_world_def by (auto simp: close_at_sel addrs_def)
next
  case (connect c w)
  then show ?case by (simp add: wf_world_def addrs_def)
next
  case (orphan c w sid)
  then show ?case by (simp add: wf_world_def addrs_def)
next
  case (lookup c w sid a name)
  then show ?case by (auto simp: wf_world_def addrs_def dest!: map_of_SomeD)
next
  case (store a name c w s)
  then have "session_ok (addrs w) a s"
    by (auto simp: wf_world_def session_ok_def SetClient_def split: if_splits)
  with store session_ok_update [of "sm_store (w_sm w)" "addrs w" a s] show ?case
    unfolding wf_world_def by (auto simp: addrs_def dest: in_set_remove1 notin_set_remove1)
next
  case (reject a name c w s)
  then show ?case by (auto simp: wf_world_def addrs_def dest: notin_set_remove1)
qed

lemma reachable_ok: "session_reachable timeout w \<Longrightarrow> wf_world w \<and> accounted w"
proof (induction rule: session_reachable.induct)
  case start
  show ?case
    by (simp add: wf_world_def accounted_def addrs_def init_world_def NewSessionManagerWithTimeout_def held_def)
next
  case (more w w')
  then show ?case using step_wf step_accounted by blast
qed

section \<open>Closing sessions\<close>

lemma close_sessions_spec:
  assumes "distinct (map snd xs)" "set (map snd xs) \<subseteq> {..<length (sm_store m)}"
  shows "case close_sessions ce xs m of (errs, m') \<Rightarrow>
     sm_sessions m' = sm_sessions m \<and>
     sm_closed m' = sm_closed m @ concat (map (\<lambda>(i, a). handles (sm_store m ! a)) xs) \<and>
     length (sm_store m') = length (sm_store m) \<and>
     (\<forall>a < length (sm_store m). sm_store m' ! a =
        (if a \<in> snd ` set xs then (sm_store m ! a)\<lparr> ses_closing := True, ses_clients := [] \<rparr>
         else sm_store m ! a))"
  using assms
proof (induction xs arbitrary: m)
  case (Cons x xs)
  obtain i a where x [simp]: "x = (i, a)" by fastforce
  obtain e m1 where c1: "close_at ce a m = (e, m1)" by fastforce
  obtain e' m2 where c2: "close_sessions ce xs m1 = (e', m2)" by fastforce
  from Cons.prems have a: "a < length (sm_store m)" by simp
  have m1: "sm_sessions m1 = sm_sessions m" "sm_closed m1 = sm_closed m @ handles (sm_store m ! a)"
    "sm_store m1 = (sm_store m)[a := (sm_store m ! a)\<lparr> ses_closing := True, ses_clients := [] \<rparr>]"
    using c1 by (auto simp: close_at_def Session_Close_def)
  have rest: "map (\<lambda>(i, b). handles (sm_store m1 ! b)) xs = map (\<lambda>(i, b). handles (sm_store m ! b)) xs"
    using Cons.prems(1) m1(3)
    by (auto intro!: arg_cong [of _ _ handles] nth_list_update_neq simp: image_iff)
  from Cons.IH [of m1] Cons.prems m1 c2
  have "sm_sessions m2 = sm_sessions m \<and>
     sm_closed m2 = sm_closed m1 @ concat (map (\<lambda>(i, b). handles (sm_store m1 ! b)) xs) \<and>
     length (sm_store m2) = length (sm_store m) \<and>
     (\<forall>b < length (sm_store m). sm_store m2 ! b =
        (if b \<in> snd ` set xs then (sm_store m1 ! b)\<lparr> ses_closing := True, ses_clients := [] \<rparr>
         else sm_store m1 ! b))"
    by auto
  then show ?case
    using c1 c2 a m1 Cons.prems(1) unfolding rest by (auto simp: nth_list_update)
qed simp

lemma wf_world_distinct: "wf_world w \<Longrightarrow> distinct (map snd (sm_sessions (w_sm w)))"
  by (simp add: wf_world_def addrs_def)

lemma wf_world_bounds: "wf_world w \<Longrightarrow> set (map snd (sm_sessions (w_sm w))) \<subseteq> {..<length (sm_store (w_sm w))}"
  by (auto simp: wf_world_def addrs_def)

lemma held_live:
  assumes "wf_world w" "w_detached w = []"
  shows "held (w_sm w) = (\<Sum>(i, a) \<leftarrow> sm_sessions (w_sm w). mset (handles (sm_store (w_sm w) ! a)))"
proof -
  let ?m = "w_sm w" let ?h = "\<lambda>a. mset (handles (sm_store ?m ! a))"
  have "held ?m = (\<Sum>a<length (sm_store ?m). ?h a)"
    by (simp add: held_def sum_list_sum_nth atLeast0LessThan)
  also have "\<dots> = (\<Sum>a\<in>set (map snd (sm_sessions ?m)). ?h a)"
    using assms wf_world_bounds [OF assms(1)]
    by (intro sum.mono_neutral_right) (auto simp: wf_world_def addrs_def session_ok_def)
  also have "\<dots> = sum_list (map ?h (map snd (sm_sessions ?m)))"
    using wf_world_distinct [OF assms(1)] by (simp only: sum.distinct_set_conv_list)
  finally show ?thesis by (simp add: comp_def case_prod_unfold)
qed

text \<open>
  C25. No downstream connection is lost, whatever the interleaving of requests, registrations,
  deletions and the clean-up: once nothing is under way, every connection ever opened has been
  closed, or belongs to a session the manager still has, or was overwritten by a later connection of
  the same name in the same session.
\<close>

theorem connections_accounted_for:
  assumes "session_reachable timeout w" and "w_inflight w = []" "w_storing w = []" "w_detached w = []"
  shows "mset (w_opened w) = mset (sm_closed (w_sm w)) + mset (w_displaced w) +
     (\<Sum>(i, a) \<leftarrow> sm_sessions (w_sm w). mset (handles (sm_store (w_sm w) ! a)))"
  using reachable_ok [OF assms(1)] assms(2-4) held_live [of w]
  by (simp add: accounted_def ac_simps)

text \<open>
  C26. The clean-up drops exactly the sessions idle for longer than the timeout, closes their
  connections and only those, marks them so that they take no new ones, and leaves every other
  session as it was.
\<close>

theorem cleanup_exact:
  assumes "session_reachable timeout w"
  shows "let m = w_sm w; m' = cleanupExpiredSessions ce now m;
             old = filter (\<lambda>(i, a). expired_at now m a) (sm_sessions m) in
     sm_sessions m' = filter (\<lambda>(i, a). \<not> expired_at now m a) (sm_sessions m) \<and>
     sm_closed m' = sm_closed m @ concat (map (\<lambda>(i, a). handles (sm_store m ! a)) old) \<and>
     list_all (\<lambda>(i, a). ses_closing (sm_store m' ! a) \<and> ses_clients (sm_store m' ! a) = []) old \<and>
     list_all (\<lambda>(i, a). sm_store m' ! a = sm_store m ! a) (sm_sessions m')"
proof -
  let ?m = "w_sm w" let ?old = "filter (\<lambda>(i, a). expired_at now ?m a) (sm_sessions ?m)"
  let ?kept = "filter (\<lambda>(i, a). \<not> expired_at now ?m a) (sm_sessions ?m)"
  have wf: "wf_world w" using reachable_ok [OF assms] by blast
  have d: "distinct (map snd ?old)" "set (map snd ?old) \<subseteq> {..<length (sm_store ?m)}"
    using wf_world_distinct [OF wf] wf_world_bounds [OF wf] by (auto simp: distinct_map_filter)
  obtain e m' where c: "close_sessions ce ?old (?m\<lparr> sm_sessions := ?kept \<rparr>) = (e, m')" by fastforce
  have kept: "a < length (sm_store ?m) \<and> a \<notin> snd ` set ?old" if "(i, a) \<in> set ?kept" for i a
    using that wf_world_bounds [OF wf] by auto
  have old: "a < length (sm_store ?m)" if "(i, a) \<in> set ?old" for i a
    using that wf_world_bounds [OF wf] by auto
  from close_sessions_spec [of ?old "?m\<lparr> sm_sessions := ?kept \<rparr>" ce] d c
  have s: "sm_sessions m' = ?kept"
    "sm_closed m' = sm_closed ?m @ concat (map (\<lambda>(i, a). handles (sm_store ?m ! a)) ?old)"
    "\<forall>a < length (sm_store ?m). sm_store m' ! a =
        (if a \<in> snd ` set ?old then (sm_store ?m ! a)\<lparr> ses_closing := True, ses_clients := [] \<rparr>
         else sm_store ?m ! a)"
    by auto
  have "ses_closing (sm_store m' ! a) \<and> ses_clients (sm_store m' ! a) = []" if "(i, a) \<in> set ?old" for i a
  proof -
    have "a \<in> snd ` set ?old" using that by (metis image_eqI snd_conv)
    with s(3) old [OF that] show ?thesis by simp
  qed
  then have "list_all (\<lambda>(i, a). ses_closing (sm_store m' ! a) \<and> ses_clients (sm_store m' ! a) = []) ?old"
    by (simp only: list_all_iff) blast
  moreover have "sm_store m' ! a = sm_store ?m ! a" if "(i, a) \<in> set ?kept" for i a
    using s(3) kept [OF that] by simp
  then have "list_all (\<lambda>(i, a). sm_store m' ! a = sm_store ?m ! a) ?kept"
    by (simp only: list_all_iff) blast
  ultimately show ?thesis
    using s c by (simp add: cleanupExpiredSessions_def Let_def)
qed

section \<open>A run\<close>

text \<open>
  Two requests connect the same client of a session at once: both find none, both connect, and the
  second store overwrites the first connection, which nobody closes. The session is deleted
  afterwards; the first connection stays open.
\<close>

definition run_world ::
  "(string \<times> nat) list \<Rightarrow> nat Session list \<Rightarrow> nat list \<Rightarrow> nat list \<Rightarrow> nat list \<Rightarrow>
     (nat \<times> string \<times> nat) list \<Rightarrow> nat list \<Rightarrow> nat list \<Rightarrow> nat world" where
  "run_world sessions objects closed op fl sto det dis =
     \<lparr> w_sm = \<lparr> sm_sessions = sessions, sm_store = objects, sm_closed = closed, sm_sessionTimeout = 10 \<rparr>,
       w_opened = op, w_inflight = fl, w_storing = sto, w_detached = det, w_displaced = dis \<rparr>"

definition run_session :: "(string \<times> nat SessionClientInfo) list \<Rightarrow> bool \<Rightarrow> nat Session" where
  "run_session cs closing = (NewSession 0 ''s'')\<lparr> ses_clients := cs, ses_closing := closing \<rparr>"

lemmas run_defs = run_world_def run_session_def NewSession_def client_info_def

lemma run_connected:
  "session_reachable 10 (run_world [(''s'', 0)] [run_session [(''db'', client_info ''db'' 0)] False] []
     [1, 0] [] [(0, ''db'', 1)] [] [])"
proof -
  let ?s = "run_session [] False"
  have "session_reachable 10 (init_world 10 :: nat world)"
    by (rule session_reachable.start)
  then have "session_reachable 10 (run_world [] [] [] [] [] [] [] [])"
    by (simp add: run_defs init_world_def NewSessionManagerWithTimeout_def)
  then have "session_reachable 10 (run_world [(''s'', 0)] [?s] [] [] [] [] [] [])"
    by (rule session_reachable.more)
       (use session_step.create [of "run_world [] [] [] [] [] [] [] []" 0 "''s''"] in
         \<open>simp add: run_defs CreateSession_def Let_def\<close>)
  then have "session_reachable 10 (run_world [(''s'', 0)] [?s] [] [0] [0] [] [] [])"
    by (rule session_reachable.more)
       (use session_step.connect [of 0 "run_world [(''s'', 0)] [?s] [] [] [] [] [] []"] in \<open>simp add: run_defs\<close>)
  then have "session_reachable 10 (run_world [(''s'', 0)] [?s] [] [1, 0] [1, 0] [] [] [])"
    by (rule session_reachable.more)
       (use session_step.connect [of 1 "run_world [(''s'', 0)] [?s] [] [0] [0] [] [] []"] in \<open>simp add: run_defs\<close>)
  then have "session_reachable 10 (run_world [(''s'', 0)] [?s] [] [1, 0] [1] [(0, ''db'', 0)] [] [])"
    by (rule session_reachable.more)
       (use session_step.lookup [of 0 "run_world [(''s'', 0)] [?s] [] [1, 0] [1, 0] [] [] []" "''s''" 0 "''db''"] in
         \<open>simp add: run_defs\<close>)
  then have "session_reachable 10 (run_world [(''s'', 0)] [?s] [] [1, 0] [] [(0, ''db'', 1), (0, ''db'', 0)] [] [])"
    by (rule session_reachable.more)
       (use session_step.lookup [of 1 "run_world [(''s'', 0)] [?s] [] [1, 0] [1] [(0, ''db'', 0)] [] []" "''s''" 0 "''db''"] in
         \<open>simp add: run_defs\<close>)
  then show ?thesis
    by (rule session_reachable.more)
       (use session_step.store [of 0 "''db''" 0 "run_world [(''s'', 0)] [?s] [] [1, 0] [] [(0, ''db'', 1), (0, ''db'', 0)] [] []"] in
         \<open>simp add: run_defs SetClient_def held_by_name_def GetClient_def\<close>)
qed

lemma run_deleted:
  "session_reachable 10 (run_world [] [run_session [] True] [1] [1, 0] [] [] [] [0])"
proof -
  let ?s0 = "run_session [(''db'', client_info ''db'' 0)] False"
  let ?s1 = "run_session [(''db'', client_info ''db'' 1)] False"
  have "session_reachable 10 (run_world [(''s'', 0)] [?s1] [] [1, 0] [] [] [] [0])"
    using run_connected
    by (rule session_reachable.more)
       (use session_step.store [of 0 "''db''" 1 "run_world [(''s'', 0)] [?s0] [] [1, 0] [] [(0, ''db'', 1)] [] []"] in
         \<open>simp add: run_defs SetClient_def held_by_name_def GetClient_def\<close>)
  then have "session_reachable 10 (run_world [] [?s1] [] [1, 0] [] [] [0] [0])"
    by (rule session_reachable.more)
       (use session_step.detach [of "run_world [(''s'', 0)] [?s1] [] [1, 0] [] [] [] [0]" "\<lambda>p. True"] in
         \<open>simp add: run_defs\<close>)
  then show ?thesis
    by (rule session_reachable.more)
       (use session_step.close [of 0 "run_world [] [?s1] [] [1, 0] [] [] [0] [0]"] in
         \<open>simp add: run_defs close_at_def Session_Close_def handles_def map_filter_simps\<close>)
qed

lemma concurrent_connect_leaks:
  "\<exists>w :: nat world. session_reachable 10 w \<and> w_inflight w = [] \<and> w_storing w = [] \<and> w_detached w = [] \<and>
     sm_sessions (w_sm w) = [] \<and> 0 \<in> set (w_opened w) \<and> 0 \<notin> set (sm_closed (w_sm w))"
  using run_deleted by (rule exI [where P = "\<lambda>w. session_reachable 10 w \<and> _ w", OF conjI]) (simp add: run_world_def)

lemma connections_accounted_for_witness:
  "mset [1, 0 :: nat] = mset [1] + mset [0] + {#}"
  using connections_accounted_for [OF run_deleted] by (simp add: run_world_def)

lemma cleanup_exact_witness:
  "sm_sessions (cleanupExpiredSessions (\<lambda>c. None) 5
     (w_sm (run_world [(''s'', 0)] [run_session [(''db'', client_info ''db'' 0)] False] [] [1, 0] [] [(0, ''db'', 1)] [] []))) =
     [(''s'', 0)]"
  using cleanup_exact [OF run_connected, of "\<lambda>c. None" 5]
  by (simp add: run_defs expired_at_def IsExpired_def Let_def)

end
