(* ===== verification/ClientManager.thy ===== *)
theory ClientManager
  imports Session
begin

text \<open>
  The downstream clients of sessions (\<^verbatim>\<open>client_manager.go\<close>): connecting to a server with the
  credentials of the request, initialising it and asking for its capabilities with retries, and storing
  the connection in the session. The MCP library, the network and the passing of time are parameters.
\<close>

section \<open>Pass-through credentials\<close>

text \<open>
  What the context of a request carries. The raw headers are given by \<^verbatim>\<open>Header.Get\<close>, which answers the
  empty text for a header that is missing.
\<close>

record call_context =
  ctx_SessionID :: "string option"
  ctx_ClientIP :: "string option"
  ctx_UserAgent :: "string option"
  ctx_RequestID :: "string option"

record request_context = call_context +
  ctx_RawHeaders :: "(string \<Rightarrow> string) option"

text \<open>A header function is called with the context of each request to the server.\<close>

type_synonym header_func = "request_context \<Rightarrow> (string \<times> string) list"

definition createAuthHeaderFunc :: "ClientConfig \<Rightarrow> header_func" where
  "createAuthHeaderFunc cfg = (\<lambda>ctx.
     case ctx_RawHeaders ctx of
       None \<Rightarrow> []
     | Some rawHeaders \<Rightarrow>
         foldl (\<lambda>headers mapping.
             let v = rawHeaders (cm_SourceHeader mapping) in
             if v = '''' then headers
             else AList.update (cm_TargetHeader mapping) (formatCredentialValue (cm_Format mapping) v) headers)
           [] (cc_PassThroughHeaders cfg))"

section \<open>Connections\<close>

datatype connection =
    StdioMCPClient string "string list"
  | SSEMCPClient string "(string \<times> string) list" "header_func option"
  | StreamableHttpClient string "(string \<times> string) list" "header_func option"

definition connection_of :: "ClientConfig \<Rightarrow> go_error + connection" where
  "connection_of cfg =
     (let auth = (if cc_PassThroughEnabled cfg then Some (createAuthHeaderFunc cfg) else None) in
      if cc_Type cfg = ''stdio'' then Inr (StdioMCPClient (cc_Command cfg) (cc_CommandArgs cfg))
      else if cc_Type cfg = ''sse'' then Inr (SSEMCPClient (cc_DownstreamURL cfg) (cc_SSEHeaders cfg) auth)
      else if cc_Type cfg = ''http'' then Inr (StreamableHttpClient (cc_DownstreamURL cfg) (cc_HTTPHeaders cfg) auth)
      else Inl (PlainError (''unsupported transport type: '' @ cc_Type cfg)))"

text \<open>
  The library and the network. A connection attempt is given the number of attempts before it; a
  request to a server, the number of the attempt; a wait, the operation and its attempt, and it answers
  the error of the context when that ended before the wait did.
\<close>

datatype operation = Initialization | DiscoveryDelay | ToolDiscovery | PromptDiscovery | ResourceDiscovery | TemplateDiscovery

record 'c mcp_env =
  mc_Connect :: "nat \<Rightarrow> connection \<Rightarrow> go_error + 'c"
  mc_Initialize :: "'c \<Rightarrow> nat \<Rightarrow> go_error + ServerCapabilities"
  mc_ListTools :: "'c \<Rightarrow> nat \<Rightarrow> go_error + string list"
  mc_ListPrompts :: "'c \<Rightarrow> nat \<Rightarrow> go_error + string list"
  mc_ListResources :: "'c \<Rightarrow> nat \<Rightarrow> go_error + string list"
  mc_ListResourceTemplates :: "'c \<Rightarrow> nat \<Rightarrow> go_error + string list"
  mc_ended :: "'c \<Rightarrow> nat \<Rightarrow> go_error option"
  mc_wait :: "'c \<Rightarrow> operation \<Rightarrow> nat \<Rightarrow> int \<Rightarrow> go_error option"
  mc_duration :: "int \<Rightarrow> string"

text \<open>
  \<^verbatim>\<open>sessionRetryWithDelay\<close>: at most one attempt more than the retries, a wait between two attempts; a
  result is taken when it is valid. Without an error the value is the empty one.
\<close>

definition op_name :: "operation \<Rightarrow> string" where
  "op_name op = (case op of
       ToolDiscovery \<Rightarrow> ''tool discovery'' | PromptDiscovery \<Rightarrow> ''prompt discovery''
     | ResourceDiscovery \<Rightarrow> ''resource discovery'' | TemplateDiscovery \<Rightarrow> ''resource template discovery''
     | _ \<Rightarrow> '''')"

function retry_attempts ::
  "int \<Rightarrow> string \<Rightarrow> (nat \<Rightarrow> go_error + 'a) \<Rightarrow> ('a \<Rightarrow> nat \<Rightarrow> bool) \<Rightarrow> (nat \<Rightarrow> go_error option) \<Rightarrow> 'a \<Rightarrow>
     nat \<Rightarrow> go_error option \<Rightarrow> go_error + 'a" where
  "retry_attempts maxRetries op fn validateResult wait zero attempt lastErr =
     (if int attempt > maxRetries
      then (case lastErr of Some e \<Rightarrow> Inl e | None \<Rightarrow> Inr zero)
      else
        let r = fn attempt;
            lastErr' = (case r of Inl e \<Rightarrow> Some e | Inr x \<Rightarrow> lastErr)
        in if (case r of Inl e \<Rightarrow> False | Inr x \<Rightarrow> validateResult x attempt) then r
           else case (if int attempt < maxRetries then wait attempt else None) of
             Some e \<Rightarrow> Inl (PlainError (''context cancelled during '' @ op @ '' retry: '' @ error_text e))
           | None \<Rightarrow> retry_attempts maxRetries op fn validateResult wait zero (attempt + 1) lastErr')"
  by pat_completeness auto
termination
  by (relation "measure (\<lambda>(maxRetries, op, fn, v, w, z, attempt, l). nat (maxRetries + 1 - int attempt))") auto

declare retry_attempts.simps [simp del]

definition sessionRetryWithDelay ::
  "'c mcp_env \<Rightarrow> 'c \<Rightarrow> ClientConfig \<Rightarrow> operation \<Rightarrow> (nat \<Rightarrow> go_error + string list) \<Rightarrow>
     (string list \<Rightarrow> nat \<Rightarrow> bool) \<Rightarrow> go_error + string list" where
  "sessionRetryWithDelay env c cfg op fn validateResult =
     retry_attempts (cc_CapabilityDiscoveryRetries cfg) (op_name op) fn validateResult
       (\<lambda>attempt. mc_wait env c op attempt (milliseconds (cc_CapabilityRetryDelayMs cfg))) [] 0 None"

definition discoverSessionToolsWithRetry :: "'c mcp_env \<Rightarrow> 'c \<Rightarrow> ClientConfig \<Rightarrow> go_error + string list" where
  "discoverSessionToolsWithRetry env c cfg =
     sessionRetryWithDelay env c cfg ToolDiscovery (mc_ListTools env c)
       (\<lambda>tools attempt. length tools > 0 \<or> int attempt = cc_CapabilityDiscoveryRetries cfg)"

definition discoverSessionPromptsWithRetry :: "'c mcp_env \<Rightarrow> 'c \<Rightarrow> ClientConfig \<Rightarrow> go_error + string list" where
  "discoverSessionPromptsWithRetry env c cfg =
     sessionRetryWithDelay env c cfg PromptDiscovery (mc_ListPrompts env c) (\<lambda>prompts attempt. True)"

definition discoverSessionResourcesWithRetry :: "'c mcp_env \<Rightarrow> 'c \<Rightarrow> ClientConfig \<Rightarrow> go_error + string list" where
  "discoverSessionResourcesWithRetry env c cfg =
     sessionRetryWithDelay env c cfg ResourceDiscovery (mc_ListResources env c) (\<lambda>resources attempt. True)"

definition discoverSessionResourceTemplatesWithRetry :: "'c mcp_env \<Rightarrow> 'c \<Rightarrow> ClientConfig \<Rightarrow> go_error + string list" where
  "discoverSessionResourceTemplatesWithRetry env c cfg =
     sessionRetryWithDelay env c cfg TemplateDiscovery (mc_ListResourceTemplates env c) (\<lambda>templates attempt. True)"

text \<open>The pause after an attempt to initialise: doubled each time, at most two seconds.\<close>

definition init_delay :: "int \<Rightarrow> nat \<Rightarrow> int" where
  "init_delay baseDelay attempt = min (wrap64 (baseDelay * wrap64 (2 ^ attempt))) 2000000000"

function init_attempts ::
  "'c mcp_env \<Rightarrow> 'c \<Rightarrow> ClientConfig \<Rightarrow> nat \<Rightarrow> go_error option \<Rightarrow> go_error + ServerCapabilities" where
  "init_attempts env c cfg attempt lastErr =
     (let maxRetries = cc_InitializationRetries cfg;
          failed = Inl (PlainError (''initialization failed after '' @ Itoa (maxRetries + 1) @ '' attempts: '' @
            (case lastErr of Some e \<Rightarrow> error_text e | None \<Rightarrow> ''%!w(<nil>)'')))
      in if int attempt > maxRetries then failed
         else case mc_Initialize env c attempt of
           Inr resp \<Rightarrow> Inr resp
         | Inl err \<Rightarrow>
             if int attempt = maxRetries
             then Inl (PlainError (''initialization failed after '' @ Itoa (maxRetries + 1) @ '' attempts: '' @ error_text err))
             else case mc_ended env c attempt of
               Some e \<Rightarrow> Inl (PlainError (''initialization timed out after '' @
                 mc_duration env (milliseconds (cc_StartupTimeoutMs cfg)) @ '': '' @ error_text e))
             | None \<Rightarrow>
                 (case mc_wait env c Initialization attempt (init_delay (milliseconds (cc_RetryDelayMs cfg)) attempt) of
                    Some e \<Rightarrow> Inl (PlainError (''initialization timed out during retry delay: '' @ error_text e))
                  | None \<Rightarrow> init_attempts env c cfg (attempt + 1) (Some err)))"
  by pat_completeness auto
termination
  by (relation "measure (\<lambda>(env, c, cfg, attempt, l). nat (cc_InitializationRetries cfg + 1 - int attempt))") auto

declare init_attempts.simps [simp del]

definition initializeSessionClientWithRetry :: "'c mcp_env \<Rightarrow> 'c \<Rightarrow> ClientConfig \<Rightarrow> go_error + ServerCapabilities" where
  "initializeSessionClientWithRetry env c cfg = init_attempts env c cfg 0 None"

abbreviation wrap_error :: "string \<Rightarrow> go_error \<Rightarrow> go_error" where
  "wrap_error prefix e \<equiv> PlainError (prefix @ '': '' @ error_text e)"

text \<open>The discovery fills the client information field by field; an error leaves the rest unset.\<close>

definition discoverSessionClientCapabilities ::
  "'c mcp_env \<Rightarrow> 'c \<Rightarrow> ServerCapabilities \<Rightarrow> 'c SessionClientInfo \<Rightarrow> go_error + 'c SessionClientInfo" where
  "discoverSessionClientCapabilities env c caps info =
     (let cfg = sci_Config info in
      case (if caps_Tools caps \<noteq> None then discoverSessionToolsWithRetry env c cfg else Inr (sci_Tools info)) of
        Inl e \<Rightarrow> Inl (wrap_error ''failed to discover tools'' e)
      | Inr tools \<Rightarrow>
      case (if caps_Prompts caps = Some True then discoverSessionPromptsWithRetry env c cfg else Inr (sci_Prompts info)) of
        Inl e \<Rightarrow> Inl (wrap_error ''failed to discover prompts'' e)
      | Inr prompts \<Rightarrow>
          let info1 = info\<lparr> sci_Tools := tools, sci_Prompts := prompts \<rparr> in
          if caps_Resources caps = Some True
          then (case discoverSessionResourcesWithRetry env c cfg of
                  Inl e \<Rightarrow> Inl (wrap_error ''failed to discover resources'' e)
                | Inr resources \<Rightarrow> (case discoverSessionResourceTemplatesWithRetry env c cfg of
                    Inl e \<Rightarrow> Inl (wrap_error ''failed to discover resource templates'' e)
                  | Inr templates \<Rightarrow> Inr (info1\<lparr> sci_Resources := resources, sci_Templates := templates \<rparr>)))
          else Inr info1)"

definition checkSessionClientCapabilities ::
  "'c mcp_env \<Rightarrow> 'c \<Rightarrow> 'c SessionClientInfo \<Rightarrow> go_error + 'c SessionClientInfo" where
  "checkSessionClientCapabilities env c info =
     (let cfg = sci_Config info in
      case (if cc_Type cfg = ''stdio''
            then (case initializeSessionClientWithRetry env c cfg of
                Inl e \<Rightarrow> Inl (wrap_error ''failed to initialize MCP server after retries'' e) | Inr caps \<Rightarrow> Inr caps)
            else (case mc_Initialize env c 0 of
                Inl e \<Rightarrow> Inl (wrap_error ''failed to initialize MCP server'' e) | Inr caps \<Rightarrow> Inr caps)) of
        Inl e \<Rightarrow> Inl e
      | Inr caps \<Rightarrow>
          let info1 = info\<lparr> sci_Capabilities := Some caps \<rparr> in
          case (if cc_CapabilityDiscoveryDelayMs cfg > 0
                then mc_wait env c DiscoveryDelay 0 (milliseconds (cc_CapabilityDiscoveryDelayMs cfg)) else None) of
            Some e \<Rightarrow> Inl (wrap_error ''context cancelled during capability discovery delay'' e)
          | None \<Rightarrow> (case discoverSessionClientCapabilities env c caps info1 of
              Inl e \<Rightarrow> Inl (wrap_error ''failed to discover capabilities'' e)
            | Inr info2 \<Rightarrow> Inr info2))"

section \<open>The manager\<close>

text \<open>
  The state: the sessions, and for the record every connection that was opened and the number of
  attempts. Connections that were closed are in the sessions' record.
\<close>

record 'c ClientManager =
  cm_sessions :: "'c SessionManager"
  cm_opened :: "'c list"
  cm_attempts :: nat

definition with_sessions :: "'c SessionManager \<Rightarrow> 'c ClientManager \<Rightarrow> 'c ClientManager" where
  "with_sessions sm st = st\<lparr> cm_sessions := sm \<rparr>"

definition close_client :: "'c \<Rightarrow> 'c ClientManager \<Rightarrow> 'c ClientManager" where
  "close_client c st = st\<lparr> cm_sessions := (cm_sessions st)\<lparr> sm_closed := sm_closed (cm_sessions st) @ [c] \<rparr> \<rparr>"

definition close_info :: "'c SessionClientInfo \<Rightarrow> 'c ClientManager \<Rightarrow> 'c ClientManager" where
  "close_info info st = (case sci_Client info of None \<Rightarrow> st | Some c \<Rightarrow> close_client c st)"

definition createClient ::
  "'c mcp_env \<Rightarrow> string \<Rightarrow> ClientConfig \<Rightarrow> 'c ClientManager \<Rightarrow>
     (go_error + 'c SessionClientInfo) \<times> 'c ClientManager" where
  "createClient env name cfg st =
     (case connection_of cfg of
        Inl e \<Rightarrow> (Inl e, st)
      | Inr conn \<Rightarrow>
          let st1 = st\<lparr> cm_attempts := cm_attempts st + 1 \<rparr> in
          case mc_Connect env (cm_attempts st) conn of
            Inl err \<Rightarrow> (Inl (wrap_error ''failed to create MCP client'' err), st1)
          | Inr c \<Rightarrow>
              let st2 = st1\<lparr> cm_opened := cm_opened st1 @ [c] \<rparr>;
                  info = \<lparr> sci_Name = name, sci_Client = Some c, sci_Config = cfg, sci_Capabilities = None,
                    sci_Tools = [], sci_Prompts = [], sci_Resources = [], sci_Templates = [] \<rparr>
              in (case checkSessionClientCapabilities env c info of
                    Inl err \<Rightarrow> (Inl (wrap_error ''failed to check capabilities'' err), close_client c st2)
                  | Inr info' \<Rightarrow> (Inr info', st2)))"

text \<open>A configuration map is the list of its entries in the order in which the program visits them.\<close>

type_synonym client_configs = "(string \<times> ClientConfig) list"

record DiscoveredCapabilities =
  dcap_Tools :: "(string \<times> string list) list"
  dcap_Prompts :: "(string \<times> string list) list"
  dcap_Resources :: "(string \<times> string list) list"
  dcap_Templates :: "(string \<times> string list) list"

definition discover_client ::
  "'c mcp_env \<Rightarrow> string \<times> ClientConfig \<Rightarrow> DiscoveredCapabilities \<times> 'c ClientManager \<Rightarrow>
     DiscoveredCapabilities \<times> 'c ClientManager" where
  "discover_client env = (\<lambda>(name, cfg) (d, st).
     if cc_PassThroughEnabled cfg then (d, st)
     else case createClient env name cfg st of
       (Inl err, st1) \<Rightarrow> (d, st1)
     | (Inr info, st1) \<Rightarrow>
         (d\<lparr> dcap_Tools := AList.update name (sci_Tools info) (dcap_Tools d),
             dcap_Prompts := AList.update name (sci_Prompts info) (dcap_Prompts d),
             dcap_Resources := AList.update name (sci_Resources info) (dcap_Resources d),
             dcap_Templates := AList.update name (sci_Templates info) (dcap_Templates d) \<rparr>,
          close_info info st1))"

definition DiscoverAllCapabilities ::
  "'c mcp_env \<Rightarrow> client_configs \<Rightarrow> 'c ClientManager \<Rightarrow> DiscoveredCapabilities \<times> 'c ClientManager" where
  "DiscoverAllCapabilities env configs st =
     fold (discover_client env) configs
       (\<lparr> dcap_Tools = [], dcap_Prompts = [], dcap_Resources = [], dcap_Templates = [] \<rparr>, st)"

definition refresh_metadata :: "('a) call_context_scheme \<Rightarrow> nat \<Rightarrow> 'c SessionManager \<Rightarrow> 'c SessionManager" where
  "refresh_metadata ctx a sm =
     (let sm1 = (case ctx_ClientIP ctx of None \<Rightarrow> sm
                 | Some ip \<Rightarrow> if ip \<noteq> '''' then at_session a (SetClientIP ip) sm else sm)
      in case ctx_UserAgent ctx of None \<Rightarrow> sm1
         | Some ua \<Rightarrow> if ua \<noteq> '''' then at_session a (SetUserAgent ua) sm1 else sm1)"

text \<open>One client of a new session: connected and stored, closed again if the session does not take it, or an error.\<close>

definition create_session_client ::
  "'c mcp_env \<Rightarrow> string \<Rightarrow> string \<times> ClientConfig \<Rightarrow> (string \<times> 'c SessionClientInfo) list \<times> string list \<times> 'c ClientManager \<Rightarrow>
     (string \<times> 'c SessionClientInfo) list \<times> string list \<times> 'c ClientManager" where
  "create_session_client env sessionID = (\<lambda>(name, cfg) (found, errs, st).
     case createClient env name cfg st of
       (Inl err, st1) \<Rightarrow> (found, errs @ [''failed to create client '' @ name @ '': '' @ error_text err], st1)
     | (Inr info, st1) \<Rightarrow>
         (case SetSessionClient sessionID name info (cm_sessions st1) of
            (ok, sm) \<Rightarrow>
              if \<not> ok then (found, errs, close_info info (with_sessions sm st1))
              else (AList.update name info found, errs, with_sessions sm st1)))"

definition CreateSessionClients ::
  "'c mcp_env \<Rightarrow> (nat \<Rightarrow> int) \<Rightarrow> ('a) call_context_scheme \<Rightarrow> string \<Rightarrow> client_configs \<Rightarrow> 'c ClientManager \<Rightarrow>
     (string \<times> 'c SessionClientInfo) list option \<times> go_error option \<times> 'c ClientManager" where
  "CreateSessionClients env T ctx sessionID configs st =
     (case GetSession (T 0) sessionID (cm_sessions st) of
        (None, sm) \<Rightarrow> (None, Some (PlainError (''session '' @ [CHR 0x22] @ sessionID @ [CHR 0x22] @ '' not found '' @
          [CHR 0xE2, CHR 0x80, CHR 0x94] @ '' expected onSessionRegister to create it'')), with_sessions sm st)
      | (Some a, sm) \<Rightarrow>
          (case fold (create_session_client env sessionID) configs ([], [], with_sessions (refresh_metadata ctx a sm) st) of
             (found, errs, st1) \<Rightarrow>
               if length errs > 0
               then (Some found, Some (PlainError (''failed to create '' @ Itoa (int (length errs)) @
                 '' client(s) for session '' @ sessionID)), st1)
               else (Some found, None, st1)))"

text \<open>Without a session one is made; the second look after a failed creation is for a race.\<close>

definition get_or_create_session ::
  "(nat \<Rightarrow> int) \<Rightarrow> string \<Rightarrow> 'c SessionManager \<Rightarrow> nat option \<times> 'c SessionManager" where
  "get_or_create_session T sessionID sm =
     (case GetSession (T 0) sessionID sm of
        (Some a, sm1) \<Rightarrow> (Some a, sm1)
      | (None, sm1) \<Rightarrow> (case CreateSession (T 1) sessionID sm1 of
          (Inr a, sm2) \<Rightarrow> (Some a, sm2)
        | (Inl e, sm2) \<Rightarrow> GetSession (T 2) sessionID sm2))"

definition CreateSingleSessionClient ::
  "'c mcp_env \<Rightarrow> (nat \<Rightarrow> int) \<Rightarrow> ('a) call_context_scheme \<Rightarrow> string \<Rightarrow> string \<Rightarrow> ClientConfig \<Rightarrow> 'c ClientManager \<Rightarrow>
     (go_error + 'c SessionClientInfo) \<times> 'c ClientManager" where
  "CreateSingleSessionClient env T ctx sessionID clientName cfg st =
     (case get_or_create_session T sessionID (cm_sessions st) of
        (None, sm) \<Rightarrow> (Inl (PlainError (''session '' @ [CHR 0x22] @ sessionID @ [CHR 0x22] @
          '' disappeared during creation race'')), with_sessions sm st)
      | (Some a, sm) \<Rightarrow>
          let sm1 = at_session a (SetConnected True) (refresh_metadata ctx a sm);
              st1 = with_sessions sm1 st;
              create = (case createClient env clientName cfg st1 of
                  (Inl err, st2) \<Rightarrow> (Inl (wrap_error (''failed to create client '' @ clientName) err), st2)
                | (Inr info, st2) \<Rightarrow>
                    (case SetSessionClient sessionID clientName info (cm_sessions st2) of
                       (ok, sm2) \<Rightarrow>
                         if \<not> ok
                         then (Inl (PlainError (''session '' @ sessionID @ '' was closed during client creation'')),
                               close_info info (with_sessions sm2 st2))
                         else (Inr info, with_sessions sm2 st2)))
          in (case GetClient clientName (sm_store sm1 ! a) of
                Some existing \<Rightarrow> if sci_Client existing \<noteq> None then (Inr existing, st1) else create
              | None \<Rightarrow> create))"

section \<open>Looking at sessions\<close>

definition GetAllSessionClients ::
  "int \<Rightarrow> string \<Rightarrow> 'c SessionManager \<Rightarrow> (session_error + (string \<times> 'c SessionClientInfo) list) \<times> 'c SessionManager" where
  "GetAllSessionClients now sessionID sm =
     (case GetSession now sessionID sm of
        (None, sm1) \<Rightarrow> (Inl (SessionExpired sessionID ''session no longer exists (server may have restarted)''), sm1)
      | (Some a, sm1) \<Rightarrow> (Inr (ses_clients (sm_store sm1 ! a)), sm1))"

definition GetSessionClientNames :: "int \<Rightarrow> string \<Rightarrow> 'c SessionManager \<Rightarrow> string list \<times> 'c SessionManager" where
  "GetSessionClientNames now sessionID sm =
     (case GetAllSessionClients now sessionID sm of
        (Inl e, sm1) \<Rightarrow> ([], sm1)
      | (Inr clients, sm1) \<Rightarrow> (map fst clients, sm1))"

record DownstreamClientInfo =
  dci_Name :: string
  dci_ToolCount :: int

record SessionInfo =
  sinf_SessionID :: string
  sinf_ClientIP :: string
  sinf_UserAgent :: string
  sinf_Connected :: bool
  sinf_DownstreamClients :: "DownstreamClientInfo list"

definition session_info :: "string \<Rightarrow> 'c Session \<Rightarrow> SessionInfo" where
  "session_info sessionID s =
     \<lparr> sinf_SessionID = sessionID, sinf_ClientIP = ses_clientIP s, sinf_UserAgent = ses_userAgent s,
       sinf_Connected = ses_connected s,
       sinf_DownstreamClients = map (\<lambda>(clientName, info).
         \<lparr> dci_Name = clientName, dci_ToolCount = int (length (sci_Tools info)) \<rparr>) (ses_clients s) \<rparr>"

text \<open>Each session is looked up, which counts as an activity of it.\<close>

fun active_sessions :: "(nat \<Rightarrow> int) \<Rightarrow> string list \<Rightarrow> 'c SessionManager \<Rightarrow> SessionInfo list \<times> 'c SessionManager" where
  "active_sessions T [] sm = ([], sm)"
| "active_sessions T (sessionID # rest) sm =
     (case GetSession (T (length rest)) sessionID sm of
        (None, sm1) \<Rightarrow> active_sessions T rest sm1
      | (Some a, sm1) \<Rightarrow> (case active_sessions T rest sm1 of
          (infos, sm2) \<Rightarrow> (session_info sessionID (sm_store sm1 ! a) # infos, sm2)))"

definition GetActiveSessions :: "(nat \<Rightarrow> int) \<Rightarrow> 'c SessionManager \<Rightarrow> SessionInfo list \<times> 'c SessionManager" where
  "GetActiveSessions T sm = active_sessions T (GetAllSessions sm) sm"

record SessionClientTools =
  sct_ClientName :: string
  sct_Tools :: "string list"

definition GetSessionClientTools :: "int \<Rightarrow> string \<Rightarrow> 'c SessionManager \<Rightarrow> SessionClientTools list \<times> 'c SessionManager" where
  "GetSessionClientTools now sessionID sm =
     (case GetSession now sessionID sm of
        (None, sm1) \<Rightarrow> ([], sm1)
      | (Some a, sm1) \<Rightarrow> (map (\<lambda>(clientName, info). \<lparr> sct_ClientName = clientName, sct_Tools = sci_Tools info \<rparr>)
          (ses_clients (sm_store sm1 ! a)), sm1))"

definition IsClientConfigured :: "client_configs \<Rightarrow> string \<Rightarrow> bool" where
  "IsClientConfigured configs clientName \<longleftrightarrow> map_of configs clientName \<noteq> None"

definition InitializeClients :: "client_configs \<Rightarrow> client_configs \<Rightarrow> client_configs" where
  "InitializeClients configs clientConfigs = fold (\<lambda>(name, cfg) m. AList.update name cfg m) configs clientConfigs"

definition SetSessionClientIP :: "int \<Rightarrow> string \<Rightarrow> string \<Rightarrow> 'c SessionManager \<Rightarrow> 'c SessionManager" where
  "SetSessionClientIP now sessionID clientIP sm =
     (case GetSession now sessionID sm of (None, sm1) \<Rightarrow> sm1 | (Some a, sm1) \<Rightarrow> at_session a (SetClientIP clientIP) sm1)"

definition SetSessionUserAgent :: "int \<Rightarrow> string \<Rightarrow> string \<Rightarrow> 'c SessionManager \<Rightarrow> 'c SessionManager" where
  "SetSessionUserAgent now sessionID userAgent sm =
     (case GetSession now sessionID sm of (None, sm1) \<Rightarrow> sm1 | (Some a, sm1) \<Rightarrow> at_session a (SetUserAgent userAgent) sm1)"

section \<open>Credentials come from the caller\<close>

text \<open>
  C15. The headers added to a request for a downstream server are made from the headers of the request
  that caused it and the mappings of that server, and from nothing else: a header is set by the last
  mapping to it whose source header is present, and is absent without one.
\<close>

theorem credentials_of_caller:
  "map_of (createAuthHeaderFunc cfg ctx) target =
     (case ctx_RawHeaders ctx of
        None \<Rightarrow> None
      | Some header \<Rightarrow>
          map_option (\<lambda>m. formatCredentialValue (cm_Format m) (header (cm_SourceHeader m)))
            (find (\<lambda>m. cm_TargetHeader m = target \<and> header (cm_SourceHeader m) \<noteq> '''')
              (rev (cc_PassThroughHeaders cfg))))"
proof (cases "ctx_RawHeaders ctx")
  case (Some header)
  have "map_of (foldl (\<lambda>headers mapping.
          let v = header (cm_SourceHeader mapping) in
          if v = '''' then headers
          else AList.update (cm_TargetHeader mapping) (formatCredentialValue (cm_Format mapping) v) headers) [] ms) target =
        map_option (\<lambda>m. formatCredentialValue (cm_Format m) (header (cm_SourceHeader m)))
          (find (\<lambda>m. cm_TargetHeader m = target \<and> header (cm_SourceHeader m) \<noteq> '''') (rev ms))" for ms
    by (induction ms rule: rev_induct) (auto simp: Let_def update_conv)
  with Some show ?thesis by (simp add: createAuthHeaderFunc_def)
qed (simp add: createAuthHeaderFunc_def)

section \<open>Retries\<close>

lemma retry_attempts_result:
  "retry_attempts m op fn valid wait zero attempt lastErr = Inr x \<Longrightarrow> int attempt \<le> m \<Longrightarrow>
     (\<exists>k \<ge> attempt. int k \<le> m \<and> fn k = Inr x \<and> valid x k) \<or>
     (x = zero \<and> (\<exists>y. fn (nat m) = Inr y \<and> \<not> valid y (nat m)))"
proof (induction m op fn valid wait zero attempt lastErr rule: retry_attempts.induct)
  case (1 m op fn valid wait zero attempt lastErr)
  let ?ok = "case fn attempt of Inl e \<Rightarrow> False | Inr x \<Rightarrow> valid x attempt"
  let ?last = "case fn attempt of Inl e \<Rightarrow> Some e | Inr x \<Rightarrow> lastErr"
  show ?case
  proof (cases ?ok)
    case True
    with "1.prems" show ?thesis by (auto simp: retry_attempts.simps [of m] Let_def split: sum.splits)
  next
    case bad: False
    show ?thesis
    proof (cases "int attempt = m")
      case True
      then have "retry_attempts m op fn valid wait zero attempt lastErr = (case ?last of Some e \<Rightarrow> Inl e | None \<Rightarrow> Inr zero)"
        using bad by (simp add: retry_attempts.simps [of m] Let_def)
      with "1.prems"(1) bad True show ?thesis by (auto split: sum.splits option.splits)
    next
      case False
      with "1.prems" bad have w: "wait attempt = None"
        by (auto simp: retry_attempts.simps [of m _ _ _ _ _ attempt] Let_def split: option.splits)
      with False bad "1.prems" have "retry_attempts m op fn valid wait zero (attempt + 1) ?last = Inr x"
        by (simp add: retry_attempts.simps [of m _ _ _ _ _ attempt] Let_def)
      from "1.IH" [OF _ refl refl bad _ this] False "1.prems" w
      have "(\<exists>k\<ge>attempt + 1. int k \<le> m \<and> fn k = Inr x \<and> valid x k) \<or>
          x = zero \<and> (\<exists>y. fn (nat m) = Inr y \<and> \<not> valid y (nat m))" by simp
      then show ?thesis by (meson add_leD1)
    qed
  qed
qed

text \<open>
  Tools that were discovered are an answer of the server within the retries; an empty list is only
  believed at the last attempt.
\<close>

lemma discovered_tools:
  assumes "discoverSessionToolsWithRetry env c cfg = Inr tools" "0 \<le> cc_CapabilityDiscoveryRetries cfg"
  obtains k where "int k \<le> cc_CapabilityDiscoveryRetries cfg" "mc_ListTools env c k = Inr tools"
    "tools = [] \<Longrightarrow> int k = cc_CapabilityDiscoveryRetries cfg"
proof -
  have "\<exists>k. int k \<le> cc_CapabilityDiscoveryRetries cfg \<and> mc_ListTools env c k = Inr tools \<and>
      (length tools > 0 \<or> int k = cc_CapabilityDiscoveryRetries cfg)"
    using retry_attempts_result [OF assms(1) [unfolded discoverSessionToolsWithRetry_def sessionRetryWithDelay_def]] assms(2)
    by auto
  with that show thesis by auto
qed

section \<open>No connection is lost\<close>

text \<open>Every connection that was opened is held by a session or was closed.\<close>

definition balanced :: "'c ClientManager \<Rightarrow> bool" where
  "balanced st \<longleftrightarrow> mset (cm_opened st) = held (cm_sessions st) + mset (sm_closed (cm_sessions st))"

definition addrs_ok :: "'c SessionManager \<Rightarrow> bool" where
  "addrs_ok sm \<longleftrightarrow> list_all (\<lambda>(i, a). a < length (sm_store sm)) (sm_sessions sm)"

lemma addrs_okD: "addrs_ok sm \<Longrightarrow> map_of (sm_sessions sm) i = Some a \<Longrightarrow> a < length (sm_store sm)"
  by (auto simp: addrs_ok_def list_all_iff dest: map_of_SomeD)

lemma with_sessions_sel [simp]:
  "cm_sessions (with_sessions sm st) = sm" "cm_opened (with_sessions sm st) = cm_opened st"
  by (simp_all add: with_sessions_def)

lemma close_info_sel [simp]:
  "cm_opened (close_info info st) = cm_opened st"
  "cm_sessions (close_info info st) = (cm_sessions st)
     \<lparr> sm_closed := sm_closed (cm_sessions st) @ (case sci_Client info of None \<Rightarrow> [] | Some c \<Rightarrow> [c]) \<rparr>"
  by (simp_all add: close_info_def close_client_def split: option.split)

text \<open>A failed creation closes what it opened; a successful one leaves one new connection, not yet held.\<close>

definition same_client :: "'c SessionClientInfo \<Rightarrow> 'c SessionClientInfo \<Rightarrow> bool" where
  "same_client info info' \<longleftrightarrow> sci_Client info' = sci_Client info \<and> sci_Config info' = sci_Config info \<and>
     sci_Name info' = sci_Name info"

lemma discovered_info:
  assumes "discoverSessionClientCapabilities env c caps info = Inr info'"
  shows "same_client info info'"
proof -
  from assms obtain ts ps rs tms where
    "info' = info\<lparr> sci_Tools := ts, sci_Prompts := ps, sci_Resources := rs, sci_Templates := tms \<rparr> \<or>
     info' = info\<lparr> sci_Tools := ts, sci_Prompts := ps \<rparr>"
    unfolding discoverSessionClientCapabilities_def Let_def
    by (simp only: split: sum.splits if_split_asm) (blast dest: sum.inject(2) [THEN iffD1, OF sym])+
  then show ?thesis by (auto simp: same_client_def)
qed

lemma checked_info:
  assumes "checkSessionClientCapabilities env c info = Inr info'"
  shows "same_client info info'"
proof -
  from assms obtain caps where "discoverSessionClientCapabilities env c caps (info\<lparr> sci_Capabilities := Some caps \<rparr>) = Inr info'"
    unfolding checkSessionClientCapabilities_def Let_def
    by (auto split: sum.splits option.splits if_split_asm)
  from discovered_info [OF this] show ?thesis by (simp add: same_client_def)
qed

lemma createClient_effect:
  assumes "createClient env name cfg st = (r, st')"
  shows "case r of
      Inl e \<Rightarrow> \<exists>cs. cm_opened st' = cm_opened st @ cs \<and>
        cm_sessions st' = (cm_sessions st)\<lparr> sm_closed := sm_closed (cm_sessions st) @ cs \<rparr>
    | Inr info \<Rightarrow> \<exists>c. sci_Client info = Some c \<and> sci_Config info = cfg \<and>
        cm_opened st' = cm_opened st @ [c] \<and> cm_sessions st' = cm_sessions st"
proof (cases "connection_of cfg")
  case (Inl e)
  with assms show ?thesis by (auto simp: createClient_def intro: exI [of _ "[]"])
next
  case conn: (Inr conn)
  show ?thesis
  proof (cases "mc_Connect env (cm_attempts st) conn")
    case (Inl e)
    with assms conn show ?thesis by (auto simp: createClient_def Let_def intro: exI [of _ "[]"])
  next
    case (Inr c)
    let ?info = "\<lparr> sci_Name = name, sci_Client = Some c, sci_Config = cfg, sci_Capabilities = None,
        sci_Tools = [], sci_Prompts = [], sci_Resources = [], sci_Templates = [] \<rparr>"
    show ?thesis
    proof (cases "checkSessionClientCapabilities env c ?info")
      case check: (Inl e)
      with assms conn Inr show ?thesis
        by (auto simp: createClient_def Let_def close_client_def intro: exI [of _ "[c]"])
    next
      case check: (Inr info')
      from assms conn Inr check have "r = Inr info'" "cm_opened st' = cm_opened st @ [c]" "cm_sessions st' = cm_sessions st"
        by (auto simp: createClient_def Let_def)
      with checked_info [OF check] show ?thesis by (simp add: same_client_def)
    qed
  qed
qed

lemma info_handles_update:
  "mset (List.map_filter (\<lambda>(n, info). sci_Client info) (AList.update k info xs)) +
     mset (case map_of xs k of None \<Rightarrow> [] | Some i \<Rightarrow> (case sci_Client i of None \<Rightarrow> [] | Some c \<Rightarrow> [c])) =
   mset (case sci_Client info of None \<Rightarrow> [] | Some c \<Rightarrow> [c]) + mset (List.map_filter (\<lambda>(n, info). sci_Client info) xs)"
  by (induction xs) (auto simp: map_filter_simps split: option.splits)

definition displaced :: "string \<Rightarrow> string \<Rightarrow> 'c SessionManager \<Rightarrow> 'c list" where
  "displaced sessionID name sm =
     (case map_of (sm_sessions sm) sessionID of None \<Rightarrow> [] | Some a \<Rightarrow> held_by_name name (sm_store sm ! a))"

lemma SetSessionClient_effect:
  assumes "SetSessionClient sid name info sm = (ok, sm')" "sci_Client info = Some c" "addrs_ok sm"
  shows "sm_closed sm' = sm_closed sm" "sm_sessions sm' = sm_sessions sm" "addrs_ok sm'"
    "held sm' + mset (if ok then displaced sid name sm else []) = (if ok then {#c#} else {#}) + held sm"
proof -
  show "sm_closed sm' = sm_closed sm" "sm_sessions sm' = sm_sessions sm" "addrs_ok sm'"
    using assms by (auto simp: SetSessionClient_def addrs_ok_def split: option.splits prod.splits)
  show "held sm' + mset (if ok then displaced sid name sm else []) = (if ok then {#c#} else {#}) + held sm"
  proof (cases "map_of (sm_sessions sm) sid")
    case (Some a)
    obtain s where s: "SetClient name info (sm_store sm ! a) = (ok, s)" "sm' = sm\<lparr> sm_store := (sm_store sm)[a := s] \<rparr>"
      using assms(1) Some by (auto simp: SetSessionClient_def split: prod.splits)
    have "held sm' + mset (handles (sm_store sm ! a)) = held sm + mset (handles s)"
      using held_update [of a sm s] addrs_okD [OF assms(3) Some] s(2) by simp
    moreover have "mset (handles s) + mset (if ok then held_by_name name (sm_store sm ! a) else []) =
        (if ok then {#c#} else {#}) + mset (handles (sm_store sm ! a))"
      using s(1) info_handles_update [of name info "ses_clients (sm_store sm ! a)"] assms(2)
      by (auto simp: SetClient_def handles_def held_by_name_def GetClient_def split: if_splits)
    ultimately have "held sm' + mset (if ok then held_by_name name (sm_store sm ! a) else []) + mset (handles (sm_store sm ! a)) =
        (if ok then {#c#} else {#}) + held sm + mset (handles (sm_store sm ! a))"
      by (metis (no_types, lifting) union_assoc union_commute)
    with Some show ?thesis by (simp only: displaced_def option.case add_right_cancel)
  qed (use assms in \<open>auto simp: SetSessionClient_def displaced_def\<close>)
qed

lemma closed_sel [simp]:
  "addrs_ok (sm\<lparr> sm_closed := cs \<rparr>) = addrs_ok sm" "displaced sid name (sm\<lparr> sm_closed := cs \<rparr>) = displaced sid name sm"
  by (simp_all add: addrs_ok_def displaced_def split: option.split)

text \<open>Connecting and storing: the balance is kept when the name was free.\<close>

lemma create_and_store_balanced:
  assumes "createClient env name cfg st = (Inr info, st1)"
    and "SetSessionClient sid name info (cm_sessions st1) = (ok, sm)"
    and "balanced st" "addrs_ok (cm_sessions st)" "displaced sid name (cm_sessions st) = []"
  shows "balanced (if ok then with_sessions sm st1 else close_info info (with_sessions sm st1))"
    "addrs_ok sm" "sm_sessions sm = sm_sessions (cm_sessions st)"
proof -
  obtain c where c: "sci_Client info = Some c" "cm_opened st1 = cm_opened st @ [c]" "cm_sessions st1 = cm_sessions st"
    using createClient_effect [OF assms(1)] by auto
  note e = SetSessionClient_effect [OF assms(2) c(1), unfolded c(3), OF assms(4)]
  show "addrs_ok sm" "sm_sessions sm = sm_sessions (cm_sessions st)" using e by simp_all
  show "balanced (if ok then with_sessions sm st1 else close_info info (with_sessions sm st1))"
    using e assms(3,5) c by (cases ok) (simp_all add: balanced_def)
qed

lemma create_failed_balanced:
  assumes "createClient env name cfg st = (Inl err, st1)" "balanced st" "addrs_ok (cm_sessions st)"
  shows "balanced st1" "addrs_ok (cm_sessions st1)" "displaced sid n (cm_sessions st1) = displaced sid n (cm_sessions st)"
  using createClient_effect [OF assms(1)] assms(2,3) by (auto simp: balanced_def)

text \<open>Looking a session up and noting things about its client leaves all connections where they are.\<close>

definition same_conns :: "'c SessionManager \<Rightarrow> 'c SessionManager \<Rightarrow> bool" where
  "same_conns sm sm' \<longleftrightarrow> sm_sessions sm' = sm_sessions sm \<and> sm_closed sm' = sm_closed sm \<and>
     map ses_clients (sm_store sm') = map ses_clients (sm_store sm)"

lemma same_conns_refl [simp]: "same_conns sm sm"
  by (simp add: same_conns_def)

lemma same_conns_trans: "same_conns a b \<Longrightarrow> same_conns b c \<Longrightarrow> same_conns a c"
  by (simp add: same_conns_def)

lemma same_connsD:
  assumes "same_conns sm sm'"
  shows "held sm' = held sm" "sm_closed sm' = sm_closed sm" "sm_sessions sm' = sm_sessions sm"
    "addrs_ok sm' = addrs_ok sm" "length (sm_store sm') = length (sm_store sm)"
    "addrs_ok sm \<Longrightarrow> displaced sid name sm' = displaced sid name sm"
proof -
  note s = assms [unfolded same_conns_def]
  then show l: "length (sm_store sm') = length (sm_store sm)" by (metis length_map)
  have "map (mset \<circ> handles) (sm_store sm') = map (mset \<circ> handles) (sm_store sm)"
    using arg_cong [OF conjunct2 [OF conjunct2 [OF s]],
        of "map (\<lambda>cs. mset (List.map_filter (\<lambda>(n, info). sci_Client info) cs))"]
    by (simp add: handles_def comp_def)
  then show "held sm' = held sm" by (simp add: held_def comp_def)
  from s l show "sm_closed sm' = sm_closed sm" "sm_sessions sm' = sm_sessions sm" "addrs_ok sm' = addrs_ok sm"
    by (simp_all add: addrs_ok_def)
  show "displaced sid name sm' = displaced sid name sm" if "addrs_ok sm"
  proof -
    have "ses_clients (sm_store sm' ! a) = ses_clients (sm_store sm ! a)" if "a < length (sm_store sm)" for a
      using that l conjunct2 [OF conjunct2 [OF s]] by (metis nth_map)
    with s addrs_okD [OF that, of sid] show ?thesis
      by (auto simp: displaced_def held_by_name_def GetClient_def split: option.split)
  qed
qed

lemma same_conns_at:
  "ses_clients (f (sm_store sm ! a)) = ses_clients (sm_store sm ! a) \<Longrightarrow> same_conns sm (at_session a f sm)"
  using list_update_id [of "map ses_clients (sm_store sm)" a]
  by (cases "a < length (sm_store sm)") (simp_all add: same_conns_def at_session_def map_update list_update_beyond)

lemma GetSession_same:
  assumes "GetSession now sid sm = (r, sm1)"
  shows "same_conns sm sm1" "r = map_of (sm_sessions sm) sid"
  using assms by (auto simp: GetSession_def TouchActivity_def same_conns_at split: option.splits)

lemma refresh_metadata_same: "same_conns sm (refresh_metadata ctx a sm)"
proof -
  have "same_conns sm (case ctx_ClientIP ctx of None \<Rightarrow> sm | Some ip \<Rightarrow> if ip \<noteq> '''' then at_session a (SetClientIP ip) sm else sm)"
    by (simp add: same_conns_at SetClientIP_def split: option.split)
  moreover have "same_conns (case ctx_ClientIP ctx of None \<Rightarrow> sm | Some ip \<Rightarrow> if ip \<noteq> '''' then at_session a (SetClientIP ip) sm else sm)
    (refresh_metadata ctx a sm)"
    unfolding refresh_metadata_def Let_def by (simp add: same_conns_at SetUserAgent_def split: option.split)
  ultimately show ?thesis by (rule same_conns_trans)
qed

lemma same_conns_balanced:
  "same_conns (cm_sessions st) sm \<Longrightarrow> balanced (with_sessions sm st) = balanced st"
  by (simp add: balanced_def same_connsD)

text \<open>The three ways in which connections are opened keep the balance.\<close>

lemma discover_client_balanced:
  assumes "balanced st" "addrs_ok (cm_sessions st)" "discover_client env (name, cfg) (d, st) = (d', st')"
  shows "balanced st'" "addrs_ok (cm_sessions st')" "held (cm_sessions st') = held (cm_sessions st)"
proof -
  obtain r st1 where c: "createClient env name cfg st = (r, st1)" by (cases "createClient env name cfg st")
  note e = createClient_effect [OF c]
  show "balanced st'" "addrs_ok (cm_sessions st')" "held (cm_sessions st') = held (cm_sessions st)"
    using assms c e by (auto simp: discover_client_def balanced_def split: if_splits sum.splits)
qed

lemma discover_all_balanced:
  assumes "balanced st" "addrs_ok (cm_sessions st)"
  shows "balanced (snd (DiscoverAllCapabilities env configs st))"
    "held (cm_sessions (snd (DiscoverAllCapabilities env configs st))) = held (cm_sessions st)"
proof -
  have "balanced (snd (fold (discover_client env) configs (d, st))) \<and>
      held (cm_sessions (snd (fold (discover_client env) configs (d, st)))) = held (cm_sessions st)" for d
    using assms
  proof (induction configs arbitrary: d st)
    case (Cons x configs)
    obtain name cfg d' st' where x: "x = (name, cfg)" and s: "discover_client env (name, cfg) (d, st) = (d', st')"
      by (cases x, cases "discover_client env x (d, st)") auto
    note b = discover_client_balanced [OF Cons.prems s]
    from Cons.IH [OF b(1,2), of d'] b(3) show ?case by (simp add: x s)
  qed simp
  then show "balanced (snd (DiscoverAllCapabilities env configs st))"
    "held (cm_sessions (snd (DiscoverAllCapabilities env configs st))) = held (cm_sessions st)"
    by (simp_all add: DiscoverAllCapabilities_def)
qed

lemma displaced_free:
  assumes "SetSessionClient sid name info sm = (ok, sm')" "other \<noteq> name" "addrs_ok sm"
  shows "displaced sid other sm' = displaced sid other sm"
  using assms addrs_okD [OF assms(3), of sid]
  by (auto simp: SetSessionClient_def SetClient_def displaced_def held_by_name_def GetClient_def nth_list_update
      update_conv split: option.splits prod.splits if_splits)

lemma create_session_clients_balanced:
  assumes "balanced st" "addrs_ok (cm_sessions st)" "distinct (map fst configs)"
    and "\<And>name. name \<in> fst ` set configs \<Longrightarrow> displaced sid name (cm_sessions st) = []"
    and "fold (create_session_client env sid) configs (found, errs, st) = (found', errs', st')"
  shows "balanced st' \<and> addrs_ok (cm_sessions st')"
  using assms
proof (induction configs arbitrary: found errs st)
  case (Cons x configs)
  obtain name cfg where x: "x = (name, cfg)" by (cases x)
  obtain f e st1 where s: "create_session_client env sid (name, cfg) (found, errs, st) = (f, e, st1)"
    by (cases "create_session_client env sid (name, cfg) (found, errs, st)") auto
  obtain r st0 where c: "createClient env name cfg st = (r, st0)" by (cases "createClient env name cfg st")
  have free: "displaced sid name (cm_sessions st) = []" using Cons.prems(4) x by simp
  have "balanced st1 \<and> addrs_ok (cm_sessions st1) \<and>
      (\<forall>other. other \<noteq> name \<longrightarrow> displaced sid other (cm_sessions st1) = displaced sid other (cm_sessions st))"
  proof (cases r)
    case (Inl err)
    with s c have "st1 = st0" by (simp add: create_session_client_def)
    with create_failed_balanced [OF c [unfolded Inl] Cons.prems(1,2)] show ?thesis by blast
  next
    case (Inr info)
    obtain ok sm where o: "SetSessionClient sid name info (cm_sessions st0) = (ok, sm)"
      by (cases "SetSessionClient sid name info (cm_sessions st0)")
    note b = create_and_store_balanced [OF c [unfolded Inr] o Cons.prems(1,2) free]
    have st0: "cm_sessions st0 = cm_sessions st" using createClient_effect [OF c] Inr by auto
    have st1: "st1 = (if ok then with_sessions sm st0 else close_info info (with_sessions sm st0))"
      using s c Inr o by (auto simp: create_session_client_def)
    have "displaced sid other (cm_sessions st1) = displaced sid other (cm_sessions st)" if "other \<noteq> name" for other
      using displaced_free [OF o that] Cons.prems(2) st0 st1 by simp
    with b st1 show ?thesis by simp
  qed
  moreover have "fold (create_session_client env sid) configs (f, e, st1) = (found', errs', st')"
    using Cons.prems(5) x s by simp
  moreover have "displaced sid n (cm_sessions st) = []" "n \<noteq> name" if "n \<in> fst ` set configs" for n
    using that Cons.prems(3,4) x by (auto simp: image_iff)
  ultimately show ?case using Cons.IH [of st1 f e] Cons.prems(3) x by simp
qed simp

lemma get_or_create_session_spec:
  assumes "get_or_create_session T sid sm = (r, sm1)" "addrs_ok sm"
  obtains a where "r = Some a" "a < length (sm_store sm1)" "map_of (sm_sessions sm1) sid = Some a" "addrs_ok sm1"
    "held sm1 = held sm" "sm_closed sm1 = sm_closed sm"
proof -
  obtain r0 sm0 where g: "GetSession (T 0) sid sm = (r0, sm0)" by (cases "GetSession (T 0) sid sm")
  note same = GetSession_same [OF g] same_connsD [OF GetSession_same(1) [OF g]]
  show thesis
  proof (cases "map_of (sm_sessions sm) sid")
    case (Some a)
    with assms g same have "r = Some a" "sm1 = sm0" by (simp_all add: get_or_create_session_def)
    with that [of a] Some same assms(2) addrs_okD [OF assms(2) Some] show thesis by simp
  next
    case None
    let ?sm1 = "sm0\<lparr> sm_sessions := (sid, length (sm_store sm0)) # sm_sessions sm0,
        sm_store := sm_store sm0 @ [NewSession (T 1) sid] \<rparr>"
    from None assms(1) g same have "r = Some (length (sm_store sm0))" "sm1 = ?sm1"
      by (auto simp: get_or_create_session_def CreateSession_def Let_def)
    moreover have "addrs_ok ?sm1" using same assms(2) by (auto simp: addrs_ok_def list_all_iff)
    moreover have "held ?sm1 = held sm0" by (simp add: held_def NewSession_def)
    ultimately show thesis using that [of "length (sm_store sm0)"] same by simp
  qed
qed

lemma create_single_balanced:
  assumes "balanced st" "addrs_ok (cm_sessions st)"
  shows "balanced (snd (CreateSingleSessionClient env T ctx sid name cfg st)) \<and>
    addrs_ok (cm_sessions (snd (CreateSingleSessionClient env T ctx sid name cfg st)))"
proof -
  obtain r sm where g: "get_or_create_session T sid (cm_sessions st) = (r, sm)"
    by (cases "get_or_create_session T sid (cm_sessions st)")
  from get_or_create_session_spec [OF g assms(2)] obtain a where a: "r = Some a" "a < length (sm_store sm)"
    "map_of (sm_sessions sm) sid = Some a" "addrs_ok sm" "held sm = held (cm_sessions st)" "sm_closed sm = sm_closed (cm_sessions st)"
    by blast
  let ?sm1 = "at_session a (SetConnected True) (refresh_metadata ctx a sm)"
  have same: "same_conns sm ?sm1"
    by (rule same_conns_trans [OF refresh_metadata_same same_conns_at]) (simp add: SetConnected_def)
  let ?st1 = "with_sessions ?sm1 st"
  have b1: "balanced ?st1" "addrs_ok (cm_sessions ?st1)"
    using assms a same_connsD [OF same] by (simp_all add: balanced_def)
  let ?create = "case createClient env name cfg ?st1 of
        (Inl err, st2) \<Rightarrow> (Inl (wrap_error (''failed to create client '' @ name) err), st2)
      | (Inr info, st2) \<Rightarrow>
          (case SetSessionClient sid name info (cm_sessions st2) of
             (ok, sm2) \<Rightarrow>
               if \<not> ok
               then (Inl (PlainError (''session '' @ sid @ '' was closed during client creation'')),
                     close_info info (with_sessions sm2 st2))
               else (Inr info, with_sessions sm2 st2))"
  have eq: "CreateSingleSessionClient env T ctx sid name cfg st =
      (case GetClient name (sm_store ?sm1 ! a) of
         Some existing \<Rightarrow> if sci_Client existing \<noteq> None then (Inr existing, ?st1) else ?create
       | None \<Rightarrow> ?create)"
    by (simp only: CreateSingleSessionClient_def g a(1) Let_def prod.case option.case)
  have create: "balanced (snd ?create) \<and> addrs_ok (cm_sessions (snd ?create))" if "displaced sid name ?sm1 = []"
  proof -
    obtain r st2 where c: "createClient env name cfg ?st1 = (r, st2)" by (cases "createClient env name cfg ?st1")
    show ?thesis
    proof (cases r)
      case (Inl err)
      with create_failed_balanced [OF c [unfolded Inl] b1] c show ?thesis by simp
    next
      case (Inr info)
      obtain ok sm2 where o: "SetSessionClient sid name info (cm_sessions st2) = (ok, sm2)"
        by (cases "SetSessionClient sid name info (cm_sessions st2)")
      have "displaced sid name (cm_sessions ?st1) = []" using that by simp
      from create_and_store_balanced [OF c [unfolded Inr] o b1 this] c Inr o show ?thesis by (simp split: if_splits)
    qed
  qed
  have disp: "displaced sid name ?sm1 = held_by_name name (sm_store ?sm1 ! a)"
    using a(3) same_connsD(3) [OF same] by (simp add: displaced_def)
  show ?thesis
  proof (cases "GetClient name (sm_store ?sm1 ! a)")
    case None
    with eq create disp show ?thesis by (simp add: held_by_name_def)
  next
    case (Some info)
    with eq create disp b1 show ?thesis by (simp add: held_by_name_def split: option.splits)
  qed
qed

lemma create_all_balanced:
  assumes "balanced st" "addrs_ok (cm_sessions st)" "distinct (map fst configs)"
    and "list_all (\<lambda>(name, cfg). displaced sid name (cm_sessions st) = []) configs"
  shows "balanced (snd (snd (CreateSessionClients env T ctx sid configs st))) \<and>
    addrs_ok (cm_sessions (snd (snd (CreateSessionClients env T ctx sid configs st))))"
proof -
  obtain r sm where g: "GetSession (T 0) sid (cm_sessions st) = (r, sm)" by (cases "GetSession (T 0) sid (cm_sessions st)")
  note same = GetSession_same(1) [OF g]
  show ?thesis
  proof (cases r)
    case None
    with g assms same_connsD [OF same] show ?thesis by (simp add: CreateSessionClients_def balanced_def)
  next
    case (Some a)
    let ?st1 = "with_sessions (refresh_metadata ctx a sm) st"
    note same2 = same_conns_trans [OF same refresh_metadata_same [of sm ctx a]]
    obtain f e st2 where l: "fold (create_session_client env sid) configs ([], [], ?st1) = (f, e, st2)"
      by (cases "fold (create_session_client env sid) configs ([], [], ?st1)") auto
    have "balanced ?st1" "addrs_ok (cm_sessions ?st1)" using assms(1,2) same_connsD [OF same2] by (simp_all add: balanced_def)
    moreover have "displaced sid n (cm_sessions ?st1) = []" if "n \<in> fst ` set configs" for n
      using that assms(2,4) same_connsD(6) [OF same2] by (auto simp: list_all_iff)
    ultimately have "balanced st2 \<and> addrs_ok (cm_sessions st2)"
      using create_session_clients_balanced [OF _ _ assms(3) _ l] by blast
    with g Some l show ?thesis by (simp add: CreateSessionClients_def)
  qed
qed

text \<open>
  C31. No connection to a downstream server is lost, as long as these operations run one after the other.
  Whatever fails on the way, after probing the servers, after connecting one client, and after connecting
  the clients of a session that had none, every connection that was ever opened is held by a session
  or was closed, if that was so before; probing leaves no connection open. Connecting
  the same client twice at the same time is not covered, and overwrites the first connection.
\<close>

theorem no_connection_lost:
  assumes "balanced st" "addrs_ok (cm_sessions st)" "distinct (map fst configs)"
    and "list_all (\<lambda>(name, cfg). displaced sid name (cm_sessions st) = []) configs"
  shows "balanced (snd (DiscoverAllCapabilities env configs st)) \<and>
    held (cm_sessions (snd (DiscoverAllCapabilities env configs st))) = held (cm_sessions st) \<and>
    balanced (snd (CreateSingleSessionClient env T ctx sid name cfg st)) \<and>
    balanced (snd (snd (CreateSessionClients env T ctx sid configs st)))"
  using discover_all_balanced [OF assms(1,2)] create_single_balanced [OF assms(1,2)] create_all_balanced [OF assms]
  by blast

text \<open>A server that connects and answers at once, and one that is never initialised.\<close>

definition sample_net :: "nat mcp_env" where
  "sample_net = \<lparr> mc_Connect = (\<lambda>n conn. Inr n), mc_Initialize = (\<lambda>c k. if c = 0 then Inl (PlainError ''down'')
       else Inr \<lparr> caps_Tools = Some True, caps_Prompts = None, caps_Resources = None \<rparr>),
     mc_ListTools = (\<lambda>c k. Inr [''get'']), mc_ListPrompts = (\<lambda>c k. Inr []), mc_ListResources = (\<lambda>c k. Inr []),
     mc_ListResourceTemplates = (\<lambda>c k. Inr []), mc_ended = (\<lambda>c k. None), mc_wait = (\<lambda>c op k d. None),
     mc_duration = (\<lambda>d. '''') \<rparr>"

definition sample_manager :: "nat ClientManager" where
  "sample_manager = \<lparr> cm_sessions = snd (CreateSession 0 ''s1'' NewSessionManager), cm_opened = [], cm_attempts = 0 \<rparr>"

definition sample_configs :: client_configs where
  "sample_configs = [(''a'', no_client\<lparr> cc_Type := ''http'' \<rparr>), (''b'', no_client\<lparr> cc_Type := ''sse'' \<rparr>)]"

lemma no_connection_lost_witness:
  "balanced (snd (snd (CreateSessionClients sample_net (\<lambda>n. 0)
     \<lparr> ctx_SessionID = None, ctx_ClientIP = None, ctx_UserAgent = None, ctx_RequestID = None \<rparr> ''s1'' sample_configs sample_manager)))"
proof -
  have "balanced sample_manager" "addrs_ok (cm_sessions sample_manager)"
    "distinct (map fst sample_configs)"
    "list_all (\<lambda>(name, cfg). displaced ''s1'' name (cm_sessions sample_manager) = []) sample_configs"
    by (simp_all add: sample_manager_def balanced_def addrs_ok_def CreateSession_def NewSessionManager_def
        NewSessionManagerWithTimeout_def sample_configs_def displaced_def held_def held_by_name_def GetClient_def NewSession_def)
  from no_connection_lost [OF this] show ?thesis by blast
qed

section \<open>Quirks\<close>

text \<open>
  Listing the sessions looks each of them up, which counts as its activity: a session that is listed
  does not expire.
\<close>

lemma listing_keeps_sessions:
  assumes "sm_sessions sm = [(sid, a)]" "a < length (sm_store sm)" "0 \<le> sm_sessionTimeout sm"
  shows "\<not> expired_at now (snd (GetActiveSessions (\<lambda>n. now) sm)) a"
  using assms
  by (simp add: GetActiveSessions_def GetAllSessions_def GetSession_def expired_at_def IsExpired_def TouchActivity_def
      at_session_def)

end
