(* ===== verification/Gateway.thy ===== *)
theory Gateway
  imports AuditLog ClientManager Evaluator ToolNames ResponseChain
begin

text \<open>
  \<^verbatim>\<open>internal/gateway/gateway.go\<close>: a tool call on its way through the gateway, from the parsed
  request to the result or error returned to the agent, with its effects: the calls made to
  downstream clients, the audit entries handed to the writer, and the sessions touched. The
  native tools and the downstream clients are parameters.
\<close>

section \<open>Errors and messages\<close>

datatype gateway_error =
    InvalidToolName go_error
  | ValidationError go_error
  | PolicyDeniedError string "(string \<times> dyn) list"
  | SessionExpiredError session_error
  | ClientNotFound session_error
  | ToolCallFailed go_error
  | NativeToolError go_error

definition squote :: "string \<Rightarrow> string" where
  "squote s = CHR 0x27 # s @ [CHR 0x27]"

definition containsAny :: "string \<Rightarrow> string list \<Rightarrow> bool" where
  "containsAny s substrings \<longleftrightarrow> list_ex (\<lambda>sub. length sub > 0 \<and> Contains s sub) substrings"

definition humanizeErrorMessage :: "string \<Rightarrow> string" where
  "humanizeErrorMessage msg =
     (if containsAny msg [''context deadline exceeded'', ''deadline exceeded'']
      then ''validation timed out while processing the response''
      else if containsAny msg [''context canceled''] then ''validation was cancelled''
      else if containsAny msg [''connection refused'', ''connection reset'']
      then ''could not connect to validation service''
      else if containsAny msg [''Failed to evaluate response policy'']
      then (if containsAny msg [''deadline exceeded''] then ''policy evaluation timed out''
            else ''policy evaluation failed'')
      else msg)"

text \<open>
  What both builders of denial messages write for the denying policies: one policy in a line,
  several as a list in which the \<open>i\<close>-th policy gets the \<open>i\<close>-th collected message.
\<close>

definition policy_lines :: "string \<Rightarrow> string list \<Rightarrow> string list \<Rightarrow> string" where
  "policy_lines subject deniedPolicies deniedMessages =
     (if length deniedPolicies = 1
      then (if length deniedMessages > 0
            then subject @ '' denied by policy '' @ squote (deniedPolicies ! 0) @ '': '' @ deniedMessages ! 0
            else subject @ '' denied by policy '' @ squote (deniedPolicies ! 0))
      else subject @ '' denied by '' @ Itoa (int (length deniedPolicies)) @ '' policies:'' @
        concat (map (\<lambda>i. newline @ ''- '' @ deniedPolicies ! i @
            (if i < length deniedMessages \<and> deniedMessages ! i \<noteq> ''''
             then '': '' @ deniedMessages ! i else ''''))
          [0..<length deniedPolicies]))"

definition buildPolicyDeniedError :: "ValidationResults \<Rightarrow> string \<Rightarrow> string \<times> (string \<times> dyn) list" where
  "buildPolicyDeniedError validationResults toolName =
     (let denied = filter (\<lambda>r. vr_Action r = PolicyActionDeny \<and> vr_PolicyType r \<noteq> ''audit'')
            (Results validationResults);
          deniedPolicies = map vr_PolicyName denied;
          deniedMessages = filter (\<lambda>m. m \<noteq> '''') (map vr_Message denied);
          errorMessage =
            (if length deniedPolicies > 0
             then policy_lines ''Request'' deniedPolicies deniedMessages @ newline @ newline @
               ''To proceed, consider: using a different tool, modifying parameters to avoid restricted operations, or asking the user for guidance on allowed alternatives.''
             else ''Request denied by policy. Please try a different approach or ask the user for guidance.'')
      in (errorMessage,
          [(''denied_policies'', DList (map DString deniedPolicies)),
           (''denied_count'', DInt (DenyCount validationResults)),
           (''tool_name'', DString toolName)]))"

definition buildResponseDeniedError :: "ResponseValidationResults \<Rightarrow> string \<Rightarrow> string" where
  "buildResponseDeniedError results toolName =
     (let denied = filter (\<lambda>r. rvr_Action r = PolicyActionDeny) (rResults results);
          deniedPolicies = map rvr_PolicyName denied;
          deniedMessages = filter (\<lambda>m. m \<noteq> '''') (map rvr_Message denied)
      in if rMessage results \<noteq> '''' \<and> (length deniedPolicies = 0 \<or>
            containsAny (rMessage results) [''timeout'', ''deadline exceeded'', ''Failed to evaluate''])
         then ''Response validation failed: '' @ humanizeErrorMessage (rMessage results) @ newline @ newline @
           ''This may be a temporary issue. You can retry the request, or try with simpler parameters that produce a smaller response.''
         else if length deniedPolicies > 0
         then policy_lines ''Response'' deniedPolicies deniedMessages @ newline @ newline @
           ''The tool executed but the response was filtered. Consider requesting less sensitive data, using more specific filters, or asking the user about alternative approaches.''
         else ''Response blocked: '' @ humanizeErrorMessage (rMessage results) @ newline @ newline @
           ''Consider trying a different approach or asking the user for guidance.'')"

definition redactToolParams :: "(string \<times> dyn) list \<Rightarrow> (string \<times> dyn) list" where
  "redactToolParams params = map (\<lambda>(key, v). (key, DString ''[redacted]'')) params"

section \<open>The gateway and its effects\<close>

record 'c gateway =
  g_aiProviderInfo :: "AuditAIProvider option"
  g_IncludeArgumentValues :: "bool option"
  g_MaxBlockingMs :: int
  g_validationChain :: "CallToolRequest \<Rightarrow> engine list"
  g_responseValidationChain :: "(CallToolRequest \<Rightarrow> response_handler list) option"
  g_nativeTools :: "CallToolRequest \<Rightarrow> 'c SessionManager \<Rightarrow> (go_error + CallToolResult) \<times> 'c SessionManager"
  g_CallTool :: "'c SessionClientInfo \<Rightarrow> CallToolRequest \<Rightarrow> go_error + CallToolResult"

definition ShouldIncludeArgumentValues :: "bool option \<Rightarrow> bool" where
  "ShouldIncludeArgumentValues v = (case v of None \<Rightarrow> True | Some b \<Rightarrow> b)"

definition or_empty :: "string option \<Rightarrow> string" where
  "or_empty v = (case v of None \<Rightarrow> '''' | Some s \<Rightarrow> s)"

record 'c outcome =
  out_result :: "gateway_error + CallToolResult"
  out_calls :: "('c SessionClientInfo \<times> CallToolRequest) list"
  out_audit :: "audit_write list"
  out_sessions :: "'c SessionManager"

definition failed :: "gateway_error \<Rightarrow> 'c SessionManager \<Rightarrow> 'c outcome" where
  "failed e sm = \<lparr> out_result = Inl e, out_calls = [], out_audit = [], out_sessions = sm \<rparr>"

section \<open>Handling a tool call\<close>

definition prepare_audit :: "'c gateway \<Rightarrow> call_context \<Rightarrow> int \<Rightarrow> CallToolRequest \<Rightarrow> string \<Rightarrow> string \<Rightarrow> AuditContext" where
  "prepare_audit g ctx now req clientName originalToolName =
     (let audit = NewAuditContext now (ToolName req) clientName originalToolName (or_empty (ctx_SessionID ctx))
            (or_empty (ctx_ClientIP ctx)) (or_empty (ctx_RequestID ctx));
          audit1 = SetUserAgentHeader (or_empty (ctx_UserAgent ctx)) audit;
          audit2 = (case g_aiProviderInfo g of None \<Rightarrow> audit1 | Some info \<Rightarrow> SetAIProvider info audit1)
      in (case Arguments req of
            DMap params \<Rightarrow> if ShouldIncludeArgumentValues (g_IncludeArgumentValues g)
              then SetToolParams params audit2 else SetToolParams (redactToolParams params) audit2
          | _ \<Rightarrow> audit2))"

text \<open>The verdict on the request, as the gateway reads it from the chain.\<close>

definition request_verdict :: "ValidationResults \<Rightarrow> ValidationResults" where
  "request_verdict v =
     (if DenyCount v > 0
      then v\<lparr> Allowed := False,
              Message := (if DenyCount v = 1 then ''Maybe Don't, a policy failed.''
                          else ''Maybe Don't, '' @ Itoa (DenyCount v) @ '' policies failed.'') \<rparr>
      else v\<lparr> Allowed := True, Message := ''All policies passed, maybe do.'' \<rparr>)"

definition put_meta :: "string \<Rightarrow> dyn \<Rightarrow> CallToolResult \<Rightarrow> CallToolResult" where
  "put_meta key v result = result\<lparr> ResultMeta :=
     Some (AList.update key v (case ResultMeta result of None \<Rightarrow> [] | Some fs \<Rightarrow> fs)) \<rparr>"

definition summary :: "('r \<Rightarrow> string) \<Rightarrow> ('r \<Rightarrow> string) \<Rightarrow> ('r \<Rightarrow> bool) \<Rightarrow> 'r list \<Rightarrow> dyn" where
  "summary policyName policyType passed rs =
     DMap (foldl (\<lambda>m v. if policyType v \<noteq> ''audit''
                        then AList.update (policyName v) (DString (if passed v then ''passed'' else ''failed'')) m
                        else m) [] rs)"

definition success_actions :: "ValidationResults \<Rightarrow> string \<times> string" where
  "success_actions v =
     (if FailedOpen v then ('''', ActionReasonFailOpen)
      else if AuditModeBypass v then (RecommendedAction v, ActionReasonAuditMode)
      else (PolicyActionAllow, ''''))"

definition blocked_ms :: "BlockingBudget option \<Rightarrow> int" where
  "blocked_ms b = (case b of None \<Rightarrow> 0 | Some bb \<Rightarrow> totalBlockedMs bb)"

text \<open>After the request was allowed and everything is written: the result and its audit entry.\<close>

definition deliver_result ::
  "int \<Rightarrow> ValidationResults \<Rightarrow> AuditContext \<Rightarrow> BlockingBudget option \<Rightarrow> CallToolResult \<Rightarrow> CallToolResult \<times> audit_write" where
  "deliver_result now v audit b result =
     (let result1 = put_meta ''validation_summary''
            (summary vr_PolicyName vr_PolicyType (\<lambda>r. vr_Action r = PolicyActionAllow) (Results v)) result;
          (recommendedAction, actionReason) = success_actions v;
          audit1 = SetActions recommendedAction PolicyActionAllow actionReason audit
      in (result1, writeAuditLog now (blocked_ms b) audit1))"

text \<open>From the downstream client's result on.\<close>

definition screen_response ::
  "'c gateway \<Rightarrow> int \<Rightarrow> CallToolRequest \<Rightarrow> ValidationResults \<Rightarrow> AuditContext \<Rightarrow> BlockingBudget option \<Rightarrow>
     CallToolResult \<Rightarrow> (gateway_error + CallToolResult) \<times> audit_write" where
  "screen_response g now req v audit b result =
     (case g_responseValidationChain g of
        Some handlers \<Rightarrow>
          if length (Content result) > 0
          then (case rchain_Handle (handlers req) result b of
            ((rv, current), b') \<Rightarrow>
              let audit1 = populateResponseValidationAudit rv audit
              in if \<not> rAllowed rv
              then let audit2 = SetActions PolicyActionDeny PolicyActionDeny ActionReasonResponsePolicy audit1
                   in (Inl (PolicyDeniedError (buildResponseDeniedError rv (ToolName req))
                         [(''tool_name'', DString (ToolName req)),
                          (''denied_count'', DInt (resp_DenyCount rv)),
                          (''phase'', DString ''response'')]),
                       writeAuditLog now (blocked_ms b') audit2)
              else
              let result1 = (case rRedactedContent rv of
                      None \<Rightarrow> current
                    | Some redacted \<Rightarrow>
                        if length (Content current) > 0
                        then current\<lparr> Content := replace_first_text redacted (Content current) \<rparr>
                        else current);
                  result2 = put_meta ''response_validation_summary''
                    (summary rvr_PolicyName rvr_PolicyType (\<lambda>r. rvr_Action r \<noteq> PolicyActionDeny) (rResults rv)) result1
              in map_prod Inr id (deliver_result now v audit1 b' result2))
          else map_prod Inr id (deliver_result now v audit b result)
      | None \<Rightarrow> map_prod Inr id (deliver_result now v audit b result))"

text \<open>From an allowed request on: the session, its client, and the call.\<close>

definition forward_call ::
  "'c gateway \<Rightarrow> call_context \<Rightarrow> 'c SessionManager \<Rightarrow> clock \<Rightarrow> CallToolRequest \<Rightarrow> string \<Rightarrow> string \<Rightarrow>
     ValidationResults \<Rightarrow> AuditContext \<Rightarrow> BlockingBudget option \<Rightarrow> 'c outcome" where
  "forward_call g ctx sm T req clientName originalToolName v audit b =
     (case ctx_SessionID ctx of
        None \<Rightarrow> failed (SessionExpiredError (SessionExpired '''' ''no session established'')) sm
      | Some sessionID \<Rightarrow>
          (case cm_GetSessionClient (T 0 2) sessionID clientName sm of
             (Inl (SessionExpired sid reason), sm') \<Rightarrow> failed (SessionExpiredError (SessionExpired sid reason)) sm'
           | (Inl err, sm') \<Rightarrow> failed (ClientNotFound err) sm'
           | (Inr clientInfo, sm') \<Rightarrow>
               let originalReq = req\<lparr> ToolName := originalToolName \<rparr>
               in (case g_CallTool g clientInfo originalReq of
                  Inl err \<Rightarrow> (failed (ToolCallFailed err) sm')\<lparr> out_calls := [(clientInfo, originalReq)] \<rparr>
                | Inr result \<Rightarrow>
                    (case screen_response g (T 0 5) req v (SetToolDuration (Milliseconds (T 0 4 - T 0 3)) audit) b result of
                       (res, w) \<Rightarrow> \<lparr> out_result = res, out_calls = [(clientInfo, originalReq)],
                                     out_audit = [w], out_sessions = sm' \<rparr>))))"

definition HandleToolCall ::
  "'c gateway \<Rightarrow> call_context \<Rightarrow> 'c SessionManager \<Rightarrow> clock \<Rightarrow> CallToolRequest \<Rightarrow> 'c outcome" where
  "HandleToolCall g ctx sm T req =
     (if IsNativeTool (ToolName req)
      then (case g_nativeTools g req sm of (res, sm') \<Rightarrow>
             \<lparr> out_result = (case res of Inl e \<Rightarrow> Inl (NativeToolError e) | Inr r \<Rightarrow> Inr r),
               out_calls = [], out_audit = [], out_sessions = sm' \<rparr>)
      else case ParsePrefixedName (ToolName req) of
        Inl parseErr \<Rightarrow> failed (InvalidToolName parseErr) sm
      | Inr (clientName, originalToolName) \<Rightarrow>
          let audit = prepare_audit g ctx (T 0 0) req clientName originalToolName;
              blockingBudget = NewBlockingBudget (T 0 1) (g_MaxBlockingMs g)
          in (case chain_Handle (g_validationChain g req) (Some blockingBudget) of
            ((validationResults, Some err), b) \<Rightarrow> failed (ValidationError err) sm
          | ((validationResults, None), b) \<Rightarrow>
              let audit1 = populateRequestValidationAudit validationResults audit;
                  v = request_verdict validationResults
              in if \<not> Allowed v
              then let audit2 = SetActions PolicyActionDeny PolicyActionDeny ActionReasonRequestPolicy audit1;
                       (errorMessage, errorData) = buildPolicyDeniedError v (ToolName req)
                   in \<lparr> out_result = Inl (PolicyDeniedError errorMessage errorData), out_calls = [],
                        out_audit = [writeAuditLog (T 0 5) (blocked_ms b) audit2], out_sessions = sm \<rparr>
              else forward_call g ctx sm T req clientName originalToolName v audit1 b))"

text \<open>The connection a session has for a client.\<close>

definition session_client :: "string \<Rightarrow> string \<Rightarrow> 'c SessionManager \<Rightarrow> 'c SessionClientInfo option" where
  "session_client sessionID clientName sm =
     (case map_of (sm_sessions sm) sessionID of
        None \<Rightarrow> None | Some a \<Rightarrow> GetClient clientName (sm_store sm ! a))"

lemma GetClient_touch [simp]: "GetClient n (TouchActivity now s) = GetClient n s"
  by (simp add: GetClient_def TouchActivity_def)

lemma at_session_nth_client [simp]:
  "GetClient n (sm_store (at_session a (TouchActivity now) sm) ! a) = GetClient n (sm_store sm ! a)"
  by (cases "a < length (sm_store sm)") (auto simp: at_session_def list_update_beyond)

lemma cm_GetSessionClient_client:
  "cm_GetSessionClient now sid c sm = (Inr info, sm') \<Longrightarrow> session_client sid c sm = Some info"
  by (auto simp: cm_GetSessionClient_def HasSession_def session_client_def sm_GetSessionClient_def
      Let_def split: option.splits if_splits)

lemma cm_GetSessionClient_none:
  "cm_GetSessionClient now sid c sm = (Inl e, sm') \<Longrightarrow> session_client sid c sm = None"
  by (auto simp: cm_GetSessionClient_def HasSession_def session_client_def sm_GetSessionClient_def
      Let_def split: option.splits if_splits)

section \<open>Prompts and resources\<close>

text \<open>The prompt and resource handlers route a request to its client; \<open>GetPrompt\<close> and
  \<open>ReadResource\<close> are the client's methods.\<close>

definition HandlePromptCall ::
  "('c SessionClientInfo \<Rightarrow> string \<Rightarrow> go_error + 'p) \<Rightarrow> call_context \<Rightarrow> int \<Rightarrow> string \<Rightarrow> 'c SessionManager \<Rightarrow>
     (gateway_error + 'p) \<times> 'c SessionManager" where
  "HandlePromptCall GetPrompt ctx now promptName sm =
     (case ParsePrefixedName promptName of
        Inl err \<Rightarrow> (Inl (InvalidToolName err), sm)
      | Inr (clientName, originalPromptName) \<Rightarrow>
          (case ctx_SessionID ctx of
             None \<Rightarrow> (Inl (SessionExpiredError (SessionExpired '''' ''no session established'')), sm)
           | Some sessionID \<Rightarrow>
               (case cm_GetSessionClient now sessionID clientName sm of
                  (Inl (SessionExpired sid reason), sm') \<Rightarrow> (Inl (SessionExpiredError (SessionExpired sid reason)), sm')
                | (Inl err, sm') \<Rightarrow> (Inl (ClientNotFound err), sm')
                | (Inr clientInfo, sm') \<Rightarrow>
                    (case GetPrompt clientInfo originalPromptName of
                       Inl err \<Rightarrow> (Inl (ToolCallFailed err), sm')
                     | Inr r \<Rightarrow> (Inr r, sm')))))"

definition handleResourceRequest ::
  "('c SessionClientInfo \<Rightarrow> string \<Rightarrow> go_error + 'p) \<Rightarrow> call_context \<Rightarrow> int \<Rightarrow> string \<Rightarrow> 'c SessionManager \<Rightarrow>
     (gateway_error + 'p) \<times> 'c SessionManager" where
  "handleResourceRequest ReadResource ctx now uri sm =
     (case ParsePrefixedName uri of
        Inl err \<Rightarrow> (Inl (InvalidToolName err), sm)
      | Inr (clientName, originalURI) \<Rightarrow>
          (case ctx_SessionID ctx of
             None \<Rightarrow> (Inl (SessionExpiredError (SessionExpired '''' ''no session established'')), sm)
           | Some sessionID \<Rightarrow>
               (case cm_GetSessionClient now sessionID clientName sm of
                  (Inl (SessionExpired sid reason), sm') \<Rightarrow> (Inl (SessionExpiredError (SessionExpired sid reason)), sm')
                | (Inl err, sm') \<Rightarrow> (Inl (ClientNotFound err), sm')
                | (Inr clientInfo, sm') \<Rightarrow>
                    (case ReadResource clientInfo originalURI of
                       Inl err \<Rightarrow> (Inl (ToolCallFailed err), sm')
                     | Inr r \<Rightarrow> (Inr r, sm')))))"

section \<open>What a call may do\<close>

text \<open>
  The specification of the gateway: a call \<open>(info, r)\<close> to a downstream client is permitted when the
  tool is not native, its name parses, the validation chain ran without error and counted no denial,
  and \<open>info\<close> is the client of that name in the caller's own session; \<open>r\<close> is the request under the
  tool's own name.
\<close>

definition permitted ::
  "'c gateway \<Rightarrow> call_context \<Rightarrow> int \<Rightarrow> CallToolRequest \<Rightarrow> 'c SessionManager \<Rightarrow>
     'c SessionClientInfo \<Rightarrow> CallToolRequest \<Rightarrow> bool" where
  "permitted g ctx t0 req sm info r \<longleftrightarrow>
     \<not> IsNativeTool (ToolName req) \<and>
     (case ParsePrefixedName (ToolName req) of
        Inl e \<Rightarrow> False
      | Inr (clientName, originalToolName) \<Rightarrow>
          r = req\<lparr> ToolName := originalToolName \<rparr> \<and>
          (case ctx_SessionID ctx of None \<Rightarrow> False
           | Some sid \<Rightarrow> session_client sid clientName sm = Some info)) \<and>
     (case chain_Handle (g_validationChain g req) (Some (NewBlockingBudget t0 (g_MaxBlockingMs g))) of
        ((v, err), b) \<Rightarrow> err = None \<and> \<not> DenyCount v > 0)"

lemma request_verdict_sel [simp]:
  "Allowed (request_verdict v) \<longleftrightarrow> \<not> DenyCount v > 0"
  "DenyCount (request_verdict v) = DenyCount v"
  "Results (request_verdict v) = Results v"
  "FailedOpen (request_verdict v) = FailedOpen v"
  "AuditModeBypass (request_verdict v) = AuditModeBypass v"
  "RecommendedAction (request_verdict v) = RecommendedAction v"
  by (auto simp: request_verdict_def)

lemma forward_call_calls:
  "length (out_calls (forward_call g ctx sm T req c n v audit b)) \<le> 1 \<and>
   list_all (\<lambda>(info, r). r = req\<lparr> ToolName := n \<rparr> \<and>
       (case ctx_SessionID ctx of None \<Rightarrow> False
        | Some sid \<Rightarrow> session_client sid c sm = Some info))
     (out_calls (forward_call g ctx sm T req c n v audit b))"
proof (cases "ctx_SessionID ctx")
  case None
  then show ?thesis by (simp add: forward_call_def failed_def)
next
  case (Some sid)
  obtain r sm' where l: "cm_GetSessionClient (T 0 2) sid c sm = (r, sm')" by fastforce
  have r: "session_client sid c sm = Some info" if "r = Inr info" for info
    using cm_GetSessionClient_client [of "T 0 2" sid c sm info sm'] l that by simp
  show ?thesis
    using Some l r
    by (cases r) (auto simp: forward_call_def failed_def Let_def split: prod.split sum.split session_error.split)
qed

text \<open>The shape of a call that is not native.\<close>

lemma HandleToolCall_cases:
  assumes "\<not> IsNativeTool (ToolName req)"
  obtains (parse) e where "ParsePrefixedName (ToolName req) = Inl e"
      "HandleToolCall g ctx sm T req = failed (InvalidToolName e) sm"
    | (error) c n v e b where "ParsePrefixedName (ToolName req) = Inr (c, n)"
      "chain_Handle (g_validationChain g req) (Some (NewBlockingBudget (T 0 1) (g_MaxBlockingMs g))) = ((v, Some e), b)"
      "HandleToolCall g ctx sm T req = failed (ValidationError e) sm"
    | (denied) c n v b m d a where "ParsePrefixedName (ToolName req) = Inr (c, n)"
      "chain_Handle (g_validationChain g req) (Some (NewBlockingBudget (T 0 1) (g_MaxBlockingMs g))) = ((v, None), b)"
      "DenyCount v > 0" "buildPolicyDeniedError (request_verdict v) (ToolName req) = (m, d)"
      "a = SetActions PolicyActionDeny PolicyActionDeny ActionReasonRequestPolicy
        (populateRequestValidationAudit v (prepare_audit g ctx (T 0 0) req c n))"
      "HandleToolCall g ctx sm T req = \<lparr> out_result = Inl (PolicyDeniedError m d), out_calls = [],
         out_audit = [writeAuditLog (T 0 5) (blocked_ms b) a], out_sessions = sm \<rparr>"
    | (allowed) c n v b where "ParsePrefixedName (ToolName req) = Inr (c, n)"
      "chain_Handle (g_validationChain g req) (Some (NewBlockingBudget (T 0 1) (g_MaxBlockingMs g))) = ((v, None), b)"
      "\<not> DenyCount v > 0"
      "HandleToolCall g ctx sm T req = forward_call g ctx sm T req c n (request_verdict v)
        (populateRequestValidationAudit v (prepare_audit g ctx (T 0 0) req c n)) b"
proof (cases "ParsePrefixedName (ToolName req)")
  case (Inl e)
  with assms parse show thesis by (simp add: HandleToolCall_def)
next
  case (Inr cn)
  obtain c n where cn: "cn = (c, n)" by fastforce
  obtain v e b where ch: "chain_Handle (g_validationChain g req)
      (Some (NewBlockingBudget (T 0 1) (g_MaxBlockingMs g))) = ((v, e), b)" by (metis surj_pair)
  obtain m d where md: "buildPolicyDeniedError (request_verdict v) (ToolName req) = (m, d)" by fastforce
  show thesis
  proof (cases e)
    case (Some e')
    with assms Inr cn ch error show thesis by (simp add: HandleToolCall_def Let_def)
  next
    case None
    show thesis
    proof (cases "DenyCount v > 0")
      case True
      with assms Inr cn ch md None denied show thesis by (simp add: HandleToolCall_def Let_def)
    next
      case False
      with assms Inr cn ch md None allowed show thesis by (simp add: HandleToolCall_def Let_def)
    qed
  qed
qed

text \<open>
  C3. No tool runs unless the policies let it: a tool call makes at most one downstream call, and only
  a permitted one. A native tool, a name that does not parse, an error of the validation chain, a
  counted denial or a missing session or client makes none.
\<close>

theorem tool_call_mediated:
  "length (out_calls (HandleToolCall g ctx sm T req)) \<le> 1 \<and>
   list_all (\<lambda>(info, r). permitted g ctx (T 0 1) req sm info r) (out_calls (HandleToolCall g ctx sm T req))"
proof (cases "IsNativeTool (ToolName req)")
  case True
  then show ?thesis by (simp add: HandleToolCall_def split: prod.split)
next
  case False
  then show ?thesis
  proof (cases rule: HandleToolCall_cases [of req g ctx sm T])
    case (allowed c n v b)
    with False show ?thesis
      using forward_call_calls [of g ctx sm T req c n "request_verdict v"
          "populateRequestValidationAudit v (prepare_audit g ctx (T 0 0) req c n)" b]
      by (auto simp: list_all_iff permitted_def)
  qed (auto simp: failed_def)
qed

section \<open>The audit trail of a call\<close>

lemma prepare_audit_sel:
  "\<exists>t. ae_Tool (ac_entry (prepare_audit g ctx now req c n)) = Some t \<and>
     ati_PrefixedName t = ToolName req \<and> ati_Client t = c \<and> ati_Name t = n"
  "uri_SessionID (ae_UpstreamRequest (ac_entry (prepare_audit g ctx now req c n))) = or_empty (ctx_SessionID ctx)"
  by (auto simp: prepare_audit_def NewAuditContext_def audit_setters Let_def split: option.split dyn.split)

text \<open>An entry is about a request: its tool and its session.\<close>

definition entry_about :: "call_context \<Rightarrow> CallToolRequest \<Rightarrow> AuditEntry \<Rightarrow> bool" where
  "entry_about ctx req e \<longleftrightarrow>
     (case ae_Tool e of None \<Rightarrow> False
      | Some t \<Rightarrow> ati_PrefixedName t = ToolName req \<and> PrefixName (ati_Client t) (ati_Name t) = ToolName req) \<and>
     uri_SessionID (ae_UpstreamRequest e) = or_empty (ctx_SessionID ctx)"

lemma ParsePrefixedName_Inr: "ParsePrefixedName s = Inr (c, n) \<Longrightarrow> PrefixName c n = s"
  by (auto simp: ParsePrefixedName_def PrefixName_def split: option.splits prod.splits dest: split_first_Some)

lemma deliver_result_sel:
  assumes "deliver_result now v audit b result = (r, w)"
  shows "Content r = Content result" "IsError r = IsError result"
    and "ae_Action (written_entry w) = PolicyActionAllow"
    and "ae_Tool (written_entry w) = ae_Tool (ac_entry audit)"
    and "ae_UpstreamRequest (written_entry w) = ae_UpstreamRequest (ac_entry audit)"
  using assms
  by (auto simp: deliver_result_def put_meta_def SetActions_def on_entry_def Let_def split: prod.splits)

lemma rchain_Handle_current:
  "rchain_Handle hs result b = ((f, cur), b') \<Longrightarrow> cur = redact_result (rRedactedContent f) result"
  using rchain_loop_spec [of hs "(no_response_results\<lparr> rAllowed := True \<rparr>, result)" b]
  by (auto simp: rchain_Handle_def no_response_results_def Let_def split: prod.splits option.splits)

text \<open>
  What a downstream result becomes: nothing when the response chain withholds it, otherwise the
  result with the chain's redaction in its first text item. An empty result is not screened.
\<close>

definition screened ::
  "'c gateway \<Rightarrow> CallToolRequest \<Rightarrow> BlockingBudget option \<Rightarrow> CallToolResult \<Rightarrow> CallToolResult option" where
  "screened g req b raw =
     (case g_responseValidationChain g of
        None \<Rightarrow> Some raw
      | Some handlers \<Rightarrow>
          if Content raw = [] then Some raw
          else case rchain_Handle (handlers req) raw b of
            ((rv, cur), b') \<Rightarrow> if rAllowed rv then Some (redact_result (rRedactedContent rv) raw) else None)"

lemma screen_response_cases:
  assumes "screen_response g now req v audit b raw = (res, w)"
  obtains (withheld) m d where "screened g req b raw = None" "res = Inl (PolicyDeniedError m d)"
      "ae_Action (written_entry w) = PolicyActionDeny"
      "ae_ActionReason (written_entry w) = ActionReasonResponsePolicy"
      "ae_Tool (written_entry w) = ae_Tool (ac_entry audit)"
      "ae_UpstreamRequest (written_entry w) = ae_UpstreamRequest (ac_entry audit)"
    | (delivered) r r' where "screened g req b raw = Some r'" "res = Inr r"
      "Content r = Content r'" "IsError r = IsError r'"
      "ae_Action (written_entry w) = PolicyActionAllow"
      "ae_Tool (written_entry w) = ae_Tool (ac_entry audit)"
      "ae_UpstreamRequest (written_entry w) = ae_UpstreamRequest (ac_entry audit)"
proof (cases "g_responseValidationChain g = None \<or> Content raw = []")
  case True
  then have "screen_response g now req v audit b raw = map_prod Inr id (deliver_result now v audit b raw)"
    and s: "screened g req b raw = Some raw"
    by (auto simp: screen_response_def screened_def split: option.split)
  then obtain r where r: "res = Inr r" "deliver_result now v audit b raw = (r, w)"
    using assms by (cases "deliver_result now v audit b raw") auto
  show thesis
    by (rule delivered [OF s r(1)]) (use deliver_result_sel [OF r(2)] in simp_all)
next
  case False
  then obtain hs where hs: "g_responseValidationChain g = Some hs" and ne: "Content raw \<noteq> []" by auto
  obtain rv cur b' where c: "rchain_Handle (hs req) raw b = ((rv, cur), b')" by (metis surj_pair)
  show thesis
  proof (cases "rAllowed rv")
    case False
    with hs ne c assms show thesis
      by (intro withheld) (auto simp: screen_response_def screened_def Let_def SetActions_def on_entry_def)
  next
    case True
    let ?audit = "populateResponseValidationAudit rv audit"
    from c have cur: "cur = redact_result (rRedactedContent rv) raw" by (rule rchain_Handle_current)
    have s: "screened g req b raw = Some cur"
      using hs ne c True cur by (simp add: screened_def)
    have same: "(case rRedactedContent rv of None \<Rightarrow> cur
        | Some red \<Rightarrow> if length (Content cur) > 0
                      then cur\<lparr> Content := replace_first_text red (Content cur) \<rparr> else cur) = cur"
      using ne by (auto simp: cur redact_result_def split: option.split)
    obtain x where x: "Content x = Content cur" "IsError x = IsError cur"
      "screen_response g now req v audit b raw = map_prod Inr id (deliver_result now v ?audit b' x)"
      using hs ne c True same
      by (rule_tac x = "put_meta ''response_validation_summary''
            (summary rvr_PolicyName rvr_PolicyType (\<lambda>r. rvr_Action r \<noteq> PolicyActionDeny) (rResults rv)) cur" in that)
         (simp_all add: screen_response_def put_meta_def Let_def)
    then obtain r where r: "res = Inr r" "deliver_result now v ?audit b' x = (r, w)"
      using assms by (cases "deliver_result now v ?audit b' x") auto
    show thesis
      by (rule delivered [OF s r(1)]) (use deliver_result_sel [OF r(2)] x in simp_all)
  qed
qed

text \<open>The outcomes of an allowed request.\<close>

lemma forward_call_cases:
  obtains (no_client) e sm' where "forward_call g ctx sm T req c n v audit b = failed e sm'"
      "\<forall>m d. e \<noteq> PolicyDeniedError m d" "\<forall>x. e \<noteq> ValidationError x"
    | (failed_call) info q e sm' where "forward_call g ctx sm T req c n v audit b =
        (failed (ToolCallFailed e) sm')\<lparr> out_calls := [(info, q)] \<rparr>" "g_CallTool g info q = Inl e"
    | (answered) info q raw res w sm' d where "g_CallTool g info q = Inr raw"
      "screen_response g (T 0 5) req v (SetToolDuration d audit) b raw = (res, w)"
      "forward_call g ctx sm T req c n v audit b =
        \<lparr> out_result = res, out_calls = [(info, q)], out_audit = [w], out_sessions = sm' \<rparr>"
proof (cases "ctx_SessionID ctx")
  case None
  with no_client show thesis by (simp add: forward_call_def)
next
  case (Some sid)
  obtain l sm' where l: "cm_GetSessionClient (T 0 2) sid c sm = (l, sm')" by fastforce
  show thesis
  proof (cases l)
    case (Inl err)
    with Some l no_client show thesis by (cases err) (simp_all add: forward_call_def)
  next
    case (Inr info)
    let ?q = "req\<lparr> ToolName := n \<rparr>"
    show thesis
    proof (cases "g_CallTool g info ?q")
      case (Inl e)
      with Some l Inr failed_call show thesis by (simp add: forward_call_def Let_def)
    next
      case (Inr raw)
      let ?d = "Milliseconds (T 0 4 - T 0 3)"
      obtain res w where "screen_response g (T 0 5) req v (SetToolDuration ?d audit) b raw = (res, w)" by fastforce
      with Some l \<open>l = Inr info\<close> Inr answered [of info ?q raw ?d res w sm'] show thesis
        by (simp add: forward_call_def Let_def)
    qed
  qed
qed

lemma prepared_entry_about:
  assumes "ParsePrefixedName (ToolName req) = Inr (c, n)"
  shows "entry_about ctx req (ac_entry (populateRequestValidationAudit v (prepare_audit g ctx now req c n)))"
  using prepare_audit_sel(1) [of g ctx now req c n] prepare_audit_sel(2) [of g ctx now req c n]
    ParsePrefixedName_Inr [OF assms]
  by (auto simp: entry_about_def)

lemma entry_about_eq:
  "entry_about ctx req e \<Longrightarrow> ae_Tool e' = ae_Tool e \<Longrightarrow> ae_UpstreamRequest e' = ae_UpstreamRequest e \<Longrightarrow>
     entry_about ctx req e'"
  by (simp add: entry_about_def)

lemma SetActions_entry [simp]:
  "ae_Tool (ac_entry (SetActions r a x ac)) = ae_Tool (ac_entry ac)"
  "ae_UpstreamRequest (ac_entry (SetActions r a x ac)) = ae_UpstreamRequest (ac_entry ac)"
  "ae_Action (ac_entry (SetActions r a x ac)) = a"
  "ae_ActionReason (ac_entry (SetActions r a x ac)) = x"
  by (simp_all add: audit_setters)

lemma SetToolDuration_entry [simp]:
  "ae_UpstreamRequest (ac_entry (SetToolDuration d ac)) = ae_UpstreamRequest (ac_entry ac)"
  by (simp add: audit_setters)

lemma entry_about_duration:
  "entry_about ctx req (ac_entry ac) \<Longrightarrow> ae_Tool e = ae_Tool (ac_entry (SetToolDuration d ac)) \<Longrightarrow>
     ae_UpstreamRequest e = ae_UpstreamRequest (ac_entry ac) \<Longrightarrow> entry_about ctx req e"
  by (auto simp: entry_about_def audit_setters split: option.splits)

text \<open>
  C4. Every decided call is audited exactly once, under its own tool and session: a returned result as
  allowed, a policy denial as denied, with the phase that denied as its reason; a call that fails for
  another reason, and a native tool, leaves no entry.
\<close>

theorem tool_call_audited_once:
  "let out = HandleToolCall g ctx sm T req in
     list_all (\<lambda>w. entry_about ctx req (written_entry w)) (out_audit out) \<and>
     (if IsNativeTool (ToolName req) then out_audit out = []
      else case out_result out of
        Inr r \<Rightarrow> map (\<lambda>w. ae_Action (written_entry w)) (out_audit out) = [''allow'']
      | Inl (PolicyDeniedError m d) \<Rightarrow>
          map (\<lambda>w. (ae_Action (written_entry w), ae_ActionReason (written_entry w))) (out_audit out) =
            [(''deny'', if out_calls out = [] then ''request_policy'' else ''response_policy'')]
      | Inl e \<Rightarrow> out_audit out = [])"
proof (cases "IsNativeTool (ToolName req)")
  case True
  then show ?thesis by (simp add: HandleToolCall_def split: prod.split)
next
  case False
  then show ?thesis
  proof (cases rule: HandleToolCall_cases [of req g ctx sm T])
    case (denied c n v b m d a)
    have "entry_about ctx req (written_entry (writeAuditLog (T 0 5) (blocked_ms b) a))"
      by (rule entry_about_eq [OF prepared_entry_about [OF denied(1)]]) (simp_all add: denied(5))
    with False denied show ?thesis by simp
  next
    case (allowed c n v b)
    let ?ac = "populateRequestValidationAudit v (prepare_audit g ctx (T 0 0) req c n)"
    have about: "entry_about ctx req (ac_entry ?ac)" by (rule prepared_entry_about) fact
    show ?thesis
    proof (cases rule: forward_call_cases [of g ctx sm T req c n "request_verdict v" ?ac b])
      case (no_client e sm')
      with False allowed(4) show ?thesis by (cases e) (simp_all add: failed_def)
    next
      case (failed_call info q e sm')
      with False allowed(4) show ?thesis by (simp add: failed_def)
    next
      case (answered info q raw res w sm' d)
      from answered(2) show ?thesis
        by (cases rule: screen_response_cases)
           (use False allowed(4) answered(3) entry_about_duration [OF about] in simp_all)
    qed
  qed (use False in \<open>simp_all add: failed_def\<close>)
qed

text \<open>
  What the agent gets back from an executed tool: the error of the client, or, when the response
  chain allows it, the client's result with at most its first text redacted and its error flag kept;
  a withheld response never reaches the agent. No result is returned without a call.
\<close>

lemma tool_call_screened:
  "let out = HandleToolCall g ctx sm T req;
       b = snd (chain_Handle (g_validationChain g req) (Some (NewBlockingBudget (T 0 1) (g_MaxBlockingMs g)))) in
     if IsNativeTool (ToolName req) then out_calls out = []
     else case out_calls out of
       [] \<Rightarrow> isl (out_result out)
     | (info, q) # _ \<Rightarrow>
         (case g_CallTool g info q of
            Inl e \<Rightarrow> out_result out = Inl (ToolCallFailed e)
          | Inr raw \<Rightarrow>
              (case screened g req b raw of
                 None \<Rightarrow> (\<exists>m d. out_result out = Inl (PolicyDeniedError m d))
               | Some r' \<Rightarrow> (\<exists>r. out_result out = Inr r \<and> Content r = Content r' \<and> IsError r = IsError r')))"
proof (cases "IsNativeTool (ToolName req)")
  case True
  then show ?thesis by (simp add: HandleToolCall_def split: prod.split)
next
  case False
  then show ?thesis
  proof (cases rule: HandleToolCall_cases [of req g ctx sm T])
    case (allowed c n v b)
    let ?ac = "populateRequestValidationAudit v (prepare_audit g ctx (T 0 0) req c n)"
    show ?thesis
    proof (cases rule: forward_call_cases [of g ctx sm T req c n "request_verdict v" ?ac b])
      case (answered info q raw res w sm' d)
      from answered(2) show ?thesis
        by (cases rule: screen_response_cases) (use False allowed(2,4) answered(1,3) in simp_all)
    qed (use False allowed(4) in \<open>simp_all add: failed_def\<close>)
  qed (use False in \<open>simp_all add: failed_def\<close>)
qed

section \<open>Denials and routing\<close>

lemma Contains_refl [simp]: "Contains s s"
  unfolding Contains_iff by (rule exI [of _ "[]"], rule exI [of _ "[]"]) simp

lemma Contains_append: "Contains a s \<or> Contains b s \<Longrightarrow> Contains (a @ b) s"
  unfolding Contains_iff by (metis append.assoc)

lemma Contains_concat: "x \<in> set xs \<Longrightarrow> Contains x s \<Longrightarrow> Contains (concat xs) s"
  by (induction xs) (auto intro: Contains_append)

lemma policy_lines_mentions:
  assumes "p \<in> set ps"
  shows "Contains (policy_lines subject ps ms) p"
proof (cases "length ps = 1")
  case True
  then obtain q where "ps = [q]" by (auto simp: length_Suc_conv)
  with assms have p: "p = q" by simp
  obtain r where "policy_lines subject [q] ms = (subject @ '' denied by policy '' @ [CHR 0x27]) @ q @ r"
    by (cases ms) (auto simp: policy_lines_def squote_def)
  then show ?thesis unfolding p \<open>ps = [q]\<close> Contains_iff by blast
next
  case False
  let ?line = "\<lambda>i. newline @ ''- '' @ ps ! i @ (if i < length ms \<and> ms ! i \<noteq> '''' then '': '' @ ms ! i else '''')"
  from assms obtain i where i: "i < length ps" "ps ! i = p" by (auto simp: in_set_conv_nth)
  have "Contains (?line i) p" using i by (auto intro!: Contains_append)
  then have "Contains (concat (map ?line [0..<length ps])) p"
    using i by (intro Contains_concat [of "?line i"]) auto
  with False show ?thesis by (auto simp: policy_lines_def intro!: Contains_append)
qed

lemma buildPolicyDeniedError_mentions:
  assumes "buildPolicyDeniedError v tool = (m, d)"
    and "r \<in> set (Results v)" "vr_Action r = PolicyActionDeny" "vr_PolicyType r \<noteq> ''audit''"
  shows "Contains m (vr_PolicyName r)"
  using assms by (auto simp: buildPolicyDeniedError_def Let_def filter_empty_conv
      intro!: Contains_append policy_lines_mentions)

text \<open>
  C5. A counted denial refuses the call, without touching a session, with a policy denial. Its message
  names every rule that has a denial among the collected results, and its data carry their names in order
  and the number of denials counted. The collected results are those of the CEL engine; the AI engine
  collects none, so a denial of an AI rule is counted but its rule is not named.
\<close>

theorem tool_call_denied:
  "let out = HandleToolCall g ctx sm T req;
       ((v, err), b) = chain_Handle (g_validationChain g req) (Some (NewBlockingBudget (T 0 1) (g_MaxBlockingMs g)));
       denying = filter (\<lambda>r. vr_Action r = PolicyActionDeny \<and> vr_PolicyType r \<noteq> ''audit'') (Results v) in
   if \<not> IsNativeTool (ToolName req) \<and> \<not> isl (ParsePrefixedName (ToolName req)) \<and> err = None \<and> DenyCount v > 0
   then out_calls out = [] \<and> out_sessions out = sm \<and>
     (\<exists>m d. out_result out = Inl (PolicyDeniedError m d) \<and>
        list_all (\<lambda>r. Contains m (vr_PolicyName r)) denying \<and>
        map_of d ''denied_policies'' = Some (DList (map (DString \<circ> vr_PolicyName) denying)) \<and>
        map_of d ''denied_count'' = Some (DInt (DenyCount v)))
   else True"
proof (cases "IsNativeTool (ToolName req)")
  case False
  then show ?thesis
  proof (cases rule: HandleToolCall_cases [of req g ctx sm T])
    case (denied c n v b m d a)
    have "list_all (\<lambda>r. Contains m (vr_PolicyName r))
        (filter (\<lambda>r. vr_Action r = PolicyActionDeny \<and> vr_PolicyType r \<noteq> ''audit'') (Results v))"
      using buildPolicyDeniedError_mentions [OF denied(4)] by (simp add: list_all_iff)
    moreover have "map_of d ''denied_policies'' = Some (DList (map (DString \<circ> vr_PolicyName)
        (filter (\<lambda>r. vr_Action r = PolicyActionDeny \<and> vr_PolicyType r \<noteq> ''audit'') (Results v))))"
      "map_of d ''denied_count'' = Some (DInt (DenyCount v))"
      using denied(4) by (auto simp: buildPolicyDeniedError_def Let_def)
    ultimately show ?thesis using False denied(2,6) by simp
  qed (auto split: prod.split)
qed (simp split: prod.split)

text \<open>
  Prompts and resources reach only the client of their name in the caller's own session, under
  their own name; without a session, or when the session has no such client, nothing is asked.
\<close>

lemma prompt_and_resource_routing:
  "let route = (case ParsePrefixedName name of Inl e \<Rightarrow> None | Inr (c, n) \<Rightarrow>
         (case ctx_SessionID ctx of None \<Rightarrow> None
          | Some sid \<Rightarrow> map_option (\<lambda>info. (info, n)) (session_client sid c sm)));
       answers = (\<lambda>ask res. case route of
           None \<Rightarrow> isl res
         | Some (info, n) \<Rightarrow> res = (case ask info n of Inl e \<Rightarrow> Inl (ToolCallFailed e) | Inr r \<Rightarrow> Inr r)) in
     answers GetPrompt (fst (HandlePromptCall GetPrompt ctx now name sm)) \<and>
     answers ReadResource (fst (handleResourceRequest ReadResource ctx now name sm))"
proof (cases "ParsePrefixedName name")
  case (Inr cn)
  obtain c n where [simp]: "cn = (c, n)" by fastforce
  show ?thesis
  proof (cases "ctx_SessionID ctx")
    case (Some sid)
    obtain l sm' where l: "cm_GetSessionClient now sid c sm = (l, sm')" by fastforce
    show ?thesis
    proof (cases l)
      case (Inl e)
      with l have "session_client sid c sm = None"
        using cm_GetSessionClient_none [of now sid c sm] by auto
      with Inl Inr Some l show ?thesis
        by (cases e) (simp_all add: HandlePromptCall_def handleResourceRequest_def)
    next
      case (Inr info)
      with l have "session_client sid c sm = Some info" by (auto intro: cm_GetSessionClient_client)
      with Inr \<open>ParsePrefixedName name = Inr cn\<close> Some l show ?thesis
        by (simp add: HandlePromptCall_def handleResourceRequest_def split: sum.split)
    qed
  qed (simp add: HandlePromptCall_def handleResourceRequest_def Inr)
qed (simp add: HandlePromptCall_def handleResourceRequest_def)

text \<open>
  Two slips in the messages. With several denying policies the \<open>i\<close>-th policy is shown with the
  \<open>i\<close>-th non-empty message, so that a policy without a message gets the one of the next; and the
  wording for a policy whose evaluation timed out is never used, an earlier test being weaker.
\<close>

definition denying_result :: "string \<Rightarrow> string \<Rightarrow> ValidationResult" where
  "denying_result name message = \<lparr> vr_PolicyName = name, vr_PolicyType = ''cel'',
     vr_Action = PolicyActionDeny, vr_Mode = PolicyModeEnforce, vr_Message = message, vr_DurationMs = 0 \<rparr>"

lemma denial_messages_misattributed:
  "HasPrefix (fst (buildPolicyDeniedError (no_results\<lparr> DenyCount := 2,
       Results := [denying_result ''first'' '''', denying_result ''second'' ''no secrets''] \<rparr>) ''db__query''))
     (''Request denied by 2 policies:'' @ newline @ ''- first: no secrets'' @ newline @ ''- second'' @ newline)"
  by code_simp

lemma timed_out_wording_unused:
  "humanizeErrorMessage msg = ''policy evaluation timed out'' \<Longrightarrow> msg = ''policy evaluation timed out''"
  by (auto simp: humanizeErrorMessage_def containsAny_def split: if_splits)

section \<open>Wiring\<close>

text \<open>
  \<^verbatim>\<open>Gateway.Start\<close>: the chains hold a handler for each engine that was created, CEL before AI. A
  handler passes the budget of the request's context to its engine.
\<close>

definition handlers_of :: "'h option \<Rightarrow> 'h option \<Rightarrow> 'h list" where
  "handlers_of celEngine aiEngine =
     (case celEngine of None \<Rightarrow> [] | Some h \<Rightarrow> [h]) @ (case aiEngine of None \<Rightarrow> [] | Some h \<Rightarrow> [h])"

definition wire_chains ::
  "(CallToolRequest \<Rightarrow> engine) option \<Rightarrow> (CallToolRequest \<Rightarrow> engine) option \<Rightarrow>
     (CallToolRequest \<Rightarrow> response_handler) option \<Rightarrow> (CallToolRequest \<Rightarrow> response_handler) option \<Rightarrow>
     'c gateway \<Rightarrow> 'c gateway" where
  "wire_chains policyEngine aiPolicyEngine responsePolicyEngine aiResponsePolicyEngine g =
     g\<lparr> g_validationChain := (\<lambda>req. map (\<lambda>h. h req) (handlers_of policyEngine aiPolicyEngine)),
        g_responseValidationChain :=
          Some (\<lambda>req. map (\<lambda>h. h req) (handlers_of responsePolicyEngine aiResponsePolicyEngine)) \<rparr>"

end
