(* ===== verification/HttpHandlers.thy ===== *)
theory HttpHandlers
  imports AuditLog Evaluator
begin

text \<open>
  What the HTTP validation endpoints share (\<^verbatim>\<open>context.go\<close>, \<^verbatim>\<open>cli_validation.go\<close>,
  \<^verbatim>\<open>policy_evaluator.go\<close>): the request as the handlers read it, the identifiers taken from its
  headers, the replies, and the audit entry of an answer that was still being worked on.
\<close>

section \<open>Requests and replies\<close>

text \<open>
  A request: its headers (the empty string for one that is absent), its peer, and what decoding
  its JSON body yields. \<open>hr_newID\<close> is what \<^verbatim>\<open>GenerateRequestID\<close> would return for it.
\<close>

record 'req http_request =
  hr_Header :: "string \<Rightarrow> string"
  hr_RemoteAddr :: string
  hr_Body :: "go_error + 'req"
  hr_newID :: "go_error + string"

record CLIValidationError =
  ve_Error :: string
  ve_Message :: string

datatype 'resp http_reply = Reply 'resp | ErrorReply nat CLIValidationError

abbreviation StatusBadRequest :: nat where "StatusBadRequest \<equiv> 400"
abbreviation StatusUnsupportedMediaType :: nat where "StatusUnsupportedMediaType \<equiv> 415"

definition writeError :: "nat \<Rightarrow> string \<Rightarrow> string \<Rightarrow> 'resp http_reply" where
  "writeError status errorCode message =
     ErrorReply status \<lparr> ve_Error = errorCode, ve_Message = message \<rparr>"

text \<open>A handler's run: its reply, and the entries it hands to the audit writer.\<close>

record 'resp http_outcome =
  ho_reply :: "'resp http_reply"
  ho_audit :: "audit_write list"

definition rejected :: "'resp http_reply \<Rightarrow> 'resp http_outcome" where
  "rejected reply = \<lparr> ho_reply = reply, ho_audit = [] \<rparr>"

lemma rejected_sel [simp]: "ho_reply (rejected r) = r" "ho_audit (rejected r) = []"
  by (simp_all add: rejected_def)

definition is_rejection :: "'resp http_outcome \<Rightarrow> bool" where
  "is_rejection out \<longleftrightarrow> (case ho_reply out of ErrorReply s e \<Rightarrow> ho_audit out = [] | Reply resp \<Rightarrow> False)"

lemma is_rejection_error [simp]: "is_rejection (rejected (writeError s c m))"
  by (simp add: is_rejection_def writeError_def)

lemma is_rejectionD: "is_rejection out \<Longrightarrow> \<exists>s e. out = rejected (ErrorReply s e)"
  by (cases out) (auto simp: is_rejection_def rejected_def split: http_reply.splits)

record CLIValidationContext =
  vc_RequestID :: string
  vc_ClientID :: string

definition extractHTTPContext :: "'req http_request \<Rightarrow> CLIValidationContext" where
  "extractHTTPContext r =
     (let ctx = \<lparr> vc_RequestID = hr_Header r ''X-Request-ID'',
                  vc_ClientID = hr_Header r ''X-Maybe-Dont-Client-ID'' \<rparr>
      in if vc_RequestID ctx = ''''
         then (case hr_newID r of
                 Inl err \<Rightarrow> ctx\<lparr> vc_RequestID := ''00000000000000000000000000000000'' \<rparr>
               | Inr i \<Rightarrow> ctx\<lparr> vc_RequestID := i \<rparr>)
         else ctx)"

definition hasJSONContentType :: "'req http_request \<Rightarrow> bool" where
  "hasJSONContentType r \<longleftrightarrow> HasPrefix (hr_Header r ''Content-Type'') ''application/json''"

section \<open>Results in a reply\<close>

record CLIPolicyResult =
  cpr_PolicyName :: string
  cpr_PolicyType :: string
  cpr_Action :: string
  cpr_Message :: string

definition convertValidationResults :: "ValidationResults \<Rightarrow> CLIPolicyResult list" where
  "convertValidationResults results =
     map (\<lambda>r. \<lparr> cpr_PolicyName = vr_PolicyName r, cpr_PolicyType = vr_PolicyType r,
                cpr_Action = vr_Action r, cpr_Message = vr_Message r \<rparr>) (Results results)"

section \<open>Audit entries\<close>

definition blank_entry :: AuditEntry where
  "blank_entry = \<lparr> ae_Source = '''', ae_ValidationStarted = 0, ae_CreatedAt = 0, ae_Tool = None,
     ae_CLI = None,
     ae_UpstreamRequest = \<lparr> uri_RequestID = '''', uri_ExternalID = '''', uri_ClientID = '''',
       uri_SessionID = '''', uri_ClientIP = '''', uri_UserAgent = '''' \<rparr>,
     ae_AI = None, ae_RequestValidation = None, ae_ResponseValidation = None,
     ae_RecommendedAction = '''', ae_Action = '''', ae_ActionReason = '''', ae_DurationMs = 0,
     ae_TotalBlockedMs = 0 \<rparr>"

definition validation_of :: "ValidationResults \<Rightarrow> AuditValidationInfo option" where
  "validation_of results =
     (if RulesDetails results \<noteq> None \<or> AIDetails results \<noteq> None
      then Some \<lparr> avi_CEL = RulesDetails results, avi_AI = AIDetails results \<rparr> else None)"

text \<open>
  The goroutine that waits for the rest of an AI evaluation: \<open>inTime\<close> says whether the completion
  arrives before the five minutes are over. Both callers have an audit writer.
\<close>

definition WriteAsyncAuditCompletion ::
  "bool \<Rightarrow> AsyncCompletion \<Rightarrow> (AsyncCompletion \<Rightarrow> AuditEntry) \<Rightarrow> audit_write list" where
  "WriteAsyncAuditCompletion inTime completion buildEntry =
     (if inTime
      then (if ac_AIDetails completion \<noteq> None then [WrittenLater (buildEntry completion)] else [])
      else [])"

definition async_entries ::
  "bool \<Rightarrow> AsyncCompletion option \<Rightarrow> (AsyncCompletion \<Rightarrow> AuditEntry) \<Rightarrow> audit_write list" where
  "async_entries inTime c buildEntry =
     (case c of None \<Rightarrow> [] | Some completion \<Rightarrow> WriteAsyncAuditCompletion inTime completion buildEntry)"

text \<open>At most one such entry is written, and it is written late.\<close>

lemma async_entries_cases:
  obtains "async_entries inTime c f = []"
  | completion where "c = Some completion" "async_entries inTime c f = [WrittenLater (f completion)]"
proof (cases c)
  case None
  with that show thesis by (simp add: async_entries_def)
next
  case (Some completion)
  with that show thesis
    by (cases "inTime \<and> ac_AIDetails completion \<noteq> None")
      (auto simp: async_entries_def WriteAsyncAuditCompletion_def)
qed

lemma list_all_async_entries:
  "(\<And>c. P (WrittenLater (f c))) \<Longrightarrow> list_all P (async_entries inTime c f)"
  by (cases rule: async_entries_cases [of inTime c f]) simp_all

section \<open>Without an evaluator\<close>

definition no_evaluator_results :: ValidationResults where
  "no_evaluator_results = no_results\<lparr> Allowed := True, Message := ''No validation policies configured'' \<rparr>"

definition action_text :: "bool \<Rightarrow> string" where
  "action_text allowed = (if \<not> allowed then ''deny'' else ''allow'')"

end
