(* ===== verification/CLIValidation.thy ===== *)
theory CLIValidation
  imports HttpHandlers
begin

text \<open>
  \<^verbatim>\<open>internal/gateway/cli_validation.go\<close>: the endpoint that validates a command before a wrapper
  runs it. Each reading of the clock is a point of \<open>T 0\<close>: 0 when the handler starts, 1 when the
  evaluator creates its budget, 2 when the entry is written, 3 when a late entry is built. The
  callback \<^verbatim>\<open>OnValidation\<close>, which only tests set, is left out.
\<close>

record CLIValidationResponse =
  cvr_RequestID :: string
  cvr_Allowed :: bool
  cvr_ValidationRequired :: bool
  cvr_Message :: string
  cvr_ActionReason :: string
  cvr_ServerVersion :: string
  cvr_ClientVersion :: string
  cvr_Results :: "CLIPolicyResult list"

record CLIValidationHandlerConfig =
  vh_Enabled :: bool
  vh_ValidateCommands :: "string list"
  vh_Version :: string
  vh_AuditWriter :: bool
  vh_Evaluator :: "PolicyEvaluator option"
  vh_IncludeArgumentValues :: bool

section \<open>The handler\<close>

definition requiresValidation :: "CLIValidationHandlerConfig \<Rightarrow> string \<Rightarrow> bool" where
  "requiresValidation cfg command =
     (if list_ex (\<lambda>c. c = ''*'') (vh_ValidateCommands cfg) then True
      else list_ex (\<lambda>c. c = command) (vh_ValidateCommands cfg))"

definition getClientVersion :: "CLIValidationRequest \<Rightarrow> string" where
  "getClientVersion req = (case ClientInfo req of Some ci \<Rightarrow> CLIVersion ci | None \<Rightarrow> '''')"

definition getAuditArguments :: "CLIValidationHandlerConfig \<Rightarrow> string list \<Rightarrow> string list" where
  "getAuditArguments cfg args =
     (if vh_IncludeArgumentValues cfg then args else extractCLIArgumentFlags args)"

definition cli_info :: "CLIValidationHandlerConfig \<Rightarrow> CLIValidationRequest \<Rightarrow> AuditCLIInfo" where
  "cli_info cfg req = \<lparr> aci_Command = Command req, aci_Arguments = getAuditArguments cfg (CArguments req),
     aci_WorkingDirectory = WorkingDirectory req, aci_ClientInfo = ClientInfo req \<rparr>"

definition upstream_info :: "'req http_request \<Rightarrow> CLIValidationContext \<Rightarrow> UpstreamRequestInfo" where
  "upstream_info r ctx = \<lparr> uri_RequestID = vc_RequestID ctx, uri_ExternalID = '''',
     uri_ClientID = vc_ClientID ctx, uri_SessionID = '''', uri_ClientIP = hr_RemoteAddr r,
     uri_UserAgent = hr_Header r ''User-Agent'' \<rparr>"

definition cli_writeAuditEntry ::
  "CLIValidationHandlerConfig \<Rightarrow> clock \<Rightarrow> CLIValidationRequest http_request \<Rightarrow> CLIValidationRequest \<Rightarrow>
     CLIValidationContext \<Rightarrow> string \<Rightarrow> string \<Rightarrow> audit_write list" where
  "cli_writeAuditEntry cfg T r req ctx action actionReason =
     (if \<not> vh_AuditWriter cfg then []
      else [WrittenNow (blank_entry
        \<lparr> ae_Source := ''cli'', ae_ValidationStarted := T 0 0, ae_CreatedAt := T 0 2,
          ae_CLI := Some (cli_info cfg req), ae_UpstreamRequest := upstream_info r ctx,
          ae_Action := action, ae_ActionReason := actionReason,
          ae_DurationMs := Milliseconds (T 0 2 - T 0 0) \<rparr>)])"

definition cli_writeAuditEntryWithValidation ::
  "CLIValidationHandlerConfig \<Rightarrow> clock \<Rightarrow> bool \<Rightarrow> CLIValidationRequest http_request \<Rightarrow> CLIValidationRequest \<Rightarrow>
     CLIValidationContext \<Rightarrow> string \<Rightarrow> ValidationResults \<Rightarrow> audit_write list" where
  "cli_writeAuditEntryWithValidation cfg T inTime r req ctx action results =
     (if \<not> vh_AuditWriter cfg then []
      else let requestValidation = validation_of results;
               actionReason = DeriveAuditActionReason (Allowed results) (AuditModeBypass results)
                 (FailedOpen results) '''';
               entry = blank_entry
                 \<lparr> ae_Source := ''cli'', ae_ValidationStarted := T 0 0, ae_CreatedAt := T 0 2,
                   ae_CLI := Some (cli_info cfg req), ae_UpstreamRequest := upstream_info r ctx,
                   ae_RequestValidation := requestValidation,
                   ae_Action := action, ae_ActionReason := actionReason,
                   ae_DurationMs := Milliseconds (T 0 2 - T 0 0) \<rparr>
      in WrittenNow entry # async_entries inTime (Async results) (\<lambda>completion. blank_entry
           \<lparr> ae_Source := ''cli'', ae_ValidationStarted := T 0 0, ae_CreatedAt := T 0 3,
             ae_CLI := Some (cli_info cfg req),
             ae_UpstreamRequest := \<lparr> uri_RequestID = vc_RequestID ctx @ ''-async'', uri_ExternalID = '''',
               uri_ClientID = vc_ClientID ctx, uri_SessionID = '''', uri_ClientIP = '''', uri_UserAgent = '''' \<rparr>,
             ae_RequestValidation := Some \<lparr> avi_CEL = None, avi_AI = ac_AIDetails completion \<rparr>,
             ae_Action := action, ae_ActionReason := ''async_completion'',
             ae_DurationMs := ac_EvaluationMs completion \<rparr>))"

definition cli_evaluatePolicies ::
  "CLIValidationHandlerConfig \<Rightarrow> int \<Rightarrow> CLIValidationRequest \<Rightarrow> ValidationResults" where
  "cli_evaluatePolicies cfg now req =
     (case vh_Evaluator cfg of
        None \<Rightarrow> no_evaluator_results
      | Some e \<Rightarrow> pe_EvaluateCLICommand now e req)"

definition cli_ServeHTTP ::
  "CLIValidationHandlerConfig \<Rightarrow> clock \<Rightarrow> bool \<Rightarrow> CLIValidationRequest http_request \<Rightarrow>
     CLIValidationResponse http_outcome" where
  "cli_ServeHTTP cfg T inTime r =
     (if \<not> vh_Enabled cfg
      then rejected (writeError StatusBadRequest ''cli_validation_disabled''
        ''CLI validation is not enabled on this gateway. Set cli_request_validation.enabled: true in configuration.'')
      else if \<not> hasJSONContentType r
      then rejected (writeError StatusUnsupportedMediaType ''invalid_content_type''
        ''Content-Type must be application/json'')
      else case hr_Body r of
        Inl err \<Rightarrow> rejected (writeError StatusBadRequest ''invalid_request''
          (''Failed to parse request body: '' @ error_text err))
      | Inr req \<Rightarrow>
      if Command req = ''''
      then rejected (writeError StatusBadRequest ''missing_command'' (''Required field '' @
        [CHR 0x27] @ ''command'' @ [CHR 0x27] @ '' is empty''))
      else let ctx = extractHTTPContext r in
      if \<not> requiresValidation cfg (Command req)
      then \<lparr> ho_reply = Reply \<lparr> cvr_RequestID = vc_RequestID ctx, cvr_Allowed = True,
               cvr_ValidationRequired = False, cvr_Message = ''Command does not require validation'',
               cvr_ActionReason = '''', cvr_ServerVersion = vh_Version cfg,
               cvr_ClientVersion = getClientVersion req, cvr_Results = [] \<rparr>,
             ho_audit = cli_writeAuditEntry cfg T r req ctx ''allow'' '''' \<rparr>
      else let validationResults = cli_evaluatePolicies cfg (T 0 1) req;
               auditAction = action_text (Allowed validationResults)
      in \<lparr> ho_reply = Reply \<lparr> cvr_RequestID = vc_RequestID ctx, cvr_Allowed = Allowed validationResults,
               cvr_ValidationRequired = True, cvr_Message = Message validationResults,
               cvr_ActionReason = '''', cvr_ServerVersion = vh_Version cfg,
               cvr_ClientVersion = getClientVersion req,
               cvr_Results = convertValidationResults validationResults \<rparr>,
           ho_audit = cli_writeAuditEntryWithValidation cfg T inTime r req ctx auditAction validationResults \<rparr>)"

section \<open>What the handler does, by the request\<close>

text \<open>A request that passes every check of the handler.\<close>

definition cli_accepted :: "CLIValidationHandlerConfig \<Rightarrow> CLIValidationRequest http_request \<Rightarrow> CLIValidationRequest option" where
  "cli_accepted cfg r =
     (if vh_Enabled cfg \<and> hasJSONContentType r
      then (case hr_Body r of Inr req \<Rightarrow> if Command req = '''' then None else Some req | Inl _ \<Rightarrow> None)
      else None)"

lemma requiresValidation_iff:
  "requiresValidation cfg c \<longleftrightarrow> ''*'' \<in> set (vh_ValidateCommands cfg) \<or> c \<in> set (vh_ValidateCommands cfg)"
  by (auto simp: requiresValidation_def list_ex_iff)



lemma cli_ServeHTTP_cases:
  obtains (refused) s e where "cli_accepted cfg r = None"
    "cli_ServeHTTP cfg T inTime r = rejected (ErrorReply s e)"
  | (unlisted) req resp where "cli_accepted cfg r = Some req" "\<not> requiresValidation cfg (Command req)"
    "cvr_Allowed resp" "cvr_Results resp = []" "cvr_RequestID resp = vc_RequestID (extractHTTPContext r)"
    "cli_ServeHTTP cfg T inTime r = \<lparr> ho_reply = Reply resp,
       ho_audit = cli_writeAuditEntry cfg T r req (extractHTTPContext r) ''allow'' '''' \<rparr>"
  | (listed) req resp v where "cli_accepted cfg r = Some req" "requiresValidation cfg (Command req)"
    "v = cli_evaluatePolicies cfg (T 0 1) req"
    "cvr_Allowed resp = Allowed v" "cvr_Results resp = convertValidationResults v"
    "cvr_RequestID resp = vc_RequestID (extractHTTPContext r)"
    "cli_ServeHTTP cfg T inTime r = \<lparr> ho_reply = Reply resp,
       ho_audit = cli_writeAuditEntryWithValidation cfg T inTime r req (extractHTTPContext r)
         (action_text (Allowed v)) v \<rparr>"
proof (cases "cli_accepted cfg r")
  case None
  have "\<exists>s e. cli_ServeHTTP cfg T inTime r = rejected (ErrorReply s e)"
    using None by (auto simp: cli_accepted_def cli_ServeHTTP_def writeError_def split: sum.splits if_splits)
  with None refused show thesis by blast
next
  case (Some req)
  then have a: "vh_Enabled cfg" "hasJSONContentType r" "hr_Body r = Inr req" "Command req \<noteq> ''''"
    by (auto simp: cli_accepted_def split: sum.splits if_splits)
  show thesis
  proof (cases "requiresValidation cfg (Command req)")
    case True
    with a show thesis
      by (intro listed [OF Some True refl, where resp =
            "case ho_reply (cli_ServeHTTP cfg T inTime r) of Reply q \<Rightarrow> q"])
        (simp_all add: cli_ServeHTTP_def Let_def)
  next
    case False
    with a show thesis
      by (intro unlisted [OF Some False, where resp =
            "case ho_reply (cli_ServeHTTP cfg T inTime r) of Reply q \<Rightarrow> q"])
        (simp_all add: cli_ServeHTTP_def Let_def)
  qed
qed

section \<open>A command and the loaded policies\<close>

text \<open>
  C6. The command endpoint enforces the loaded policies. A request that fails a check of the handler
  gets an error. Otherwise a command that is not listed is allowed without an evaluation, and a listed
  command that a CEL rule refuses is not allowed. A listed one that no CEL rule refuses is allowed, when the AI rules
  answer in time, exactly if no enforcing AI rule answered with a denial; when they do not, it is denied only
  if one did.
\<close>

theorem cli_endpoint_enforces:
  "let cfg' = cfg\<lparr> vh_Evaluator := Some (loaded_evaluator cenv cps cT aenv acfg aps sch aT maxMs) \<rparr> in
   case (cli_accepted cfg r, ho_reply (cli_ServeHTTP cfg' T inTime r)) of
     (None, ErrorReply s e) \<Rightarrow> True
   | (Some req, Reply resp) \<Rightarrow>
       (if ''*'' \<notin> set (vh_ValidateCommands cfg) \<and> Command req \<notin> set (vh_ValidateCommands cfg)
        then cvr_Allowed resp \<and> cvr_Results resp = []
        else if command_refused cenv cps req then \<not> cvr_Allowed resp
        else if command_in_time cenv cps cT aT
          (newBlockingBudget (T 0 1) (loaded_evaluator cenv cps cT aenv acfg aps sch aT maxMs)) req
        then cvr_Allowed resp \<longleftrightarrow> \<not> list_ex ai_denies (ai_cli_answers aenv acfg aps req)
        else cvr_Allowed resp \<or> list_ex ai_denies (ai_cli_answers aenv acfg aps req))
   | _ \<Rightarrow> False"
proof -
  let ?e = "loaded_evaluator cenv cps cT aenv acfg aps sch aT maxMs"
  let ?cfg = "cfg\<lparr> vh_Evaluator := Some ?e \<rparr>"
  have same: "cli_accepted ?cfg r = cli_accepted cfg r"
    "requiresValidation ?cfg c = requiresValidation cfg c" for c
    by (simp_all add: cli_accepted_def requiresValidation_def)
  show ?thesis
  proof (cases rule: cli_ServeHTTP_cases [of ?cfg r T inTime])
    case (refused s e)
    then show ?thesis by (simp add: same)
  next
    case (unlisted req resp)
    then show ?thesis by (simp add: same requiresValidation_iff)
  next
    case (listed req resp v)
    have v: "v = pe_EvaluateCLICommand (T 0 1) ?e req"
      by (simp add: listed(3) cli_evaluatePolicies_def)
    have "policy_verdict (command_in_time cenv cps cT aT (newBlockingBudget (T 0 1) ?e) req)
        (command_refused cenv cps req) (ai_cli_answers aenv acfg aps req) v"
      unfolding v by (rule cli_command_policy [OF refl])
    from policy_verdictD(3) [OF this] listed(1,2,4,7) show ?thesis by (auto simp: same requiresValidation_iff)
  qed
qed

lemma masked_arguments:
  "getAuditArguments cfg args =
     (if vh_IncludeArgumentValues cfg then args else map2 mask_arg ('''' # args) args)"
  by (simp add: getAuditArguments_def extract_flags_pointwise)

text \<open>
  Every answer of the command endpoint is on record, and nothing else is: with an audit writer,
  one entry at once and at most one later under the same identifier marked "-async", all with the
  action that was answered; they hold the arguments only in masked form unless values are to be
  included. A rejected request leaves no entry.
\<close>

lemma cli_endpoint_audited:
  "let out = cli_ServeHTTP cfg T inTime r in
   case ho_reply out of
     ErrorReply s e \<Rightarrow> ho_audit out = []
   | Reply resp \<Rightarrow>
       if \<not> vh_AuditWriter cfg then ho_audit out = []
       else case (hr_Body r, map written_entry (ho_audit out)) of
           (Inr req, e # late) \<Rightarrow>
             length late \<le> 1 \<and> uri_RequestID (ae_UpstreamRequest e) = cvr_RequestID resp \<and>
             list_all (\<lambda>l. uri_RequestID (ae_UpstreamRequest l) = cvr_RequestID resp @ ''-async'') late \<and>
             list_all (\<lambda>l. ae_Action l = (if cvr_Allowed resp then ''allow'' else ''deny'') \<and>
               map_option aci_Arguments (ae_CLI l) = Some
                 (if vh_IncludeArgumentValues cfg then CArguments req
                  else map2 mask_arg ('''' # CArguments req) (CArguments req))) (e # late)
         | _ \<Rightarrow> False"
proof (cases rule: cli_ServeHTTP_cases [of cfg r T inTime])
  case (refused s e)
  then show ?thesis by simp
next
  case (unlisted req resp)
  then have "hr_Body r = Inr req" by (auto simp: cli_accepted_def split: sum.splits if_splits)
  with unlisted show ?thesis
    by (simp add: cli_writeAuditEntry_def blank_entry_def cli_info_def upstream_info_def masked_arguments)
next
  case (listed req resp v)
  then have "hr_Body r = Inr req" by (auto simp: cli_accepted_def split: sum.splits if_splits)
  with listed show ?thesis
    by (cases "Async v")
      (simp_all add: cli_writeAuditEntryWithValidation_def blank_entry_def cli_info_def upstream_info_def
        masked_arguments action_text_def async_entries_def WriteAsyncAuditCompletion_def Let_def)
qed

end
