(* ===== verification/ActionValidation.thy ===== *)
theory ActionValidation
  imports HttpHandlers
begin

text \<open>
  \<^verbatim>\<open>internal/gateway/action_validation.go\<close>: the endpoint agent frameworks call before an action.
  The action is put to the policies as a tool call. The readings of the clock are those of the
  command endpoint. A parameter map that is absent is the empty one.
\<close>

type_synonym RiskLevel = string

abbreviation RiskLevelHigh :: RiskLevel where "RiskLevelHigh \<equiv> ''high''"
abbreviation RiskLevelMedium :: RiskLevel where "RiskLevelMedium \<equiv> ''medium''"
abbreviation RiskLevelLow :: RiskLevel where "RiskLevelLow \<equiv> ''low''"
abbreviation RiskLevelUnknown :: RiskLevel where "RiskLevelUnknown \<equiv> ''unknown''"

record ActionContext =
  axc_Thought :: string
  axc_Summary :: string

record ActionValidationRequest =
  avq_ActionType :: string
  avq_Target :: string
  avq_Parameters :: "(string \<times> dyn) list"
  avq_Actor :: string
  avq_ExternalID :: string
  avq_Context :: "ActionContext option"

record ActionValidationResponse =
  avr_RequestID :: string
  avr_Allowed :: bool
  avr_RiskLevel :: RiskLevel
  avr_Message :: string
  avr_ServerVersion :: string
  avr_Results :: "CLIPolicyResult list"

record ActionValidationHandlerConfig =
  ah_Version :: string
  ah_AuditWriter :: bool
  ah_Evaluator :: "PolicyEvaluator option"
  ah_IncludeArgumentValues :: bool

section \<open>The handler\<close>

definition toCallToolRequest :: "ActionValidationRequest \<Rightarrow> CallToolRequest" where
  "toCallToolRequest req =
     (let args = (case avq_Context req of
            None \<Rightarrow> avq_Parameters req
          | Some c \<Rightarrow>
              if axc_Thought c \<noteq> '''' \<or> axc_Summary c \<noteq> ''''
              then let agentContext =
                     (if axc_Thought c \<noteq> '''' then [(''thought'', DString (axc_Thought c))] else []) @
                     (if axc_Summary c \<noteq> '''' then [(''summary'', DString (axc_Summary c))] else [])
                   in AList.update ''_agent_context'' (DMap agentContext) (avq_Parameters req)
              else avq_Parameters req)
      in \<lparr> Method = ''tools/call'', ToolName = avq_Target req, Arguments = DMap args, Meta = None \<rparr>)"

definition action_evaluatePolicies ::
  "ActionValidationHandlerConfig \<Rightarrow> int \<Rightarrow> ActionValidationRequest \<Rightarrow> ValidationResults" where
  "action_evaluatePolicies cfg now req =
     (case ah_Evaluator cfg of
        None \<Rightarrow> no_evaluator_results
      | Some e \<Rightarrow> pe_EvaluateToolCall now e (toCallToolRequest req))"

definition deriveRiskLevel :: "ValidationResults \<Rightarrow> RiskLevel" where
  "deriveRiskLevel results =
     (if \<not> Allowed results then RiskLevelHigh
      else if AuditModeBypass results then RiskLevelMedium
      else if length (Results results) > 0 \<or> RulesDetails results \<noteq> None \<or> AIDetails results \<noteq> None \<or>
        AllowCount results > 0
      then RiskLevelLow
      else RiskLevelUnknown)"

definition action_tool :: "ActionValidationRequest \<Rightarrow> (string \<times> dyn) list option \<Rightarrow> AuditToolInfo" where
  "action_tool req params = \<lparr> ati_Name = avq_Target req, ati_Client = '''', ati_PrefixedName = avq_Target req,
     ati_Params = params, ati_CalledAt = None, ati_DurationMs = None \<rparr>"

definition action_writeAuditEntryWithValidation ::
  "ActionValidationHandlerConfig \<Rightarrow> clock \<Rightarrow> bool \<Rightarrow> ActionValidationRequest http_request \<Rightarrow>
     ActionValidationRequest \<Rightarrow> CLIValidationContext \<Rightarrow> string \<Rightarrow> ValidationResults \<Rightarrow> audit_write list" where
  "action_writeAuditEntryWithValidation cfg T inTime r req ctx action results =
     (if \<not> ah_AuditWriter cfg then []
      else let requestValidation = validation_of results;
               actionReason = DeriveAuditActionReason (Allowed results) (AuditModeBypass results)
                 (FailedOpen results) '''';
               auditParams = (if ah_IncludeArgumentValues cfg then Some (avq_Parameters req) else None);
               entry = blank_entry
                 \<lparr> ae_Source := ''action'', ae_ValidationStarted := T 0 0, ae_CreatedAt := T 0 2,
                   ae_Tool := Some (action_tool req auditParams),
                   ae_UpstreamRequest := \<lparr> uri_RequestID = vc_RequestID ctx, uri_ExternalID = avq_ExternalID req,
                     uri_ClientID = vc_ClientID ctx, uri_SessionID = '''', uri_ClientIP = hr_RemoteAddr r,
                     uri_UserAgent = hr_Header r ''User-Agent'' \<rparr>,
                   ae_RequestValidation := requestValidation,
                   ae_Action := action, ae_ActionReason := actionReason,
                   ae_DurationMs := Milliseconds (T 0 2 - T 0 0) \<rparr>
      in WrittenNow entry # async_entries inTime (Async results) (\<lambda>completion. blank_entry
           \<lparr> ae_Source := ''action'', ae_ValidationStarted := T 0 0, ae_CreatedAt := T 0 3,
             ae_Tool := Some (action_tool req None),
             ae_UpstreamRequest := \<lparr> uri_RequestID = vc_RequestID ctx @ ''-async'',
               uri_ExternalID = avq_ExternalID req, uri_ClientID = vc_ClientID ctx, uri_SessionID = '''',
               uri_ClientIP = '''', uri_UserAgent = '''' \<rparr>,
             ae_RequestValidation := Some \<lparr> avi_CEL = None, avi_AI = ac_AIDetails completion \<rparr>,
             ae_Action := action, ae_ActionReason := ''async_completion'',
             ae_DurationMs := ac_EvaluationMs completion \<rparr>))"

definition action_ServeHTTP ::
  "ActionValidationHandlerConfig \<Rightarrow> clock \<Rightarrow> bool \<Rightarrow> ActionValidationRequest http_request \<Rightarrow>
     ActionValidationResponse http_outcome" where
  "action_ServeHTTP cfg T inTime r =
     (if \<not> hasJSONContentType r
      then rejected (writeError StatusUnsupportedMediaType ''invalid_content_type''
        ''Content-Type must be application/json'')
      else case hr_Body r of
        Inl err \<Rightarrow> rejected (writeError StatusBadRequest ''invalid_request''
          (''Failed to parse request body: '' @ error_text err))
      | Inr req \<Rightarrow>
      if avq_Target req = ''''
      then rejected (writeError StatusBadRequest ''missing_target'' (''Required field '' @
        [CHR 0x27] @ ''target'' @ [CHR 0x27] @ '' is empty''))
      else let ctx0 = extractHTTPContext r;
               ctx = (if vc_ClientID ctx0 = '''' \<and> avq_Actor req \<noteq> ''''
                      then ctx0\<lparr> vc_ClientID := avq_Actor req \<rparr> else ctx0);
               validationResults = action_evaluatePolicies cfg (T 0 1) req;
               riskLevel = deriveRiskLevel validationResults;
               auditAction = action_text (Allowed validationResults)
      in \<lparr> ho_reply = Reply \<lparr> avr_RequestID = vc_RequestID ctx, avr_Allowed = Allowed validationResults,
               avr_RiskLevel = riskLevel, avr_Message = Message validationResults,
               avr_ServerVersion = ah_Version cfg,
               avr_Results = convertValidationResults validationResults \<rparr>,
           ho_audit = action_writeAuditEntryWithValidation cfg T inTime r req ctx auditAction validationResults \<rparr>)"

section \<open>What an agent framework learns\<close>

definition action_accepted :: "ActionValidationRequest http_request \<Rightarrow> ActionValidationRequest option" where
  "action_accepted r =
     (if hasJSONContentType r
      then (case hr_Body r of Inr req \<Rightarrow> if avq_Target req = '''' then None else Some req | Inl _ \<Rightarrow> None)
      else None)"

lemma action_ServeHTTP_cases:
  obtains (refused) s e where "action_accepted r = None"
    "action_ServeHTTP cfg T inTime r = rejected (ErrorReply s e)"
  | (evaluated) req resp v ctx where "action_accepted r = Some req"
    "v = action_evaluatePolicies cfg (T 0 1) req"
    "avr_Allowed resp = Allowed v" "avr_RiskLevel resp = deriveRiskLevel v" "avr_RequestID resp = vc_RequestID ctx"
    "action_ServeHTTP cfg T inTime r = \<lparr> ho_reply = Reply resp,
       ho_audit = action_writeAuditEntryWithValidation cfg T inTime r req ctx (action_text (Allowed v)) v \<rparr>"
proof (cases "action_accepted r")
  case None
  have "\<exists>s e. action_ServeHTTP cfg T inTime r = rejected (ErrorReply s e)"
    using None by (auto simp: action_accepted_def action_ServeHTTP_def writeError_def split: sum.splits if_splits)
  with None refused show thesis by blast
next
  case (Some req)
  then have a: "hasJSONContentType r" "hr_Body r = Inr req" "avq_Target req \<noteq> ''''"
    by (auto simp: action_accepted_def split: sum.splits if_splits)
  show thesis
    by (rule evaluated [OF Some refl, where resp =
          "case ho_reply (action_ServeHTTP cfg T inTime r) of Reply q \<Rightarrow> q"
          and ctx = "let ctx = extractHTTPContext r in
            if vc_ClientID ctx = '''' \<and> avq_Actor req \<noteq> '''' then ctx\<lparr> vc_ClientID := avq_Actor req \<rparr> else ctx"])
      (use a in \<open>simp_all add: action_ServeHTTP_def Let_def\<close>)
qed

text \<open>
  What the action endpoint tells an agent framework, with both engines loaded. A request that fails
  a check gets an error. Otherwise an action that a CEL rule refuses is not allowed, and any other is
  allowed unless an enforcing AI rule answered with a denial. The risk level is "high" exactly for
  what is not allowed and "medium" exactly when an audit-only rule would have denied; all the rest
  is "low", also when the evaluation failed, and "unknown" is never reported.
\<close>

lemma action_endpoint_enforces:
  "let cfg' = cfg\<lparr> ah_Evaluator := Some (loaded_evaluator cenv cps cT aenv acfg aps sch aT maxMs) \<rparr> in
   case (action_accepted r, ho_reply (action_ServeHTTP cfg' T inTime r)) of
     (None, ErrorReply s e) \<Rightarrow> True
   | (Some req, Reply resp) \<Rightarrow>
       let call = toCallToolRequest req; v = action_evaluatePolicies cfg' (T 0 1) req in
       (if call_refused cenv cps call then \<not> avr_Allowed resp
        else avr_Allowed resp \<or> list_ex ai_denies (ai_answers aenv acfg aps call)) \<and>
       avr_RiskLevel resp = (if \<not> avr_Allowed resp then RiskLevelHigh
         else if AuditModeBypass v then RiskLevelMedium else RiskLevelLow)
   | _ \<Rightarrow> False"
proof -
  let ?e = "loaded_evaluator cenv cps cT aenv acfg aps sch aT maxMs"
  let ?cfg = "cfg\<lparr> ah_Evaluator := Some ?e \<rparr>"
  show ?thesis
  proof (cases rule: action_ServeHTTP_cases [of r ?cfg T inTime])
    case (refused s e)
    then show ?thesis by simp
  next
    case (evaluated req resp v ctx)
    let ?call = "toCallToolRequest req"
    have v: "v = pe_EvaluateToolCall (T 0 1) ?e ?call"
      by (simp add: evaluated(2) action_evaluatePolicies_def)
    have p: "policy_verdict (call_in_time cenv cps cT aT (newBlockingBudget (T 0 1) ?e) ?call) (call_refused cenv cps ?call) (ai_answers aenv acfg aps ?call) v"
      unfolding v by (rule tool_call_policy [OF refl])
    then have "deriveRiskLevel v =
        (if \<not> Allowed v then RiskLevelHigh else if AuditModeBypass v then RiskLevelMedium else RiskLevelLow)"
      using policy_verdictD(2) by (auto simp: deriveRiskLevel_def)
    with policy_verdictD(1) [OF p] evaluated(1,3,4,6) evaluated(2) [symmetric] show ?thesis
      by (simp add: Let_def)
  qed
qed

text \<open>
  Without an evaluator everything is allowed, at an unknown risk; and the parameters of an action
  reach the policies as the arguments of the call, except for one named \<^verbatim>\<open>_agent_context\<close>, which an
  action with a context loses.
\<close>

lemma no_evaluator_unknown:
  "ah_Evaluator cfg = None \<Longrightarrow> Allowed (action_evaluatePolicies cfg now req) \<and>
     deriveRiskLevel (action_evaluatePolicies cfg now req) = RiskLevelUnknown"
  by (simp add: action_evaluatePolicies_def no_evaluator_results_def no_results_def deriveRiskLevel_def)

lemma toCallToolRequest_parameter:
  "\<exists>args. Arguments (toCallToolRequest req) = DMap args \<and>
     (k = ''_agent_context'' \<or> map_of args k = map_of (avq_Parameters req) k)"
  by (cases "avq_Context req") (auto simp: toCallToolRequest_def update_conv Let_def)

end
