(* ===== verification/Intercept.thy ===== *)
theory Intercept
  imports HttpHandlers ResponseChain ToolNames
begin

text \<open>
  \<^verbatim>\<open>internal/gateway/intercept_handler.go\<close>: the interceptor endpoint, called before a tool call
  (phase "request") and with its result (phase "response"). A shell tool is put to the policies both
  as a command and as a tool call. The readings of the clock are points of \<open>T 0\<close>: 0 at the start, 1
  when the evaluator creates its budget, 2 when the entry is written, 3 when a late entry is built,
  4 when the reply is built.
\<close>

section \<open>Requests and replies\<close>

record InterceptContent =
  icn_Type :: string
  icn_Text :: string

record InterceptPayload =
  ipl_Name :: string
  ipl_Arguments :: "(string \<times> dyn) list option"
  ipl_Result :: "InterceptContent list option"

record InterceptPrincipal =
  ipr_Type :: string
  ipr_ID :: string

record InterceptContext =
  icx_Principal :: "InterceptPrincipal option"
  icx_TraceID :: string
  icx_SessionID :: string

record InterceptRequest =
  irq_Event :: string
  irq_Phase :: string
  irq_Payload :: InterceptPayload
  irq_Context :: "InterceptContext option"
  irq_WorkingDirectory :: "string option"

record InterceptMessage =
  img_Message :: string
  img_Severity :: string

record InterceptResponse =
  irs_Type :: string
  irs_Phase :: string
  irs_Valid :: bool
  irs_Severity :: string
  irs_Messages :: "InterceptMessage list"
  irs_Modified :: bool
  irs_Payload :: "InterceptPayload option"
  irs_DurationMs :: int
  irs_RequestID :: string
  irs_ServerVersion :: string
  irs_Results :: "CLIPolicyResult list"

text \<open>The evaluator is a pair of its request engines and its response chain, which may be nil.\<close>

type_synonym intercept_evaluator =
  "PolicyEvaluator \<times> (CallToolRequest \<Rightarrow> response_handler list) option"

record InterceptHandlerConfig =
  ih_Enabled :: bool
  ih_ShellToolNames :: "string list"
  ih_Version :: string
  ih_AuditWriter :: bool
  ih_Evaluator :: "intercept_evaluator option"
  ih_IncludeArgumentValues :: bool

section \<open>What is put to the policies\<close>

definition isShellTool :: "InterceptHandlerConfig \<Rightarrow> string \<Rightarrow> bool" where
  "isShellTool cfg name = List.member (ih_ShellToolNames cfg) name"

definition payloadToCallToolRequest :: "InterceptRequest \<Rightarrow> CallToolRequest" where
  "payloadToCallToolRequest req =
     \<lparr> Method = '''', ToolName = ipl_Name (irq_Payload req),
       Arguments = (case ipl_Arguments (irq_Payload req) of None \<Rightarrow> DNil | Some args \<Rightarrow> DMap args),
       Meta = None \<rparr>"

definition payloadToCallToolResult :: "InterceptRequest \<Rightarrow> CallToolResult" where
  "payloadToCallToolResult req =
     \<lparr> IsError = False,
       Content = (case ipl_Result (irq_Payload req) of
           None \<Rightarrow> []
         | Some items \<Rightarrow> map (\<lambda>c. TextContent (icn_Text c)) (filter (\<lambda>c. icn_Type c = ''text'') items)),
       ResultMeta = None \<rparr>"

definition parseShellCommand :: "InterceptRequest \<Rightarrow> CLIValidationRequest" where
  "parseShellCommand req =
     (let commandStr = (case ipl_Arguments (irq_Payload req) of
            None \<Rightarrow> ''''
          | Some args \<Rightarrow> (case map_of args ''command'' of Some (DString s) \<Rightarrow> s | _ \<Rightarrow> ''''));
          parts = Fields commandStr
      in \<lparr> Command = (case parts of [] \<Rightarrow> '''' | p # ps \<Rightarrow> p),
           CArguments = (case parts of [] \<Rightarrow> [] | p # ps \<Rightarrow> ps),
           WorkingDirectory = (case irq_WorkingDirectory req of Some d \<Rightarrow> d | None \<Rightarrow> ''''),
           ClientInfo = None \<rparr>)"

section \<open>Merging the two evaluations of a shell tool\<close>

definition mergeAuditRulesResults ::
  "AuditRulesResult option \<Rightarrow> AuditRulesResult option \<Rightarrow> AuditRulesResult option" where
  "mergeAuditRulesResults x y =
     (case x of None \<Rightarrow> y
      | Some a \<Rightarrow> (case y of None \<Rightarrow> x
      | Some b \<Rightarrow> Some
         \<lparr> ar_Action = (if ar_Action a = ''deny'' \<or> ar_Action b = ''deny'' then ''deny'' else ar_Action a),
           ar_BlockedMs = ar_BlockedMs a + ar_BlockedMs b,
           ar_EvaluationMs = ar_EvaluationMs a + ar_EvaluationMs b,
           ar_DecidingRule = (if ar_DecidingRule a \<noteq> '''' then ar_DecidingRule a
             else if ar_DecidingRule b \<noteq> '''' then ar_DecidingRule b else ''''),
           ar_Reason = (if ar_DecidingRule a \<noteq> '''' then ar_Reason a
             else if ar_DecidingRule b \<noteq> '''' then ar_Reason b else ''''),
           ar_Results = ar_Results a @ ar_Results b \<rparr>))"

definition mergeAuditAIResults :: "AuditAIResult option \<Rightarrow> AuditAIResult option \<Rightarrow> AuditAIResult option" where
  "mergeAuditAIResults x y =
     (case x of None \<Rightarrow> y
      | Some a \<Rightarrow> (case y of None \<Rightarrow> x
      | Some b \<Rightarrow> Some
         \<lparr> aai_Action = (if aai_Action a = ''deny'' \<or> aai_Action b = ''deny'' then ''deny'' else aai_Action a),
           aai_BlockedMs = aai_BlockedMs a + aai_BlockedMs b,
           aai_EvaluationMs = aai_EvaluationMs a + aai_EvaluationMs b,
           aai_DecidingRule = (if aai_DecidingRule a \<noteq> '''' then aai_DecidingRule a
             else if aai_DecidingRule b \<noteq> '''' then aai_DecidingRule b else ''''),
           aai_Reason = (if aai_DecidingRule a \<noteq> '''' then aai_Reason a
             else if aai_DecidingRule b \<noteq> '''' then aai_Reason b else ''''),
           aai_RequestID = '''',
           aai_Results = aai_Results a @ aai_Results b \<rparr>))"

definition mergeAsyncCompletions ::
  "AsyncCompletion option \<Rightarrow> AsyncCompletion option \<Rightarrow> AsyncCompletion option" where
  "mergeAsyncCompletions cli mcp =
     (if cli = None \<and> mcp = None then None
      else case cli of None \<Rightarrow> mcp
      | Some cliCompletion \<Rightarrow> (case mcp of None \<Rightarrow> cli
      | Some mcpCompletion \<Rightarrow> Some
         \<lparr> ac_AIDetails = mergeAuditAIResults (ac_AIDetails cliCompletion) (ac_AIDetails mcpCompletion),
           ac_EvaluationMs = ac_EvaluationMs cliCompletion + ac_EvaluationMs mcpCompletion \<rparr>))"

definition mergeShellResults :: "ValidationResults \<Rightarrow> ValidationResults \<Rightarrow> ValidationResults" where
  "mergeShellResults cliResults mcpResults =
     (let merged0 = no_results
            \<lparr> Allowed := True,
              Results := Results cliResults @ Results mcpResults,
              AllowCount := AllowCount cliResults + AllowCount mcpResults,
              DenyCount := DenyCount cliResults + DenyCount mcpResults,
              FailedOpen := FailedOpen cliResults \<or> FailedOpen mcpResults,
              AuditModeBypass := AuditModeBypass cliResults \<or> AuditModeBypass mcpResults,
              RulesDetails := mergeAuditRulesResults (RulesDetails cliResults) (RulesDetails mcpResults),
              AIDetails := mergeAuditAIResults (AIDetails cliResults) (AIDetails mcpResults),
              Async := mergeAsyncCompletions (Async cliResults) (Async mcpResults) \<rparr>;
          merged1 = (if \<not> Allowed cliResults
                     then merged0\<lparr> Allowed := False, Message := Message cliResults \<rparr> else merged0);
          merged2 = (if \<not> Allowed mcpResults
                     then merged1\<lparr> Allowed := False,
                       Message := (if Message merged1 = '''' then Message mcpResults else Message merged1) \<rparr>
                     else merged1);
          merged3 = (if \<not> Allowed merged2 then merged2\<lparr> AuditModeBypass := False \<rparr> else merged2)
      in if Message merged3 = ''''
         then merged3\<lparr> Message := (if Allowed merged3 then ''Tool call approved by policy''
                                   else ''Tool call denied by policy'') \<rparr>
         else merged3)"

definition evaluateRequest :: "InterceptHandlerConfig \<Rightarrow> int \<Rightarrow> InterceptRequest \<Rightarrow> ValidationResults" where
  "evaluateRequest cfg now req =
     (case ih_Evaluator cfg of
        None \<Rightarrow> no_evaluator_results
      | Some (e, chain) \<Rightarrow>
          if isShellTool cfg (ipl_Name (irq_Payload req))
          then (case pe_EvaluateShellCommand now e (parseShellCommand req) (payloadToCallToolRequest req) of
                  ((cliResults, mcpResults), b) \<Rightarrow> mergeShellResults cliResults mcpResults)
          else pe_EvaluateToolCall now e (payloadToCallToolRequest req))"

text \<open>
  \<^verbatim>\<open>PolicyEvaluator.EvaluateResponse\<close>. The context of the endpoint carries no budget, so the
  handlers run without one.
\<close>

definition pe_EvaluateResponse ::
  "(CallToolRequest \<Rightarrow> response_handler list) option \<Rightarrow> CallToolRequest \<Rightarrow> CallToolResult \<Rightarrow>
     ResponseValidationResults \<times> go_error option" where
  "pe_EvaluateResponse responseChain req result =
     (case responseChain of
        None \<Rightarrow> (no_response_results\<lparr> rAllowed := True, rMessage := ''No response validation configured'' \<rparr>, None)
      | Some handlers \<Rightarrow> (fst (fst (rchain_Handle (handlers req) result None)), None))"

section \<open>Replies\<close>

definition buildBaseResponse ::
  "InterceptHandlerConfig \<Rightarrow> clock \<Rightarrow> InterceptRequest \<Rightarrow> CLIValidationContext \<Rightarrow> bool \<Rightarrow> bool \<Rightarrow> string \<Rightarrow>
     CLIPolicyResult list \<Rightarrow> InterceptResponse" where
  "buildBaseResponse cfg T req valCtx allowed auditModeBypass message policyResults =
     (let severity = (if \<not> allowed then ''error'' else if auditModeBypass then ''warn'' else ''info'');
          messages = (if \<not> allowed \<or> auditModeBypass
                      then [\<lparr> img_Message = message, img_Severity = severity \<rparr>] else [])
      in \<lparr> irs_Type = ''validation'', irs_Phase = irq_Phase req, irs_Valid = allowed,
           irs_Severity = severity, irs_Messages = messages, irs_Modified = False, irs_Payload = None,
           irs_DurationMs = Milliseconds (T 0 4 - T 0 0), irs_RequestID = vc_RequestID valCtx,
           irs_ServerVersion = ih_Version cfg, irs_Results = policyResults \<rparr>)"

definition buildValidationResponse ::
  "InterceptHandlerConfig \<Rightarrow> clock \<Rightarrow> InterceptRequest \<Rightarrow> CLIValidationContext \<Rightarrow> ValidationResults \<Rightarrow>
     InterceptResponse" where
  "buildValidationResponse cfg T req ctx results =
     buildBaseResponse cfg T req ctx (Allowed results) (AuditModeBypass results) (Message results)
       (map (\<lambda>r. \<lparr> cpr_PolicyName = vr_PolicyName r, cpr_PolicyType = vr_PolicyType r,
                  cpr_Action = vr_Action r, cpr_Message = vr_Message r \<rparr>) (Results results))"

definition buildResponseResult ::
  "InterceptHandlerConfig \<Rightarrow> clock \<Rightarrow> InterceptRequest \<Rightarrow> CLIValidationContext \<Rightarrow>
     ResponseValidationResults \<Rightarrow> InterceptResponse" where
  "buildResponseResult cfg T req valCtx results =
     (let policyResults = map (\<lambda>r. \<lparr> cpr_PolicyName = rvr_PolicyName r, cpr_PolicyType = rvr_PolicyType r,
            cpr_Action = rvr_Action r, cpr_Message = rvr_Message r \<rparr>) (rResults results);
          resp = buildBaseResponse cfg T req valCtx (rAllowed results) (rAuditModeBypass results)
            (rMessage results) policyResults
      in case rRedactedContent results of
           None \<Rightarrow> resp
         | Some redacted \<Rightarrow> resp
             \<lparr> irs_Type := ''mutation'', irs_Modified := True,
               irs_Payload := Some \<lparr> ipl_Name = ipl_Name (irq_Payload req),
                 ipl_Arguments = ipl_Arguments (irq_Payload req),
                 ipl_Result = Some [\<lparr> icn_Type = ''text'', icn_Text = redacted \<rparr>] \<rparr> \<rparr>)"

section \<open>Audit entries\<close>

definition buildAuditToolInfo :: "InterceptHandlerConfig \<Rightarrow> InterceptRequest \<Rightarrow> AuditToolInfo" where
  "buildAuditToolInfo cfg req =
     (let prefixedName = ipl_Name (irq_Payload req)
      in \<lparr> ati_Name = (case ParsePrefixedName prefixedName of Inr (client, original) \<Rightarrow> original
                       | Inl e \<Rightarrow> prefixedName),
           ati_Client = '''', ati_PrefixedName = prefixedName,
           ati_Params = (if ih_IncludeArgumentValues cfg then ipl_Arguments (irq_Payload req) else None),
           ati_CalledAt = None, ati_DurationMs = None \<rparr>)"

definition buildAuditCLIInfo :: "InterceptHandlerConfig \<Rightarrow> InterceptRequest \<Rightarrow> AuditCLIInfo" where
  "buildAuditCLIInfo cfg req =
     (let parsed = parseShellCommand req
      in \<lparr> aci_Command = Command parsed,
           aci_Arguments = (if \<not> ih_IncludeArgumentValues cfg then extractCLIArgumentFlags (CArguments parsed)
                            else CArguments parsed),
           aci_WorkingDirectory = WorkingDirectory parsed, aci_ClientInfo = None \<rparr>)"

definition resolveClientID :: "CLIValidationContext \<Rightarrow> InterceptRequest \<Rightarrow> string" where
  "resolveClientID valCtx req =
     (if vc_ClientID valCtx \<noteq> '''' then vc_ClientID valCtx
      else case irq_Context req of
        Some c \<Rightarrow> (case icx_Principal c of Some p \<Rightarrow> ipr_ID p | None \<Rightarrow> '''')
      | None \<Rightarrow> '''')"

definition getTraceID :: "InterceptRequest \<Rightarrow> string" where
  "getTraceID req = (case irq_Context req of Some c \<Rightarrow> icx_TraceID c | None \<Rightarrow> '''')"

definition getSessionID :: "InterceptRequest \<Rightarrow> string" where
  "getSessionID req = (case irq_Context req of Some c \<Rightarrow> icx_SessionID c | None \<Rightarrow> '''')"

definition buildUpstreamRequestInfo ::
  "InterceptRequest http_request \<Rightarrow> CLIValidationContext \<Rightarrow> InterceptRequest \<Rightarrow> UpstreamRequestInfo" where
  "buildUpstreamRequestInfo r valCtx req =
     \<lparr> uri_RequestID = vc_RequestID valCtx, uri_ExternalID = getTraceID req,
       uri_ClientID = resolveClientID valCtx req, uri_SessionID = getSessionID req,
       uri_ClientIP = hr_RemoteAddr r, uri_UserAgent = hr_Header r ''User-Agent'' \<rparr>"

text \<open>What the entries of both phases share: the entry written at once, and the later one.\<close>

definition intercept_entry ::
  "InterceptHandlerConfig \<Rightarrow> clock \<Rightarrow> InterceptRequest http_request \<Rightarrow> CLIValidationContext \<Rightarrow>
     InterceptRequest \<Rightarrow> string \<Rightarrow> string \<Rightarrow> AuditEntry" where
  "intercept_entry cfg T r valCtx req action actionReason = blank_entry
     \<lparr> ae_Source := ''intercept'', ae_ValidationStarted := T 0 0, ae_CreatedAt := T 0 2,
       ae_Tool := Some (buildAuditToolInfo cfg req),
       ae_UpstreamRequest := buildUpstreamRequestInfo r valCtx req,
       ae_Action := action, ae_ActionReason := actionReason,
       ae_DurationMs := Milliseconds (T 0 2 - T 0 0) \<rparr>"

definition intercept_late_entry ::
  "InterceptHandlerConfig \<Rightarrow> clock \<Rightarrow> CLIValidationContext \<Rightarrow> InterceptRequest \<Rightarrow> string \<Rightarrow>
     AsyncCompletion \<Rightarrow> AuditEntry" where
  "intercept_late_entry cfg T valCtx req action completion = blank_entry
     \<lparr> ae_Source := ''intercept'', ae_ValidationStarted := T 0 0, ae_CreatedAt := T 0 3,
       ae_Tool := Some (buildAuditToolInfo cfg req),
       ae_UpstreamRequest := \<lparr> uri_RequestID = vc_RequestID valCtx @ ''-async'',
         uri_ExternalID = getTraceID req, uri_ClientID = resolveClientID valCtx req, uri_SessionID = '''',
         uri_ClientIP = '''', uri_UserAgent = '''' \<rparr>,
       ae_Action := action, ae_ActionReason := ''async_completion'',
       ae_DurationMs := ac_EvaluationMs completion \<rparr>"

definition writeRequestAuditEntry ::
  "InterceptHandlerConfig \<Rightarrow> clock \<Rightarrow> bool \<Rightarrow> InterceptRequest http_request \<Rightarrow> CLIValidationContext \<Rightarrow>
     InterceptRequest \<Rightarrow> string \<Rightarrow> string \<Rightarrow> ValidationResults \<Rightarrow> audit_write list" where
  "writeRequestAuditEntry cfg T inTime r valCtx req action actionReason results =
     (if \<not> ih_AuditWriter cfg then []
      else let entry = intercept_entry cfg T r valCtx req action actionReason;
               entry1 = (if isShellTool cfg (ipl_Name (irq_Payload req))
                         then entry\<lparr> ae_CLI := Some (buildAuditCLIInfo cfg req) \<rparr> else entry);
               entry2 = (if RulesDetails results \<noteq> None \<or> AIDetails results \<noteq> None
                         then entry1\<lparr> ae_RequestValidation :=
                           Some \<lparr> avi_CEL = RulesDetails results, avi_AI = AIDetails results \<rparr> \<rparr>
                         else entry1)
      in WrittenNow entry2 # async_entries inTime (Async results) (\<lambda>completion.
           (intercept_late_entry cfg T valCtx req action completion)
             \<lparr> ae_RequestValidation := Some \<lparr> avi_CEL = None, avi_AI = ac_AIDetails completion \<rparr> \<rparr>))"

definition writeResponseAuditEntry ::
  "InterceptHandlerConfig \<Rightarrow> clock \<Rightarrow> bool \<Rightarrow> InterceptRequest http_request \<Rightarrow> CLIValidationContext \<Rightarrow>
     InterceptRequest \<Rightarrow> string \<Rightarrow> string \<Rightarrow> ResponseValidationResults \<Rightarrow> audit_write list" where
  "writeResponseAuditEntry cfg T inTime r valCtx req action actionReason results =
     (if \<not> ih_AuditWriter cfg then []
      else let entry = intercept_entry cfg T r valCtx req action actionReason;
               entry1 = (if rRulesDetails results \<noteq> None \<or> rAIDetails results \<noteq> None
                         then entry\<lparr> ae_ResponseValidation :=
                           Some \<lparr> avi_CEL = rRulesDetails results, avi_AI = rAIDetails results \<rparr> \<rparr>
                         else entry)
      in WrittenNow entry1 # async_entries inTime (rAsync results) (\<lambda>completion.
           (intercept_late_entry cfg T valCtx req action completion)
             \<lparr> ae_ResponseValidation := Some \<lparr> avi_CEL = None, avi_AI = ac_AIDetails completion \<rparr> \<rparr>))"

section \<open>The handler\<close>

definition handleRequestPhase ::
  "InterceptHandlerConfig \<Rightarrow> clock \<Rightarrow> bool \<Rightarrow> InterceptRequest http_request \<Rightarrow> CLIValidationContext \<Rightarrow>
     InterceptRequest \<Rightarrow> InterceptResponse http_outcome" where
  "handleRequestPhase cfg T inTime r valCtx req =
     (let results = evaluateRequest cfg (T 0 1) req;
          action = action_text (Allowed results);
          actionReason = DeriveAuditActionReason (Allowed results) (AuditModeBypass results)
            (FailedOpen results) ActionReasonRequestPolicy
      in \<lparr> ho_reply = Reply (buildValidationResponse cfg T req valCtx results),
           ho_audit = writeRequestAuditEntry cfg T inTime r valCtx req action actionReason results \<rparr>)"

definition handleResponsePhase ::
  "InterceptHandlerConfig \<Rightarrow> clock \<Rightarrow> bool \<Rightarrow> InterceptRequest http_request \<Rightarrow> CLIValidationContext \<Rightarrow>
     InterceptRequest \<Rightarrow> InterceptResponse http_outcome" where
  "handleResponsePhase cfg T inTime r valCtx req =
     (case ih_Evaluator cfg of
        None \<Rightarrow> \<lparr> ho_reply = Reply (buildResponseResult cfg T req valCtx (no_response_results
                   \<lparr> rAllowed := True, rMessage := ''No response validation configured'' \<rparr>)),
                 ho_audit = [] \<rparr>
      | Some (e, chain) \<Rightarrow>
          let (evaluated, err) = pe_EvaluateResponse chain (payloadToCallToolRequest req)
                (payloadToCallToolResult req);
              results = (case err of None \<Rightarrow> evaluated
                | Some e' \<Rightarrow> evaluated\<lparr> rAllowed := True,
                    rMessage := ''Response evaluation failed, allowing (fail-open)'' \<rparr>);
              action = (if \<not> rAllowed results then ''deny''
                        else if rRedactedContent results \<noteq> None then ''redact'' else ''allow'');
              actionReason = DeriveAuditActionReason (rAllowed results) (rAuditModeBypass results)
                (rFailedOpen results) ActionReasonResponsePolicy
          in \<lparr> ho_reply = Reply (buildResponseResult cfg T req valCtx results),
               ho_audit = writeResponseAuditEntry cfg T inTime r valCtx req action actionReason results \<rparr>)"

definition intercept_ServeHTTP ::
  "InterceptHandlerConfig \<Rightarrow> clock \<Rightarrow> bool \<Rightarrow> InterceptRequest http_request \<Rightarrow> InterceptResponse http_outcome" where
  "intercept_ServeHTTP cfg T inTime r =
     (let ctx = extractHTTPContext r in
      if \<not> ih_Enabled cfg
      then rejected (writeError StatusBadRequest ''intercept_disabled'' ''Intercept endpoint not enabled'')
      else if \<not> hasJSONContentType r
      then rejected (writeError StatusUnsupportedMediaType ''invalid_content_type''
        ''Content-Type must be application/json'')
      else case hr_Body r of
        Inl err \<Rightarrow> rejected (writeError StatusBadRequest ''invalid_request'' (''Invalid JSON: '' @ error_text err))
      | Inr req \<Rightarrow>
      if irq_Event req = ''''
      then rejected (writeError StatusBadRequest ''missing_event'' ''event field is required'')
      else if irq_Event req \<noteq> ''tools/call''
      then rejected (writeError StatusBadRequest ''unsupported_event''
        ''Unsupported event type: only tools/call is supported'')
      else if irq_Phase req = ''''
      then rejected (writeError StatusBadRequest ''missing_phase'' ''phase field is required'')
      else if irq_Phase req \<noteq> ''request'' \<and> irq_Phase req \<noteq> ''response''
      then rejected (writeError StatusBadRequest ''invalid_phase'' ''phase must be request or response'')
      else if ipl_Name (irq_Payload req) = ''''
      then rejected (writeError StatusBadRequest ''missing_payload_name'' ''payload.name is required'')
      else if irq_Phase req = ''response'' \<and> ipl_Result (irq_Payload req) = None
      then rejected (writeError StatusBadRequest ''response_phase_missing_result''
        ''payload.result is required for response phase'')
      else if irq_Phase req = ''request'' then handleRequestPhase cfg T inTime r ctx req
      else handleResponsePhase cfg T inTime r ctx req)"

section \<open>Merging keeps every denial and every rule\<close>

lemma mergeShellResults_sel [simp]:
  "Allowed (mergeShellResults c m) = (Allowed c \<and> Allowed m)"
  "Results (mergeShellResults c m) = Results c @ Results m"
  "DenyCount (mergeShellResults c m) = DenyCount c + DenyCount m"
  "FailedOpen (mergeShellResults c m) = (FailedOpen c \<or> FailedOpen m)"
  "AuditModeBypass (mergeShellResults c m) =
     (Allowed c \<and> Allowed m \<and> (AuditModeBypass c \<or> AuditModeBypass m))"
  "RulesDetails (mergeShellResults c m) = mergeAuditRulesResults (RulesDetails c) (RulesDetails m)"
  "Async (mergeShellResults c m) = mergeAsyncCompletions (Async c) (Async m)"
  by (auto simp: mergeShellResults_def no_results_def Let_def)

lemma mergeShellResults_message: "Message (mergeShellResults c m) \<noteq> ''''"
  by (simp add: mergeShellResults_def Let_def)

text \<open>Merging audit details is associative, with nil as its unit.\<close>

lemma mergeAuditRulesResults_monoid:
  "mergeAuditRulesResults None y = y" "mergeAuditRulesResults x None = x"
  "mergeAuditRulesResults (mergeAuditRulesResults x y) z =
     mergeAuditRulesResults x (mergeAuditRulesResults y z)"
  by (auto simp: mergeAuditRulesResults_def split: option.splits)

text \<open>The merged record of two AI evaluations has the request identifier of neither.\<close>

lemma mergeAuditAIResults_drops_id:
  "map_option aai_RequestID (mergeAuditAIResults (Some a) (Some b)) = Some ''''"
  by (simp add: mergeAuditAIResults_def)

section \<open>What the handler does, by the request\<close>

definition intercept_accepted ::
  "InterceptHandlerConfig \<Rightarrow> InterceptRequest http_request \<Rightarrow> InterceptRequest option" where
  "intercept_accepted cfg r =
     (if ih_Enabled cfg \<and> hasJSONContentType r
      then (case hr_Body r of
          Inl e \<Rightarrow> None
        | Inr req \<Rightarrow>
            if irq_Event req = ''tools/call'' \<and> (irq_Phase req = ''request'' \<or> irq_Phase req = ''response'') \<and>
              ipl_Name (irq_Payload req) \<noteq> '''' \<and>
              (irq_Phase req = ''request'' \<or> ipl_Result (irq_Payload req) \<noteq> None)
            then Some req else None)
      else None)"

lemma intercept_ServeHTTP_cases:
  obtains (refused) s e where "intercept_accepted cfg r = None"
    "intercept_ServeHTTP cfg T inTime r = rejected (ErrorReply s e)"
  | (request_phase) req where "intercept_accepted cfg r = Some req" "irq_Phase req = ''request''"
    "intercept_ServeHTTP cfg T inTime r = handleRequestPhase cfg T inTime r (extractHTTPContext r) req"
  | (response_phase) req where "intercept_accepted cfg r = Some req" "irq_Phase req = ''response''"
    "intercept_ServeHTTP cfg T inTime r = handleResponsePhase cfg T inTime r (extractHTTPContext r) req"
proof (cases "intercept_accepted cfg r")
  case None
  have "is_rejection (intercept_ServeHTTP cfg T inTime r)"
  proof (cases "hr_Body r")
    case (Inl e)
    then show ?thesis by (simp add: intercept_ServeHTTP_def Let_def)
  next
    case (Inr req)
    with None have "ih_Enabled cfg \<Longrightarrow> hasJSONContentType r \<Longrightarrow> irq_Event req = ''tools/call'' \<Longrightarrow>
        irq_Phase req = ''request'' \<or> irq_Phase req = ''response'' \<Longrightarrow> ipl_Name (irq_Payload req) \<noteq> '''' \<Longrightarrow>
        irq_Phase req = ''response'' \<and> ipl_Result (irq_Payload req) = None"
      by (simp add: intercept_accepted_def split: if_splits)
    with Inr show ?thesis unfolding intercept_ServeHTTP_def Let_def by auto
  qed
  from is_rejectionD [OF this] have "\<exists>s e. intercept_ServeHTTP cfg T inTime r = rejected (ErrorReply s e)" .
  with None refused show thesis by blast
next
  case (Some req)
  then have a: "ih_Enabled cfg" "hasJSONContentType r" "hr_Body r = Inr req" "irq_Event req = ''tools/call''"
    "irq_Phase req = ''request'' \<or> irq_Phase req = ''response''" "ipl_Name (irq_Payload req) \<noteq> ''''"
    "irq_Phase req = ''request'' \<or> ipl_Result (irq_Payload req) \<noteq> None"
    by (auto simp: intercept_accepted_def split: sum.splits if_splits)
  show thesis
  proof (cases "irq_Phase req = ''request''")
    case True
    with a show thesis by (intro request_phase [OF Some]) (simp_all add: intercept_ServeHTTP_def Let_def)
  next
    case False
    with a show thesis by (intro response_phase [OF Some]) (auto simp: intercept_ServeHTTP_def Let_def)
  qed
qed

lemma buildBaseResponse_sel [simp]:
  "irs_Type (buildBaseResponse cfg T req c a m msg rs) = ''validation''"
  "irs_Valid (buildBaseResponse cfg T req c a m msg rs) = a"
  "irs_Payload (buildBaseResponse cfg T req c a m msg rs) = None"
  "irs_RequestID (buildBaseResponse cfg T req c a m msg rs) = vc_RequestID c"
  "irs_Severity (buildBaseResponse cfg T req c a m msg rs) =
     (if \<not> a then ''error'' else if m then ''warn'' else ''info'')"
  by (simp_all add: buildBaseResponse_def Let_def)

lemma buildResponseResult_sel [simp]:
  "irs_Type (buildResponseResult cfg T req c v) =
     (if rRedactedContent v = None then ''validation'' else ''mutation'')"
  "irs_Valid (buildResponseResult cfg T req c v) = rAllowed v"
  "irs_RequestID (buildResponseResult cfg T req c v) = vc_RequestID c"
  "irs_Payload (buildResponseResult cfg T req c v) = map_option (\<lambda>t.
     \<lparr> ipl_Name = ipl_Name (irq_Payload req), ipl_Arguments = ipl_Arguments (irq_Payload req),
       ipl_Result = Some [\<lparr> icn_Type = ''text'', icn_Text = t \<rparr>] \<rparr>) (rRedactedContent v)"
  by (simp_all add: buildResponseResult_def Let_def split: option.split)

text \<open>
  C8. The interceptor enforces the request policies. With both engines loaded, a tool call that the CEL
  rules refuse is reported as not valid; any other, when the AI rules answer in time, as valid exactly if no
  enforcing AI rule answered with a denial, and otherwise as not valid only if one did. A shell tool is
  put to them twice, first as a command and then as a call with what is left of the budget, and is valid
  only if neither is refused.
\<close>

theorem intercept_request_enforces:
  "let cfg' = cfg\<lparr> ih_Evaluator := Some (loaded_evaluator cenv cps cT aenv acfg aps sch aT maxMs, rchain) \<rparr> in
   case (intercept_accepted cfg r, ho_reply (intercept_ServeHTTP cfg' T inTime r)) of
     (None, ErrorReply s e) \<Rightarrow> True
   | (Some req, Reply resp) \<Rightarrow>
       if irq_Phase req = ''response'' then True
       else let call = payloadToCallToolRequest req; cmd = parseShellCommand req;
                shell = isShellTool cfg (ipl_Name (irq_Payload req));
                e = loaded_evaluator cenv cps cT aenv acfg aps sch aT maxMs; b0 = newBlockingBudget (T 0 1) e;
                b = (if shell then the (snd (evaluateCLICommandWithBudget (T 0 1) e cmd (Some b0))) else b0)
            in irs_Type resp = ''validation'' \<and>
              (if call_refused cenv cps call \<or> shell \<and> command_refused cenv cps cmd
               then \<not> irs_Valid resp
               else if call_in_time cenv cps cT aT b call \<and> (if shell then command_in_time cenv cps cT aT b0 cmd else True)
               then irs_Valid resp \<longleftrightarrow> \<not> (list_ex ai_denies (ai_answers aenv acfg aps call) \<or>
                 shell \<and> list_ex ai_denies (ai_cli_answers aenv acfg aps cmd))
               else irs_Valid resp \<or> list_ex ai_denies (ai_answers aenv acfg aps call) \<or>
                 shell \<and> list_ex ai_denies (ai_cli_answers aenv acfg aps cmd))
   | _ \<Rightarrow> False"
proof -
  let ?e = "loaded_evaluator cenv cps cT aenv acfg aps sch aT maxMs"
  let ?cfg = "cfg\<lparr> ih_Evaluator := Some (?e, rchain) \<rparr>"
  have same: "intercept_accepted ?cfg r = intercept_accepted cfg r" "isShellTool ?cfg n = isShellTool cfg n" for n
    by (simp_all add: intercept_accepted_def isShellTool_def)
  show ?thesis
  proof (cases rule: intercept_ServeHTTP_cases [of ?cfg r T inTime])
    case (refused s e)
    then show ?thesis by (simp add: same)
  next
    case (response_phase req)
    then show ?thesis by (simp add: same handleResponsePhase_def Let_def split: prod.split)
  next
    case (request_phase req)
    let ?call = "payloadToCallToolRequest req" and ?cmd = "parseShellCommand req"
    let ?shell = "isShellTool cfg (ipl_Name (irq_Payload req))"
    let ?bud = "newBlockingBudget (T 0 1) ?e"
    let ?left = "if ?shell then the (snd (evaluateCLICommandWithBudget (T 0 1) ?e ?cmd (Some ?bud))) else ?bud"
    have v: "if call_refused cenv cps ?call \<or> ?shell \<and> command_refused cenv cps ?cmd
        then \<not> Allowed (evaluateRequest ?cfg (T 0 1) req)
        else if call_in_time cenv cps cT aT ?left ?call \<and> (if ?shell then command_in_time cenv cps cT aT ?bud ?cmd else True)
        then Allowed (evaluateRequest ?cfg (T 0 1) req) \<longleftrightarrow> \<not> (list_ex ai_denies (ai_answers aenv acfg aps ?call) \<or>
          ?shell \<and> list_ex ai_denies (ai_cli_answers aenv acfg aps ?cmd))
        else Allowed (evaluateRequest ?cfg (T 0 1) req) \<or> list_ex ai_denies (ai_answers aenv acfg aps ?call) \<or>
          ?shell \<and> list_ex ai_denies (ai_cli_answers aenv acfg aps ?cmd)"
    proof (cases ?shell)
      case True
      obtain c t b b1 where s: "pe_EvaluateShellCommand (T 0 1) ?e ?cmd ?call = ((c, t), b)"
        "policy_verdict (command_in_time cenv cps cT aT ?bud ?cmd) (command_refused cenv cps ?cmd) (ai_cli_answers aenv acfg aps ?cmd) c"
        "snd (evaluateCLICommandWithBudget (T 0 1) ?e ?cmd (Some ?bud)) = Some b1"
        "policy_verdict (call_in_time cenv cps cT aT b1 ?call) (call_refused cenv cps ?call) (ai_answers aenv acfg aps ?call) t"
        by (rule shell_policy [OF refl])
      with True have "evaluateRequest ?cfg (T 0 1) req = mergeShellResults c t"
        by (simp add: evaluateRequest_def same)
      with policy_verdictD(3) [OF s(2)] policy_verdictD(3) [OF s(4)] True s(3) show ?thesis
        by (auto simp del: One_nat_def split: if_splits)
    next
      case False
      then have "evaluateRequest ?cfg (T 0 1) req = pe_EvaluateToolCall (T 0 1) ?e ?call"
        by (simp add: evaluateRequest_def same)
      with policy_verdictD(3) [OF tool_call_policy [OF refl, where req = ?call and now = "T 0 (Suc 0)" and
            cenv = cenv and cps = cps and aenv = aenv and cfg = acfg and
            aps = aps and cT = cT and sch = sch and aT = aT and maxMs = maxMs]] False
      show ?thesis by simp
    qed
    let ?resp = "buildValidationResponse ?cfg T req (extractHTTPContext r) (evaluateRequest ?cfg (T 0 1) req)"
    have reply: "ho_reply (intercept_ServeHTTP ?cfg T inTime r) = Reply ?resp"
      using request_phase(3) by (simp add: handleRequestPhase_def Let_def)
    have out: "irs_Type ?resp = ''validation''" "irs_Valid ?resp = Allowed (evaluateRequest ?cfg (T 0 1) req)"
      by (simp_all add: buildValidationResponse_def)
    show ?thesis
      unfolding Let_def reply using v request_phase(1,2) by (simp add: same out del: One_nat_def)
  qed
qed

lemma screened_reply:
  assumes "rAllowed f \<longleftrightarrow> ok \<and> \<not> list_ex rr_denies rs" and c: "chosen_text rs red (rRedactedContent f)"
  shows "let resp = buildResponseResult cfg T req c f;
             plain = (irs_Type resp = ''validation'' \<and> irs_Payload resp = None)
         in (irs_Valid resp \<longleftrightarrow> ok \<and> \<not> list_ex rr_denies rs) \<and>
           (if red = None \<and> \<not> list_ex rr_redacts rs then plain
            else if irs_Valid resp
            then irs_Type resp = ''mutation'' \<and>
              (\<exists>t. chosen_text rs red (Some t) \<and>
                map_option ipl_Result (irs_Payload resp) = Some (Some [\<lparr> icn_Type = ''text'', icn_Text = t \<rparr>]))
            else True)"
proof (cases "red = None \<and> \<not> list_ex rr_redacts rs")
  case True
  with c have "rRedactedContent f = None" by (simp add: chosen_text_def)
  with True assms(1) show ?thesis by (simp add: Let_def)
next
  case False
  have "\<exists>t. rRedactedContent f = Some t" if "rAllowed f"
    using c that assms(1) False by (auto simp: chosen_text_def list_ex_iff split: if_splits)
  with False assms show ?thesis by (auto simp: Let_def)
qed

text \<open>
  C9. The interceptor applies the response policies. A result is reported as valid exactly when neither
  the CEL response rules nor an enforcing AI rule, shown the result as the CEL rules redact it, denies
  it. A denied result that no rule redacts is answered with a validation without a payload. A valid one
  is answered with a mutation exactly if a rule redacts it, and its payload then holds the redacted
  text: that of the CEL rules, or the text an enforcing AI redact rule gave; otherwise it is answered
  with a validation without a payload.
\<close>

theorem intercept_response_screened:
  "let cfg' = cfg\<lparr> ih_Evaluator := Some (e, Some (\<lambda>q.
         [\<lambda>result. celr_EvaluateResponse env lib rps q result rT, \<lambda>result. air_engine renv rcfg arps result sch arT])) \<rparr> in
   case (intercept_accepted cfg r, ho_reply (intercept_ServeHTTP cfg' T inTime r)) of
     (None, ErrorReply s e) \<Rightarrow> True
   | (Some req, Reply resp) \<Rightarrow>
       if irq_Phase req = ''request'' then True
       else let raw = payloadToCallToolResult req;
                oc = response_outcome env (response_vars (payloadToCallToolRequest req) raw);
                red = cel_redaction lib (getTextContent raw) oc rps;
                answers = air_answers renv rcfg arps (redact_result red raw) None;
                plain = (irs_Type resp = ''validation'' \<and> irs_Payload resp = None)
            in (irs_Valid resp \<longleftrightarrow> \<not> cel_denies_response oc rps \<and> \<not> list_ex rr_denies answers) \<and>
               (if red = None \<and> \<not> list_ex rr_redacts answers then plain
                else if irs_Valid resp
                then irs_Type resp = ''mutation'' \<and>
                  (\<exists>t. chosen_text answers red (Some t) \<and>
                    map_option ipl_Result (irs_Payload resp) = Some (Some [\<lparr> icn_Type = ''text'', icn_Text = t \<rparr>]))
                else True)
   | _ \<Rightarrow> False"
proof -
  let ?cr = "\<lambda>q result. celr_EvaluateResponse env lib rps q result rT"
  let ?ar = "\<lambda>result. air_engine renv rcfg arps result sch arT"
  let ?cfg = "cfg\<lparr> ih_Evaluator := Some (e, Some (\<lambda>q. [?cr q, ?ar])) \<rparr>"
  have same: "intercept_accepted ?cfg r = intercept_accepted cfg r" by (simp add: intercept_accepted_def)
  show ?thesis
  proof (cases rule: intercept_ServeHTTP_cases [of ?cfg r T inTime])
    case (refused s e)
    then show ?thesis by (simp add: same)
  next
    case (request_phase req)
    then show ?thesis by (simp add: same handleRequestPhase_def Let_def)
  next
    case (response_phase req)
    let ?q = "payloadToCallToolRequest req" and ?raw = "payloadToCallToolResult req"
    let ?oc = "response_outcome env (response_vars ?q ?raw)"
    let ?red = "cel_redaction lib (getTextContent ?raw) ?oc rps"
    let ?answers = "air_answers renv rcfg arps (redact_result ?red ?raw) None"
    obtain f cur b' where f: "rchain_Handle [?cr ?q, ?ar] ?raw None = ((f, cur), b')" by (metis surj_pair)
    obtain b1 where "budget_step_opt None b1"
      "rAllowed f \<longleftrightarrow> \<not> cel_denies_response ?oc rps \<and>
         \<not> list_ex rr_denies (air_answers renv rcfg arps (redact_result ?red ?raw) b1)"
      "chosen_text (air_answers renv rcfg arps (redact_result ?red ?raw) b1) ?red (rRedactedContent f)"
      by (rule loaded_response_verdict [OF refl refl f refl refl])
    then have v: "rAllowed f \<longleftrightarrow> \<not> cel_denies_response ?oc rps \<and> \<not> list_ex rr_denies ?answers"
      "chosen_text ?answers ?red (rRedactedContent f)"
      by (simp_all add: budget_step_opt_def)
    have reply: "ho_reply (intercept_ServeHTTP ?cfg T inTime r) =
        Reply (buildResponseResult ?cfg T req (extractHTTPContext r) f)"
      using response_phase(3) f by (simp add: handleResponsePhase_def pe_EvaluateResponse_def Let_def)
    have ph: "(irq_Phase req = ''request'') = False" using response_phase(2) by simp
    show ?thesis
      using screened_reply [OF v, of ?cfg T req "extractHTTPContext r"]
      unfolding Let_def reply response_phase(1) [unfolded same] ph option.case prod.case http_reply.case if_False .
  qed
qed

text \<open>
  Every evaluated interception is on record, and nothing else is: with an audit writer, one entry at
  once and at most one later, all with the action of the reply ("deny", "redact" or "allow") and its
  identifier. A rejected request leaves no entry, and neither does the response phase of a gateway
  without an evaluator.
\<close>

lemma intercept_audited:
  "let out = intercept_ServeHTTP cfg T inTime r in
   case ho_reply out of
     ErrorReply s e \<Rightarrow> ho_audit out = []
   | Reply resp \<Rightarrow>
       if ih_AuditWriter cfg \<and> \<not> (ih_Evaluator cfg = None \<and> irs_Phase resp = ''response'')
       then (case map written_entry (ho_audit out) of
           e # late \<Rightarrow> length late \<le> 1 \<and>
             uri_RequestID (ae_UpstreamRequest e) = irs_RequestID resp \<and>
             list_all (\<lambda>l. uri_RequestID (ae_UpstreamRequest l) = irs_RequestID resp @ ''-async'') late \<and>
             list_all (\<lambda>l. ae_Action l = (if \<not> irs_Valid resp then ''deny''
               else if irs_Type resp = ''mutation'' then ''redact'' else ''allow'')) (e # late)
         | [] \<Rightarrow> False)
       else ho_audit out = []"
proof (cases rule: intercept_ServeHTTP_cases [of cfg r T inTime])
  case (refused s e)
  then show ?thesis by simp
next
  case (request_phase req)
  let ?v = "evaluateRequest cfg (T 0 1) req"
  have "irs_Phase (buildValidationResponse cfg T req c ?v) = ''request''" for c
    using request_phase(2) by (simp add: buildValidationResponse_def buildBaseResponse_def Let_def)
  with request_phase(3) show ?thesis
    by (cases "Async ?v")
      (simp_all add: handleRequestPhase_def writeRequestAuditEntry_def intercept_entry_def
        intercept_late_entry_def blank_entry_def buildUpstreamRequestInfo_def buildValidationResponse_def
        action_text_def async_entries_def WriteAsyncAuditCompletion_def Let_def)
next
  case (response_phase req)
  have p: "irs_Phase (buildResponseResult cfg T req c v) = ''response''" for c v
    using response_phase(2) by (simp add: buildResponseResult_def buildBaseResponse_def Let_def split: option.split)
  show ?thesis
  proof (cases "ih_Evaluator cfg")
    case None
    with p response_phase(3) show ?thesis by (simp add: handleResponsePhase_def)
  next
    case (Some ec)
    obtain v where v: "pe_EvaluateResponse (snd ec) (payloadToCallToolRequest req) (payloadToCallToolResult req) = (v, None)"
      by (cases "snd ec") (auto simp: pe_EvaluateResponse_def)
    with Some response_phase(3) show ?thesis
      by (cases ec; cases "rAsync v")
        (simp_all add: handleResponsePhase_def writeResponseAuditEntry_def intercept_entry_def
          intercept_late_entry_def blank_entry_def buildUpstreamRequestInfo_def
          async_entries_def WriteAsyncAuditCompletion_def Let_def)
  qed
qed

end
