(* ===== verification/TrustedProxy.thy ===== *)
theory TrustedProxy
  imports Prelude "HOL-Library.Word"
begin

unbundle bit_operations_syntax

text \<open>
  \<^verbatim>\<open>internal/gateway/trusted_proxy.go\<close>: which address a request is attributed to when proxies
  stand in between. The address functions of Go's standard library the file calls come first; an
  address is its 16-byte form, a \<^typ>\<open>128 word\<close>, in which an IPv4 address is mapped (as
  \<^verbatim>\<open>net.ParseIP\<close> returns it). The map from the texts of single addresses is the list of the
  addresses: two addresses have the same text exactly when they are equal.
\<close>

section \<open>Addresses of the standard library\<close>

type_synonym ip = "128 word"

definition digit :: "char \<Rightarrow> int option" where
  "digit c = (let n = of_char c in if 48 \<le> n \<and> n \<le> 57 then Some (n - 48) else None)"

definition hex_digit :: "char \<Rightarrow> int option" where
  "hex_digit c = (let n = of_char c in
     if 48 \<le> n \<and> n \<le> 57 then Some (n - 48)
     else if 97 \<le> n \<and> n \<le> 102 then Some (n - 87)
     else if 65 \<le> n \<and> n \<le> 70 then Some (n - 55) else None)"

text \<open>Four decimal fields up to 255 without leading zeros; \<open>dl\<close> counts the digits of a field.\<close>

fun parse_v4 :: "int list \<Rightarrow> int \<Rightarrow> nat \<Rightarrow> string \<Rightarrow> int list option" where
  "parse_v4 fs val dl [] = (if dl \<noteq> 0 \<and> length fs = 3 then Some (fs @ [val]) else None)"
| "parse_v4 fs val dl (c # s) =
     (case digit c of
        Some d \<Rightarrow> if dl = 1 \<and> val = 0 then None
          else if val * 10 + d > 255 then None else parse_v4 fs (val * 10 + d) (dl + 1) s
      | None \<Rightarrow> if c = CHR ''.''
          then if dl = 0 \<or> s = [] \<or> length fs = 3 then None else parse_v4 (fs @ [val]) 0 0 s
          else None)"

lemma tail_shorter:
  "c # s1 = dropWhile P s \<Longrightarrow> length s1 < length s"
  using length_dropWhile_le [of P s] by (metis Suc_le_eq length_Cons)

text \<open>Fields of up to four hexadecimal digits, one "::", and possibly a dotted tail.\<close>

function parse_v6 :: "int list \<Rightarrow> nat option \<Rightarrow> string \<Rightarrow> (int list \<times> nat option) option" where
  "parse_v6 fs ellipsis s =
     (if length fs = 8 then (if s = [] then Some (fs, ellipsis) else None)
      else let ds = takeWhile (\<lambda>c. hex_digit c \<noteq> None) s;
               rest = dropWhile (\<lambda>c. hex_digit c \<noteq> None) s;
               acc = foldl (\<lambda>a c. a * 16 + the (hex_digit c)) 0 ds
      in if ds = [] \<or> length ds > 4 then None
      else case rest of
        [] \<Rightarrow> Some (fs @ [acc], ellipsis)
      | c # s1 \<Rightarrow>
          if c = CHR ''.''
          then (if ellipsis = None \<and> length fs \<noteq> 6 \<or> length fs > 6 then None
                else map_option (\<lambda>q. (fs @ [q ! 0 * 256 + q ! 1, q ! 2 * 256 + q ! 3], ellipsis))
                       (parse_v4 [] 0 0 s))
          else if c \<noteq> CHR '':'' \<or> s1 = [] then None
          else if hd s1 = CHR '':''
          then (if ellipsis \<noteq> None then None
                else if tl s1 = [] then Some (fs @ [acc], Some (length fs + 1))
                else parse_v6 (fs @ [acc]) (Some (length fs + 1)) (tl s1))
          else parse_v6 (fs @ [acc]) ellipsis s1)"
  by pat_completeness auto

termination
  by (relation "measure (\<lambda>(fs, e, s). length s)")
    (auto dest: tail_shorter intro: le_less_trans [OF diff_le_self])

declare parse_v6.simps [simp del]

definition v6_fields :: "string \<Rightarrow> int list option" where
  "v6_fields s =
     (let start = (if take 2 s = ''::'' then (Some 0, drop 2 s) else (None, s)) in
      if take 2 s = ''::'' \<and> drop 2 s = [] then Some (replicate 8 0)
      else case parse_v6 [] (fst start) (snd start) of
        None \<Rightarrow> None
      | Some (fs, ellipsis) \<Rightarrow>
          if length fs < 8
          then (case ellipsis of None \<Rightarrow> None
                | Some e \<Rightarrow> Some (take e fs @ replicate (8 - length fs) 0 @ drop e fs))
          else (if ellipsis \<noteq> None then None else Some fs))"

definition ip_of_v4 :: "int list \<Rightarrow> ip" where
  "ip_of_v4 fs = word_of_int (0xffff * 2 ^ 32 + foldl (\<lambda>a f. a * 256 + f) 0 fs)"

definition ip_of_v6 :: "int list \<Rightarrow> ip" where
  "ip_of_v6 fs = word_of_int (foldl (\<lambda>a f. a * 65536 + f) 0 fs)"

text \<open>\<^verbatim>\<open>netip.ParseAddr\<close>, without zones: the address, and whether it was written as IPv4.\<close>

definition ParseAddr :: "string \<Rightarrow> (ip \<times> bool) option" where
  "ParseAddr s =
     (case find (\<lambda>c. c \<in> {CHR ''.'', CHR '':'', CHR ''%''}) s of
        None \<Rightarrow> None
      | Some c \<Rightarrow>
          if c = CHR ''.'' then map_option (\<lambda>fs. (ip_of_v4 fs, True)) (parse_v4 [] 0 0 s)
          else if c = CHR '':''
          then (if CHR ''%'' \<in> set s then None
                else map_option (\<lambda>fs. (ip_of_v6 fs, False)) (v6_fields s))
          else None)"

definition ParseIP :: "string \<Rightarrow> ip option" where
  "ParseIP s = map_option fst (ParseAddr s)"

definition is4 :: "ip \<Rightarrow> bool" where
  "is4 a \<longleftrightarrow> drop_bit 32 a = 0xffff"

text \<open>A block: its masked address and the length of its prefix in the 128-bit form.\<close>

record IPNet =
  net_IP :: ip
  net_prefix :: nat

definition prefix_mask :: "nat \<Rightarrow> ip" where
  "prefix_mask n = NOT (mask (128 - n))"

definition ParseCIDR :: "string \<Rightarrow> IPNet option" where
  "ParseCIDR s =
     (let addr = takeWhile (\<lambda>c. c \<noteq> CHR ''/'') s; m = drop (length addr + 1) s in
      if CHR ''/'' \<notin> set s then None
      else case ParseAddr addr of
        None \<Rightarrow> None
      | Some (a, v4) \<Rightarrow>
          if m = [] \<or> list_ex (\<lambda>c. digit c = None) m then None
          else let n = foldl (\<lambda>x c. x * 10 + the (digit c)) 0 m;
                   p = nat (if v4 then 96 + n else n)
               in if p > 128 then None
                  else Some \<lparr> net_IP = a AND prefix_mask p, net_prefix = p \<rparr>)"

definition IPNet_Contains :: "IPNet \<Rightarrow> ip \<Rightarrow> bool" where
  "IPNet_Contains n a \<longleftrightarrow> is4 (net_IP n) = is4 a \<and>
     net_IP n AND prefix_mask (net_prefix n) = a AND prefix_mask (net_prefix n)"

section \<open>The checker\<close>

record TrustedProxyChecker =
  tp_nets :: "IPNet list"
  tp_ips :: "ip list"
  tp_trustAll :: bool

definition tp_add :: "string \<Rightarrow> TrustedProxyChecker \<Rightarrow> TrustedProxyChecker" where
  "tp_add entry0 checker =
     (let entry = TrimSpace entry0 in
      if entry = '''' then checker
      else case ParseCIDR entry of
        Some ipNet \<Rightarrow> checker\<lparr> tp_nets := tp_nets checker @ [ipNet] \<rparr>
      | None \<Rightarrow> (case ParseIP entry of
          Some a \<Rightarrow> checker\<lparr> tp_ips := tp_ips checker @ [a] \<rparr>
        | None \<Rightarrow> checker))"

definition NewTrustedProxyChecker :: "string list \<Rightarrow> TrustedProxyChecker" where
  "NewTrustedProxyChecker trustedProxies =
     (let checker = \<lparr> tp_nets = [], tp_ips = [], tp_trustAll = (length trustedProxies = 0) \<rparr>
      in if tp_trustAll checker then checker else fold tp_add trustedProxies checker)"

definition IsTrusted :: "TrustedProxyChecker \<Rightarrow> string \<Rightarrow> bool" where
  "IsTrusted c ipStr =
     (if tp_trustAll c then True
      else case ParseIP (TrimSpace ipStr) of
        None \<Rightarrow> False
      | Some a \<Rightarrow> if List.member (tp_ips c) a then True
          else list_ex (\<lambda>n. IPNet_Contains n a) (tp_nets c))"

text \<open>
  The host of a \<^verbatim>\<open>host:port\<close> pair, as \<^verbatim>\<open>net.SplitHostPort\<close> finds it when the text does not
  start with a bracket.
\<close>

definition split_host :: "string \<Rightarrow> string option" where
  "split_host s =
     (let host = rev (tl (dropWhile (\<lambda>c. c \<noteq> CHR '':'') (rev s))) in
      if CHR '':'' \<notin> set s \<or> CHR '':'' \<in> set host \<or> CHR ''['' \<in> set s \<or> CHR '']'' \<in> set s then None
      else Some host)"

definition parseRemoteAddr :: "string \<Rightarrow> string" where
  "parseRemoteAddr remoteAddr =
     (if remoteAddr = '''' then ''''
      else if HasPrefix remoteAddr ''['' \<and> CHR '']'' \<in> set remoteAddr
      then takeWhile (\<lambda>c. c \<noteq> CHR '']'') (tl remoteAddr)
      else case split_host remoteAddr of None \<Rightarrow> remoteAddr | Some host \<Rightarrow> host)"

definition ExtractClientIP :: "TrustedProxyChecker \<Rightarrow> string \<Rightarrow> string \<Rightarrow> string \<Rightarrow> string" where
  "ExtractClientIP c xff xRealIP remoteAddr =
     (let directIP = parseRemoteAddr remoteAddr in
      if xff = '''' then (if xRealIP \<noteq> '''' then TrimSpace xRealIP else directIP)
      else let cleanIPs = comma_list xff in
      if length cleanIPs = 0 then (if xRealIP \<noteq> '''' then TrimSpace xRealIP else directIP)
      else if tp_trustAll c then cleanIPs ! 0
      else case find (\<lambda>a. \<not> IsTrusted c a) (rev cleanIPs) of
        Some a \<Rightarrow> a
      | None \<Rightarrow> cleanIPs ! 0)"

section \<open>What is trusted\<close>

lemma tp_fold_nets: "tp_nets (fold tp_add es c) = tp_nets c @ List.map_filter (\<lambda>e.
    if TrimSpace e = '''' then None else ParseCIDR (TrimSpace e)) es"
  by (induction es arbitrary: c) (auto simp: tp_add_def Let_def map_filter_simps split: option.split)

lemma tp_fold_ips: "tp_ips (fold tp_add es c) = tp_ips c @ List.map_filter (\<lambda>e.
    if TrimSpace e = '''' \<or> ParseCIDR (TrimSpace e) \<noteq> None then None else ParseIP (TrimSpace e)) es"
  by (induction es arbitrary: c) (auto simp: tp_add_def Let_def map_filter_simps split: option.split)

lemma tp_fold_trustAll [simp]: "tp_trustAll (fold tp_add es c) = tp_trustAll c"
  by (induction es arbitrary: c) (auto simp: tp_add_def Let_def split: option.split)

text \<open>An entry covers an address: as a block that contains it, or else as the address itself.\<close>

definition entry_covers :: "string \<Rightarrow> ip \<Rightarrow> bool" where
  "entry_covers e a \<longleftrightarrow> TrimSpace e \<noteq> '''' \<and>
     (case ParseCIDR (TrimSpace e) of Some n \<Rightarrow> IPNet_Contains n a
      | None \<Rightarrow> ParseIP (TrimSpace e) = Some a)"

lemma trusted_iff_covered:
  "IsTrusted (NewTrustedProxyChecker es) s \<longleftrightarrow>
     es = [] \<or> (case ParseIP (TrimSpace s) of None \<Rightarrow> False | Some a \<Rightarrow> list_ex (\<lambda>e. entry_covers e a) es)"
proof (cases es)
  case Nil
  then show ?thesis by (simp add: IsTrusted_def NewTrustedProxyChecker_def)
next
  case (Cons e es')
  let ?c = "fold tp_add es \<lparr> tp_nets = [], tp_ips = [], tp_trustAll = False \<rparr>"
  have new: "NewTrustedProxyChecker es = ?c" using Cons by (simp add: NewTrustedProxyChecker_def)
  have covered: "(a \<in> set (tp_ips ?c) \<or> (\<exists>n \<in> set (tp_nets ?c). IPNet_Contains n a)) =
      (\<exists>e \<in> set es. entry_covers e a)" for a
    unfolding tp_fold_nets tp_fold_ips entry_covers_def
    by (induction es) (auto simp: map_filter_simps split: option.splits if_splits)
  have "es \<noteq> []" using Cons by simp
  moreover have "\<not> tp_trustAll ?c" by simp
  ultimately show ?thesis
    unfolding new using covered by (cases "ParseIP (TrimSpace s)") (auto simp: IsTrusted_def list_ex_iff)
qed

section \<open>Forged headers\<close>

lemma find_append: "find P (xs @ ys) = (case find P xs of None \<Rightarrow> find P ys | Some x \<Rightarrow> Some x)"
  by (induction xs) auto

lemma find_SomeD: "find P xs = Some x \<Longrightarrow> P x \<and> x \<in> set xs"
  by (metis find_Some_iff nth_mem)

text \<open>
  C12. Behind trusted proxies, what a caller puts in front of the forwarding header does not count. When
  the part of the header that the proxies wrote names an address that is no trusted proxy, the request
  is attributed to such an address of that part, and whatever stands in front of it, in the other
  header or is the address of the peer changes nothing. Nothing is said of a header whose trustworthy
  part names trusted proxies only, or of a peer that is no proxy: the address of the peer is not compared.
\<close>

theorem client_ip_spoof_resistant:
  "let c = NewTrustedProxyChecker proxies; ip = ExtractClientIP c xff xRealIP remoteAddr in
   if list_ex (\<lambda>a. \<not> IsTrusted c a) (comma_list xff)
   then \<not> IsTrusted c ip \<and> ip \<in> set (comma_list xff) \<and>
     ExtractClientIP c (forged @ '','' @ xff) otherRealIP otherAddr = ip
   else True"
proof -
  let ?c = "NewTrustedProxyChecker proxies"
  have "\<not> IsTrusted ?c ip \<and> ip \<in> set (comma_list xff) \<and>
      ExtractClientIP ?c (forged @ '','' @ xff) otherRealIP otherAddr = ip"
    if "list_ex (\<lambda>a. \<not> IsTrusted ?c a) (comma_list xff)" "ip = ExtractClientIP ?c xff xRealIP remoteAddr" for ip
  proof -
    from that(1) have t: "\<not> tp_trustAll ?c" "comma_list xff \<noteq> []"
      by (auto simp: list_ex_iff IsTrusted_def)
    have x: "xff \<noteq> ''''" using t(2) by (auto simp: comma_list_def trimmed_parts_def TrimSpace_def)
    have "find (\<lambda>a. \<not> IsTrusted ?c a) (rev (comma_list xff)) \<noteq> None"
      using that(1) by (auto simp: find_None_iff list_ex_iff simp del: not_None_eq)
    then obtain a where a: "find (\<lambda>a. \<not> IsTrusted ?c a) (rev (comma_list xff)) = Some a" by blast
    with t x have "ExtractClientIP ?c xff xRealIP remoteAddr = a" by (simp add: ExtractClientIP_def Let_def)
    moreover have "ExtractClientIP ?c (forged @ '','' @ xff) otherRealIP otherAddr = a"
      using a t comma_list_append [of forged xff] by (simp add: ExtractClientIP_def Let_def find_append)
    ultimately show ?thesis using that(2) find_SomeD [OF a] by simp
  qed
  then show ?thesis by (simp add: Let_def)
qed

text \<open>
  The header itself is believed whoever sends it: the peer of the connection is never compared with
  the trusted proxies, so a caller that connects directly is attributed to the address it names.
\<close>

definition one_proxy :: "string list" where "one_proxy = [''10.0.0.0/8'']"

lemma direct_peer_believed:
  "\<not> IsTrusted (NewTrustedProxyChecker one_proxy) (parseRemoteAddr ''203.0.113.9:5000'') \<and>
   ExtractClientIP (NewTrustedProxyChecker one_proxy) ''198.51.100.1'' '''' ''203.0.113.9:5000'' = ''198.51.100.1''"
  by code_simp

lemma trusted_examples:
  "map (IsTrusted (NewTrustedProxyChecker [''10.0.0.0/8'', ''2001:db8::/32'', ''192.0.2.7'']))
     [''10.255.0.1'', ''11.0.0.1'', ''::ffff:10.1.2.3'', ''2001:db8:0:1::1'', ''2001:db9::1'', '' 192.0.2.7 '', ''10.01.2.3'']
   = [True, False, True, True, False, True, False]"
  by code_simp

end
