(* ===== verification/CallerAuth.thy ===== *)
theory CallerAuth
  imports TrustedProxy ToolNames
begin

text \<open>
  \<^verbatim>\<open>internal/gateway/auth_middleware.go\<close>: the header every caller must send, and the values it may
  have, some of them patterns in which a star stands for one or more characters. A pattern is turned
  into a regular expression; the part of the regular expression language such a text can use is
  modelled: literal characters, escapes, the two anchors and "dot plus". The two environment
  variables are arguments.
\<close>

section \<open>Regular expressions of patterns\<close>

datatype re_token = Lit char | DotPlus | Begin | End

abbreviation backslash :: char where "backslash \<equiv> CHR 0x5C"

definition re_special :: "char \<Rightarrow> bool" where
  "re_special c \<longleftrightarrow> c \<in> set (backslash # ''.+*?()|[]{}^$'')"

definition QuoteMeta :: "string \<Rightarrow> string" where
  "QuoteMeta s = concat (map (\<lambda>c. if re_special c then [backslash, c] else [c]) s)"

text \<open>\<^verbatim>\<open>regexp.Compile\<close> on a text of the fragment; \<open>None\<close> for any other text.\<close>

fun re_parse :: "string \<Rightarrow> re_token list option" where
  "re_parse [] = Some []"
| "re_parse (c # s) =
     (if c = backslash
      then (case s of [] \<Rightarrow> None
            | d # s' \<Rightarrow> if re_special d then map_option (\<lambda>ts. Lit d # ts) (re_parse s') else None)
      else if c = CHR ''.''
      then (case s of [] \<Rightarrow> None
            | d # s' \<Rightarrow> if d = CHR ''+'' then map_option (\<lambda>ts. DotPlus # ts) (re_parse s') else None)
      else if c = CHR ''^'' then map_option (\<lambda>ts. Begin # ts) (re_parse s)
      else if c = CHR ''$'' then map_option (\<lambda>ts. End # ts) (re_parse s)
      else if re_special c then None
      else map_option (\<lambda>ts. Lit c # ts) (re_parse s))"

text \<open>Matching at a position, which may be the start of the text, and anywhere in the text.\<close>

fun re_at :: "bool \<Rightarrow> re_token list \<Rightarrow> string \<Rightarrow> bool" where
  "re_at start [] s = True"
| "re_at start (Begin # ts) s = (start \<and> re_at start ts s)"
| "re_at start (End # ts) s = (s = [] \<and> re_at start ts s)"
| "re_at start (Lit c # ts) s = (case s of [] \<Rightarrow> False | d # s' \<Rightarrow> d = c \<and> re_at False ts s')"
| "re_at start (DotPlus # ts) [] = False"
| "re_at start (DotPlus # ts) (d # s) =
     (d \<noteq> CHR 0x0A \<and> (re_at False ts s \<or> re_at False (DotPlus # ts) s))"

fun re_later :: "re_token list \<Rightarrow> string \<Rightarrow> bool" where
  "re_later ts [] = False"
| "re_later ts (c # s) = (re_at False ts s \<or> re_later ts s)"

definition MatchString :: "re_token list \<Rightarrow> string \<Rightarrow> bool" where
  "MatchString ts s = (re_at True ts s \<or> re_later ts s)"

section \<open>Allowed values\<close>

record AllowedValue =
  av_Original :: string
  av_IsGlob :: bool
  av_Regex :: "re_token list"

record CallerAuthConfig =
  ca_HeaderName :: string
  ca_AllowedValues :: "AllowedValue list"
  ca_Enabled :: bool

definition Matches :: "AllowedValue \<Rightarrow> string \<Rightarrow> bool" where
  "Matches av val = (if av_IsGlob av then MatchString (av_Regex av) val else val = av_Original av)"

definition MatchesAny :: "CallerAuthConfig \<Rightarrow> string \<Rightarrow> bool" where
  "MatchesAny c val = list_ex (\<lambda>av. Matches av val) (ca_AllowedValues c)"

definition OriginalValues :: "CallerAuthConfig \<Rightarrow> string list" where
  "OriginalValues c = map av_Original (ca_AllowedValues c)"

definition regexPattern :: "string \<Rightarrow> string" where
  "regexPattern v = ReplaceAll (''^'' @ QuoteMeta v @ ''$'') backslash ''*'' ''.+''"

definition parseAllowedValue :: "string \<Rightarrow> go_error + AllowedValue" where
  "parseAllowedValue v =
     (if CHR ''*'' \<notin> set v
      then Inr \<lparr> av_Original = v, av_IsGlob = False, av_Regex = [] \<rparr>
      else let nonWildcard = filter (\<lambda>c. c \<noteq> CHR ''*'') v in
      if length nonWildcard = 0
      then Inl (PlainError (''glob pattern must contain at least one non-'' @
        [CHR 0x27] @ ''*'' @ [CHR 0x27] @ '' character''))
      else case re_parse (regexPattern v) of
        None \<Rightarrow> Inl (PlainError ''failed to compile glob pattern'')
      | Some compiled \<Rightarrow> Inr \<lparr> av_Original = v, av_IsGlob = True, av_Regex = compiled \<rparr>)"

fun parse_values :: "string list \<Rightarrow> AllowedValue list \<Rightarrow> go_error + AllowedValue list" where
  "parse_values [] allowed = Inr allowed"
| "parse_values (v # vs) allowed =
     (let trimmed = TrimSpace v in
      if trimmed = '''' then parse_values vs allowed
      else case parseAllowedValue trimmed of
        Inl err \<Rightarrow> Inl (PlainError (''invalid allowed value '' @ [CHR 0x22] @ trimmed @ [CHR 0x22] @ '': '' @ error_text err))
      | Inr av \<Rightarrow> parse_values vs (allowed @ [av]))"

definition auth_disabled :: CallerAuthConfig where
  "auth_disabled = \<lparr> ca_HeaderName = '''', ca_AllowedValues = [], ca_Enabled = False \<rparr>"

definition LoadCallerAuthConfig :: "string \<Rightarrow> string \<Rightarrow> go_error + CallerAuthConfig" where
  "LoadCallerAuthConfig envName envValue =
     (let headerName = TrimSpace envName; rawValues = TrimSpace envValue in
      if headerName = '''' \<or> rawValues = '''' then Inr auth_disabled
      else case parse_values (split_on (CHR '','') rawValues) [] of
        Inl err \<Rightarrow> Inl err
      | Inr allowedValues \<Rightarrow>
          if length allowedValues = 0 then Inr auth_disabled
          else Inr \<lparr> ca_HeaderName = headerName, ca_AllowedValues = allowedValues, ca_Enabled = True \<rparr>)"

section \<open>The middleware\<close>

datatype 'a auth_outcome = Unauthorized string | Served 'a

definition AuthMiddleware ::
  "CallerAuthConfig option \<Rightarrow> ((string \<Rightarrow> string) \<Rightarrow> 'a) \<Rightarrow> (string \<Rightarrow> string) \<Rightarrow> 'a auth_outcome" where
  "AuthMiddleware cfg nxt header =
     (case cfg of None \<Rightarrow> Served (nxt header)
      | Some c \<Rightarrow>
          if \<not> ca_Enabled c then Served (nxt header)
          else let headerValue = header (ca_HeaderName c) in
          if headerValue = '''' then Unauthorized ''Unauthorized: missing required header''
          else if \<not> MatchesAny c headerValue then Unauthorized ''Unauthorized: invalid header value''
          else Served (nxt header))"

definition extractCallerFromRequest :: "CallerAuthConfig option \<Rightarrow> (string \<Rightarrow> string) \<Rightarrow> string option" where
  "extractCallerFromRequest cfg header =
     (case cfg of None \<Rightarrow> None
      | Some c \<Rightarrow> if \<not> ca_Enabled c then None
          else let caller = header (ca_HeaderName c) in if caller = '''' then None else Some caller)"

section \<open>What a pattern matches\<close>

text \<open>A pattern stands for the texts in which each star is replaced by one or more characters other
  than a line break.\<close>

inductive glob :: "string \<Rightarrow> string \<Rightarrow> bool" where
  glob_end: "glob [] []"
| glob_char: "glob p v \<Longrightarrow> c \<noteq> CHR ''*'' \<Longrightarrow> glob (c # p) (c # v)"
| glob_star: "glob p v \<Longrightarrow> u \<noteq> [] \<Longrightarrow> CHR 0x0A \<notin> set u \<Longrightarrow> glob (CHR ''*'' # p) (u @ v)"

inductive_cases glob_NilE [elim!]: "glob [] v"
inductive_cases glob_ConsE: "glob (c # p) v"

definition glob_tokens :: "string \<Rightarrow> re_token list" where
  "glob_tokens p = map (\<lambda>c. if c = CHR ''*'' then DotPlus else Lit c) p"

lemma ReplaceAll_escaped:
  assumes "c \<noteq> CHR ''*''" "take 1 rest \<noteq> ''*''"
  shows "ReplaceAll (backslash # c # rest) backslash ''*'' r =
    backslash # c # ReplaceAll rest backslash ''*'' r"
  using assms by (cases rest) (auto simp: HasPrefix_def)

lemma QuoteMeta_Cons: "QuoteMeta (c # v) = (if re_special c then [backslash, c] else [c]) @ QuoteMeta v"
  by (simp add: QuoteMeta_def)

lemma replace_quoted:
  "ReplaceAll (QuoteMeta v @ ''$'') backslash ''*'' ''.+'' =
     concat (map (\<lambda>c. if c = CHR ''*'' then ''.+'' else if re_special c then [backslash, c] else [c]) v) @ ''$''"
proof (induction v)
  case Nil
  then show ?case by (simp add: QuoteMeta_def HasPrefix_def)
next
  case (Cons c v)
  have hd: "take 1 (QuoteMeta v @ ''$'') \<noteq> ''*''"
    by (cases v) (auto simp: QuoteMeta_def re_special_def)
  consider (star) "c = CHR ''*''" | (special) "c \<noteq> CHR ''*''" "re_special c" | (plain) "\<not> re_special c"
    by blast
  then show ?case
  proof cases
    case star
    then show ?thesis using Cons by (simp add: QuoteMeta_def re_special_def HasPrefix_def)
  next
    case special
    with Cons ReplaceAll_escaped [OF special(1) hd] show ?thesis
      by (simp add: QuoteMeta_Cons del: ReplaceAll.simps)
  next
    case plain
    then have "c \<noteq> backslash" "c \<noteq> CHR ''*''" by (auto simp: re_special_def)
    with plain Cons show ?thesis by (simp add: QuoteMeta_def HasPrefix_def)
  qed
qed

lemma re_parse_glob:
  "re_parse (concat (map (\<lambda>c. if c = CHR ''*'' then ''.+'' else if re_special c then [backslash, c] else [c]) v) @ ''$'')
     = Some (glob_tokens v @ [End])"
proof (induction v)
  case Nil
  then show ?case by (simp add: glob_tokens_def)
next
  case (Cons c v)
  consider (star) "c = CHR ''*''" | (special) "c \<noteq> CHR ''*''" "re_special c" | (plain) "\<not> re_special c"
    by blast
  then show ?case
  proof cases
    case plain
    then have "c \<noteq> backslash" "c \<noteq> CHR ''*''" "c \<noteq> CHR ''.''" "c \<noteq> CHR ''^''" "c \<noteq> CHR ''$''"
      by (auto simp: re_special_def)
    with plain Cons show ?thesis by (simp add: glob_tokens_def)
  qed (use Cons in \<open>simp_all add: glob_tokens_def\<close>)
qed

lemma regexPattern_compiles: "re_parse (regexPattern v) = Some (Begin # glob_tokens v @ [End])"
  by (simp add: regexPattern_def HasPrefix_def replace_quoted re_parse_glob)

lemma glob_star_step:
  "glob (CHR ''*'' # p) v \<longleftrightarrow>
     (case v of [] \<Rightarrow> False | d # w \<Rightarrow> d \<noteq> CHR 0x0A \<and> (glob p w \<or> glob (CHR ''*'' # p) w))"
proof (cases v)
  case Nil
  then show ?thesis by (auto elim: glob_ConsE)
next
  case (Cons d w)
  have "d \<noteq> CHR 0x0A \<and> (glob p w \<or> glob (CHR ''*'' # p) w)" if "glob (CHR ''*'' # p) (d # w)"
    using that
  proof (rule glob_ConsE)
    fix v' u assume u: "d # w = u @ v'" "glob p v'" "u \<noteq> []" "CHR 0x0A \<notin> set u"
    then obtain u' where "u = d # u'" "w = u' @ v'" by (cases u) auto
    with u glob_star [of p v' u'] show ?thesis by (cases "u' = []") auto
  qed simp
  moreover have "glob (CHR ''*'' # p) (d # w)" if "d \<noteq> CHR 0x0A" "glob p w"
    using glob_star [OF that(2), of "[d]"] that(1) by simp
  moreover have "glob (CHR ''*'' # p) (d # w)" if n: "d \<noteq> CHR 0x0A" and g: "glob (CHR ''*'' # p) w"
    using g
  proof (rule glob_ConsE)
    fix v' u assume "w = u @ v'" "glob p v'" "u \<noteq> []" "CHR 0x0A \<notin> set u"
    with n glob_star [of p v' "d # u"] show ?thesis by simp
  qed simp
  ultimately show ?thesis unfolding Cons list.case by blast
qed

lemma re_at_glob: "re_at start (glob_tokens p @ [End]) v \<longleftrightarrow> glob p v"
proof (induction p arbitrary: start v)
  case Nil
  then show ?case by (auto simp: glob_tokens_def intro: glob_end)
next
  case (Cons c p)
  show ?case
  proof (cases "c = CHR ''*''")
    case True
    have "re_at start (DotPlus # glob_tokens p @ [End]) v \<longleftrightarrow> glob (CHR ''*'' # p) v" for start
    proof (induction v arbitrary: start)
      case Nil
      then show ?case by (subst glob_star_step) simp
    next
      case (Cons d w)
      then show ?case by (subst glob_star_step) (simp add: \<open>\<And>start v. re_at start (glob_tokens p @ [End]) v = glob p v\<close>)
    qed
    with True show ?thesis by (simp add: glob_tokens_def)
  next
    case False
    then show ?thesis
      using Cons by (cases v) (auto simp: glob_tokens_def elim: glob_ConsE intro: glob_char)
  qed
qed

lemma re_later_begin: "\<not> re_later (Begin # ts) s"
  by (induction s) simp_all

lemma MatchString_glob: "re_parse (regexPattern p) = Some ts \<Longrightarrow> MatchString ts v \<longleftrightarrow> glob p v"
  by (auto simp: regexPattern_compiles MatchString_def re_later_begin re_at_glob)

section \<open>Who is let in\<close>

text \<open>An entry of the list of allowed values that is a pattern without a literal character is an error.\<close>

definition only_stars :: "string \<Rightarrow> bool" where
  "only_stars v \<longleftrightarrow> CHR ''*'' \<in> set v \<and> list_all (\<lambda>c. c = CHR ''*'') v"

definition value_admits :: "string \<Rightarrow> string \<Rightarrow> bool" where
  "value_admits p v \<longleftrightarrow> (if CHR ''*'' \<in> set p then glob p v else v = p)"

lemma parseAllowedValue_cases:
  "case parseAllowedValue v of
     Inl e \<Rightarrow> only_stars v
   | Inr av \<Rightarrow> \<not> only_stars v \<and> (\<forall>x. Matches av x \<longleftrightarrow> value_admits v x)"
proof (cases "CHR ''*'' \<in> set v")
  case False
  then show ?thesis by (simp add: parseAllowedValue_def Matches_def value_admits_def only_stars_def)
next
  case True
  have m: "MatchString (Begin # glob_tokens v @ [End]) x = glob v x" for x
    using MatchString_glob [OF regexPattern_compiles] .
  have o: "only_stars v \<longleftrightarrow> filter (\<lambda>c. c \<noteq> CHR ''*'') v = []"
    using True by (auto simp: only_stars_def list_all_iff filter_empty_conv)
  show ?thesis
    using True by (auto simp: parseAllowedValue_def Let_def regexPattern_compiles Matches_def m
        value_admits_def o simp del: filter_empty_conv)
qed

lemma parse_values_spec:
  "case parse_values vs as of
     Inl e \<Rightarrow> list_ex (\<lambda>v. only_stars (TrimSpace v)) vs
   | Inr as' \<Rightarrow> (list_ex (\<lambda>av. Matches av x) as' \<longleftrightarrow> list_ex (\<lambda>av. Matches av x) as \<or>
         list_ex (\<lambda>p. value_admits p x) (filter (\<lambda>w. w \<noteq> '''') (map TrimSpace vs))) \<and>
       length as' = length as + length (filter (\<lambda>w. w \<noteq> '''') (map TrimSpace vs))"
proof (induction vs arbitrary: as)
  case (Cons v vs)
  show ?case
  proof (cases "TrimSpace v = ''''")
    case True
    with Cons.IH [of as] show ?thesis
      by (cases "parse_values vs as") (simp_all add: Let_def)
  next
    case False
    show ?thesis
    proof (cases "parseAllowedValue (TrimSpace v)")
      case (Inl e)
      with False parseAllowedValue_cases [of "TrimSpace v"] show ?thesis by (simp add: Let_def)
    next
      case (Inr av)
      with parseAllowedValue_cases [of "TrimSpace v"] have "Matches av x = value_admits (TrimSpace v) x" by simp
      with Inr False Cons.IH [of "as @ [av]"] show ?thesis
        by (cases "parse_values vs (as @ [av])") (auto simp: Let_def)
    qed
  qed
qed simp

text \<open>
  C11. Caller authentication lets in exactly whom the configuration names. It is off when one of the two
  variables is blank or the list of values is empty; otherwise a request is served only if its header
  is one of the values, where a value with stars admits the texts that have one or more characters
  (no line break) in the place of each star. Loading fails only for a pattern of nothing but stars.
\<close>

theorem caller_auth_exact:
  "case LoadCallerAuthConfig envName envValue of
     Inl e \<Rightarrow> list_ex (\<lambda>v. only_stars v) (comma_list (TrimSpace envValue))
   | Inr cfg \<Rightarrow>
       AuthMiddleware (Some cfg) nxt header =
         (let values = comma_list (TrimSpace envValue); h = header (TrimSpace envName) in
          if TrimSpace envName = '''' \<or> values = [] then Served (nxt header)
          else if h = '''' then Unauthorized ''Unauthorized: missing required header''
          else if list_ex (\<lambda>p. value_admits p h) values then Served (nxt header)
          else Unauthorized ''Unauthorized: invalid header value'')"
proof -
  let ?n = "TrimSpace envName" and ?r = "TrimSpace envValue"
  let ?vs = "split_on (CHR '','') ?r" and ?h = "header (TrimSpace envName)"
  have stars: "list_ex (\<lambda>v. only_stars (TrimSpace v)) vs \<Longrightarrow>
      list_ex only_stars (filter (\<lambda>w. w \<noteq> '''') (map TrimSpace vs))" for vs
    by (induction vs) (auto simp: only_stars_def)
  show ?thesis
  proof (cases "?n = '''' \<or> ?r = ''''")
    case True
    moreover have "TrimSpace '''' = ''''" by (simp add: TrimSpace_def)
    ultimately show ?thesis
      by (auto simp: LoadCallerAuthConfig_def AuthMiddleware_def auth_disabled_def Let_def comma_list_def trimmed_parts_def)
  next
    case False
    show ?thesis
    proof (cases "parse_values ?vs []")
      case (Inl e)
      with False parse_values_spec [where vs = ?vs and as = "[]" and x = ?h] stars [of ?vs] show ?thesis
        by (simp add: LoadCallerAuthConfig_def comma_list_def trimmed_parts_def)
    next
      case (Inr as)
      with parse_values_spec [where vs = ?vs and as = "[]" and x = ?h] have
        "list_ex (\<lambda>av. Matches av ?h) as \<longleftrightarrow> list_ex (\<lambda>p. value_admits p ?h) (comma_list ?r)"
        "length as = length (comma_list ?r)"
        by (simp_all add: comma_list_def trimmed_parts_def)
      with False Inr show ?thesis
        by (auto simp: LoadCallerAuthConfig_def AuthMiddleware_def auth_disabled_def MatchesAny_def Let_def)
    qed
  qed
qed

text \<open>The audited caller of a request that is served is its header, when authentication is on.\<close>

lemma extracted_caller:
  "AuthMiddleware (Some cfg) nxt header = Served out \<Longrightarrow> ca_Enabled cfg \<Longrightarrow>
     extractCallerFromRequest (Some cfg) header = Some (header (ca_HeaderName cfg))"
  by (auto simp: AuthMiddleware_def extractCallerFromRequest_def Let_def split: if_splits)

end
