(* ===== verification/Retry.thy ===== *)
theory Retry
  imports Prelude Complex_Main
begin

text \<open>
  \<^verbatim>\<open>internal/gateway/ai_provider_retry.go\<close>: how a call to an AI provider is repeated. The world
  the loop runs in is a record: what each attempt returns, whether the context has ended when it is
  looked at, before an attempt and while waiting, the random numbers, and which errors are context
  errors. The backoff is computed with exact rationals where the source uses floating point; the
  values it takes before the jitter are exact there too.
\<close>

section \<open>The world\<close>

record 't retry_env =
  re_operation :: "nat \<Rightarrow> 't \<times> int \<times> go_error option"
  re_ctxErr :: "nat \<Rightarrow> go_error option"
  re_ctxDone :: "nat \<Rightarrow> go_error option"
  re_random :: "nat \<Rightarrow> rat"
  re_isContextError :: "go_error \<Rightarrow> bool"
  re_zero :: 't

abbreviation retryMaxAttempts :: nat where "retryMaxAttempts \<equiv> 2"
abbreviation retryInitialDelay :: rat where "retryInitialDelay \<equiv> 500000000"
abbreviation retryMaxDelay :: rat where "retryMaxDelay \<equiv> 8000000000"
abbreviation retryJitterFactor :: rat where "retryJitterFactor \<equiv> 1 / 4"

definition isRetryableStatusCode :: "int \<Rightarrow> bool" where
  "isRetryableStatusCode statusCode \<longleftrightarrow> List.member [429, 500, 502, 503, 504] statusCode"

definition isRetryableError :: "('t, 'z) retry_env_scheme \<Rightarrow> go_error option \<Rightarrow> bool" where
  "isRetryableError env err =
     (case err of None \<Rightarrow> False | Some e \<Rightarrow> if re_isContextError env e then False else True)"

definition calculateBackoffDelay :: "nat \<Rightarrow> rat \<Rightarrow> int" where
  "calculateBackoffDelay attempt random =
     (let delay = retryInitialDelay * 2 ^ attempt;
          delay1 = (if delay > retryMaxDelay then retryMaxDelay else delay);
          jitter = (random * 2 - 1) * retryJitterFactor
      in floor (delay1 * (1 + jitter)))"

section \<open>The loop\<close>

text \<open>What the loop has done beside its result: the attempts made and the waits begun.\<close>

record retry_trace =
  rt_calls :: nat
  rt_waits :: "int list"

function retry_loop ::
  "('t, 'z) retry_env_scheme \<Rightarrow> nat \<Rightarrow> go_error option \<Rightarrow> retry_trace \<Rightarrow> (go_error + 't) \<times> retry_trace" where
  "retry_loop env attempt lastErr tr =
     (if \<not> attempt \<le> retryMaxAttempts
      then (case lastErr of Some e \<Rightarrow> Inl e | None \<Rightarrow> Inr (re_zero env), tr)
      else case re_ctxErr env attempt of
        Some e \<Rightarrow> (Inl e, tr)
      | None \<Rightarrow>
      (case re_operation env attempt of (result, statusCode, err) \<Rightarrow>
       let tr1 = tr\<lparr> rt_calls := rt_calls tr + 1 \<rparr> in
       case err of
         None \<Rightarrow> (Inr result, tr1)
       | Some e \<Rightarrow>
           let shouldRetry =
                 (if statusCode \<noteq> 0 \<and> isRetryableStatusCode statusCode then True
                  else if statusCode = 0 \<and> isRetryableError env err then True else False)
           in if \<not> shouldRetry \<or> attempt = retryMaxAttempts then (Inl e, tr1)
              else let delay = calculateBackoffDelay attempt (re_random env attempt);
                       tr2 = tr1\<lparr> rt_waits := rt_waits tr1 @ [delay] \<rparr>
              in case re_ctxDone env attempt of
                   Some e' \<Rightarrow> (Inl e', tr2)
                 | None \<Rightarrow> retry_loop env (attempt + 1) err tr2))"
  by pat_completeness auto
termination by (relation "measure (\<lambda>(env, attempt, e, tr). Suc retryMaxAttempts - attempt)") auto

declare retry_loop.simps [simp del]

definition retryOperation :: "('t, 'z) retry_env_scheme \<Rightarrow> (go_error + 't) \<times> retry_trace" where
  "retryOperation env = retry_loop env 0 None \<lparr> rt_calls = 0, rt_waits = [] \<rparr>"

section \<open>What a caller gets\<close>

text \<open>An attempt that is worth repeating.\<close>

definition transient :: "('t, 'z) retry_env_scheme \<Rightarrow> nat \<Rightarrow> bool" where
  "transient env k =
     (case re_operation env k of (t, status, err) \<Rightarrow>
        case err of None \<Rightarrow> False
        | Some e \<Rightarrow> if status = 0 then \<not> re_isContextError env e else status \<in> {429, 500, 502, 503, 504})"

text \<open>The result of the attempt with which an undisturbed run ends.\<close>

definition attempt_result :: "('t, 'z) retry_env_scheme \<Rightarrow> nat \<Rightarrow> go_error + 't" where
  "attempt_result env k = (case re_operation env k of (t, status, None) \<Rightarrow> Inr t | (t, status, Some e) \<Rightarrow> Inl e)"

lemma retry_loop_step:
  assumes "k \<le> retryMaxAttempts"
  shows "retry_loop env k err tr =
    (case re_ctxErr env k of
       Some e \<Rightarrow> (Inl e, tr)
     | None \<Rightarrow>
         if \<not> transient env k \<or> k = retryMaxAttempts
         then (attempt_result env k, tr\<lparr> rt_calls := rt_calls tr + 1 \<rparr>)
         else case re_ctxDone env k of
           Some e \<Rightarrow> (Inl e, tr\<lparr> rt_calls := rt_calls tr + 1,
                              rt_waits := rt_waits tr @ [calculateBackoffDelay k (re_random env k)] \<rparr>)
         | None \<Rightarrow> retry_loop env (k + 1) (snd (snd (re_operation env k)))
             (tr\<lparr> rt_calls := rt_calls tr + 1,
                  rt_waits := rt_waits tr @ [calculateBackoffDelay k (re_random env k)] \<rparr>))"
  using assms
  by (subst retry_loop.simps)
    (auto simp: transient_def attempt_result_def isRetryableError_def isRetryableStatusCode_def Let_def
      split: option.split prod.split)

text \<open>The waits: the random number shifts a delay by at most a quarter of it, either way.\<close>

lemma backoff_floor:
  "calculateBackoffDelay 0 r = floor (375000000 + 250000000 * r)"
  "calculateBackoffDelay 1 r = floor (750000000 + 500000000 * r)"
  unfolding calculateBackoffDelay_def Let_def
  by (rule arg_cong [where f = floor], simp add: field_simps)+

lemma backoff_first:
  assumes "0 \<le> r" "r \<le> 1"
  shows "375000000 \<le> calculateBackoffDelay 0 r" "calculateBackoffDelay 0 r \<le> 625000000"
  using assms by (simp_all add: backoff_floor floor_le_iff)

lemma backoff_second:
  assumes "0 \<le> r" "r \<le> 1"
  shows "750000000 \<le> calculateBackoffDelay 1 r" "calculateBackoffDelay 1 r \<le> 1250000000"
  using assms by (simp_all add: backoff_floor [simplified] floor_le_iff)

text \<open>The cap is never reached: no attempt waits longer than the third delay would be.\<close>

lemma backoff_cap_unused: "k \<le> retryMaxAttempts \<Longrightarrow> retryInitialDelay * 2 ^ k < retryMaxDelay"
  by (auto simp: le_Suc_eq numeral_2_eq_2)

lemma retry_waits:
  "rt_waits (snd (retryOperation env)) \<in>
     {[], [calculateBackoffDelay 0 (re_random env 0)],
      [calculateBackoffDelay 0 (re_random env 0), calculateBackoffDelay 1 (re_random env 1)]}"
  by (auto simp: retryOperation_def retry_loop_step split: option.split)

text \<open>The caller gives up before call \<open>k\<close>, or while waiting after it.\<close>

definition cancelled :: "('t, 'z) retry_env_scheme \<Rightarrow> nat \<Rightarrow> nat \<Rightarrow> bool" where
  "cancelled env n k \<longleftrightarrow> re_ctxErr env k \<noteq> None \<or> k < n \<and> re_ctxDone env k \<noteq> None"

text \<open>
  A provider call is repeated at most twice and always returns. Unless the context ends, the caller
  gets the result of the first attempt that succeeds or fails for good, or of the third; a cancelled
  context ends the run with its error, also in the middle of a wait. With random numbers from 0 to 1
  the waits together last at most 1.875 seconds.
\<close>

lemma retry_outcome:
  "let (out, tr) = retryOperation env;
       n = length (takeWhile (transient env) [0, 1]) in
   rt_calls tr \<le> 3 \<and> length (rt_waits tr) \<le> rt_calls tr \<and>
   (case find (cancelled env n) [0..<Suc n] of
      None \<Rightarrow> out = attempt_result env n \<and> rt_calls tr = n + 1 \<and> length (rt_waits tr) = n
    | Some k \<Rightarrow> (case re_ctxErr env k of
          Some e \<Rightarrow> out = Inl e \<and> rt_calls tr = k
        | None \<Rightarrow> out = Inl (the (re_ctxDone env k)) \<and> rt_calls tr = k + 1)) \<and>
   (if list_all (\<lambda>k. 0 \<le> re_random env k \<and> re_random env k \<le> 1) [0, 1]
    then sum_list (rt_waits tr) \<le> 1875000000 else True)"
proof -
  have "sum_list (rt_waits (snd (retryOperation env))) \<le> 1875000000"
    if "list_all (\<lambda>k. 0 \<le> re_random env k \<and> re_random env k \<le> 1) [0, 1]"
    using retry_waits [of env] backoff_first(2) [of "re_random env 0"] backoff_second(2) [of "re_random env 1"] that
    by auto
  moreover have "let (out, tr) = retryOperation env; n = length (takeWhile (transient env) [0, 1]) in
   rt_calls tr \<le> 3 \<and> length (rt_waits tr) \<le> rt_calls tr \<and>
   (case find (cancelled env n) [0..<Suc n] of
      None \<Rightarrow> out = attempt_result env n \<and> rt_calls tr = n + 1 \<and> length (rt_waits tr) = n
    | Some k \<Rightarrow> (case re_ctxErr env k of
          Some e \<Rightarrow> out = Inl e \<and> rt_calls tr = k
        | None \<Rightarrow> out = Inl (the (re_ctxDone env k)) \<and> rt_calls tr = k + 1))"
    by (auto simp: retryOperation_def retry_loop_step cancelled_def upt_rec Let_def split: option.split)
  ultimately show ?thesis by (simp add: Let_def case_prod_beta)
qed

end
