(* ===== verification/ConfigPaths.thy ===== *)
theory ConfigPaths
  imports Prelude
begin

text \<open>
  The file names a configuration may give (\<^verbatim>\<open>internal/config/config.go\<close>): rules files below the
  configuration directory, log and audit files below the log directory. Paths are those of a Unix
  build.
\<close>

section \<open>Cleaning a path\<close>

text \<open>
  \<^verbatim>\<open>filepath.Clean\<close>, on the components of a path: empty and "." components vanish, a ".." removes
  the component before it; at the root it vanishes, elsewhere it stays.
\<close>

fun clean_step :: "bool \<Rightarrow> string list \<Rightarrow> string \<Rightarrow> string list" where
  "clean_step rooted acc c =
     (if c = '''' \<or> c = ''.'' then acc
      else if c = ''..''
      then (if acc \<noteq> [] \<and> last acc \<noteq> ''..'' then butlast acc
            else if rooted then acc else acc @ [''..''])
      else acc @ [c])"

definition IsAbs :: "string \<Rightarrow> bool" where
  "IsAbs p = HasPrefix p ''/''"

definition Clean :: "string \<Rightarrow> string" where
  "Clean p =
     (let comps = foldl (clean_step (IsAbs p)) [] (split_on (CHR ''/'') p);
          body = join_with ''/'' comps
      in if IsAbs p then ''/'' @ body else if body = '''' then ''.'' else body)"

text \<open>\<^verbatim>\<open>filepath.Join\<close> of two parts.\<close>

definition path_join :: "string \<Rightarrow> string \<Rightarrow> string" where
  "path_join dir p =
     (if dir = '''' \<and> p = '''' then ''''
      else if dir = '''' then Clean p else if p = '''' then Clean dir
      else Clean (dir @ ''/'' @ p))"

section \<open>The check of a relative path\<close>

abbreviation bslash :: char where "bslash \<equiv> CHR 0x5C"

text \<open>The loop over the characters; \<open>i\<close> is the position.\<close>

fun control_error :: "int \<Rightarrow> string \<Rightarrow> string option" where
  "control_error i [] = None"
| "control_error i (c # s) =
     (if of_char c = (0 :: nat) then Some (''path contains null byte at position '' @ Itoa i)
      else if (of_char c :: nat) < 32 \<and> c \<noteq> CHR 0x09
      then Some (''path contains control character at position '' @ Itoa i)
      else control_error (i + 1) s)"

definition encodedPatterns :: "string list" where
  "encodedPatterns = [''%2e'', ''%2f'', ''%5c'', ''%00'', ''%252e'', ''%252f'', ''%c0%ae'', ''%c0%af'', ''%c1%9c'']"

definition component_error :: "string \<Rightarrow> string option" where
  "component_error component =
     (if component = ''..'' then Some (''path cannot contain '' @ [CHR 0x27] @ ''..'' @ [CHR 0x27] @
        '' (parent directory reference)'')
      else if component = ''.'' then Some (''path cannot contain '' @ [CHR 0x27] @ ''.'' @ [CHR 0x27] @
        '' (current directory reference)'')
      else if HasPrefix component ''.'' then Some (''path cannot contain hidden files or directories (starting with '' @
        [CHR 0x27] @ ''.'' @ [CHR 0x27] @ '')'')
      else if Contains component ''...'' then Some ''path contains suspicious dot sequence''
      else if TrimSpace component \<noteq> component
      then Some ''path component cannot have leading or trailing whitespace''
      else if Contains component '':'' then Some ''path cannot contain colons''
      else None)"

text \<open>The loop over the components; the last one may be empty.\<close>

fun components_error :: "bool \<Rightarrow> string list \<Rightarrow> string option" where
  "components_error first [] = None"
| "components_error first (component # components) =
     (if component = ''''
      then (if first then Some ''path cannot start with a separator''
            else if components = [] then components_error False components
            else Some ''path contains empty component (consecutive separators)'')
      else case component_error component of
        Some e \<Rightarrow> Some e
      | None \<Rightarrow> components_error False components)"

definition ValidateRelativePath :: "string \<Rightarrow> string option" where
  "ValidateRelativePath path =
     (if path = '''' then Some ''path cannot be empty''
      else case control_error 0 path of
        Some e \<Rightarrow> Some e
      | None \<Rightarrow>
      let lowerPath = ToLower path in
      case find (\<lambda>pattern. Contains lowerPath pattern) encodedPatterns of
        Some pattern \<Rightarrow> Some (''path contains potentially malicious URL encoding: '' @ pattern)
      | None \<Rightarrow>
      let cleanPath = Clean path in
      if IsAbs cleanPath then Some ''absolute paths are not allowed''
      else if HasPrefix cleanPath ''..'' then Some ''path cannot reference parent directory''
      else let normalizedPath = map (\<lambda>c. if c = bslash then CHR ''/'' else c) path;
               components = split_on (CHR ''/'') normalizedPath
      in components_error True components)"

definition resolveRulesFilePath :: "string \<Rightarrow> string \<Rightarrow> string" where
  "resolveRulesFilePath rulesFile configDir =
     (if rulesFile = '''' then '''' else if IsAbs rulesFile then rulesFile
      else path_join configDir rulesFile)"

definition ResolveAuditLogPath :: "string \<Rightarrow> string \<Rightarrow> string" where
  "ResolveAuditLogPath auditPath0 logDir =
     (if auditPath0 = ''stdout'' \<or> auditPath0 = ''stderr'' then ''''
      else let auditPath = (if auditPath0 = '''' then ''maybedont-audit.log'' else auditPath0)
      in path_join logDir auditPath)"

section \<open>Accepted paths stay below the directory\<close>

text \<open>How a system resolves the components of a path from a directory, itself given by components.\<close>

fun walk :: "string list \<Rightarrow> string list \<Rightarrow> string list" where
  "walk dir [] = dir"
| "walk dir (c # cs) =
     (if c = '''' \<or> c = ''.'' then walk dir cs
      else if c = ''..'' then walk (butlast dir) cs
      else walk (dir @ [c]) cs)"

text \<open>A component that names an ordinary, visible entry of a directory.\<close>

definition plain :: "string \<Rightarrow> bool" where
  "plain c \<longleftrightarrow> c \<noteq> '''' \<and> \<not> HasPrefix c ''.'' \<and> CHR ''/'' \<notin> set c \<and> CHR '':'' \<notin> set c"

lemma walk_plain: "list_all plain cs \<Longrightarrow> walk dir cs = dir @ cs"
  by (induction cs arbitrary: dir) (auto simp: plain_def HasPrefix_def)

lemma walk_append: "walk dir (cs @ ds) = walk (walk dir cs) ds"
  by (induction dir cs rule: walk.induct) auto

lemma Contains_single: "Contains s [c] \<longleftrightarrow> c \<in> set s"
  by (auto simp: Contains_iff in_set_conv_decomp)

lemma component_plain:
  "component_error c = None \<Longrightarrow> c \<noteq> '''' \<Longrightarrow> CHR ''/'' \<notin> set c \<Longrightarrow> plain c"
  by (auto simp: component_error_def plain_def Contains_single split: if_splits)

lemma components_plain:
  assumes "components_error first cs = None" "list_all (\<lambda>c. CHR ''/'' \<notin> set c) cs"
  shows "list_all plain cs \<or> (\<exists>ds. cs = ds @ [''''] \<and> list_all plain ds \<and> (first \<longrightarrow> ds \<noteq> []))"
  using assms
proof (induction first cs rule: components_error.induct)
  case (2 first c cs)
  show ?case
  proof (cases "c = ''''")
    case True
    with "2.prems"(1) show ?thesis by (auto split: if_splits)
  next
    case False
    with 2 component_plain [of c] have p: "plain c" by (auto split: option.splits)
    from 2 False have "list_all plain cs \<or> (\<exists>ds. cs = ds @ [''''] \<and> list_all plain ds)"
      by (auto split: option.splits)
    then show ?thesis
    proof
      assume "\<exists>ds. cs = ds @ [''''] \<and> list_all plain ds"
      then obtain ds where "cs = ds @ ['''']" "list_all plain ds" by blast
      with p have "c # cs = (c # ds) @ [''''] \<and> list_all plain (c # ds)" by simp
      then show ?thesis by blast
    qed (use p in simp)
  qed
qed simp

text \<open>
  C14. A path that passes the check stays below the directory it is resolved in: starting from that
  directory, its components, split at slashes and, as a cautious reader would, at backslashes too,
  lead to a visible entry below it, never to the directory itself or above it.
\<close>

theorem relative_path_contained:
  "case ValidateRelativePath path of
     Some e \<Rightarrow> True
   | None \<Rightarrow> \<exists>below. below \<noteq> [] \<and> list_all plain below \<and>
       walk dir (split_on (CHR ''/'') (map (\<lambda>c. if c = bslash then CHR ''/'' else c) path)) = dir @ below"
proof (cases "ValidateRelativePath path")
  case None
  let ?cs = "split_on (CHR ''/'') (map (\<lambda>c. if c = bslash then CHR ''/'' else c) path)"
  from None have e: "components_error True ?cs = None"
    by (auto simp: ValidateRelativePath_def Let_def split: if_splits option.splits)
  have "list_all (\<lambda>c. CHR ''/'' \<notin> set c) ?cs"
    using split_on_notin by (fastforce simp: list_all_iff)
  from components_plain [OF e this]
  show ?thesis
  proof
    assume p: "list_all plain ?cs"
    from walk_plain [OF p] p have "?cs \<noteq> [] \<and> list_all plain ?cs \<and> walk dir ?cs = dir @ ?cs" by simp
    with None show ?thesis by auto
  next
    assume "\<exists>ds. ?cs = ds @ [''''] \<and> list_all plain ds \<and> (True \<longrightarrow> ds \<noteq> [])"
    then obtain ds where "?cs = ds @ ['''']" "list_all plain ds" "ds \<noteq> []" by blast
    with walk_plain [of ds dir] have "ds \<noteq> [] \<and> list_all plain ds \<and> walk dir ?cs = dir @ ds"
      by (simp add: walk_append)
    with None show ?thesis by auto
  qed
qed simp

end
