(* ===== verification/ConfigValidation.thy ===== *)
theory ConfigValidation
  imports Policies ConfigPaths DownstreamConfig
begin

text \<open>
  The configuration of the gateway (\<^verbatim>\<open>internal/config/config.go\<close>) and the last steps of
  \<^verbatim>\<open>LoadConfig\<close>: defaults, rule files, aliases, normalisation of modes and validation. The reading
  of files and variables before that is the work of libraries; its result is the argument. A
  setting that no operation reads is left out (rotation, the free-form parameters of the provider).
\<close>

section \<open>Settings\<close>

record PhaseFile =
  pf_Enabled :: bool
  pf_RulesFile :: string

record Config =
  cf_ServerType :: string
  cf_ListenAddr :: string
  cf_TLSEnabled :: bool
  cf_TLSCertFile :: string
  cf_TLSKeyFile :: string
  cf_TrustedProxies :: "string list"
  cf_SessionTimeoutMinutes :: int
  cf_MaxBlockingMs :: int
  cf_MaxRuleEvaluationMs :: int
  cf_AIProvider :: string
  cf_AIEndpoint :: string
  cf_AIModel :: string
  cf_AIAPIKey :: string
  cf_ReqCEL :: PhaseFile
  cf_ReqAI :: PhaseFile
  cf_RespCEL :: PhaseFile
  cf_RespAI :: PhaseFile
  cf_Phases :: PhaseModes
  cf_CLIEnabled :: bool
  cf_ValidateCommands :: "string list"
  cf_InterceptEnabled :: bool
  cf_ShellToolNames :: "string list"
  cf_Servers :: "(string \<times> ClientConfig) list"
  cf_AuditPath :: string
  cf_AuditFilter :: string
  cf_IncludeArgumentValues :: "bool option"
  cf_LoggerLevel :: string
  cf_LoggerPath :: string
  cf_AuditLogEnabled :: bool
  cf_AuditLogMaxEntries :: int
  cf_AuditReportEnabled :: bool
  cf_AuditReportMaxEntries :: int
  cf_AuditReportTimeoutSeconds :: int
  cf_AuditReportSystemPrompt :: string
  cf_ListServersEnabled :: bool
  cf_ListSessionsEnabled :: bool

section \<open>Validation\<close>

text \<open>
  What validation asks of libraries: \<open>cl_Quote\<close> is the verb \<^verbatim>\<open>%q\<close> and \<open>cl_UrlError\<close> the error of
  \<^verbatim>\<open>url.Parse\<close>, if any.
\<close>

record config_lib =
  cl_Quote :: "string \<Rightarrow> string"
  cl_UrlError :: "string \<Rightarrow> string option"

abbreviation nl :: string where "nl \<equiv> [CHR 0x0A]"

definition dquoted :: "string \<Rightarrow> string" where
  "dquoted s = [CHR 0x22] @ s @ [CHR 0x22]"

definition err_if :: "bool \<Rightarrow> string \<Rightarrow> string list" where
  "err_if b e = (if b then [e] else [])"

lemma err_if_Nil [simp]: "err_if b e = [] \<longleftrightarrow> \<not> b"
  by (simp add: err_if_def)

definition configError :: "string \<Rightarrow> string \<Rightarrow> string" where
  "configError path message =
     path @ '': '' @ message @ nl @ ''     (env var: '' @ ConfigPathToEnvVar path @ '')''"

definition validateRange :: "int \<Rightarrow> int \<Rightarrow> int \<Rightarrow> string \<Rightarrow> string list" where
  "validateRange v lo hi fieldName =
     err_if (v < lo \<or> v > hi)
       (fieldName @ '' is invalid. The value must be >= '' @ Itoa lo @ '' and <= '' @ Itoa hi)"

definition invalid_mode :: "config_lib \<Rightarrow> PolicyMode \<Rightarrow> string" where
  "invalid_mode L m = ''invalid policy mode '' @ cl_Quote L m @ '' (must be '' @
     dquoted PolicyModeAuditOnly @ '' or '' @ dquoted PolicyModeEnforce @ '')''"

definition mode_error :: "config_lib \<Rightarrow> string \<Rightarrow> PolicyMode \<Rightarrow> string list" where
  "mode_error L path m = err_if (\<not> PolicyMode_IsValid m) (configError path (invalid_mode L m))"

fun rule_mode_errors ::
  "config_lib \<Rightarrow> string \<Rightarrow> ('r \<Rightarrow> string) \<Rightarrow> ('r \<Rightarrow> PolicyMode) \<Rightarrow> int \<Rightarrow> 'r list \<Rightarrow> string list" where
  "rule_mode_errors L path name mode i [] = []"
| "rule_mode_errors L path name mode i (rule # rules) =
     err_if (\<not> PolicyMode_IsValid (mode rule))
       (path @ ''.rules['' @ Itoa i @ ''] ('' @ name rule @ ''): '' @ invalid_mode L (mode rule)) @
     rule_mode_errors L path name mode (i + 1) rules"

definition phase_errors :: "config_lib \<Rightarrow> PhaseModes \<Rightarrow> string list" where
  "phase_errors L p =
     mode_error L ''request_validation.cel.mode'' (pm_ReqCELMode p) @
     mode_error L ''request_validation.ai.mode'' (pm_ReqAIMode p) @
     mode_error L ''response_validation.cel.mode'' (pm_RespCELMode p) @
     mode_error L ''response_validation.ai.mode'' (pm_RespAIMode p) @
     rule_mode_errors L ''request_validation.cel'' p_Name p_Mode 0 (pm_ReqCELRules p) @
     rule_mode_errors L ''request_validation.ai'' cap_Name cap_Mode 0 (pm_ReqAIRules p) @
     rule_mode_errors L ''response_validation.cel'' rp_Name rp_Mode 0 (pm_RespCELRules p) @
     rule_mode_errors L ''response_validation.ai'' carp_Name carp_Mode 0 (pm_RespAIRules p)"

definition server_errors :: "Config \<Rightarrow> string list" where
  "server_errors cfg =
     err_if (cf_ServerType cfg \<notin> {''stdio'', ''http'', ''sse''})
       (''invalid server type: '' @ cf_ServerType cfg) @
     err_if (cf_ServerType cfg \<noteq> ''stdio'' \<and> cf_ListenAddr cfg = '''')
       (configError ''server.listen_addr'' (''required for '' @ cf_ServerType cfg @ '' server type'')) @
     (if cf_ServerType cfg = ''sse'' \<and> cf_TLSEnabled cfg
      then err_if (cf_TLSCertFile cfg = '''') ''server.sse.tls.cert_file is required when TLS is enabled'' @
           err_if (cf_TLSKeyFile cfg = '''') ''server.sse.tls.key_file is required when TLS is enabled''
      else [])"

text \<open>The checks of one downstream server. The two bounds of a number are two checks.\<close>

definition server_path :: "string \<Rightarrow> string \<Rightarrow> string" where
  "server_path name sub = ''downstream_mcp_servers['' @ name @ '']'' @ sub"

definition number_errors :: "string \<Rightarrow> int \<Rightarrow> int \<Rightarrow> string \<Rightarrow> string list" where
  "number_errors path v hi bound =
     err_if (v < 0) (path @ '' must be non-negative'') @
     err_if (v > hi) (path @ '' must be less than '' @ bound)"

fun mapping_errors :: "string \<Rightarrow> int \<Rightarrow> CredentialMapping list \<Rightarrow> string list" where
  "mapping_errors name i [] = []"
| "mapping_errors name i (mapping # mappings) =
     err_if (cm_SourceHeader mapping = '''')
       (configError (server_path name (''.auth.pass_through.headers['' @ Itoa i @ ''].source_header'')) ''required'') @
     err_if (cm_TargetHeader mapping = '''')
       (configError (server_path name (''.auth.pass_through.headers['' @ Itoa i @ ''].target_header'')) ''required'') @
     mapping_errors name (i + 1) mappings"

definition pass_through_errors :: "string \<Rightarrow> ClientConfig \<Rightarrow> string list" where
  "pass_through_errors name client =
     (if cc_PassThroughEnabled client
      then if cc_Type client = ''http'' \<or> cc_Type client = ''sse''
        then err_if (cc_PassThroughHeaders client = [])
               (configError (server_path name ''.auth.pass_through.headers'')
                 (''required when pass_through is enabled for '' @ cc_Type client @ '' transport'')) @
             mapping_errors name 0 (cc_PassThroughHeaders client)
        else [server_path name ('': pass_through auth is only supported for http and sse transports, not '' @
               cc_Type client)]
      else [])"

definition client_errors :: "string \<Rightarrow> ClientConfig \<Rightarrow> string list" where
  "client_errors name client =
     (if cc_Type client = ''stdio''
      then err_if (cc_Command client = '''')
             (configError (server_path name ''.command'') ''required when type is stdio'')
      else if cc_Type client = ''sse'' \<or> cc_Type client = ''http''
      then err_if (cc_DownstreamURL client = '''')
             (configError (server_path name ''.url'') (''required when type is '' @ cc_Type client))
      else [configError (server_path name ''.type'') (''invalid value: '' @ cc_Type client)]) @
     number_errors (server_path name ''.startup_timeout_ms'') (cc_StartupTimeoutMs client) 300000
       ''300000ms (5 minutes)'' @
     number_errors (server_path name ''.initialization_retries'') (cc_InitializationRetries client) 10 ''10'' @
     number_errors (server_path name ''.retry_delay_ms'') (cc_RetryDelayMs client) 10000 ''10000ms (10 seconds)'' @
     number_errors (server_path name ''.capability_discovery_delay_ms'') (cc_CapabilityDiscoveryDelayMs client)
       60000 ''60000ms (1 minute)'' @
     number_errors (server_path name ''.capability_discovery_retries'') (cc_CapabilityDiscoveryRetries client)
       10 ''10'' @
     number_errors (server_path name ''.capability_retry_delay_ms'') (cc_CapabilityRetryDelayMs client)
       30000 ''30000ms (30 seconds)'' @
     pass_through_errors name client"

definition ai_needed :: "Config \<Rightarrow> bool" where
  "ai_needed cfg \<longleftrightarrow> pf_Enabled (cf_ReqAI cfg) \<or> pf_Enabled (cf_RespAI cfg) \<or> cf_AuditReportEnabled cfg"

definition validProviders :: "string list" where
  "validProviders = ['''', ''openai'', ''openai_compatible'', ''anthropic'']"

definition ai_errors :: "config_lib \<Rightarrow> Config \<Rightarrow> string list" where
  "ai_errors L cfg =
     (if ai_needed cfg
      then err_if (\<not> List.member validProviders (cf_AIProvider cfg))
             (configError ''validation.ai.provider''
               (''must be one of: openai, openai_compatible, anthropic (got '' @ cl_Quote L (cf_AIProvider cfg) @ '')'')) @
           err_if (cf_AIAPIKey cfg = '''')
             (configError ''validation.ai.api_key'' ''required when AI validation or audit report is enabled'') @
           err_if (cf_AIProvider cfg = ''openai_compatible'' \<and> cf_AIEndpoint cfg = '''')
             (configError ''validation.ai.endpoint'' ''required when provider is openai_compatible'') @
           (if cf_AIEndpoint cfg = '''' then []
            else case cl_UrlError L (cf_AIEndpoint cfg) of
              None \<Rightarrow> [] | Some e \<Rightarrow> [configError ''validation.ai.endpoint'' (''invalid URL: '' @ e)]) @
           err_if (cf_AIModel cfg = '''')
             (configError ''validation.ai.model'' ''required when AI validation or audit report is enabled'')
      else [])"

definition path_errors :: "string \<Rightarrow> string \<Rightarrow> string list" where
  "path_errors field path =
     (if path = '''' \<or> path = ''stdout'' \<or> path = ''stderr'' then []
      else case ValidateRelativePath path of None \<Rightarrow> [] | Some e \<Rightarrow> [field @ '': '' @ e])"

definition config_errors :: "config_lib \<Rightarrow> Config \<Rightarrow> string list" where
  "config_errors L cfg =
     phase_errors L (cf_Phases cfg) @
     server_errors cfg @
     concat (map (\<lambda>(name, client). client_errors name client) (cf_Servers cfg)) @
     ai_errors L cfg @
     number_errors ''validation.max_blocking_ms'' (cf_MaxBlockingMs cfg) 120000 ''120000ms (2 minutes)'' @
     number_errors ''validation.max_rule_evaluation_ms'' (cf_MaxRuleEvaluationMs cfg) 120000 ''120000ms (2 minutes)'' @
     (if cf_AuditLogEnabled cfg
      then validateRange (cf_AuditLogMaxEntries cfg) 10 500 ''native_tools.audit_log.max_entries'' else []) @
     (if cf_AuditReportEnabled cfg
      then validateRange (cf_AuditReportMaxEntries cfg) 10 2000 ''native_tools.audit_report.max_entries'' @
           validateRange (cf_AuditReportTimeoutSeconds cfg) 30 300 ''native_tools.audit_report.timeout_seconds''
      else []) @
     path_errors ''logger.path'' (cf_LoggerPath cfg) @
     path_errors ''audit.path'' (cf_AuditPath cfg) @
     err_if (cf_CLIEnabled cfg \<and> cf_ValidateCommands cfg = [])
       (configError ''cli_request_validation.validate_commands''
         (''cannot be empty when enabled=true; use ['' @ dquoted ''*'' @ ''] to validate all commands''))"

fun numbered :: "int \<Rightarrow> string list \<Rightarrow> string" where
  "numbered i [] = ''''"
| "numbered i (e # es) = ''  '' @ Itoa i @ ''. '' @ e @ nl @ numbered (i + 1) es"

definition no_file_note :: string where
  "no_file_note = join_with nl
     ['''',
      ''Note: No configuration file was found. This is acceptable if you intend to configure'',
      ''the gateway entirely via environment variables (MAYBE_DONT_* prefix).'',
      ''For example:'',
      ''  - MAYBE_DONT_SERVER_TYPE=stdio'',
      ''  - MAYBE_DONT_AI_VALIDATION_API_KEY=your-api-key'',
      '''',
      ''Alternatively, create a config file (maybe-dont.yaml) in one of these locations:'',
      ''  - $XDG_CONFIG_HOME/maybe-dont/ (or ~/.config/maybe-dont/)'',
      ''  - Current directory'',
      '''']"

definition validateConfigWithOptions ::
  "config_lib \<Rightarrow> Config \<Rightarrow> bool \<Rightarrow> string list \<Rightarrow> string option" where
  "validateConfigWithOptions L cfg configFileFound loadErrors =
     (let errors = loadErrors @ config_errors L cfg
      in if length errors > 0
         then Some (''configuration validation failed with '' @ Itoa (int (length errors)) @ '' error(s):'' @ nl @
                numbered 1 errors @ (if configFileFound then '''' else no_file_note))
         else None)"

section \<open>Rule files\<close>

text \<open>
  The file system and the YAML library: the contents of a file, and the rules in a text of each
  of the four kinds, or the text of an error.
\<close>

record rule_files =
  rf_ReadFile :: "string \<Rightarrow> string + string"
  rf_Policies :: "string \<Rightarrow> string + Policy list"
  rf_AIPolicies :: "string \<Rightarrow> string + ConfigAIPolicy list"
  rf_ResponsePolicies :: "string \<Rightarrow> string + ResponsePolicy list"
  rf_AIResponsePolicies :: "string \<Rightarrow> string + ConfigAIResponsePolicy list"

text \<open>The reading shared by the four functions; \<open>what\<close> and \<open>rules\<close> are words of the messages.\<close>

definition read_rules ::
  "(string \<Rightarrow> string + string) \<Rightarrow> (string \<Rightarrow> string + 'r list) \<Rightarrow> string \<Rightarrow> string \<Rightarrow> string \<Rightarrow> string + 'r list" where
  "read_rules read parse what rules path =
     (case read path of
        Inl e \<Rightarrow> Inl (''error reading '' @ what @ '': '' @ e)
      | Inr data \<Rightarrow> (case parse data of
          Inl e \<Rightarrow> Inl (''error unmarshaling '' @ rules @ '': '' @ e)
        | Inr rs \<Rightarrow> Inr rs))"

definition LoadPoliciesFromFile :: "rule_files \<Rightarrow> string \<Rightarrow> string + Policy list" where
  "LoadPoliciesFromFile F rulesFile =
     (if rulesFile = '''' then Inr []
      else read_rules (rf_ReadFile F) (rf_Policies F) ''rules file'' ''rules'' rulesFile)"

definition LoadAIPoliciesFromFile :: "rule_files \<Rightarrow> string \<Rightarrow> string + ConfigAIPolicy list" where
  "LoadAIPoliciesFromFile F path =
     (case read_rules (rf_ReadFile F) (rf_AIPolicies F) ''AI policies file'' ''AI policies'' path of
        Inl e \<Rightarrow> Inl e
      | Inr rs \<Rightarrow> Inr (map (\<lambda>r. if cap_Action r = '''' then r\<lparr> cap_Action := PolicyActionDeny \<rparr> else r) rs))"

definition LoadResponsePoliciesFromFile :: "rule_files \<Rightarrow> string \<Rightarrow> string + ResponsePolicy list" where
  "LoadResponsePoliciesFromFile F rulesFile =
     (if rulesFile = '''' then Inr []
      else read_rules (rf_ReadFile F) (rf_ResponsePolicies F) ''response rules file'' ''response rules'' rulesFile)"

definition LoadAIResponsePoliciesFromFile :: "rule_files \<Rightarrow> string \<Rightarrow> string + ConfigAIResponsePolicy list" where
  "LoadAIResponsePoliciesFromFile F path =
     read_rules (rf_ReadFile F) (rf_AIResponsePolicies F) ''AI response policies file'' ''AI response policies'' path"

text \<open>The four blocks of \<^verbatim>\<open>LoadConfig\<close> that load rules: the errors of one, and its rules.\<close>

definition phase_rules ::
  "PhaseFile \<Rightarrow> string \<Rightarrow> string \<Rightarrow> string \<Rightarrow> (string \<Rightarrow> string + 'r list) \<Rightarrow> 'r list \<Rightarrow> string list \<times> 'r list" where
  "phase_rules phase section kind configFileDir load rules =
     (if \<not> pf_Enabled phase then ([], rules)
      else if pf_RulesFile phase = ''''
      then ([section @ '' is enabled but rules_file is not specified''], rules)
      else case ValidateRelativePath (pf_RulesFile phase) of
        Some e \<Rightarrow> ([section @ ''.rules_file: '' @ e], rules)
      | None \<Rightarrow> (case load (resolveRulesFilePath (pf_RulesFile phase) configFileDir) of
          Inl e \<Rightarrow> ([''error loading '' @ kind @ '' policies from file: '' @ e], rules)
        | Inr rs \<Rightarrow> ([], rs)))"

definition load_phases :: "rule_files \<Rightarrow> string \<Rightarrow> Config \<Rightarrow> string list \<times> PhaseModes" where
  "load_phases F dir cfg =
     (let p = cf_Phases cfg;
          (e1, r1) = phase_rules (cf_ReqCEL cfg) ''request_validation.cel'' ''CEL request'' dir
            (LoadPoliciesFromFile F) (pm_ReqCELRules p);
          (e2, r2) = phase_rules (cf_ReqAI cfg) ''request_validation.ai'' ''AI request'' dir
            (LoadAIPoliciesFromFile F) (pm_ReqAIRules p);
          (e3, r3) = phase_rules (cf_RespCEL cfg) ''response_validation.cel'' ''CEL response'' dir
            (LoadResponsePoliciesFromFile F) (pm_RespCELRules p);
          (e4, r4) = phase_rules (cf_RespAI cfg) ''response_validation.ai'' ''AI response'' dir
            (LoadAIResponsePoliciesFromFile F) (pm_RespAIRules p)
      in (e1 @ e2 @ e3 @ e4,
          p\<lparr> pm_ReqCELRules := r1, pm_ReqAIRules := r2, pm_RespCELRules := r3, pm_RespAIRules := r4 \<rparr>))"

section \<open>The last steps of loading\<close>

definition default_prompt :: string where
  "default_prompt = join_with nl
     [''You are an AI security analyst reviewing MCP gateway audit logs.'',
      ''Analyze the tool calls, validation results, and patterns to provide insights on:'',
      ''- Security concerns or policy violations'',
      ''- Usage patterns and anomalies'',
      ''- Recommendations for policy improvements'',
      '''',
      ''When reporting concerns, prioritize them by potential business impact:'',
      ''1. HIGH: Direct monetary loss, data breach, regulatory violations, service outages'',
      ''2. MEDIUM: Reputational damage, customer trust erosion, operational inefficiencies'',
      ''3. LOW: Minor policy deviations, informational findings, optimization opportunities'',
      '''',
      ''For each concern, estimate the potential impact category and explain the reasoning.'']"

definition server_defaults :: "Config \<Rightarrow> Config" where
  "server_defaults cfg =
     (let c1 = (if cf_ServerType cfg = '''' then cfg\<lparr> cf_ServerType := ''http'' \<rparr> else cfg);
          c2 = (if cf_ServerType c1 \<noteq> ''stdio'' \<and> cf_ListenAddr c1 = ''''
                then c1\<lparr> cf_ListenAddr := ''127.0.0.1:8080'' \<rparr> else c1)
      in if cf_AuditReportSystemPrompt c2 = ''''
         then c2\<lparr> cf_AuditReportSystemPrompt := default_prompt \<rparr> else c2)"

definition normalized_config :: "PhaseModes \<Rightarrow> Config \<Rightarrow> Config" where
  "normalized_config phases cfg = cfg
     \<lparr> cf_Servers := map (\<lambda>(name, client). (name, client_defaults (resolve_aliases client))) (cf_Servers cfg),
       cf_Phases := normalizePolicyModes phases \<rparr>"

definition finish_config ::
  "config_lib \<Rightarrow> rule_files \<Rightarrow> string \<Rightarrow> bool \<Rightarrow> Config \<Rightarrow> string + Config" where
  "finish_config L F configFileDir configFileFound config =
     (let c1 = server_defaults config;
          (loadErrors, phases) = load_phases F configFileDir c1;
          c2 = normalized_config phases c1
      in case validateConfigWithOptions L c2 configFileFound loadErrors of
           Some e \<Rightarrow> Inl e
         | None \<Rightarrow> Inr c2)"


section \<open>What an accepted configuration guarantees\<close>

definition in_range :: "int \<Rightarrow> int \<Rightarrow> int \<Rightarrow> bool" where
  "in_range lo hi v \<longleftrightarrow> lo \<le> v \<and> v \<le> hi"

definition modes_ok :: "PhaseModes \<Rightarrow> bool" where
  "modes_ok p \<longleftrightarrow> list_all PolicyMode_IsValid
     ([pm_ReqCELMode p, pm_ReqAIMode p, pm_RespCELMode p, pm_RespAIMode p] @
      map p_Mode (pm_ReqCELRules p) @ map cap_Mode (pm_ReqAIRules p) @
      map rp_Mode (pm_RespCELRules p) @ map carp_Mode (pm_RespAIRules p))"

definition server_ok :: "Config \<Rightarrow> bool" where
  "server_ok cfg \<longleftrightarrow> cf_ServerType cfg \<in> {''stdio'', ''http'', ''sse''} \<and>
     (cf_ServerType cfg \<noteq> ''stdio'' \<longrightarrow> cf_ListenAddr cfg \<noteq> '''') \<and>
     (cf_ServerType cfg = ''sse'' \<and> cf_TLSEnabled cfg \<longrightarrow> cf_TLSCertFile cfg \<noteq> '''' \<and> cf_TLSKeyFile cfg \<noteq> '''')"

definition client_ok :: "ClientConfig \<Rightarrow> bool" where
  "client_ok c \<longleftrightarrow>
     (if cc_Type c = ''stdio'' then cc_Command c \<noteq> ''''
      else cc_Type c \<in> {''sse'', ''http''} \<and> cc_DownstreamURL c \<noteq> '''') \<and>
     in_range 0 300000 (cc_StartupTimeoutMs c) \<and> in_range 0 10 (cc_InitializationRetries c) \<and>
     in_range 0 10000 (cc_RetryDelayMs c) \<and> in_range 0 60000 (cc_CapabilityDiscoveryDelayMs c) \<and>
     in_range 0 10 (cc_CapabilityDiscoveryRetries c) \<and> in_range 0 30000 (cc_CapabilityRetryDelayMs c) \<and>
     (cc_PassThroughEnabled c \<longrightarrow> cc_Type c \<in> {''sse'', ''http''} \<and> cc_PassThroughHeaders c \<noteq> [] \<and>
        list_all (\<lambda>m. cm_SourceHeader m \<noteq> '''' \<and> cm_TargetHeader m \<noteq> '''') (cc_PassThroughHeaders c))"

definition ai_ok :: "config_lib \<Rightarrow> Config \<Rightarrow> bool" where
  "ai_ok L cfg \<longleftrightarrow> (ai_needed cfg \<longrightarrow>
     cf_AIProvider cfg \<in> {'''', ''openai'', ''openai_compatible'', ''anthropic''} \<and>
     cf_AIAPIKey cfg \<noteq> '''' \<and> cf_AIModel cfg \<noteq> '''' \<and>
     (if cf_AIEndpoint cfg = '''' then cf_AIProvider cfg \<noteq> ''openai_compatible''
      else cl_UrlError L (cf_AIEndpoint cfg) = None))"

definition path_ok :: "string \<Rightarrow> bool" where
  "path_ok p \<longleftrightarrow> p \<in> {'''', ''stdout'', ''stderr''} \<or> ValidateRelativePath p = None"

definition config_ok :: "config_lib \<Rightarrow> Config \<Rightarrow> bool" where
  "config_ok L cfg \<longleftrightarrow> modes_ok (cf_Phases cfg) \<and> server_ok cfg \<and>
     list_all (client_ok \<circ> snd) (cf_Servers cfg) \<and> ai_ok L cfg \<and>
     in_range 0 120000 (cf_MaxBlockingMs cfg) \<and> in_range 0 120000 (cf_MaxRuleEvaluationMs cfg) \<and>
     (cf_AuditLogEnabled cfg \<longrightarrow> in_range 10 500 (cf_AuditLogMaxEntries cfg)) \<and>
     (cf_AuditReportEnabled cfg \<longrightarrow> in_range 10 2000 (cf_AuditReportMaxEntries cfg) \<and>
        in_range 30 300 (cf_AuditReportTimeoutSeconds cfg)) \<and>
     path_ok (cf_LoggerPath cfg) \<and> path_ok (cf_AuditPath cfg) \<and>
     (cf_CLIEnabled cfg \<longrightarrow> cf_ValidateCommands cfg \<noteq> [])"

named_theorems no_errors

lemma rule_mode_errors_Nil [no_errors]:
  "rule_mode_errors L path name mode i rs = [] \<longleftrightarrow> list_all (\<lambda>r. PolicyMode_IsValid (mode r)) rs"
  by (induction L path name mode i rs rule: rule_mode_errors.induct) auto

lemma phase_errors_Nil [no_errors]: "phase_errors L p = [] \<longleftrightarrow> modes_ok p"
  by (simp add: phase_errors_def mode_error_def modes_ok_def no_errors list.pred_map comp_def)

lemma server_errors_Nil [no_errors]: "server_errors cfg = [] \<longleftrightarrow> server_ok cfg"
  by (auto simp: server_errors_def server_ok_def)

lemma number_errors_Nil [no_errors]: "number_errors path v hi bound = [] \<longleftrightarrow> in_range 0 hi v"
  by (auto simp: number_errors_def in_range_def)

lemma validateRange_Nil [no_errors]: "validateRange v lo hi f = [] \<longleftrightarrow> in_range lo hi v"
  by (auto simp: validateRange_def in_range_def)

lemma mapping_errors_Nil [no_errors]:
  "mapping_errors name i ms = [] \<longleftrightarrow> list_all (\<lambda>m. cm_SourceHeader m \<noteq> '''' \<and> cm_TargetHeader m \<noteq> '''') ms"
  by (induction name i ms rule: mapping_errors.induct) auto

lemma client_errors_Nil [no_errors]: "client_errors name c = [] \<longleftrightarrow> client_ok c"
  by (auto simp: client_errors_def client_ok_def pass_through_errors_def no_errors)

lemma ai_errors_Nil [no_errors]: "ai_errors L cfg = [] \<longleftrightarrow> ai_ok L cfg"
  by (auto simp: ai_errors_def ai_ok_def validProviders_def split: option.splits)

lemma path_errors_Nil [no_errors]: "path_errors f p = [] \<longleftrightarrow> path_ok p"
  by (auto simp: path_errors_def path_ok_def split: option.splits)

lemma config_errors_Nil: "config_errors L cfg = [] \<longleftrightarrow> config_ok L cfg"
  by (auto simp: config_errors_def config_ok_def no_errors list_all_iff)

lemma finish_config_cases:
  "finish_config L F dir found config =
     (let (es, phases) = load_phases F dir (server_defaults config);
          cfg = normalized_config phases (server_defaults config)
      in if es = [] \<and> config_ok L cfg then Inr cfg
         else Inl (the (validateConfigWithOptions L cfg found es)))"
  by (auto simp: finish_config_def validateConfigWithOptions_def config_errors_Nil Let_def split: prod.splits)

text \<open>
  A configuration is accepted exactly when its rule files load and it is well formed with its defaults
  filled in.
\<close>

lemma finish_config_exact:
  "case finish_config L F dir found config of
     Inr cfg \<Rightarrow> config_ok L cfg \<and> fst (load_phases F dir (server_defaults config)) = [] \<and>
       cfg = normalized_config (snd (load_phases F dir (server_defaults config))) (server_defaults config)
   | Inl e \<Rightarrow> \<not> (fst (load_phases F dir (server_defaults config)) = [] \<and>
       config_ok L (normalized_config (snd (load_phases F dir (server_defaults config))) (server_defaults config)))"
  by (auto simp: finish_config_cases Let_def split: prod.splits)

section \<open>The rules of an accepted configuration\<close>

lemma finish_config_Inr:
  "finish_config L F dir found config = Inr cfg \<Longrightarrow>
     cfg = normalized_config (snd (load_phases F dir (server_defaults config))) (server_defaults config)"
  by (auto simp: finish_config_cases Let_def split: prod.splits if_splits)

lemma server_defaults_phases [simp]:
  "cf_Phases (server_defaults config) = cf_Phases config"
  "cf_ReqCEL (server_defaults config) = cf_ReqCEL config" "cf_ReqAI (server_defaults config) = cf_ReqAI config"
  "cf_RespCEL (server_defaults config) = cf_RespCEL config" "cf_RespAI (server_defaults config) = cf_RespAI config"
  by (simp_all add: server_defaults_def Let_def)

lemma load_phases_modes [simp]:
  "pm_ReqCELMode (snd (load_phases F dir c)) = pm_ReqCELMode (cf_Phases c)"
  "pm_ReqAIMode (snd (load_phases F dir c)) = pm_ReqAIMode (cf_Phases c)"
  "pm_RespCELMode (snd (load_phases F dir c)) = pm_RespCELMode (cf_Phases c)"
  "pm_RespAIMode (snd (load_phases F dir c)) = pm_RespAIMode (cf_Phases c)"
  by (simp_all add: load_phases_def Let_def split: prod.split)

lemma configured_modes:
  assumes "finish_config L F dir found config = Inr cfg"
  shows "pm_ReqCELMode (cf_Phases cfg) = PolicyMode_Normalize (pm_ReqCELMode (cf_Phases config)) PolicyModeAuditOnly"
    "pm_ReqAIMode (cf_Phases cfg) = PolicyMode_Normalize (pm_ReqAIMode (cf_Phases config)) PolicyModeAuditOnly"
    "pm_RespCELMode (cf_Phases cfg) = PolicyMode_Normalize (pm_RespCELMode (cf_Phases config)) PolicyModeAuditOnly"
    "pm_RespAIMode (cf_Phases cfg) = PolicyMode_Normalize (pm_RespAIMode (cf_Phases config)) PolicyModeAuditOnly"
  by (simp_all add: finish_config_Inr [OF assms] normalized_config_def normalizePolicyModes_def)

definition rules_from ::
  "rule_files \<Rightarrow> (string \<Rightarrow> string + 'r list) \<Rightarrow> string \<Rightarrow> PhaseFile \<Rightarrow> 'r list \<Rightarrow> 'r list \<Rightarrow> bool" where
  "rules_from F parse dir phase old rs \<longleftrightarrow>
     (if pf_Enabled phase
      then ValidateRelativePath (pf_RulesFile phase) = None \<and>
        (case rf_ReadFile F (path_join dir (pf_RulesFile phase)) of Inl e \<Rightarrow> False | Inr data \<Rightarrow> parse data = Inr rs)
      else rs = old)"

definition action_or_deny :: "ConfigAIPolicy \<Rightarrow> ConfigAIPolicy" where
  "action_or_deny r = (if cap_Action r = '''' then r\<lparr> cap_Action := PolicyActionDeny \<rparr> else r)"

lemma validated_path:
  assumes "ValidateRelativePath p = None"
  shows "p \<noteq> ''''" "resolveRulesFilePath p dir = path_join dir p"
proof -
  from assms show ne: "p \<noteq> ''''" by (auto simp: ValidateRelativePath_def)
  have "\<not> IsAbs p"
  proof
    assume "IsAbs p"
    then have "IsAbs (Clean p)" by (simp add: Clean_def IsAbs_def HasPrefix_def Let_def)
    with assms show False by (auto simp: ValidateRelativePath_def Let_def split: if_splits option.splits)
  qed
  with ne show "resolveRulesFilePath p dir = path_join dir p" by (simp add: resolveRulesFilePath_def)
qed

lemma path_join_ne: "p \<noteq> '''' \<Longrightarrow> path_join dir p \<noteq> ''''"
  by (auto simp: path_join_def Clean_def Let_def)

text \<open>\<open>post\<close> is what a loading function does to the rules it has parsed.\<close>

lemma phase_rules_from:
  assumes "phase_rules phase sec kind dir load old = ([], rs)"
    and "\<And>path. path \<noteq> '''' \<Longrightarrow> load path =
      (case read_rules (rf_ReadFile F) parse words rest path of Inl e \<Rightarrow> Inl e | Inr rs \<Rightarrow> Inr (post rs))"
  shows "\<exists>rs'. rules_from F parse dir phase old rs' \<and> rs = (if pf_Enabled phase then post rs' else rs')"
  using assms(1) assms(2) [OF path_join_ne, of "pf_RulesFile phase" dir]
  by (auto simp: phase_rules_def rules_from_def read_rules_def validated_path
      split: if_splits option.splits sum.splits)

lemma sum_id: "(case x of Inl e \<Rightarrow> Inl e | Inr r \<Rightarrow> Inr r) = x"
  by (cases x) auto

text \<open>
  The rules of an accepted configuration are those of the files it names: an enabled phase has the
  rules of the file at its checked relative path below the configuration directory, in file order,
  and a disabled phase those it had. Nothing but unset modes is filled in, and an AI request rule
  without an action denies.
\<close>

lemma configured_rules_from_files:
  "case finish_config L F dir found config of
     Inl e \<Rightarrow> True
   | Inr cfg \<Rightarrow>
       (let p = cf_Phases config in
        \<exists>r1 r2 r3 r4.
          rules_from F (rf_Policies F) dir (cf_ReqCEL config) (pm_ReqCELRules p) r1 \<and>
          rules_from F (rf_AIPolicies F) dir (cf_ReqAI config) (pm_ReqAIRules p) r2 \<and>
          rules_from F (rf_ResponsePolicies F) dir (cf_RespCEL config) (pm_RespCELRules p) r3 \<and>
          rules_from F (rf_AIResponsePolicies F) dir (cf_RespAI config) (pm_RespAIRules p) r4 \<and>
          cf_Phases cfg = normalizePolicyModes (p
            \<lparr> pm_ReqCELRules := r1,
              pm_ReqAIRules := (if pf_Enabled (cf_ReqAI config) then map action_or_deny r2 else r2),
              pm_RespCELRules := r3, pm_RespAIRules := r4 \<rparr>))"
proof (cases "finish_config L F dir found config")
  case (Inr cfg)
  let ?p = "cf_Phases config"
  obtain r1 r2 r3 r4 where r:
    "phase_rules (cf_ReqCEL config) ''request_validation.cel'' ''CEL request'' dir
       (LoadPoliciesFromFile F) (pm_ReqCELRules ?p) = ([], r1)"
    "phase_rules (cf_ReqAI config) ''request_validation.ai'' ''AI request'' dir
       (LoadAIPoliciesFromFile F) (pm_ReqAIRules ?p) = ([], r2)"
    "phase_rules (cf_RespCEL config) ''response_validation.cel'' ''CEL response'' dir
       (LoadResponsePoliciesFromFile F) (pm_RespCELRules ?p) = ([], r3)"
    "phase_rules (cf_RespAI config) ''response_validation.ai'' ''AI response'' dir
       (LoadAIResponsePoliciesFromFile F) (pm_RespAIRules ?p) = ([], r4)"
    and cfg: "cf_Phases cfg = normalizePolicyModes
      (?p\<lparr> pm_ReqCELRules := r1, pm_ReqAIRules := r2, pm_RespCELRules := r3, pm_RespAIRules := r4 \<rparr>)"
    using Inr by (auto simp: finish_config_cases load_phases_def normalized_config_def Let_def
        split: prod.splits if_splits)
  obtain s1 where s1: "rules_from F (rf_Policies F) dir (cf_ReqCEL config) (pm_ReqCELRules ?p) s1" "r1 = s1"
    using phase_rules_from [OF r(1), where F = F and parse = "rf_Policies F" and post = "\<lambda>x. x"]
    by (auto simp: LoadPoliciesFromFile_def sum_id)
  obtain s2 where s2: "rules_from F (rf_AIPolicies F) dir (cf_ReqAI config) (pm_ReqAIRules ?p) s2"
      "r2 = (if pf_Enabled (cf_ReqAI config) then map action_or_deny s2 else s2)"
    using phase_rules_from [OF r(2), where F = F and parse = "rf_AIPolicies F" and post = "map action_or_deny"
        and words = "''AI policies file''" and rest = "''AI policies''"]
    by (auto simp: LoadAIPoliciesFromFile_def action_or_deny_def [abs_def] cong: sum.case_cong)
  obtain s3 where s3: "rules_from F (rf_ResponsePolicies F) dir (cf_RespCEL config) (pm_RespCELRules ?p) s3" "r3 = s3"
    using phase_rules_from [OF r(3), where F = F and parse = "rf_ResponsePolicies F" and post = "\<lambda>x. x"]
    by (auto simp: LoadResponsePoliciesFromFile_def sum_id)
  obtain s4 where s4: "rules_from F (rf_AIResponsePolicies F) dir (cf_RespAI config) (pm_RespAIRules ?p) s4" "r4 = s4"
    using phase_rules_from [OF r(4), where F = F and parse = "rf_AIResponsePolicies F" and post = "\<lambda>x. x"]
    by (auto simp: LoadAIResponsePoliciesFromFile_def sum_id)
  from s1 s2 s3 s4 cfg have "rules_from F (rf_Policies F) dir (cf_ReqCEL config) (pm_ReqCELRules ?p) s1 \<and>
    rules_from F (rf_AIPolicies F) dir (cf_ReqAI config) (pm_ReqAIRules ?p) s2 \<and>
    rules_from F (rf_ResponsePolicies F) dir (cf_RespCEL config) (pm_RespCELRules ?p) s3 \<and>
    rules_from F (rf_AIResponsePolicies F) dir (cf_RespAI config) (pm_RespAIRules ?p) s4 \<and>
    cf_Phases cfg = normalizePolicyModes (?p
      \<lparr> pm_ReqCELRules := s1,
        pm_ReqAIRules := (if pf_Enabled (cf_ReqAI config) then map action_or_deny s2 else s2),
        pm_RespCELRules := s3, pm_RespAIRules := s4 \<rparr>)" by simp
  with Inr show ?thesis by (auto simp: Let_def)
qed simp

text \<open>A downstream server that can be started or reached, and knows the headers it passes through.\<close>

definition client_usable :: "ClientConfig \<Rightarrow> bool" where
  "client_usable c \<longleftrightarrow>
     (if cc_Type c = ''stdio'' then cc_Command c \<noteq> ''''
      else cc_Type c \<in> {''sse'', ''http''} \<and> cc_DownstreamURL c \<noteq> '''') \<and>
     (cc_PassThroughEnabled c \<longrightarrow> cc_Type c \<in> {''sse'', ''http''} \<and> cc_PassThroughHeaders c \<noteq> [] \<and>
        list_all (\<lambda>m. cm_SourceHeader m \<noteq> '''' \<and> cm_TargetHeader m \<noteq> '''') (cc_PassThroughHeaders c))"

text \<open>
  The rules of a phase are those of its file, or those given when it is disabled, in order; \<open>post\<close>
  is what loading adds, and only a mode that is not set may be another.
\<close>

definition loaded_rules ::
  "(PolicyMode \<Rightarrow> 'r \<Rightarrow> 'r) \<Rightarrow> ('r \<Rightarrow> PolicyMode) \<Rightarrow> ('r \<Rightarrow> 'r) \<Rightarrow> rule_files \<Rightarrow>
     (string \<Rightarrow> string + 'r list) \<Rightarrow> string \<Rightarrow> PhaseFile \<Rightarrow> 'r list \<Rightarrow> 'r list \<Rightarrow> bool" where
  "loaded_rules put get post F parse dir phase given rs \<longleftrightarrow>
     (\<exists>read. rules_from F parse dir phase given read \<and>
       list_all2 (\<lambda>r r'. \<exists>m. r' = put m r \<and> (get r = '''' \<or> m = get r))
         (if pf_Enabled phase then map post read else read) rs)"

lemma loaded_rulesI:
  assumes "rules_from F parse dir phase given read" "rs = map f (if pf_Enabled phase then map post read else read)"
    and "\<And>r. f r = put (PolicyMode_Normalize (get r) PolicyModeEnforce) r"
  shows "loaded_rules put get post F parse dir phase given rs"
proof -
  have one: "\<exists>m. f r = put m r \<and> (get r = '''' \<or> m = get r)" for r
    by (intro exI [of _ "PolicyMode_Normalize (get r) PolicyModeEnforce"])
       (simp add: assms(3) PolicyMode_Normalize_def)
  have "list_all2 (\<lambda>r r'. \<exists>m. r' = put m r \<and> (get r = '''' \<or> m = get r)) rs' (map f rs')" for rs'
    unfolding list_all2_map2 by (rule list.rel_refl) (rule one)
  with assms(1,2) show ?thesis unfolding loaded_rules_def by blast
qed

text \<open>
  C13. An accepted configuration is well formed: every mode of a phase or rule is one of the two modes;
  the gateway has an address to listen at, and its key files when it serves SSE with TLS; every downstream
  server has a command or an address and, where it passes credentials through, complete mappings; the
  AI settings are complete where an AI feature is on; log and audit files stay below their directory; and
  command validation has commands to validate. Its rules are those of the files it names, in file order,
  read from a checked relative path below the configuration directory: nothing is changed in them but a
  mode that is not set, and an AI request rule without an action denies.
\<close>

theorem accepted_config_well_formed:
  "case finish_config L F dir found config of
     Inl e \<Rightarrow> True
   | Inr cfg \<Rightarrow>
       modes_ok (cf_Phases cfg) \<and> server_ok cfg \<and> list_all (client_usable \<circ> snd) (cf_Servers cfg) \<and> ai_ok L cfg \<and>
       path_ok (cf_LoggerPath cfg) \<and> path_ok (cf_AuditPath cfg) \<and>
       (if cf_CLIEnabled cfg then cf_ValidateCommands cfg \<noteq> [] else True) \<and>
       (let given = cf_Phases config; p = cf_Phases cfg in
         loaded_rules (\<lambda>m r. r\<lparr> p_Mode := m \<rparr>) p_Mode id F (rf_Policies F) dir
           (cf_ReqCEL config) (pm_ReqCELRules given) (pm_ReqCELRules p) \<and>
         loaded_rules (\<lambda>m r. r\<lparr> cap_Mode := m \<rparr>) cap_Mode action_or_deny F (rf_AIPolicies F) dir
           (cf_ReqAI config) (pm_ReqAIRules given) (pm_ReqAIRules p) \<and>
         loaded_rules (\<lambda>m r. r\<lparr> rp_Mode := m \<rparr>) rp_Mode id F (rf_ResponsePolicies F) dir
           (cf_RespCEL config) (pm_RespCELRules given) (pm_RespCELRules p) \<and>
         loaded_rules (\<lambda>m r. r\<lparr> carp_Mode := m \<rparr>) carp_Mode id F (rf_AIResponsePolicies F) dir
           (cf_RespAI config) (pm_RespAIRules given) (pm_RespAIRules p))"
proof (cases "finish_config L F dir found config")
  case (Inr cfg)
  have ok: "config_ok L cfg" using Inr by (auto simp: finish_config_cases Let_def split: prod.splits if_splits)
  then have clients: "list_all (client_usable \<circ> snd) (cf_Servers cfg)"
    by (auto simp: config_ok_def client_ok_def client_usable_def list_all_iff)
  let ?given = "cf_Phases config" and ?p = "cf_Phases cfg"
  from configured_rules_from_files [where L = L and F = F and dir = dir and found = found and config = config] Inr obtain r1 r2 r3 r4 where r:
    "rules_from F (rf_Policies F) dir (cf_ReqCEL config) (pm_ReqCELRules ?given) r1"
    "rules_from F (rf_AIPolicies F) dir (cf_ReqAI config) (pm_ReqAIRules ?given) r2"
    "rules_from F (rf_ResponsePolicies F) dir (cf_RespCEL config) (pm_RespCELRules ?given) r3"
    "rules_from F (rf_AIResponsePolicies F) dir (cf_RespAI config) (pm_RespAIRules ?given) r4"
    "?p = normalizePolicyModes (?given
       \<lparr> pm_ReqCELRules := r1,
         pm_ReqAIRules := (if pf_Enabled (cf_ReqAI config) then map action_or_deny r2 else r2),
         pm_RespCELRules := r3, pm_RespAIRules := r4 \<rparr>)"
    by (auto simp: Let_def)
  note rules = loaded_rulesI [OF r(1), where post = id and put = "\<lambda>m r. r\<lparr> p_Mode := m \<rparr>" and get = p_Mode]
    loaded_rulesI [OF r(2), where post = action_or_deny and put = "\<lambda>m r. r\<lparr> cap_Mode := m \<rparr>" and get = cap_Mode]
    loaded_rulesI [OF r(3), where post = id and put = "\<lambda>m r. r\<lparr> rp_Mode := m \<rparr>" and get = rp_Mode]
    loaded_rulesI [OF r(4), where post = id and put = "\<lambda>m r. r\<lparr> carp_Mode := m \<rparr>" and get = carp_Mode]
  have "loaded_rules (\<lambda>m r. r\<lparr> p_Mode := m \<rparr>) p_Mode id F (rf_Policies F) dir
           (cf_ReqCEL config) (pm_ReqCELRules ?given) (pm_ReqCELRules ?p)"
    by (rule rules(1)) (simp_all add: r(5) normalizePolicyModes_def)
  moreover have "loaded_rules (\<lambda>m r. r\<lparr> cap_Mode := m \<rparr>) cap_Mode action_or_deny F (rf_AIPolicies F) dir
           (cf_ReqAI config) (pm_ReqAIRules ?given) (pm_ReqAIRules ?p)"
    by (rule rules(2)) (simp_all add: r(5) normalizePolicyModes_def)
  moreover have "loaded_rules (\<lambda>m r. r\<lparr> rp_Mode := m \<rparr>) rp_Mode id F (rf_ResponsePolicies F) dir
           (cf_RespCEL config) (pm_RespCELRules ?given) (pm_RespCELRules ?p)"
    by (rule rules(3)) (simp_all add: r(5) normalizePolicyModes_def)
  moreover have "loaded_rules (\<lambda>m r. r\<lparr> carp_Mode := m \<rparr>) carp_Mode id F (rf_AIResponsePolicies F) dir
           (cf_RespAI config) (pm_RespAIRules ?given) (pm_RespAIRules ?p)"
    by (rule rules(4)) (simp_all add: r(5) normalizePolicyModes_def)
  moreover from ok have "modes_ok ?p" "server_ok cfg" "ai_ok L cfg" "path_ok (cf_LoggerPath cfg)" "path_ok (cf_AuditPath cfg)"
    "cf_CLIEnabled cfg \<longrightarrow> cf_ValidateCommands cfg \<noteq> []" by (auto simp: config_ok_def)
  ultimately show ?thesis using Inr clients by (simp add: Let_def)
qed simp

end
