(* ===== verification/Discovery.thy ===== *)
theory Discovery
  imports Gateway
begin

text \<open>
  How sessions come to their downstream clients and tools (\<^verbatim>\<open>server.go\<close>, and \<^verbatim>\<open>gateway.go\<close> from
  \<^verbatim>\<open>DiscoverPassThroughTools\<close> on): the hooks of the MCP library for sessions and requests, the filter
  of the tool list, and discovery on request. The library's registry of tools is a list of names.
\<close>

record 'c mcp_server =
  sv_manager :: "'c ClientManager"
  sv_tools :: "string list"
  sv_session_tools :: "(string \<times> string) list"

definition with_manager :: "'c ClientManager \<Rightarrow> 'c mcp_server \<Rightarrow> 'c mcp_server" where
  "with_manager m sv = sv\<lparr> sv_manager := m \<rparr>"

definition on_sessions :: "('c SessionManager \<Rightarrow> 'a \<times> 'c SessionManager) \<Rightarrow> 'c mcp_server \<Rightarrow> 'a \<times> 'c mcp_server" where
  "on_sessions f sv = (case f (cm_sessions (sv_manager sv)) of
     (r, sm) \<Rightarrow> (r, with_manager (with_sessions sm (sv_manager sv)) sv))"

definition AddTool :: "string \<Rightarrow> 'c mcp_server \<Rightarrow> 'c mcp_server" where
  "AddTool name sv = (if name \<in> set (sv_tools sv) then sv else sv\<lparr> sv_tools := sv_tools sv @ [name] \<rparr>)"

section \<open>Hooks\<close>

definition hasPassThroughCredentials :: "client_configs \<Rightarrow> request_context \<Rightarrow> bool" where
  "hasPassThroughCredentials configs ctx =
     (case ctx_RawHeaders ctx of
        None \<Rightarrow> False
      | Some rawHeaders \<Rightarrow>
          list_ex (\<lambda>(name, cfg). cc_PassThroughEnabled cfg \<and>
            list_ex (\<lambda>mapping. rawHeaders (cm_SourceHeader mapping) \<noteq> '''') (cc_PassThroughHeaders cfg)) configs)"

definition onSessionRegister ::
  "(nat \<Rightarrow> int) \<Rightarrow> ('a) call_context_scheme \<Rightarrow> string \<Rightarrow> 'c SessionManager \<Rightarrow> 'c SessionManager" where
  "onSessionRegister T ctx sessionID sm =
     (let connected = (\<lambda>a sm. at_session a (SetConnected True) (refresh_metadata ctx a sm)) in
      case CreateSession (T 0) sessionID sm of
        (Inr a, sm1) \<Rightarrow> connected a sm1
      | (Inl err, sm1) \<Rightarrow> (case GetSession (T 1) sessionID sm1 of
          (None, sm2) \<Rightarrow> sm2
        | (Some a, sm2) \<Rightarrow> connected a sm2))"

definition onSessionUnregister :: "(nat \<Rightarrow> int) \<Rightarrow> string \<Rightarrow> 'c SessionManager \<Rightarrow> 'c SessionManager" where
  "onSessionUnregister T sessionID sm =
     (let sm1 = (case GetSession (T 0) sessionID sm of
          (Some a, sm1) \<Rightarrow> at_session a (SetConnected False) sm1
        | (None, sm1) \<Rightarrow> sm1)
      in snd (GetSessionClientNames (T 1) sessionID sm1))"

text \<open>The method and the tool name of a message, where they can be read from it.\<close>

definition onRequestInitialization ::
  "client_configs \<Rightarrow> string option \<Rightarrow> string option \<Rightarrow> string option \<Rightarrow> 'c SessionManager \<Rightarrow> session_error option" where
  "onRequestInitialization configs session meth name sm =
     (case meth of
        None \<Rightarrow> None
      | Some m \<Rightarrow>
          if m \<noteq> ''tools/call'' then None
          else case name of
            None \<Rightarrow> None
          | Some toolName \<Rightarrow>
              if toolName = '''' then None
              else case ParsePrefixedName toolName of
                Inl err \<Rightarrow> None
              | Inr (clientName, rest) \<Rightarrow>
                  if \<not> IsClientConfigured configs clientName then None
                  else case session of
                    None \<Rightarrow> None
                  | Some sessionID \<Rightarrow>
                      if HasSession sessionID sm then None
                      else Some (SessionExpired sessionID (''session not found for tool '' @ squote toolName @
                        '' from downstream server '' @ squote clientName)))"

section \<open>Listing tools\<close>

definition prefixed_tools :: "string \<times> 'c SessionClientInfo \<Rightarrow> string list" where
  "prefixed_tools = (\<lambda>(clientName, info).
     if \<not> cc_PassThroughEnabled (sci_Config info) then [] else map (PrefixName clientName) (sci_Tools info))"

definition getToolsFromExistingClients :: "int \<Rightarrow> string \<Rightarrow> 'c SessionManager \<Rightarrow> string list \<times> 'c SessionManager" where
  "getToolsFromExistingClients now sessionID sm =
     (case GetAllSessionClients now sessionID sm of
        (Inl err, sm1) \<Rightarrow> ([], sm1)
      | (Inr clients, sm1) \<Rightarrow> (concat (map prefixed_tools clients), sm1))"

text \<open>
  The first list of a session without clients connects them, if the request carries credentials.
  Requests of a session that come in meanwhile wait for the result of the first.
\<close>

definition lazy_discovery ::
  "'c mcp_env \<Rightarrow> (string \<Rightarrow> string \<Rightarrow> go_error option) \<Rightarrow> (nat \<Rightarrow> int) \<Rightarrow> request_context \<Rightarrow> client_configs \<Rightarrow>
     string \<Rightarrow> 'c mcp_server \<Rightarrow> (go_error + string list) \<times> 'c mcp_server" where
  "lazy_discovery env AddSessionTool T ctx configs sessionID sv =
     (case on_sessions (GetSessionClientNames (T 0) sessionID) sv of
        (existing, sv1) \<Rightarrow>
          if length existing > 0
          then (case on_sessions (getToolsFromExistingClients (T 1) sessionID) sv1 of (tools, sv2) \<Rightarrow> (Inr tools, sv2))
          else case CreateSessionClients env (\<lambda>n. T (n + 2)) ctx sessionID configs (sv_manager sv1) of
            (found, Some err, m) \<Rightarrow> (Inl err, with_manager m sv1)
          | (found, None, m) \<Rightarrow>
              let allTools = concat (map prefixed_tools (case found of None \<Rightarrow> [] | Some f \<Rightarrow> f));
                  added = filter (\<lambda>t. AddSessionTool sessionID t = None) allTools
              in (Inr allTools, (with_manager m sv1)\<lparr> sv_session_tools := sv_session_tools sv1 @ map (Pair sessionID) added \<rparr>))"

definition ensurePassThroughToolsDiscovered ::
  "'c mcp_env \<Rightarrow> (string \<Rightarrow> string \<Rightarrow> go_error option) \<Rightarrow> (nat \<Rightarrow> int) \<Rightarrow> request_context \<Rightarrow> client_configs \<Rightarrow>
     string \<Rightarrow> 'c mcp_server \<Rightarrow> string list \<times> 'c mcp_server" where
  "ensurePassThroughToolsDiscovered env AddSessionTool T ctx configs sessionID sv =
     (case on_sessions (GetSessionClientNames (T 0) sessionID) sv of
        (existing, sv1) \<Rightarrow>
          if length existing > 0 then on_sessions (getToolsFromExistingClients (T 1) sessionID) sv1
          else if \<not> hasPassThroughCredentials configs ctx then ([], sv1)
          else (case lazy_discovery env AddSessionTool (\<lambda>n. T (n + 2)) ctx configs sessionID sv1 of
              (Inl err, sv2) \<Rightarrow> ([], sv2)
            | (Inr tools, sv2) \<Rightarrow> (tools, sv2)))"

definition toolListFilter ::
  "'c mcp_env \<Rightarrow> (string \<Rightarrow> string \<Rightarrow> go_error option) \<Rightarrow> (nat \<Rightarrow> int) \<Rightarrow> request_context \<Rightarrow> client_configs \<Rightarrow>
     string option \<Rightarrow> string list \<Rightarrow> 'c mcp_server \<Rightarrow> string list \<times> 'c mcp_server" where
  "toolListFilter env AddSessionTool T ctx configs session tools sv =
     (case session of
        None \<Rightarrow> (tools, sv)
      | Some sessionID \<Rightarrow>
          (case ensurePassThroughToolsDiscovered env AddSessionTool T ctx configs sessionID sv of
             (discovered, sv1) \<Rightarrow> (tools @ filter (\<lambda>t. t \<notin> set tools) discovered, sv1)))"

section \<open>Discovery on request\<close>

record DiscoveredClientInfo =
  dcl_ClientName :: string
  dcl_ToolCount :: int
  dcl_Tools :: "string list"

record DiscoveryError =
  der_ClientName :: string
  der_Error :: string

record DiscoveryResult =
  dr_DiscoveredClients :: "DiscoveredClientInfo list"
  dr_AlreadyConnected :: "string list"
  dr_Errors :: "DiscoveryError list"
  dr_Shared :: bool

definition register_tools :: "string \<Rightarrow> string list \<Rightarrow> 'c mcp_server \<Rightarrow> 'c mcp_server" where
  "register_tools name tools sv = fold (\<lambda>t. AddTool (PrefixName name t)) tools sv"

text \<open>One pass-through client: already connected, or connected now.\<close>

definition discover_one ::
  "'c mcp_env \<Rightarrow> (nat \<Rightarrow> int) \<Rightarrow> ('a) call_context_scheme \<Rightarrow> string \<Rightarrow> string \<times> ClientConfig \<Rightarrow>
     DiscoveryResult \<times> 'c mcp_server \<Rightarrow> DiscoveryResult \<times> 'c mcp_server" where
  "discover_one env T ctx sessionID = (\<lambda>(name, cfg) (result, sv).
     case on_sessions (cm_GetSessionClient (T 0) sessionID name) sv of
       (existing, sv1) \<Rightarrow>
         (case (case existing of Inl err \<Rightarrow> None | Inr info \<Rightarrow> if sci_Client info \<noteq> None then Some info else None) of
            Some info \<Rightarrow>
              (result\<lparr> dr_AlreadyConnected := dr_AlreadyConnected result @ [name] \<rparr>,
               register_tools name (sci_Tools info) sv1)
          | None \<Rightarrow>
              (case CreateSingleSessionClient env (\<lambda>n. T (n + 1)) ctx sessionID name cfg (sv_manager sv1) of
                 (Inl err, m) \<Rightarrow>
                   (result\<lparr> dr_Errors := dr_Errors result @ [\<lparr> der_ClientName = name, der_Error = error_text err \<rparr>] \<rparr>,
                    with_manager m sv1)
               | (Inr info, m) \<Rightarrow>
                   let sv2 = with_manager m sv1; tools = sci_Tools info in
                   if length tools > 0
                   then (result\<lparr> dr_DiscoveredClients := dr_DiscoveredClients result @
                           [\<lparr> dcl_ClientName = name, dcl_ToolCount = int (length tools), dcl_Tools = tools \<rparr>] \<rparr>,
                         register_tools name tools sv2)
                   else (result, sv2))))"

definition no_discovery :: DiscoveryResult where
  "no_discovery = \<lparr> dr_DiscoveredClients = [], dr_AlreadyConnected = [], dr_Errors = [], dr_Shared = False \<rparr>"

definition doDiscoverPassThroughTools ::
  "'c mcp_env \<Rightarrow> (nat \<Rightarrow> int) \<Rightarrow> ('a) call_context_scheme \<Rightarrow> client_configs \<Rightarrow> string \<Rightarrow> string \<Rightarrow> 'c mcp_server \<Rightarrow>
     (go_error + DiscoveryResult) \<times> 'c mcp_server" where
  "doDiscoverPassThroughTools env T ctx configs sessionID clientName sv =
     (let passThroughClients = filter (\<lambda>(name, cfg). cc_PassThroughEnabled cfg \<and> \<not> (clientName \<noteq> '''' \<and> name \<noteq> clientName)) configs
      in if length passThroughClients = 0
         then if clientName \<noteq> ''''
              then (Inl (PlainError (''client '' @ squote clientName @ '' is not configured or is not a pass-through client'')), sv)
              else (Inr no_discovery, sv)
         else (case fold (discover_one env T ctx sessionID) passThroughClients (no_discovery, sv) of
             (result, sv') \<Rightarrow> (Inr result, sv')))"

text \<open>A request that waited for the discovery of another gets a copy of its result, marked as shared.\<close>

definition DiscoverPassThroughTools ::
  "'c mcp_env \<Rightarrow> (nat \<Rightarrow> int) \<Rightarrow> bool \<Rightarrow> ('a) call_context_scheme \<Rightarrow> client_configs \<Rightarrow> string \<Rightarrow> string \<Rightarrow> 'c mcp_server \<Rightarrow>
     (go_error + DiscoveryResult) \<times> 'c mcp_server" where
  "DiscoverPassThroughTools env T shared ctx configs sessionID clientName sv =
     (case doDiscoverPassThroughTools env T ctx configs sessionID clientName sv of
        (Inl err, sv') \<Rightarrow> (Inl err, sv')
      | (Inr result, sv') \<Rightarrow> (Inr (if shared then result\<lparr> dr_Shared := True \<rparr> else result), sv'))"

section \<open>Discovery at start\<close>

text \<open>
  The tools of the registry, and the names of prompts, resources and templates; \<open>template\<close> is the
  template library, which may refuse a prefixed template.
\<close>

record registered =
  reg_Prompts :: "string list"
  reg_Resources :: "string list"
  reg_Templates :: "string list"

definition prefixed_all :: "(string \<times> string list) list \<Rightarrow> string list" where
  "prefixed_all m = concat (map (\<lambda>(clientName, names). map (PrefixName clientName) names) m)"

definition registerDiscoveredCapabilities ::
  "(string \<Rightarrow> bool) \<Rightarrow> DiscoveredCapabilities \<Rightarrow> 'c mcp_server \<Rightarrow> registered \<times> 'c mcp_server" where
  "registerDiscoveredCapabilities template d sv =
     (\<lparr> reg_Prompts = prefixed_all (dcap_Prompts d), reg_Resources = prefixed_all (dcap_Resources d),
        reg_Templates = filter template (prefixed_all (dcap_Templates d)) \<rparr>,
      fold (\<lambda>(clientName, tools). register_tools clientName tools) (dcap_Tools d) sv)"

section \<open>Who gets connected\<close>

text \<open>
  What the gateway does to its sessions, where no list of tools comes with credentials: the hooks, the
  filter, discovery on request, the lookups of calls and of the tool that lists sessions, and the ends
  of sessions.
\<close>

inductive quiet_run ::
  "'c mcp_env \<Rightarrow> (string \<Rightarrow> string \<Rightarrow> go_error option) \<Rightarrow> client_configs \<Rightarrow> 'c mcp_server \<Rightarrow> bool"
  for env add configs where
  start: "cm_sessions (sv_manager sv) = NewSessionManagerWithTimeout timeout \<Longrightarrow> quiet_run env add configs sv"
| register: "quiet_run env add configs sv \<Longrightarrow>
    quiet_run env add configs (snd (on_sessions (\<lambda>sm. ((), onSessionRegister T (ctx :: request_context) sid sm)) sv))"
| unregister: "quiet_run env add configs sv \<Longrightarrow>
    quiet_run env add configs (snd (on_sessions (\<lambda>sm. ((), onSessionUnregister T sid sm)) sv))"
| list_tools: "quiet_run env add configs sv \<Longrightarrow> \<not> hasPassThroughCredentials configs ctx \<Longrightarrow>
    quiet_run env add configs (snd (toolListFilter env add T ctx configs session tools sv))"
| discover: "quiet_run env add configs sv \<Longrightarrow>
    quiet_run env add configs (snd (DiscoverPassThroughTools env T shared (ctx :: request_context) configs sid name sv))"
| lookup: "quiet_run env add configs sv \<Longrightarrow>
    quiet_run env add configs (snd (on_sessions (cm_GetSessionClient now sid name) sv))"
| list_sessions: "quiet_run env add configs sv \<Longrightarrow>
    quiet_run env add configs (snd (on_sessions (GetActiveSessions T) sv))"
| client_tools: "quiet_run env add configs sv \<Longrightarrow>
    quiet_run env add configs (snd (on_sessions (GetSessionClientTools now sid) sv))"
| cleanup: "quiet_run env add configs sv \<Longrightarrow>
    quiet_run env add configs (snd (on_sessions (\<lambda>sm. ((), cleanupExpiredSessions ce now sm)) sv))"
| delete: "quiet_run env add configs sv \<Longrightarrow>
    quiet_run env add configs (snd (on_sessions (DeleteSession ce sid) sv))"

text \<open>All clients that sessions hold have names with a property.\<close>

definition named :: "(string \<Rightarrow> bool) \<Rightarrow> 'c SessionManager \<Rightarrow> bool" where
  "named P sm \<longleftrightarrow> list_all (\<lambda>cs. fst ` set cs \<subseteq> Collect P) (map ses_clients (sm_store sm)) \<and> addrs_ok sm"

lemma named_same: "same_conns sm sm' \<Longrightarrow> named P sm' = named P sm"
  using same_connsD(4) [of sm sm'] by (simp add: named_def same_conns_def)

lemma named_sel [simp]: "named P (sm\<lparr> sm_closed := cs \<rparr>) = named P sm"
  by (simp add: named_def)

lemma named_fewer: "set ss \<subseteq> set (sm_sessions sm) \<Longrightarrow> named P sm \<Longrightarrow> named P (sm\<lparr> sm_sessions := ss \<rparr>)"
  by (auto simp: named_def addrs_ok_def list_all_iff)

lemma named_update:
  "named P sm \<Longrightarrow> fst ` set (ses_clients s) \<subseteq> Collect P \<Longrightarrow> named P (sm\<lparr> sm_store := (sm_store sm)[a := s] \<rparr>)"
proof -
  assume n: "named P sm" and s: "fst ` set (ses_clients s) \<subseteq> Collect P"
  then have "list_all (\<lambda>cs. fst ` set cs \<subseteq> Collect P) (map ses_clients ((sm_store sm)[a := s]))"
    using set_update_subset_insert [of "sm_store sm" a s] unfolding named_def list_all_iff by fastforce
  with n show ?thesis by (simp add: named_def addrs_ok_def)
qed

lemma named_nth: "named P sm \<Longrightarrow> a < length (sm_store sm) \<Longrightarrow> fst ` set (ses_clients (sm_store sm ! a)) \<subseteq> Collect P"
  by (simp add: named_def list_all_iff)

lemma named_CreateSession: "named P sm \<Longrightarrow> CreateSession now sid sm = (r, sm') \<Longrightarrow> named P sm'"
proof -
  assume n: "named P sm" and c: "CreateSession now sid sm = (r, sm')"
  have "list_all (\<lambda>(i, a). a < Suc (length (sm_store sm))) (sm_sessions sm)"
    using n by (auto simp: named_def addrs_ok_def list_all_iff)
  with n c show ?thesis
    by (auto simp: named_def addrs_ok_def CreateSession_def NewSession_def Let_def split: option.splits)
qed

lemma named_SetSessionClient:
  assumes "named P sm" "P name" "SetSessionClient sid name info sm = (ok, sm')"
  shows "named P sm'"
proof (cases "map_of (sm_sessions sm) sid")
  case (Some a)
  show ?thesis
  proof (cases "a < length (sm_store sm)")
    case True
    have "fst ` set (AList.update name info (ses_clients (sm_store sm ! a))) \<subseteq> Collect P"
      using named_nth [OF assms(1) True] assms(2) by (simp add: dom_update)
    from named_update [OF assms(1), of "(sm_store sm ! a)\<lparr> ses_clients := AList.update name info (ses_clients (sm_store sm ! a)) \<rparr>"]
      this assms Some show ?thesis
      by (auto simp: SetSessionClient_def SetClient_def split: if_splits)
  next
    case False
    with assms Some show ?thesis by (auto simp: SetSessionClient_def list_update_beyond split: prod.splits)
  qed
qed (use assms in \<open>simp add: SetSessionClient_def\<close>)

lemma named_close_at: "named P sm \<Longrightarrow> close_at ce a sm = (errs, sm') \<Longrightarrow> named P sm'"
  by (auto simp: close_at_def Session_Close_def named_update)

lemma named_close_sessions: "named P sm \<Longrightarrow> close_sessions ce ss sm = (errs, sm') \<Longrightarrow> named P sm'"
proof (induction ss arbitrary: sm errs sm')
  case (Cons x ss)
  obtain i a where x: "x = (i, a)" by (cases x)
  obtain e1 sm1 where c: "close_at ce a sm = (e1, sm1)" by (cases "close_at ce a sm")
  obtain e2 sm2 where r: "close_sessions ce ss sm1 = (e2, sm2)" by (cases "close_sessions ce ss sm1")
  from Cons.IH [OF named_close_at [OF Cons.prems(1) c] r] Cons.prems(2) x c r show ?case by simp
qed simp

lemma named_GetSession: "GetSession now sid sm = (r, sm') \<Longrightarrow> named P sm' = named P sm"
  by (rule named_same [OF GetSession_same(1)])

lemma named_lookups:
  "GetAllSessionClients now sid sm = (r1, sm1) \<Longrightarrow> named P sm1 = named P sm"
  "GetSessionClientNames now sid sm = (r2, sm2) \<Longrightarrow> named P sm2 = named P sm"
  "GetSessionClientTools now sid sm = (r3, sm3) \<Longrightarrow> named P sm3 = named P sm"
  "getToolsFromExistingClients now sid sm = (r4, sm4) \<Longrightarrow> named P sm4 = named P sm"
  "cm_GetSessionClient now sid name sm = (r5, sm5) \<Longrightarrow> named P sm5 = named P sm"
proof -
  show all: "GetAllSessionClients now sid sm = (r1, sm1) \<Longrightarrow> named P sm1 = named P sm" for r1 sm1
    by (auto simp: GetAllSessionClients_def dest: named_GetSession split: prod.splits option.splits)
  show "GetSessionClientNames now sid sm = (r2, sm2) \<Longrightarrow> named P sm2 = named P sm"
    "getToolsFromExistingClients now sid sm = (r4, sm4) \<Longrightarrow> named P sm4 = named P sm"
    by (auto simp: GetSessionClientNames_def getToolsFromExistingClients_def dest: all split: prod.splits sum.splits)
  show "GetSessionClientTools now sid sm = (r3, sm3) \<Longrightarrow> named P sm3 = named P sm"
    by (auto simp: GetSessionClientTools_def dest: named_GetSession split: prod.splits option.splits)
  have "same_conns sm (at_session a (TouchActivity now) sm)" for a
    by (simp add: same_conns_at TouchActivity_def)
  then show "cm_GetSessionClient now sid name sm = (r5, sm5) \<Longrightarrow> named P sm5 = named P sm"
    by (auto simp: cm_GetSessionClient_def sm_GetSessionClient_def Let_def dest: named_same split: if_splits option.splits prod.splits)
qed

lemma named_active_sessions: "active_sessions T ids sm = (infos, sm') \<Longrightarrow> named P sm' = named P sm"
proof (induction ids arbitrary: sm infos sm')
  case (Cons x ids)
  obtain r sm1 where g: "GetSession (T (length ids)) x sm = (r, sm1)" by (cases "GetSession (T (length ids)) x sm")
  obtain infs sm2 where a: "active_sessions T ids sm1 = (infs, sm2)" by (cases "active_sessions T ids sm1")
  from Cons.IH [OF a] named_GetSession [OF g] Cons.prems g a show ?case by (auto split: option.splits)
qed simp

lemma named_connected [simp]:
  "named P (at_session a (SetConnected b) sm) = named P sm"
  "named P (refresh_metadata ctx a sm) = named P sm"
  by (rule named_same, simp add: same_conns_at SetConnected_def) (rule named_same [OF refresh_metadata_same])

lemma named_GetSessionD: "named P sm \<Longrightarrow> GetSession now sid sm = (r, sm') \<Longrightarrow> named P sm'"
  by (simp add: named_GetSession)

lemma named_register: "named P sm \<Longrightarrow> named P (onSessionRegister T ctx sid sm)"
  by (auto simp: onSessionRegister_def Let_def dest: named_CreateSession named_GetSessionD
      split: prod.split sum.split option.split)

lemma named_unregister: "named P sm \<Longrightarrow> named P (onSessionUnregister T sid sm)"
proof -
  assume P: "named P sm"
  obtain r sm1 where g: "GetSession (T 0) sid sm = (r, sm1)" by (cases "GetSession (T 0) sid sm")
  let ?sm = "case r of None \<Rightarrow> sm1 | Some a \<Rightarrow> at_session a (SetConnected False) sm1"
  obtain ns sm2 where n: "GetSessionClientNames (T 1) sid ?sm = (ns, sm2)" by (cases "GetSessionClientNames (T 1) sid ?sm")
  have "named P ?sm" using P named_GetSession [OF g] by (simp add: named_connected split: option.split)
  with named_lookups(2) [OF n] g n show ?thesis by (auto simp: onSessionUnregister_def Let_def split: option.splits)
qed

lemma named_createClient: "createClient env name cfg st = (r, st') \<Longrightarrow> named P (cm_sessions st') = named P (cm_sessions st)"
  using createClient_effect [of env name cfg st r st'] by (auto split: sum.splits)

lemma named_single:
  assumes "named P (cm_sessions st)" "P name" "CreateSingleSessionClient env T ctx sid name cfg st = (r, st')"
  shows "named P (cm_sessions st')"
proof -
  obtain g sm where g: "get_or_create_session T sid (cm_sessions st) = (g, sm)"
    by (cases "get_or_create_session T sid (cm_sessions st)")
  have P: "named P sm"
    using assms(1) g
    by (auto simp: get_or_create_session_def split: prod.splits option.splits sum.splits)
      (blast intro: named_GetSessionD named_CreateSession)+
  show ?thesis
  proof (cases g)
    case None
    with g assms(3) P show ?thesis by (auto simp: CreateSingleSessionClient_def)
  next
    case (Some a)
    let ?st1 = "with_sessions (at_session a (SetConnected True) (refresh_metadata ctx a sm)) st"
    obtain x st2 where c: "createClient env name cfg ?st1 = (x, st2)" by (cases "createClient env name cfg ?st1")
    have P1: "named P (cm_sessions ?st1)" and P2: "named P (cm_sessions st2)"
      using P named_createClient [OF c] by (simp_all add: named_connected)
    have P3: "named P sm2" if "SetSessionClient sid name info (cm_sessions st2) = (ok, sm2)" for info ok sm2
      by (rule named_SetSessionClient [OF P2 assms(2) that])
    show ?thesis
      using assms(3) P1 P2 unfolding CreateSingleSessionClient_def g Some Let_def
      by (auto simp: c dest: P3 split: option.splits if_split_asm sum.splits prod.splits)
  qed
qed

lemma named_on_sessions:
  "(\<And>r sm'. f (cm_sessions (sv_manager sv)) = (r, sm') \<Longrightarrow> named P sm') \<Longrightarrow>
     named P (cm_sessions (sv_manager (snd (on_sessions f sv))))"
  by (cases "f (cm_sessions (sv_manager sv))") (simp add: on_sessions_def with_manager_def)

lemma named_close_info [simp]:
  "named P (cm_sessions (close_info info st)) = named P (cm_sessions st)"
  by simp

lemma named_manager [simp]: "sv_manager (with_manager m sv) = m"
  by (simp add: with_manager_def)

lemma register_tools_manager [simp]: "sv_manager (register_tools name tools sv) = sv_manager sv"
  unfolding register_tools_def by (induction tools arbitrary: sv) (simp_all add: AddTool_def)

lemma named_discover_one:
  assumes "named P (cm_sessions (sv_manager sv))" "P name"
    and "discover_one env T ctx sid (name, cfg) (result, sv) = (result', sv')"
  shows "named P (cm_sessions (sv_manager sv'))"
proof -
  obtain existing sv1 where l: "on_sessions (cm_GetSessionClient (T 0) sid name) sv = (existing, sv1)"
    by (cases "on_sessions (cm_GetSessionClient (T 0) sid name) sv")
  have "named P (cm_sessions (sv_manager (snd (on_sessions (cm_GetSessionClient (T 0) sid name) sv))))"
    by (rule named_on_sessions) (simp add: named_lookups assms(1))
  then have P1: "named P (cm_sessions (sv_manager sv1))" using l by simp
  obtain r m where c: "CreateSingleSessionClient env (\<lambda>n. T (n + 1)) ctx sid name cfg (sv_manager sv1) = (r, m)"
    by (cases "CreateSingleSessionClient env (\<lambda>n. T (n + 1)) ctx sid name cfg (sv_manager sv1)")
  note P2 = named_single [OF P1 assms(2) c]
  show ?thesis
    using assms(3) l c P1 P2
    by (auto simp: discover_one_def Let_def split: option.splits sum.splits if_split_asm)
qed

lemma named_discovery:
  assumes "named P (cm_sessions (sv_manager sv))" "\<And>n cfg. (n, cfg) \<in> set configs \<Longrightarrow> cc_PassThroughEnabled cfg \<Longrightarrow> P n"
  shows "named P (cm_sessions (sv_manager (snd (DiscoverPassThroughTools env T shared ctx configs sid clientName sv))))"
proof -
  have fold: "named P (cm_sessions (sv_manager (snd (fold (discover_one env T ctx sid) cs (result, sv)))))"
    if "\<And>n cfg. (n, cfg) \<in> set cs \<Longrightarrow> P n" "named P (cm_sessions (sv_manager sv))" for cs result and sv :: "'a mcp_server"
    using that
  proof (induction cs arbitrary: result sv)
    case (Cons x cs)
    obtain n cfg where x: "x = (n, cfg)" by (cases x)
    obtain result' sv' where d: "discover_one env T ctx sid (n, cfg) (result, sv) = (result', sv')"
      by (cases "discover_one env T ctx sid (n, cfg) (result, sv)")
    have "P n" using Cons.prems(1) [of n cfg] x by simp
    have "(n', cfg') \<in> set cs \<Longrightarrow> P n'" for n' cfg' using Cons.prems(1) by (meson list.set_intros(2))
    from Cons.IH [OF this named_discover_one [OF Cons.prems(2) \<open>P n\<close> d], where result = result'] x d show ?case by simp
  qed simp
  let ?cs = "filter (\<lambda>(name, cfg). cc_PassThroughEnabled cfg \<and> \<not> (clientName \<noteq> '''' \<and> name \<noteq> clientName)) configs"
  have "named P (cm_sessions (sv_manager (snd (fold (discover_one env T ctx sid) ?cs (no_discovery, sv)))))"
    by (rule fold) (use assms in auto)
  with assms(1) show ?thesis
    by (auto simp: DiscoverPassThroughTools_def doDiscoverPassThroughTools_def Let_def split: prod.split)
qed

lemma named_list_tools:
  assumes "named P (cm_sessions (sv_manager sv))" "\<not> hasPassThroughCredentials configs ctx"
  shows "named P (cm_sessions (sv_manager (snd (toolListFilter env add T ctx configs session tools sv))))"
proof (cases session)
  case (Some sid)
  obtain existing sv1 where l: "on_sessions (GetSessionClientNames (T 0) sid) sv = (existing, sv1)"
    by (cases "on_sessions (GetSessionClientNames (T 0) sid) sv")
  have "named P (cm_sessions (sv_manager (snd (on_sessions (GetSessionClientNames (T 0) sid) sv))))"
    by (rule named_on_sessions) (simp add: named_lookups assms(1))
  then have P1: "named P (cm_sessions (sv_manager sv1))" using l by simp
  have P2: "named P (cm_sessions (sv_manager (snd (on_sessions (getToolsFromExistingClients (T 1) sid) sv1))))"
    by (rule named_on_sessions) (simp add: named_lookups P1)
  obtain ts sv2 where l2: "on_sessions (getToolsFromExistingClients (T 1) sid) sv1 = (ts, sv2)"
    by (cases "on_sessions (getToolsFromExistingClients (T 1) sid) sv1")
  with Some l P1 P2 assms(2) show ?thesis
    by (simp add: toolListFilter_def ensurePassThroughToolsDiscovered_def)
qed (use assms in \<open>simp add: toolListFilter_def\<close>)

lemma quiet_run_named:
  assumes "quiet_run env add configs sv" and P: "\<And>n cfg. (n, cfg) \<in> set configs \<Longrightarrow> cc_PassThroughEnabled cfg \<Longrightarrow> P n"
  shows "named P (cm_sessions (sv_manager sv))"
  using assms(1)
proof (induction rule: quiet_run.induct)
  case (start sv)
  then show ?case by (simp add: named_def addrs_ok_def NewSessionManagerWithTimeout_def)
next
  case (list_tools sv ctx T session tools)
  then show ?case by (simp add: named_list_tools)
next
  case (discover sv T shared ctx sid name)
  then show ?case by (simp add: named_discovery [OF _ P])
next
  case (cleanup sv ce now)
  show ?case
    by (rule named_on_sessions)
      (auto simp: cleanupExpiredSessions_def cleanup.IH intro!: named_close_sessions [OF _ surjective_pairing] named_fewer)
next
  case (delete sv ce sid)
  show ?case
  proof (rule named_on_sessions)
    fix r sm'
    let ?sm = "cm_sessions (sv_manager sv)"
    assume d: "DeleteSession ce sid ?sm = (r, sm')"
    have "named P (?sm\<lparr> sm_sessions := AList.delete sid (sm_sessions ?sm) \<rparr>)"
      by (rule named_fewer [OF _ delete.IH]) (auto simp: AList.delete_eq)
    from named_close_at [OF this] d delete.IH show "named P sm'" by (auto simp: DeleteSession_def split: option.splits)
  qed
next
  case (list_sessions sv T)
  show ?case by (rule named_on_sessions) (simp add: GetActiveSessions_def named_active_sessions list_sessions.IH)
qed (rule named_on_sessions, auto simp: named_register named_unregister named_lookups)+

lemma unnamed_client:
  assumes "named P sm" "\<not> P name"
  shows "isl (fst (cm_GetSessionClient now sid name sm))"
proof (cases "map_of (sm_sessions sm) sid")
  case (Some a)
  have "same_conns sm (at_session a (TouchActivity now) sm)" by (simp add: same_conns_at TouchActivity_def)
  from named_same [OF this] same_connsD(5) [OF this] assms(1) Some
  have "fst ` set (ses_clients (sm_store (at_session a (TouchActivity now) sm) ! a)) \<subseteq> Collect P"
    by (intro named_nth) (auto simp: named_def dest: addrs_okD)
  with assms(2) have "GetClient name (sm_store (at_session a (TouchActivity now) sm) ! a) = None"
    by (force simp: GetClient_def map_of_eq_None_iff)
  with Some show ?thesis by (simp add: cm_GetSessionClient_def sm_GetSessionClient_def HasSession_def Let_def)
qed (simp add: cm_GetSessionClient_def HasSession_def)

lemma forward_without_client:
  assumes "isl (fst (cm_GetSessionClient (T 0 2) (or_empty (ctx_SessionID ctx)) c sm))"
  shows "out_calls (forward_call g ctx sm T req c n v audit b) = [] \<and> isl (out_result (forward_call g ctx sm T req c n v audit b))"
proof (cases "ctx_SessionID ctx")
  case (Some sid)
  obtain e sm' where e: "cm_GetSessionClient (T 0 2) sid c sm = (Inl e, sm')"
    using assms Some by (cases "cm_GetSessionClient (T 0 2) sid c sm") (auto simp: or_empty_def isl_def)
  with Some show ?thesis by (cases e) (simp_all add: forward_call_def failed_def)
qed (simp_all add: forward_call_def failed_def)

text \<open>
  A downstream server that takes no credentials from the caller cannot be used in a session whose
  lists of tools come without credentials for some other server: no session ever holds a connection to
  it, each call of its tools ends in an error and calls nothing, and asking for its discovery, as the
  error advises, is an error too.
\<close>

lemma plain_servers_unreachable:
  assumes "quiet_run env add configs sv" "distinct (map fst configs)"
    and "map_of configs name = Some cfg" "\<not> cc_PassThroughEnabled cfg" "name \<noteq> ''''"
    and "ParsePrefixedName (ToolName req) = Inr (name, tool)" "\<not> IsNativeTool (ToolName req)"
  shows "isl (fst (cm_GetSessionClient now sid name (cm_sessions (sv_manager sv)))) \<and>
    out_calls (HandleToolCall g ctx (cm_sessions (sv_manager sv)) T req) = [] \<and>
    isl (out_result (HandleToolCall g ctx (cm_sessions (sv_manager sv)) T req)) \<and>
    isl (fst (DiscoverPassThroughTools env dT shared dctx configs sid name sv))"
proof (intro conjI)
  let ?sm = "cm_sessions (sv_manager sv)"
  have other: "n \<noteq> name" if "(n, c) \<in> set configs" "cc_PassThroughEnabled c" for n c
    using that assms(2-4) by (metis map_of_is_SomeI option.inject)
  have "named (\<lambda>n. n \<noteq> name) ?sm" by (rule quiet_run_named [OF assms(1)]) (rule other)
  then have none: "isl (fst (cm_GetSessionClient t s name ?sm))" for t s by (rule unnamed_client) simp
  then show "isl (fst (cm_GetSessionClient now sid name ?sm))" .
  show "out_calls (HandleToolCall g ctx ?sm T req) = []" "isl (out_result (HandleToolCall g ctx ?sm T req))"
    by (cases rule: HandleToolCall_cases [OF assms(7), of g ctx ?sm T];
      use assms(6) none in \<open>simp add: failed_def forward_without_client\<close>)+
  have "filter (\<lambda>(n, c). cc_PassThroughEnabled c \<and> \<not> (name \<noteq> '''' \<and> n \<noteq> name)) configs = []"
    using other assms(5) by (auto simp: filter_empty_conv)
  then show "isl (fst (DiscoverPassThroughTools env dT shared dctx configs sid name sv))"
    using assms(5) by (simp add: DiscoverPassThroughTools_def doDiscoverPassThroughTools_def Let_def)
qed

text \<open>A gateway with one local server, whose only client registers and asks for the tools.\<close>

definition plain_configs :: client_configs where
  "plain_configs = [(''aws'', no_client\<lparr> cc_Type := ''stdio'' \<rparr>)]"

definition plain_context :: request_context where
  "plain_context = \<lparr> ctx_SessionID = Some ''s1'', ctx_ClientIP = None, ctx_UserAgent = None, ctx_RequestID = None,
     ctx_RawHeaders = None \<rparr>"

definition plain_server :: "nat mcp_server" where
  "plain_server = \<lparr> sv_manager = \<lparr> cm_sessions = NewSessionManagerWithTimeout 60, cm_opened = [], cm_attempts = 0 \<rparr>,
     sv_tools = [''aws__list''], sv_session_tools = [] \<rparr>"

definition plain_call :: CallToolRequest where
  "plain_call = \<lparr> Method = ''tools/call'', ToolName = ''aws__list'', Arguments = DNil, Meta = None \<rparr>"

definition listed_server :: "nat mcp_server" where
  "listed_server = snd (toolListFilter sample_net (\<lambda>s t. None) (\<lambda>n. 0) plain_context plain_configs (Some ''s1'') [''aws__list'']
     (snd (on_sessions (\<lambda>sm. ((), onSessionRegister (\<lambda>n. 0) plain_context ''s1'' sm)) plain_server)))"

lemma plain_servers_unreachable_witness:
  "isl (fst (cm_GetSessionClient 0 ''s1'' ''aws'' (cm_sessions (sv_manager listed_server))))"
proof -
  have quiet: "quiet_run sample_net (\<lambda>s t. None) plain_configs listed_server"
    unfolding listed_server_def
    by (intro quiet_run.list_tools quiet_run.register quiet_run.start)
      (simp_all add: plain_server_def hasPassThroughCredentials_def plain_context_def)
  have "distinct (map fst plain_configs)" "map_of plain_configs ''aws'' = Some (no_client\<lparr> cc_Type := ''stdio'' \<rparr>)"
    "\<not> cc_PassThroughEnabled (no_client\<lparr> cc_Type := ''stdio'' \<rparr>)" "''aws'' \<noteq> ''''"
    by (simp_all add: plain_configs_def no_client_def)
  note rest = this
  have "ParsePrefixedName (ToolName plain_call) = Inr (''aws'', ''list'')"
    "\<not> IsNativeTool (ToolName plain_call)"
    by code_simp+
  from plain_servers_unreachable [OF quiet rest this] show ?thesis by blast
qed

end
