(* ===== verification/AuditWriter.thy ===== *)
theory AuditWriter
  imports AuditLog ConfigPaths
begin

text \<open>
  The writer of the audit log (\<^verbatim>\<open>audit_writer.go\<close>): one line of JSON for each entry that passes the
  filter. The file is the text written to it so far; its rotation and the JSON library are not part
  of the program. A write runs under the lock of the writer and is one step.
\<close>

datatype audit_sink = Stdout | Stderr | File string

record JSONLAuditWriter =
  aw_sink :: audit_sink
  aw_filter :: string
  aw_written :: string

definition isAbsolutePath :: "string \<Rightarrow> bool" where
  "isAbsolutePath path =
     (if length path = 0 then False
      else if path ! 0 = CHR ''/'' then True
      else if length path \<ge> 2 \<and> path ! 1 = CHR '':'' then True
      else False)"

text \<open>\<open>not_writable\<close> is the error of opening the file, or of making its directory; \<open>present\<close> is what
  the file holds.\<close>

definition NewJSONLAuditWriter ::
  "(string \<Rightarrow> go_error option) \<Rightarrow> (string \<Rightarrow> string) \<Rightarrow> string \<Rightarrow> string \<Rightarrow> string \<Rightarrow> go_error + JSONLAuditWriter" where
  "NewJSONLAuditWriter not_writable present auditPath logDir flt0 =
     (let flt = (if flt0 = '''' then ''all'' else flt0) in
      if auditPath = ''stdout'' then Inr \<lparr> aw_sink = Stdout, aw_filter = flt, aw_written = '''' \<rparr>
      else if auditPath = ''stderr'' then Inr \<lparr> aw_sink = Stderr, aw_filter = flt, aw_written = '''' \<rparr>
      else
        let fullPath = (if logDir \<noteq> '''' \<and> \<not> isAbsolutePath auditPath then logDir @ ''/'' @ auditPath else auditPath)
        in case not_writable fullPath of
             Some err \<Rightarrow> Inl (PlainError (''cannot write to audit log file '' @ fullPath @ '': '' @ error_text err))
           | None \<Rightarrow> Inr \<lparr> aw_sink = File fullPath, aw_filter = flt, aw_written = present fullPath \<rparr>)"

text \<open>\<open>failed\<close> is the error of writing, if any; a failed write leaves no trace.\<close>

definition aw_Write ::
  "(AuditEntry \<Rightarrow> go_error + string) \<Rightarrow> go_error option \<Rightarrow> AuditEntry option \<Rightarrow> JSONLAuditWriter \<Rightarrow>
     (go_error + bool) \<times> JSONLAuditWriter" where
  "aw_Write Marshal failed entry w =
     (case entry of
        None \<Rightarrow> (Inr False, w)
      | Some e \<Rightarrow>
          if aw_filter w = ''deny_only'' \<and> ae_Action e \<noteq> PolicyActionDeny then (Inr False, w)
          else case Marshal e of
            Inl err \<Rightarrow> (Inl err, w)
          | Inr data \<Rightarrow> (case failed of
              Some err \<Rightarrow> (Inl err, w)
            | None \<Rightarrow> (Inr True, w\<lparr> aw_written := aw_written w @ data @ [CHR 0x0A] \<rparr>)))"

definition kept :: "string \<Rightarrow> AuditEntry \<Rightarrow> bool" where
  "kept flt e \<longleftrightarrow> flt = ''deny_only'' \<longrightarrow> ae_Action e = PolicyActionDeny"

definition write_all :: "(AuditEntry \<Rightarrow> go_error + string) \<Rightarrow> AuditEntry list \<Rightarrow> JSONLAuditWriter \<Rightarrow> JSONLAuditWriter" where
  "write_all Marshal es w = foldl (\<lambda>w e. snd (aw_Write Marshal None (Some e) w)) w es"

lemma aw_Write_sel [simp]:
  "aw_filter (snd (aw_Write Marshal f e w)) = aw_filter w"
  "aw_sink (snd (aw_Write Marshal f e w)) = aw_sink w"
  by (auto simp: aw_Write_def split: option.split sum.split)

lemma write_all_written:
  assumes "list_all (\<lambda>e. Marshal e = Inr (line e)) es"
  shows "aw_written (write_all Marshal es w) =
    aw_written w @ concat (map (\<lambda>e. line e @ [CHR 0x0A]) (filter (kept (aw_filter w)) es))"
  using assms
proof (induction es arbitrary: w)
  case (Cons e es)
  have "aw_written (snd (aw_Write Marshal None (Some e) w)) =
      aw_written w @ (if kept (aw_filter w) e then line e @ [CHR 0x0A] else [])"
    using Cons.prems by (auto simp: aw_Write_def kept_def)
  with Cons.IH [of "snd (aw_Write Marshal None (Some e) w)"] Cons.prems show ?case
    by (simp add: write_all_def)
qed (simp add: write_all_def)

end
