(* ===== verification/AuditReader.thy ===== *)
theory AuditReader
  imports AuditWriter
begin

text \<open>
  The reader of the audit log behind the tool "get audit log" (\<^verbatim>\<open>audit_log_tool.go\<close>): it reads the
  file backwards in chunks, takes lines apart, parses the present and two older formats, and filters.
  The file system, the JSON library and the parsing of instants are parameters; a text of the file is
  a list of bytes.
\<close>

section \<open>Entries of the log\<close>

text \<open>\<open>ale_Timestamp\<close> is the JSON number of the logging library; \<open>log_env\<close> turns it into an instant.\<close>

record 'n AuditLogEntry =
  ale_Level :: string
  ale_Timestamp :: 'n
  ale_Caller :: string
  ale_Message :: string
  ale_Logger :: string
  ale_Audit :: "AuditEntry option"

record legacyRequest =
  lreq_Params :: "(string \<times> dyn) list option"
  lreq_CalledAt :: "int option"
  lreq_DurationMs :: "int option"

record legacyIncoming =
  linc_RequestID :: string
  linc_SessionID :: string
  linc_ClientIP :: string
  linc_UserAgent :: string

record legacyAuditEntry =
  lae_CreatedAt :: int
  lae_ToolName :: string
  lae_ToolClient :: string
  lae_ToolPrefixedName :: string
  lae_Request :: "legacyRequest option"
  lae_IncomingRequest :: "legacyIncoming option"
  lae_UpstreamRequest :: "legacyIncoming option"
  lae_RequestValidation :: "AuditValidationInfo option"
  lae_ResponseValidation :: "AuditValidationInfo option"
  lae_RecommendedAction :: string
  lae_Action :: string
  lae_ActionReason :: string
  lae_DurationMs :: int
  lae_TotalBlockedMs :: int

record 'n legacyLogEntry =
  lle_Level :: string
  lle_Timestamp :: 'n
  lle_Caller :: string
  lle_Message :: string
  lle_Logger :: string
  lle_Audit :: "legacyAuditEntry option"

text \<open>
  \<^verbatim>\<open>json.Unmarshal\<close> into the types in use. A direct entry comes with the texts of its two instants;
  \<open>le_Object\<close> gives the fields of an object with the raw texts of their values. Further
  \<^verbatim>\<open>time.ParseDuration\<close>, \<^verbatim>\<open>fmt.Sscanf\<close> with the verb \<^verbatim>\<open>%d\<close>, and the verb \<^verbatim>\<open>%q\<close>.
\<close>

record 'n log_env =
  le_Direct :: "string \<Rightarrow> (AuditEntry \<times> string \<times> string) option"
  le_Object :: "string \<Rightarrow> (string \<times> string) list option"
  le_Legacy :: "string \<Rightarrow> 'n legacyLogEntry option"
  le_Logged :: "string \<Rightarrow> 'n AuditLogEntry option"
  le_ParseTime :: "string \<Rightarrow> int option"
  le_timestampToTime :: "'n \<Rightarrow> int option"
  le_zero :: 'n
  le_ParseDuration :: "string \<Rightarrow> int option"
  le_ScanInt :: "string \<Rightarrow> int option"
  le_Quote :: "string \<Rightarrow> string"

definition no_upstream :: UpstreamRequestInfo where
  "no_upstream = \<lparr> uri_RequestID = '''', uri_ExternalID = '''', uri_ClientID = '''', uri_SessionID = '''',
     uri_ClientIP = '''', uri_UserAgent = '''' \<rparr>"

definition convertLegacyEntry :: "legacyAuditEntry \<Rightarrow> AuditEntry" where
  "convertLegacyEntry legacy =
     (let tool = \<lparr> ati_Name = lae_ToolName legacy, ati_Client = lae_ToolClient legacy,
            ati_PrefixedName = lae_ToolPrefixedName legacy, ati_Params = None, ati_CalledAt = None,
            ati_DurationMs = None \<rparr>;
          tool' = (case lae_Request legacy of None \<Rightarrow> tool
            | Some r \<Rightarrow> tool\<lparr> ati_Params := lreq_Params r, ati_CalledAt := lreq_CalledAt r,
                ati_DurationMs := lreq_DurationMs r \<rparr>);
          upstream = (case lae_UpstreamRequest legacy of
              Some u \<Rightarrow> no_upstream\<lparr> uri_RequestID := linc_RequestID u, uri_SessionID := linc_SessionID u,
                uri_ClientIP := linc_ClientIP u, uri_UserAgent := linc_UserAgent u \<rparr>
            | None \<Rightarrow> (case lae_IncomingRequest legacy of
                Some u \<Rightarrow> no_upstream\<lparr> uri_RequestID := linc_RequestID u, uri_SessionID := linc_SessionID u,
                  uri_ClientIP := linc_ClientIP u \<rparr>
              | None \<Rightarrow> no_upstream))
      in \<lparr> ae_Source = '''', ae_ValidationStarted = 0, ae_CreatedAt = lae_CreatedAt legacy,
           ae_Tool = Some tool', ae_CLI = None, ae_UpstreamRequest = upstream, ae_AI = None,
           ae_RequestValidation = lae_RequestValidation legacy,
           ae_ResponseValidation = lae_ResponseValidation legacy,
           ae_RecommendedAction = lae_RecommendedAction legacy, ae_Action = lae_Action legacy,
           ae_ActionReason = lae_ActionReason legacy, ae_DurationMs = lae_DurationMs legacy,
           ae_TotalBlockedMs = lae_TotalBlockedMs legacy \<rparr>)"

definition has_tool :: "AuditEntry \<Rightarrow> bool" where
  "has_tool e \<longleftrightarrow> (case ae_Tool e of None \<Rightarrow> False | Some t \<Rightarrow> ati_PrefixedName t \<noteq> '''')"

definition parse_legacy :: "'n log_env \<Rightarrow> string \<Rightarrow> ('n AuditLogEntry \<times> int option) option" where
  "parse_legacy env line =
     (case le_Legacy env line of
        None \<Rightarrow> None
      | Some legacyEntry \<Rightarrow> (case lle_Audit legacyEntry of
          None \<Rightarrow> None
        | Some audit \<Rightarrow>
            if lae_ToolPrefixedName audit = '''' then None
            else Some (\<lparr> ale_Level = lle_Level legacyEntry, ale_Timestamp = lle_Timestamp legacyEntry,
                   ale_Caller = lle_Caller legacyEntry, ale_Message = lle_Message legacyEntry,
                   ale_Logger = lle_Logger legacyEntry, ale_Audit = Some (convertLegacyEntry audit) \<rparr>,
                 le_timestampToTime env (lle_Timestamp legacyEntry))))"

definition has_field :: "(string \<times> string) list \<Rightarrow> string \<Rightarrow> bool" where
  "has_field obj f \<longleftrightarrow> map_of obj f \<noteq> None"

text \<open>The two tests for the older formats, in order: the first that yields an entry counts.\<close>

definition parse_older :: "'n log_env \<Rightarrow> string \<Rightarrow> ('n AuditLogEntry \<times> int option) option" where
  "parse_older env line =
     (case le_Object env line of
        None \<Rightarrow> None
      | Some rawEntry \<Rightarrow> (case map_of rawEntry ''audit'' of
          None \<Rightarrow> None
        | Some auditRaw \<Rightarrow> (case le_Object env auditRaw of
            None \<Rightarrow> None
          | Some auditFields \<Rightarrow>
              (case (if has_field auditFields ''request'' \<or> has_field auditFields ''incoming_request''
                     then parse_legacy env line else None) of
                 Some e \<Rightarrow> Some e
               | None \<Rightarrow> (case map_of auditFields ''request_validation'' of
                   None \<Rightarrow> None
                 | Some validationRaw \<Rightarrow> (case le_Object env validationRaw of
                     None \<Rightarrow> None
                   | Some validationFields \<Rightarrow>
                       if has_field validationFields ''cel'' then parse_legacy env line else None))))))"

definition parseAuditLine :: "'n log_env \<Rightarrow> string \<Rightarrow> ('n AuditLogEntry \<times> int option) option" where
  "parseAuditLine env line =
     (case (case le_Direct env line of
              None \<Rightarrow> None
            | Some (directEntry, validationStarted, createdAt) \<Rightarrow>
                if validationStarted \<noteq> '''' \<and> has_tool directEntry
                then Some (\<lparr> ale_Level = '''', ale_Timestamp = le_zero env, ale_Caller = '''', ale_Message = '''',
                       ale_Logger = '''', ale_Audit = Some directEntry \<rparr>,
                     if createdAt \<noteq> '''' then le_ParseTime env createdAt else None)
                else None) of
        Some e \<Rightarrow> Some e
      | None \<Rightarrow> (case parse_older env line of
          Some e \<Rightarrow> Some e
        | None \<Rightarrow> (case le_Logged env line of
            None \<Rightarrow> None
          | Some newEntry \<Rightarrow>
              if (case ale_Audit newEntry of None \<Rightarrow> False | Some a \<Rightarrow> has_tool a)
              then Some (newEntry, le_timestampToTime env (ale_Timestamp newEntry))
              else None)))"

section \<open>Filters\<close>

record AuditLogFilter =
  alf_Status :: string
  alf_ToolName :: string
  alf_Client :: string

definition expected_action :: "string \<Rightarrow> string" where
  "expected_action status =
     (if status = ''success'' then PolicyActionAllow
      else if status = ''denied'' \<or> status = ''response_denied'' then PolicyActionDeny else status)"

definition matchesFilter :: "'n AuditLogEntry \<Rightarrow> AuditLogFilter \<Rightarrow> bool" where
  "matchesFilter entry flt =
     (case ale_Audit entry of
        None \<Rightarrow> False
      | Some audit \<Rightarrow> (case ae_Tool audit of
          None \<Rightarrow> False
        | Some tool \<Rightarrow>
            if ati_PrefixedName tool = '''' then False
            else if alf_Status flt \<noteq> '''' \<and> ae_Action audit \<noteq> expected_action (alf_Status flt) then False
            else if alf_ToolName flt \<noteq> '''' \<and> \<not> HasPrefix (ati_PrefixedName tool) (alf_ToolName flt) then False
            else if alf_Client flt \<noteq> '''' \<and> ati_Client tool \<noteq> alf_Client flt then False
            else True))"

section \<open>Lines of a chunk, newest first\<close>

abbreviation line_feed :: char where "line_feed \<equiv> CHR 0x0A"

record linesResult =
  lr_complete :: "string list"
  lr_partial :: string

definition line_ends :: "string \<Rightarrow> nat list" where
  "line_ends chunk = filter (\<lambda>i. chunk ! i = line_feed) [0..<length chunk]"

definition slice :: "nat \<Rightarrow> nat \<Rightarrow> string \<Rightarrow> string" where
  "slice a b s = take (b - a) (drop a s)"

definition extractLinesReverse :: "string \<Rightarrow> bool \<Rightarrow> linesResult" where
  "extractLinesReverse chunk hasMoreBefore =
     (let lineEnds = line_ends chunk in
      if length lineEnds = 0
      then if hasMoreBefore then \<lparr> lr_complete = [], lr_partial = chunk \<rparr>
           else \<lparr> lr_complete = (if length chunk > 0 then [chunk] else []), lr_partial = '''' \<rparr>
      else
        let lastNewline = lineEnds ! (length lineEnds - 1);
            newest = (if lastNewline < length chunk - 1 then [drop (lastNewline + 1) chunk] else []);
            middle = concat (map (\<lambda>i. let start = lineEnds ! (i - 1) + 1; end' = lineEnds ! i in
                         if end' > start then [slice start end' chunk] else [])
                       (rev [1..<length lineEnds]));
            firstNewline = lineEnds ! 0;
            first = (if firstNewline > 0 then slice 0 firstNewline chunk else '''')
        in if hasMoreBefore then \<lparr> lr_complete = newest @ middle, lr_partial = first \<rparr>
           else \<lparr> lr_complete = newest @ middle @ (if firstNewline > 0 then [first] else []), lr_partial = '''' \<rparr>)"

section \<open>Reading backwards\<close>

text \<open>
  What a reader collects: the entries up to the limit and the number of matches seen. \<open>scan_lines\<close>
  is the loop over the lines of a chunk; its first result is true when an entry was too old.
\<close>

definition too_old :: "int option \<Rightarrow> int option \<Rightarrow> bool" where
  "too_old cutoffTime entryTime =
     (case (cutoffTime, entryTime) of (Some c, Some t) \<Rightarrow> t < c | _ \<Rightarrow> False)"

definition collect :: "int \<Rightarrow> 'e \<Rightarrow> 'e list \<times> int \<Rightarrow> 'e list \<times> int" where
  "collect limit entry acc = (if int (length (fst acc)) < limit then fst acc @ [entry] else fst acc, snd acc + 1)"

fun scan_lines ::
  "'n log_env \<Rightarrow> int \<Rightarrow> int option \<Rightarrow> AuditLogFilter \<Rightarrow> string list \<Rightarrow> 'n AuditLogEntry list \<times> int \<Rightarrow>
     bool \<times> 'n AuditLogEntry list \<times> int" where
  "scan_lines env limit cutoffTime flt [] acc = (False, acc)"
| "scan_lines env limit cutoffTime flt (line # lines) acc =
     (if length line = 0 then scan_lines env limit cutoffTime flt lines acc
      else case parseAuditLine env line of
        None \<Rightarrow> scan_lines env limit cutoffTime flt lines acc
      | Some (entry, entryTime) \<Rightarrow>
          if too_old cutoffTime entryTime then (True, acc)
          else if \<not> matchesFilter entry flt then scan_lines env limit cutoffTime flt lines acc
          else scan_lines env limit cutoffTime flt lines (collect limit entry acc))"

definition chunkSize :: nat where "chunkSize = 64 * 1024"

text \<open>\<open>read_err pos\<close> is the error of reading the chunk at \<open>pos\<close>, if any.\<close>

function read_chunks ::
  "'n log_env \<Rightarrow> int \<Rightarrow> int option \<Rightarrow> AuditLogFilter \<Rightarrow> (nat \<Rightarrow> go_error option) \<Rightarrow> string \<Rightarrow> nat \<Rightarrow>
     string \<Rightarrow> 'n AuditLogEntry list \<times> int \<Rightarrow> go_error + 'n AuditLogEntry list \<times> int" where
  "read_chunks env limit cutoffTime flt read_err file readPos leftover acc =
     (if 0 < readPos \<and> int (length (fst acc)) < limit
      then
        let chunkStart = readPos - chunkSize in
        case read_err chunkStart of
          Some e \<Rightarrow> Inl e
        | None \<Rightarrow>
            let chunk = slice chunkStart readPos file @ leftover;
                lines = extractLinesReverse chunk (chunkStart > 0);
                leftover' = (if chunkStart > 0 \<and> length (lr_partial lines) > 0 then lr_partial lines else '''')
            in (case scan_lines env limit cutoffTime flt (lr_complete lines) acc of
                  (True, acc') \<Rightarrow> Inr acc'
                | (False, acc') \<Rightarrow>
                    read_chunks env limit cutoffTime flt read_err file chunkStart leftover' acc')
      else if length leftover > 0 \<and> int (length (fst acc)) < limit
      then (case parseAuditLine env leftover of
              None \<Rightarrow> Inr acc
            | Some (entry, entryTime) \<Rightarrow>
                if \<not> too_old cutoffTime entryTime \<and> matchesFilter entry flt
                then Inr (collect limit entry acc) else Inr acc)
      else Inr acc)"
  by pat_completeness auto
termination
  by (relation "measure (\<lambda>(env, limit, c, flt, re, file, readPos, l, acc). readPos)")
    (auto simp: chunkSize_def)

declare read_chunks.simps [simp del]

text \<open>What the file system says of the log.\<close>

datatype log_file = Missing | StatFailed go_error | OpenFailed go_error | Present string "nat \<Rightarrow> go_error option"

definition readAuditLogEntries ::
  "'n log_env \<Rightarrow> (string \<Rightarrow> log_file) \<Rightarrow> string \<Rightarrow> int \<Rightarrow> int \<Rightarrow> int \<Rightarrow> AuditLogFilter \<Rightarrow>
     go_error + 'n AuditLogEntry list \<times> int" where
  "readAuditLogEntries env fs auditPath now limit timeRange flt =
     (if auditPath = ''stderr'' \<or> auditPath = ''stdout''
      then Inl (PlainError (''cannot read audit logs when audit log path is set to '' @ auditPath))
      else case fs auditPath of
        Missing \<Rightarrow> Inr ([], 0)
      | StatFailed e \<Rightarrow> Inl (PlainError (''failed to stat audit file: '' @ error_text e))
      | OpenFailed e \<Rightarrow> Inl (PlainError (''failed to open audit file: '' @ error_text e))
      | Present file read_err \<Rightarrow>
          if length file = 0 then Inr ([], 0)
          else let cutoffTime = (if timeRange > 0 then Some (now - timeRange) else None)
          in case read_chunks env limit cutoffTime flt read_err file (length file) [] ([], 0) of
               Inl e \<Rightarrow> Inl (PlainError (''failed to read chunk: '' @ error_text e))
             | Inr r \<Rightarrow> Inr r)"

section \<open>Time ranges\<close>

text \<open>Durations are 64-bit counts of nanoseconds; multiplication wraps around.\<close>

definition ParseTimeRange :: "'n log_env \<Rightarrow> string \<Rightarrow> go_error + int" where
  "ParseTimeRange env s =
     (if s = '''' \<or> s = ''all'' then Inr 0
      else case le_ParseDuration env s of
        Some d \<Rightarrow> Inr d
      | None \<Rightarrow>
          let invalid = Inl (PlainError (''invalid time range format: '' @ le_Quote env s @
                '' (supported: Go duration like '' @ [CHR 0x27] @ ''1h30m'' @ [CHR 0x27] @ '', days like '' @
                [CHR 0x27] @ ''7d'' @ [CHR 0x27] @ '', weeks like '' @ [CHR 0x27] @ ''2w'' @ [CHR 0x27] @
                '', or '' @ [CHR 0x27] @ ''all'' @ [CHR 0x27] @ '')''))
          in if length s \<ge> 2
             then (case le_ScanInt env (butlast s) of
                     None \<Rightarrow> invalid
                   | Some v \<Rightarrow>
                       if last s = CHR ''d'' then Inr (wrap64 (v * 24 * 3600000000000))
                       else if last s = CHR ''w'' then Inr (wrap64 (v * 7 * 24 * 3600000000000))
                       else invalid)
             else invalid)"

section \<open>The tool\<close>

record 'n AuditLogResponse =
  alr_Entries :: "'n AuditLogEntry list"
  alr_TotalCount :: int
  alr_ReturnedCount :: int
  alr_Truncated :: bool

definition NewToolResultText :: "string \<Rightarrow> CallToolResult" where
  "NewToolResultText t = \<lparr> IsError = False, Content = [TextContent t], ResultMeta = None \<rparr>"

definition NewToolResultError :: "string \<Rightarrow> CallToolResult" where
  "NewToolResultError t = \<lparr> IsError = True, Content = [TextContent t], ResultMeta = None \<rparr>"

text \<open>Reading a text, number or object of the arguments; a number of the arguments is whole.\<close>

definition string_arg :: "(string \<times> dyn) list \<Rightarrow> string \<Rightarrow> string \<Rightarrow> string" where
  "string_arg args key dflt = (case map_of args key of Some (DString s) \<Rightarrow> s | _ \<Rightarrow> dflt)"

definition int_arg :: "(string \<times> dyn) list \<Rightarrow> string \<Rightarrow> int \<Rightarrow> int" where
  "int_arg args key dflt = (case map_of args key of Some (DInt i) \<Rightarrow> i | _ \<Rightarrow> dflt)"

definition filter_arg :: "(string \<times> dyn) list \<Rightarrow> AuditLogFilter" where
  "filter_arg args =
     (let f = (case map_of args ''filter'' of Some (DMap m) \<Rightarrow> m | _ \<Rightarrow> [])
      in \<lparr> alf_Status = string_arg f ''status'' '''', alf_ToolName = string_arg f ''tool_name'' '''',
           alf_Client = string_arg f ''client'' '''' \<rparr>)"

definition handleGetAuditLog ::
  "'n log_env \<Rightarrow> (string \<Rightarrow> log_file) \<Rightarrow> ('n AuditLogResponse \<Rightarrow> go_error + string) \<Rightarrow> string \<Rightarrow> int \<Rightarrow> int \<Rightarrow>
     (string \<times> dyn) list option \<Rightarrow> CallToolResult" where
  "handleGetAuditLog env fs Marshal auditLogPath MaxEntries now arguments =
     (let args = (case arguments of None \<Rightarrow> [] | Some a \<Rightarrow> a);
          requested = int_arg args ''limit'' 100;
          limit = (if requested > MaxEntries then MaxEntries else requested)
      in case ParseTimeRange env (string_arg args ''time_range'' ''7d'') of
           Inl err \<Rightarrow> NewToolResultError (''Invalid time_range: '' @ error_text err)
         | Inr timeRange \<Rightarrow>
             (case readAuditLogEntries env fs auditLogPath now limit timeRange (filter_arg args) of
                Inl err \<Rightarrow> NewToolResultError (''Failed to read audit log: '' @ error_text err)
              | Inr (entries, totalCount) \<Rightarrow>
                  let response = \<lparr> alr_Entries = entries, alr_TotalCount = totalCount,
                        alr_ReturnedCount = int (length entries),
                        alr_Truncated = (totalCount > int (length entries)) \<rparr>
                  in (case Marshal response of
                        Inl err \<Rightarrow> NewToolResultError (''Failed to serialize response: '' @ error_text err)
                      | Inr responseJSON \<Rightarrow> NewToolResultText responseJSON)))"

section \<open>Chunks make no difference\<close>

definition segments :: "nat list \<Rightarrow> string \<Rightarrow> string list" where
  "segments le s = slice 0 (hd le) s #
     map (\<lambda>i. slice (le ! (i - 1) + 1) (le ! i) s) [1..<length le] @ [drop (last le + 1) s]"

lemma line_ends_Nil [simp]: "line_ends [] = []"
  by (simp add: line_ends_def)

lemma line_ends_Cons [simp]:
  "line_ends (x # s) = (if x = line_feed then [0] else []) @ map Suc (line_ends s)"
proof -
  have "[0..<length (x # s)] = 0 # map Suc [0..<length s]"
    by (simp add: upt_conv_Cons map_Suc_upt del: upt_Suc)
  then show ?thesis by (simp add: line_ends_def filter_map comp_def)
qed

lemma slice_Cons [simp]: "slice (Suc a) (Suc b) (x # s) = slice a b s"
  by (simp add: slice_def)

lemma slice_0 [simp]: "slice 0 b s = take b s"
  by (simp add: slice_def)

lemma middle_shift:
  "map (\<lambda>i. slice (map Suc le ! (i - 1) + 1) (map Suc le ! i) (x # s)) [1..<length le] =
     map (\<lambda>i. slice (le ! (i - 1) + 1) (le ! i) s) [1..<length le]"
  by (rule map_cong) auto

lemma split_on_segments:
  "split_on line_feed s = (if line_ends s = [] then [s] else segments (line_ends s) s)"
proof (induction s)
  case (Cons x s)
  let ?le = "line_ends s"
  show ?case
  proof (cases "x = line_feed")
    case False
    with Cons middle_shift [of ?le x s] show ?thesis
      by (cases "?le = []") (auto simp: segments_def hd_map last_map)
  next
    case True
    show ?thesis
    proof (cases "?le = []")
      case False
      have up: "[1..<Suc (length ?le)] = 1 # map Suc [1..<length ?le]"
        using False by (simp add: upt_conv_Cons map_Suc_upt del: upt_Suc)
      have "map (\<lambda>i. slice ((0 # map Suc ?le) ! (i - 1) + 1) ((0 # map Suc ?le) ! i) (x # s)) [1..<Suc (length ?le)] =
          take (hd ?le) s # map (\<lambda>i. slice (?le ! (i - 1) + 1) (?le ! i) s) [1..<length ?le]"
        unfolding up using False
        by (auto simp: hd_conv_nth slice_Cons [of 0, simplified] nth_Cons' intro!: map_cong)
      with True False Cons show ?thesis by (simp add: segments_def last_map)
    qed (use True Cons in \<open>simp add: segments_def\<close>)
  qed
qed simp

lemma line_ends_bound: "i < length (line_ends s) \<Longrightarrow> line_ends s ! i < length s"
  using nth_mem [of i "line_ends s"] by (auto simp: line_ends_def)

lemma concat_guarded:
  assumes "\<And>i. i \<in> set xs \<Longrightarrow> P i \<longleftrightarrow> g i \<noteq> []"
  shows "concat (map (\<lambda>i. if P i then [g i] else []) xs) = filter (\<lambda>l. l \<noteq> []) (map g xs)"
  using assms by (induction xs) auto

definition lines_of :: "string \<Rightarrow> string list" where
  "lines_of s = rev (filter (\<lambda>l. l \<noteq> []) (split_on line_feed s))"

lemma extract_spec:
  "extractLinesReverse chunk before =
     (if before
      then \<lparr> lr_complete = rev (filter (\<lambda>l. l \<noteq> []) (tl (split_on line_feed chunk))),
             lr_partial = hd (split_on line_feed chunk) \<rparr>
      else \<lparr> lr_complete = lines_of chunk, lr_partial = '''' \<rparr>)"
proof (cases "line_ends chunk = []")
  case True
  then show ?thesis
    by (simp add: extractLinesReverse_def lines_of_def split_on_segments)
next
  case False
  let ?le = "line_ends chunk"
  let ?mid = "\<lambda>i. slice (?le ! (i - 1) + 1) (?le ! i) chunk"
  have split: "split_on line_feed chunk = slice 0 (hd ?le) chunk # map ?mid [1..<length ?le] @ [drop (last ?le + 1) chunk]"
    using False by (simp add: split_on_segments segments_def)
  have last: "?le ! (length ?le - 1) = last ?le" and hd: "?le ! 0 = hd ?le"
    using False by (simp_all add: last_conv_nth hd_conv_nth)
  have "last ?le < length chunk" "hd ?le < length chunk"
    using False line_ends_bound [of 0 chunk] line_ends_bound [of "length ?le - 1" chunk] last hd by simp_all
  then have ends: "last ?le < length chunk - 1 \<longleftrightarrow> drop (last ?le + 1) chunk \<noteq> []"
      "0 < hd ?le \<longleftrightarrow> slice 0 (hd ?le) chunk \<noteq> []" by (cases chunk; auto)+
  have "?le ! i > ?le ! (i - 1) + 1 \<longleftrightarrow> ?mid i \<noteq> []" if "i \<in> set (rev [1..<length ?le])" for i
    using that line_ends_bound [of i chunk] by (auto simp: slice_def)
  then have "concat (map (\<lambda>i. if ?le ! i > ?le ! (i - 1) + 1 then [?mid i] else []) (rev [1..<length ?le])) =
      filter (\<lambda>l. l \<noteq> []) (map ?mid (rev [1..<length ?le]))"
    by (rule concat_guarded)
  then have mid: "concat (map (\<lambda>i. if ?le ! i > ?le ! (i - 1) + 1 then [?mid i] else []) (rev [1..<length ?le])) =
      rev (filter (\<lambda>l. l \<noteq> []) (map ?mid [1..<length ?le]))"
    by (simp only: rev_map rev_filter)
  have ne: "length ?le \<noteq> 0" using False by simp
  show ?thesis
    unfolding extractLinesReverse_def Let_def last hd mid ends if_not_P [OF ne]
    by (cases before) (simp_all add: lines_of_def split)
qed

lemma split_on_join_hd:
  "split_on c (a @ b) = split_on c (a @ hd (split_on c b)) @ tl (split_on c b)"
proof (induction a)
  case Nil
  have "hd (split_on c b) # tl (split_on c b) = split_on c b" by simp
  moreover have "c \<notin> set (hd (split_on c b))" by (rule split_on_notin [of _ c b]) simp
  ultimately show ?case by simp
qed simp

text \<open>What scanning collects, as a function of the matching entries up to the first too old one.\<close>

definition recent ::
  "'n log_env \<Rightarrow> int option \<Rightarrow> AuditLogFilter \<Rightarrow> string list \<Rightarrow> 'n AuditLogEntry list" where
  "recent env cutoffTime flt lines =
     filter (\<lambda>e. matchesFilter e flt)
       (map fst (takeWhile (\<lambda>(e, t). \<not> too_old cutoffTime t) (List.map_filter (parseAuditLine env) lines)))"

lemma scan_lines_recent:
  assumes "list_all (\<lambda>l. l \<noteq> []) ls"
  shows "snd (scan_lines env limit c flt ls (es, n)) =
    (es @ take (nat (limit - int (length es))) (recent env c flt ls), n + int (length (recent env c flt ls)))"
  using assms
proof (induction ls arbitrary: es n)
  case Nil
  then show ?case by (simp add: recent_def List.map_filter_def)
next
  case (Cons l ls)
  then have l: "l \<noteq> []" and ih: "snd (scan_lines env limit c flt ls (es, n)) =
    (es @ take (nat (limit - int (length es))) (recent env c flt ls), n + int (length (recent env c flt ls)))" for es n
    by auto
  show ?case
  proof (cases "parseAuditLine env l")
    case None
    with l ih show ?thesis by (simp add: recent_def List.map_filter_def)
  next
    case (Some et)
    obtain e t where [simp]: "et = (e, t)" by fastforce
    show ?thesis
    proof (cases "too_old c t \<or> \<not> matchesFilter e flt")
      case True
      with Some l ih show ?thesis by (auto simp: recent_def List.map_filter_def)
    next
      case False
      then have r: "recent env c flt (l # ls) = e # recent env c flt ls"
        using Some by (simp add: recent_def List.map_filter_def)
      show ?thesis
      proof (cases "int (length es) < limit")
        case True
        then have "nat (limit - int (length es)) = Suc (nat (limit - int (length (es @ [e]))))" by simp
        with True False Some l ih [of "es @ [e]" "n + 1"] r show ?thesis
          by (simp add: collect_def)
      next
        case full: False
        with False Some l ih [of es "n + 1"] r show ?thesis by (simp add: collect_def)
      qed
    qed
  qed
qed

lemma scan_lines_append:
  "scan_lines env limit c flt (xs @ ys) acc =
     (case scan_lines env limit c flt xs acc of
        (True, acc') \<Rightarrow> (True, acc')
      | (False, acc') \<Rightarrow> scan_lines env limit c flt ys acc')"
  by (induction env limit c flt xs acc rule: scan_lines.induct) (auto split: option.split)

lemma recent_append:
  assumes "list_all (\<lambda>l. l \<noteq> []) xs"
  shows "recent env c flt (xs @ ys) =
    recent env c flt xs @ (if fst (scan_lines env limit c flt xs acc) then [] else recent env c flt ys)"
  using assms
proof (induction xs arbitrary: acc)
  case Nil
  then show ?case by (simp add: recent_def List.map_filter_def)
next
  case (Cons l xs)
  show ?case
  proof (cases "parseAuditLine env l")
    case None
    with Cons show ?thesis by (simp add: recent_def List.map_filter_def)
  next
    case (Some et)
    obtain e t where [simp]: "et = (e, t)" by fastforce
    have r: "recent env c flt (l # zs) = (if too_old c t then [] else
        (if matchesFilter e flt then [e] else []) @ recent env c flt zs)" for zs
      using Some by (simp add: recent_def List.map_filter_def)
    from Cons.prems have "l \<noteq> []" and ne: "list_all (\<lambda>l. l \<noteq> []) xs" by simp_all
    with Some have f: "fst (scan_lines env limit c flt (l # xs) acc) = (too_old c t \<or>
        fst (scan_lines env limit c flt xs (if matchesFilter e flt then collect limit e acc else acc)))"
      by simp
    show ?thesis unfolding append_Cons r f using Cons.IH [OF ne] by simp
  qed
qed

text \<open>The outcome of reading on from some state, given the entries still to come.\<close>

definition read_on :: "int \<Rightarrow> 'e list \<Rightarrow> 'e list \<times> int \<Rightarrow> 'e list \<times> int \<Rightarrow> bool" where
  "read_on limit hits acc acc' \<longleftrightarrow>
     fst acc' = fst acc @ take (nat (limit - int (length (fst acc)))) hits \<and>
     snd acc + int (length (fst acc') - length (fst acc)) \<le> snd acc' \<and> snd acc' \<le> snd acc + int (length hits) \<and>
     (int (length (fst acc')) < limit \<longrightarrow> snd acc' = snd acc + int (length hits))"

lemma read_on_all:
  "read_on limit hits (es, n) (es @ take (nat (limit - int (length es))) hits, n + int (length hits))"
  by (simp add: read_on_def)

lemma read_on_append:
  assumes "read_on limit h2 (es @ take (nat (limit - int (length es))) h1, n + int (length h1)) acc'"
  shows "read_on limit (h1 @ h2) (es, n) acc'"
proof -
  have "nat (limit - int (length es)) - length h1 =
      nat (limit - int (length es) - int (min (length h1) (nat (limit - int (length es)))))"
    by (cases "length h1 \<le> nat (limit - int (length es))") (simp_all add: nat_diff_distrib le_nat_iff)
  with assms show ?thesis by (auto simp: read_on_def min_def diff_diff_eq split: if_splits)
qed

lemma read_chunks_spec:
  assumes "line_feed \<notin> set leftover" "readPos \<le> length logged" "readPos = 0 \<Longrightarrow> leftover = ''''"
  shows "case read_chunks env limit c flt read_err logged readPos leftover acc of
      Inl e \<Rightarrow> \<exists>pos. read_err pos = Some e
    | Inr acc' \<Rightarrow> read_on limit (recent env c flt (lines_of (take readPos logged @ leftover))) acc acc'"
  using assms
proof (induction readPos arbitrary: leftover acc rule: less_induct)
  case (less readPos leftover acc)
  obtain es n where [simp]: "acc = (es, n)" by fastforce
  let ?start = "readPos - chunkSize"
  let ?x = "slice ?start readPos logged @ leftover"
  show ?case
  proof (cases "0 < readPos \<and> int (length es) < limit")
    case False
    then show ?thesis
    proof (cases "readPos = 0")
      case True
      with less.prems show ?thesis
        by (simp add: read_chunks.simps [of _ _ _ _ _ _ 0] read_on_def lines_of_def recent_def List.map_filter_def)
    next
      case nz: False
      with False show ?thesis by (simp add: read_chunks.simps read_on_def)
    qed
  next
    case go: True
    have x: "take readPos logged @ leftover = take ?start logged @ ?x"
      by (simp add: slice_def) (metis append_take_drop_id diff_le_self le_add_diff_inverse take_add)
    show ?thesis
    proof (cases "read_err ?start")
      case (Some e)
      with go show ?thesis by (auto simp: read_chunks.simps [of _ _ _ _ _ _ readPos] Let_def)
    next
      case None
      let ?lines = "extractLinesReverse ?x (?start > 0)"
      obtain stop acc1 where scan: "scan_lines env limit c flt (lr_complete ?lines) acc = (stop, acc1)"
        by (rule prod.exhaust)
      show ?thesis
      proof (cases "?start = 0")
        case True
        then have "lr_complete ?lines = lines_of (take readPos logged @ leftover)"
          using x by (simp add: extract_spec)
        with scan scan_lines_recent [of "lr_complete ?lines" env limit c flt es n]
        have "read_on limit (recent env c flt (lines_of (take readPos logged @ leftover))) acc acc1"
          using read_on_all [of limit "recent env c flt (lines_of (take readPos logged @ leftover))" es n]
          by (simp add: lines_of_def list_all_iff)
        moreover have "read_chunks env limit c flt read_err logged readPos leftover acc = Inr acc1"
          using go None scan True
          by (simp add: read_chunks.simps [of _ _ _ _ _ _ readPos] read_chunks.simps [of _ _ _ _ _ _ 0] Let_def
              split: bool.split)
        ultimately show ?thesis by simp
      next
        case more: False
        let ?segs = "split_on line_feed ?x"
        have ext: "lr_complete ?lines = rev (filter (\<lambda>l. l \<noteq> []) (tl ?segs))" "lr_partial ?lines = hd ?segs"
          using more by (simp_all add: extract_spec)
        let ?rest = "lines_of (take ?start logged @ hd ?segs)"
        have ls: "lines_of (take readPos logged @ leftover) = lr_complete ?lines @ ?rest"
          unfolding x lines_of_def ext by (subst split_on_join_hd) simp
        have ne: "list_all (\<lambda>l. l \<noteq> []) (lr_complete ?lines)"
          unfolding ext list_all_iff by auto
        note acc1 = scan_lines_recent [OF ne, of env limit c flt es n]
        note app = recent_append [OF ne, of env c flt ?rest limit acc]
        show ?thesis
        proof (cases stop)
          case True
          with go None scan have "read_chunks env limit c flt read_err logged readPos leftover acc = Inr acc1"
            by (simp add: read_chunks.simps [of _ _ _ _ _ _ readPos] Let_def)
          moreover have "read_on limit (recent env c flt (lines_of (take readPos logged @ leftover))) acc acc1"
            unfolding ls app using acc1 scan True read_on_all [of limit "recent env c flt (lr_complete ?lines)" es n]
            by simp
          ultimately show ?thesis by simp
        next
          case False
          have lf: "line_feed \<notin> set (hd ?segs)" by (rule split_on_notin [of _ line_feed ?x]) simp
          have step: "read_chunks env limit c flt read_err logged readPos leftover acc =
              read_chunks env limit c flt read_err logged ?start (hd ?segs) acc1"
            using go None scan False more ext(2)
            by (simp add: read_chunks.simps [of _ _ _ _ _ _ readPos] Let_def)
          have ih: "case read_chunks env limit c flt read_err logged ?start (hd ?segs) acc1 of
              Inl e \<Rightarrow> \<exists>pos. read_err pos = Some e
            | Inr acc' \<Rightarrow> read_on limit (recent env c flt ?rest) acc1 acc'"
            using less.IH [of ?start "hd ?segs" acc1] go more lf less.prems(2) by (simp add: chunkSize_def)
          have "acc1 = (es @ take (nat (limit - int (length es))) (recent env c flt (lr_complete ?lines)),
              n + int (length (recent env c flt (lr_complete ?lines))))"
            using acc1 scan by simp
          with ih read_on_append show ?thesis
            unfolding step ls app using scan False by (auto split: sum.split)
        qed
      qed
    qed
  qed
qed

lemma read_whole:
  "case read_chunks env limit c flt read_err logged (length logged) [] ([], 0) of
     Inl e \<Rightarrow> \<exists>pos. read_err pos = Some e
   | Inr acc' \<Rightarrow> read_on limit (recent env c flt (lines_of logged)) ([], 0) acc'"
  using read_chunks_spec [where leftover = "[]" and readPos = "length logged" and logged = logged and
      acc = "([], 0)" and env = env and limit = limit and c = c and flt = flt and read_err = read_err]
  by (auto split: sum.splits)

text \<open>
  C29. The log is read backwards in chunks of 64 KB, and the chunks make no difference: whatever the file
  holds, and however long its lines are, the reader returns the newest entries that match, up to the
  limit, of the non-empty lines of the file taken from the end to the first entry that is too old. The
  count is at least the number of entries returned and at most the number of matches, and it is the
  number of matches when the limit was not reached. An error is an error of the file system, or the
  log is not a file.
\<close>

theorem audit_log_read_exact:
  "case readAuditLogEntries env fs path now limit span flt of
     Inl e \<Rightarrow> path = ''stdout'' \<or> path = ''stderr'' \<or>
       (case fs path of Missing \<Rightarrow> False | Present file read_err \<Rightarrow> \<exists>pos e. read_err pos = Some e | _ \<Rightarrow> True)
   | Inr (es, n) \<Rightarrow>
       (let file = (case fs path of Present file read_err \<Rightarrow> file | _ \<Rightarrow> '''');
            hits = recent env (if span > 0 then Some (now - span) else None) flt (lines_of file)
        in es = take (nat limit) hits \<and> int (length es) \<le> n \<and> n \<le> int (length hits) \<and>
           (if int (length es) < limit then n = int (length hits) else True))"
proof (cases "path = ''stderr'' \<or> path = ''stdout''")
  case True
  then show ?thesis by (auto simp: readAuditLogEntries_def)
next
  case stream: False
  have none: "recent env c flt (lines_of []) = []" for c
    by (simp add: lines_of_def recent_def List.map_filter_def)
  show ?thesis
  proof (cases "fs path")
    case (Present contents read_err)
    show ?thesis
    proof (cases "contents = ''''")
      case True
      with stream Present none show ?thesis by (simp add: readAuditLogEntries_def)
    next
      case False
      let ?c = "if span > 0 then Some (now - span) else None"
      have "case read_chunks env limit ?c flt read_err contents (length contents) [] ([], 0) of
          Inl e \<Rightarrow> \<exists>pos. read_err pos = Some e
        | Inr acc' \<Rightarrow> read_on limit (recent env ?c flt (lines_of contents)) ([], 0) acc'"
        by (rule read_whole)
      note read = this
      let ?r = "read_chunks env limit ?c flt read_err contents (length contents) [] ([], 0)"
      have r: "readAuditLogEntries env fs path now limit span flt =
          (case ?r of Inl e \<Rightarrow> Inl (PlainError (''failed to read chunk: '' @ error_text e)) | Inr r \<Rightarrow> Inr r)"
        using stream Present False by (simp add: readAuditLogEntries_def)
      show ?thesis
      proof (cases ?r)
        case (Inl e)
        with read have "\<exists>pos. read_err pos = Some e" by simp
        with r Inl Present show ?thesis by auto
      next
        case (Inr p)
        with read have "read_on limit (recent env ?c flt (lines_of contents)) ([], 0) p" by simp
        with r Inr Present show ?thesis by (cases p) (simp add: read_on_def Let_def)
      qed
    qed
  qed (use stream none in \<open>simp_all add: readAuditLogEntries_def\<close>)
qed

section \<open>What was written is read\<close>

lemma split_on_concat:
  "list_all (\<lambda>l. line_feed \<notin> set l) ls \<Longrightarrow> split_on line_feed (concat (map (\<lambda>l. l @ [line_feed]) ls)) = ls @ ['''']"
  by (induction ls) (auto simp: split_on_append)

lemma lines_of_written:
  assumes "list_all (\<lambda>l. line_feed \<notin> set l \<and> l \<noteq> []) ls"
  shows "lines_of (concat (map (\<lambda>l. l @ [line_feed]) ls)) = rev ls"
proof -
  have "list_all (\<lambda>l. line_feed \<notin> set l) ls" "filter (\<lambda>l. l \<noteq> []) ls = ls"
    using assms by (auto simp: list_all_iff filter_id_conv)
  then show ?thesis by (simp add: lines_of_def split_on_concat)
qed

text \<open>
  The JSON library reads back what it writes: on one line that is not empty, a written entry
  is a direct entry with the text of its first instant, and no older format.
\<close>

definition codec :: "'n log_env \<Rightarrow> (AuditEntry \<Rightarrow> go_error + string) \<Rightarrow> (AuditEntry \<Rightarrow> string) \<Rightarrow> AuditEntry \<Rightarrow> bool" where
  "codec env Marshal line e \<longleftrightarrow>
     Marshal e = Inr (line e) \<and> line e \<noteq> '''' \<and> line_feed \<notin> set (line e) \<and>
     (case le_Direct env (line e) of
        Some (e', started, created) \<Rightarrow> e' = e \<and> started \<noteq> ''''
      | None \<Rightarrow> False) \<and>
     (case le_Object env (line e) of Some obj \<Rightarrow> \<not> has_field obj ''audit'' | None \<Rightarrow> True) \<and>
     (case le_Logged env (line e) of Some entry \<Rightarrow> ale_Audit entry = None | None \<Rightarrow> True)"

lemma parse_written:
  assumes "codec env Marshal line e"
  shows "map_option (ale_Audit \<circ> fst) (parseAuditLine env (line e)) = (if has_tool e then Some (Some e) else None)"
proof -
  obtain st cr where d: "le_Direct env (line e) = Some (e, st, cr)" "st \<noteq> ''''"
    using assms by (auto simp: codec_def split: option.splits)
  show ?thesis
  proof (cases "has_tool e")
    case True
    with d show ?thesis by (simp add: parseAuditLine_def)
  next
    case False
    have "parse_older env (line e) = None"
      using assms by (auto simp: codec_def parse_older_def has_field_def split: option.splits)
    moreover have "(case le_Logged env (line e) of None \<Rightarrow> None
      | Some newEntry \<Rightarrow>
          if (case ale_Audit newEntry of None \<Rightarrow> False | Some a \<Rightarrow> has_tool a)
          then Some (newEntry, le_timestampToTime env (ale_Timestamp newEntry)) else None) = None"
      using assms by (auto simp: codec_def split: option.splits)
    ultimately show ?thesis using d False by (simp add: parseAuditLine_def)
  qed
qed

definition tool_matches :: "AuditLogFilter \<Rightarrow> AuditEntry \<Rightarrow> bool" where
  "tool_matches flt e \<longleftrightarrow> has_tool e \<and> matchesFilter
     \<lparr> ale_Level = '''', ale_Timestamp = (), ale_Caller = '''', ale_Message = '''', ale_Logger = '''',
       ale_Audit = Some e \<rparr> flt"

lemma tool_matches_parsed:
  "has_tool e \<Longrightarrow> ale_Audit entry = Some e \<Longrightarrow> matchesFilter entry flt \<longleftrightarrow> tool_matches flt e"
  "\<not> has_tool e \<Longrightarrow> \<not> tool_matches flt e"
  by (simp_all add: tool_matches_def matchesFilter_def)

lemma recent_written:
  assumes "list_all (codec env Marshal line) es"
  shows "map ale_Audit (recent env None flt (map line es)) = map Some (filter (tool_matches flt) es)"
  using assms
proof (induction es)
  case (Cons e es)
  then have ih: "map ale_Audit (recent env None flt (map line es)) = map Some (filter (tool_matches flt) es)" by simp
  from Cons have p: "map_option (ale_Audit \<circ> fst) (parseAuditLine env (line e)) = (if has_tool e then Some (Some e) else None)"
    using parse_written [of env Marshal line e] by simp
  show ?case
  proof (cases "has_tool e")
    case False
    with p ih show ?thesis by (simp add: recent_def List.map_filter_def tool_matches_parsed)
  next
    case True
    with p obtain entry t where e: "parseAuditLine env (line e) = Some (entry, t)" "ale_Audit entry = Some e" by auto
    with True ih show ?thesis
      by (simp add: recent_def List.map_filter_def tool_matches_parsed too_old_def)
  qed
qed (simp add: recent_def List.map_filter_def)

text \<open>
  C30. What was written is read. If the JSON library reads back the lines it writes, then after any
  sequence of writes to an empty log, a reader without a time range gets the newest entries of tool
  calls that passed the writer's filter and match its own, up to the limit and in reverse order.
  Entries of commands are written but never read.
\<close>

theorem written_entries_are_read:
  assumes "list_all (codec env Marshal line) es"
    and "aw_written w = ''''" "path \<noteq> ''stdout''" "path \<noteq> ''stderr''"
    and "fs path = Present (aw_written (write_all Marshal es w)) (\<lambda>pos. None)"
  shows "\<exists>entries n. readAuditLogEntries env fs path now limit 0 flt = Inr (entries, n) \<and>
    map ale_Audit entries =
      map Some (take (nat limit) (filter (tool_matches flt) (rev (filter (kept (aw_filter w)) es))))"
proof -
  let ?es = "filter (kept (aw_filter w)) es"
  have m: "list_all (\<lambda>e. Marshal e = Inr (line e)) es" and c: "list_all (codec env Marshal line) ?es"
    and l: "list_all (\<lambda>l. line_feed \<notin> set l \<and> l \<noteq> []) (map line ?es)"
    using assms(1) by (auto simp: list_all_iff codec_def)
  have written: "aw_written (write_all Marshal es w) = concat (map (\<lambda>l. l @ [line_feed]) (map line ?es))"
    using write_all_written [OF m, of w] assms(2) by (simp add: comp_def)
  have "list_all (codec env Marshal line) (rev ?es)" using c by simp
  note hits = recent_written [OF this, of flt]
  have ok: "\<not> (path = ''stderr'' \<or> path = ''stdout'')" using assms(3,4) by simp
  show ?thesis
  proof (cases "aw_written (write_all Marshal es w) = ''''")
    case True
    with written have "?es = []" by (cases ?es) auto
    with True ok assms(5) show ?thesis by (simp add: readAuditLogEntries_def)
  next
    case False
    note read = read_whole [where env = env and limit = limit and c = None and flt = flt and
        read_err = "\<lambda>pos. None" and logged = "aw_written (write_all Marshal es w)",
        unfolded written lines_of_written [OF l], folded written]
    from False ok assms(5) hits read show ?thesis
      by (auto simp: readAuditLogEntries_def read_on_def rev_map [symmetric] take_map [symmetric] split: sum.splits)
  qed
qed

section \<open>Instances\<close>

definition sample_entry :: "string \<Rightarrow> AuditEntry" where
  "sample_entry action = ac_entry (SetActions '''' action '''' (NewAuditContext 0 ''srv__tool'' ''srv'' ''tool'' '''' '''' ''''))"

definition sample_log :: "unit log_env" where
  "sample_log = \<lparr> le_Direct = (\<lambda>s. Some (sample_entry s, ''now'', '''')), le_Object = (\<lambda>s. None),
     le_Legacy = (\<lambda>s. None), le_Logged = (\<lambda>s. None), le_ParseTime = (\<lambda>s. None),
     le_timestampToTime = (\<lambda>t. None), le_zero = (), le_ParseDuration = (\<lambda>s. None),
     le_ScanInt = (\<lambda>s. None), le_Quote = (\<lambda>s. s) \<rparr>"

definition denied_only :: JSONLAuditWriter where
  "denied_only = \<lparr> aw_sink = File ''log'', aw_filter = ''deny_only'', aw_written = '''' \<rparr>"

definition any_entry :: AuditLogFilter where
  "any_entry = \<lparr> alf_Status = '''', alf_ToolName = '''', alf_Client = '''' \<rparr>"

lemma sample_codec: "a \<noteq> '''' \<Longrightarrow> line_feed \<notin> set a \<Longrightarrow> codec sample_log (\<lambda>e. Inr (ae_Action e)) ae_Action (sample_entry a)"
  by (simp add: codec_def sample_log_def sample_entry_def SetActions_def on_entry_def)

lemma written_entries_are_read_witness:
  "\<exists>entries n. readAuditLogEntries sample_log
      (\<lambda>p. Present (aw_written (write_all (\<lambda>e. Inr (ae_Action e)) [sample_entry ''deny'', sample_entry ''allow''] denied_only))
        (\<lambda>pos. None)) ''log'' 0 10 0 any_entry = Inr (entries, n) \<and>
    map ale_Audit entries = [Some (sample_entry ''deny'')]"
proof -
  have "list_all (codec sample_log (\<lambda>e. Inr (ae_Action e)) ae_Action) [sample_entry ''deny'', sample_entry ''allow'']"
    by (simp add: sample_codec)
  from written_entries_are_read [OF this, of denied_only "''log''"
      "\<lambda>p. Present (aw_written (write_all (\<lambda>e. Inr (ae_Action e)) [sample_entry ''deny'', sample_entry ''allow''] denied_only))
        (\<lambda>pos. None)" 0 10 any_entry]
  show ?thesis
    by (simp add: denied_only_def kept_def tool_matches_def has_tool_def matchesFilter_def any_entry_def
        sample_entry_def SetActions_def on_entry_def NewAuditContext_def)
qed

section \<open>Quirks\<close>

text \<open>
  A log that goes to standard output is resolved to an empty path before it gets here, so the test
  for streams never holds and the reader finds an empty log instead of reporting an error.
\<close>

lemma stream_log_reads_empty:
  "fs '''' = Missing \<Longrightarrow>
     readAuditLogEntries env fs (ResolveAuditLogPath ''stdout'' logDir) now limit span flt = Inr ([], 0)"
  by (simp add: readAuditLogEntries_def ResolveAuditLogPath_def)

text \<open>Large counts of days wrap around: 106752 days is a range in the past, which means no limit.\<close>

lemma many_days_unlimited:
  assumes "le_ParseDuration env ''106752d'' = None" "le_ScanInt env ''106752'' = Some 106752"
  shows "case ParseTimeRange env ''106752d'' of Inr d \<Rightarrow> d < 0 | Inl e \<Rightarrow> False"
  using assms by (simp add: ParseTimeRange_def wrap64_def)

text \<open>With a limit of zero the reply claims that there is nothing more to see.\<close>

lemma zero_limit_not_truncated:
  "fs path = Present logged (\<lambda>pos. None) \<Longrightarrow> path \<noteq> ''stderr'' \<Longrightarrow> path \<noteq> ''stdout'' \<Longrightarrow>
     readAuditLogEntries env fs path now 0 span flt = Inr ([], 0)"
  by (simp add: readAuditLogEntries_def read_chunks.simps)

end
