(* ===== verification/AuditReport.thy ===== *)
theory AuditReport
  imports AuditReader JsonSanitize
begin

text \<open>
  The audit report (\<^verbatim>\<open>audit_report_tool.go\<close>): statistics over the entries of the log, the summary of
  them that is put to the AI provider, and the rendering of its answer. A Go map of counters is an
  association list; \<open>order\<close> rearranges it into the order in which the program visits it, which Go
  leaves open.
\<close>

section \<open>Statistics\<close>

type_synonym counters = "(string \<times> int) list"

record AuditReportStatistics =
  ars_TotalRequests :: int
  ars_SuccessCount :: int
  ars_DeniedCount :: int
  ars_ErrorCount :: int
  ars_UniqueTools :: int
  ars_UniqueClients :: int
  ars_TopTools :: counters
  ars_TopClients :: counters
  ars_DeniedByPolicy :: counters
  ars_AuditOnlyDenials :: int
  ars_TimeoutFailures :: int
  ars_SuccessfulDenies :: int

definition no_statistics :: AuditReportStatistics where
  "no_statistics = \<lparr> ars_TotalRequests = 0, ars_SuccessCount = 0, ars_DeniedCount = 0, ars_ErrorCount = 0,
     ars_UniqueTools = 0, ars_UniqueClients = 0, ars_TopTools = [], ars_TopClients = [], ars_DeniedByPolicy = [],
     ars_AuditOnlyDenials = 0, ars_TimeoutFailures = 0, ars_SuccessfulDenies = 0 \<rparr>"

definition count_of :: "counters \<Rightarrow> string \<Rightarrow> int" where
  "count_of m k = (case map_of m k of None \<Rightarrow> 0 | Some n \<Rightarrow> n)"

definition bump :: "string \<Rightarrow> counters \<Rightarrow> counters" where
  "bump k m = AList.update k (count_of m k + 1) m"

definition rule_or :: "string \<Rightarrow> string \<Rightarrow> string" where
  "rule_or dflt rule = (if rule = '''' then dflt else rule)"

text \<open>The denials of one phase: the rule that decided, or a name for the kind of rules.\<close>

definition bump_denials ::
  "string \<Rightarrow> string \<Rightarrow> AuditValidationInfo option \<Rightarrow> counters \<Rightarrow> counters" where
  "bump_denials celName aiName validation m =
     (case validation of
        None \<Rightarrow> m
      | Some v \<Rightarrow>
          let m1 = (case avi_CEL v of
                Some r \<Rightarrow> if ar_Action r = ''deny'' then bump (rule_or celName (ar_DecidingRule r)) m else m
              | None \<Rightarrow> m)
          in (case avi_AI v of
                Some r \<Rightarrow> if aai_Action r = ''deny'' then bump (rule_or aiName (aai_DecidingRule r)) m1 else m1
              | None \<Rightarrow> m1))"

definition count_outcome :: "AuditEntry \<Rightarrow> AuditReportStatistics \<Rightarrow> AuditReportStatistics" where
  "count_outcome a st =
     (if ae_Action a = PolicyActionAllow then st\<lparr> ars_SuccessCount := ars_SuccessCount st + 1 \<rparr>
      else if ae_Action a = PolicyActionDeny
      then st\<lparr> ars_DeniedCount := ars_DeniedCount st + 1, ars_SuccessfulDenies := ars_SuccessfulDenies st + 1 \<rparr>
      else st\<lparr> ars_ErrorCount := ars_ErrorCount st + 1 \<rparr>)"

definition count_tool :: "AuditEntry \<Rightarrow> AuditReportStatistics \<Rightarrow> AuditReportStatistics" where
  "count_tool a st =
     (case ae_Tool a of
        None \<Rightarrow> st
      | Some t \<Rightarrow>
          if ati_PrefixedName t = '''' then st
          else let st1 = st\<lparr> ars_TopTools := bump (ati_PrefixedName t) (ars_TopTools st) \<rparr>
          in if ati_Client t = '''' then st1
             else st1\<lparr> ars_TopClients := bump (ati_Client t) (ars_TopClients st1) \<rparr>)"

definition count_reason :: "AuditEntry \<Rightarrow> AuditReportStatistics \<Rightarrow> AuditReportStatistics" where
  "count_reason a st =
     (if ae_ActionReason a = ActionReasonAuditMode then st\<lparr> ars_AuditOnlyDenials := ars_AuditOnlyDenials st + 1 \<rparr>
      else if ae_ActionReason a = ActionReasonFailOpen then st\<lparr> ars_TimeoutFailures := ars_TimeoutFailures st + 1 \<rparr>
      else st)"

definition count_denials :: "AuditEntry \<Rightarrow> AuditReportStatistics \<Rightarrow> AuditReportStatistics" where
  "count_denials a st = st\<lparr> ars_DeniedByPolicy :=
     bump_denials ''CEL Response Policy'' ''AI Response Policy'' (ae_ResponseValidation a)
       (bump_denials ''CEL Policy'' ''AI Policy'' (ae_RequestValidation a) (ars_DeniedByPolicy st)) \<rparr>"

text \<open>The body of the loop over the entries.\<close>

definition count_audit :: "AuditEntry \<Rightarrow> AuditReportStatistics \<Rightarrow> AuditReportStatistics" where
  "count_audit a st = count_denials a (count_reason a (count_tool a (count_outcome a
     (st\<lparr> ars_TotalRequests := ars_TotalRequests st + 1 \<rparr>))))"

definition count_entry :: "'n AuditLogEntry \<Rightarrow> AuditReportStatistics \<Rightarrow> AuditReportStatistics" where
  "count_entry entry st = (case ale_Audit entry of None \<Rightarrow> st | Some a \<Rightarrow> count_audit a st)"

definition statistics :: "'n AuditLogEntry list \<Rightarrow> AuditReportStatistics" where
  "statistics entries =
     (let st = foldl (\<lambda>st e. count_entry e st) no_statistics entries
      in st\<lparr> ars_UniqueTools := int (length (ars_TopTools st)), ars_UniqueClients := int (length (ars_TopClients st)) \<rparr>)"

definition no_filter :: AuditLogFilter where
  "no_filter = \<lparr> alf_Status = '''', alf_ToolName = '''', alf_Client = '''' \<rparr>"

definition getEntriesForReport ::
  "'n log_env \<Rightarrow> (string \<Rightarrow> log_file) \<Rightarrow> string \<Rightarrow> int \<Rightarrow> int \<Rightarrow> string \<Rightarrow>
     go_error + 'n AuditLogEntry list \<times> AuditReportStatistics" where
  "getEntriesForReport env fs auditLogPath MaxEntries now timeRangeStr =
     (case ParseTimeRange env timeRangeStr of
        Inl err \<Rightarrow> Inl (PlainError (''invalid time range: '' @ error_text err))
      | Inr timeRange \<Rightarrow> (case readAuditLogEntries env fs auditLogPath now MaxEntries timeRange no_filter of
          Inl err \<Rightarrow> Inl err
        | Inr (entries, totalCount) \<Rightarrow> Inr (entries, statistics entries)))"

section \<open>The summary for the AI provider\<close>

definition println :: "string list \<Rightarrow> string" where
  "println parts = concat parts @ [line_feed]"

definition deciding_rule :: "AuditValidationInfo option \<Rightarrow> string" where
  "deciding_rule validation =
     (case validation of
        None \<Rightarrow> ''''
      | Some v \<Rightarrow>
          let cel = (case avi_CEL v of None \<Rightarrow> '''' | Some r \<Rightarrow> ar_DecidingRule r) in
          if cel \<noteq> '''' then cel
          else case avi_AI v of None \<Rightarrow> '''' | Some r \<Rightarrow> aai_DecidingRule r)"

definition response_rule :: "string \<Rightarrow> string" where
  "response_rule rule = (if rule \<noteq> '''' then rule @ '' (response)'' else '''')"

text \<open>
  The loops over the entries stop after five samples. \<open>wanted\<close> says which entries are sampled, with
  the line for each; \<open>args\<close> is the JSON text of the parameters of a call.
\<close>

fun collect_samples ::
  "(AuditEntry \<Rightarrow> bool) \<Rightarrow> (AuditEntry \<Rightarrow> AuditToolInfo \<Rightarrow> string) \<Rightarrow> nat \<Rightarrow> 'n AuditLogEntry list \<Rightarrow> string list" where
  "collect_samples wanted line n [] = []"
| "collect_samples wanted line n (entry # entries) =
     (if n \<ge> 5 then []
      else case ale_Audit entry of
        None \<Rightarrow> collect_samples wanted line n entries
      | Some a \<Rightarrow> (case ae_Tool a of
          None \<Rightarrow> collect_samples wanted line n entries
        | Some t \<Rightarrow>
            if wanted a then line a t # collect_samples wanted line (n + 1) entries
            else collect_samples wanted line n entries))"

definition or_none :: "string list \<Rightarrow> string" where
  "or_none samples = (if samples = [] then println [''  (none found)''] else concat samples)"

definition collectAuditOnlySamples ::
  "((string \<times> dyn) list option \<Rightarrow> string) \<Rightarrow> 'n AuditLogEntry list \<Rightarrow> string" where
  "collectAuditOnlySamples args entries =
     [line_feed] @ println [''Sample Audit-Only Denials (would be blocked if policies enabled):''] @
     or_none (collect_samples (\<lambda>a. ae_ActionReason a = ActionReasonAuditMode)
       (\<lambda>a t.
          let rule1 = deciding_rule (ae_RequestValidation a);
              rule = (if rule1 = '''' then response_rule (deciding_rule (ae_ResponseValidation a)) else rule1)
          in if rule \<noteq> ''''
             then println [''  - Tool: '', ati_PrefixedName t, '', Rule: '', rule, '', Args: '', args (ati_Params t)]
             else println [''  - Tool: '', ati_PrefixedName t, '', Args: '', args (ati_Params t)])
       0 entries)"

definition findErrorInResults :: "AuditValidationInfo option \<Rightarrow> string \<times> string" where
  "findErrorInResults validation =
     (case validation of
        None \<Rightarrow> ('''', '''')
      | Some v \<Rightarrow>
          (case (case avi_CEL v of None \<Rightarrow> None
                 | Some c \<Rightarrow> find (\<lambda>r. arr_Result r = ''error'' \<and> arr_Error r \<noteq> '''') (ar_Results c)) of
             Some r \<Rightarrow> (arr_Rule r, arr_Error r)
           | None \<Rightarrow>
               (case (case avi_AI v of None \<Rightarrow> None
                      | Some c \<Rightarrow> find (\<lambda>r. aair_Result r = ''error'' \<and> aair_Error r \<noteq> '''') (aai_Results c)) of
                  Some r \<Rightarrow> (aair_Rule r, aair_Error r)
                | None \<Rightarrow> ('''', ''''))))"

definition collectTimeoutSamples :: "'n AuditLogEntry list \<Rightarrow> string" where
  "collectTimeoutSamples entries =
     [line_feed] @ println [''Sample Timeout Failures (policies failed open due to timeouts):''] @
     or_none (collect_samples (\<lambda>a. ae_ActionReason a = ActionReasonFailOpen)
       (\<lambda>a t.
          let (rule1, err1) = findErrorInResults (ae_RequestValidation a);
              (rule2, err2) = findErrorInResults (ae_ResponseValidation a);
              (rule, errMsg) = (if rule1 = '''' \<and> rule2 \<noteq> '''' then (response_rule rule2, err2) else (rule1, err1))
          in if rule \<noteq> ''''
             then println [''  - Tool: '', ati_PrefixedName t, '', Rule: '', rule, '', Error: '', errMsg]
             else println [''  - Tool: '', ati_PrefixedName t])
       0 entries)"

definition prepareEntrySummary ::
  "((string \<times> dyn) list option \<Rightarrow> string) \<Rightarrow> (counters \<Rightarrow> counters) \<Rightarrow> 'n AuditLogEntry list \<Rightarrow>
     AuditReportStatistics \<Rightarrow> string" where
  "prepareEntrySummary args order entries stats =
     println [''Total Requests: '', Itoa (ars_TotalRequests stats)] @
     println [''Success: '', Itoa (ars_SuccessCount stats), '', Denied: '', Itoa (ars_DeniedCount stats),
       '', Errors: '', Itoa (ars_ErrorCount stats)] @
     println [''Unique Tools: '', Itoa (ars_UniqueTools stats), '', Unique Clients: '', Itoa (ars_UniqueClients stats)] @
     [line_feed] @
     println [''Policy Effectiveness Metrics:''] @
     println [''  - Successful Denials (blocked harmful requests): '', Itoa (ars_SuccessfulDenies stats)] @
     println [''  - Audit-Only Denials (would be denied if enabled): '', Itoa (ars_AuditOnlyDenials stats)] @
     println [''  - Timeout Failures (failed open due to timeouts): '', Itoa (ars_TimeoutFailures stats)] @
     [line_feed] @
     println [''Top Tools by Usage:''] @
     concat (map (\<lambda>(tool, count). println [''  - '', tool, '': '', Itoa count, '' calls'']) (order (ars_TopTools stats))) @
     (if length (ars_DeniedByPolicy stats) > 0
      then [line_feed] @ println [''Denials by Policy:''] @
        concat (map (\<lambda>(policy, count). println [''  - '', policy, '': '', Itoa count, '' denials''])
          (order (ars_DeniedByPolicy stats)))
      else []) @
     collectAuditOnlySamples args entries @
     collectTimeoutSamples entries @
     [line_feed] @ println [''Sample Denied Requests (successfully blocked):''] @
     concat (collect_samples (\<lambda>a. ae_Action a = PolicyActionDeny)
       (\<lambda>a t. println [''  - Tool: '', ati_PrefixedName t, '', Args: '', args (ati_Params t)]) 0 entries)"

section \<open>The report\<close>

record AuditReportRequest =
  arq_TimeRange :: string
  arq_Focus :: string
  arq_IncludeRecommendations :: bool
  arq_IncludeImpactAnalysis :: bool
  arq_Format :: string

record AuditReportImpact =
  ari_Type :: string
  ari_Reasoning :: string

record AuditReportConcern =
  arc_Severity :: string
  arc_Category :: string
  arc_Description :: string
  arc_Impact :: AuditReportImpact
  arc_Occurrences :: int
  arc_AffectedTools :: "string list"
  arc_Recommendation :: string

record AuditReportMetadata =
  arm_GeneratedAt :: string
  arm_TimeRange :: string
  arm_EntriesAnalyzed :: int
  arm_Focus :: string

record AuditReportResponse =
  arp_Summary :: string
  arp_Concerns :: "AuditReportConcern list"
  arp_Statistics :: AuditReportStatistics
  arp_Recommendations :: "string list"
  arp_Metadata :: AuditReportMetadata

record AIReportResponse =
  airp_Summary :: string
  airp_Concerns :: "AuditReportConcern list"
  airp_Recommendations :: "string list"

text \<open>
  The settings in use and what the report calls: the provider with its timeout in seconds, which takes
  the model and the two prompts; whether an error is an exceeded deadline; the decoder of the answer;
  the clock as a text; the JSON texts of parameters and of the report; the rest of the prompt after the
  summary, which is fixed; and the order in which a map of counters is visited.
\<close>

record report_env =
  rpe_APIKey :: string
  rpe_Model :: string
  rpe_SystemPrompt :: string
  rpe_MaxEntries :: int
  rpe_TimeoutSeconds :: int
  rpe_Generate :: "int \<Rightarrow> string \<Rightarrow> string \<Rightarrow> string \<Rightarrow> go_error + string option \<times> string"
  rpe_DeadlineExceeded :: "go_error \<Rightarrow> bool"
  rpe_Unmarshal :: "string \<Rightarrow> go_error + AIReportResponse"
  rpe_Duration :: "int \<Rightarrow> string"
  rpe_now :: string
  rpe_args :: "(string \<times> dyn) list option \<Rightarrow> string"
  rpe_Marshal :: "AuditReportResponse \<Rightarrow> go_error + string"
  rpe_instructions :: string
  rpe_order :: "counters \<Rightarrow> counters"

definition show_bool :: "bool \<Rightarrow> string" where
  "show_bool b = (if b then ''true'' else ''false'')"

definition buildReportPrompt :: "string \<Rightarrow> string \<Rightarrow> AuditReportRequest \<Rightarrow> string" where
  "buildReportPrompt instructions entrySummary params =
     println [''Analyze the following MCP gateway audit log data and generate a security analysis report.''] @
     [line_feed] @ println [''Focus Area: '', arq_Focus params] @
     println [''Time Range: '', arq_TimeRange params] @
     println [''Include Impact Analysis: '', show_bool (arq_IncludeImpactAnalysis params)] @
     [line_feed] @ println [''Audit Log Summary:''] @ entrySummary @ instructions"

definition generateAIReport ::
  "report_env \<Rightarrow> 'n AuditLogEntry list \<Rightarrow> AuditReportStatistics \<Rightarrow> AuditReportRequest \<Rightarrow>
     go_error + AuditReportResponse" where
  "generateAIReport env entries stats params =
     (let entrySummary = prepareEntrySummary (rpe_args env) (rpe_order env) entries stats;
          userPrompt = buildReportPrompt (rpe_instructions env) entrySummary params;
          timeout = rpe_TimeoutSeconds env
      in case rpe_Generate env timeout (rpe_Model env) (rpe_SystemPrompt env) userPrompt of
           Inl err \<Rightarrow>
             if rpe_DeadlineExceeded env err
             then Inl (PlainError (''AI API call timed out after '' @ rpe_Duration env timeout @
               '' (consider increasing native_tools.audit_report.timeout_seconds or reducing time_range): '' @
               error_text err))
             else Inl (PlainError (''AI API call failed: '' @ error_text err))
         | Inr (ParsedJSON, RawText) \<Rightarrow>
             (case rpe_Unmarshal env (SanitizeJSONEscapes (case ParsedJSON of Some j \<Rightarrow> j | None \<Rightarrow> RawText)) of
                Inl err \<Rightarrow> Inl (PlainError (''failed to parse AI response: '' @ error_text err))
              | Inr aiResponse \<Rightarrow>
                  Inr \<lparr> arp_Summary = airp_Summary aiResponse, arp_Concerns = airp_Concerns aiResponse,
                    arp_Statistics = stats,
                    arp_Recommendations = (if arq_IncludeRecommendations params then airp_Recommendations aiResponse else []),
                    arp_Metadata = \<lparr> arm_GeneratedAt = rpe_now env, arm_TimeRange = arq_TimeRange params,
                      arm_EntriesAnalyzed = int (length entries), arm_Focus = arq_Focus params \<rparr> \<rparr>))"

definition formatConcern :: "nat \<Rightarrow> AuditReportConcern \<Rightarrow> bool \<Rightarrow> string" where
  "formatConcern num c includeImpact =
     println [''#### '', Itoa (int num), ''. '', arc_Category c] @ [line_feed] @
     println [''**Description:** '', arc_Description c] @ [line_feed] @
     println [''**Occurrences:** '', Itoa (arc_Occurrences c)] @ [line_feed] @
     (if length (arc_AffectedTools c) > 0
      then println [''**Affected Tools:**''] @
        concat (map (\<lambda>tool. println [''- '', [CHR 0x60], tool, [CHR 0x60]]) (arc_AffectedTools c)) @ [line_feed]
      else []) @
     (if includeImpact
      then println [''**Impact Type:** '', ari_Type (arc_Impact c)] @ [line_feed] @
        println [''**Impact Reasoning:** '', ari_Reasoning (arc_Impact c)] @ [line_feed]
      else []) @
     (if arc_Recommendation c \<noteq> ''''
      then println [''**Recommendation:** '', arc_Recommendation c] @ [line_feed] else []) @
     println [''---''] @ [line_feed]"

definition format_group :: "string \<Rightarrow> AuditReportConcern list \<Rightarrow> bool \<Rightarrow> string" where
  "format_group title concerns includeImpact =
     (if length concerns > 0
      then println [''### '', title, '' Impact''] @ [line_feed] @
        concat (map (\<lambda>i. formatConcern (i + 1) (concerns ! i) includeImpact) [0..<length concerns])
      else [])"

definition formatReportAsMarkdown :: "AuditReportResponse \<Rightarrow> AuditReportRequest \<Rightarrow> string" where
  "formatReportAsMarkdown report params =
     (let meta = arp_Metadata report; stats = arp_Statistics report; concerns = arp_Concerns report;
          highConcerns = filter (\<lambda>c. arc_Severity c = ''HIGH'') concerns;
          mediumConcerns = filter (\<lambda>c. arc_Severity c = ''MEDIUM'') concerns;
          lowConcerns = filter (\<lambda>c. arc_Severity c \<noteq> ''HIGH'' \<and> arc_Severity c \<noteq> ''MEDIUM'') concerns;
          recommendations = arp_Recommendations report
      in println [''# Audit Log Analysis Report''] @ [line_feed] @
         println [''**Generated:** '', arm_GeneratedAt meta] @
         println [''**Time Range:** '', arm_TimeRange meta] @
         println [''**Entries Analyzed:** '', Itoa (arm_EntriesAnalyzed meta)] @
         println [''**Focus:** '', arm_Focus meta] @ [line_feed] @
         println [''## Summary''] @ [line_feed] @ println [arp_Summary report] @ [line_feed] @
         println [''## Statistics''] @ [line_feed] @
         println [''| Metric | Value |''] @
         println [''|--------|-------|''] @
         println [''| Total Requests | '', Itoa (ars_TotalRequests stats), '' |''] @
         println [''| Successful | '', Itoa (ars_SuccessCount stats), '' |''] @
         println [''| Denied | '', Itoa (ars_DeniedCount stats), '' |''] @
         println [''| Errors | '', Itoa (ars_ErrorCount stats), '' |''] @
         println [''| Unique Tools | '', Itoa (ars_UniqueTools stats), '' |''] @
         println [''| Unique Clients | '', Itoa (ars_UniqueClients stats), '' |''] @ [line_feed] @
         println [''### Policy Effectiveness''] @ [line_feed] @
         println [''| Metric | Value | Description |''] @
         println [''|--------|-------|-------------|''] @
         println [''| Successful Denials | '', Itoa (ars_SuccessfulDenies stats),
           '' | Harmful requests blocked by enabled policies |''] @
         println [''| Audit-Only Denials | '', Itoa (ars_AuditOnlyDenials stats),
           '' | Would be blocked if policies were enabled |''] @
         println [''| Timeout Failures | '', Itoa (ars_TimeoutFailures stats),
           '' | Failed open due to policy evaluation timeouts |''] @ [line_feed] @
         (if length concerns > 0
          then println [''## Concerns (Prioritized by Business Impact)''] @ [line_feed] @
            format_group ''HIGH'' highConcerns (arq_IncludeImpactAnalysis params) @
            format_group ''MEDIUM'' mediumConcerns (arq_IncludeImpactAnalysis params) @
            format_group ''LOW'' lowConcerns (arq_IncludeImpactAnalysis params)
          else []) @
         (if arq_IncludeRecommendations params \<and> length recommendations > 0
          then println [''## Recommendations''] @ [line_feed] @
            concat (map (\<lambda>i. println [Itoa (int i + 1), ''. '', recommendations ! i]) [0..<length recommendations]) @
            [line_feed]
          else []))"

definition bool_arg :: "(string \<times> dyn) list \<Rightarrow> string \<Rightarrow> bool \<Rightarrow> bool" where
  "bool_arg args key dflt = (case map_of args key of Some (DBool b) \<Rightarrow> b | _ \<Rightarrow> dflt)"

definition report_params :: "(string \<times> dyn) list \<Rightarrow> AuditReportRequest" where
  "report_params args =
     \<lparr> arq_TimeRange = string_arg args ''time_range'' ''24h'', arq_Focus = string_arg args ''focus'' ''comprehensive'',
       arq_IncludeRecommendations = bool_arg args ''include_recommendations'' True,
       arq_IncludeImpactAnalysis = bool_arg args ''include_impact_analysis'' True,
       arq_Format = string_arg args ''format'' ''markdown'' \<rparr>"

definition handleGenerateAuditReport ::
  "report_env \<Rightarrow> 'n log_env \<Rightarrow> (string \<Rightarrow> log_file) \<Rightarrow> string \<Rightarrow> int \<Rightarrow> (string \<times> dyn) list option \<Rightarrow> CallToolResult" where
  "handleGenerateAuditReport env lenv fs auditLogPath now arguments =
     (if rpe_APIKey env = ''''
      then NewToolResultError (''Audit report generation requires an API key. Configure '' @
        ''validation.ai.api_key in your config file.'')
      else
        let params = report_params (case arguments of None \<Rightarrow> [] | Some a \<Rightarrow> a) in
        case getEntriesForReport lenv fs auditLogPath (rpe_MaxEntries env) now (arq_TimeRange params) of
          Inl err \<Rightarrow> NewToolResultError (''Failed to read audit log: '' @ error_text err)
        | Inr (entries, stats) \<Rightarrow>
            if length entries = 0
            then NewToolResultText ''No audit log entries found for the specified time range.''
            else case generateAIReport env entries stats params of
              Inl err \<Rightarrow> NewToolResultError (''Failed to generate report: '' @ error_text err)
            | Inr report \<Rightarrow>
                if arq_Format params = ''json''
                then (case rpe_Marshal env report of
                        Inl err \<Rightarrow> NewToolResultError (''Failed to serialize report: '' @ error_text err)
                      | Inr output \<Rightarrow> NewToolResultText output)
                else if arq_Format params = ''summary'' then NewToolResultText (arp_Summary report)
                else NewToolResultText (formatReportAsMarkdown report params))"

section \<open>The statistics are exact\<close>

text \<open>The entries with their tools, clients and denials, which the counters are about.\<close>

definition audits :: "'n AuditLogEntry list \<Rightarrow> AuditEntry list" where
  "audits entries = List.map_filter ale_Audit entries"

definition tool_names :: "AuditEntry \<Rightarrow> string list" where
  "tool_names a = (case ae_Tool a of None \<Rightarrow> []
     | Some t \<Rightarrow> if ati_PrefixedName t = '''' then [] else [ati_PrefixedName t])"

definition client_names :: "AuditEntry \<Rightarrow> string list" where
  "client_names a = (case ae_Tool a of None \<Rightarrow> []
     | Some t \<Rightarrow> if ati_PrefixedName t = '''' \<or> ati_Client t = '''' then [] else [ati_Client t])"

definition denials_of :: "string \<Rightarrow> string \<Rightarrow> AuditValidationInfo option \<Rightarrow> string list" where
  "denials_of celName aiName validation =
     (case validation of None \<Rightarrow> []
      | Some v \<Rightarrow>
          (case avi_CEL v of Some r \<Rightarrow> if ar_Action r = ''deny'' then [rule_or celName (ar_DecidingRule r)] else [] | None \<Rightarrow> []) @
          (case avi_AI v of Some r \<Rightarrow> if aai_Action r = ''deny'' then [rule_or aiName (aai_DecidingRule r)] else [] | None \<Rightarrow> []))"

definition entry_denials :: "AuditEntry \<Rightarrow> string list" where
  "entry_denials a = denials_of ''CEL Policy'' ''AI Policy'' (ae_RequestValidation a) @
     denials_of ''CEL Response Policy'' ''AI Response Policy'' (ae_ResponseValidation a)"

definition number :: "('a \<Rightarrow> bool) \<Rightarrow> 'a list \<Rightarrow> int" where
  "number P xs = int (length (filter P xs))"

definition neither :: "AuditEntry \<Rightarrow> bool" where
  "neither a \<longleftrightarrow> ae_Action a \<noteq> PolicyActionAllow \<and> ae_Action a \<noteq> PolicyActionDeny"

lemma number_simps [simp]:
  "number P [] = 0" "number P (x # xs) = (if P x then 1 else 0) + number P xs"
  by (simp_all add: number_def)

abbreviation bumps :: "string list \<Rightarrow> counters \<Rightarrow> counters" where
  "bumps ks m \<equiv> fold bump ks m"

lemma count_of_bump [simp]: "count_of (bump k m) k' = count_of m k' + (if k' = k then 1 else 0)"
  by (simp add: count_of_def bump_def update_conv)

lemma count_of_bumps: "count_of (bumps ks m) k = count_of m k + int (count_list ks k)"
  by (induction ks arbitrary: m) simp_all

lemma count_of_Nil [simp]: "count_of [] k = 0"
  by (simp add: count_of_def)

lemma distinct_bumps: "distinct (map fst m) \<Longrightarrow> distinct (map fst (bumps ks m))"
  by (induction ks arbitrary: m) (simp_all add: bump_def distinct_update)

lemma keys_bumps: "fst ` set (bumps ks m) = fst ` set m \<union> set ks"
  by (induction ks arbitrary: m) (auto simp: bump_def dom_update)

lemma bump_sum: "distinct (map fst m) \<Longrightarrow> sum_list (map snd (bump k m)) = sum_list (map snd m) + 1"
proof (induction m)
  case (Cons x m)
  obtain k' v where [simp]: "x = (k', v)" by (cases x)
  show ?case
  proof (cases "k = k'")
    case False
    then have "bump k (x # m) = x # bump k m" by (simp add: bump_def count_of_def)
    with Cons show ?thesis by simp
  qed (simp add: bump_def count_of_def)
qed (simp add: bump_def count_of_def)

lemma sum_bumps:
  "distinct (map fst m) \<Longrightarrow> sum_list (map snd (bumps ks m)) = sum_list (map snd m) + int (length ks)"
proof (induction ks arbitrary: m)
  case (Cons k ks)
  have "distinct (map fst (bump k m))" using distinct_bumps [of m "[k]"] Cons.prems by simp
  with Cons.IH [of "bump k m"] bump_sum [OF Cons.prems] show ?case by simp
qed simp

lemma bump_denials_bumps: "bump_denials c ai v m = bumps (denials_of c ai v) m"
  by (auto simp: bump_denials_def denials_of_def Let_def split: option.split)

lemma foldl_number:
  assumes "\<And>st a. f (step st a) = f st + (if P a then 1 else 0)"
  shows "f (foldl step st as) = f st + number P as"
  by (induction as arbitrary: st) (simp_all add: assms)

lemma foldl_bumps:
  assumes "\<And>st a. f (step st a) = bumps (g a) (f st)"
  shows "f (foldl step st as) = bumps (concat (map g as)) (f st)"
  by (induction as arbitrary: st) (simp_all add: assms)

lemma count_tool_sel [simp]:
  "ars_TopTools (count_tool a st) = bumps (tool_names a) (ars_TopTools st)"
  "ars_TopClients (count_tool a st) = bumps (client_names a) (ars_TopClients st)"
  "ars_TotalRequests (count_tool a st) = ars_TotalRequests st"
  "ars_SuccessCount (count_tool a st) = ars_SuccessCount st"
  "ars_DeniedCount (count_tool a st) = ars_DeniedCount st"
  "ars_SuccessfulDenies (count_tool a st) = ars_SuccessfulDenies st"
  "ars_ErrorCount (count_tool a st) = ars_ErrorCount st"
  "ars_AuditOnlyDenials (count_tool a st) = ars_AuditOnlyDenials st"
  "ars_TimeoutFailures (count_tool a st) = ars_TimeoutFailures st"
  "ars_DeniedByPolicy (count_tool a st) = ars_DeniedByPolicy st"
  by (simp_all add: count_tool_def tool_names_def client_names_def Let_def split: option.split)

lemma count_audit_sel:
  "ars_TotalRequests (count_audit a st) = ars_TotalRequests st + (if True then 1 else 0)"
  "ars_SuccessCount (count_audit a st) = ars_SuccessCount st + (if ae_Action a = PolicyActionAllow then 1 else 0)"
  "ars_DeniedCount (count_audit a st) = ars_DeniedCount st + (if ae_Action a = PolicyActionDeny then 1 else 0)"
  "ars_SuccessfulDenies (count_audit a st) = ars_SuccessfulDenies st + (if ae_Action a = PolicyActionDeny then 1 else 0)"
  "ars_ErrorCount (count_audit a st) = ars_ErrorCount st + (if neither a then 1 else 0)"
  "ars_AuditOnlyDenials (count_audit a st) = ars_AuditOnlyDenials st + (if ae_ActionReason a = ActionReasonAuditMode then 1 else 0)"
  "ars_TimeoutFailures (count_audit a st) = ars_TimeoutFailures st + (if ae_ActionReason a = ActionReasonFailOpen then 1 else 0)"
  "ars_TopTools (count_audit a st) = bumps (tool_names a) (ars_TopTools st)"
  "ars_TopClients (count_audit a st) = bumps (client_names a) (ars_TopClients st)"
  "ars_DeniedByPolicy (count_audit a st) = bumps (entry_denials a) (ars_DeniedByPolicy st)"
  by (simp_all add: count_audit_def count_denials_def count_reason_def count_outcome_def neither_def
      entry_denials_def bump_denials_bumps)

lemma foldl_count_entry: "foldl (\<lambda>st e. count_entry e st) st es = foldl (\<lambda>st a. count_audit a st) st (audits es)"
  by (induction es arbitrary: st) (simp_all add: audits_def count_entry_def List.map_filter_def split: option.split)

text \<open>What each field of the statistics counts.\<close>

definition exact :: "AuditEntry list \<Rightarrow> AuditReportStatistics \<Rightarrow> bool" where
  "exact as st \<longleftrightarrow>
     ars_TotalRequests st = int (length as) \<and>
     ars_SuccessCount st = number (\<lambda>a. ae_Action a = PolicyActionAllow) as \<and>
     ars_DeniedCount st = number (\<lambda>a. ae_Action a = PolicyActionDeny) as \<and>
     ars_SuccessfulDenies st = ars_DeniedCount st \<and>
     ars_ErrorCount st = int (length as) - ars_SuccessCount st - ars_DeniedCount st \<and>
     ars_AuditOnlyDenials st = number (\<lambda>a. ae_ActionReason a = ActionReasonAuditMode) as \<and>
     ars_TimeoutFailures st = number (\<lambda>a. ae_ActionReason a = ActionReasonFailOpen) as"

definition counts :: "counters \<Rightarrow> string list \<Rightarrow> bool" where
  "counts m names \<longleftrightarrow> distinct (map fst m) \<and> fst ` set m = set names \<and>
     (\<forall>k. count_of m k = int (count_list names k)) \<and> sum_list (map snd m) = int (length names)"

lemma counts_bumps: "counts (bumps names []) names"
  by (simp add: counts_def distinct_bumps keys_bumps count_of_bumps sum_bumps)

lemma counts_length:
  assumes "counts m names"
  shows "length m = card (set names)"
  using assms distinct_card [of "map fst m"] by (simp add: counts_def)

lemma number_partition:
  "number (\<lambda>a. ae_Action a = PolicyActionAllow) as + number (\<lambda>a. ae_Action a = PolicyActionDeny) as + number neither as =
     int (length as)"
  by (induction as) (simp_all add: neither_def)

lemma statistics_spec:
  fixes es :: "'n AuditLogEntry list"
  defines "as \<equiv> audits es" and "st \<equiv> statistics es"
  shows "exact as st" "counts (ars_TopTools st) (concat (map tool_names as))"
    "counts (ars_TopClients st) (concat (map client_names as))"
    "counts (ars_DeniedByPolicy st) (concat (map entry_denials as))"
    "ars_UniqueTools st = int (length (ars_TopTools st))"
    "ars_UniqueClients st = int (length (ars_TopClients st))"
proof -
  note sel = foldl_number [of _ "\<lambda>st a. count_audit a st", OF count_audit_sel(1)]
    foldl_number [of _ "\<lambda>st a. count_audit a st", OF count_audit_sel(2)]
    foldl_number [of _ "\<lambda>st a. count_audit a st", OF count_audit_sel(3)]
    foldl_number [of _ "\<lambda>st a. count_audit a st", OF count_audit_sel(4)]
    foldl_number [of _ "\<lambda>st a. count_audit a st", OF count_audit_sel(5)]
    foldl_number [of _ "\<lambda>st a. count_audit a st", OF count_audit_sel(6)]
    foldl_number [of _ "\<lambda>st a. count_audit a st", OF count_audit_sel(7)]
    foldl_bumps [of _ "\<lambda>st a. count_audit a st", OF count_audit_sel(8)]
    foldl_bumps [of _ "\<lambda>st a. count_audit a st", OF count_audit_sel(9)]
    foldl_bumps [of _ "\<lambda>st a. count_audit a st", OF count_audit_sel(10)]
  note st = st_def statistics_def Let_def foldl_count_entry as_def [symmetric]
  show "exact as st"
    using number_partition [of as] by (simp add: exact_def st sel no_statistics_def number_def)
  show "counts (ars_TopTools st) (concat (map tool_names as))" "counts (ars_TopClients st) (concat (map client_names as))"
    "counts (ars_DeniedByPolicy st) (concat (map entry_denials as))"
    by (simp_all add: st sel no_statistics_def counts_bumps)
  show "ars_UniqueTools st = int (length (ars_TopTools st))" "ars_UniqueClients st = int (length (ars_TopClients st))"
    by (simp_all add: st)
qed

lemma read_entries_match:
  assumes "readAuditLogEntries env fs path now limit span flt = Inr (es, n)"
  shows "list_all (\<lambda>e. matchesFilter e flt) es"
proof -
  have recent: "list_all (\<lambda>e. matchesFilter e flt) (recent env c flt lines)" for c lines
    by (auto simp: recent_def list_all_iff)
  show ?thesis
  proof (cases "fs path")
    case (Present logged read_err)
    let ?c = "if span > 0 then Some (now - span) else None"
    show ?thesis
    proof (cases "logged = ''''")
      case False
      with assms Present have "read_chunks env limit ?c flt read_err logged (length logged) [] ([], 0) = Inr (es, n)"
        by (auto simp: readAuditLogEntries_def split: if_splits sum.splits)
      with read_whole [where env = env and limit = limit and c = ?c and flt = flt and read_err = read_err and logged = logged] recent [of ?c "lines_of logged"] show ?thesis
        by (auto simp: read_on_def list_all_iff dest: in_set_takeD)
    qed (use assms Present in \<open>auto simp: readAuditLogEntries_def split: if_splits\<close>)
  qed (use assms in \<open>auto simp: readAuditLogEntries_def split: if_splits\<close>)
qed

lemma matched_audits:
  "list_all (\<lambda>e. matchesFilter e flt) es \<Longrightarrow>
     map Some (audits es) = map ale_Audit es \<and> list_all (\<lambda>a. length (tool_names a) = 1) (audits es)"
  by (induction es) (auto simp: audits_def List.map_filter_def matchesFilter_def tool_names_def
      split: option.splits if_splits)

lemma length_singles: "list_all (\<lambda>a. length (f a) = 1) as \<Longrightarrow> length (concat (map f as)) = length as"
  by (induction as) auto

text \<open>
  C32. The statistics of the audit report are exact. Every entry that was read is about a tool call and
  is counted once: as a success, as a denial, or as an error; the calls by tool add up to the entries,
  and there is one counter for each tool name, each client and each rule that denied, with the number
  of its entries; unique tools and clients are numbers of distinct names.
\<close>

theorem report_statistics_exact:
  "case getEntriesForReport env fs path limit now span of
     Inl e \<Rightarrow> True
   | Inr (es, st) \<Rightarrow>
       map Some (audits es) = map ale_Audit es \<and> exact (audits es) st \<and>
       counts (ars_TopTools st) (concat (map tool_names (audits es))) \<and>
       sum_list (map snd (ars_TopTools st)) = int (length es) \<and>
       ars_UniqueTools st = int (card (set (concat (map tool_names (audits es))))) \<and>
       counts (ars_TopClients st) (concat (map client_names (audits es))) \<and>
       ars_UniqueClients st = int (card (set (concat (map client_names (audits es))))) \<and>
       counts (ars_DeniedByPolicy st) (concat (map entry_denials (audits es)))"
proof (cases "getEntriesForReport env fs path limit now span")
  case (Inr r)
  obtain es st where r: "r = (es, st)" by (cases r)
  from Inr r obtain d n where read: "readAuditLogEntries env fs path now limit d no_filter = Inr (es, n)"
    and st: "st = statistics es"
    by (auto simp: getEntriesForReport_def split: sum.splits)
  note m = matched_audits [OF read_entries_match [OF read]]
  then have len: "length (audits es) = length es" using arg_cong [of _ _ length] length_map by metis
  note spec = statistics_spec [of es]
  have "sum_list (map snd (ars_TopTools st)) = int (length es)"
    using spec(2) length_singles [of tool_names "audits es"] m len st by (simp add: counts_def)
  with Inr r m spec st counts_length [OF spec(2)] counts_length [OF spec(3)] show ?thesis by simp
qed simp

section \<open>Quirks\<close>

text \<open>
  A call whose response was redacted is neither a success nor a denial: the report counts it as an error.
\<close>

lemma redacted_counts_as_error:
  "ae_Action a = ''redact'' \<Longrightarrow> ars_ErrorCount (count_audit a st) = ars_ErrorCount st + 1"
  by (simp add: count_audit_sel neither_def)

end
