(* ===== verification/NativeTools.thy ===== *)
theory NativeTools
  imports Discovery AuditReport "HOL-Library.List_Lexorder" "HOL-Library.Char_ord"
begin

text \<open>
  The tools of the gateway itself (\<^verbatim>\<open>native_tools.go\<close>, \<^verbatim>\<open>list_sessions_tool.go\<close>,
  \<^verbatim>\<open>list_servers_tool.go\<close>, \<^verbatim>\<open>discover_tools_tool.go\<close>): which are offered, the check of the session, and
  the handlers; those of the audit log are in \<^verbatim>\<open>AuditReader\<close> and \<^verbatim>\<open>AuditReport\<close>.
\<close>

section \<open>Listing sessions\<close>

record ListSessionsResponse =
  lsr_Sessions :: "SessionInfo list"
  lsr_ConnectedCount :: int
  lsr_DisconnectedCount :: int
  lsr_TotalSessions :: int

definition list_sessions_response :: "bool \<Rightarrow> SessionInfo list \<Rightarrow> ListSessionsResponse" where
  "list_sessions_response includeDisconnected allSessions =
     (let connected = filter sinf_Connected allSessions;
          disconnected = filter (\<lambda>s. \<not> sinf_Connected s) allSessions;
          sessions = (if includeDisconnected then allSessions else connected)
      in \<lparr> lsr_Sessions = sort_key sinf_SessionID sessions, lsr_ConnectedCount = int (length connected),
           lsr_DisconnectedCount = int (length disconnected), lsr_TotalSessions = int (length allSessions) \<rparr>)"

text \<open>Handlers work on the state of the gateway; a provider that was not set is \<open>None\<close> or \<open>False\<close>.\<close>

definition handleListSessions ::
  "bool \<Rightarrow> (ListSessionsResponse \<Rightarrow> go_error + string) \<Rightarrow> (nat \<Rightarrow> int) \<Rightarrow> (string \<times> dyn) list option \<Rightarrow> 'c mcp_server \<Rightarrow>
     CallToolResult \<times> 'c mcp_server" where
  "handleListSessions sessionProvider Marshal T arguments sv =
     (if \<not> sessionProvider then (NewToolResultError ''Internal error: session provider not available'', sv)
      else case on_sessions (GetActiveSessions T) sv of
        (allSessions, sv1) \<Rightarrow>
          (case Marshal (list_sessions_response
                 (bool_arg (case arguments of None \<Rightarrow> [] | Some a \<Rightarrow> a) ''include_disconnected'' False) allSessions) of
             Inl err \<Rightarrow> (NewToolResultError ''Failed to format response'', sv1)
           | Inr json \<Rightarrow> (NewToolResultText json, sv1)))"

section \<open>Listing servers\<close>

record DownstreamServerInfo =
  dsi_Name :: string
  dsi_Type :: string
  dsi_URL :: string
  dsi_Command :: string
  dsi_ToolsDiscovered :: bool
  dsi_ToolsCount :: int
  dsi_Tools :: "string list"

record ListDownstreamServersResponse =
  lds_RetrievedAt :: string
  lds_Servers :: "DownstreamServerInfo list"
  lds_TotalServers :: int
  lds_TotalTools :: int
  lds_Message :: string

text \<open>The tools of each server; a server without an entry has none.\<close>

type_synonym tools_by_server = "string \<Rightarrow> string list"

definition add_registered :: "string \<Rightarrow> tools_by_server \<Rightarrow> tools_by_server" where
  "add_registered toolName m =
     (if IsNativeTool toolName then m
      else case ParsePrefixedName toolName of
        Inl err \<Rightarrow> m
      | Inr (serverName, originalToolName) \<Rightarrow> m(serverName := m serverName @ [originalToolName]))"

definition add_session_tools :: "SessionClientTools \<Rightarrow> tools_by_server \<Rightarrow> tools_by_server" where
  "add_session_tools clientTools m =
     (let name = sct_ClientName clientTools; existing = m name
      in m(name := existing @ filter (\<lambda>t. t \<notin> set existing) (sct_Tools clientTools)))"

definition server_url :: "ClientConfig \<Rightarrow> string" where
  "server_url cfg =
     (if cc_Type cfg = ''http'' \<or> cc_Type cfg = ''sse''
      then if cc_DownstreamURL cfg = '''' then cc_URL cfg else cc_DownstreamURL cfg
      else '''')"

definition server_command :: "ClientConfig \<Rightarrow> string" where
  "server_command cfg =
     (if cc_Type cfg = ''stdio''
      then if length (cc_CommandArgs cfg) > 0 \<or> length (cc_Args cfg) > 0
           then cc_Command cfg @ '' '' @
             join_with '' '' (if length (cc_CommandArgs cfg) = 0 then cc_Args cfg else cc_CommandArgs cfg)
           else cc_Command cfg
      else '''')"

definition server_info :: "bool \<Rightarrow> tools_by_server \<Rightarrow> string \<times> ClientConfig \<Rightarrow> DownstreamServerInfo" where
  "server_info includeTools m = (\<lambda>(name, cfg).
     \<lparr> dsi_Name = name, dsi_Type = cc_Type cfg, dsi_URL = server_url cfg, dsi_Command = server_command cfg,
       dsi_ToolsDiscovered = (length (m name) > 0), dsi_ToolsCount = int (length (m name)),
       dsi_Tools = (if includeTools \<and> length (m name) > 0 then sort (m name) else []) \<rparr>)"

definition list_servers_response ::
  "string \<Rightarrow> bool \<Rightarrow> client_configs \<Rightarrow> string list \<Rightarrow> SessionClientTools list \<Rightarrow> ListDownstreamServersResponse" where
  "list_servers_response now includeTools configs registeredTools sessionTools =
     (let m = fold add_session_tools sessionTools (fold add_registered registeredTools (\<lambda>name. []));
          servers = map (server_info includeTools m) (sort_key fst configs)
      in \<lparr> lds_RetrievedAt = now, lds_Servers = servers, lds_TotalServers = int (length servers),
           lds_TotalTools = sum_list (map dsi_ToolsCount servers),
           lds_Message = (if length servers = 0
             then ''No downstream MCP servers are configured. Add servers to the '' @ squote ''downstream_mcp_servers'' @
               '' section of your configuration file.''
             else '''') \<rparr>)"

definition handleListDownstreamServers ::
  "client_configs option \<Rightarrow> bool \<Rightarrow> bool \<Rightarrow> (ListDownstreamServersResponse \<Rightarrow> go_error + string) \<Rightarrow> string \<Rightarrow> (nat \<Rightarrow> int) \<Rightarrow>
     ('a) call_context_scheme \<Rightarrow> (string \<times> dyn) list option \<Rightarrow> 'c mcp_server \<Rightarrow> CallToolResult \<times> 'c mcp_server" where
  "handleListDownstreamServers clientConfigProvider toolsProvider sessionProvider Marshal now T ctx arguments sv =
     (case clientConfigProvider of
        None \<Rightarrow> (NewToolResultError ''Internal error: client config provider not available'', sv)
      | Some configs \<Rightarrow>
          (case (case ctx_SessionID ctx of
                   Some sessionID \<Rightarrow> if sessionProvider then on_sessions (GetSessionClientTools (T 0) sessionID) sv else ([], sv)
                 | None \<Rightarrow> ([], sv)) of
             (sessionTools, sv1) \<Rightarrow>
               (case Marshal (list_servers_response now
                      (bool_arg (case arguments of None \<Rightarrow> [] | Some a \<Rightarrow> a) ''include_tools'' False) configs
                      (if toolsProvider then sv_tools sv else []) sessionTools) of
                  Inl err \<Rightarrow> (NewToolResultError ''Failed to format response'', sv1)
                | Inr json \<Rightarrow> (NewToolResultText json, sv1))))"

section \<open>Discovering tools\<close>

definition handleDiscoverTools ::
  "(string \<Rightarrow> string \<Rightarrow> 'c mcp_server \<Rightarrow> (go_error + DiscoveryResult) \<times> 'c mcp_server) option \<Rightarrow>
     (DiscoveryResult \<Rightarrow> go_error + string) \<Rightarrow> ('a) call_context_scheme \<Rightarrow> (string \<times> dyn) list option \<Rightarrow> 'c mcp_server \<Rightarrow>
     CallToolResult \<times> 'c mcp_server" where
  "handleDiscoverTools discoveryProvider Marshal ctx arguments sv =
     (let clientName = string_arg (case arguments of None \<Rightarrow> [] | Some a \<Rightarrow> a) ''client'' '''' in
      case discoveryProvider of
        None \<Rightarrow> (NewToolResultError ''Internal error: discovery provider not available'', sv)
      | Some discover \<Rightarrow> (case ctx_SessionID ctx of
          None \<Rightarrow> (NewToolResultError (''No active session. This tool requires an active MCP session to '' @ ''discover tools.''), sv)
        | Some sessionID \<Rightarrow> (case discover sessionID clientName sv of
            (Inl err, sv1) \<Rightarrow> (NewToolResultError (''Failed to discover tools: '' @ error_text err), sv1)
          | (Inr result, sv1) \<Rightarrow> (case Marshal result of
              Inl err \<Rightarrow> (NewToolResultError ''Failed to format response'', sv1)
            | Inr json \<Rightarrow> (NewToolResultText json, sv1)))))"

section \<open>The handler\<close>

record native_config =
  nc_AuditLogEnabled :: bool
  nc_AuditReportEnabled :: bool
  nc_ListServersEnabled :: bool
  nc_ListSessionsEnabled :: bool

definition GetTools :: "native_config \<Rightarrow> string list" where
  "GetTools cfg =
     (if nc_AuditLogEnabled cfg then [''maybedont__get_audit_log''] else []) @
     (if nc_AuditReportEnabled cfg then [''maybedont__generate_audit_report''] else []) @
     (if nc_ListServersEnabled cfg then [''maybedont__list_downstream_servers''] else []) @
     (if nc_ListSessionsEnabled cfg then [''maybedont__list_sessions''] else []) @
     [''maybedont__discover_tools'']"

definition validateSession :: "bool \<Rightarrow> ('a) call_context_scheme \<Rightarrow> string \<Rightarrow> 'c SessionManager \<Rightarrow> session_error option" where
  "validateSession sessionProvider ctx toolName sm =
     (case ctx_SessionID ctx of
        None \<Rightarrow> Some (SessionExpired '''' (''no session established for native tool '' @ squote toolName))
      | Some sessionID \<Rightarrow>
          if \<not> sessionProvider then None
          else if \<not> HasSession sessionID sm
          then Some (SessionExpired sessionID (''session not found for native tool '' @ squote toolName))
          else None)"

text \<open>What the handler calls, by tool; the arguments come with the request.\<close>

type_synonym 'c native_handler = "'c mcp_server \<Rightarrow> CallToolResult \<times> 'c mcp_server"

record 'c native_handlers =
  nh_GetAuditLog :: "'c native_handler"
  nh_GenerateAuditReport :: "'c native_handler"
  nh_ListDownstreamServers :: "'c native_handler"
  nh_ListSessions :: "'c native_handler"
  nh_DiscoverTools :: "'c native_handler"

definition native_HandleToolCall ::
  "'c native_handlers \<Rightarrow> bool \<Rightarrow> ('a) call_context_scheme \<Rightarrow> string \<Rightarrow> 'c mcp_server \<Rightarrow>
     (gateway_error + CallToolResult) \<times> 'c mcp_server" where
  "native_HandleToolCall h sessionProvider ctx name sv =
     (case (if name \<noteq> ''maybedont__discover_tools''
            then validateSession sessionProvider ctx name (cm_sessions (sv_manager sv)) else None) of
        Some err \<Rightarrow> (Inl (SessionExpiredError err), sv)
      | None \<Rightarrow>
          if name = ''maybedont__get_audit_log'' then map_prod Inr id (nh_GetAuditLog h sv)
          else if name = ''maybedont__generate_audit_report'' then map_prod Inr id (nh_GenerateAuditReport h sv)
          else if name = ''maybedont__list_downstream_servers'' then map_prod Inr id (nh_ListDownstreamServers h sv)
          else if name = ''maybedont__list_sessions'' then map_prod Inr id (nh_ListSessions h sv)
          else if name = ''maybedont__discover_tools'' then map_prod Inr id (nh_DiscoverTools h sv)
          else (Inl (NativeToolError (PlainError (''unknown native tool: '' @ name))), sv))"

section \<open>The lists are exact\<close>

text \<open>Every session is listed once, in the order of the identifiers, with the counts of the others.\<close>

lemma list_sessions_exact:
  fixes inclDisc ss
  defines "r \<equiv> list_sessions_response inclDisc ss"
  shows "mset (lsr_Sessions r) = mset (if inclDisc then ss else filter sinf_Connected ss)"
    "sorted (map sinf_SessionID (lsr_Sessions r))"
    "lsr_ConnectedCount r + lsr_DisconnectedCount r = lsr_TotalSessions r"
    "lsr_TotalSessions r = int (length ss)"
proof -
  show "mset (lsr_Sessions r) = mset (if inclDisc then ss else filter sinf_Connected ss)"
    "sorted (map sinf_SessionID (lsr_Sessions r))" "lsr_TotalSessions r = int (length ss)"
    by (simp_all add: r_def list_sessions_response_def Let_def)
  have "length (filter sinf_Connected ss) + length (filter (\<lambda>s. \<not> sinf_Connected s) ss) = length ss"
    by (rule sum_length_filter_compl)
  then show "lsr_ConnectedCount r + lsr_DisconnectedCount r = lsr_TotalSessions r"
    by (simp add: r_def list_sessions_response_def Let_def flip: of_nat_add)
qed

lemma set_registered:
  "t \<in> set (fold add_registered names m server) \<longleftrightarrow>
     t \<in> set (m server) \<or> (\<exists>n \<in> set names. \<not> IsNativeTool n \<and> ParsePrefixedName n = Inr (server, t))"
  by (induction names arbitrary: m) (auto simp: add_registered_def split: sum.split prod.split)

lemma set_session_tools:
  "t \<in> set (fold add_session_tools cts m server) \<longleftrightarrow>
     t \<in> set (m server) \<or> (\<exists>ct \<in> set cts. sct_ClientName ct = server \<and> t \<in> set (sct_Tools ct))"
  by (induction cts arbitrary: m) (auto simp: add_session_tools_def Let_def)

text \<open>Each configured server is listed once, in the order of the names, with the tools that are registered or in the session.\<close>

lemma list_servers_exact:
  fixes now configs registered sessionTools
  defines "r \<equiv> list_servers_response now True configs registered sessionTools"
  shows "map dsi_Name (lds_Servers r) = sort (map fst configs)"
    "list_all (\<lambda>s. dsi_ToolsCount s = int (length (dsi_Tools s)) \<and>
       (\<forall>t. t \<in> set (dsi_Tools s) \<longleftrightarrow>
         (\<exists>n \<in> set registered. \<not> IsNativeTool n \<and> ParsePrefixedName n = Inr (dsi_Name s, t)) \<or>
         (\<exists>ct \<in> set sessionTools. sct_ClientName ct = dsi_Name s \<and> t \<in> set (sct_Tools ct)))) (lds_Servers r)"
    "lds_TotalTools r = sum_list (map (int \<circ> length \<circ> dsi_Tools) (lds_Servers r))"
proof -
  let ?m = "fold add_session_tools sessionTools (fold add_registered registered (\<lambda>name. []))"
  have s: "lds_Servers r = map (server_info True ?m) (sort_key fst configs)"
    by (simp add: r_def list_servers_response_def Let_def)
  have n: "dsi_Name \<circ> server_info True ?m = fst" by (auto simp: server_info_def)
  have "map fst (sort_key fst configs) = sort (map fst configs)"
    by (rule properties_for_sort [symmetric]) simp_all
  with s n show "map dsi_Name (lds_Servers r) = sort (map fst configs)" by simp
  have info: "dsi_Tools (server_info True ?m (name, cfg)) = sort (?m name)" for name cfg
    by (cases "?m name") (simp_all add: server_info_def)
  have cnt: "dsi_ToolsCount (server_info True ?m x) = int (length (dsi_Tools (server_info True ?m x)))" for x
    by (cases x) (simp add: info, simp add: server_info_def)
  show "list_all (\<lambda>s. dsi_ToolsCount s = int (length (dsi_Tools s)) \<and>
       (\<forall>t. t \<in> set (dsi_Tools s) \<longleftrightarrow>
         (\<exists>n \<in> set registered. \<not> IsNativeTool n \<and> ParsePrefixedName n = Inr (dsi_Name s, t)) \<or>
         (\<exists>ct \<in> set sessionTools. sct_ClientName ct = dsi_Name s \<and> t \<in> set (sct_Tools ct)))) (lds_Servers r)"
    unfolding s list_all_iff
    by (auto simp: cnt info set_session_tools set_registered) (auto simp: server_info_def)
  show "lds_TotalTools r = sum_list (map (int \<circ> length \<circ> dsi_Tools) (lds_Servers r))"
    unfolding s by (simp add: r_def list_servers_response_def Let_def cnt comp_def)
qed

text \<open>
  Every native tool but the one that discovers tools needs a session the gateway knows; without one it
  does nothing.
\<close>

lemma native_tools_need_session:
  assumes "name \<noteq> ''maybedont__discover_tools''"
    and "case ctx_SessionID ctx of None \<Rightarrow> True | Some sid \<Rightarrow> \<not> HasSession sid (cm_sessions (sv_manager sv))"
  shows "\<exists>e. native_HandleToolCall h True ctx name sv = (Inl (SessionExpiredError e), sv)"
  using assms by (auto simp: native_HandleToolCall_def validateSession_def split: option.splits)

end
