(* ===== verification/Server.thy ===== *)
theory Server
  imports NativeTools HttpHandlers TrustedProxy CallerAuth
begin

text \<open>
  The MCP server around the gateway (\<^verbatim>\<open>server.go\<close>): the context of a request, the tools it offers at
  the start, and the form in which a denial reaches the agent.
\<close>

section \<open>The context of a request\<close>

record server_context = request_context +
  ctx_Caller :: "string option"

text \<open>\<open>session\<close> is the identifier of the session the MCP library has attached to the request.\<close>

definition extractAuthFromRequest ::
  "TrustedProxyChecker \<Rightarrow> CallerAuthConfig option \<Rightarrow> string option \<Rightarrow> 'req http_request \<Rightarrow> server_context" where
  "extractAuthFromRequest checker auth session r =
     (let requestID = (if hr_Header r ''X-Request-ID'' \<noteq> '''' then hr_Header r ''X-Request-ID''
            else case hr_newID r of Inl err \<Rightarrow> ''unknown'' | Inr i \<Rightarrow> i)
      in \<lparr> ctx_SessionID = session,
           ctx_ClientIP = Some (ExtractClientIP checker (hr_Header r ''X-Forwarded-For'') (hr_Header r ''X-Real-IP'') (hr_RemoteAddr r)),
           ctx_UserAgent = Some (hr_Header r ''User-Agent''), ctx_RequestID = Some requestID,
           ctx_RawHeaders = Some (hr_Header r), ctx_Caller = extractCallerFromRequest auth (hr_Header r) \<rparr>)"

text \<open>The handlers behind the MCP endpoint run with that context, and only for a caller that is let in.\<close>

definition mcpContextMiddleware ::
  "TrustedProxyChecker \<Rightarrow> CallerAuthConfig option \<Rightarrow> string option \<Rightarrow> (server_context \<Rightarrow> 'a) \<Rightarrow> 'req http_request \<Rightarrow> 'a" where
  "mcpContextMiddleware checker auth session nxt r = nxt (extractAuthFromRequest checker auth session r)"

definition serve_mcp ::
  "TrustedProxyChecker \<Rightarrow> CallerAuthConfig option \<Rightarrow> string option \<Rightarrow> (server_context \<Rightarrow> 'a) \<Rightarrow> 'req http_request \<Rightarrow> 'a auth_outcome" where
  "serve_mcp checker auth session nxt r =
     AuthMiddleware auth (\<lambda>header. mcpContextMiddleware checker auth session nxt r) (hr_Header r)"

section \<open>Results\<close>

definition handleToolCallWithErrorHandling :: "gateway_error + CallToolResult \<Rightarrow> gateway_error + CallToolResult" where
  "handleToolCallWithErrorHandling res =
     (case res of
        Inl (PolicyDeniedError m d) \<Rightarrow>
          Inr ((NewToolResultError m)\<lparr> ResultMeta := Some [(''error_code'', DInt (- 32600)), (''error_data'', DMap d)] \<rparr>)
      | Inl e \<Rightarrow> Inl e
      | Inr r \<Rightarrow> Inr r)"

section \<open>The start\<close>

record server_options =
  so_Tools :: bool
  so_Prompts :: bool
  so_Resources :: bool
  so_registered :: registered

definition any_names :: "(string \<times> string list) list \<Rightarrow> bool" where
  "any_names m = list_ex (\<lambda>(client, names). length names > 0) m"

definition initMCPServer ::
  "'c mcp_env \<Rightarrow> (string \<Rightarrow> bool) \<Rightarrow> string list \<Rightarrow> client_configs \<Rightarrow> 'c ClientManager \<Rightarrow> server_options \<times> 'c mcp_server" where
  "initMCPServer env template nativeTools configs m =
     (case DiscoverAllCapabilities env configs m of
        (discovered, m1) \<Rightarrow>
          let sv = fold AddTool nativeTools \<lparr> sv_manager = m1, sv_tools = [], sv_session_tools = [] \<rparr>
          in (case registerDiscoveredCapabilities template discovered sv of
                (reg, sv1) \<Rightarrow>
                  (\<lparr> so_Tools = (length nativeTools > 0 \<or> any_names (dcap_Tools discovered)),
                     so_Prompts = any_names (dcap_Prompts discovered),
                     so_Resources = any_names (dcap_Resources discovered), so_registered = reg \<rparr>, sv1)))"

section \<open>Properties\<close>

text \<open>A denied call reaches the agent as a result that is marked as an error; other errors stay errors.\<close>

lemma denial_is_error_result:
  "handleToolCallWithErrorHandling res =
     (case res of
        Inl (PolicyDeniedError m d) \<Rightarrow> Inr \<lparr> IsError = True, Content = [TextContent m],
          ResultMeta = Some [(''error_code'', DInt (- 32600)), (''error_data'', DMap d)] \<rparr>
      | _ \<Rightarrow> res)"
  by (auto simp: handleToolCallWithErrorHandling_def NewToolResultError_def split: sum.split gateway_error.split)

lemma AddTool_set [simp]: "set (sv_tools (AddTool t sv)) = insert t (set (sv_tools sv))"
  by (auto simp: AddTool_def)

lemma register_tools_set [simp]:
  "set (sv_tools (register_tools name ts sv)) = PrefixName name ` set ts \<union> set (sv_tools sv)"
  unfolding register_tools_def by (induction ts arbitrary: sv) auto

lemma fold_AddTool_set: "set (sv_tools (fold AddTool ts sv)) = set ts \<union> set (sv_tools sv)"
  by (induction ts arbitrary: sv) auto

lemma fold_AddTool_manager [simp]: "sv_manager (fold AddTool ts sv) = sv_manager sv"
  by (induction ts arbitrary: sv) (simp_all add: AddTool_def)

text \<open>At the start the server offers the native tools and those found by probing, under their prefixes.\<close>

lemma offered_at_start:
  assumes "DiscoverAllCapabilities env configs m = (d, m1)"
  shows "set (sv_tools (snd (initMCPServer env template nativeTools configs m))) = set nativeTools \<union> set (prefixed_all (dcap_Tools d))"
    "sv_manager (snd (initMCPServer env template nativeTools configs m)) = m1"
proof -
  have f: "set (sv_tools (fold (\<lambda>(c, ts). register_tools c ts) ds sv)) = set (prefixed_all ds) \<union> set (sv_tools sv)"
    "sv_manager (fold (\<lambda>(c, ts). register_tools c ts) ds sv) = sv_manager sv"
    for ds and sv :: "'a mcp_server"
    by (induction ds arbitrary: sv) (auto simp: prefixed_all_def)
  show "set (sv_tools (snd (initMCPServer env template nativeTools configs m))) = set nativeTools \<union> set (prefixed_all (dcap_Tools d))"
    "sv_manager (snd (initMCPServer env template nativeTools configs m)) = m1"
    using assms by (auto simp: initMCPServer_def registerDiscoveredCapabilities_def Let_def f fold_AddTool_set)
qed

text \<open>The context of a request has the headers of that request, so its credentials are the caller's own.\<close>

lemma served_credentials:
  "ctx_RawHeaders (extractAuthFromRequest checker auth session r) = Some (hr_Header r)"
  by (simp add: extractAuthFromRequest_def Let_def)

end
