(* ===== verification/SuiteTypes.thy ===== *)
theory SuiteTypes
  imports DownstreamConfig Complex_Main
begin

text \<open>
  The data of the policy test suite (\<^verbatim>\<open>internal/testsuite/types.go\<close> and the result types of
  \<^verbatim>\<open>executor.go\<close>): the options of a run, the suite file, test cases and their results. A map read from
  YAML is an association list with distinct keys; a value of type \<^verbatim>\<open>any\<close> is a dynamic value; a
  \<^verbatim>\<open>float64\<close>, of which the suite only uses rates between 0 and 1 and confidences, is a rational number.
\<close>

section \<open>The suite file\<close>

record ProviderConfig =
  prv_APIKey :: string
  prv_Endpoint :: string

record PoliciesConfig =
  spc_CELRequestRules :: string
  spc_AIRequestRules :: string
  spc_CELResponseRules :: string
  spc_AIResponseRules :: string

record AcceptanceConfig =
  acc_MinMatchRate :: rat
  acc_StrictPolicyMatch :: "bool option"
  acc_StabilityThreshold :: "rat option"

record ExecutionConfig =
  exe_TimeoutMs :: int
  exe_MaxTestDurationMs :: int
  exe_Retries :: int
  exe_RetryDelayMs :: int
  exe_RateLimits :: "(string \<times> int) list"
  exe_DelayBetweenRequestsMs :: int
  exe_RateLimitBufferMs :: int
  exe_HistoryDepth :: int

record ModelConfig =
  mo_Provider :: string
  mo_Endpoint :: string
  mo_Model :: string
  mo_APIKey :: string
  mo_Parameters :: "(string \<times> dyn) list"
  mo_QueryParams :: "(string \<times> dyn) list"
  mo_Headers :: "(string \<times> dyn) list"
  mo_Enabled :: "bool option"

record AIEngineConfig =
  sai_Enabled :: bool
  sai_ModelMatrix :: "ModelConfig list"

record CELEngineConfig =
  scel_Enabled :: bool

record EnginesConfig =
  eng_CEL :: CELEngineConfig
  eng_AI :: AIEngineConfig

record Suite =
  su_Version :: string
  su_BundleID :: string
  su_Description :: string
  su_Providers :: "(string \<times> ProviderConfig) list"
  su_Policies :: PoliciesConfig
  su_Acceptance :: AcceptanceConfig
  su_Execution :: ExecutionConfig
  su_Engines :: EnginesConfig

definition ModelConfig_IsEnabled :: "ModelConfig \<Rightarrow> bool" where
  "ModelConfig_IsEnabled m = (case mo_Enabled m of None \<Rightarrow> True | Some b \<Rightarrow> b)"

definition IsStrictPolicyMatch :: "AcceptanceConfig \<Rightarrow> bool" where
  "IsStrictPolicyMatch a = (case acc_StrictPolicyMatch a of None \<Rightarrow> True | Some b \<Rightarrow> b)"

definition GetStabilityThreshold :: "AcceptanceConfig \<Rightarrow> rat" where
  "GetStabilityThreshold a = (case acc_StabilityThreshold a of None \<Rightarrow> 9 / 10 | Some t \<Rightarrow> t)"

definition ResolveAPIKey :: "Suite \<Rightarrow> ModelConfig \<Rightarrow> string" where
  "ResolveAPIKey s m =
     (if mo_APIKey m \<noteq> '''' then mo_APIKey m
      else case map_of (su_Providers s) (mo_Provider m) of
        Some pc \<Rightarrow> prv_APIKey pc
      | None \<Rightarrow> '''')"

definition ResolveEndpoint :: "Suite \<Rightarrow> ModelConfig \<Rightarrow> string" where
  "ResolveEndpoint s m =
     (if mo_Endpoint m \<noteq> '''' then mo_Endpoint m
      else case map_of (su_Providers s) (mo_Provider m) of
        Some pc \<Rightarrow> prv_Endpoint pc
      | None \<Rightarrow> '''')"

section \<open>Test cases\<close>

record ContentItem =
  ci_Type :: string
  ci_Text :: string

record PolicyExpectation =
  px_PolicyName :: string
  px_Decision :: string

record ExpectationsConfig =
  ex_Decision :: string
  ex_Policies :: "PolicyExpectation list"
  ex_RedactedContent :: "ContentItem list"

record RequestConfig =
  trq_ToolName :: string
  trq_Arguments :: dyn

record ResponseConfig =
  trs_Content :: "ContentItem list"
  trs_IsError :: bool

record TestCase =
  tc_CaseID :: string
  tc_Title :: string
  tc_Tags :: "string list"
  tc_Notes :: "string list"
  tc_Phase :: string
  tc_Engine :: string
  tc_Request :: RequestConfig
  tc_Response :: "ResponseConfig option"
  tc_Expectations :: ExpectationsConfig

section \<open>Options and results of a run\<close>

record RunnerOptions =
  opt_SuiteDir :: string
  opt_Engine :: string
  opt_Model :: string
  opt_RunMatrix :: bool
  opt_OutputFormat :: string
  opt_OutputFile :: string
  opt_Quiet :: bool
  opt_Tags :: string
  opt_ExcludeTags :: string
  opt_CasePattern :: string
  opt_ValidateOnly :: bool
  opt_IncludeDisabled :: bool
  opt_TimeoutMs :: int
  opt_RequestsPerMinute :: int
  opt_MaxTests :: int
  opt_Wait :: bool
  opt_StateFile :: string
  opt_Force :: bool
  opt_RetryFailed :: bool
  opt_SummaryOnly :: bool
  opt_HistoryDepth :: int
  opt_ProductVersion :: string

record RunResult =
  run_ThresholdsMet :: bool
  run_TotalCases :: int
  run_Passed :: int
  run_Failed :: int
  run_Errored :: int
  run_Skipped :: int
  run_CachedCount :: int
  run_RateLimited :: int
  run_Remaining :: int
  run_ExtraPolicyOnly :: int
  run_MatchRate :: rat
  run_MoreTestsRemain :: bool

definition no_run_result :: RunResult where
  "no_run_result = \<lparr> run_ThresholdsMet = False, run_TotalCases = 0, run_Passed = 0, run_Failed = 0,
     run_Errored = 0, run_Skipped = 0, run_CachedCount = 0, run_RateLimited = 0, run_Remaining = 0,
     run_ExtraPolicyOnly = 0, run_MatchRate = 0, run_MoreTestsRemain = False \<rparr>"

record ExpectedResult =
  er_Decision :: string
  er_Policies :: "PolicyExpectation list"
  er_RedactedContent :: string

record PolicyResult =
  plr_PolicyName :: string
  plr_Decision :: string
  plr_ElapsedMs :: int
  plr_Reasoning :: string

record ActualResult =
  act_Decision :: string
  act_Confidence :: rat
  act_Reasoning :: string
  act_PoliciesExecuted :: "PolicyResult list"
  act_RedactedContent :: string

definition no_actual :: ActualResult where
  "no_actual = \<lparr> act_Decision = '''', act_Confidence = 0, act_Reasoning = '''', act_PoliciesExecuted = [],
     act_RedactedContent = '''' \<rparr>"

record TestError =
  te_Type :: string
  te_Message :: string
  te_Details :: string

record TestResult =
  tr_CaseID :: string
  tr_Title :: string
  tr_Phase :: string
  tr_Engine :: string
  tr_Model :: string
  tr_Status :: string
  tr_ElapsedMs :: int
  tr_TestNumber :: int
  tr_TestTotal :: int
  tr_Expected :: ExpectedResult
  tr_Actual :: ActualResult
  tr_Failures :: "string list"
  tr_Warnings :: "string list"
  tr_ExtraPolicyOnly :: bool
  tr_Error :: "TestError option"
  tr_PassRate :: rat
  tr_PassRateRuns :: int
  tr_PassRateSinceChange :: rat
  tr_PassRateSinceChangeRuns :: int

definition no_expected :: ExpectedResult where
  "no_expected = \<lparr> er_Decision = '''', er_Policies = [], er_RedactedContent = '''' \<rparr>"

definition no_test_result :: TestResult where
  "no_test_result = \<lparr> tr_CaseID = '''', tr_Title = '''', tr_Phase = '''', tr_Engine = '''', tr_Model = '''',
     tr_Status = '''', tr_ElapsedMs = 0, tr_TestNumber = 0, tr_TestTotal = 0, tr_Expected = no_expected,
     tr_Actual = no_actual, tr_Failures = [], tr_Warnings = [], tr_ExtraPolicyOnly = False, tr_Error = None,
     tr_PassRate = 0, tr_PassRateRuns = 0, tr_PassRateSinceChange = 0, tr_PassRateSinceChangeRuns = 0 \<rparr>"

text \<open>The status a cached result had when it was recorded.\<close>

definition effectiveStatus :: "TestResult \<Rightarrow> string" where
  "effectiveStatus tr =
     (if tr_Status tr = ''skipped'' then
        (case tr_Error tr of
           Some e \<Rightarrow> if te_Type e = ''cached'' then TrimPrefix (te_Message e) ''cached '' else tr_Status tr
         | None \<Rightarrow> tr_Status tr)
      else tr_Status tr)"

lemma TrimPrefix_append [simp]: "TrimPrefix (p @ s) p = s"
  by (simp add: TrimPrefix_def HasPrefix_def)

record ModelComparisonEntry =
  mce_Model :: string
  mce_Passed :: int
  mce_Failed :: int
  mce_Errored :: int
  mce_MatchRate :: rat
  mce_AvgMs :: int
  mce_TotalMs :: int
  mce_Stability :: rat
  mce_StabilityTests :: int
  mce_ExtraPolicyOnly :: int
  mce_StrictMatchRate :: rat
  mce_FromCache :: bool

end
