(* ===== verification/SuiteState.thy ===== *)
theory SuiteState
  imports SuiteTypes "HOL-Library.AList" "HOL-Library.List_Lexorder" "HOL-Library.Char_ord"
begin

text \<open>
  The cache of test results (\<^verbatim>\<open>internal/testsuite/state.go\<close>). A test case is found by the hash of its
  content; its entry holds the hashes of the policies it was last run with and one result for each
  model, with the history of its runs. Go maps are association lists, and \<open>None\<close> for a nil map, which can
  be read but not written; a write to it is a panic, the value \<open>None\<close> of an operation. The JSON codec,
  the file system and the clock are parameters.
\<close>

section \<open>The state file\<close>

record RunOutcome =
  ho_Status :: string
  ho_RunAt :: int
  ho_DurationMs :: int
  ho_PolicyChange :: bool

record CachedResult =
  cres_Status :: string
  cres_Confidence :: rat
  cres_LastRun :: int
  cres_DurationMs :: int
  cres_ExtraPolicyOnly :: bool
  cres_History :: "RunOutcome list"

record CachedTestCase =
  ctc_CaseID :: string
  ctc_PolicyHashes :: "string list option"
  ctc_Models :: "(string \<times> CachedResult) list option"

record StateFile =
  sf_SchemaVersion :: string
  sf_ProductVersion :: string
  sf_SuiteID :: string
  sf_HistoryDepth :: int
  sf_LastUpdated :: int
  sf_Results :: "(string \<times> CachedTestCase) list option"

record StateManager =
  stm_filePath :: string
  stm_state :: StateFile
  stm_dirty :: bool
  stm_historyDepth :: int

abbreviation DefaultHistoryDepth :: int where "DefaultHistoryDepth \<equiv> 20"

definition newStateFile :: "string \<Rightarrow> string \<Rightarrow> int \<Rightarrow> int \<Rightarrow> StateFile" where
  "newStateFile suiteID productVersion historyDepth now =
     \<lparr> sf_SchemaVersion = ''v2'', sf_ProductVersion = productVersion, sf_SuiteID = suiteID,
       sf_HistoryDepth = historyDepth, sf_LastUpdated = now, sf_Results = Some [] \<rparr>"

text \<open>What \<^verbatim>\<open>os.ReadFile\<close> and \<^verbatim>\<open>json.Unmarshal\<close> return.\<close>

datatype load_result = NotExist | LoadFailed go_error | Loaded StateFile

definition load_state :: "(string \<Rightarrow> (go_error + string) option) \<Rightarrow> (string \<Rightarrow> go_error + StateFile) \<Rightarrow>
    string \<Rightarrow> load_result" where
  "load_state read_file unmarshal filePath =
     (if filePath = '''' then LoadFailed (PlainError ''no state file path configured'')
      else case read_file filePath of
        None \<Rightarrow> NotExist
      | Some (Inl err) \<Rightarrow> LoadFailed err
      | Some (Inr body) \<Rightarrow> (case unmarshal body of Inl err \<Rightarrow> LoadFailed err | Inr st \<Rightarrow> Loaded st))"

definition upgrade_v1 :: "StateManager \<Rightarrow> StateManager" where
  "upgrade_v1 sm =
     (if sf_SchemaVersion (stm_state sm) = ''v1''
      then sm\<lparr> stm_state := (stm_state sm)\<lparr> sf_SchemaVersion := ''v2'', sf_HistoryDepth := stm_historyDepth sm \<rparr>,
               stm_dirty := True \<rparr>
      else sm)"

definition NewStateManager ::
  "(string \<Rightarrow> (go_error + string) option) \<Rightarrow> (string \<Rightarrow> go_error + StateFile) \<Rightarrow> int \<Rightarrow>
     string \<Rightarrow> string \<Rightarrow> string \<Rightarrow> int \<Rightarrow> go_error + StateManager" where
  "NewStateManager read_file unmarshal now filePath suiteID productVersion historyDepth0 =
     (let historyDepth = (if historyDepth0 \<le> 0 then DefaultHistoryDepth else historyDepth0);
          fresh = newStateFile suiteID productVersion historyDepth now;
          sm = (\<lambda>st. \<lparr> stm_filePath = filePath, stm_state = st, stm_dirty = False,
                       stm_historyDepth = historyDepth \<rparr>)
      in if filePath = '''' then Inr (upgrade_v1 (sm fresh))
         else case load_state read_file unmarshal filePath of
           NotExist \<Rightarrow> Inr (upgrade_v1 (sm fresh))
         | LoadFailed err \<Rightarrow> Inl (PlainError (''failed to load state file '' @ filePath @ '': '' @ error_text err))
         | Loaded st \<Rightarrow> Inr (upgrade_v1 (sm st)))"

section \<open>Saving\<close>

text \<open>
  A save writes a temporary file and renames it. Which of the calls fail is a parameter: a record with
  an error for each call that can fail, and the part of the data that a failed write leaves in the file.
  \<open>fs\<close> maps the names of the files that exist to their contents.
\<close>

record save_faults =
  sv_marshal :: "go_error option"
  sv_open :: "go_error option"
  sv_lock :: "go_error option"
  sv_write :: "(nat \<times> go_error) option"
  sv_sync :: "go_error option"
  sv_close :: "go_error option"
  sv_rename :: "go_error option"
  sv_remove :: "go_error option"
  sv_rename_again :: "go_error option"

type_synonym files = "string \<Rightarrow> string option"

definition wrap_failed :: "string \<Rightarrow> go_error \<Rightarrow> go_error" where
  "wrap_failed what err = PlainError (''failed to '' @ what @ '': '' @ error_text err)"

definition rename_file :: "string \<Rightarrow> string \<Rightarrow> files \<Rightarrow> files" where
  "rename_file src dst fs = fs(dst := fs src, src := None)"

text \<open>From the temporary file to the target: rename, or remove the target and rename again.\<close>

definition replace_target ::
  "save_faults \<Rightarrow> string \<Rightarrow> string \<Rightarrow> files \<Rightarrow> go_error option \<times> files" where
  "replace_target fault tmpPath filePath fs =
     (case sv_rename fault of
        None \<Rightarrow> (None, rename_file tmpPath filePath fs)
      | Some err \<Rightarrow>
          if fs filePath = None then (None, fs)
          else case sv_remove fault of
            None \<Rightarrow> (case sv_rename_again fault of
                None \<Rightarrow> (None, rename_file tmpPath filePath (fs(filePath := None)))
              | Some err2 \<Rightarrow> (Some (wrap_failed ''rename state file after removing target'' err2),
                              fs(filePath := None, tmpPath := None)))
          | Some removeErr \<Rightarrow> (Some (wrap_failed ''rename state file'' err), fs(tmpPath := None)))"

definition write_state ::
  "save_faults \<Rightarrow> string \<Rightarrow> string \<Rightarrow> files \<Rightarrow> go_error option \<times> files" where
  "write_state fault filePath data fs =
     (let tmpPath = filePath @ ''.tmp'' in
      case sv_open fault of
        Some err \<Rightarrow> (Some (wrap_failed ''create temp state file'' err), fs)
      | None \<Rightarrow> (case sv_lock fault of
          Some err \<Rightarrow> (Some (wrap_failed ''acquire lock on state file'' err), fs(tmpPath := None))
        | None \<Rightarrow> (case sv_write fault of
            Some (n, err) \<Rightarrow> (Some (wrap_failed ''write state file'' err), (fs(tmpPath \<mapsto> take n data))(tmpPath := None))
          | None \<Rightarrow> (case sv_sync fault of
              Some err \<Rightarrow> (Some (wrap_failed ''sync state file'' err), fs(tmpPath := None))
            | None \<Rightarrow> (case sv_close fault of
                Some err \<Rightarrow> (Some (wrap_failed ''close state file'' err), fs(tmpPath := None))
              | None \<Rightarrow> replace_target fault tmpPath filePath (fs(tmpPath \<mapsto> data)))))))"

definition Save ::
  "save_faults \<Rightarrow> (StateFile \<Rightarrow> string) \<Rightarrow> int \<Rightarrow> StateManager \<Rightarrow> files \<Rightarrow>
     go_error option \<times> StateManager \<times> files" where
  "Save fault marshal now sm fs =
     (if stm_filePath sm = '''' \<or> \<not> stm_dirty sm then (None, sm, fs)
      else let sm1 = sm\<lparr> stm_state := (stm_state sm)\<lparr> sf_LastUpdated := now \<rparr> \<rparr>
      in case sv_marshal fault of
           Some err \<Rightarrow> (Some (wrap_failed ''marshal state'' err), sm1, fs)
         | None \<Rightarrow> (case write_state fault (stm_filePath sm) (marshal (stm_state sm1)) fs of
             (Some err, fs') \<Rightarrow> (Some err, sm1, fs')
           | (None, fs') \<Rightarrow> (None, sm1\<lparr> stm_dirty := False \<rparr>, fs')))"

definition stm_Close ::
  "save_faults \<Rightarrow> (StateFile \<Rightarrow> string) \<Rightarrow> int \<Rightarrow> StateManager \<Rightarrow> files \<Rightarrow>
     go_error option \<times> StateManager \<times> files" where
  "stm_Close fault marshal now sm fs = Save fault marshal now sm fs"

section \<open>Looking up\<close>

text \<open>\<^verbatim>\<open>sort.Strings\<close> on copies of both slices, then the comparison position by position.\<close>

definition hashesMatch :: "string list \<Rightarrow> string list \<Rightarrow> bool" where
  "hashesMatch a b = (if length a \<noteq> length b then False else list_all2 (=) (sort a) (sort b))"

definition go_lookup :: "('k \<times> 'v) list option \<Rightarrow> 'k \<Rightarrow> 'v option" where
  "go_lookup m k = (case m of None \<Rightarrow> None | Some kvs \<Rightarrow> map_of kvs k)"

definition slice_of :: "'a list option \<Rightarrow> 'a list" where
  "slice_of s = (case s of None \<Rightarrow> [] | Some xs \<Rightarrow> xs)"

text \<open>The result for a model, if the entry was recorded with these policies; three methods start with this.\<close>

definition cached_result :: "StateManager \<Rightarrow> string \<Rightarrow> string list \<Rightarrow> string \<Rightarrow> CachedResult option" where
  "cached_result sm contentHash policyHashes modelKey =
     (case go_lookup (sf_Results (stm_state sm)) contentHash of
        None \<Rightarrow> None
      | Some cached \<Rightarrow>
          if \<not> hashesMatch (slice_of (ctc_PolicyHashes cached)) policyHashes then None
          else go_lookup (ctc_Models cached) modelKey)"

definition ShouldSkip :: "StateManager \<Rightarrow> string \<Rightarrow> string list \<Rightarrow> string \<Rightarrow> bool \<Rightarrow> bool" where
  "ShouldSkip sm contentHash policyHashes modelKey retryFailed =
     (case cached_result sm contentHash policyHashes modelKey of
        None \<Rightarrow> False
      | Some modelResult \<Rightarrow> if retryFailed then cres_Status modelResult = ''passed'' else True)"

definition GetCachedStatus :: "StateManager \<Rightarrow> string \<Rightarrow> string list \<Rightarrow> string \<Rightarrow> string" where
  "GetCachedStatus sm contentHash policyHashes modelKey =
     (case cached_result sm contentHash policyHashes modelKey of None \<Rightarrow> '''' | Some r \<Rightarrow> cres_Status r)"

definition GetCachedDuration :: "StateManager \<Rightarrow> string \<Rightarrow> string list \<Rightarrow> string \<Rightarrow> int" where
  "GetCachedDuration sm contentHash policyHashes modelKey =
     (case cached_result sm contentHash policyHashes modelKey of None \<Rightarrow> 0 | Some r \<Rightarrow> cres_DurationMs r)"

definition GetLastUpdated :: "StateManager \<Rightarrow> int" where
  "GetLastUpdated sm = sf_LastUpdated (stm_state sm)"

definition HasResults :: "StateManager \<Rightarrow> bool" where
  "HasResults sm \<longleftrightarrow> length (slice_of (sf_Results (stm_state sm))) > 0"

definition ModelKey :: "string \<Rightarrow> string \<Rightarrow> string" where
  "ModelKey provider model = provider @ '':'' @ model"

section \<open>Recording\<close>

text \<open>The entry of a test case, which the code creates and stores before it does anything else.\<close>

definition entry_for :: "string \<Rightarrow> string \<Rightarrow> (string \<times> CachedTestCase) list \<Rightarrow> bool \<times> CachedTestCase" where
  "entry_for contentHash caseID results =
     (case map_of results contentHash of
        Some cached \<Rightarrow> (True, cached)
      | None \<Rightarrow> (False, \<lparr> ctc_CaseID = caseID, ctc_PolicyHashes = None, ctc_Models = Some [] \<rparr>))"

definition policy_changed :: "bool \<Rightarrow> CachedTestCase \<Rightarrow> string list \<Rightarrow> bool" where
  "policy_changed ok cached policyHashes =
     (ok \<and> ctc_PolicyHashes cached \<noteq> None \<and> \<not> hashesMatch (slice_of (ctc_PolicyHashes cached)) policyHashes)"

definition extend_history :: "int \<Rightarrow> bool \<Rightarrow> CachedResult \<Rightarrow> CachedResult option \<Rightarrow> RunOutcome list" where
  "extend_history historyDepth policyChanged result existing =
     (let outcome = \<lparr> ho_Status = cres_Status result, ho_RunAt = cres_LastRun result,
                      ho_DurationMs = cres_DurationMs result, ho_PolicyChange = policyChanged \<rparr>;
          history = outcome # (case existing of None \<Rightarrow> [] | Some e \<Rightarrow> cres_History e)
      in if int (length history) > historyDepth then take (nat historyDepth) history else history)"

text \<open>
  The caller's result is changed in place and shared with the state: the second component is the
  result with its history, as the caller sees it afterwards.
\<close>

definition RecordResult ::
  "StateManager \<Rightarrow> string \<Rightarrow> string \<Rightarrow> string list option \<Rightarrow> string \<Rightarrow> CachedResult \<Rightarrow>
     (StateManager \<times> CachedResult) option" where
  "RecordResult sm contentHash caseID policyHashes modelKey result =
     (case sf_Results (stm_state sm) of
        None \<Rightarrow> None
      | Some results \<Rightarrow>
          (case entry_for contentHash caseID results of
            (ok, cached) \<Rightarrow>
              let policyChanged = policy_changed ok cached (slice_of policyHashes);
                  result' = result\<lparr> cres_History := extend_history (stm_historyDepth sm) policyChanged result
                                      (go_lookup (ctc_Models cached) modelKey) \<rparr>
              in (case ctc_Models cached of
                    None \<Rightarrow> None
                  | Some models \<Rightarrow>
                      let cached' = cached\<lparr> ctc_PolicyHashes := policyHashes,
                                            ctc_Models := Some (AList.update modelKey result' models) \<rparr>
                      in Some (sm\<lparr> stm_state := (stm_state sm)\<lparr> sf_Results :=
                                     Some (AList.update contentHash cached' results) \<rparr>,
                                   stm_dirty := True \<rparr>, result'))))"

definition PruneStaleHashes :: "StateManager \<Rightarrow> string list \<Rightarrow> StateManager" where
  "PruneStaleHashes sm currentHashes =
     (case sf_Results (stm_state sm) of
        None \<Rightarrow> sm
      | Some results \<Rightarrow>
          sm\<lparr> stm_state := (stm_state sm)\<lparr> sf_Results := Some (filter (\<lambda>(h, _). h \<in> set currentHashes) results) \<rparr>,
              stm_dirty := (stm_dirty sm \<or> list_ex (\<lambda>(h, _). h \<notin> set currentHashes) results) \<rparr>)"

section \<open>Pass rates\<close>

definition passed_runs :: "RunOutcome list \<Rightarrow> int" where
  "passed_runs h = foldl (\<lambda>n o'. if ho_Status o' = ''passed'' then n + 1 else n) 0 h"

definition PassRate :: "CachedResult \<Rightarrow> rat \<times> int" where
  "PassRate cr =
     (if cres_History cr = [] then (0, 0)
      else (of_int (passed_runs (cres_History cr)) / of_int (int (length (cres_History cr))),
            int (length (cres_History cr))))"

text \<open>The loop with its index \<open>i\<close>, returning the numbers of passed runs and of runs.\<close>

fun since_change :: "nat \<Rightarrow> int \<Rightarrow> int \<Rightarrow> RunOutcome list \<Rightarrow> int \<times> int" where
  "since_change i passed n [] = (passed, n)"
| "since_change i passed n (h # hs) =
     (let n' = n + 1; passed' = (if ho_Status h = ''passed'' then passed + 1 else passed)
      in if ho_PolicyChange h \<and> i > 0 then (passed', n') else since_change (Suc i) passed' n' hs)"

definition PassRateSincePolicyChange :: "CachedResult \<Rightarrow> rat \<times> int" where
  "PassRateSincePolicyChange cr =
     (if cres_History cr = [] then (0, 0)
      else case since_change 0 0 0 (cres_History cr) of
        (passed, n) \<Rightarrow> (of_int passed / of_int n, n))"

record CachedTestPassRate =
  cpr_CaseID :: string
  cpr_Model :: string
  cpr_PassRate :: rat
  cpr_PassRateRuns :: int
  cpr_PassRateSinceChange :: rat
  cpr_PassRateSinceChangeRuns :: int

definition cached_rate :: "string \<Rightarrow> string \<times> CachedResult \<Rightarrow> CachedTestPassRate list" where
  "cached_rate caseID kr =
     (case kr of (modelKey, result) \<Rightarrow>
        if length (cres_History result) < 2 then []
        else case PassRate result of (rate, runs) \<Rightarrow>
          case PassRateSincePolicyChange result of (sinceRate, sinceRuns) \<Rightarrow>
            [\<lparr> cpr_CaseID = caseID, cpr_Model = modelKey, cpr_PassRate = rate, cpr_PassRateRuns = runs,
               cpr_PassRateSinceChange = sinceRate, cpr_PassRateSinceChangeRuns = sinceRuns \<rparr>])"

definition current_entries :: "StateManager \<Rightarrow> string list \<Rightarrow> CachedTestCase list" where
  "current_entries sm policyHashes =
     filter (\<lambda>c. hashesMatch (slice_of (ctc_PolicyHashes c)) policyHashes)
       (map snd (slice_of (sf_Results (stm_state sm))))"

definition GetCachedPassRates :: "StateManager \<Rightarrow> string list \<Rightarrow> CachedTestPassRate list" where
  "GetCachedPassRates sm policyHashes =
     concat (map (\<lambda>c. concat (map (cached_rate (ctc_CaseID c)) (slice_of (ctc_Models c))))
       (current_entries sm policyHashes))"

section \<open>Summaries of the models\<close>

record CachedModelSummary =
  cms_Passed :: int
  cms_Failed :: int
  cms_ExtraPolicyOnly :: int
  cms_Errored :: int
  cms_TotalMs :: int
  cms_TestCount :: int
  cms_Stability :: rat
  cms_StabilityTests :: int

definition no_summary :: CachedModelSummary where
  "no_summary = \<lparr> cms_Passed = 0, cms_Failed = 0, cms_ExtraPolicyOnly = 0, cms_Errored = 0,
     cms_TotalMs = 0, cms_TestCount = 0, cms_Stability = 0, cms_StabilityTests = 0 \<rparr>"

definition count_status :: "CachedResult \<Rightarrow> CachedModelSummary \<Rightarrow> CachedModelSummary" where
  "count_status result s =
     (if cres_Status result = ''passed'' then s\<lparr> cms_Passed := cms_Passed s + 1 \<rparr>
      else if cres_Status result = ''failed'' then
        (if cres_ExtraPolicyOnly result then s\<lparr> cms_ExtraPolicyOnly := cms_ExtraPolicyOnly s + 1 \<rparr>
         else s\<lparr> cms_Failed := cms_Failed s + 1 \<rparr>)
      else if cres_Status result = ''errored'' then s\<lparr> cms_Errored := cms_Errored s + 1 \<rparr>
      else s)"

text \<open>The two maps the loop builds: summaries, and smap and numbers of pass rates.\<close>

type_synonym summaries = "(string \<times> CachedModelSummary) list \<times> (string \<times> rat \<times> int) list"

definition summarize_result :: "summaries \<Rightarrow> string \<times> CachedResult \<Rightarrow> summaries" where
  "summarize_result acc kr =
     (case (acc, kr) of ((smap, rates), (modelKey, result)) \<Rightarrow>
        let s = (case map_of smap modelKey of Some s \<Rightarrow> s | None \<Rightarrow> no_summary);
            s1 = s\<lparr> cms_TestCount := cms_TestCount s + 1, cms_TotalMs := cms_TotalMs s + cres_DurationMs result \<rparr>;
            rates' = (if length (cres_History result) \<ge> 3
                      then let (r, n) = (case map_of rates modelKey of Some a \<Rightarrow> a | None \<Rightarrow> (0, 0))
                           in AList.update modelKey (r + fst (PassRate result), n + 1) rates
                      else rates)
        in (AList.update modelKey (count_status result s1) smap, rates'))"

definition summarize_entry :: "summaries \<Rightarrow> CachedTestCase \<Rightarrow> summaries" where
  "summarize_entry acc c = foldl summarize_result acc (slice_of (ctc_Models c))"

definition set_stability :: "(string \<times> CachedModelSummary) list \<Rightarrow> string \<times> rat \<times> int \<Rightarrow>
    (string \<times> CachedModelSummary) list" where
  "set_stability smap acc =
     (case acc of (modelKey, r, n) \<Rightarrow>
        case map_of smap modelKey of
          Some s \<Rightarrow> if n > 0
            then AList.update modelKey (s\<lparr> cms_Stability := r / of_int n, cms_StabilityTests := n \<rparr>) smap
            else smap
        | None \<Rightarrow> smap)"

definition GetModelSummaries :: "StateManager \<Rightarrow> string list \<Rightarrow> (string \<times> CachedModelSummary) list" where
  "GetModelSummaries sm policyHashes =
     (case foldl summarize_entry ([], []) (current_entries sm policyHashes) of
        (smap, rates) \<Rightarrow> foldl set_stability smap rates)"


section \<open>What looking up and recording do\<close>

lemma hashesMatch_mset: "hashesMatch a b \<longleftrightarrow> mset a = mset b"
proof -
  have "sort a = sort b \<longleftrightarrow> mset a = mset b"
    by (metis mset_sort properties_for_sort sorted_sort)
  then show ?thesis
    by (auto simp: hashesMatch_def list_all2_eq [symmetric] dest: mset_eq_length)
qed

lemma hashesMatch_refl [simp]: "hashesMatch a a"
  by (simp add: hashesMatch_mset)

lemma go_lookup_simps [simp]: "go_lookup None k = None" "go_lookup (Some kvs) k = map_of kvs k"
  by (simp_all add: go_lookup_def)

lemma slice_of_simps [simp]: "slice_of None = []" "slice_of (Some xs) = xs"
  by (simp_all add: slice_of_def)

lemma RecordResult_Some:
  assumes "RecordResult sm h caseID ps mk r = Some (sm', r')"
  obtains results ok cached models cached' where
    "sf_Results (stm_state sm) = Some results" "entry_for h caseID results = (ok, cached)"
    "ctc_Models cached = Some models"
    "r' = r\<lparr> cres_History := extend_history (stm_historyDepth sm) (policy_changed ok cached (slice_of ps)) r
               (map_of models mk) \<rparr>"
    "cached' = cached\<lparr> ctc_PolicyHashes := ps, ctc_Models := Some (AList.update mk r' models) \<rparr>"
    "sm' = sm\<lparr> stm_state := (stm_state sm)\<lparr> sf_Results := Some (AList.update h cached' results) \<rparr>,
                stm_dirty := True \<rparr>"
  using assms by (auto simp: RecordResult_def Let_def split: option.splits prod.splits)

text \<open>The result a model has in an entry, whatever policies it was recorded with.\<close>

definition any_result :: "StateManager \<Rightarrow> string \<Rightarrow> string \<Rightarrow> CachedResult option" where
  "any_result sm contentHash modelKey =
     (case go_lookup (sf_Results (stm_state sm)) contentHash of
        None \<Rightarrow> None | Some cached \<Rightarrow> go_lookup (ctc_Models cached) modelKey)"

lemma entry_for_models:
  assumes "sf_Results (stm_state sm) = Some results" "entry_for h caseID results = (ok, cached)"
    "ctc_Models cached = Some models"
  shows "map_of models mk = any_result sm h mk"
  using assms by (auto simp: entry_for_def any_result_def split: option.splits)

lemma record_lookup:
  assumes "RecordResult sm h caseID ps mk r = Some (sm', r')"
  shows "cached_result sm' h' ps' mk' =
    (if h' = h then
       if hashesMatch (slice_of ps) ps' then (if mk' = mk then Some r' else any_result sm h mk') else None
     else cached_result sm h' ps' mk')"
proof -
  from assms obtain results ok cached models cached' where *:
    "sf_Results (stm_state sm) = Some results" "entry_for h caseID results = (ok, cached)"
    "ctc_Models cached = Some models"
    "cached' = cached\<lparr> ctc_PolicyHashes := ps, ctc_Models := Some (AList.update mk r' models) \<rparr>"
    "sm' = sm\<lparr> stm_state := (stm_state sm)\<lparr> sf_Results := Some (AList.update h cached' results) \<rparr>,
                stm_dirty := True \<rparr>"
    by (rule RecordResult_Some)
  show ?thesis
    using entry_for_models [OF *(1-3), of mk'] *
    by (auto simp: cached_result_def update_conv')
qed

lemma record_keeps_caller_fields:
  assumes "RecordResult sm h caseID ps mk r = Some (sm', r')"
  shows "r' = r\<lparr> cres_History := cres_History r' \<rparr> \<and> stm_historyDepth sm' = stm_historyDepth sm \<and> stm_dirty sm'"
  using assms by (rule RecordResult_Some) simp

text \<open>
  What recording a result does to the cache: with the policies of the recording, or the same
  hashes in another order, the model's result is the recorded one; with other policies the test case
  has no cached result; and no other test case is affected.
\<close>

lemma recorded_result_found:
  "case RecordResult sm h caseID (Some ps) mk r of
     None \<Rightarrow> sf_Results (stm_state sm) = None \<or>
       (case map_of (the (sf_Results (stm_state sm))) h of None \<Rightarrow> False | Some c \<Rightarrow> ctc_Models c = None)
   | Some (sm', r') \<Rightarrow>
       cached_result sm' h ps' mk = (if mset ps' = mset ps then Some r' else None) \<and>
       ShouldSkip sm' h ps' mk retryFailed =
         (mset ps' = mset ps \<and> (if retryFailed then cres_Status r = ''passed'' else True)) \<and>
       (if h' = h then True else cached_result sm' h' ps' mk' = cached_result sm h' ps' mk')"
proof (cases "RecordResult sm h caseID (Some ps) mk r")
  case None
  then show ?thesis
    by (auto simp: RecordResult_def Let_def entry_for_def split: option.splits)
next
  case (Some p)
  obtain sm' r' where p: "p = (sm', r')" by (cases p)
  note l = record_lookup [OF Some [unfolded p]]
  have "cres_Status r' = cres_Status r"
    using record_keeps_caller_fields [OF Some [unfolded p]] by (metis CachedResult.select_convs(1) CachedResult.surjective CachedResult.update_convs(6))
  then show ?thesis
    unfolding Some p
    by (auto simp: l hashesMatch_mset ShouldSkip_def)
qed

text \<open>
  Recording one model's result makes the results of all other models of the test case current: after
  a recording with policies \<open>ps\<close>, a model that was last run with any other policies is still found,
  and skipped, as if it had been run with \<open>ps\<close>.
\<close>

lemma other_models_become_current:
  assumes "RecordResult sm h caseID (Some ps) mk r = Some (sm', r')"
    and "any_result sm h mk' = Some old" and "mk' \<noteq> mk"
  shows "cached_result sm' h ps mk' = Some old \<and> ShouldSkip sm' h ps mk' False \<and>
    GetCachedStatus sm' h ps mk' = cres_Status old"
  using assms(2,3) by (simp add: record_lookup [OF assms(1)] ShouldSkip_def GetCachedStatus_def)


section \<open>Histories\<close>

definition pass_fraction :: "RunOutcome list \<Rightarrow> rat" where
  "pass_fraction h =
     of_nat (length (filter (\<lambda>o'. ho_Status o' = ''passed'') h)) / of_nat (length h)"

definition change_window :: "RunOutcome list \<Rightarrow> RunOutcome list" where
  "change_window h = (case h of [] \<Rightarrow> [] | newest # older \<Rightarrow> newest # upto_first ho_PolicyChange older)"

lemma passed_runs_filter:
  "passed_runs h = int (length (filter (\<lambda>o'. ho_Status o' = ''passed'') h))"
proof -
  have "foldl (\<lambda>n o'. if ho_Status o' = ''passed'' then n + 1 else n) k h =
      k + int (length (filter (\<lambda>o'. ho_Status o' = ''passed'') h))" for k :: int
    by (induction h arbitrary: k) auto
  then show ?thesis by (simp add: passed_runs_def)
qed

lemma since_change_window:
  "0 < i \<Longrightarrow> since_change i p n h =
     (p + passed_runs (upto_first ho_PolicyChange h), n + int (length (upto_first ho_PolicyChange h)))"
  by (induction i p n h rule: since_change.induct)
    (auto simp: passed_runs_filter upto_first_Cons Let_def)

lemma since_change_start:
  "since_change 0 0 0 h = (passed_runs (change_window h), int (length (change_window h)))"
  by (cases h) (simp_all add: change_window_def since_change_window passed_runs_filter)

lemma pass_fraction_bounds: "0 \<le> pass_fraction h" "pass_fraction h \<le> 1"
proof -
  have "length (filter (\<lambda>o'. ho_Status o' = ''passed'') h) \<le> length h" by simp
  then show "0 \<le> pass_fraction h" "pass_fraction h \<le> 1"
    by (simp_all add: pass_fraction_def divide_le_eq_1 del: length_filter_le)
qed

lemma length_upto_first_le: "length (upto_first P xs) \<le> length xs"
  by (induction xs) (auto simp: upto_first_Cons)

text \<open>
  The pass rate of a result is the share of passed runs in its history, a number between 0 and 1, and
  the rate since the last policy change is that of the newest runs up to and with the last run that
  saw changed policies, the newest run itself apart; neither ever divides by zero.
\<close>

lemma pass_rates_exact:
  "PassRate cr = (pass_fraction (cres_History cr), int (length (cres_History cr))) \<and>
   PassRateSincePolicyChange cr =
     (pass_fraction (change_window (cres_History cr)), int (length (change_window (cres_History cr)))) \<and>
   snd (PassRateSincePolicyChange cr) \<le> snd (PassRate cr) \<and>
   0 \<le> fst (PassRate cr) \<and> fst (PassRate cr) \<le> 1 \<and>
   0 \<le> fst (PassRateSincePolicyChange cr) \<and> fst (PassRateSincePolicyChange cr) \<le> 1"
proof -
  have r: "PassRate cr = (pass_fraction (cres_History cr), int (length (cres_History cr)))"
    by (simp add: PassRate_def pass_fraction_def passed_runs_filter)
  have s: "PassRateSincePolicyChange cr =
     (pass_fraction (change_window (cres_History cr)), int (length (change_window (cres_History cr))))"
    by (simp add: PassRateSincePolicyChange_def since_change_start pass_fraction_def passed_runs_filter
        change_window_def)
  have "length (change_window (cres_History cr)) \<le> length (cres_History cr)"
    by (cases "cres_History cr") (simp_all add: change_window_def length_upto_first_le)
  then show ?thesis
    by (simp add: r s pass_fraction_bounds)
qed

text \<open>The operations that change a state, as steps.\<close>

inductive state_step :: "StateManager \<Rightarrow> StateManager \<Rightarrow> bool" where
  Recorded: "RecordResult sm h caseID (Some ps) mk r = Some (sm', r') \<Longrightarrow> state_step sm sm'"
| Pruned: "state_step sm (PruneStaleHashes sm hs)"
| Saved: "Save fault marshal now sm fs = (err, sm', fs') \<Longrightarrow> state_step sm sm'"

text \<open>A property of every value of an association list.\<close>

definition all_values :: "('v \<Rightarrow> bool) \<Rightarrow> ('k \<times> 'v) list \<Rightarrow> bool" where
  "all_values P kvs = list_all (\<lambda>kv. P (snd kv)) kvs"

lemma all_values_Nil [simp]: "all_values P []"
  by (simp add: all_values_def)

lemma all_values_update [intro]: "all_values P kvs \<Longrightarrow> P v \<Longrightarrow> all_values P (AList.update k v kvs)"
  by (induction kvs) (auto simp: all_values_def)

lemma all_values_filter [intro]: "all_values P kvs \<Longrightarrow> all_values P (filter Q kvs)"
  by (auto simp: all_values_def list_all_iff)

lemma all_values_lookup [dest]: "all_values P kvs \<Longrightarrow> map_of kvs k = Some v \<Longrightarrow> P v"
  by (auto simp: all_values_def list_all_iff dest!: map_of_SomeD)

definition history_ok :: "int \<Rightarrow> CachedResult \<Rightarrow> bool" where
  "history_ok depth r \<longleftrightarrow> cres_History r \<noteq> [] \<and> int (length (cres_History r)) \<le> depth \<and>
     ho_Status (hd (cres_History r)) = cres_Status r"

definition entry_ok :: "int \<Rightarrow> CachedTestCase \<Rightarrow> bool" where
  "entry_ok depth c \<longleftrightarrow> ctc_PolicyHashes c \<noteq> None \<and>
     (case ctc_Models c of None \<Rightarrow> False
      | Some models \<Rightarrow> models \<noteq> [] \<and> distinct (map fst models) \<and> all_values (history_ok depth) models)"

definition state_ok :: "StateManager \<Rightarrow> bool" where
  "state_ok sm \<longleftrightarrow> stm_historyDepth sm > 0 \<and>
     (case sf_Results (stm_state sm) of None \<Rightarrow> False
      | Some results \<Rightarrow> distinct (map fst results) \<and> all_values (entry_ok (stm_historyDepth sm)) results)"

lemma extend_history_ok:
  "depth > 0 \<Longrightarrow> history_ok depth (r\<lparr> cres_History := extend_history depth pc r e \<rparr>)"
  by (auto simp: history_ok_def extend_history_def Let_def hd_conv_nth split: option.splits)

lemma update_not_Nil [simp]: "AList.update k v xs \<noteq> []"
  by (cases xs) auto

lemma entry_for_ok:
  assumes "entry_for h caseID results = (ok, cached)" "ctc_Models cached = Some models"
    "all_values (entry_ok depth) results"
  shows "distinct (map fst models) \<and> all_values (history_ok depth) models"
  using assms by (auto simp: entry_for_def entry_ok_def split: option.splits dest!: all_values_lookup)

lemma record_ok:
  assumes ok: "state_ok sm" and rec: "RecordResult sm h caseID (Some ps) mk r = Some (sm', r')"
  shows "state_ok sm'"
  using rec
proof (rule RecordResult_Some)
  fix results ok' cached models cached'
  assume *: "sf_Results (stm_state sm) = Some results" "entry_for h caseID results = (ok', cached)"
    "ctc_Models cached = Some models"
    "r' = r\<lparr> cres_History := extend_history (stm_historyDepth sm) (policy_changed ok' cached (slice_of (Some ps))) r
               (map_of models mk) \<rparr>"
    "cached' = cached\<lparr> ctc_PolicyHashes := Some ps, ctc_Models := Some (AList.update mk r' models) \<rparr>"
    "sm' = sm\<lparr> stm_state := (stm_state sm)\<lparr> sf_Results := Some (AList.update h cached' results) \<rparr>,
                stm_dirty := True \<rparr>"
  from ok * have d: "stm_historyDepth sm > 0" and res: "distinct (map fst results)"
      "all_values (entry_ok (stm_historyDepth sm)) results"
    by (auto simp: state_ok_def)
  note m = entry_for_ok [OF *(2,3) res(2)]
  have "history_ok (stm_historyDepth sm) r'" using extend_history_ok [OF d] by (simp add: *(4))
  with m have "entry_ok (stm_historyDepth sm) cached'"
    by (auto simp: *(5) entry_ok_def distinct_update)
  then show "state_ok sm'"
    using d res by (auto simp: *(6) state_ok_def distinct_update)
qed

lemma Save_state:
  assumes "Save fault marshal now sm fs = (err, sm', fs')"
  shows "stm_historyDepth sm' = stm_historyDepth sm \<and> stm_filePath sm' = stm_filePath sm \<and>
    sf_Results (stm_state sm') = sf_Results (stm_state sm)"
  using assms by (auto simp: Save_def Let_def split: if_splits option.splits prod.splits)

lemma state_step_ok: "state_step sm sm' \<Longrightarrow> state_ok sm \<Longrightarrow> state_ok sm'"
proof (induction rule: state_step.induct)
  case (Recorded sm h caseID ps mk r sm' r')
  then show ?case by (blast intro: record_ok)
next
  case (Pruned sm hs)
  then show ?case
    by (auto simp: PruneStaleHashes_def state_ok_def distinct_map_filter split: option.splits)
next
  case (Saved fault marshal now sm fs err sm' fs')
  then show ?case using Save_state [OF Saved.hyps] by (simp add: state_ok_def del: not_None_eq split: option.splits)
qed

text \<open>
  In every state reached from a new state file by recording, pruning and saving in any order, each
  cached result has a history, at most as long as the configured depth, whose newest run has the status
  of the result; each entry has policy hashes; and no key is bound twice.
\<close>

lemma histories_bounded:
  assumes "NewStateManager (\<lambda>_. None) unmarshal now filePath suiteID version depth = Inr sm"
    and "state_step\<^sup>*\<^sup>* sm sm'"
  shows "state_ok sm'"
  using assms(2)
proof (induction rule: rtranclp_induct)
  case base
  from assms(1) show ?case
    by (auto simp: NewStateManager_def load_state_def Let_def upgrade_v1_def newStateFile_def state_ok_def split: if_splits)
next
  case (step y z)
  then show ?case by (blast intro: state_step_ok)
qed

section \<open>Saving is atomic\<close>

text \<open>
  C34. A save never leaves a partly written state file: afterwards the file is the old one or the whole
  new one, or it is gone, which happens only with an error, after a failed rename and the removal of the
  old file. A save that reports success leaves the new file, unless the rename failed and there was no
  old file: then the results are lost although the save succeeded. No other file is touched but the
  temporary one.
\<close>

theorem save_atomic:
  "case Save fault marshal now sm fs of (err, sm', fs') \<Rightarrow>
     let target = stm_filePath sm; new = marshal ((stm_state sm)\<lparr> sf_LastUpdated := now \<rparr>)
     in fs' target \<in> {fs target, Some new} \<union>
          (if sv_rename fault \<noteq> None \<and> sv_remove fault = None \<and> err \<noteq> None then {None} else {}) \<and>
        (if err = None \<and> stm_dirty sm \<and> target \<noteq> ''''
         then \<not> stm_dirty sm' \<and>
           fs' target = (if sv_rename fault \<noteq> None \<and> fs target = None then None else Some new)
         else stm_dirty sm' = stm_dirty sm) \<and>
        fs'(target := None, target @ ''.tmp'' := None) = fs(target := None, target @ ''.tmp'' := None)"
  by (auto simp: Save_def write_state_def replace_target_def rename_file_def Let_def fun_eq_iff split: option.splits)

section \<open>The summaries are exact\<close>

text \<open>The results of a model in some entries, and what a summary of them has to say.\<close>

definition results_of :: "string \<Rightarrow> (string \<times> CachedResult) list \<Rightarrow> CachedResult list" where
  "results_of mk rs = map snd (filter (\<lambda>kr. fst kr = mk) rs)"

definition cached_results :: "CachedTestCase list \<Rightarrow> (string \<times> CachedResult) list" where
  "cached_results cs = concat (map (\<lambda>c. slice_of (ctc_Models c)) cs)"

definition how_many :: "(CachedResult \<Rightarrow> bool) \<Rightarrow> CachedResult list \<Rightarrow> int" where
  "how_many P rs = int (length (filter P rs))"

definition rated :: "CachedResult list \<Rightarrow> CachedResult list" where
  "rated rs = filter (\<lambda>r. length (cres_History r) \<ge> 3) rs"

definition rate_sum :: "CachedResult list \<Rightarrow> rat" where
  "rate_sum rs = sum_list (map (\<lambda>r. fst (PassRate r)) (rated rs))"

definition counted :: "CachedResult list \<Rightarrow> CachedModelSummary" where
  "counted rs = \<lparr> cms_Passed = how_many (\<lambda>r. cres_Status r = ''passed'') rs,
     cms_Failed = how_many (\<lambda>r. cres_Status r = ''failed'' \<and> \<not> cres_ExtraPolicyOnly r) rs,
     cms_ExtraPolicyOnly = how_many (\<lambda>r. cres_Status r = ''failed'' \<and> cres_ExtraPolicyOnly r) rs,
     cms_Errored = how_many (\<lambda>r. cres_Status r = ''errored'') rs,
     cms_TotalMs = sum_list (map cres_DurationMs rs), cms_TestCount = int (length rs),
     cms_Stability = 0, cms_StabilityTests = 0 \<rparr>"

definition summary_of :: "CachedResult list \<Rightarrow> CachedModelSummary" where
  "summary_of rs =
     (if rated rs = [] then counted rs
      else (counted rs)\<lparr> cms_Stability := rate_sum rs / of_int (int (length (rated rs))),
                         cms_StabilityTests := int (length (rated rs)) \<rparr>)"

lemma counted_Nil: "no_summary = counted []"
  by (simp add: counted_def no_summary_def how_many_def)

lemma counted_snoc:
  "count_status r ((counted rs)\<lparr> cms_TestCount := cms_TestCount (counted rs) + 1,
      cms_TotalMs := cms_TotalMs (counted rs) + cres_DurationMs r \<rparr>) = counted (rs @ [r])"
  by (simp add: counted_def count_status_def how_many_def)

lemma rate_sum_snoc: "rate_sum (rs @ [r]) = rate_sum rs + (if length (cres_History r) \<ge> 3 then fst (PassRate r) else 0)"
  "length (rated (rs @ [r])) = length (rated rs) + (if length (cres_History r) \<ge> 3 then 1 else 0)"
  by (simp_all add: rate_sum_def rated_def)

lemma results_of_snoc: "results_of mk (rs @ [(k, r)]) = results_of mk rs @ (if k = mk then [r] else [])"
  by (simp add: results_of_def)

text \<open>The two maps after some results.\<close>

definition summaries_of :: "(string \<times> CachedResult) list \<Rightarrow> summaries \<Rightarrow> bool" where
  "summaries_of rs acc \<longleftrightarrow>
     (\<forall>mk. map_of (fst acc) mk =
        (if results_of mk rs = [] then None else Some (counted (results_of mk rs)))) \<and>
     (\<forall>mk. map_of (snd acc) mk =
        (if rated (results_of mk rs) = [] then None
         else Some (rate_sum (results_of mk rs), int (length (rated (results_of mk rs)))))) \<and>
     distinct (map fst (snd acc))"

lemma summarize_result_summaries:
  assumes "summaries_of rs acc"
  shows "summaries_of (rs @ [(k, r)]) (summarize_result acc (k, r))"
proof -
  obtain smap rates where acc: "acc = (smap, rates)" by (cases acc)
  let ?rs = "results_of k rs"
  have s: "(case map_of smap k of Some s \<Rightarrow> s | None \<Rightarrow> no_summary) = counted ?rs"
    using assms by (simp add: acc summaries_of_def counted_Nil)
  have a: "(case map_of rates k of Some a \<Rightarrow> a | None \<Rightarrow> (0, 0)) = (rate_sum ?rs, int (length (rated ?rs)))"
    using assms by (auto simp: acc summaries_of_def rate_sum_def)
  have smap: "map_of (AList.update k (counted (?rs @ [r])) smap) mk =
      (if results_of mk (rs @ [(k, r)]) = [] then None else Some (counted (results_of mk (rs @ [(k, r)]))))" for mk
    using assms by (auto simp: acc summaries_of_def update_conv' results_of_snoc)
  have rates: "map_of (if length (cres_History r) \<ge> 3
        then AList.update k (rate_sum ?rs + fst (PassRate r), int (length (rated ?rs)) + 1) rates else rates) mk =
      (if rated (results_of mk (rs @ [(k, r)])) = [] then None
       else Some (rate_sum (results_of mk (rs @ [(k, r)])), int (length (rated (results_of mk (rs @ [(k, r)]))))))" for mk
    using assms by (auto simp: acc summaries_of_def update_conv' results_of_snoc rate_sum_def rated_def)
  have "distinct (map fst (snd (summarize_result acc (k, r))))"
    using assms by (auto simp: acc summaries_of_def summarize_result_def Let_def distinct_update split: prod.split)
  moreover have "summarize_result acc (k, r) = (AList.update k (counted (?rs @ [r])) smap,
      if length (cres_History r) \<ge> 3
      then AList.update k (rate_sum ?rs + fst (PassRate r), int (length (rated ?rs)) + 1) rates else rates)"
    by (simp add: acc summarize_result_def s a Let_def counted_snoc)
  ultimately show ?thesis
    using smap rates by (simp add: summaries_of_def)
qed

lemma foldl_summaries:
  "summaries_of rs acc \<Longrightarrow> summaries_of (rs @ ss) (foldl summarize_result acc ss)"
proof (induction ss arbitrary: rs acc)
  case (Cons s ss)
  obtain k r where s: "s = (k, r)" by (cases s)
  from Cons.IH [OF summarize_result_summaries [OF Cons.prems]] show ?case by (simp add: s)
qed simp

lemma foldl_entries: "foldl summarize_entry acc cs = foldl summarize_result acc (cached_results cs)"
  by (induction cs arbitrary: acc) (simp_all add: cached_results_def summarize_entry_def)

lemma foldl_set_stability:
  assumes "distinct (map fst rates)"
  shows "map_of (foldl set_stability smap rates) mk =
    (case map_of smap mk of
       None \<Rightarrow> None
     | Some s \<Rightarrow> Some (case map_of rates mk of
           None \<Rightarrow> s
         | Some (r, n) \<Rightarrow> if n > 0 then s\<lparr> cms_Stability := r / of_int n, cms_StabilityTests := n \<rparr> else s))"
  using assms
proof (induction rates arbitrary: smap)
  case Nil
  then show ?case by (simp split: option.split)
next
  case (Cons a rates)
  obtain k r n where a: "a = (k, r, n)" by (cases a)
  from Cons.prems have fresh: "map_of rates k = None" by (simp add: a map_of_eq_None_iff)
  from Cons.prems have "distinct (map fst rates)" by simp
  note IH = Cons.IH [OF this]
  show ?case
    unfolding foldl_Cons IH
    using fresh by (auto simp: a set_stability_def update_conv' split: option.splits)
qed

text \<open>
  The summary of a model counts each result the model has for the given policies exactly once, by
  its status; the stability is the mean pass rate of its results with three runs or more, of which the
  summary has the number. A model without such results has no summary.
\<close>

lemma model_summaries_exact:
  "let rs = results_of mk (cached_results (current_entries sm policyHashes)) in
   map_of (GetModelSummaries sm policyHashes) mk = (if rs = [] then None else Some (summary_of rs))"
proof -
  let ?all = "cached_results (current_entries sm policyHashes)"
  obtain smap rates where f: "foldl summarize_result ([], []) ?all = (smap, rates)" by fastforce
  have "summaries_of [] ([], [])" by (simp add: summaries_of_def results_of_def rated_def)
  then have s: "summaries_of ?all (smap, rates)" using foldl_summaries [of "[]" "([], [])" ?all] f by simp
  then have "distinct (map fst rates)" by (simp add: summaries_of_def)
  from foldl_set_stability [OF this, of smap mk] s show ?thesis
    by (cases "results_of mk ?all = []"; cases "rated (results_of mk ?all) = []")
      (simp_all add: GetModelSummaries_def foldl_entries f summaries_of_def summary_of_def Let_def)
qed

section \<open>Witnesses\<close>

definition example_result :: CachedResult where
  "example_result = \<lparr> cres_Status = ''passed'', cres_Confidence = 1, cres_LastRun = 0, cres_DurationMs = 5,
     cres_ExtraPolicyOnly = False, cres_History = [] \<rparr>"

definition example_state :: StateManager where
  "example_state = \<lparr> stm_filePath = '''', stm_state = (newStateFile ''s'' ''dev'' 20 0)\<lparr> sf_Results := Some
     [(''h'', \<lparr> ctc_CaseID = ''c'', ctc_PolicyHashes = Some [''old''], ctc_Models = Some [(''b'', example_result)] \<rparr>)] \<rparr>,
     stm_dirty = False, stm_historyDepth = 20 \<rparr>"

lemma other_models_become_current_witness:
  "\<not> ShouldSkip example_state ''h'' [''new''] ''b'' False \<and>
   (\<exists>sm' r'. RecordResult example_state ''h'' ''c'' (Some [''new'']) ''a'' example_result = Some (sm', r') \<and>
     ShouldSkip sm' ''h'' [''new''] ''b'' False)"
proof -
  obtain sm' r' where r: "RecordResult example_state ''h'' ''c'' (Some [''new'']) ''a'' example_result = Some (sm', r')"
    by (simp add: RecordResult_def example_state_def entry_for_def newStateFile_def Let_def)
  have "any_result example_state ''h'' ''b'' = Some example_result"
    by (simp add: any_result_def example_state_def newStateFile_def)
  from other_models_become_current [OF r this] r show ?thesis
    by (auto simp: ShouldSkip_def cached_result_def example_state_def newStateFile_def hashesMatch_mset)
qed

lemma histories_bounded_witness:
  "\<exists>sm sm' r'. NewStateManager (\<lambda>_. None) (\<lambda>_. Inl (PlainError ''no file'')) 0 '''' ''s'' ''dev'' 0 = Inr sm \<and>
     RecordResult sm ''h'' ''c'' (Some [''p'']) ''a'' example_result = Some (sm', r') \<and> state_ok sm'"
proof -
  obtain sm where sm: "NewStateManager (\<lambda>_. None) (\<lambda>_. Inl (PlainError ''no file'')) 0 '''' ''s'' ''dev'' 0 = Inr sm"
    by (simp add: NewStateManager_def Let_def)
  then have "sf_Results (stm_state sm) = Some []"
    by (auto simp: NewStateManager_def Let_def upgrade_v1_def newStateFile_def)
  then obtain sm' r' where r: "RecordResult sm ''h'' ''c'' (Some [''p'']) ''a'' example_result = Some (sm', r')"
    by (simp add: RecordResult_def entry_for_def Let_def)
  from histories_bounded [OF sm r_into_rtranclp [where r = state_step, OF Recorded [OF r]]] sm r
  show ?thesis by blast
qed

end
