(* ===== verification/SuiteExecutor.thy ===== *)
theory SuiteExecutor
  imports SuiteTypes CELResponse ConfigValidation
begin

text \<open>
  The execution of test cases against the CEL engines (\<^verbatim>\<open>internal/testsuite/executor.go\<close>): finding
  and loading the rules, building the request and the response of a case, and comparing what the engines
  decide with what the case expects. The engines are those of the gateway. The file system and
  \<^verbatim>\<open>strconv.Quote\<close> are parameters.
\<close>

section \<open>Loading the rules of a suite\<close>

text \<open>
  \<^verbatim>\<open>os.Stat\<close> gives an error or whether the path is a directory; \<^verbatim>\<open>filepath.WalkDir\<close> is the sequence of its
  calls of the walk function, each with an error or whether the entry is a directory.
\<close>

record suite_fs =
  sfs_Rules :: rule_files
  sfs_Stat :: "string \<Rightarrow> string + bool"
  sfs_Walk :: "string \<Rightarrow> (string \<times> (string + bool)) list"
  sfs_Getwd :: "string + string"

text \<open>\<^verbatim>\<open>filepath.Ext\<close>.\<close>

definition Ext :: "string \<Rightarrow> string" where
  "Ext path =
     (let r = rev path; suffix = takeWhile (\<lambda>c. c \<noteq> CHR ''.'' \<and> c \<noteq> CHR ''/'') r;
          rest = drop (length suffix) r
      in case rest of c # _ \<Rightarrow> if c = CHR ''.'' then CHR ''.'' # rev suffix else '''' | [] \<Rightarrow> '''')"

definition is_yaml :: "string \<Rightarrow> bool" where
  "is_yaml path \<longleftrightarrow> \<not> (Ext path \<noteq> ''.yaml'' \<and> Ext path \<noteq> ''.yml'')"

definition resolvePath :: "suite_fs \<Rightarrow> string \<Rightarrow> string \<Rightarrow> string" where
  "resolvePath F path suiteDir =
     (if IsAbs path then path
      else if length path \<ge> 2 \<and> take 2 path = ''./'' then path_join suiteDir (drop 2 path)
      else case sfs_Getwd F of
        Inl err \<Rightarrow> path_join suiteDir path
      | Inr cwd \<Rightarrow>
          let cwdPath = path_join cwd path
          in if \<not> isl (sfs_Stat F cwdPath) then cwdPath else path_join suiteDir path)"

text \<open>The walk function of the four loaders, over the calls that are left; \<open>what\<close> is a word of the message.\<close>

fun walk_load ::
  "string \<Rightarrow> (string \<Rightarrow> string + 'r list) \<Rightarrow> 'r list \<Rightarrow> (string \<times> (string + bool)) list \<Rightarrow> string + 'r list" where
  "walk_load what load allPolicies [] = Inr allPolicies"
| "walk_load what load allPolicies ((path, d) # rest) =
     (case d of
        Inl err \<Rightarrow> Inl err
      | Inr isDir \<Rightarrow>
          if isDir then walk_load what load allPolicies rest
          else if \<not> is_yaml path then walk_load what load allPolicies rest
          else case load path of
            Inl err \<Rightarrow> Inl (''failed to load '' @ what @ '' from '' @ path @ '': '' @ err)
          | Inr policies \<Rightarrow> walk_load what load (allPolicies @ policies) rest)"

definition load_from_path ::
  "string \<Rightarrow> (string \<Rightarrow> string + 'r list) \<Rightarrow> suite_fs \<Rightarrow> string \<Rightarrow> string \<Rightarrow> string + 'r list" where
  "load_from_path what load F path suiteDir =
     (let resolvedPath = resolvePath F path suiteDir
      in case sfs_Stat F resolvedPath of
        Inl err \<Rightarrow> Inl (''failed to stat path '' @ resolvedPath @ '': '' @ err)
      | Inr isDir \<Rightarrow>
          if isDir then walk_load what load [] (sfs_Walk F resolvedPath) else load resolvedPath)"

definition loadPoliciesFromPath :: "suite_fs \<Rightarrow> string \<Rightarrow> string \<Rightarrow> string + Policy list" where
  "loadPoliciesFromPath F = load_from_path ''policies'' (LoadPoliciesFromFile (sfs_Rules F)) F"

definition loadResponsePoliciesFromPath :: "suite_fs \<Rightarrow> string \<Rightarrow> string \<Rightarrow> string + ResponsePolicy list" where
  "loadResponsePoliciesFromPath F =
     load_from_path ''response policies'' (LoadResponsePoliciesFromFile (sfs_Rules F)) F"

definition loadAIPoliciesFromPath :: "suite_fs \<Rightarrow> string \<Rightarrow> string \<Rightarrow> string + ConfigAIPolicy list" where
  "loadAIPoliciesFromPath F = load_from_path ''AI policies'' (LoadAIPoliciesFromFile (sfs_Rules F)) F"

definition loadAIResponsePoliciesFromPath ::
  "suite_fs \<Rightarrow> string \<Rightarrow> string \<Rightarrow> string + ConfigAIResponsePolicy list" where
  "loadAIResponsePoliciesFromPath F =
     load_from_path ''AI response policies'' (LoadAIResponsePoliciesFromFile (sfs_Rules F)) F"

section \<open>The executor\<close>

record Executor =
  xc_suite :: Suite
  xc_celEngine :: "CELPolicy list option"
  xc_celResponseEngine :: "CELResponsePolicy list option"
  xc_includeDisabled :: bool

datatype executor_error =
    EngineNotCreated string go_error
  | RulesNotLoaded string string
  | RulesRejected string load_error

text \<open>
  One of the two blocks of \<open>NewExecutor\<close>: nothing is loaded when no path is configured. The mode passed
  to \<open>LoadPolicies\<close> is the empty string.
\<close>

definition load_engine ::
  "string \<Rightarrow> go_error + 'env \<Rightarrow> string + 'rule list \<Rightarrow> ('rule \<Rightarrow> bool) \<Rightarrow>
     ('env \<Rightarrow> bool list \<Rightarrow> PolicyMode \<Rightarrow> 'loaded list \<Rightarrow> 'rule list \<Rightarrow> load_error option \<times> 'loaded list) \<Rightarrow>
     bool \<Rightarrow> string \<Rightarrow> executor_error + 'loaded list option" where
  "load_engine what mk_env rules enabled LoadPolicies includeDisabled path =
     (if path = '''' then Inr None
      else case mk_env of
        Inl err \<Rightarrow> Inl (EngineNotCreated what err)
      | Inr env \<Rightarrow> (case rules of
          Inl err \<Rightarrow> Inl (RulesNotLoaded what err)
        | Inr policies \<Rightarrow>
            let policies' = (if \<not> includeDisabled then filter enabled policies else policies)
            in case LoadPolicies env [includeDisabled] '''' [] policies' of
              (Some err, _) \<Rightarrow> Inl (RulesRejected what err)
            | (None, engine) \<Rightarrow> Inr (Some engine)))"

definition NewExecutor ::
  "go_error + ('ast, 'prg) cel_env \<Rightarrow> suite_fs \<Rightarrow> Suite \<Rightarrow> string \<Rightarrow> bool \<Rightarrow> executor_error + Executor" where
  "NewExecutor mk_env F suite suiteDir includeDisabled =
     (let p = su_Policies suite in
      case load_engine ''CEL request'' mk_env (loadPoliciesFromPath F (spc_CELRequestRules p) suiteDir)
             Policy_IsEnabled cel_LoadPolicies includeDisabled (spc_CELRequestRules p) of
        Inl err \<Rightarrow> Inl err
      | Inr celEngine \<Rightarrow>
      (case load_engine ''CEL response'' mk_env (loadResponsePoliciesFromPath F (spc_CELResponseRules p) suiteDir)
             ResponsePolicy_IsEnabled celr_LoadPolicies includeDisabled (spc_CELResponseRules p) of
        Inl err \<Rightarrow> Inl err
      | Inr celResponseEngine \<Rightarrow>
          Inr \<lparr> xc_suite = suite, xc_celEngine = celEngine, xc_celResponseEngine = celResponseEngine,
                xc_includeDisabled = includeDisabled \<rparr>))"

section \<open>Requests, responses and actual results\<close>

definition extractExpectedRedactedContent :: "ContentItem list \<Rightarrow> string" where
  "extractExpectedRedactedContent items =
     (let texts = map ci_Text (filter (\<lambda>item. ci_Type item = ''text'' \<and> ci_Text item \<noteq> '''') items)
      in if texts = [] then '''' else if length texts = 1 then hd texts else join_with nl texts)"

definition buildCallToolRequest :: "RequestConfig \<Rightarrow> CallToolRequest" where
  "buildCallToolRequest req =
     \<lparr> Method = ''tools/call'', ToolName = trq_ToolName req, Arguments = trq_Arguments req, Meta = None \<rparr>"

definition buildCallToolResult :: "ResponseConfig option \<Rightarrow> CallToolResult" where
  "buildCallToolResult resp =
     (case resp of
        None \<Rightarrow> \<lparr> IsError = False, Content = [], ResultMeta = None \<rparr>
      | Some r \<Rightarrow>
          \<lparr> IsError = trs_IsError r,
            Content = map (\<lambda>item. TextContent (ci_Text item)) (filter (\<lambda>item. ci_Type item = ''text'') (trs_Content r)),
            ResultMeta = None \<rparr>)"

definition mapValidationResult :: "ValidationResults \<Rightarrow> ActualResult" where
  "mapValidationResult vr =
     no_actual\<lparr> act_Confidence := 1, act_Decision := (if Allowed vr then ''allow'' else ''deny''),
       act_PoliciesExecuted := map (\<lambda>pr. \<lparr> plr_PolicyName = vr_PolicyName pr, plr_Decision = vr_Action pr,
         plr_ElapsedMs = vr_DurationMs pr, plr_Reasoning = '''' \<rparr>) (Results vr) \<rparr>"

definition mapResponseValidationResult :: "ResponseValidationResults \<Rightarrow> ActualResult" where
  "mapResponseValidationResult vr =
     no_actual\<lparr> act_Confidence := 1,
       act_Decision := (if rRecommendedAction vr \<noteq> '''' then rRecommendedAction vr
                        else if rAllowed vr then ''allow'' else ''deny''),
       act_RedactedContent := (case rRedactedContent vr of Some c \<Rightarrow> c | None \<Rightarrow> ''''),
       act_PoliciesExecuted := map (\<lambda>pr. \<lparr> plr_PolicyName = rvr_PolicyName pr, plr_Decision = rvr_Action pr,
         plr_ElapsedMs = rvr_DurationMs pr, plr_Reasoning = '''' \<rparr>) (rResults vr) \<rparr>"

definition decisionSeverity :: "string \<Rightarrow> int" where
  "decisionSeverity decision = (if decision = ''deny'' then 2 else if decision = ''redact'' then 1 else 0)"

definition mergeActualResults :: "ActualResult \<Rightarrow> ActualResult \<Rightarrow> ActualResult" where
  "mergeActualResults request response =
     (let worse = (if decisionSeverity (act_Decision response) > decisionSeverity (act_Decision request)
                   then response else request)
      in \<lparr> act_Decision = act_Decision worse, act_Confidence = act_Confidence request,
           act_Reasoning = act_Reasoning worse,
           act_PoliciesExecuted = act_PoliciesExecuted request @ act_PoliciesExecuted response,
           act_RedactedContent = (if act_RedactedContent response \<noteq> '''' then act_RedactedContent response
                                  else act_RedactedContent request) \<rparr>)"

section \<open>Comparing\<close>

record compareResultsOutput =
  cmp_failures :: "string list"
  cmp_warnings :: "string list"
  cmp_extraPolicyOnly :: bool

text \<open>The non-ASCII characters of the messages, in UTF-8.\<close>

definition em_dash :: string where "em_dash = [CHR 0xE2, CHR 0x80, CHR 0x94]"
definition triangle :: string where "triangle = [CHR 0xE2, CHR 0x96, CHR 0xBA]"

definition redaction_failures :: "(string \<Rightarrow> string) \<Rightarrow> string \<Rightarrow> string \<Rightarrow> string list" where
  "redaction_failures q expected actual =
     (if expected \<noteq> '''' then
        (if actual = '''' then [''expected redacted content but none was returned'']
         else if expected \<noteq> actual
         then [''redacted content mismatch:'' @ nl @ ''  expected: '' @ q expected @ nl @ ''  actual:   '' @ q actual]
         else [])
      else [])"

definition policy_failures :: "(string \<Rightarrow> string) \<Rightarrow> PolicyResult list \<Rightarrow> PolicyExpectation \<Rightarrow> string list" where
  "policy_failures q executed pe =
     (case find (\<lambda>pr. plr_PolicyName pr = px_PolicyName pe) executed of
        Some pr \<Rightarrow>
          if plr_Decision pr \<noteq> px_Decision pe
          then [''policy '' @ q (px_PolicyName pe) @ '': expected '' @ q (px_Decision pe) @ '', actual '' @ q (plr_Decision pr)]
          else []
      | None \<Rightarrow> [''policy '' @ q (px_PolicyName pe) @ '' not executed (check if enabled or conditions match)''])"

definition unexpected_policies :: "ExpectedResult \<Rightarrow> ActualResult \<Rightarrow> string list" where
  "unexpected_policies expected actual =
     map plr_PolicyName (filter (\<lambda>pr. plr_Decision pr = act_Decision actual \<and>
       plr_PolicyName pr \<notin> set (map px_PolicyName (er_Policies expected))) (act_PoliciesExecuted actual))"

definition compareResults ::
  "(string \<Rightarrow> string) \<Rightarrow> ExpectedResult \<Rightarrow> ActualResult \<Rightarrow> bool \<Rightarrow> compareResultsOutput" where
  "compareResults q expected actual strictPolicyMatch =
     (let decision = (if er_Decision expected \<noteq> act_Decision actual
            then [''expected '' @ q (er_Decision expected) @ '', actual '' @ q (act_Decision actual)] else []);
          failures = decision @ redaction_failures q (er_RedactedContent expected) (act_RedactedContent actual) @
            concat (map (policy_failures q (act_PoliciesExecuted actual)) (er_Policies expected));
          unexpected = (if length (er_Policies expected) > 0 \<and> act_Decision actual \<noteq> ''allow''
                        then unexpected_policies expected actual else []);
          msg = Itoa (int (length unexpected)) @ '' unexpected policy match(es) '' @ em_dash @
                '' see highlighted '' @ triangle @ '' above''
      in if length unexpected > 0 then
           (if strictPolicyMatch
            then \<lparr> cmp_failures = failures @ [msg], cmp_warnings = [], cmp_extraPolicyOnly = (failures = []) \<rparr>
            else \<lparr> cmp_failures = failures, cmp_warnings = [msg], cmp_extraPolicyOnly = False \<rparr>)
         else \<lparr> cmp_failures = failures, cmp_warnings = [], cmp_extraPolicyOnly = False \<rparr>)"

text \<open>The end of a test, for both engines: compare, and pass when there is no failure.\<close>

definition judge :: "(string \<Rightarrow> string) \<Rightarrow> bool \<Rightarrow> TestResult \<Rightarrow> TestResult" where
  "judge q strictPolicyMatch result =
     (let c = compareResults q (tr_Expected result) (tr_Actual result) strictPolicyMatch
      in result\<lparr> tr_Failures := cmp_failures c, tr_Warnings := cmp_warnings c,
           tr_ExtraPolicyOnly := cmp_extraPolicyOnly c,
           tr_Status := (if length (cmp_failures c) = 0 then ''passed'' else ''failed'') \<rparr>)"

section \<open>A test against the CEL engines\<close>

definition expected_of :: "TestCase \<Rightarrow> ExpectedResult" where
  "expected_of tc =
     \<lparr> er_Decision = ex_Decision (tc_Expectations tc), er_Policies = ex_Policies (tc_Expectations tc),
       er_RedactedContent = extractExpectedRedactedContent (ex_RedactedContent (tc_Expectations tc)) \<rparr>"

definition errored :: "string \<Rightarrow> string \<Rightarrow> int \<Rightarrow> TestResult \<Rightarrow> TestResult" where
  "errored type message elapsedMs result =
     result\<lparr> tr_Status := ''errored'', tr_ElapsedMs := elapsedMs,
       tr_Error := Some \<lparr> te_Type = type, te_Message = message, te_Details = '''' \<rparr> \<rparr>"

definition cel_request_phase ::
  "('ast, 'prg) cel_env \<Rightarrow> clock \<Rightarrow> Executor \<Rightarrow> TestCase \<Rightarrow> ActualResult \<Rightarrow> (string \<times> string) + ActualResult" where
  "cel_request_phase env T e tc actual =
     (if tc_Phase tc = ''request'' \<or> tc_Phase tc = ''both'' then
        (case xc_celEngine e of
           None \<Rightarrow> Inl (''config_error'', ''CEL request engine not configured'')
         | Some policies \<Rightarrow>
             (case fst (cel_EvaluateToolCall env policies (buildCallToolRequest (tc_Request tc)) T None) of
                Inl err \<Rightarrow> Inl (''eval_error'', error_text err)
              | Inr vr \<Rightarrow> Inr (mapValidationResult vr)))
      else Inr actual)"

definition cel_response_phase ::
  "('ast, 'prg) cel_env \<Rightarrow> 're regexp_lib \<Rightarrow> clock \<Rightarrow> Executor \<Rightarrow> TestCase \<Rightarrow> ActualResult \<Rightarrow>
     (string \<times> string) + ActualResult" where
  "cel_response_phase env lib T e tc actual =
     (if tc_Phase tc = ''response'' \<or> tc_Phase tc = ''both'' then
        (case xc_celResponseEngine e of
           None \<Rightarrow> Inl (''config_error'', ''CEL response engine not configured'')
         | Some policies \<Rightarrow>
             (case fst (celr_EvaluateResponse env lib policies (buildCallToolRequest (tc_Request tc))
                     (buildCallToolResult (tc_Response tc)) T None) of
                Inl err \<Rightarrow> Inl (''eval_error'', error_text err)
              | Inr vr \<Rightarrow>
                  let responseActual = mapResponseValidationResult vr
                  in Inr (if tc_Phase tc = ''both'' then mergeActualResults actual responseActual else responseActual)))
      else Inr actual)"

definition executeCELTest ::
  "('ast, 'prg) cel_env \<Rightarrow> 're regexp_lib \<Rightarrow> (string \<Rightarrow> string) \<Rightarrow> clock \<Rightarrow> clock \<Rightarrow> clock \<Rightarrow>
     Executor \<Rightarrow> TestCase \<Rightarrow> TestResult" where
  "executeCELTest env lib q T reqT respT e tc =
     (let elapsedMs = Milliseconds (T 0 1 - T 0 0);
          result = no_test_result\<lparr> tr_CaseID := tc_CaseID tc, tr_Title := tc_Title tc, tr_Phase := tc_Phase tc,
            tr_Engine := ''cel'', tr_Expected := expected_of tc \<rparr>
      in case cel_request_phase env reqT e tc no_actual of
           Inl (type, message) \<Rightarrow> errored type message elapsedMs result
         | Inr actual \<Rightarrow>
         (case cel_response_phase env lib respT e tc actual of
           Inl (type, message) \<Rightarrow> errored type message elapsedMs (result\<lparr> tr_Actual := actual \<rparr>)
         | Inr actual' \<Rightarrow>
             judge q (IsStrictPolicyMatch (su_Acceptance (xc_suite e)))
               (result\<lparr> tr_Actual := actual', tr_ElapsedMs := elapsedMs \<rparr>)))"

definition targets :: "string \<Rightarrow> TestCase \<Rightarrow> bool" where
  "targets engine tc \<longleftrightarrow> tc_Engine tc = engine \<or> tc_Engine tc = ''both''"

text \<open>The loop over the cases, with the number of the last one executed.\<close>

fun run_numbered :: "(int \<Rightarrow> TestCase \<Rightarrow> TestResult) \<Rightarrow> int \<Rightarrow> int \<Rightarrow> TestCase list \<Rightarrow> TestResult list" where
  "run_numbered execute total' num [] = []"
| "run_numbered execute total' num (tc # cases) =
     (if \<not> targets ''cel'' tc then run_numbered execute total' num cases
      else (execute (num + 1) tc)\<lparr> tr_TestNumber := num + 1, tr_TestTotal := total' \<rparr>
           # run_numbered execute total' (num + 1) cases)"

text \<open>\<open>T\<close>, \<open>reqT\<close> and \<open>respT\<close> give the clock readings of the n-th test.\<close>

definition ExecuteCELTests ::
  "('ast, 'prg) cel_env \<Rightarrow> 're regexp_lib \<Rightarrow> (string \<Rightarrow> string) \<Rightarrow> (int \<Rightarrow> clock) \<Rightarrow> (int \<Rightarrow> clock) \<Rightarrow> (int \<Rightarrow> clock) \<Rightarrow>
     Executor \<Rightarrow> TestCase list \<Rightarrow> TestResult list" where
  "ExecuteCELTests env lib q T reqT respT e cases =
     run_numbered (\<lambda>n. executeCELTest env lib q (T n) (reqT n) (respT n) e)
       (int (length (filter (targets ''cel'') cases))) 0 cases"

section \<open>No executor with CEL rules\<close>

lemma load_engine_rejects:
  assumes "\<And>env l rs. fst (LoadPolicies env [includeDisabled] '''' l rs) \<noteq> None"
  shows "case load_engine what mk_env rules enabled LoadPolicies includeDisabled path of
     Inl _ \<Rightarrow> path \<noteq> '''' | Inr engine \<Rightarrow> path = '''' \<and> engine = None"
proof (cases "path = [] \<or> isl mk_env \<or> isl rules")
  case True
  then show ?thesis by (auto simp: load_engine_def split: sum.splits)
next
  case False
  then obtain env policies where p: "mk_env = Inr env" "rules = Inr policies" "path \<noteq> []"
    by (cases mk_env; cases rules) auto
  define policies' where "policies' = (if \<not> includeDisabled then filter enabled policies else policies)"
  obtain err l where "LoadPolicies env [includeDisabled] [] [] policies' = (Some err, l)"
    using assms [of env "[]" policies'] by (metis not_None_eq prod.collapse)
  with p show ?thesis by (simp add: load_engine_def policies'_def [symmetric] Let_def)
qed

lemma mode_rejected:
  "fst (cel_LoadPolicies env inc '''' l ps) \<noteq> None" "fst (celr_LoadPolicies env inc '''' rl rps) \<noteq> None"
  by (simp_all add: cel_LoadPolicies_def celr_LoadPolicies_def load_rules_def PolicyMode_IsValid_def Let_def)

lemmas cel_engine_rejected =
  load_engine_rejects [where LoadPolicies = cel_LoadPolicies, OF mode_rejected(1) [where inc = "[includeDisabled]" for includeDisabled]]

lemmas celr_engine_rejected =
  load_engine_rejects [where LoadPolicies = celr_LoadPolicies, OF mode_rejected(2) [where inc = "[includeDisabled]" for includeDisabled]]

text \<open>
  An executor is never created for a suite with CEL rules: \<open>NewExecutor\<close> loads them with the empty
  mode, which the engines reject, so it returns an error whenever a path of CEL request or response rules
  is configured, whatever the files hold. An executor it does create has no engine, and every case it is
  given with a valid phase ends as errored.
\<close>

lemma executor_without_cel:
  "case NewExecutor mk_env F suite suiteDir includeDisabled of
     Inl _ \<Rightarrow> True
   | Inr e \<Rightarrow> spc_CELRequestRules (su_Policies suite) = '''' \<and> spc_CELResponseRules (su_Policies suite) = '''' \<and>
       xc_celEngine e = None \<and> xc_celResponseEngine e = None \<and>
       (if tc_Phase tc \<in> {''request'', ''response'', ''both''}
        then tr_Status (executeCELTest env lib q T reqT respT e tc) = ''errored'' else True)"
proof (cases "NewExecutor mk_env F suite suiteDir includeDisabled")
  case (Inr x)
  let ?p = "su_Policies suite"
  from Inr obtain ce re where
    ce: "load_engine ''CEL request'' mk_env (loadPoliciesFromPath F (spc_CELRequestRules ?p) suiteDir)
       Policy_IsEnabled cel_LoadPolicies includeDisabled (spc_CELRequestRules ?p) = Inr ce" and
    re: "load_engine ''CEL response'' mk_env (loadResponsePoliciesFromPath F (spc_CELResponseRules ?p) suiteDir)
       ResponsePolicy_IsEnabled celr_LoadPolicies includeDisabled (spc_CELResponseRules ?p) = Inr re" and
    x: "xc_celEngine x = ce" "xc_celResponseEngine x = re"
    by (auto simp: NewExecutor_def Let_def split: sum.splits)
  have "spc_CELRequestRules ?p = '''' \<and> ce = None"
    using cel_engine_rejected [where what = "''CEL request''" and mk_env = mk_env and enabled = Policy_IsEnabled
        and rules = "loadPoliciesFromPath F (spc_CELRequestRules ?p) suiteDir" and includeDisabled = includeDisabled
        and path = "spc_CELRequestRules ?p"] ce by simp
  moreover have "spc_CELResponseRules ?p = '''' \<and> re = None"
    using celr_engine_rejected [where what = "''CEL response''" and mk_env = mk_env
        and rules = "loadResponsePoliciesFromPath F (spc_CELResponseRules ?p) suiteDir"
        and enabled = ResponsePolicy_IsEnabled and includeDisabled = includeDisabled
        and path = "spc_CELResponseRules ?p"] re by simp
  moreover have "tr_Status (executeCELTest env lib q T reqT respT x tc) = ''errored''"
    if "ce = None" "re = None" "tc_Phase tc \<in> {''request'', ''response'', ''both''}"
    using that x by (auto simp: executeCELTest_def cel_request_phase_def cel_response_phase_def errored_def Let_def)
  ultimately show ?thesis by (simp only: Inr sum.case x if_split) blast
qed simp

section \<open>The comparison is exact\<close>

text \<open>What a case expects, and the rules that should not have triggered.\<close>

definition policy_met :: "PolicyResult list \<Rightarrow> PolicyExpectation \<Rightarrow> bool" where
  "policy_met executed pe \<longleftrightarrow>
     map_option plr_Decision (find (\<lambda>pr. plr_PolicyName pr = px_PolicyName pe) executed) = Some (px_Decision pe)"

definition expectation_met :: "ExpectedResult \<Rightarrow> ActualResult \<Rightarrow> bool" where
  "expectation_met expected actual \<longleftrightarrow>
     act_Decision actual = er_Decision expected \<and>
     (er_RedactedContent expected = '''' \<or> act_RedactedContent actual = er_RedactedContent expected) \<and>
     list_all (policy_met (act_PoliciesExecuted actual)) (er_Policies expected)"

definition surprising :: "ExpectedResult \<Rightarrow> ActualResult \<Rightarrow> bool" where
  "surprising expected actual \<longleftrightarrow>
     er_Policies expected \<noteq> [] \<and> act_Decision actual \<noteq> ''allow'' \<and>
     list_ex (\<lambda>pr. plr_Decision pr = act_Decision actual \<and>
       plr_PolicyName pr \<notin> px_PolicyName ` set (er_Policies expected)) (act_PoliciesExecuted actual)"

lemma policy_failures_met: "policy_failures q executed pe = [] \<longleftrightarrow> policy_met executed pe"
  by (auto simp: policy_failures_def policy_met_def split: option.split)

lemma redaction_failures_met:
  "redaction_failures q expected actual = [] \<longleftrightarrow> expected = '''' \<or> actual = expected"
  by (auto simp: redaction_failures_def)

lemma unexpected_surprising:
  "(if length (er_Policies expected) > 0 \<and> act_Decision actual \<noteq> ''allow''
    then unexpected_policies expected actual else []) = [] \<longleftrightarrow> \<not> surprising expected actual"
  by (auto simp: surprising_def unexpected_policies_def filter_empty_conv list_ex_iff)

lemma comparison_facts:
  "let c = compareResults q expected actual strict;
       met = expectation_met expected actual; extra = surprising expected actual
   in (cmp_failures c = [] \<longleftrightarrow> met \<and> \<not> (strict \<and> extra)) \<and>
      (cmp_extraPolicyOnly c \<longleftrightarrow> strict \<and> met \<and> extra) \<and>
      (cmp_warnings c = [] \<longleftrightarrow> strict \<or> \<not> extra)"
proof -
  define fs where "fs = (if er_Decision expected \<noteq> act_Decision actual
      then [''expected '' @ q (er_Decision expected) @ '', actual '' @ q (act_Decision actual)] else []) @
    redaction_failures q (er_RedactedContent expected) (act_RedactedContent actual) @
    concat (map (policy_failures q (act_PoliciesExecuted actual)) (er_Policies expected))"
  define us where "us = (if length (er_Policies expected) > 0 \<and> act_Decision actual \<noteq> ''allow''
      then unexpected_policies expected actual else [])"
  have fs: "expectation_met expected actual \<longleftrightarrow> fs = []"
    by (auto simp: fs_def expectation_met_def redaction_failures_met policy_failures_met list_all_iff)
  have us: "surprising expected actual \<longleftrightarrow> us \<noteq> []"
    using unexpected_surprising [of expected actual] by (simp add: us_def)
  show ?thesis
    unfolding compareResults_def fs_def [symmetric] us_def [symmetric] Let_def fs us
    by (cases us; cases strict) auto
qed

text \<open>
  A comparison has no failure exactly when the case's expectation is met: the decision is the
  expected one, the redacted content if one is given, and each listed policy was executed, with the
  listed decision in its first result; and, if the match is strict, no unlisted policy has the decision
  of a denial or redaction. Only such a policy makes the \<open>extra policy only\<close> flag, and without the
  strict match it makes a warning.
\<close>

lemma comparison_exact:
  "let c = compareResults q expected actual strict;
       met = expectation_met expected actual; extra = surprising expected actual
   in (cmp_failures c = [] \<longleftrightarrow> met \<and> \<not> (strict \<and> extra)) \<and>
      (cmp_extraPolicyOnly c \<longleftrightarrow> strict \<and> met \<and> extra) \<and>
      (cmp_warnings c \<noteq> [] \<longleftrightarrow> extra \<and> \<not> strict)"
  using comparison_facts [of q expected actual strict] unfolding Let_def by blast

section \<open>A test says what the gateway would do\<close>

text \<open>The decisions of the two engines, by the first rule that stops them.\<close>

definition request_decision :: "('ast, 'prg) cel_env \<Rightarrow> CELPolicy list \<Rightarrow> CallToolRequest \<Rightarrow> string" where
  "request_decision env ps req =
     (case cel_decide (mcp_outcome env (mcp_vars req)) ps of Refuse p \<Rightarrow> ''deny'' | _ \<Rightarrow> ''allow'')"

definition response_decision ::
  "('ast, 'prg) cel_env \<Rightarrow> 're regexp_lib \<Rightarrow> CELResponsePolicy list \<Rightarrow> CallToolRequest \<Rightarrow> CallToolResult \<Rightarrow> string" where
  "response_decision env lib ps req result =
     (let oc = response_outcome env (response_vars req result) in
      case find (rstops oc) ps of
        Some p \<Rightarrow> if oc p = Failed then ''allow'' else ''deny''
      | None \<Rightarrow> if redaction_of lib (getTextContent result) oc ps = None then ''allow'' else ''redact'')"

lemma upto_first_find_None: "find P xs = None \<Longrightarrow> upto_first P xs = xs"
  by (induction xs) (auto simp: upto_first_Cons split: if_splits)

lemma cel_request_phase_decision:
  assumes "xc_celEngine e = Some ps" and "tc_Phase tc \<in> {''request'', ''both''}"
  shows "\<exists>actual. cel_request_phase env T e tc a0 = Inr actual \<and> act_RedactedContent actual = '''' \<and>
    act_Decision actual = request_decision env ps (buildCallToolRequest (tc_Request tc))"
  using cel_tool_call_decides [of env ps "buildCallToolRequest (tc_Request tc)" T None] assms
  by (auto simp: cel_request_phase_def mapValidationResult_def no_actual_def request_decision_def
      refines_decision_def split: decision.split)

lemma response_actual_decision:
  assumes "celr_refines lib (getTextContent result) (response_outcome env (response_vars req result)) ps r"
  shows "act_Decision (mapResponseValidationResult r) = response_decision env lib ps req result"
  using assms
  by (auto simp: celr_refines_def mapResponseValidationResult_def response_decision_def Let_def
      upto_first_find_None no_actual_def split: option.splits if_splits)

definition gateway_decision ::
  "('ast, 'prg) cel_env \<Rightarrow> 're regexp_lib \<Rightarrow> CELPolicy list \<Rightarrow> CELResponsePolicy list \<Rightarrow> TestCase \<Rightarrow> string" where
  "gateway_decision env lib ps rps tc =
     (let req = buildCallToolRequest (tc_Request tc); result = buildCallToolResult (tc_Response tc);
          a = request_decision env ps req; b = response_decision env lib rps req result
      in if tc_Phase tc = ''request'' then a else if tc_Phase tc = ''response'' then b
         else if a = ''deny'' \<or> b = ''deny'' then ''deny'' else b)"

definition gateway_redaction ::
  "('ast, 'prg) cel_env \<Rightarrow> 're regexp_lib \<Rightarrow> CELResponsePolicy list \<Rightarrow> TestCase \<Rightarrow> string" where
  "gateway_redaction env lib rps tc =
     (let req = buildCallToolRequest (tc_Request tc); result = buildCallToolResult (tc_Response tc);
          oc = response_outcome env (response_vars req result)
      in if tc_Phase tc = ''request'' then ''''
         else case redaction_of lib (getTextContent result) oc (upto_first (rstops oc) rps) of
           Some c \<Rightarrow> c | None \<Rightarrow> '''')"

lemma response_decision_values: "response_decision env lib rps req result \<in> {''allow'', ''deny'', ''redact''}"
  by (auto simp: response_decision_def Let_def split: option.split)

lemma merged_decision:
  assumes "a \<in> {''allow'', ''deny''}" and "b \<in> {''allow'', ''deny'', ''redact''}"
    and "act_Decision request = a" and "act_Decision response = b"
  shows "act_Decision (mergeActualResults request response) = (if a = ''deny'' \<or> b = ''deny'' then ''deny'' else b)"
  using assms by (auto simp: mergeActualResults_def decisionSeverity_def Let_def)

lemma cel_response_phase_decision:
  assumes "xc_celResponseEngine e = Some rps" and "tc_Phase tc \<in> {''response'', ''both''}"
  obtains actual where
    "cel_response_phase env lib T e tc a0 =
       Inr (if tc_Phase tc = ''both'' then mergeActualResults a0 actual else actual)"
    "act_Decision actual = response_decision env lib rps (buildCallToolRequest (tc_Request tc)) (buildCallToolResult (tc_Response tc))"
    "act_RedactedContent actual = gateway_redaction env lib rps tc"
proof -
  let ?req = "buildCallToolRequest (tc_Request tc)" and ?result = "buildCallToolResult (tc_Response tc)"
  obtain r where r: "fst (celr_EvaluateResponse env lib rps ?req ?result T None) = Inr r"
    "celr_refines lib (getTextContent ?result) (response_outcome env (response_vars ?req ?result)) rps r"
    using celr_response_decides [of env lib rps ?req ?result T None] by blast
  have "act_RedactedContent (mapResponseValidationResult r) = gateway_redaction env lib rps tc"
    using r(2) assms(2)
    by (auto simp: celr_refines_def gateway_redaction_def mapResponseValidationResult_def Let_def)
  with assms r response_actual_decision [OF r(2)] show thesis
    by (intro that [of "mapResponseValidationResult r"]) (auto simp: cel_response_phase_def Let_def)
qed

lemma judge_status: "tr_Status (judge q strict r) =
  (if expectation_met (tr_Expected r) (tr_Actual r) \<and> \<not> (strict \<and> surprising (tr_Expected r) (tr_Actual r))
   then ''passed'' else ''failed'')"
  using comparison_facts [of q "tr_Expected r" "tr_Actual r" strict] by (simp add: judge_def Let_def)

text \<open>
  A test against given engines predicts the gateway. When the engines of both phases are loaded and the case
  lists no policies, it passes exactly when the decision it expects is the one the gateway's engines make by
  their first stopping rule (for both phases the more restrictive of the two), and the redacted content
  it expects, if any, is the text an enforced rule makes of the response. \<open>NewExecutor\<close> never builds an
  executor with an engine (\<open>executor_without_cel\<close>), so this is what its tests would say once it does.
\<close>

lemma cel_test_predicts_gateway:
  assumes "xc_celEngine e = Some ps" and "xc_celResponseEngine e = Some rps"
    and "tc_Phase tc \<in> {''request'', ''response'', ''both''}" and "ex_Policies (tc_Expectations tc) = []"
  shows "tr_Status (executeCELTest env lib q T reqT respT e tc) =
    (if ex_Decision (tc_Expectations tc) = gateway_decision env lib ps rps tc \<and>
        extractExpectedRedactedContent (ex_RedactedContent (tc_Expectations tc)) \<in> {'''', gateway_redaction env lib rps tc}
     then ''passed'' else ''failed'')"
proof -
  let ?req = "buildCallToolRequest (tc_Request tc)" and ?result = "buildCallToolResult (tc_Response tc)"
  obtain a1 a2 where a1: "cel_request_phase env reqT e tc no_actual = Inr a1"
    and a2: "cel_response_phase env lib respT e tc a1 = Inr a2"
    and d: "act_Decision a2 = gateway_decision env lib ps rps tc" "act_RedactedContent a2 = gateway_redaction env lib rps tc"
  proof (cases "tc_Phase tc = ''response''")
    case True
    then have "cel_request_phase env reqT e tc no_actual = Inr no_actual" by (simp add: cel_request_phase_def)
    moreover from assms(2) True obtain a where "cel_response_phase env lib respT e tc no_actual = Inr a"
      "act_Decision a = gateway_decision env lib ps rps tc" "act_RedactedContent a = gateway_redaction env lib rps tc"
      by (rule_tac cel_response_phase_decision [of e rps tc env lib respT no_actual]) (auto simp: gateway_decision_def Let_def)
    ultimately show thesis by (rule that)
  next
    case False
    with assms(3) have ph: "tc_Phase tc \<in> {''request'', ''both''}" by simp
    from cel_request_phase_decision [OF assms(1) ph, of env reqT no_actual] obtain a where
      a: "cel_request_phase env reqT e tc no_actual = Inr a" "act_RedactedContent a = ''''"
        "act_Decision a = request_decision env ps ?req" by blast
    show thesis
    proof (cases "tc_Phase tc = ''request''")
      case True
      with a show thesis
        by (intro that [of a a]) (auto simp: cel_response_phase_def gateway_decision_def gateway_redaction_def Let_def)
    next
      case both: False
      with ph have ph: "tc_Phase tc = ''both''" by simp
      from assms(2) ph obtain b where b: "cel_response_phase env lib respT e tc a = Inr (mergeActualResults a b)"
        "act_Decision b = response_decision env lib rps ?req ?result" "act_RedactedContent b = gateway_redaction env lib rps tc"
        by (rule_tac cel_response_phase_decision [of e rps tc env lib respT a]) auto
      have "act_Decision (mergeActualResults a b) = gateway_decision env lib ps rps tc"
        using merged_decision [OF _ response_decision_values a(3) b(2)] ph
        by (auto simp: request_decision_def gateway_decision_def Let_def split: decision.splits)
      moreover have "act_RedactedContent (mergeActualResults a b) = gateway_redaction env lib rps tc"
        using a(2) b(3) by (simp add: mergeActualResults_def Let_def)
      ultimately show thesis using a(1) b(1) that by blast
    qed
  qed
  show ?thesis
    using a1 a2 d assms(4)
    by (auto simp: executeCELTest_def judge_status expected_of_def expectation_met_def surprising_def Let_def)
qed

section \<open>Witness\<close>

definition example_env :: "(string, string) cel_env" where
  "example_env = \<lparr> cel_compile = Inr, cel_program = Inr, cel_eval = (\<lambda>prg vars. Inr (DBool (prg = ''true''))) \<rparr>"

definition example_rule :: CELPolicy where
  "example_rule = \<lparr> cp_Name = ''no'', cp_Description = '''', cp_MCPExpression = ''true'', cp_CLIExpression = '''',
     cp_Action = PolicyActionDeny, cp_Message = ''no'', cp_Mode = PolicyModeEnforce \<rparr>"

definition example_case :: TestCase where
  "example_case = \<lparr> tc_CaseID = ''1'', tc_Title = ''t'', tc_Tags = [], tc_Notes = [], tc_Phase = ''both'', tc_Engine = ''cel'',
     tc_Request = \<lparr> trq_ToolName = ''rm'', trq_Arguments = DMap [] \<rparr>, tc_Response = None,
     tc_Expectations = \<lparr> ex_Decision = ''deny'', ex_Policies = [], ex_RedactedContent = [] \<rparr> \<rparr>"

definition example_suite :: Suite where
  "example_suite = \<lparr> su_Version = ''v1'', su_BundleID = ''s'', su_Description = '''', su_Providers = [],
     su_Policies = \<lparr> spc_CELRequestRules = ''r.yaml'', spc_AIRequestRules = '''', spc_CELResponseRules = '''', spc_AIResponseRules = '''' \<rparr>,
     su_Acceptance = \<lparr> acc_MinMatchRate = 1, acc_StrictPolicyMatch = None, acc_StabilityThreshold = None \<rparr>,
     su_Execution = \<lparr> exe_TimeoutMs = 0, exe_MaxTestDurationMs = 0, exe_Retries = 0, exe_RetryDelayMs = 0,
       exe_RateLimits = [], exe_DelayBetweenRequestsMs = 0, exe_RateLimitBufferMs = 0, exe_HistoryDepth = 0 \<rparr>,
     su_Engines = \<lparr> eng_CEL = \<lparr> scel_Enabled = True \<rparr>, eng_AI = \<lparr> sai_Enabled = False, sai_ModelMatrix = [] \<rparr> \<rparr> \<rparr>"

lemma cel_test_predicts_gateway_witness:
  "tr_Status (executeCELTest example_env \<lparr> re_Compile = \<lambda>s. Inr s, re_ReplaceAllString = \<lambda>re body repl. repl \<rparr> (\<lambda>s. s)
     (\<lambda>_ _. 0) (\<lambda>_ _. 0) (\<lambda>_ _. 0)
     \<lparr> xc_suite = example_suite, xc_celEngine = Some [example_rule], xc_celResponseEngine = Some [], xc_includeDisabled = False \<rparr>
     example_case) = ''passed''"
proof -
  let ?lib = "\<lparr> re_Compile = \<lambda>s. Inr s, re_ReplaceAllString = \<lambda>re body repl. repl \<rparr> :: string regexp_lib"
  let ?e = "\<lparr> xc_suite = example_suite, xc_celEngine = Some [example_rule], xc_celResponseEngine = Some [], xc_includeDisabled = False \<rparr>"
  have "gateway_decision example_env ?lib [example_rule] [] example_case = ''deny''"
    by (simp add: gateway_decision_def request_decision_def example_case_def cel_decide_def stops_def mcp_outcome_def
        expr_outcome_def run_outcome_def example_env_def example_rule_def IsAuditOnly_def Let_def)
  then show ?thesis
    using cel_test_predicts_gateway [of ?e "[example_rule]" "[]" example_case example_env ?lib "\<lambda>s. s" "\<lambda>_ _. 0" "\<lambda>_ _. 0" "\<lambda>_ _. 0"]
    by (simp add: example_case_def extractExpectedRedactedContent_def)
qed

end
