(* ===== verification/SuiteLoading.thy ===== *)
theory SuiteLoading
  imports SuiteState SuiteExecutor
begin

text \<open>
  The first half of a run of the policy test suite (\<^verbatim>\<open>internal/testsuite/runner.go\<close>, \<^verbatim>\<open>errors.go\<close>):
  reading and validating the suite file and the test cases, checking that the rules the cases refer to
  exist, hashing the rules, and the coverage report. The file system, YAML, JSON, SHA-256 and the order
  in which Go iterates over a map are parameters.
\<close>

section \<open>Errors\<close>

datatype suite_error =
    SchemaValidationError string "string list"
  | PolicyIntegrityError string string
  | PathResolutionError string string
  | OtherSuiteError string
  | ExecutorError executor_error

text \<open>\<open>q\<close> is \<^verbatim>\<open>strconv.Quote\<close>; a slice is printed in brackets.\<close>

fun suite_error_text :: "(string \<Rightarrow> string) \<Rightarrow> (executor_error \<Rightarrow> string) \<Rightarrow> suite_error \<Rightarrow> string" where
  "suite_error_text q x (SchemaValidationError message details) =
     (if length details = 0 then ''schema validation error: '' @ message
      else ''schema validation error: '' @ message @ nl @ ''['' @ join_with '' '' details @ '']'')"
| "suite_error_text q x (PolicyIntegrityError message details) =
     (if details = '''' then ''policy integrity error: '' @ message
      else ''policy integrity error: '' @ message @ nl @ nl @ details)"
| "suite_error_text q x (PathResolutionError path message) =
     ''path resolution error for '' @ q path @ '': '' @ message"
| "suite_error_text q x (OtherSuiteError message) = message"
| "suite_error_text q x (ExecutorError err) = x err"

section \<open>The runner\<close>

record suite_lib =
  slb_fs :: suite_fs
  slb_Abs :: "string \<Rightarrow> string + string"
  slb_IsNotExist :: "string \<Rightarrow> bool"
  slb_ReadFile :: "string \<Rightarrow> string + string"
  slb_YamlSuite :: "string \<Rightarrow> string + Suite"
  slb_YamlCases :: "string \<Rightarrow> string + TestCase list"
  slb_YamlCase :: "string \<Rightarrow> string + TestCase"
  slb_JsonCase :: "string \<times> string \<times> RequestConfig \<times> ResponseConfig option \<times> ExpectationsConfig \<Rightarrow> string + string"
  slb_Sha256Hex :: "string \<Rightarrow> string"
  slb_Quote :: "string \<Rightarrow> string"
  slb_FmtF :: "rat \<Rightarrow> string"
  slb_MapOrder :: "string list \<Rightarrow> string list"

text \<open>\<open>rn_suite\<close> is nil until the suite is loaded, and not read before; here it is an empty suite.\<close>

record Runner =
  rn_opts :: RunnerOptions
  rn_suite :: Suite
  rn_testCases :: "TestCase list"
  rn_testCaseHashes :: "(string \<times> string) list"
  rn_testCaseFiles :: "(string \<times> string) list"
  rn_policyHashes :: "string list option"
  rn_suiteDir :: string
  rn_stateManager :: "StateManager option"

definition no_suite :: Suite where
  "no_suite = \<lparr> su_Version = '''', su_BundleID = '''', su_Description = '''', su_Providers = [],
     su_Policies = \<lparr> spc_CELRequestRules = '''', spc_AIRequestRules = '''', spc_CELResponseRules = '''',
       spc_AIResponseRules = '''' \<rparr>,
     su_Acceptance = \<lparr> acc_MinMatchRate = 0, acc_StrictPolicyMatch = None, acc_StabilityThreshold = None \<rparr>,
     su_Execution = \<lparr> exe_TimeoutMs = 0, exe_MaxTestDurationMs = 0, exe_Retries = 0, exe_RetryDelayMs = 0,
       exe_RateLimits = [], exe_DelayBetweenRequestsMs = 0, exe_RateLimitBufferMs = 0, exe_HistoryDepth = 0 \<rparr>,
     su_Engines = \<lparr> eng_CEL = \<lparr> scel_Enabled = False \<rparr>, eng_AI = \<lparr> sai_Enabled = False, sai_ModelMatrix = [] \<rparr> \<rparr> \<rparr>"

definition NewRunner :: "suite_lib \<Rightarrow> RunnerOptions \<Rightarrow> suite_error + Runner" where
  "NewRunner L opts =
     (case slb_Abs L (opt_SuiteDir opts) of
        Inl err \<Rightarrow> Inl (PathResolutionError (opt_SuiteDir opts) (''failed to resolve absolute path: '' @ err))
      | Inr absDir \<Rightarrow>
      (case sfs_Stat (slb_fs L) absDir of
        Inl err \<Rightarrow> Inl (PathResolutionError (opt_SuiteDir opts) (''directory does not exist: '' @ err))
      | Inr isDir \<Rightarrow>
          if \<not> isDir then Inl (PathResolutionError (opt_SuiteDir opts) ''path is not a directory'')
          else Inr \<lparr> rn_opts = opts, rn_suite = no_suite, rn_testCases = [], rn_testCaseHashes = [],
                     rn_testCaseFiles = [], rn_policyHashes = None, rn_suiteDir = absDir, rn_stateManager = None \<rparr>))"

section \<open>The suite file\<close>

definition rate_error :: "suite_lib \<Rightarrow> string \<Rightarrow> rat \<Rightarrow> string list" where
  "rate_error L name r =
     err_if (r < 0 \<or> r > 1) (''acceptance.'' @ name @ '' must be between 0.0 and 1.0, got '' @ slb_FmtF L r)"

definition model_errors :: "nat \<Rightarrow> ModelConfig \<Rightarrow> string list" where
  "model_errors i model =
     (let entry = ''engines.ai.model_matrix['' @ Itoa (int i) @ '']'' in
      (if mo_Provider model = '''' then [entry @ ''.provider is required'']
       else if mo_Provider model \<noteq> ''openai'' \<and> mo_Provider model \<noteq> ''anthropic'' \<and>
               mo_Provider model \<noteq> ''openai_compatible''
       then [entry @ ''.provider must be openai, anthropic, or openai_compatible''] else []) @
      err_if (mo_Model model = '''') (entry @ ''.model is required''))"

definition suite_errors :: "suite_lib \<Rightarrow> Suite \<Rightarrow> string list" where
  "suite_errors L suite =
     (let p = su_Policies suite; a = su_Acceptance suite; ai = eng_AI (su_Engines suite);
          matrix = sai_ModelMatrix ai in
      (if su_Version suite = '''' then [''version is required'']
       else if su_Version suite \<noteq> ''v1''
       then [''unsupported version '' @ slb_Quote L (su_Version suite) @ '', expected '' @ dquoted ''v1''] else []) @
      err_if (su_BundleID suite = '''') ''bundle_id is required'' @
      err_if (spc_CELRequestRules p = '''' \<and> spc_AIRequestRules p = '''' \<and> spc_CELResponseRules p = '''' \<and>
              spc_AIResponseRules p = '''') ''at least one policy source must be configured in policies'' @
      rate_error L ''min_match_rate'' (acc_MinMatchRate a) @
      (case acc_StabilityThreshold a of Some st \<Rightarrow> rate_error L ''stability_threshold'' st | None \<Rightarrow> []) @
      err_if (sai_Enabled ai \<and> length matrix = 0)
        ''engines.ai.model_matrix must have at least one entry when AI engine is enabled'' @
      concat (map2 model_errors [0..<length matrix] matrix))"

definition validateSuiteSchema :: "suite_lib \<Rightarrow> Suite \<Rightarrow> suite_error option" where
  "validateSuiteSchema L suite =
     (let errors = suite_errors L suite
      in if length errors > 0 then Some (SchemaValidationError ''suite.yaml validation failed'' errors) else None)"

definition loadSuite :: "suite_lib \<Rightarrow> Runner \<Rightarrow> suite_error + Runner" where
  "loadSuite L r =
     (let suitePath = path_join (rn_suiteDir r) ''suite.yaml'' in
      case slb_ReadFile L suitePath of
        Inl err \<Rightarrow> Inl (PathResolutionError suitePath (''failed to read suite.yaml: '' @ err))
      | Inr data \<Rightarrow>
      (case slb_YamlSuite L data of
        Inl err \<Rightarrow> Inl (SchemaValidationError (''failed to parse suite.yaml: '' @ err) [])
      | Inr suite \<Rightarrow>
      (case validateSuiteSchema L suite of
        Some err \<Rightarrow> Inl err
      | None \<Rightarrow> Inr (r\<lparr> rn_suite := suite \<rparr>))))"

section \<open>Test cases\<close>

definition with_defaults :: "TestCase \<Rightarrow> TestCase" where
  "with_defaults tc =
     (let tc1 = (if tc_Phase tc = '''' then tc\<lparr> tc_Phase := ''request'' \<rparr> else tc)
      in if tc_Engine tc1 = '''' then tc1\<lparr> tc_Engine := ''both'' \<rparr> else tc1)"

definition decision_ok :: "string \<Rightarrow> bool" where
  "decision_ok d \<longleftrightarrow> \<not> (d \<noteq> ''allow'' \<and> d \<noteq> ''deny'' \<and> d \<noteq> ''redact'')"

definition expectation_errors :: "nat \<Rightarrow> PolicyExpectation \<Rightarrow> string list" where
  "expectation_errors i pe =
     (let entry = ''expectations.policies['' @ Itoa (int i) @ '']'' in
      err_if (px_PolicyName pe = '''') (entry @ ''.policy_name is required'') @
      err_if (\<not> decision_ok (px_Decision pe)) (entry @ ''.decision must be allow, deny, or redact''))"

definition test_case_errors :: "suite_lib \<Rightarrow> TestCase \<Rightarrow> string list" where
  "test_case_errors L tc =
     (let q = slb_Quote L; ex = tc_Expectations tc; pes = ex_Policies ex in
      err_if (tc_CaseID tc = '''') ''case_id is required'' @
      err_if (tc_Title tc = '''') ''title is required'' @
      err_if (tc_Phase tc \<noteq> ''request'' \<and> tc_Phase tc \<noteq> ''response'' \<and> tc_Phase tc \<noteq> ''both'')
        (''phase must be request, response, or both, got '' @ q (tc_Phase tc)) @
      err_if (tc_Engine tc \<noteq> ''cel'' \<and> tc_Engine tc \<noteq> ''ai'' \<and> tc_Engine tc \<noteq> ''both'')
        (''engine must be cel, ai, or both, got '' @ q (tc_Engine tc)) @
      err_if (trq_ToolName (tc_Request tc) = '''') ''request.tool_name is required'' @
      (if ex_Decision ex = '''' then [''expectations.decision is required'']
       else err_if (\<not> decision_ok (ex_Decision ex))
         (''expectations.decision must be allow, deny, or redact, got '' @ q (ex_Decision ex))) @
      err_if ((tc_Phase tc = ''response'' \<or> tc_Phase tc = ''both'') \<and> tc_Response tc = None)
        ''response is required when phase is response or both'' @
      concat (map2 expectation_errors [0..<length pes] pes))"

definition validateTestCaseSchema :: "suite_lib \<Rightarrow> string \<Rightarrow> TestCase \<Rightarrow> suite_error option" where
  "validateTestCaseSchema L path tc =
     (let errors = test_case_errors L tc
      in if length errors > 0 then Some (SchemaValidationError (''test case validation failed: '' @ path) errors)
         else None)"

text \<open>The loop over the cases of a list file, which returns at the first case that is not valid.\<close>

fun validate_cases :: "suite_lib \<Rightarrow> string \<Rightarrow> TestCase list \<Rightarrow> suite_error + TestCase list" where
  "validate_cases L path [] = Inr []"
| "validate_cases L path (tc # cases) =
     (case validateTestCaseSchema L path (with_defaults tc) of
        Some err \<Rightarrow> Inl err
      | None \<Rightarrow> (case validate_cases L path cases of
          Inl err \<Rightarrow> Inl err
        | Inr rest \<Rightarrow> Inr (with_defaults tc # rest)))"

definition parseTestCases :: "suite_lib \<Rightarrow> string \<Rightarrow> suite_error + TestCase list" where
  "parseTestCases L path =
     (case slb_ReadFile L path of
        Inl err \<Rightarrow> Inl (PathResolutionError path (''failed to read test case: '' @ err))
      | Inr data \<Rightarrow>
          let single = (case slb_YamlCase L data of
                Inl err \<Rightarrow> Inl (SchemaValidationError (''failed to parse test case '' @ path @ '': '' @ err) [])
              | Inr tc \<Rightarrow> (case validateTestCaseSchema L path (with_defaults tc) of
                  Some err \<Rightarrow> Inl err
                | None \<Rightarrow> Inr [with_defaults tc]))
          in case slb_YamlCases L data of
               Inr cases \<Rightarrow> if length cases > 0 then validate_cases L path cases else single
             | Inl _ \<Rightarrow> single)"

definition ComputeContentHash :: "suite_lib \<Rightarrow> string \<Rightarrow> string" where
  "ComputeContentHash L data = ''sha256:'' @ slb_Sha256Hex L data"

definition ComputePolicyHash :: "suite_lib \<Rightarrow> string \<Rightarrow> string" where
  "ComputePolicyHash L policyYAML = ''sha256:'' @ slb_Sha256Hex L policyYAML"

definition ComputeTestCaseHash :: "suite_lib \<Rightarrow> TestCase \<Rightarrow> string + string" where
  "ComputeTestCaseHash L tc =
     (case slb_JsonCase L (tc_Phase tc, tc_Engine tc, tc_Request tc, tc_Response tc, tc_Expectations tc) of
        Inl err \<Rightarrow> Inl (''failed to marshal test case '' @ slb_Quote L (tc_CaseID tc) @ '' for hashing: '' @ err)
      | Inr data \<Rightarrow> Inr (ComputeContentHash L data))"

text \<open>\<^verbatim>\<open>filepath.WalkDir\<close> with a function that collects the YAML files.\<close>

fun yaml_files :: "(string \<times> (string + bool)) list \<Rightarrow> string list \<Rightarrow> string + string list" where
  "yaml_files [] caseFiles = Inr caseFiles"
| "yaml_files ((path, d) # rest) caseFiles =
     (case d of
        Inl err \<Rightarrow> Inl err
      | Inr isDir \<Rightarrow> yaml_files rest (if \<not> isDir \<and> is_yaml path then caseFiles @ [path] else caseFiles))"

text \<open>
  The two nested loops. The maps \<^verbatim>\<open>seenIDs\<close> and \<^verbatim>\<open>testCaseFiles\<close> always have the same entries: here they
  are one.
\<close>

type_synonym discovered = "(string \<times> string) list \<times> (string \<times> string) list \<times> TestCase list"

fun add_cases :: "suite_lib \<Rightarrow> string \<Rightarrow> discovered \<Rightarrow> TestCase list \<Rightarrow> suite_error + discovered" where
  "add_cases L path acc [] = Inr acc"
| "add_cases L path (seen, hashes, testCases) (tc # cases) =
     (case map_of seen (tc_CaseID tc) of
        Some existingPath \<Rightarrow>
          Inl (SchemaValidationError (''duplicate case_id '' @ slb_Quote L (tc_CaseID tc))
                 [''First occurrence: '' @ existingPath, ''Duplicate: '' @ path])
      | None \<Rightarrow> (case ComputeTestCaseHash L tc of
          Inl err \<Rightarrow> Inl (OtherSuiteError (''case '' @ slb_Quote L (tc_CaseID tc) @ '' in '' @ path @ '': '' @ err))
        | Inr hash \<Rightarrow>
            add_cases L path (AList.update (tc_CaseID tc) path seen, AList.update (tc_CaseID tc) hash hashes,
              testCases @ [tc]) cases))"

fun add_files :: "suite_lib \<Rightarrow> discovered \<Rightarrow> string list \<Rightarrow> suite_error + discovered" where
  "add_files L acc [] = Inr acc"
| "add_files L acc (path # paths) =
     (case parseTestCases L path of
        Inl err \<Rightarrow> Inl err
      | Inr cases \<Rightarrow> (case add_cases L path acc cases of
          Inl err \<Rightarrow> Inl err
        | Inr acc' \<Rightarrow> add_files L acc' paths))"

definition discoverTestCases :: "suite_lib \<Rightarrow> Runner \<Rightarrow> suite_error + Runner" where
  "discoverTestCases L r =
     (let casesDir = path_join (rn_suiteDir r) ''cases'' in
      case sfs_Stat (slb_fs L) casesDir of
        Inl err \<Rightarrow>
          Inl (PathResolutionError casesDir (if slb_IsNotExist L err then ''cases directory does not exist''
                 else ''failed to stat cases directory: '' @ err))
      | Inr isDir \<Rightarrow>
          if \<not> isDir then Inl (PathResolutionError casesDir ''cases path is not a directory'')
          else case yaml_files (sfs_Walk (slb_fs L) casesDir) [] of
            Inl err \<Rightarrow> Inl (PathResolutionError casesDir (''failed to walk cases directory: '' @ err))
          | Inr caseFiles \<Rightarrow> (case add_files L ([], [], []) caseFiles of
              Inl err \<Rightarrow> Inl err
            | Inr (files, hashes, testCases) \<Rightarrow>
                Inr (r\<lparr> rn_testCases := testCases, rn_testCaseHashes := hashes, rn_testCaseFiles := files \<rparr>)))"

section \<open>The rules the cases refer to\<close>

text \<open>The loaders of the four kinds of rules, with their names in messages and reports.\<close>

record policyInfo =
  pinfo_name :: string
  pinfo_engine :: string
  pinfo_enabled :: bool

definition load_infos ::
  "string \<Rightarrow> string \<Rightarrow> string \<Rightarrow> ('r \<Rightarrow> string) \<Rightarrow> ('r \<Rightarrow> bool) \<Rightarrow> string + 'r list \<Rightarrow> string \<Rightarrow>
     suite_error + policyInfo list" where
  "load_infos what why engine name enabled loaded path =
     (if path = '''' then Inr []
      else case loaded of
        Inl err \<Rightarrow> Inl (OtherSuiteError (''failed to load '' @ what @ '' rules'' @ why @ '': '' @ err))
      | Inr policies \<Rightarrow>
          Inr (map (\<lambda>p. \<lparr> pinfo_name = name p, pinfo_engine = engine, pinfo_enabled = enabled p \<rparr>) policies))"

definition load_all_infos :: "suite_lib \<Rightarrow> string \<Rightarrow> Runner \<Rightarrow>
    suite_error + policyInfo list \<times> policyInfo list \<times> policyInfo list \<times> policyInfo list" where
  "load_all_infos L why r =
     (let p = su_Policies (rn_suite r); F = slb_fs L; dir = rn_suiteDir r in
      case load_infos ''CEL request'' why ''cel_request'' p_Name Policy_IsEnabled
             (loadPoliciesFromPath F (spc_CELRequestRules p) dir) (spc_CELRequestRules p) of
        Inl err \<Rightarrow> Inl err
      | Inr celReq \<Rightarrow>
      (case load_infos ''AI request'' why ''ai_request'' cap_Name AIPolicy_IsEnabled
             (loadAIPoliciesFromPath F (spc_AIRequestRules p) dir) (spc_AIRequestRules p) of
        Inl err \<Rightarrow> Inl err
      | Inr aiReq \<Rightarrow>
      (case load_infos ''CEL response'' why ''cel_response'' rp_Name ResponsePolicy_IsEnabled
             (loadResponsePoliciesFromPath F (spc_CELResponseRules p) dir) (spc_CELResponseRules p) of
        Inl err \<Rightarrow> Inl err
      | Inr celResp \<Rightarrow>
      (case load_infos ''AI response'' why ''ai_response'' carp_Name AIResponsePolicy_IsEnabled
             (loadAIResponsePoliciesFromPath F (spc_AIResponseRules p) dir) (spc_AIResponseRules p) of
        Inl err \<Rightarrow> Inl err
      | Inr aiResp \<Rightarrow> Inr (celReq, aiReq, celResp, aiResp)))))"

definition loadAllPoliciesWithStatus :: "suite_lib \<Rightarrow> Runner \<Rightarrow> suite_error + policyInfo list" where
  "loadAllPoliciesWithStatus L r =
     (case load_all_infos L '''' r of
        Inl err \<Rightarrow> Inl err
      | Inr (celReq, aiReq, celResp, aiResp) \<Rightarrow> Inr (celReq @ aiReq @ celResp @ aiResp))"

record policyNameSets =
  pns_celRequest :: "string list"
  pns_aiRequest :: "string list"
  pns_celResponse :: "string list"
  pns_aiResponse :: "string list"

definition loadPolicyNames :: "suite_lib \<Rightarrow> Runner \<Rightarrow> suite_error + policyNameSets" where
  "loadPolicyNames L r =
     (case load_all_infos L '' for integrity check'' r of
        Inl err \<Rightarrow> Inl err
      | Inr (celReq, aiReq, celResp, aiResp) \<Rightarrow>
          Inr \<lparr> pns_celRequest = remdups (map pinfo_name celReq), pns_aiRequest = remdups (map pinfo_name aiReq),
                pns_celResponse = remdups (map pinfo_name celResp), pns_aiResponse = remdups (map pinfo_name aiResp) \<rparr>)"

definition formatPolicyNames :: "suite_lib \<Rightarrow> string list \<Rightarrow> string" where
  "formatPolicyNames L names =
     (if length names = 0 then ''(none)'' else join_with '', '' (slb_MapOrder L names))"

text \<open>The sets that are checked for a case, with their names.\<close>

definition checked_sets :: "policyNameSets \<Rightarrow> TestCase \<Rightarrow> (string \<times> string list) list" where
  "checked_sets names tc =
     (let cel = (tc_Engine tc = ''cel'' \<or> tc_Engine tc = ''both'' \<or> tc_Engine tc = '''');
          ai = (tc_Engine tc = ''ai'' \<or> tc_Engine tc = ''both'' \<or> tc_Engine tc = '''') in
      (if tc_Phase tc = ''request'' \<or> tc_Phase tc = ''both'' \<or> tc_Phase tc = ''''
       then (if cel then [(''CEL request'', pns_celRequest names)] else []) @
            (if ai then [(''AI request'', pns_aiRequest names)] else []) else []) @
      (if tc_Phase tc = ''response'' \<or> tc_Phase tc = ''both''
       then (if cel then [(''CEL response'', pns_celResponse names)] else []) @
            (if ai then [(''AI response'', pns_aiResponse names)] else []) else []))"

definition reference_errors :: "suite_lib \<Rightarrow> policyNameSets \<Rightarrow> TestCase \<Rightarrow> string list" where
  "reference_errors L names tc =
     concat (map (\<lambda>pe.
       if px_PolicyName pe = '''' then []
       else err_if (\<not> list_ex (\<lambda>(_, s). px_PolicyName pe \<in> set s) (checked_sets names tc))
         (''test case '' @ slb_Quote L (tc_CaseID tc) @ '' references policy '' @ slb_Quote L (px_PolicyName pe) @
          '' but no such policy exists (checked: '' @ join_with '', '' (map fst (checked_sets names tc)) @ '')''))
       (ex_Policies (tc_Expectations tc)))"

definition loaded_lines :: "suite_lib \<Rightarrow> policyNameSets \<Rightarrow> string" where
  "loaded_lines L names =
     concat (map (\<lambda>(what, s). if length s > 0 then ''  '' @ what @ '': '' @ formatPolicyNames L s @ nl else '''')
       [(''CEL request'', pns_celRequest names), (''AI request'', pns_aiRequest names),
        (''CEL response'', pns_celResponse names), (''AI response'', pns_aiResponse names)])"

definition validatePolicyIntegrity :: "suite_lib \<Rightarrow> Runner \<Rightarrow> suite_error option" where
  "validatePolicyIntegrity L r =
     (case loadPolicyNames L r of
        Inl err \<Rightarrow> Some err
      | Inr policyNames \<Rightarrow>
          let errors = concat (map (reference_errors L policyNames) (rn_testCases r))
          in if length errors > 0
             then Some (PolicyIntegrityError (Itoa (int (length errors)) @ '' policy reference(s) not found'')
                    (''Policy integrity check failed:'' @ nl @ nl @
                     concat (map (\<lambda>e. ''  - '' @ e @ nl) errors) @ nl @ ''Loaded policies:'' @ nl @
                     loaded_lines L policyNames))
             else None)"

section \<open>Hashing the rules\<close>

text \<open>
  The walk of a directory: the hashes so far are returned together with an error, but the only caller
  drops them then.
\<close>

fun hash_files :: "suite_lib \<Rightarrow> string list \<Rightarrow> (string \<times> (string + bool)) list \<Rightarrow> string + string list" where
  "hash_files L hashes [] = Inr hashes"
| "hash_files L hashes ((p, d) # rest) =
     (case d of
        Inl err \<Rightarrow> Inl err
      | Inr isDir \<Rightarrow>
          if isDir then hash_files L hashes rest
          else if \<not> is_yaml p then hash_files L hashes rest
          else case slb_ReadFile L p of
            Inl err \<Rightarrow> Inl (''failed to read '' @ p @ '': '' @ err)
          | Inr data \<Rightarrow> hash_files L (hashes @ [ComputePolicyHash L data]) rest)"

definition hashPolicyPath :: "suite_lib \<Rightarrow> string \<Rightarrow> string + string list" where
  "hashPolicyPath L path =
     (case sfs_Stat (slb_fs L) path of
        Inl err \<Rightarrow> Inl (''failed to stat '' @ path @ '': '' @ err)
      | Inr isDir \<Rightarrow>
          if \<not> isDir then
            (case slb_ReadFile L path of
               Inl err \<Rightarrow> Inl (''failed to read '' @ path @ '': '' @ err)
             | Inr data \<Rightarrow> Inr [ComputePolicyHash L data])
          else hash_files L [] (sfs_Walk (slb_fs L) path))"

fun hash_paths :: "suite_lib \<Rightarrow> string \<Rightarrow> string list \<Rightarrow> string list \<Rightarrow> suite_error + string list" where
  "hash_paths L dir hashes [] = Inr hashes"
| "hash_paths L dir hashes (path # paths) =
     (if path = '''' then hash_paths L dir hashes paths
      else case hashPolicyPath L (resolvePath (slb_fs L) path dir) of
        Inl err \<Rightarrow> Inl (OtherSuiteError (''failed to hash policy path '' @ path @ '': '' @ err))
      | Inr fileHashes \<Rightarrow> hash_paths L dir (hashes @ fileHashes) paths)"

definition policy_paths :: "PoliciesConfig \<Rightarrow> string list" where
  "policy_paths p = [spc_CELRequestRules p, spc_AIRequestRules p, spc_CELResponseRules p, spc_AIResponseRules p]"

text \<open>The slice stays nil when there is no hash.\<close>

definition computePolicyHashes :: "suite_lib \<Rightarrow> Runner \<Rightarrow> suite_error + Runner" where
  "computePolicyHashes L r =
     (case hash_paths L (rn_suiteDir r) [] (policy_paths (su_Policies (rn_suite r))) of
        Inl err \<Rightarrow> Inl err
      | Inr hashes \<Rightarrow> Inr (r\<lparr> rn_policyHashes := (if hashes = [] then None else Some (sort hashes)) \<rparr>))"

section \<open>The coverage report\<close>

record PolicyCoverageItem =
  pci_Name :: string
  pci_Engine :: string

record CoverageReport =
  cov_TotalPolicies :: int
  cov_PoliciesWithTests :: int
  cov_PoliciesWithoutTests :: "PolicyCoverageItem list"
  cov_DisabledSkipped :: "PolicyCoverageItem list"

definition coverage_item :: "policyInfo \<Rightarrow> PolicyCoverageItem" where
  "coverage_item p = \<lparr> pci_Name = pinfo_name p, pci_Engine = pinfo_engine p \<rparr>"

definition referenced_policies :: "TestCase list \<Rightarrow> string list" where
  "referenced_policies cases =
     filter (\<lambda>n. n \<noteq> '''') (concat (map (\<lambda>tc. map px_PolicyName (ex_Policies (tc_Expectations tc))) cases))"

definition cover_policy :: "bool \<Rightarrow> CoverageReport \<times> policyInfo list \<Rightarrow> policyInfo \<Rightarrow> CoverageReport \<times> policyInfo list" where
  "cover_policy includeDisabled acc p =
     (case acc of (report, enabledPolicies) \<Rightarrow>
        if pinfo_enabled p \<or> includeDisabled
        then (report\<lparr> cov_TotalPolicies := cov_TotalPolicies report + 1 \<rparr>, enabledPolicies @ [p])
        else (report\<lparr> cov_DisabledSkipped := cov_DisabledSkipped report @ [coverage_item p] \<rparr>, enabledPolicies))"

definition cover_enabled :: "string list \<Rightarrow> CoverageReport \<Rightarrow> policyInfo \<Rightarrow> CoverageReport" where
  "cover_enabled referenced report p =
     (if pinfo_name p \<in> set referenced
      then report\<lparr> cov_PoliciesWithTests := cov_PoliciesWithTests report + 1 \<rparr>
      else report\<lparr> cov_PoliciesWithoutTests := cov_PoliciesWithoutTests report @ [coverage_item p] \<rparr>)"

definition generateCoverageReport :: "suite_lib \<Rightarrow> Runner \<Rightarrow> suite_error + CoverageReport" where
  "generateCoverageReport L r =
     (case loadAllPoliciesWithStatus L r of
        Inl err \<Rightarrow> Inl err
      | Inr allPolicies \<Rightarrow>
          (case foldl (cover_policy (opt_IncludeDisabled (rn_opts r)))
             (\<lparr> cov_TotalPolicies = 0, cov_PoliciesWithTests = 0, cov_PoliciesWithoutTests = [],
                cov_DisabledSkipped = [] \<rparr>, []) allPolicies of
           (report, enabledPolicies) \<Rightarrow>
             Inr (foldl (cover_enabled (referenced_policies (rn_testCases r))) report enabledPolicies)))"

section \<open>What is discovered\<close>

definition hashable :: "suite_lib \<Rightarrow> TestCase \<Rightarrow> bool" where
  "hashable L tc \<longleftrightarrow> \<not> isl (ComputeTestCaseHash L tc)"

definition ids_of :: "TestCase list \<Rightarrow> string list" where
  "ids_of cases = map tc_CaseID cases"

definition maps_ok :: "suite_lib \<Rightarrow> discovered \<Rightarrow> bool" where
  "maps_ok L acc \<longleftrightarrow> (case acc of (seen, hashes, testCases) \<Rightarrow>
     distinct (ids_of testCases) \<and> dom (map_of seen) = set (ids_of testCases) \<and>
     list_all (\<lambda>tc. hashable L tc \<and> map_of hashes (tc_CaseID tc) = Some (projr (ComputeTestCaseHash L tc))) testCases)"

lemma maps_ok_add:
  assumes "maps_ok L (seen, hashes, testCases)" "tc_CaseID tc \<notin> set (ids_of testCases)"
    "ComputeTestCaseHash L tc = Inr hash"
  shows "maps_ok L (AList.update (tc_CaseID tc) path seen, AList.update (tc_CaseID tc) hash hashes, testCases @ [tc])"
  using assms by (auto simp: maps_ok_def ids_of_def hashable_def list_all_iff update_conv') (metis imageI)

lemma add_cases_exact:
  assumes "maps_ok L acc"
  shows "case add_cases L path acc cases of
     Inl _ \<Rightarrow> \<not> (distinct (ids_of (snd (snd acc)) @ ids_of cases) \<and> list_all (hashable L) cases)
   | Inr acc' \<Rightarrow> maps_ok L acc' \<and> snd (snd acc') = snd (snd acc) @ cases"
  using assms
proof (induction L path acc cases rule: add_cases.induct)
  case (2 L path seen hashes testCases tc cases)
  note ok = 2(2)
  show ?case
  proof (cases "map_of seen (tc_CaseID tc)")
    case (Some p)
    with ok have "tc_CaseID tc \<in> set (ids_of testCases)" by (auto simp: maps_ok_def)
    with Some show ?thesis by (auto simp: ids_of_def)
  next
    case None
    with ok have new: "tc_CaseID tc \<notin> set (ids_of testCases)" by (auto simp: maps_ok_def domIff)
    show ?thesis
    proof (cases "ComputeTestCaseHash L tc")
      case (Inl err)
      with None show ?thesis by (simp add: hashable_def)
    next
      case (Inr hash)
      note IH = 2(1) [OF None Inr maps_ok_add [OF ok new Inr]]
      have "distinct (ids_of (testCases @ [tc]) @ ids_of cases) =
          distinct (ids_of testCases @ ids_of (tc # cases))" "hashable L tc"
        using Inr by (auto simp: ids_of_def hashable_def)
      with IH None Inr show ?thesis
        by (auto split: sum.splits)
    qed
  qed
qed simp

lemma validate_cases_exact:
  "case validate_cases L path cases of
     Inl _ \<Rightarrow> \<not> list_all (\<lambda>tc. test_case_errors L (with_defaults tc) = []) cases
   | Inr cases' \<Rightarrow> cases' = map with_defaults cases \<and> list_all (\<lambda>tc. test_case_errors L tc = []) cases'"
  by (induction L path cases rule: validate_cases.induct)
    (auto simp: validateTestCaseSchema_def Let_def split: sum.splits option.splits if_splits)

lemma parseTestCases_valid:
  "parseTestCases L path = Inr cases \<Longrightarrow> list_all (\<lambda>tc. test_case_errors L tc = []) cases"
  using validate_cases_exact [where L = L and path = path and cases = "projr (slb_YamlCases L (projr (slb_ReadFile L path)))"]
  by (auto simp: parseTestCases_def Let_def validateTestCaseSchema_def split: sum.splits option.splits if_splits)

text \<open>The cases of the files, in order, when all files can be read.\<close>

definition parsed_cases :: "suite_lib \<Rightarrow> string list \<Rightarrow> TestCase list" where
  "parsed_cases L paths = concat (map (\<lambda>p. projr (parseTestCases L p)) paths)"

lemma add_files_exact:
  assumes "maps_ok L acc"
  shows "case add_files L acc paths of
     Inl _ \<Rightarrow> \<not> (list_all (\<lambda>p. \<not> isl (parseTestCases L p)) paths \<and>
         distinct (ids_of (snd (snd acc)) @ ids_of (parsed_cases L paths)) \<and>
         list_all (hashable L) (parsed_cases L paths))
   | Inr acc' \<Rightarrow> maps_ok L acc' \<and> snd (snd acc') = snd (snd acc) @ parsed_cases L paths \<and>
       list_all (\<lambda>p. \<not> isl (parseTestCases L p)) paths"
  using assms
proof (induction L acc paths rule: add_files.induct)
  case (1 L acc)
  then show ?case by (simp add: parsed_cases_def)
next
  case (2 L acc path paths)
  show ?case
  proof (cases "parseTestCases L path")
    case (Inl err)
    then show ?thesis by simp
  next
    case p: (Inr cases)
    then have c: "parsed_cases L (path # paths) = cases @ parsed_cases L paths" by (simp add: parsed_cases_def)
    note a = add_cases_exact [OF 2(2), where path = path and cases = cases]
    show ?thesis
    proof (cases "add_cases L path acc cases")
      case (Inl err)
      with a p c show ?thesis by (auto simp: ids_of_def)
    next
      case (Inr acc')
      with a have a': "maps_ok L acc'" "snd (snd acc') = snd (snd acc) @ cases" by simp_all
      have "ids_of (snd (snd acc')) @ ids_of (parsed_cases L paths) =
          ids_of (snd (snd acc)) @ ids_of (parsed_cases L (path # paths))"
        by (simp add: a' c ids_of_def)
      then show ?thesis
        using 2(1) [OF p Inr a'(1)] p Inr a'(2) c by (auto split: sum.splits)
    qed
  qed
qed

lemma yaml_files_exact:
  "yaml_files steps acc =
     (case filter (isl \<circ> snd) steps of
        (_, d) # _ \<Rightarrow> Inl (projl d)
      | [] \<Rightarrow> Inr (acc @ map fst (filter (\<lambda>(path, d). \<not> projr d \<and> is_yaml path) steps)))"
  by (induction steps acc rule: yaml_files.induct) (auto split: sum.splits list.splits)

text \<open>
  The YAML files below a directory, in the order of the walk, if it is a directory and the walk meets no
  error; and the cases of a suite: they are those of all these files, which can all be read and decoded
  into valid cases, no two cases have the same id, and all can be hashed.
\<close>

definition case_files :: "suite_lib \<Rightarrow> string \<Rightarrow> string list option" where
  "case_files L dir =
     (case sfs_Stat (slb_fs L) dir of
        Inl err \<Rightarrow> None
      | Inr isDir \<Rightarrow>
          if isDir \<and> list_all (\<lambda>(path, d). \<not> isl d) (sfs_Walk (slb_fs L) dir)
          then Some (map fst (filter (\<lambda>(path, d). \<not> projr d \<and> is_yaml path) (sfs_Walk (slb_fs L) dir)))
          else None)"

definition valid_cases :: "suite_lib \<Rightarrow> string \<Rightarrow> TestCase list \<Rightarrow> bool" where
  "valid_cases L dir cases \<longleftrightarrow>
     (\<exists>paths. case_files L dir = Some paths \<and> list_all (\<lambda>p. \<not> isl (parseTestCases L p)) paths \<and>
       cases = parsed_cases L paths \<and> distinct (ids_of cases) \<and> list_all (hashable L) cases)"

lemma discoverTestCases_files:
  "discoverTestCases L r =
     (let dir = path_join (rn_suiteDir r) ''cases'' in
      case case_files L dir of
        None \<Rightarrow> Inl (projl (discoverTestCases L r))
      | Some paths \<Rightarrow> (case add_files L ([], [], []) paths of
          Inl err \<Rightarrow> Inl err
        | Inr (files, hashes, testCases) \<Rightarrow>
            Inr (r\<lparr> rn_testCases := testCases, rn_testCaseHashes := hashes, rn_testCaseFiles := files \<rparr>)))"
proof -
  let ?dir = "path_join (rn_suiteDir r) ''cases''"
  have y: "yaml_files steps [] =
      (case filter (isl \<circ> snd) steps of
         (_, d) # _ \<Rightarrow> Inl (projl d)
       | [] \<Rightarrow> Inr (map fst (filter (\<lambda>(path, d). \<not> projr d \<and> is_yaml path) steps)))" for steps
    by (simp only: yaml_files_exact append_Nil)
  have n: "list_all (\<lambda>(path, d). \<not> isl d) steps \<longleftrightarrow> filter (isl \<circ> snd) steps = []" for steps :: "(string \<times> (string + bool)) list"
    by (auto simp: list_all_iff filter_empty_conv)
  show ?thesis
    unfolding discoverTestCases_def case_files_def Let_def y n
    by (auto split: sum.splits list.splits)
qed

text \<open>
  C38. Discovery succeeds exactly when \<^verbatim>\<open>cases\<close> is a directory that can be walked, each of its YAML files
  can be read and decoded into valid cases, no two cases have the same id and all can be hashed. The runner
  then has the cases of the files in the order of the walk, every one free of schema errors and with its
  hash under its id, and is otherwise unchanged.
\<close>

theorem discovered_cases_well_formed:
  "case discoverTestCases L r of
     Inl _ \<Rightarrow> \<not> (\<exists>cases. valid_cases L (path_join (rn_suiteDir r) ''cases'') cases)
   | Inr r' \<Rightarrow> valid_cases L (path_join (rn_suiteDir r) ''cases'') (rn_testCases r') \<and>
       list_all (\<lambda>tc. test_case_errors L tc = [] \<and>
         ComputeTestCaseHash L tc \<in> Inr ` {h. map_of (rn_testCaseHashes r') (tc_CaseID tc) = Some h}) (rn_testCases r') \<and>
       r' = r\<lparr> rn_testCases := rn_testCases r', rn_testCaseHashes := rn_testCaseHashes r',
               rn_testCaseFiles := rn_testCaseFiles r' \<rparr>"
proof (cases "case_files L (path_join (rn_suiteDir r) ''cases'')")
  case None
  then have "isl (discoverTestCases L r)" by (subst discoverTestCases_files) simp
  with None show ?thesis by (auto simp: valid_cases_def isl_def)
next
  case (Some paths)
  note d = discoverTestCases_files [of L r, unfolded Let_def Some option.case]
  have ok: "maps_ok L ([], [], [])" by (simp add: maps_ok_def ids_of_def)
  note exact = add_files_exact [OF ok, of paths]
  show ?thesis
  proof (cases "add_files L ([], [], []) paths")
    case (Inl err)
    with exact d Some show ?thesis by (auto simp: valid_cases_def ids_of_def)
  next
    case (Inr acc)
    obtain files hashes testCases where acc: "acc = (files, hashes, testCases)" by (cases acc)
    have "maps_ok L (files, hashes, testCases) \<and> testCases = parsed_cases L paths \<and>
        list_all (\<lambda>p. \<not> isl (parseTestCases L p)) paths"
      using exact unfolding Inr acc sum.case snd_conv append_Nil .
    then have m: "maps_ok L (files, hashes, testCases)" "testCases = parsed_cases L paths"
      "list_all (\<lambda>p. \<not> isl (parseTestCases L p)) paths" by blast+
    have errs: "list_all (\<lambda>tc. test_case_errors L tc = []) testCases"
      using m(3) parseTestCases_valid [of L] unfolding m(2)
      by (auto simp: parsed_cases_def list_all_iff isl_def) (metis Inr_Inl_False old.sum.exhaust sum.sel(2))
    have hash: "list_all (\<lambda>tc. ComputeTestCaseHash L tc \<in> Inr ` {h. map_of hashes (tc_CaseID tc) = Some h}) testCases"
      and ids: "distinct (ids_of testCases)"
      using m(1) by (auto simp: maps_ok_def hashable_def list_all_iff isl_def image_iff)
    then have "list_all (hashable L) testCases" by (auto simp: hashable_def list_all_iff)
    with ids m(2,3) Some have v: "valid_cases L (path_join (rn_suiteDir r) ''cases'') testCases"
      unfolding valid_cases_def by blast
    have "discoverTestCases L r =
        Inr (r\<lparr> rn_testCases := testCases, rn_testCaseHashes := hashes, rn_testCaseFiles := files \<rparr>)"
      using d by (simp add: Inr acc)
    with v errs hash show ?thesis by (auto simp: list_all_iff)
  qed
qed

section \<open>What is accepted\<close>

definition model_ok :: "ModelConfig \<Rightarrow> bool" where
  "model_ok model \<longleftrightarrow> mo_Provider model \<in> {''openai'', ''anthropic'', ''openai_compatible''} \<and> mo_Model model \<noteq> ''''"

definition suite_ok :: "Suite \<Rightarrow> bool" where
  "suite_ok suite \<longleftrightarrow>
     su_Version suite = ''v1'' \<and> su_BundleID suite \<noteq> '''' \<and>
     list_ex (\<lambda>path. path \<noteq> '''') (policy_paths (su_Policies suite)) \<and>
     0 \<le> acc_MinMatchRate (su_Acceptance suite) \<and> acc_MinMatchRate (su_Acceptance suite) \<le> 1 \<and>
     0 \<le> GetStabilityThreshold (su_Acceptance suite) \<and> GetStabilityThreshold (su_Acceptance suite) \<le> 1 \<and>
     (sai_Enabled (eng_AI (su_Engines suite)) \<longrightarrow> sai_ModelMatrix (eng_AI (su_Engines suite)) \<noteq> []) \<and>
     list_all model_ok (sai_ModelMatrix (eng_AI (su_Engines suite)))"

definition case_ok :: "TestCase \<Rightarrow> bool" where
  "case_ok tc \<longleftrightarrow>
     tc_CaseID tc \<noteq> '''' \<and> tc_Title tc \<noteq> '''' \<and> tc_Phase tc \<in> {''request'', ''response'', ''both''} \<and>
     tc_Engine tc \<in> {''cel'', ''ai'', ''both''} \<and> trq_ToolName (tc_Request tc) \<noteq> '''' \<and>
     (tc_Phase tc \<noteq> ''request'' \<longrightarrow> tc_Response tc \<noteq> None) \<and>
     ex_Decision (tc_Expectations tc) \<in> {''allow'', ''deny'', ''redact''} \<and>
     list_all (\<lambda>pe. px_PolicyName pe \<noteq> '''' \<and> px_Decision pe \<in> {''allow'', ''deny'', ''redact''})
       (ex_Policies (tc_Expectations tc))"

lemma concat_map2_Nil:
  assumes "\<And>i x. f i x = [] \<longleftrightarrow> P x"
  shows "concat (map2 f [m..<m + length xs] xs) = [] \<longleftrightarrow> list_all P xs"
proof (induction xs arbitrary: m)
  case (Cons x xs)
  then show ?case using assms Cons.IH [of "Suc m"] by (simp add: upt_conv_Cons del: upt_Suc)
qed simp

lemma model_errors_Nil: "model_errors i model = [] \<longleftrightarrow> model_ok model"
  by (auto simp: model_errors_def model_ok_def Let_def)

lemma expectation_errors_Nil:
  "expectation_errors i pe = [] \<longleftrightarrow> px_PolicyName pe \<noteq> '''' \<and> px_Decision pe \<in> {''allow'', ''deny'', ''redact''}"
  by (auto simp: expectation_errors_def decision_ok_def Let_def)

lemma test_case_errors_Nil: "test_case_errors L tc = [] \<longleftrightarrow> case_ok tc"
  using concat_map2_Nil [of expectation_errors, OF expectation_errors_Nil, of 0]
  by (auto simp: test_case_errors_def case_ok_def decision_ok_def Let_def)

text \<open>
  A suite file is accepted exactly when it is well formed: version \<^verbatim>\<open>v1\<close>, a bundle id, some rules, both
  thresholds between 0 and 1, and a model matrix of known providers with model names that is not empty
  when AI is enabled. And a file of test cases only yields well-formed cases.
\<close>

lemma accepted_suite_well_formed:
  "(validateSuiteSchema L suite = None) = suite_ok suite \<and>
   (case parseTestCases L path of Inl _ \<Rightarrow> True | Inr cases \<Rightarrow> list_all case_ok cases)"
proof
  show "(validateSuiteSchema L suite = None) = suite_ok suite"
    using concat_map2_Nil [of model_errors, OF model_errors_Nil, of 0]
    by (auto simp: validateSuiteSchema_def suite_errors_def suite_ok_def rate_error_def policy_paths_def
        GetStabilityThreshold_def Let_def not_less split: option.splits)
  show "case parseTestCases L path of Inl _ \<Rightarrow> True | Inr cases \<Rightarrow> list_all case_ok cases"
    using parseTestCases_valid [of L path] by (simp add: test_case_errors_Nil split: sum.split)
qed

section \<open>Integrity, hashes and coverage\<close>

text \<open>The rules a case runs against: their engine, the phases they are for, and their names.\<close>

definition runs_phase :: "TestCase \<Rightarrow> string \<Rightarrow> bool" where
  "runs_phase tc phase \<longleftrightarrow> tc_Phase tc \<in> {phase, ''both''} \<or> tc_Phase tc = '''' \<and> phase = ''request''"

definition runs_engine :: "TestCase \<Rightarrow> string \<Rightarrow> bool" where
  "runs_engine tc engine \<longleftrightarrow> tc_Engine tc \<in> {engine, ''both'', ''''}"

definition known_to :: "policyNameSets \<Rightarrow> TestCase \<Rightarrow> string \<Rightarrow> bool" where
  "known_to names tc name \<longleftrightarrow>
     list_ex (\<lambda>(phase, engine, ns). runs_phase tc phase \<and> runs_engine tc engine \<and> name \<in> set ns)
       [(''request'', ''cel'', pns_celRequest names), (''request'', ''ai'', pns_aiRequest names),
        (''response'', ''cel'', pns_celResponse names), (''response'', ''ai'', pns_aiResponse names)]"

lemma checked_sets_known: "list_ex (\<lambda>(_, s). name \<in> set s) (checked_sets names tc) \<longleftrightarrow> known_to names tc name"
  by (auto simp: checked_sets_def known_to_def runs_phase_def runs_engine_def Let_def)

lemma reference_errors_length:
  "length (reference_errors L names tc) =
     length (filter (\<lambda>pe. px_PolicyName pe \<noteq> '''' \<and> \<not> known_to names tc (px_PolicyName pe))
       (ex_Policies (tc_Expectations tc)))"
proof -
  have "length (concat (map (\<lambda>pe. if px_PolicyName pe = '''' then [] else err_if (\<not> known_to names tc (px_PolicyName pe)) (m pe)) pes)) =
      length (filter (\<lambda>pe. px_PolicyName pe \<noteq> '''' \<and> \<not> known_to names tc (px_PolicyName pe)) pes)" for m :: "PolicyExpectation \<Rightarrow> string" and pes
    by (induction pes) (auto simp: err_if_def)
  then show ?thesis unfolding reference_errors_def checked_sets_known by this
qed

definition unknown_references :: "policyNameSets \<Rightarrow> TestCase list \<Rightarrow> (string \<times> string) list" where
  "unknown_references names cases =
     concat (map (\<lambda>tc. map (\<lambda>pe. (tc_CaseID tc, px_PolicyName pe))
       (filter (\<lambda>pe. px_PolicyName pe \<noteq> '''' \<and> \<not> known_to names tc (px_PolicyName pe))
         (ex_Policies (tc_Expectations tc)))) cases)"

lemma reference_errors_unknown:
  "length (concat (map (reference_errors L names) cases)) = length (unknown_references names cases)"
  by (induction cases) (simp_all add: unknown_references_def reference_errors_length)

text \<open>
  The integrity check passes exactly when all rules can be loaded and every rule a case names is one
  of those the case runs against: the rules of its engines and phases. It otherwise reports the error of
  a loader or the number of references that lead nowhere.
\<close>

lemma integrity_check_exact:
  "case loadPolicyNames L r of
     Inl err \<Rightarrow> validatePolicyIntegrity L r = Some err
   | Inr names \<Rightarrow>
       (let unknown = unknown_references names (rn_testCases r) in
        case validatePolicyIntegrity L r of
          None \<Rightarrow> unknown = []
        | Some err \<Rightarrow> unknown \<noteq> [] \<and>
            err \<in> range (PolicyIntegrityError (Itoa (int (length unknown)) @ '' policy reference(s) not found'')))"
proof (cases "loadPolicyNames L r")
  case (Inr names)
  define errors where "errors = concat (map (reference_errors L names) (rn_testCases r))"
  have "length errors = length (unknown_references names (rn_testCases r))"
    by (simp only: errors_def reference_errors_unknown)
  then show ?thesis
    by (cases "errors = []") (auto simp: Inr validatePolicyIntegrity_def errors_def [symmetric] Let_def)
qed (simp add: validatePolicyIntegrity_def)

text \<open>The YAML files of a configured path.\<close>

definition rule_paths :: "suite_lib \<Rightarrow> string \<Rightarrow> string \<Rightarrow> string list" where
  "rule_paths L dir path =
     (if path = '''' then []
      else let resolved = resolvePath (slb_fs L) path dir
      in if sfs_Stat (slb_fs L) resolved = Inr True
         then map fst (filter (\<lambda>(p, d). d = Inr False \<and> is_yaml p) (sfs_Walk (slb_fs L) resolved))
         else [resolved])"

definition content_hash :: "suite_lib \<Rightarrow> string \<Rightarrow> string" where
  "content_hash L path = ComputePolicyHash L (projr (slb_ReadFile L path))"

lemma hash_files_Inr:
  "hash_files L hashes steps = Inr hs \<Longrightarrow>
     hs = hashes @ map (content_hash L) (map fst (filter (\<lambda>(p, d). d = Inr False \<and> is_yaml p) steps))"
  by (induction L hashes steps rule: hash_files.induct) (auto simp: content_hash_def split: sum.splits if_splits)

lemma hashPolicyPath_Inr:
  assumes "hashPolicyPath L (resolvePath (slb_fs L) path dir) = Inr hs" "path \<noteq> ''''"
  shows "hs = map (content_hash L) (rule_paths L dir path)"
  using assms
  by (auto simp: hashPolicyPath_def rule_paths_def Let_def content_hash_def dest!: hash_files_Inr
      split: sum.splits if_splits)

lemma hash_paths_Inr:
  "hash_paths L dir hashes paths = Inr hs \<Longrightarrow>
     hs = hashes @ map (content_hash L) (concat (map (rule_paths L dir) paths))"
proof (induction L dir hashes paths arbitrary: hs rule: hash_paths.induct)
  case (2 L dir hashes path paths)
  then show ?case
    by (cases "path = ''''") (auto simp: rule_paths_def [of L dir "''''"] dest!: hashPolicyPath_Inr split: sum.splits)
qed simp

text \<open>
  The policy hashes of a run are the sorted content hashes of all its rule files, so a result
  recorded in one run is current in another exactly when both runs have the same file contents, each as
  often, up to collisions of the hash; the names and order of the files do not matter.
\<close>

lemma policy_hashes_exact:
  "case computePolicyHashes L r of
     Inl _ \<Rightarrow> True
   | Inr r' \<Rightarrow>
       (let paths = (\<lambda>r. concat (map (rule_paths L (rn_suiteDir r)) (policy_paths (su_Policies (rn_suite r)))))
        in r' = r\<lparr> rn_policyHashes := rn_policyHashes r' \<rparr> \<and>
           slice_of (rn_policyHashes r') = sort (map (content_hash L) (paths r)) \<and>
           (case computePolicyHashes L r2 of
              Inl _ \<Rightarrow> True
            | Inr r2' \<Rightarrow>
                hashesMatch (slice_of (rn_policyHashes r2')) (slice_of (rn_policyHashes r')) =
                (mset (map (content_hash L) (paths r2)) = mset (map (content_hash L) (paths r)))))"
proof -
  have h: "r' = r\<lparr> rn_policyHashes := rn_policyHashes r' \<rparr> \<and> slice_of (rn_policyHashes r') =
      sort (map (content_hash L) (concat (map (rule_paths L (rn_suiteDir r)) (policy_paths (su_Policies (rn_suite r))))))"
    if "computePolicyHashes L r = Inr r'" for r r'
  proof -
    from that obtain hs where hs: "hash_paths L (rn_suiteDir r) [] (policy_paths (su_Policies (rn_suite r))) = Inr hs"
      and r': "r' = r\<lparr> rn_policyHashes := (if hs = [] then None else Some (sort hs)) \<rparr>"
      by (auto simp: computePolicyHashes_def split: sum.splits)
    from hash_paths_Inr [OF hs] have e: "hs = map (content_hash L) (concat (map (rule_paths L (rn_suiteDir r)) (policy_paths (su_Policies (rn_suite r)))))"
      by simp
    have "slice_of (if hs = [] then None else Some (sort hs)) = sort hs" by simp
    then show ?thesis by (simp only: r' e [symmetric]) simp
  qed
  show ?thesis
  proof (cases "computePolicyHashes L r")
    case (Inr r')
    from h [OF Inr] show ?thesis
      unfolding Inr sum.case Let_def
      by (intro conjI, simp_all only:)
        (auto simp: hashesMatch_mset dest!: h simp del: map_concat split: sum.split)
  qed simp
qed

text \<open>
  The coverage report counts every enabled rule once, as covered when some case names it and as
  missing a test otherwise, and lists the disabled rules unless they are included in the run.
\<close>

lemma coverage_exact:
  "case loadAllPoliciesWithStatus L r of
     Inl err \<Rightarrow> generateCoverageReport L r = Inl err
   | Inr infos \<Rightarrow>
       (let enabled = filter (\<lambda>p. pinfo_enabled p \<or> opt_IncludeDisabled (rn_opts r)) infos;
            named = (\<lambda>p. pinfo_name p \<in> set (referenced_policies (rn_testCases r)))
        in generateCoverageReport L r =
           Inr \<lparr> cov_TotalPolicies = int (length enabled), cov_PoliciesWithTests = int (length (filter named enabled)),
                 cov_PoliciesWithoutTests = map coverage_item (filter (\<lambda>p. \<not> named p) enabled),
                 cov_DisabledSkipped = map coverage_item
                   (filter (\<lambda>p. \<not> (pinfo_enabled p \<or> opt_IncludeDisabled (rn_opts r))) infos) \<rparr>)"
proof -
  have c: "foldl (cover_policy inc) (\<lparr> cov_TotalPolicies = n, cov_PoliciesWithTests = 0,
        cov_PoliciesWithoutTests = [], cov_DisabledSkipped = ds \<rparr>, es) infos =
      (\<lparr> cov_TotalPolicies = n + int (length (filter (\<lambda>p. pinfo_enabled p \<or> inc) infos)), cov_PoliciesWithTests = 0,
         cov_PoliciesWithoutTests = [],
         cov_DisabledSkipped = ds @ map coverage_item (filter (\<lambda>p. \<not> (pinfo_enabled p \<or> inc)) infos) \<rparr>,
       es @ filter (\<lambda>p. pinfo_enabled p \<or> inc) infos)" for inc n ds es infos
    by (induction infos arbitrary: n ds es) (auto simp: cover_policy_def)
  have e: "foldl (cover_enabled ref) \<lparr> cov_TotalPolicies = n, cov_PoliciesWithTests = m,
        cov_PoliciesWithoutTests = ps, cov_DisabledSkipped = ds \<rparr> es =
      \<lparr> cov_TotalPolicies = n, cov_PoliciesWithTests = m + int (length (filter (\<lambda>p. pinfo_name p \<in> set ref) es)),
        cov_PoliciesWithoutTests = ps @ map coverage_item (filter (\<lambda>p. pinfo_name p \<notin> set ref) es),
        cov_DisabledSkipped = ds \<rparr>" for ref n m ps ds es
    by (induction es arbitrary: m ps) (auto simp: cover_enabled_def)
  show ?thesis
    by (cases "loadAllPoliciesWithStatus L r") (simp_all add: generateCoverageReport_def Let_def c e)
qed

end
