(* ===== verification/SuiteSelection.thy ===== *)
theory SuiteSelection
  imports SuiteLoading
begin

text \<open>
  What a run of the policy test suite selects (\<^verbatim>\<open>internal/testsuite/runner.go\<close>): the test cases, by
  pattern and tags; the engine; and the models, with the order in which they are run.
\<close>

section \<open>Patterns\<close>

text \<open>
  \<^verbatim>\<open>filepath.Match\<close> with the separator \<^verbatim>\<open>/\<close>, on ASCII: whether a name matches a pattern; a malformed pattern
  matches nothing. A character class is read by \<open>class_member\<close>, after its bracket and \<^verbatim>\<open>^\<close>: whether \<open>c\<close> is in
  it, and what follows it.
\<close>

definition class_char :: "string \<Rightarrow> (char \<times> string) option" where
  "class_char p =
     (case p of
        [] \<Rightarrow> None
      | c # p1 \<Rightarrow>
          if c = CHR ''-'' \<or> c = CHR '']'' then None
          else if c = CHR 0x5C then (case p1 of d # p2 \<Rightarrow> if p2 = [] then None else Some (d, p2) | [] \<Rightarrow> None)
          else if p1 = [] then None else Some (c, p1))"

lemma class_char_shorter: "class_char p = Some (lo, p1) \<Longrightarrow> length p1 < length p"
  by (auto simp: class_char_def split: list.splits if_splits)

definition class_range :: "string \<Rightarrow> ((char \<times> char) \<times> string) option" where
  "class_range p =
     (case class_char p of
        None \<Rightarrow> None
      | Some (lo, p1) \<Rightarrow>
          if HasPrefix p1 ''-''
          then (case class_char (tl p1) of None \<Rightarrow> None | Some (hi, p2) \<Rightarrow> Some ((lo, hi), p2))
          else Some ((lo, lo), p1))"

lemma class_range_shorter: "class_range p = Some (r, p1) \<Longrightarrow> length p1 < length p"
  by (auto simp: class_range_def dest!: class_char_shorter split: option.splits if_splits)

function class_member :: "char \<Rightarrow> bool \<Rightarrow> bool \<Rightarrow> string \<Rightarrow> (bool \<times> string) option" where
  "class_member c found nonempty p =
     (if nonempty \<and> HasPrefix p '']'' then Some (found, tl p)
      else case class_range p of
        None \<Rightarrow> None
      | Some ((lo, hi), p1) \<Rightarrow>
          class_member c (found \<or> (of_char lo :: nat) \<le> of_char c \<and> (of_char c :: nat) \<le> of_char hi) True p1)"
  by pat_completeness auto
termination
  by (relation "measure (\<lambda>(c, found, nonempty, p). length p)") (auto dest: class_range_shorter)

declare class_member.simps [simp del]

lemma class_member_shorter: "class_member c found nonempty p = Some (b, p1) \<Longrightarrow> length p1 \<le> length p"
proof (induction c found nonempty p rule: class_member.induct)
  case (1 c found nonempty p)
  show ?case
  proof (cases "nonempty \<and> HasPrefix p '']''")
    case True
    with 1(2) show ?thesis by (auto simp: class_member.simps [of c found True p])
  next
    case False
    with 1(2) obtain lo hi p2 where r: "class_range p = Some ((lo, hi), p2)"
      by (auto simp: class_member.simps [of c found nonempty p] split: option.splits)
    with False 1(2) have "class_member c
        (found \<or> (of_char lo :: nat) \<le> of_char c \<and> (of_char c :: nat) \<le> of_char hi) True p2 = Some (b, p1)"
      by (auto simp: class_member.simps [of c found nonempty p])
    from 1(1) [OF False r refl refl this] class_range_shorter [OF r] show ?thesis by simp
  qed
qed

definition class_test :: "char \<Rightarrow> string \<Rightarrow> (bool \<times> string) option" where
  "class_test c p =
     (let negated = HasPrefix p ''^'' in
      case class_member c False False (if negated then tl p else p) of
        None \<Rightarrow> None
      | Some (found, p1) \<Rightarrow> Some (found \<noteq> negated, p1))"

lemma class_test_shorter: "class_test c p = Some (b, p1) \<Longrightarrow> length p1 \<le> length p"
  by (auto simp: class_test_def Let_def dest!: class_member_shorter split: option.splits if_splits)

function Match :: "string \<Rightarrow> string \<Rightarrow> bool" where
  "Match [] s = (s = [])"
| "Match (x # p) s =
     (if x = CHR ''*'' then
        Match p s \<or> (case s of [] \<Rightarrow> False | c # s1 \<Rightarrow> c \<noteq> CHR ''/'' \<and> Match (x # p) s1)
      else case s of
        [] \<Rightarrow> False
      | c # s1 \<Rightarrow>
          if x = CHR ''?'' then c \<noteq> CHR ''/'' \<and> Match p s1
          else if x = CHR ''['' then
            (case class_test c p of None \<Rightarrow> False | Some (b, p1) \<Rightarrow> b \<and> Match p1 s1)
          else if x = CHR 0x5C then (case p of [] \<Rightarrow> False | d # p1 \<Rightarrow> c = d \<and> Match p1 s1)
          else c = x \<and> Match p s1)"
  by pat_completeness auto
termination
  by (relation "measure (\<lambda>(p, s). length p + length s)") (auto dest: class_test_shorter)

section \<open>Test cases\<close>

record FilterStats =
  flt_Total :: int
  flt_AfterPattern :: int
  flt_AfterTags :: int
  flt_AfterExclude :: int
  flt_CasePattern :: string
  flt_Tags :: string
  flt_ExcludeTags :: string

definition splitTags :: "string \<Rightarrow> string list" where
  "splitTags tags =
     (if tags = '''' then [] else filter (\<lambda>tag. tag \<noteq> '''') (map TrimSpace (split_on (CHR '','') tags)))"

definition hasAllTags :: "string list \<Rightarrow> string list \<Rightarrow> bool" where
  "hasAllTags tcTags required \<longleftrightarrow> list_all (\<lambda>r. r \<in> set tcTags) required"

definition hasAnyTag :: "string list \<Rightarrow> string list \<Rightarrow> bool" where
  "hasAnyTag tcTags excluded \<longleftrightarrow> list_ex (\<lambda>e. e \<in> set tcTags) excluded"

definition matches_pattern :: "string \<Rightarrow> TestCase \<Rightarrow> bool" where
  "matches_pattern casePattern tc \<longleftrightarrow>
     list_ex (\<lambda>pattern. Match (TrimSpace pattern) (tc_CaseID tc)) (split_on (CHR '','') casePattern)"

definition filterTestCases :: "Runner \<Rightarrow> TestCase list \<times> FilterStats" where
  "filterTestCases r =
     (let o' = rn_opts r;
          afterPattern = (if opt_CasePattern o' \<noteq> '''' \<and> opt_CasePattern o' \<noteq> ''*''
            then filter (matches_pattern (opt_CasePattern o')) (rn_testCases r) else rn_testCases r);
          afterTags = (if opt_Tags o' \<noteq> ''''
            then filter (\<lambda>tc. hasAllTags (tc_Tags tc) (splitTags (opt_Tags o'))) afterPattern else afterPattern);
          afterExclude = (if opt_ExcludeTags o' \<noteq> ''''
            then filter (\<lambda>tc. \<not> hasAnyTag (tc_Tags tc) (splitTags (opt_ExcludeTags o'))) afterTags else afterTags)
      in (afterExclude,
          \<lparr> flt_Total = int (length (rn_testCases r)), flt_AfterPattern = int (length afterPattern),
            flt_AfterTags = int (length afterTags), flt_AfterExclude = int (length afterExclude),
            flt_CasePattern = opt_CasePattern o', flt_Tags = opt_Tags o', flt_ExcludeTags = opt_ExcludeTags o' \<rparr>))"

definition filterCasesForEngine :: "TestCase list \<Rightarrow> string \<Rightarrow> TestCase list" where
  "filterCasesForEngine cases engine = filter (\<lambda>tc. tc_Engine tc = engine \<or> tc_Engine tc = ''both'') cases"

definition shouldRunEngine :: "Runner \<Rightarrow> string \<Rightarrow> bool" where
  "shouldRunEngine r engine =
     (if opt_Engine (rn_opts r) = '''' \<or> opt_Engine (rn_opts r) = ''all'' then True
      else opt_Engine (rn_opts r) = engine)"

section \<open>Models\<close>

definition resolveModelConfig :: "Runner \<Rightarrow> ModelConfig \<Rightarrow> ModelConfig" where
  "resolveModelConfig r m =
     (let r1 = (if mo_APIKey m = '''' then m\<lparr> mo_APIKey := ResolveAPIKey (rn_suite r) m \<rparr> else m)
      in if mo_Endpoint r1 = '''' then r1\<lparr> mo_Endpoint := ResolveEndpoint (rn_suite r) m \<rparr> else r1)"

definition parseModelFlag :: "string \<Rightarrow> ModelConfig list \<Rightarrow> ModelConfig option" where
  "parseModelFlag flag modelMatrix =
     (case SplitN (CHR '':'') 2 flag of
        [provider, model] \<Rightarrow>
          (case find (\<lambda>m. mo_Provider m = provider \<and> mo_Model m = model) modelMatrix of
             Some m \<Rightarrow> Some (m\<lparr> mo_Enabled := Some True \<rparr>)
           | None \<Rightarrow> (case find (\<lambda>m. mo_Provider m = provider) modelMatrix of
               Some m \<Rightarrow> Some (m\<lparr> mo_Model := model, mo_Enabled := None \<rparr>)
             | None \<Rightarrow> None))
      | _ \<Rightarrow> None)"

definition plain_model :: "string \<Rightarrow> string \<Rightarrow> ModelConfig" where
  "plain_model provider model =
     \<lparr> mo_Provider = provider, mo_Endpoint = '''', mo_Model = model, mo_APIKey = '''', mo_Parameters = [],
       mo_QueryParams = [], mo_Headers = [], mo_Enabled = None \<rparr>"

definition model_for_flag :: "(string \<Rightarrow> string) \<Rightarrow> Runner \<Rightarrow> string \<Rightarrow> string + ModelConfig" where
  "model_for_flag q r flag =
     (case parseModelFlag flag (sai_ModelMatrix (eng_AI (su_Engines (rn_suite r)))) of
        Some model \<Rightarrow> Inr (resolveModelConfig r model)
      | None \<Rightarrow>
          (case SplitN (CHR '':'') 2 flag of
             [provider, model] \<Rightarrow>
               if map_of (su_Providers (rn_suite r)) provider \<noteq> None
               then Inr (resolveModelConfig r (plain_model provider model))
               else Inl (''provider '' @ q provider @ '' not found in providers or model_matrix; add it to suite.yaml'')
           | _ \<Rightarrow> Inl (''invalid --model format '' @ q flag @ '': expected provider:model'')))"

fun models_for_flags :: "(string \<Rightarrow> string) \<Rightarrow> Runner \<Rightarrow> string list \<Rightarrow> string + ModelConfig list" where
  "models_for_flags q r [] = Inr []"
| "models_for_flags q r (f # flags) =
     (let flag = TrimSpace f in
      if flag = '''' then models_for_flags q r flags
      else case model_for_flag q r flag of
        Inl err \<Rightarrow> Inl err
      | Inr model \<Rightarrow> (case models_for_flags q r flags of Inl err \<Rightarrow> Inl err | Inr models \<Rightarrow> Inr (model # models)))"

definition getModelsToTest :: "(string \<Rightarrow> string) \<Rightarrow> Runner \<Rightarrow> string + ModelConfig list" where
  "getModelsToTest q r =
     (if opt_Model (rn_opts r) \<noteq> ''''
      then models_for_flags q r (split_on (CHR '','') (opt_Model (rn_opts r)))
      else let enabledModels = map (resolveModelConfig r)
                 (filter ModelConfig_IsEnabled (sai_ModelMatrix (eng_AI (su_Engines (rn_suite r)))))
           in if opt_RunMatrix (rn_opts r) then Inr enabledModels
              else case enabledModels of m # _ \<Rightarrow> Inr [m] | [] \<Rightarrow> Inr [])"

section \<open>Interleaving the models\<close>

text \<open>
  The groups of a provider's models, in order of first appearance; then rounds that take the next model of
  each group. The second loop is a partial function: it would not end with a group missing.
\<close>

type_synonym provider_groups = "(string \<times> ModelConfig list) list"

fun add_to_group :: "provider_groups \<Rightarrow> ModelConfig \<Rightarrow> provider_groups" where
  "add_to_group [] m = [(mo_Provider m, [m])]"
| "add_to_group ((provider, models) # groups) m =
     (if provider = mo_Provider m then (provider, models @ [m]) # groups
      else (provider, models) # add_to_group groups m)"

fun pick_round :: "provider_groups \<Rightarrow> nat list \<Rightarrow> ModelConfig list \<times> nat list" where
  "pick_round ((provider, models) # groups) (i # indices) =
     (let (picked, indices') = pick_round groups indices in
      if i < length models then (models ! i # picked, Suc i # indices') else (picked, i # indices'))"
| "pick_round groups indices = ([], indices)"

partial_function (option) round_robin ::
  "nat \<Rightarrow> provider_groups \<Rightarrow> nat list \<Rightarrow> ModelConfig list \<Rightarrow> ModelConfig list option" where
  "round_robin n groups indices result =
     (if \<not> length result < n then Some result
      else round_robin n groups (snd (pick_round groups indices)) (result @ fst (pick_round groups indices)))"

definition interleaveByProvider :: "ModelConfig list \<Rightarrow> ModelConfig list option" where
  "interleaveByProvider models =
     (let groups = foldl add_to_group [] models
      in round_robin (length models) groups (replicate (length groups) 0) [])"

section \<open>What is selected\<close>

text \<open>
  The cases of a run are those of the suite, in order, whose id matches one of the patterns, that have
  all the wanted tags and none of the excluded ones; an option that is not set selects everything. The
  statistics count what is left after each stage, and later stages only lose cases.
\<close>

lemma cases_selected_exact:
  "case filterTestCases r of (cases, stats) \<Rightarrow>
     cases = filter (\<lambda>tc.
       (opt_CasePattern (rn_opts r) \<in> {'''', ''*''} \<or> matches_pattern (opt_CasePattern (rn_opts r)) tc) \<and>
       set (splitTags (opt_Tags (rn_opts r))) \<subseteq> set (tc_Tags tc) \<and>
       set (splitTags (opt_ExcludeTags (rn_opts r))) \<inter> set (tc_Tags tc) = {}) (rn_testCases r) \<and>
     flt_Total stats = int (length (rn_testCases r)) \<and> flt_AfterExclude stats = int (length cases) \<and>
     flt_AfterExclude stats \<le> flt_AfterTags stats \<and> flt_AfterTags stats \<le> flt_AfterPattern stats \<and>
     flt_AfterPattern stats \<le> flt_Total stats"
proof -
  define pat where "pat = (\<lambda>tc :: TestCase. opt_CasePattern (rn_opts r) \<in> {'''', ''*''} \<or> matches_pattern (opt_CasePattern (rn_opts r)) tc)"
  define has where "has = (\<lambda>tc :: TestCase. set (splitTags (opt_Tags (rn_opts r))) \<subseteq> set (tc_Tags tc))"
  define free where "free = (\<lambda>tc :: TestCase. set (splitTags (opt_ExcludeTags (rn_opts r))) \<inter> set (tc_Tags tc) = {})"
  have p: "(if opt_CasePattern (rn_opts r) \<noteq> '''' \<and> opt_CasePattern (rn_opts r) \<noteq> ''*''
      then filter (matches_pattern (opt_CasePattern (rn_opts r))) xs else xs) = filter pat xs" for xs
    by (auto simp: pat_def)
  have t: "(if opt_Tags (rn_opts r) \<noteq> ''''
      then filter (\<lambda>tc. hasAllTags (tc_Tags tc) (splitTags (opt_Tags (rn_opts r)))) xs else xs) = filter has xs" for xs
    by (auto simp: has_def hasAllTags_def splitTags_def list_all_iff subset_iff)
  have e: "(if opt_ExcludeTags (rn_opts r) \<noteq> ''''
      then filter (\<lambda>tc. \<not> hasAnyTag (tc_Tags tc) (splitTags (opt_ExcludeTags (rn_opts r)))) xs else xs) = filter free xs" for xs
    by (auto simp: free_def hasAnyTag_def splitTags_def list_ex_iff intro!: filter_cong)
  have "filter free (filter has (filter pat xs)) = filter (\<lambda>tc. pat tc \<and> has tc \<and> free tc) xs" for xs
    by (simp add: conj_ac)
  then have eq: "filter free (filter has (filter pat (rn_testCases r))) =
      filter (\<lambda>tc. (opt_CasePattern (rn_opts r) \<in> {'''', ''*''} \<or> matches_pattern (opt_CasePattern (rn_opts r)) tc) \<and>
        set (splitTags (opt_Tags (rn_opts r))) \<subseteq> set (tc_Tags tc) \<and>
        set (splitTags (opt_ExcludeTags (rn_opts r))) \<inter> set (tc_Tags tc) = {}) (rn_testCases r)"
    by (simp only: pat_def has_def free_def)
  show ?thesis
    unfolding filterTestCases_def Let_def p t e prod.case
    by (intro conjI, rule eq) (simp_all del: filter_filter)
qed

section \<open>How models are interleaved\<close>

abbreviation of_provider :: "string \<Rightarrow> ModelConfig list \<Rightarrow> ModelConfig list" where
  "of_provider p \<equiv> filter (\<lambda>m. mo_Provider m = p)"

definition groups_ok :: "provider_groups \<Rightarrow> bool" where
  "groups_ok groups \<longleftrightarrow> distinct (map fst groups) \<and>
     list_all (\<lambda>(p, ms). ms \<noteq> [] \<and> list_all (\<lambda>m. mo_Provider m = p) ms) groups"

text \<open>What is left of each group.\<close>

fun rest_of :: "provider_groups \<Rightarrow> nat list \<Rightarrow> ModelConfig list" where
  "rest_of ((p, ms) # groups) (i # indices) = drop i ms @ rest_of groups indices"
| "rest_of groups indices = []"

lemma add_to_group_fst: "set (map fst (add_to_group groups m)) = insert (mo_Provider m) (set (map fst groups))"
  by (induction groups m rule: add_to_group.induct) auto

lemma add_to_group_ok: "groups_ok groups \<Longrightarrow> groups_ok (add_to_group groups m)"
  using add_to_group_fst
  by (induction groups m rule: add_to_group.induct) (auto simp: groups_ok_def)

lemma rest_of_other: "groups_ok groups \<Longrightarrow> p \<notin> set (map fst groups) \<Longrightarrow> of_provider p (rest_of groups indices) = []"
proof (induction groups indices rule: rest_of.induct)
  case (1 q ms groups i indices)
  then have "of_provider p (drop i ms) = []"
    by (auto simp: groups_ok_def filter_empty_conv list_all_iff dest: in_set_dropD)
  with 1 show ?case by (simp add: groups_ok_def)
qed simp_all

lemma add_to_group_rest:
  assumes "groups_ok groups"
  shows "of_provider p (rest_of (add_to_group groups m) (replicate (length (add_to_group groups m)) 0)) =
     of_provider p (rest_of groups (replicate (length groups) 0) @ [m])"
  using assms
proof (induction groups m rule: add_to_group.induct)
  case (2 q ms groups m)
  then have ok: "groups_ok groups" and q: "q \<notin> set (map fst groups)" by (auto simp: groups_ok_def)
  show ?case
  proof (cases "q = mo_Provider m")
    case True
    then show ?thesis using rest_of_other [OF ok q] by (cases "p = q") auto
  next
    case False
    then show ?thesis using 2(1) [OF False ok] by simp
  qed
qed simp

lemma groups_of_models:
  "groups_ok (foldl add_to_group [] models) \<and>
   (\<forall>p. of_provider p (rest_of (foldl add_to_group [] models) (replicate (length (foldl add_to_group [] models)) 0)) =
      of_provider p models) \<and>
   set (map fst (foldl add_to_group [] models)) = mo_Provider ` set models"
proof (induction models rule: rev_induct)
  case (snoc m models)
  then show ?case
    by (simp add: add_to_group_ok add_to_group_rest add_to_group_fst [simplified])
qed (simp add: groups_ok_def)

lemma pick_round_other:
  "groups_ok groups \<Longrightarrow> p \<notin> set (map fst groups) \<Longrightarrow> of_provider p (fst (pick_round groups indices)) = []"
  by (induction groups indices rule: pick_round.induct)
    (auto simp: groups_ok_def list_all_iff Let_def split: prod.splits)

lemma pick_round_rest:
  assumes "groups_ok groups"
  shows "of_provider p (fst (pick_round groups indices) @ rest_of groups (snd (pick_round groups indices))) =
     of_provider p (rest_of groups indices)"
  using assms
proof (induction groups indices rule: pick_round.induct)
  case (1 q ms groups i indices)
  then have ok: "groups_ok groups" and q: "q \<notin> set (map fst groups)"
    and ms: "m \<in> set ms \<Longrightarrow> mo_Provider m = q" for m
    by (auto simp: groups_ok_def list_all_iff)
  obtain picked indices' where pr: "pick_round groups indices = (picked, indices')" by (cases "pick_round groups indices")
  have IH: "of_provider p (picked @ rest_of groups indices') = of_provider p (rest_of groups indices)"
    using 1(1) [OF ok] pr by simp
  have oq: "of_provider q picked = []" using pick_round_other [OF ok q, of indices] pr by simp
  show ?case
  proof (cases "i < length ms")
    case True
    then have d: "drop i ms = ms ! i # drop (Suc i) ms" by (rule Cons_nth_drop_Suc [symmetric])
    have pi: "mo_Provider (ms ! i) = q" using ms True by simp
    have "of_provider p (drop (Suc i) ms) = []" if "p \<noteq> q"
      using ms that by (auto simp: filter_empty_conv dest: in_set_dropD)
    with True IH oq pi show ?thesis by (cases "p = q") (auto simp: pr d)
  next
    case False
    with IH show ?thesis by (simp add: pr)
  qed
qed simp_all

lemma pick_round_length:
  "length indices = length groups \<Longrightarrow> length (snd (pick_round groups indices)) = length groups"
  by (induction groups indices rule: pick_round.induct) (auto simp: Let_def split: prod.splits)

lemma pick_round_takes:
  "length indices = length groups \<Longrightarrow> rest_of groups indices \<noteq> [] \<Longrightarrow> fst (pick_round groups indices) \<noteq> []"
  by (induction groups indices rule: pick_round.induct) (auto simp: Let_def split: prod.splits)

lemma first_round:
  assumes "groups_ok groups"
  shows "map mo_Provider (fst (pick_round groups (replicate (length groups) 0))) = map fst groups"
  using assms
proof (induction groups)
  case (Cons g groups)
  obtain q ms where g: "g = (q, ms)" by (cases g)
  with Cons(2) have "groups_ok groups" "ms \<noteq> []" "m \<in> set ms \<Longrightarrow> mo_Provider m = q" for m
    by (auto simp: groups_ok_def list_all_iff)
  with Cons(1) show ?case by (auto simp: g split: prod.splits)
qed simp

lemma mset_of_providers:
  assumes "\<And>p. of_provider p xs = of_provider p ys"
  shows "mset xs = mset ys"
proof (rule multiset_eqI)
  fix m
  have "count_list (of_provider (mo_Provider m) zs) m = count_list zs m" for zs
    by (induction zs) auto
  then show "count (mset xs) m = count (mset ys) m"
    using assms [of "mo_Provider m"] by (metis count_mset)
qed

text \<open>Rounds go on until everything is taken: the number of models left decreases.\<close>

lemma round_robin_returns:
  assumes "groups_ok groups" "length indices = length groups"
    "length result + length (rest_of groups indices) = n"
  shows "\<exists>out. round_robin n groups indices result = Some (result @ out) \<and>
     (\<forall>p. of_provider p out = of_provider p (rest_of groups indices))"
  using assms(2,3)
proof (induction "length (rest_of groups indices)" arbitrary: indices result rule: less_induct)
  case less
  let ?pr = "pick_round groups indices"
  show ?case
  proof (cases "rest_of groups indices = []")
    case True
    with less(3) show ?thesis by (intro exI [of _ "[]"]) (simp add: round_robin.simps)
  next
    case False
    have m: "mset (fst ?pr @ rest_of groups (snd ?pr)) = mset (rest_of groups indices)"
      by (rule mset_of_providers) (rule pick_round_rest [OF assms(1)])
    then have l: "length (fst ?pr) + length (rest_of groups (snd ?pr)) = length (rest_of groups indices)"
      by (metis length_append size_mset)
    have "fst ?pr \<noteq> []" using less(2) False by (rule pick_round_takes)
    with l have "length (rest_of groups (snd ?pr)) < length (rest_of groups indices)" by (cases "fst ?pr") auto
    from less(1) [OF this, of "result @ fst ?pr"] obtain out where
      o: "round_robin n groups (snd ?pr) (result @ fst ?pr) = Some ((result @ fst ?pr) @ out)"
        "\<forall>p. of_provider p out = of_provider p (rest_of groups (snd ?pr))"
      using less(2,3) l by (auto simp: pick_round_length)
    have "of_provider p (fst ?pr @ out) = of_provider p (rest_of groups indices)" for p
      using pick_round_rest [OF assms(1), of p indices] o(2) by simp
    moreover have "length result < n" using less(3) False by (cases "rest_of groups indices") auto
    ultimately show ?thesis
      using o(1) by (intro exI [of _ "fst ?pr @ out"]) (simp add: round_robin.simps [of n groups indices])
  qed
qed


end
