(* ===== verification/SuiteReport.thy ===== *)
theory SuiteReport
  imports SuiteSelection "HOL-Library.Product_Lexorder"
begin

text \<open>
  What a run of the policy test suite reports (\<^verbatim>\<open>internal/testsuite/runner.go\<close>, \<^verbatim>\<open>output.go\<close>): the numbers
  of the run, the comparison of the models, the summary of the cache, and the JSON and JUnit reports up to
  their encoding. A rate is an exact rational. Go sorts the comparison by a strict order on entries with
  different models, so the result does not depend on the order in which it iterates over its maps.
\<close>

section \<open>The numbers of a run\<close>

definition count_result :: "RunResult \<Rightarrow> TestResult \<Rightarrow> RunResult" where
  "count_result result tr =
     (let result1 = (case tr_Error tr of
            Some e \<Rightarrow>
              if tr_Status tr = ''skipped'' then
                (if te_Type e = ''cached'' then result\<lparr> run_CachedCount := run_CachedCount result + 1 \<rparr>
                 else if te_Type e = ''rate_limited'' then result\<lparr> run_RateLimited := run_RateLimited result + 1 \<rparr>
                 else result)
              else result
          | None \<Rightarrow> result);
          status = effectiveStatus tr
      in if status = ''passed'' then result1\<lparr> run_Passed := run_Passed result1 + 1 \<rparr>
         else if status = ''failed'' then
           (if tr_ExtraPolicyOnly tr then result1\<lparr> run_ExtraPolicyOnly := run_ExtraPolicyOnly result1 + 1 \<rparr>
            else result1\<lparr> run_Failed := run_Failed result1 + 1 \<rparr>)
         else if status = ''errored'' then result1\<lparr> run_Errored := run_Errored result1 + 1 \<rparr>
         else if status = ''skipped'' then result1\<lparr> run_Skipped := run_Skipped result1 + 1 \<rparr>
         else result1)"

definition min_match_rate :: "Suite \<Rightarrow> rat" where
  "min_match_rate suite =
     (if acc_MinMatchRate (su_Acceptance suite) = 0 then 1 else acc_MinMatchRate (su_Acceptance suite))"

definition set_remaining :: "Runner \<Rightarrow> RunResult \<Rightarrow> RunResult" where
  "set_remaining r result =
     (if opt_MaxTests (rn_opts r) > 0 then
        let left = int (length (fst (filterTestCases r))) - run_TotalCases result;
            remaining = (if left < 0 then 0 else left)
        in result\<lparr> run_Remaining := remaining, run_MoreTestsRemain := (remaining > 0) \<rparr>
      else result)"

definition calculateResults :: "Runner \<Rightarrow> TestResult list \<Rightarrow> RunResult" where
  "calculateResults r results =
     (let result = foldl count_result (no_run_result\<lparr> run_TotalCases := int (length results) \<rparr>) results;
          decided = run_Passed result + run_Failed result + run_ExtraPolicyOnly result;
          result1 = (if decided > 0
            then result\<lparr> run_MatchRate := of_int (run_Passed result + run_ExtraPolicyOnly result) / of_int decided \<rparr>
            else result);
          result2 = (if decided = 0 then result1\<lparr> run_ThresholdsMet := True \<rparr>
            else result1\<lparr> run_ThresholdsMet := (run_MatchRate result1 \<ge> min_match_rate (rn_suite r)) \<rparr>)
      in set_remaining r result2)"

section \<open>The comparison of the models\<close>

text \<open>Go's division of integers, for a positive divisor.\<close>

definition quot :: "int \<Rightarrow> int \<Rightarrow> int" where
  "quot a b = (if a < 0 then - ((- a) div b) else a div b)"

definition no_entry :: "string \<Rightarrow> ModelComparisonEntry" where
  "no_entry model = \<lparr> mce_Model = model, mce_Passed = 0, mce_Failed = 0, mce_Errored = 0, mce_MatchRate = 0,
     mce_AvgMs = 0, mce_TotalMs = 0, mce_Stability = 0, mce_StabilityTests = 0, mce_ExtraPolicyOnly = 0,
     mce_StrictMatchRate = 0, mce_FromCache = False \<rparr>"

definition set_rates :: "ModelComparisonEntry \<Rightarrow> ModelComparisonEntry" where
  "set_rates entry =
     (let decided = mce_Passed entry + mce_Failed entry + mce_ExtraPolicyOnly entry
      in if decided > 0
         then entry\<lparr> mce_MatchRate := of_int (mce_Passed entry + mce_ExtraPolicyOnly entry) / of_int decided,
                     mce_AvgMs := quot (mce_TotalMs entry) decided,
                     mce_StrictMatchRate := of_int (mce_Passed entry) / of_int decided \<rparr>
         else entry)"

definition count_model_entry :: "string \<Rightarrow> TestResult \<Rightarrow> ModelComparisonEntry \<Rightarrow> ModelComparisonEntry" where
  "count_model_entry status tr entry =
     (let entry1 =
        (if status = ''passed'' then entry\<lparr> mce_Passed := mce_Passed entry + 1 \<rparr>
         else if status = ''failed'' then
           (if tr_ExtraPolicyOnly tr then entry\<lparr> mce_ExtraPolicyOnly := mce_ExtraPolicyOnly entry + 1 \<rparr>
            else entry\<lparr> mce_Failed := mce_Failed entry + 1 \<rparr>)
         else if status = ''errored'' then entry\<lparr> mce_Errored := mce_Errored entry + 1 \<rparr>
         else entry)
      in entry1\<lparr> mce_TotalMs := mce_TotalMs entry1 + tr_ElapsedMs tr \<rparr>)"

definition add_ai :: "(string \<times> ModelComparisonEntry) list \<Rightarrow> TestResult \<Rightarrow> (string \<times> ModelComparisonEntry) list" where
  "add_ai aiStats tr =
     (if tr_Engine tr \<noteq> ''ai'' \<or> tr_Model tr = '''' then aiStats
      else let entry = (case map_of aiStats (tr_Model tr) of Some e \<Rightarrow> e | None \<Rightarrow> no_entry (tr_Model tr))
           in AList.update (tr_Model tr) (count_model_entry (effectiveStatus tr) tr entry) aiStats)"

definition cel_entries :: "TestResult list \<Rightarrow> ModelComparisonEntry list" where
  "cel_entries results =
     (let cel = filter (\<lambda>tr. tr_Engine tr = ''cel'') results
      in if cel = [] then []
         else [set_rates (foldl (\<lambda>entry tr. count_model_entry (tr_Status tr) tr entry) (no_entry ''cel'') cel)])"

definition with_stability :: "(string \<times> CachedModelSummary) list \<Rightarrow> ModelComparisonEntry \<Rightarrow> ModelComparisonEntry" where
  "with_stability cachedSummaries entry =
     (case map_of cachedSummaries (mce_Model entry) of
        Some cs \<Rightarrow> entry\<lparr> mce_Stability := cms_Stability cs, mce_StabilityTests := cms_StabilityTests cs \<rparr>
      | None \<Rightarrow> entry)"

definition summary_entry :: "string \<times> CachedModelSummary \<Rightarrow> ModelComparisonEntry" where
  "summary_entry ks =
     (case ks of (modelKey, s) \<Rightarrow>
        set_rates ((no_entry modelKey)\<lparr> mce_Passed := cms_Passed s, mce_Failed := cms_Failed s,
          mce_ExtraPolicyOnly := cms_ExtraPolicyOnly s, mce_Errored := cms_Errored s, mce_TotalMs := cms_TotalMs s,
          mce_Stability := cms_Stability s, mce_StabilityTests := cms_StabilityTests s, mce_FromCache := True \<rparr>))"

definition sort_entries :: "ModelComparisonEntry list \<Rightarrow> ModelComparisonEntry list" where
  "sort_entries = sort_key (\<lambda>e. (mce_Model e \<noteq> ''cel'', - mce_MatchRate e, mce_Model e))"

definition buildModelComparison :: "Runner \<Rightarrow> TestResult list \<Rightarrow> ModelComparisonEntry list" where
  "buildModelComparison r results =
     (let aiStats = foldl add_ai [] results;
          cachedSummaries = (case rn_stateManager r of
             None \<Rightarrow> [] | Some sm \<Rightarrow> GetModelSummaries sm (slice_of (rn_policyHashes r)))
      in sort_entries (cel_entries results @
           map (\<lambda>(_, entry). with_stability cachedSummaries (set_rates entry)) aiStats @
           map summary_entry (filter (\<lambda>(modelKey, _). map_of aiStats modelKey = None) cachedSummaries)))"

section \<open>The summary of the cache\<close>

text \<open>
  What \<open>runSummaryOnly\<close> prints: the comparison of the cached models, the number of cached cases, and the
  pass rates. It always reports that the thresholds are met. Without a state manager it dereferences nil.
\<close>

definition summary_comparison :: "StateManager \<Rightarrow> string list \<Rightarrow> ModelComparisonEntry list" where
  "summary_comparison sm policyHashes = sort_entries (map summary_entry (GetModelSummaries sm policyHashes))"

definition total_cached :: "StateManager \<Rightarrow> string list \<Rightarrow> int" where
  "total_cached sm policyHashes =
     foldl (\<lambda>n (_, s). if cms_TestCount s > n then cms_TestCount s else n) 0 (GetModelSummaries sm policyHashes)"

definition stability_results :: "StateManager \<Rightarrow> string list \<Rightarrow> TestResult list" where
  "stability_results sm policyHashes =
     map (\<lambda>cr. no_test_result\<lparr> tr_CaseID := cpr_CaseID cr, tr_Model := cpr_Model cr, tr_PassRate := cpr_PassRate cr,
            tr_PassRateRuns := cpr_PassRateRuns cr, tr_PassRateSinceChange := cpr_PassRateSinceChange cr,
            tr_PassRateSinceChangeRuns := cpr_PassRateSinceChangeRuns cr \<rparr>)
       (GetCachedPassRates sm policyHashes)"

definition runSummaryOnly :: "Runner \<Rightarrow> (RunResult \<times> ModelComparisonEntry list \<times> int \<times> TestResult list) option" where
  "runSummaryOnly r =
     (case rn_stateManager r of
        None \<Rightarrow> None
      | Some sm \<Rightarrow>
          let hashes = slice_of (rn_policyHashes r); met = no_run_result\<lparr> run_ThresholdsMet := True \<rparr>
          in if GetModelSummaries sm hashes = [] then Some (met, [], 0, [])
             else Some (met, summary_comparison sm hashes, total_cached sm hashes, stability_results sm hashes))"

section \<open>The JSON report\<close>

record JSONModelInfo =
  jmi_Provider :: string
  jmi_Model :: string

record JSONActual =
  jac_Decision :: string
  jac_Confidence :: rat
  jac_Reasoning :: string
  jac_PoliciesExecuted :: "PolicyResult list"

record JSONTestResult =
  jtr_CaseID :: string
  jtr_Title :: string
  jtr_Status :: string
  jtr_ElapsedMs :: int
  jtr_Expected :: "(string \<times> PolicyExpectation list) option"
  jtr_Actual :: "JSONActual option"
  jtr_Failures :: "string list"
  jtr_ExtraPolicyOnly :: bool
  jtr_Error :: "TestError option"
  jtr_PassRate :: "(rat \<times> int) option"
  jtr_PassRateSinceChange :: "(rat \<times> int) option"

record JSONModelSummary =
  jms_TotalCases :: int
  jms_Passed :: int
  jms_Failed :: int
  jms_ExtraPolicyOnly :: int
  jms_Errored :: int
  jms_Skipped :: int
  jms_MatchRate :: rat
  jms_StrictMatchRate :: rat
  jms_TotalElapsedMs :: int
  jms_Stability :: "(rat \<times> int) option"

record JSONModelResults =
  jmr_Model :: JSONModelInfo
  jmr_Results :: "JSONTestResult list"
  jmr_Summary :: JSONModelSummary

record JSONOverallSummary =
  jos_ModelsTested :: int
  jos_TotalCases :: int
  jos_Passed :: int
  jos_Failed :: int
  jos_ExtraPolicyOnly :: int
  jos_Errored :: int
  jos_Skipped :: int
  jos_MatchRate :: rat
  jos_StrictMatchRate :: rat
  jos_ThresholdsMet :: bool
  jos_MinMatchRateRequired :: rat
  jos_WorstMatchRate :: rat

record JSONPoliciesLoaded =
  jpl_CELRequest :: "string list"
  jpl_AIRequest :: "string list"
  jpl_CELResponse :: "string list"
  jpl_AIResponse :: "string list"

record JSONModelComparisonEntry =
  jmc_Model :: string
  jmc_Passed :: int
  jmc_Failed :: int
  jmc_ExtraPolicyOnly :: int
  jmc_Errored :: int
  jmc_MatchRate :: rat
  jmc_StrictMatchRate :: rat
  jmc_AvgMs :: int
  jmc_TotalMs :: int
  jmc_FromCache :: bool

record JSONOutput =
  jo_Suite :: "string \<times> string \<times> string"
  jo_PoliciesLoaded :: JSONPoliciesLoaded
  jo_ResultsByModel :: "JSONModelResults list"
  jo_OverallSummary :: JSONOverallSummary
  jo_ModelComparison :: "JSONModelComparisonEntry list"
  jo_Coverage :: "CoverageReport option"

record modelBucket =
  mb_info :: JSONModelInfo
  mb_results :: "JSONTestResult list"
  mb_passed :: int
  mb_failed :: int
  mb_extraPolicyOnly :: int
  mb_errored :: int
  mb_skipped :: int
  mb_totalMs :: int

definition policies_loaded :: "policyInfo list \<Rightarrow> JSONPoliciesLoaded" where
  "policies_loaded infos =
     (let names = (\<lambda>engine. map pinfo_name (filter (\<lambda>p. pinfo_enabled p \<and> pinfo_engine p = engine) infos))
      in \<lparr> jpl_CELRequest = names ''cel_request'', jpl_AIRequest = names ''ai_request'',
           jpl_CELResponse = names ''cel_response'', jpl_AIResponse = names ''ai_response'' \<rparr>)"

definition bucket_key :: "TestResult \<Rightarrow> string \<times> JSONModelInfo" where
  "bucket_key r =
     (if tr_Engine r = ''ai'' \<and> tr_Model r \<noteq> '''' then
        (tr_Model r, case SplitN (CHR '':'') 2 (tr_Model r) of
           [provider, model] \<Rightarrow> \<lparr> jmi_Provider = provider, jmi_Model = model \<rparr>
         | _ \<Rightarrow> \<lparr> jmi_Provider = tr_Model r, jmi_Model = tr_Model r \<rparr>)
      else (''cel'', \<lparr> jmi_Provider = ''cel'', jmi_Model = ''deterministic'' \<rparr>))"

definition json_result :: "TestResult \<Rightarrow> JSONTestResult" where
  "json_result r =
     \<lparr> jtr_CaseID = tr_CaseID r, jtr_Title = tr_Title r, jtr_Status = tr_Status r, jtr_ElapsedMs = tr_ElapsedMs r,
       jtr_Expected = (if er_Decision (tr_Expected r) \<noteq> ''''
         then Some (er_Decision (tr_Expected r), er_Policies (tr_Expected r)) else None),
       jtr_Actual = (if act_Decision (tr_Actual r) \<noteq> ''''
         then Some \<lparr> jac_Decision = act_Decision (tr_Actual r), jac_Confidence = act_Confidence (tr_Actual r),
                jac_Reasoning = act_Reasoning (tr_Actual r), jac_PoliciesExecuted = act_PoliciesExecuted (tr_Actual r) \<rparr>
         else None),
       jtr_Failures = tr_Failures r, jtr_ExtraPolicyOnly = tr_ExtraPolicyOnly r, jtr_Error = tr_Error r,
       jtr_PassRate = (if tr_PassRateRuns r \<ge> 2 then Some (tr_PassRate r, tr_PassRateRuns r) else None),
       jtr_PassRateSinceChange = (if tr_PassRateRuns r \<ge> 2 \<and> tr_PassRateSinceChangeRuns r > 0 \<and>
           tr_PassRateSinceChangeRuns r < tr_PassRateRuns r
         then Some (tr_PassRateSinceChange r, tr_PassRateSinceChangeRuns r) else None) \<rparr>"

definition count_bucket :: "TestResult \<Rightarrow> modelBucket \<Rightarrow> modelBucket" where
  "count_bucket r b =
     (let b1 = b\<lparr> mb_results := mb_results b @ [json_result r], mb_totalMs := mb_totalMs b + tr_ElapsedMs r \<rparr>;
          status = effectiveStatus r
      in if status = ''passed'' then b1\<lparr> mb_passed := mb_passed b1 + 1 \<rparr>
         else if status = ''failed'' then
           (if tr_ExtraPolicyOnly r then b1\<lparr> mb_extraPolicyOnly := mb_extraPolicyOnly b1 + 1 \<rparr>
            else b1\<lparr> mb_failed := mb_failed b1 + 1 \<rparr>)
         else if status = ''errored'' then b1\<lparr> mb_errored := mb_errored b1 + 1 \<rparr>
         else if status = ''skipped'' then b1\<lparr> mb_skipped := mb_skipped b1 + 1 \<rparr>
         else b1)"

text \<open>The buckets in the order of their first result; \<^verbatim>\<open>bucketOrder\<close> lists their keys.\<close>

definition add_bucket :: "(string \<times> modelBucket) list \<Rightarrow> TestResult \<Rightarrow> (string \<times> modelBucket) list" where
  "add_bucket buckets r =
     (case bucket_key r of (key, info) \<Rightarrow>
        let b = (case map_of buckets key of
              Some b \<Rightarrow> b
            | None \<Rightarrow> \<lparr> mb_info = info, mb_results = [], mb_passed = 0, mb_failed = 0, mb_extraPolicyOnly = 0,
                        mb_errored = 0, mb_skipped = 0, mb_totalMs = 0 \<rparr>)
        in AList.update key (count_bucket r b) buckets)"

definition bucket_rate :: "modelBucket \<Rightarrow> rat \<times> rat" where
  "bucket_rate b =
     (let decided = mb_passed b + mb_failed b + mb_extraPolicyOnly b
      in if decided > 0 then (of_int (mb_passed b + mb_extraPolicyOnly b) / of_int decided, of_int (mb_passed b) / of_int decided)
         else (0, 0))"

definition json_model :: "ModelComparisonEntry list \<Rightarrow> string \<times> modelBucket \<Rightarrow> JSONModelResults" where
  "json_model comparison kb =
     (case kb of (key, b) \<Rightarrow>
        \<lparr> jmr_Model = mb_info b, jmr_Results = mb_results b,
          jmr_Summary = \<lparr> jms_TotalCases = mb_passed b + mb_failed b + mb_extraPolicyOnly b + mb_errored b + mb_skipped b,
            jms_Passed = mb_passed b, jms_Failed = mb_failed b, jms_ExtraPolicyOnly = mb_extraPolicyOnly b,
            jms_Errored = mb_errored b, jms_Skipped = mb_skipped b, jms_MatchRate = fst (bucket_rate b),
            jms_StrictMatchRate = snd (bucket_rate b), jms_TotalElapsedMs = mb_totalMs b,
            jms_Stability = (case find (\<lambda>c. mce_Model c = key) (rev comparison) of
                Some c \<Rightarrow> if mce_StabilityTests c > 0 then Some (mce_Stability c, mce_StabilityTests c) else None
              | None \<Rightarrow> None) \<rparr> \<rparr>)"

definition overall_summary :: "Suite \<Rightarrow> RunResult \<Rightarrow> modelBucket list \<Rightarrow> JSONOverallSummary" where
  "overall_summary suite summary bs =
     (let total' = (\<lambda>f. sum_list (map f bs));
          passed = total' mb_passed; failed = total' mb_failed; extra = total' mb_extraPolicyOnly;
          decided = passed + failed + extra
      in \<lparr> jos_ModelsTested = int (length bs),
           jos_TotalCases = passed + failed + extra + total' mb_errored + total' mb_skipped,
           jos_Passed = passed, jos_Failed = failed, jos_ExtraPolicyOnly = extra, jos_Errored = total' mb_errored,
           jos_Skipped = total' mb_skipped,
           jos_MatchRate = (if decided > 0 then of_int (passed + extra) / of_int decided else 0),
           jos_StrictMatchRate = (if decided > 0 then of_int passed / of_int decided else 0),
           jos_ThresholdsMet = run_ThresholdsMet summary, jos_MinMatchRateRequired = min_match_rate suite,
           jos_WorstMatchRate = foldl (\<lambda>worst b. if fst (bucket_rate b) < worst then fst (bucket_rate b) else worst) 1 bs \<rparr>)"

definition json_comparison :: "ModelComparisonEntry \<Rightarrow> JSONModelComparisonEntry" where
  "json_comparison c =
     \<lparr> jmc_Model = mce_Model c, jmc_Passed = mce_Passed c, jmc_Failed = mce_Failed c,
       jmc_ExtraPolicyOnly = mce_ExtraPolicyOnly c, jmc_Errored = mce_Errored c, jmc_MatchRate = mce_MatchRate c,
       jmc_StrictMatchRate = mce_StrictMatchRate c, jmc_AvgMs = mce_AvgMs c, jmc_TotalMs = mce_TotalMs c,
       jmc_FromCache = mce_FromCache c \<rparr>"

text \<open>The structure that \<open>formatJSONOutput\<close> encodes; \<open>now\<close> is the formatted time.\<close>

definition json_output ::
  "string \<Rightarrow> Suite \<Rightarrow> TestResult list \<Rightarrow> RunResult \<Rightarrow> CoverageReport option \<Rightarrow> ModelComparisonEntry list \<Rightarrow>
     policyInfo list \<Rightarrow> JSONOutput" where
  "json_output now suite results summary coverage comparison loadedPolicies =
     (let buckets = foldl add_bucket [] results
      in \<lparr> jo_Suite = (su_BundleID suite, su_Version suite, now), jo_PoliciesLoaded = policies_loaded loadedPolicies,
           jo_ResultsByModel = map (json_model comparison) buckets,
           jo_OverallSummary = overall_summary suite summary (map snd buckets),
           jo_ModelComparison = map json_comparison comparison, jo_Coverage = coverage \<rparr>)"

definition formatJSONOutput ::
  "(JSONOutput \<Rightarrow> string + string) \<Rightarrow> string \<Rightarrow> Suite \<Rightarrow> TestResult list \<Rightarrow> RunResult \<Rightarrow> CoverageReport option \<Rightarrow>
     ModelComparisonEntry list \<Rightarrow> policyInfo list \<Rightarrow> string + string" where
  "formatJSONOutput marshal now suite results summary coverage comparison loadedPolicies =
     (case marshal (json_output now suite results summary coverage comparison loadedPolicies) of
        Inl err \<Rightarrow> Inl (''failed to marshal JSON: '' @ err)
      | Inr data \<Rightarrow> Inr data)"

section \<open>The JUnit report\<close>

record JUnitFailure =
  juf_Message :: string
  juf_Type :: string
  juf_Content :: string

record JUnitTestCase =
  jtc_Name :: string
  jtc_ClassName :: string
  jtc_Time :: rat
  jtc_Failure :: "JUnitFailure option"
  jtc_Error :: "JUnitFailure option"
  jtc_Skipped :: "string option"

record JUnitTestSuite =
  jts_Name :: string
  jts_Tests :: int
  jts_Failures :: int
  jts_Errors :: int
  jts_Skipped :: int
  jts_Time :: rat
  jts_Properties :: "(string \<times> string) list"
  jts_TestCases :: "JUnitTestCase list"

record JUnitTestSuites =
  jss_Name :: string
  jss_Tests :: int
  jss_Failures :: int
  jss_Errors :: int
  jss_Time :: rat
  jss_TestSuite :: "JUnitTestSuite list"

definition failure_content :: "TestResult \<Rightarrow> string" where
  "failure_content r =
     ''Expected: '' @ er_Decision (tr_Expected r) @ nl @ ''Actual: '' @ act_Decision (tr_Actual r) @ nl @
     (if length (act_PoliciesExecuted (tr_Actual r)) > 0
      then nl @ ''Policy results:'' @ nl @ concat (map (\<lambda>p. ''  - '' @ plr_PolicyName p @ '': '' @ plr_Decision p @ '' ('' @
             Itoa (plr_ElapsedMs p) @ ''ms)'' @ nl) (act_PoliciesExecuted (tr_Actual r)))
      else '''') @
     concat (map (\<lambda>f. nl @ f) (tr_Failures r))"

definition error_content :: "TestError \<Rightarrow> string" where
  "error_content e =
     ''Type: '' @ te_Type e @ nl @ ''Message: '' @ te_Message e @ nl @
     (if te_Details e \<noteq> '''' then ''Details: '' @ te_Details e @ nl else '''')"

definition is_cached :: "TestResult \<Rightarrow> bool" where
  "is_cached r \<longleftrightarrow> tr_Status r = ''skipped'' \<and> (case tr_Error r of Some e \<Rightarrow> te_Type e = ''cached'' | None \<Rightarrow> False)"

text \<open>\<open>None\<close> where the code dereferences nil: an errored result without an error.\<close>

definition junit_case :: "TestResult \<Rightarrow> JUnitTestCase option" where
  "junit_case r =
     (let tc = \<lparr> jtc_Name = tr_CaseID r, jtc_ClassName = ''policies.'' @ er_Decision (tr_Expected r),
                 jtc_Time = of_int (tr_ElapsedMs r) / 1000, jtc_Failure = None, jtc_Error = None, jtc_Skipped = None \<rparr>;
          status = effectiveStatus r
      in if status = ''failed'' then
           Some (tc\<lparr> jtc_Failure := Some (if is_cached r
             then \<lparr> juf_Message = ''Failed in previous run (cached result)'', juf_Type = ''CachedFailure'', juf_Content = '''' \<rparr>
             else \<lparr> juf_Message = ''Expected '' @ [CHR 0x27] @ er_Decision (tr_Expected r) @ [CHR 0x27] @ '', actual '' @
                      [CHR 0x27] @ act_Decision (tr_Actual r) @ [CHR 0x27],
                    juf_Type = ''AssertionError'', juf_Content = failure_content r \<rparr>) \<rparr>)
         else if status = ''errored'' then
           (if is_cached r
            then Some (tc\<lparr> jtc_Error := Some \<lparr> juf_Message = ''Errored in previous run (cached result)'',
                   juf_Type = ''CachedError'', juf_Content = '''' \<rparr> \<rparr>)
            else case tr_Error r of
              None \<Rightarrow> None
            | Some e \<Rightarrow> Some (tc\<lparr> jtc_Error := Some \<lparr> juf_Message = te_Message e, juf_Type = te_Type e,
                juf_Content = error_content e \<rparr> \<rparr>))
         else if status = ''skipped'' then
           Some (tc\<lparr> jtc_Skipped := Some (case tr_Error r of Some e \<Rightarrow> te_Message e | None \<Rightarrow> '''') \<rparr>)
         else Some tc)"

definition junit_output :: "(rat \<Rightarrow> string) \<Rightarrow> Suite \<Rightarrow> TestResult list \<Rightarrow> RunResult \<Rightarrow> JUnitTestSuites option" where
  "junit_output fmt4 suite results summary =
     (let totalTime = foldl (\<lambda>t r. t + of_int (tr_ElapsedMs r) / 1000) 0 results;
          evaluated = run_TotalCases summary - run_Skipped summary;
          matchRate = (if evaluated > 0 then of_int (run_Passed summary) / of_int evaluated else 0)
      in case those (map junit_case results) of
           None \<Rightarrow> None
         | Some cases \<Rightarrow>
             Some \<lparr> jss_Name = ''policy-test-suite'', jss_Tests = run_TotalCases summary, jss_Failures = run_Failed summary,
                jss_Errors = run_Errored summary, jss_Time = totalTime,
                jss_TestSuite = [\<lparr> jts_Name = ''policies/'' @ su_BundleID suite, jts_Tests = run_TotalCases summary,
                  jts_Failures = run_Failed summary, jts_Errors = run_Errored summary, jts_Skipped = run_Skipped summary,
                  jts_Time = totalTime,
                  jts_Properties = [(''bundle_id'', su_BundleID suite), (''version'', su_Version suite),
                    (''match_rate'', fmt4 matchRate)],
                  jts_TestCases = cases \<rparr>] \<rparr>)"

text \<open>\<open>header\<close> is \<^verbatim>\<open>xml.Header\<close>.\<close>

definition formatJUnitOutput ::
  "(JUnitTestSuites \<Rightarrow> string + string) \<Rightarrow> string \<Rightarrow> (rat \<Rightarrow> string) \<Rightarrow> Suite \<Rightarrow> TestResult list \<Rightarrow> RunResult \<Rightarrow>
     (string + string) option" where
  "formatJUnitOutput marshal header fmt4 suite results summary =
     (case junit_output fmt4 suite results summary of
        None \<Rightarrow> None
      | Some out \<Rightarrow> (case marshal out of
          Inl err \<Rightarrow> Some (Inl (''failed to marshal JUnit XML: '' @ err))
        | Inr data \<Rightarrow> Some (Inr (header @ data))))"

section \<open>What the numbers say\<close>

definition number_of :: "('a \<Rightarrow> bool) \<Rightarrow> 'a list \<Rightarrow> int" where
  "number_of P xs = int (length (filter P xs))"

lemma number_of_simps [simp]:
  "number_of P [] = 0" "number_of P (xs @ [x]) = number_of P xs + (if P x then 1 else 0)"
  by (simp_all add: number_of_def)

lemma number_of_nonneg [simp]: "number_of P xs \<ge> 0"
  by (simp add: number_of_def)

text \<open>The outcomes of a result, and whether it is one of a kind that was not run.\<close>

definition passes :: "TestResult \<Rightarrow> bool" where "passes tr \<longleftrightarrow> effectiveStatus tr = ''passed''"
definition fails :: "TestResult \<Rightarrow> bool" where "fails tr \<longleftrightarrow> effectiveStatus tr = ''failed'' \<and> \<not> tr_ExtraPolicyOnly tr"
definition fails_extra :: "TestResult \<Rightarrow> bool" where
  "fails_extra tr \<longleftrightarrow> effectiveStatus tr = ''failed'' \<and> tr_ExtraPolicyOnly tr"
definition errs :: "TestResult \<Rightarrow> bool" where "errs tr \<longleftrightarrow> effectiveStatus tr = ''errored''"
definition skips :: "TestResult \<Rightarrow> bool" where "skips tr \<longleftrightarrow> effectiveStatus tr = ''skipped''"
definition not_run :: "string \<Rightarrow> TestResult \<Rightarrow> bool" where
  "not_run type tr \<longleftrightarrow> tr_Status tr = ''skipped'' \<and> map_option te_Type (tr_Error tr) = Some type"

lemmas outcome_defs = passes_def fails_def fails_extra_def errs_def skips_def

definition tally :: "int \<Rightarrow> TestResult list \<Rightarrow> RunResult" where
  "tally n results = no_run_result\<lparr> run_TotalCases := n, run_Passed := number_of passes results,
     run_Failed := number_of fails results, run_ExtraPolicyOnly := number_of fails_extra results,
     run_Errored := number_of errs results, run_Skipped := number_of skips results,
     run_CachedCount := number_of (not_run ''cached'') results,
     run_RateLimited := number_of (not_run ''rate_limited'') results \<rparr>"

lemma count_result_sel:
  "run_TotalCases (count_result res tr) = run_TotalCases res"
  "run_Passed (count_result res tr) = run_Passed res + (if passes tr then 1 else 0)"
  "run_Failed (count_result res tr) = run_Failed res + (if fails tr then 1 else 0)"
  "run_ExtraPolicyOnly (count_result res tr) = run_ExtraPolicyOnly res + (if fails_extra tr then 1 else 0)"
  "run_Errored (count_result res tr) = run_Errored res + (if errs tr then 1 else 0)"
  "run_Skipped (count_result res tr) = run_Skipped res + (if skips tr then 1 else 0)"
  "run_CachedCount (count_result res tr) = run_CachedCount res + (if not_run ''cached'' tr then 1 else 0)"
  "run_RateLimited (count_result res tr) = run_RateLimited res + (if not_run ''rate_limited'' tr then 1 else 0)"
  "run_ThresholdsMet (count_result res tr) = run_ThresholdsMet res" "run_MatchRate (count_result res tr) = run_MatchRate res"
  "run_Remaining (count_result res tr) = run_Remaining res" "run_MoreTestsRemain (count_result res tr) = run_MoreTestsRemain res"
  by (auto simp: count_result_def outcome_defs not_run_def Let_def split: option.split)

lemma count_result_tally: "count_result (tally n results) tr = tally n (results @ [tr])"
  by (rule RunResult.equality) (simp_all add: count_result_sel tally_def no_run_result_def)

lemma foldl_count_result: "foldl count_result (no_run_result\<lparr> run_TotalCases := n \<rparr>) results = tally n results"
proof (induction results rule: rev_induct)
  case (snoc tr results)
  then show ?case by (simp add: count_result_tally)
qed (simp add: tally_def no_run_result_def)

lemma calculateResults_sel:
  "run_TotalCases (calculateResults r results) = int (length results)"
  "run_Passed (calculateResults r results) = number_of passes results"
  "run_Failed (calculateResults r results) = number_of fails results"
  "run_ExtraPolicyOnly (calculateResults r results) = number_of fails_extra results"
  "run_Errored (calculateResults r results) = number_of errs results"
  "run_Skipped (calculateResults r results) = number_of skips results"
  "run_CachedCount (calculateResults r results) = number_of (not_run ''cached'') results"
  "run_RateLimited (calculateResults r results) = number_of (not_run ''rate_limited'') results"
  unfolding calculateResults_def foldl_count_result Let_def
  by (simp_all add: set_remaining_def tally_def no_run_result_def Let_def)

lemma calculateResults_rate:
  assumes "decided = number_of passes results + number_of fails results + number_of fails_extra results"
  shows "run_MatchRate (calculateResults r results) =
      (if decided = 0 then 0 else of_int (number_of passes results + number_of fails_extra results) / of_int decided)"
    "run_ThresholdsMet (calculateResults r results) =
      (if decided = 0 then True else min_match_rate (rn_suite r) \<le> run_MatchRate (calculateResults r results))"
proof -
  have "decided \<ge> 0" using assms by simp
  then have d: "decided > 0 \<longleftrightarrow> decided \<noteq> 0" by arith
  show "run_MatchRate (calculateResults r results) =
      (if decided = 0 then 0 else of_int (number_of passes results + number_of fails_extra results) / of_int decided)"
    "run_ThresholdsMet (calculateResults r results) =
      (if decided = 0 then True else min_match_rate (rn_suite r) \<le> run_MatchRate (calculateResults r results))"
    using d unfolding calculateResults_def foldl_count_result Let_def
    by (simp_all add: set_remaining_def tally_def no_run_result_def Let_def assms)
qed

text \<open>
  The numbers of a run count every result by its outcome, a cached result by the one it had when it
  was recorded. The match rate is the share of passed results, and of those that only failed for extra
  rules, among the decided ones; the threshold is met exactly when nothing was decided or the rate reaches
  the configured minimum, 1 if none is set.
\<close>

lemma run_numbers_exact:
  "let res = calculateResults r results;
       decided = run_Passed res + run_Failed res + run_ExtraPolicyOnly res
   in run_TotalCases res = int (length results) \<and> run_Passed res = number_of passes results \<and>
      run_Failed res = number_of fails results \<and> run_ExtraPolicyOnly res = number_of fails_extra results \<and>
      run_Errored res = number_of errs results \<and> run_Skipped res = number_of skips results \<and>
      run_CachedCount res = number_of (not_run ''cached'') results \<and>
      run_RateLimited res = number_of (not_run ''rate_limited'') results \<and>
      run_MatchRate res = (if decided = 0 then 0 else of_int (run_Passed res + run_ExtraPolicyOnly res) / of_int decided) \<and>
      run_ThresholdsMet res = (if decided = 0 then True else min_match_rate (rn_suite r) \<le> run_MatchRate res)"
  using calculateResults_rate [OF refl, of r results] by (simp add: Let_def calculateResults_sel)

section \<open>The JSON report agrees with the run\<close>

lemma sum_update:
  assumes "distinct (map fst kvs)"
  shows "sum_list (map (\<lambda>kv. f (snd kv)) (AList.update k v kvs)) =
    sum_list (map (\<lambda>kv. f (snd kv)) kvs) + f v - (case map_of kvs k of Some w \<Rightarrow> f w | None \<Rightarrow> (0 :: int))"
  using assms
proof (induction kvs)
  case (Cons kv kvs)
  then show ?case by (cases kv) (auto split: option.splits)
qed simp

definition outcome_totals :: "(string \<times> modelBucket) list \<Rightarrow> int list" where
  "outcome_totals bs = map (\<lambda>f. sum_list (map (\<lambda>kb. f (snd kb)) bs)) [mb_passed, mb_failed, mb_extraPolicyOnly, mb_errored, mb_skipped]"

lemma count_bucket_sel:
  "mb_passed (count_bucket r b) = mb_passed b + (if passes r then 1 else 0)"
  "mb_failed (count_bucket r b) = mb_failed b + (if fails r then 1 else 0)"
  "mb_extraPolicyOnly (count_bucket r b) = mb_extraPolicyOnly b + (if fails_extra r then 1 else 0)"
  "mb_errored (count_bucket r b) = mb_errored b + (if errs r then 1 else 0)"
  "mb_skipped (count_bucket r b) = mb_skipped b + (if skips r then 1 else 0)"
  by (auto simp: count_bucket_def outcome_defs Let_def)

lemma buckets_distinct: "distinct (map fst bs) \<Longrightarrow> distinct (map fst (add_bucket bs r))"
  by (auto simp: add_bucket_def Let_def distinct_update split: prod.split)

lemma add_bucket_totals:
  assumes "distinct (map fst bs)"
  shows "outcome_totals (add_bucket bs r) = map2 (+) (outcome_totals bs)
    (map (\<lambda>P. if P r then 1 else 0) [passes, fails, fails_extra, errs, skips])"
  using assms
  by (auto simp: outcome_totals_def add_bucket_def Let_def sum_update count_bucket_sel split: prod.split option.split)

lemma buckets_spec:
  "distinct (map fst (foldl add_bucket [] results)) \<and>
   outcome_totals (foldl add_bucket [] results) = map (\<lambda>P. number_of P results) [passes, fails, fails_extra, errs, skips]"
proof (induction results rule: rev_induct)
  case (snoc r results)
  then show ?case by (simp add: buckets_distinct add_bucket_totals)
qed (simp add: outcome_totals_def)

text \<open>The models in the order of their first result.\<close>

definition model_keys :: "TestResult list \<Rightarrow> string list" where
  "model_keys results = rev (remdups (rev (map (fst \<circ> bucket_key) results)))"

definition results_of :: "string \<Rightarrow> TestResult list \<Rightarrow> TestResult list" where
  "results_of key results = filter (\<lambda>r. fst (bucket_key r) = key) results"

lemma bucket_keys: "map fst (foldl add_bucket [] results) = model_keys results"
  by (induction results rule: rev_induct)
    (auto simp: model_keys_def add_bucket_def Let_def update_keys image_image split: prod.split
      dest: arg_cong [where f = set])

definition empty_bucket :: "JSONModelInfo \<Rightarrow> modelBucket" where
  "empty_bucket info = \<lparr> mb_info = info, mb_results = [], mb_passed = 0, mb_failed = 0, mb_extraPolicyOnly = 0,
     mb_errored = 0, mb_skipped = 0, mb_totalMs = 0 \<rparr>"

lemma bucket_exact:
  "map_of (foldl add_bucket [] results) key =
     (if results_of key results = [] then None
      else Some (foldl (\<lambda>b r. count_bucket r b) (empty_bucket (snd (bucket_key (hd (results_of key results)))))
        (results_of key results)))"
proof (induction results rule: rev_induct)
  case (snoc r results)
  obtain k info where k: "bucket_key r = (k, info)" by (cases "bucket_key r")
  show ?case
  proof (cases "key = k")
    case True
    with snoc show ?thesis
      by (cases "results_of k results = []")
        (auto simp: add_bucket_def k results_of_def Let_def update_conv' empty_bucket_def)
  next
    case False
    with snoc show ?thesis
      by (auto simp: add_bucket_def k results_of_def Let_def update_conv')
  qed
qed (simp add: results_of_def)

lemma fold_bucket:
  "mb_info (foldl (\<lambda>b r. count_bucket r b) b rs) = mb_info b"
  "mb_results (foldl (\<lambda>b r. count_bucket r b) b rs) = mb_results b @ map json_result rs"
  "mb_passed (foldl (\<lambda>b r. count_bucket r b) b rs) = mb_passed b + number_of passes rs"
  "mb_failed (foldl (\<lambda>b r. count_bucket r b) b rs) = mb_failed b + number_of fails rs"
  "mb_extraPolicyOnly (foldl (\<lambda>b r. count_bucket r b) b rs) = mb_extraPolicyOnly b + number_of fails_extra rs"
  "mb_errored (foldl (\<lambda>b r. count_bucket r b) b rs) = mb_errored b + number_of errs rs"
  "mb_skipped (foldl (\<lambda>b r. count_bucket r b) b rs) = mb_skipped b + number_of skips rs"
proof (induction rs rule: rev_induct)
  case (snoc r rs)
  have c: "mb_info (count_bucket r b) = mb_info b" "mb_results (count_bucket r b) = mb_results b @ [json_result r]" for b
    by (simp_all add: count_bucket_def Let_def)
  case 1 from snoc c show ?case by simp
  case 2 from snoc c show ?case by simp
  case 3 from snoc show ?case by (simp add: count_bucket_sel)
  case 4 from snoc show ?case by (simp add: count_bucket_sel)
  case 5 from snoc show ?case by (simp add: count_bucket_sel)
  case 6 from snoc show ?case by (simp add: count_bucket_sel)
  case 7 from snoc show ?case by (simp add: count_bucket_sel)
qed simp_all

text \<open>
  The model a result belongs to, if it is one of the CEL engine or one of an AI model, whose name is shown as
  its provider and its own name; and the models of a run in the order of their first result.
\<close>

definition attributed :: "TestResult \<Rightarrow> bool" where
  "attributed r \<longleftrightarrow> tr_Engine r = ''cel'' \<or> tr_Engine r = ''ai'' \<and> tr_Model r \<notin> {'''', ''cel''}"

definition model_of :: "TestResult \<Rightarrow> string" where
  "model_of r = (if tr_Engine r = ''ai'' then tr_Model r else ''cel'')"

definition shown_model :: "string \<Rightarrow> JSONModelInfo" where
  "shown_model m =
     (if m = ''cel'' then \<lparr> jmi_Provider = ''cel'', jmi_Model = ''deterministic'' \<rparr>
      else if CHR '':'' \<in> set m
      then \<lparr> jmi_Provider = takeWhile (\<lambda>c. c \<noteq> CHR '':'') m, jmi_Model = tl (dropWhile (\<lambda>c. c \<noteq> CHR '':'') m) \<rparr>
      else \<lparr> jmi_Provider = m, jmi_Model = m \<rparr>)"

definition models_in :: "TestResult list \<Rightarrow> string list" where
  "models_in results = rev (remdups (rev (map model_of results)))"

definition runs_of :: "string \<Rightarrow> TestResult list \<Rightarrow> TestResult list" where
  "runs_of m results = filter (\<lambda>r. model_of r = m) results"

lemma bucket_key_attributed:
  assumes "attributed r"
  shows "bucket_key r = (model_of r, shown_model (model_of r))"
  using assms
  by (auto simp: bucket_key_def attributed_def model_of_def shown_model_def numeral_2_eq_2)

text \<open>The report of a model: its name, its results as they are, and their counts.\<close>

definition reports_model :: "TestResult list \<Rightarrow> string \<Rightarrow> JSONModelResults \<Rightarrow> bool" where
  "reports_model results m rep \<longleftrightarrow>
     (let rs = runs_of m results; s = jmr_Summary rep in
      jmr_Model rep = shown_model m \<and>
      map (\<lambda>j. (jtr_CaseID j, jtr_Status j, jtr_Failures j, jtr_ExtraPolicyOnly j, jtr_Error j)) (jmr_Results rep) =
        map (\<lambda>r. (tr_CaseID r, tr_Status r, tr_Failures r, tr_ExtraPolicyOnly r, tr_Error r)) rs \<and>
      jms_Passed s = number_of passes rs \<and> jms_Failed s = number_of fails rs \<and>
      jms_ExtraPolicyOnly s = number_of fails_extra rs \<and> jms_Errored s = number_of errs rs \<and>
      jms_Skipped s = number_of skips rs)"

lemma json_models_reported:
  assumes "list_all attributed results"
  shows "list_all2 (reports_model results) (models_in results) (map (json_model comparison) (foldl add_bucket [] results))"
proof -
  let ?bs = "foldl add_bucket [] results"
  have key: "fst (bucket_key r) = model_of r" "snd (bucket_key r) = shown_model (model_of r)" if "r \<in> set results" for r
    using assms that bucket_key_attributed by (simp_all add: list_all_iff)
  have runs: "results_of m results = runs_of m results" for m
    using key(1) by (auto simp: results_of_def runs_of_def intro: filter_cong)
  have "map (fst \<circ> bucket_key) results = map model_of results" using key(1) by simp
  then have models: "map fst ?bs = models_in results"
    unfolding bucket_keys model_keys_def models_in_def by (simp only:)
  have "reports_model results m (json_model comparison (m, b))" if "(m, b) \<in> set ?bs" for m b
  proof -
    have "map_of ?bs m = Some b" using that buckets_spec by (simp add: map_of_is_SomeI)
    with bucket_exact [of results m] have ne: "runs_of m results \<noteq> []"
      and b: "b = foldl (\<lambda>b r. count_bucket r b) (empty_bucket (snd (bucket_key (hd (runs_of m results))))) (runs_of m results)"
      by (simp_all add: runs split: if_splits)
    from ne have "hd (runs_of m results) \<in> set (runs_of m results)" by simp
    then have "hd (runs_of m results) \<in> set results" "model_of (hd (runs_of m results)) = m" by (auto simp: runs_of_def)
    with key(2) have "snd (bucket_key (hd (runs_of m results))) = shown_model m" by metis
    with b show ?thesis
      by (simp add: reports_model_def json_model_def fold_bucket empty_bucket_def json_result_def comp_def Let_def)
  qed
  then have "list_all2 (\<lambda>kb. reports_model results (fst kb)) ?bs (map (json_model comparison) ?bs)"
    by (auto simp: list_all2_map2 intro!: list.rel_refl_strong)
  then show ?thesis unfolding models [symmetric] list_all2_map1 .
qed

text \<open>
  C40. The JSON report agrees with the run. Its overall numbers, added up from its models, are the
  counts the run makes of passed, failed, errored and skipped results, their sum is its total, which is the
  number of results when each has one of these outcomes, and its match rate and verdict are those of the
  run. When every result is one of the CEL engine or of an AI model, the report lists each model once, in the
  order of the first results, under its provider and name, with exactly the results of that model in
  their order and their counts.
\<close>

theorem json_agrees_with_run:
  "let summary = calculateResults r results;
       report = json_output now (rn_suite r) results summary coverage comparison infos;
       overall = jo_OverallSummary report
   in (if list_all attributed results
       then list_all2 (reports_model results) (models_in results) (jo_ResultsByModel report) else True) \<and>
      jos_Passed overall = run_Passed summary \<and> jos_Failed overall = run_Failed summary \<and>
      jos_ExtraPolicyOnly overall = run_ExtraPolicyOnly summary \<and> jos_Errored overall = run_Errored summary \<and>
      jos_Skipped overall = run_Skipped summary \<and> jos_MatchRate overall = run_MatchRate summary \<and>
      jos_ThresholdsMet overall = run_ThresholdsMet summary \<and>
      jos_TotalCases overall = run_Passed summary + run_Failed summary + run_ExtraPolicyOnly summary +
        run_Errored summary + run_Skipped summary \<and>
      (if list_all (\<lambda>tr. effectiveStatus tr \<in> {''passed'', ''failed'', ''errored'', ''skipped''}) results
       then jos_TotalCases overall = run_TotalCases summary else True)"
proof -
  have "outcome_totals (foldl add_bucket [] results) = map (\<lambda>P. number_of P results) [passes, fails, fails_extra, errs, skips]"
    using buckets_spec by blast
  then have t: "sum_list (map mb_passed (map snd (foldl add_bucket [] results))) = number_of passes results"
    "sum_list (map mb_failed (map snd (foldl add_bucket [] results))) = number_of fails results"
    "sum_list (map mb_extraPolicyOnly (map snd (foldl add_bucket [] results))) = number_of fails_extra results"
    "sum_list (map mb_errored (map snd (foldl add_bucket [] results))) = number_of errs results"
    "sum_list (map mb_skipped (map snd (foldl add_bucket [] results))) = number_of skips results"
    by (simp_all add: outcome_totals_def comp_def)
  define decided where d: "decided = number_of passes results + number_of fails results + number_of fails_extra results"
  then have "decided \<ge> 0" by simp
  then have pos: "0 < decided \<longleftrightarrow> decided \<noteq> 0" by arith
  have all: "number_of passes results + number_of fails results + number_of fails_extra results + number_of errs results +
      number_of skips results = int (length results)"
    if "list_all (\<lambda>tr. effectiveStatus tr \<in> {''passed'', ''failed'', ''errored'', ''skipped''}) results"
    using that by (induction results rule: rev_induct) (auto simp: outcome_defs)
  show ?thesis
    unfolding json_output_def overall_summary_def Let_def JSONOutput.select_convs JSONOverallSummary.select_convs t
    by (simp add: calculateResults_sel calculateResults_rate [OF d] pos d [symmetric] json_models_reported
        all [unfolded d [symmetric]] del: insert_iff)
qed

section \<open>The JUnit report\<close>

lemma junit_case_elements:
  assumes "junit_case r = Some tc"
  shows "(jtc_Failure tc \<noteq> None) = (fails r \<or> fails_extra r)" "(jtc_Error tc \<noteq> None) = errs r"
    "(jtc_Skipped tc \<noteq> None) = skips r" "jtc_Name tc = tr_CaseID r"
  using assms by (auto simp: junit_case_def outcome_defs Let_def split: if_splits option.splits)

lemma junit_cases_counts:
  assumes "those (map junit_case results) = Some tcs"
  shows "number_of (\<lambda>tc. jtc_Failure tc \<noteq> None) tcs = number_of fails results + number_of fails_extra results \<and>
    number_of (\<lambda>tc. jtc_Error tc \<noteq> None) tcs = number_of errs results \<and>
    number_of (\<lambda>tc. jtc_Skipped tc \<noteq> None) tcs = number_of skips results \<and> map jtc_Name tcs = map tr_CaseID results"
  using assms
proof (induction results arbitrary: tcs)
  case (Cons r results)
  then obtain tc tcs' where tc: "junit_case r = Some tc" "those (map junit_case results) = Some tcs'" "tcs = tc # tcs'"
    by (auto split: option.splits)
  have "\<not> (fails r \<and> fails_extra r)" by (auto simp: outcome_defs)
  with Cons.IH [OF tc(2)] tc(3) junit_case_elements [OF tc(1)] show ?case
    by (auto simp: number_of_def)
qed simp

lemma those_None: "those xs = None \<longleftrightarrow> None \<in> set xs"
  by (induction xs) (auto split: option.splits)

text \<open>
  The JUnit report has a test case for each result, in order, with as many error and skipped elements
  as its attributes say; but the attribute for failures leaves out the results that only failed for
  extra rules, which have a failure element too. It cannot be made exactly when a result that is
  errored and not cached carries no error.
\<close>

lemma junit_agrees_with_run:
  "case junit_output fmt4 (rn_suite r) results (calculateResults r results) of
     None \<Rightarrow> list_ex (\<lambda>tr. errs tr \<and> \<not> is_cached tr \<and> tr_Error tr = None) results
   | Some out \<Rightarrow>
       (case jss_TestSuite out of
          [ts] \<Rightarrow>
            map jtc_Name (jts_TestCases ts) = map tr_CaseID results \<and> jts_Tests ts = int (length results) \<and>
            jts_Errors ts = number_of (\<lambda>tc. jtc_Error tc \<noteq> None) (jts_TestCases ts) \<and>
            jts_Skipped ts = number_of (\<lambda>tc. jtc_Skipped tc \<noteq> None) (jts_TestCases ts) \<and>
            jts_Failures ts + number_of fails_extra results = number_of (\<lambda>tc. jtc_Failure tc \<noteq> None) (jts_TestCases ts)
        | _ \<Rightarrow> False)"
proof (cases "those (map junit_case results)")
  case None
  then obtain tr where "tr \<in> set results" "junit_case tr = None" by (auto simp: those_None)
  then have "list_ex (\<lambda>tr. errs tr \<and> \<not> is_cached tr \<and> tr_Error tr = None) results"
    by (auto simp: list_ex_iff junit_case_def outcome_defs Let_def split: if_splits option.splits intro!: bexI [of _ tr])
  with None show ?thesis by (simp add: junit_output_def Let_def)
next
  case (Some tcs)
  note c = junit_cases_counts [OF Some]
  show ?thesis using c by (simp add: junit_output_def Let_def Some calculateResults_sel)
qed

end
