(* ===== verification/RateLimiter.thy ===== *)
theory RateLimiter
  imports SuiteTypes
begin

text \<open>
  The rate limiter of the test suite (\<^verbatim>\<open>internal/testsuite/ratelimiter.go\<close>). Instants and durations are
  nanoseconds. The maps of the struct whose zero value means "not there" are functions. A section of code
  under the lock is a function here; the goroutines that run such sections, wait for each other and
  for the clock are steps of a transition relation. What is printed while waiting is not modelled.
\<close>

section \<open>The limiter\<close>

record LearnedLimits =
  ll_RequestsLimit :: int
  ll_RequestsRemaining :: int
  ll_RequestsReset :: "int option"
  ll_TokensLimit :: int
  ll_TokensRemaining :: int
  ll_TokensReset :: "int option"
  ll_LastUpdated :: int

record RateLimitInfo =
  rli_Provider :: string
  rli_RequestsLimit :: int
  rli_RequestsRemaining :: int
  rli_RequestsReset :: "int option"
  rli_TokensLimit :: int
  rli_TokensRemaining :: int
  rli_TokensReset :: "int option"
  rli_RetryAfter :: int

record RateLimiterConfig =
  rlc_ProviderLimits :: "(string \<times> int) list"
  rlc_DefaultLimit :: int
  rlc_DelayBetweenRequestsMs :: int
  rlc_RateLimitBufferMs :: int
  rlc_OverrideRPM :: int
  rlc_WaitOnLimit :: bool

record RateLimiter =
  rl_providerLimits :: "(string \<times> int) list"
  rl_defaultLimit :: int
  rl_delayBetweenRequestsMs :: int
  rl_rateLimitBufferMs :: int
  rl_waitOnLimit :: bool
  rl_providerRequests :: "string \<Rightarrow> int list"
  rl_providerStopped :: "string \<Rightarrow> bool"
  rl_learnedLimits :: "string \<Rightarrow> LearnedLimits option"
  rl_providerWaiting :: "string \<Rightarrow> bool"
  rl_providerSequential :: "string \<Rightarrow> bool"
  rl_providerSemaphore :: "string \<Rightarrow> nat"

abbreviation minute :: int where "minute \<equiv> 60000000000"
abbreviation millisecond :: int where "millisecond \<equiv> 1000000"

definition NewRateLimiter :: "RateLimiterConfig \<Rightarrow> RateLimiter" where
  "NewRateLimiter cfg =
     \<lparr> rl_providerLimits = (if rlc_OverrideRPM cfg > 0
          then map (\<lambda>(provider, limit). (provider, rlc_OverrideRPM cfg)) (rlc_ProviderLimits cfg)
          else rlc_ProviderLimits cfg),
       rl_defaultLimit = (if rlc_OverrideRPM cfg > 0 then rlc_OverrideRPM cfg
          else if rlc_DefaultLimit cfg > 0 then rlc_DefaultLimit cfg else 30),
       rl_delayBetweenRequestsMs = (if rlc_DelayBetweenRequestsMs cfg > 0 then rlc_DelayBetweenRequestsMs cfg else 100),
       rl_rateLimitBufferMs = (if rlc_RateLimitBufferMs cfg > 0 then rlc_RateLimitBufferMs cfg else 5000),
       rl_waitOnLimit = rlc_WaitOnLimit cfg,
       rl_providerRequests = (\<lambda>_. []), rl_providerStopped = (\<lambda>_. False), rl_learnedLimits = (\<lambda>_. None),
       rl_providerWaiting = (\<lambda>_. False), rl_providerSequential = (\<lambda>_. False), rl_providerSemaphore = (\<lambda>_. 0) \<rparr>"

definition GetLimit :: "RateLimiter \<Rightarrow> string \<Rightarrow> int" where
  "GetLimit rl provider =
     (case map_of (rl_providerLimits rl) provider of Some limit \<Rightarrow> limit | None \<Rightarrow> rl_defaultLimit rl)"

definition IsProviderStopped :: "RateLimiter \<Rightarrow> string \<Rightarrow> bool" where
  "IsProviderStopped rl provider = rl_providerStopped rl provider"

definition StopProvider :: "string \<Rightarrow> RateLimiter \<Rightarrow> RateLimiter" where
  "StopProvider provider rl = rl\<lparr> rl_providerStopped := (rl_providerStopped rl)(provider := True) \<rparr>"

definition RecordRequest :: "int \<Rightarrow> string \<Rightarrow> RateLimiter \<Rightarrow> RateLimiter" where
  "RecordRequest now provider rl = rl\<lparr> rl_providerRequests :=
     (rl_providerRequests rl)(provider := rl_providerRequests rl provider @ [now]) \<rparr>"

definition GetLearnedLimits :: "RateLimiter \<Rightarrow> string \<Rightarrow> LearnedLimits option" where
  "GetLearnedLimits rl provider = rl_learnedLimits rl provider"

definition learn :: "int \<Rightarrow> RateLimitInfo \<Rightarrow> LearnedLimits \<Rightarrow> LearnedLimits" where
  "learn now info l =
     \<lparr> ll_RequestsLimit = (if rli_RequestsLimit info > 0 then rli_RequestsLimit info else ll_RequestsLimit l),
       ll_RequestsRemaining = (if rli_RequestsRemaining info \<ge> 0 then rli_RequestsRemaining info else ll_RequestsRemaining l),
       ll_RequestsReset = (if rli_RequestsReset info \<noteq> None then rli_RequestsReset info else ll_RequestsReset l),
       ll_TokensLimit = (if rli_TokensLimit info > 0 then rli_TokensLimit info else ll_TokensLimit l),
       ll_TokensRemaining = (if rli_TokensRemaining info \<ge> 0 then rli_TokensRemaining info else ll_TokensRemaining l),
       ll_TokensReset = (if rli_TokensReset info \<noteq> None then rli_TokensReset info else ll_TokensReset l),
       ll_LastUpdated = now \<rparr>"

definition no_learned :: LearnedLimits where
  "no_learned = \<lparr> ll_RequestsLimit = 0, ll_RequestsRemaining = 0, ll_RequestsReset = None, ll_TokensLimit = 0,
     ll_TokensRemaining = 0, ll_TokensReset = None, ll_LastUpdated = 0 \<rparr>"

definition UpdateFromResponse :: "int \<Rightarrow> RateLimitInfo option \<Rightarrow> RateLimiter \<Rightarrow> RateLimiter" where
  "UpdateFromResponse now info rl =
     (case info of
        None \<Rightarrow> rl
      | Some i \<Rightarrow>
          let learned = (case rl_learnedLimits rl (rli_Provider i) of Some l \<Rightarrow> l | None \<Rightarrow> no_learned)
          in rl\<lparr> rl_learnedLimits := (rl_learnedLimits rl)(rli_Provider i := Some (learn now i learned)) \<rparr>)"

section \<open>Admission\<close>

text \<open>
  The section of \<open>WaitBeforeRequest\<close> under the lock, after it has found that the provider is not stopped
  and nobody waits: an index out of range, an error with the provider stopped, a wait for the window to
  pass, or a delay (perhaps 0) before the request. \<open>now\<close> is the reading of the clock for the window,
  \<open>now'\<close> the later one in \<^verbatim>\<open>time.Until\<close>.
\<close>

datatype admission = IndexOutOfRange | LimitReached int | WaitFor int | Delay int

definition effective_limit :: "RateLimiter \<Rightarrow> string \<Rightarrow> int" where
  "effective_limit rl provider =
     (let limit = GetLimit rl provider
      in case rl_learnedLimits rl provider of
           Some l \<Rightarrow> if ll_RequestsLimit l > 0 \<and> ll_RequestsLimit l < limit then ll_RequestsLimit l else limit
         | None \<Rightarrow> limit)"

definition min_delay :: "RateLimiter \<Rightarrow> int \<Rightarrow> int list \<Rightarrow> int" where
  "min_delay rl now recent =
     (if length recent > 0 then
        let minDelay = rl_delayBetweenRequestsMs rl * millisecond; timeSinceLast = now - last recent
        in if timeSinceLast < minDelay then minDelay - timeSinceLast else 0
      else 0)"

definition admit :: "RateLimiter \<Rightarrow> string \<Rightarrow> int \<Rightarrow> int \<Rightarrow> RateLimiter \<times> admission" where
  "admit rl provider now now' =
     (let limit = effective_limit rl provider;
          cutoff = now - minute;
          recent = filter (\<lambda>t. t > cutoff) (rl_providerRequests rl provider);
          rl1 = rl\<lparr> rl_providerRequests := (rl_providerRequests rl)(provider := recent) \<rparr>
      in if int (length recent) \<ge> limit then
           (case recent of
              [] \<Rightarrow> (rl1, IndexOutOfRange)
            | oldestInWindow # _ \<Rightarrow>
                let waitDuration = oldestInWindow + minute - now'
                in if waitDuration > 0 then
                     (if \<not> rl_waitOnLimit rl1 then (StopProvider provider rl1, LimitReached limit)
                      else (rl1\<lparr> rl_providerWaiting := (rl_providerWaiting rl1)(provider := True) \<rparr>, WaitFor waitDuration))
                   else
                     let d = min_delay rl now recent in (rl1, Delay (if d > 0 then d else waitDuration)))
         else (rl1, Delay (min_delay rl now recent)))"

text \<open>The end of a wait, in \<open>WaitBeforeRequest\<close> and after a 429: it was interrupted or not.\<close>

definition end_wait :: "bool \<Rightarrow> string \<Rightarrow> RateLimiter \<Rightarrow> RateLimiter" where
  "end_wait completed provider rl =
     (let rl1 = rl\<lparr> rl_providerWaiting := (rl_providerWaiting rl)(provider := False) \<rparr>
      in if completed then rl1\<lparr> rl_providerSequential := (rl_providerSequential rl1)(provider := True) \<rparr> else rl1)"

text \<open>The slot of the sequential mode, a channel with room for one.\<close>

definition take_slot :: "string \<Rightarrow> RateLimiter \<Rightarrow> RateLimiter" where
  "take_slot provider rl = rl\<lparr> rl_providerSemaphore := (rl_providerSemaphore rl)(provider := rl_providerSemaphore rl provider + 1) \<rparr>"

definition releaseSequentialSlotIfNeeded :: "string \<Rightarrow> RateLimiter \<Rightarrow> RateLimiter" where
  "releaseSequentialSlotIfNeeded provider rl =
     (if rl_providerSequential rl provider
      then rl\<lparr> rl_providerSemaphore := (rl_providerSemaphore rl)(provider := rl_providerSemaphore rl provider - 1) \<rparr>
      else rl)"

text \<open>How long \<open>Handle429WithInfo\<close> waits.\<close>

definition retry_wait :: "RateLimiter \<Rightarrow> int \<Rightarrow> RateLimitInfo option \<Rightarrow> int" where
  "retry_wait rl now info =
     (let buffer = rl_rateLimitBufferMs rl * millisecond in
      case info of
        None \<Rightarrow> minute + buffer
      | Some i \<Rightarrow>
          if rli_RetryAfter i > 0 then rli_RetryAfter i + buffer
          else case rli_RequestsReset i of
            Some reset \<Rightarrow> (reset - now) + buffer
          | None \<Rightarrow> minute + buffer)"

section \<open>Requests made as they are admitted\<close>

text \<open>
  The record the limiter keeps of its requests, against the times \<open>made\<close> of all requests to a provider
  up to \<open>now\<close>: what it has forgotten is at least a minute old. And of any requests in a row, the \<open>n\<close>-th
  before one is at least a minute older, with \<open>n\<close> the limit of the provider.
\<close>

definition spaced :: "nat \<Rightarrow> int list \<Rightarrow> bool" where
  "spaced n ts \<longleftrightarrow> (\<forall>i. i + n < length ts \<longrightarrow> ts ! i + minute \<le> ts ! (i + n))"

definition history_ok :: "string \<Rightarrow> nat \<Rightarrow> RateLimiter \<times> int list \<times> int \<Rightarrow> bool" where
  "history_ok provider n st = (case st of (rl, made, now) \<Rightarrow>
     GetLimit rl provider = int n \<and> sorted made \<and> (\<forall>t \<in> set made. t \<le> now) \<and> spaced n made \<and>
     (\<exists>old. made = old @ rl_providerRequests rl provider \<and> (\<forall>t \<in> set old. t + minute \<le> now)))"

lemma limits_unchanged [simp]:
  "GetLimit (RecordRequest t p rl) q = GetLimit rl q" "GetLimit (end_wait c p rl) q = GetLimit rl q"
  "GetLimit (UpdateFromResponse t info rl) q = GetLimit rl q" "GetLimit (fst (admit rl p t t')) q = GetLimit rl q"
  "GetLimit (StopProvider p rl) q = GetLimit rl q"
  by (simp_all add: GetLimit_def RecordRequest_def end_wait_def UpdateFromResponse_def admit_def StopProvider_def
      Let_def split: option.split list.split)

lemma requests_simps [simp]:
  "rl_providerRequests (RecordRequest t p rl) p = rl_providerRequests rl p @ [t]"
  "rl_providerRequests (end_wait c p rl) = rl_providerRequests rl"
  "rl_providerRequests (UpdateFromResponse t info rl) = rl_providerRequests rl"
  "rl_providerRequests (StopProvider p rl) = rl_providerRequests rl"
  "rl_providerRequests (fst (admit rl p t t')) p = filter (\<lambda>x. x > t - minute) (rl_providerRequests rl p)"
  by (simp_all add: RecordRequest_def end_wait_def UpdateFromResponse_def admit_def StopProvider_def
      Let_def split: option.split list.split)

lemma effective_limit_le: "effective_limit rl p \<le> GetLimit rl p"
  by (simp add: effective_limit_def Let_def split: option.split)

lemma sorted_filter_split:
  assumes "sorted xs"
  obtains old where "xs = old @ filter (\<lambda>x. x > c) xs" "\<forall>x \<in> set old. x \<le> (c :: int)"
proof -
  have "filter (\<lambda>x. x > c) xs = dropWhile (\<lambda>x. x \<le> c) xs"
    using assms
  proof (induction xs)
    case (Cons x xs)
    show ?case
    proof (cases "x \<le> c")
      case False
      with Cons.prems have "filter (\<lambda>x. x > c) (x # xs) = x # xs" by (intro filter_True) auto
      with False show ?thesis by simp
    qed (use Cons in simp)
  qed simp
  then show thesis using that [of "takeWhile (\<lambda>x. x \<le> c) xs"] by (auto dest: set_takeWhileD)
qed

text \<open>What the limiter still knows is enough: the recent requests are those of all requests.\<close>

lemma recent_of_made:
  assumes "history_ok p n (rl, made, now)" and "now \<le> t"
  obtains old where "made = old @ filter (\<lambda>x. x > t - minute) (rl_providerRequests rl p)"
    "\<forall>x \<in> set old. x + minute \<le> t"
proof -
  from assms obtain old0 where o: "made = old0 @ rl_providerRequests rl p" "\<forall>x \<in> set old0. x + minute \<le> now" "sorted made"
    by (auto simp: history_ok_def)
  then have "sorted (rl_providerRequests rl p)" by (simp add: sorted_append)
  then obtain old1 where old1: "rl_providerRequests rl p = old1 @ filter (\<lambda>x. x > t - minute) (rl_providerRequests rl p)"
    "\<forall>x \<in> set old1. x \<le> t - minute" by (rule sorted_filter_split)
  have "made = (old0 @ old1) @ filter (\<lambda>x. x > t - minute) (rl_providerRequests rl p)"
    using o(1) old1(1) by simp
  moreover have "\<forall>x \<in> set (old0 @ old1). x + minute \<le> t" using o(2) old1(2) assms(2) by fastforce
  ultimately show thesis by (rule that)
qed

text \<open>Of more than \<open>n\<close> spaced requests, the first and the last are a minute apart.\<close>

lemma spaced_recent:
  assumes "spaced n (old @ recent)" "\<forall>x \<in> set recent. t - minute < x \<and> x \<le> t"
  shows "length recent \<le> n"
proof (rule ccontr)
  assume "\<not> length recent \<le> n"
  then have n: "n < length recent" by simp
  with assms(1) have "recent ! 0 + minute \<le> recent ! n"
    unfolding spaced_def by (auto dest!: spec [of _ "length old"] simp: nth_append)
  moreover have "recent ! 0 \<in> set recent" "recent ! n \<in> set recent" using n by (auto intro: nth_mem)
  then have "t - minute < recent ! 0" "recent ! n \<le> t" using assms(2) by blast+
  ultimately show False by simp
qed

lemma spaced_snoc:
  assumes "spaced n (old @ recent)" "n > 0" "length recent \<le> n" "\<forall>x \<in> set old. x + minute \<le> t"
    "length recent = n \<Longrightarrow> hd recent + minute \<le> t"
  shows "spaced n ((old @ recent) @ [t])"
  unfolding spaced_def
proof (intro allI impI)
  fix i assume i: "i + n < length ((old @ recent) @ [t])"
  show "((old @ recent) @ [t]) ! i + minute \<le> ((old @ recent) @ [t]) ! (i + n)"
  proof (cases "i + n < length (old @ recent)")
    case True
    with assms(1) show ?thesis by (auto simp: spaced_def nth_append)
  next
    case False
    with i have e: "i + n = length old + length recent" by simp
    then have last: "((old @ recent) @ [t]) ! (i + n) = t" by (simp add: nth_append)
    show ?thesis
    proof (cases "length recent = n")
      case True
      with e assms(2) have "((old @ recent) @ [t]) ! i = hd recent" by (cases recent) (auto simp: nth_append)
      with last assms(5) [OF True] show ?thesis by simp
    next
      case False
      with e assms(3) have "i < length old" by simp
      then have "((old @ recent) @ [t]) ! i \<in> set old" by (simp add: nth_append)
      with last assms(4) show ?thesis by simp
    qed
  qed
qed

text \<open>A request made as admission says: \<open>ready\<close> is the earliest time.\<close>

lemma admit_ready:
  assumes "admit rl p t t' = (rl1, a)" "a = Delay d \<and> t' \<le> t'' \<or> a = WaitFor d \<and> t' + d \<le> t''"
    and "recent = filter (\<lambda>x. x > t - minute) (rl_providerRequests rl p)" "int (length recent) \<ge> effective_limit rl p"
  shows "hd recent + minute \<le> t''"
  using assms by (cases recent) (auto simp: admit_def Let_def split: if_splits list.splits)

lemma history_record:
  assumes ok: "history_ok p n (rl, made, now)" and n: "n > 0" and a: "admit rl p t t' = (rl1, a)"
    and t: "now \<le> t" "t \<le> t'" "t' \<le> t''"
    and d: "a = Delay d \<and> t' \<le> t'' \<or> a = WaitFor d \<and> t' + d \<le> t''"
    and rl2: "rl_providerRequests rl2 p = rl_providerRequests rl1 p" "GetLimit rl2 p = GetLimit rl1 p"
  shows "history_ok p n (RecordRequest t'' p rl2, made @ [t''], t'')"
proof -
  define recent where recent: "recent = filter (\<lambda>x. x > t - minute) (rl_providerRequests rl p)"
  obtain old where old: "made = old @ recent" "\<forall>x \<in> set old. x + minute \<le> t"
    using recent_of_made [OF ok t(1)] unfolding recent by blast
  have ok': "GetLimit rl p = int n" "sorted made" "\<forall>x \<in> set made. x \<le> now" "spaced n made"
    using ok by (auto simp: history_ok_def)
  have r1: "rl_providerRequests rl1 p = recent" "GetLimit rl1 p = int n"
    using a ok'(1) requests_simps(5) [of rl p t t'] limits_unchanged(4) [of rl p t t' p] by (simp_all add: recent)
  have "\<forall>x \<in> set recent. t - minute < x \<and> x \<le> t"
  proof
    fix x assume x: "x \<in> set recent"
    then have "x \<in> set made" "t - minute < x" using old(1) by (simp_all add: recent)
    with ok'(3) t(1) show "t - minute < x \<and> x \<le> t" by auto
  qed
  then have le: "length recent \<le> n" using spaced_recent ok'(4) old(1) by blast
  have "hd recent + minute \<le> t''" if "length recent = n"
    using admit_ready [OF a d recent] that effective_limit_le [of rl p] ok'(1) by simp
  then have "spaced n (made @ [t''])"
    using spaced_snoc [of n old recent t''] ok'(4) n le old t by (auto intro: order_trans)
  moreover have "x \<le> t''" if "x \<in> set made" for x using ok'(3) t that by fastforce
  moreover have "made @ [t''] = old @ rl_providerRequests (RecordRequest t'' p rl2) p"
    using old(1) r1(1) rl2(1) by simp
  moreover have "\<forall>x \<in> set old. x + minute \<le> t''" using old(2) t by fastforce
  ultimately show ?thesis
    using ok'(2) r1(2) rl2(2) by (auto simp: history_ok_def sorted_append)
qed

lemma history_later:
  assumes "history_ok p n (rl, made, now)" "now \<le> t" "GetLimit rl' p = GetLimit rl p"
    "rl_providerRequests rl' p = rl_providerRequests rl p"
  shows "history_ok p n (rl', made, t)"
proof -
  from assms(1) obtain old where "made = old @ rl_providerRequests rl p" "\<forall>x \<in> set old. x + minute \<le> now"
    by (auto simp: history_ok_def)
  with assms show ?thesis by (auto simp: history_ok_def intro!: exI [of _ old] intro: order_trans)
qed

lemma history_kept:
  assumes ok: "history_ok p n (rl, made, now)" and "admit rl p t t' = (rl1, a)" and "now \<le> t"
  shows "history_ok p n (rl1, made, t)"
proof -
  obtain old where "made = old @ rl_providerRequests rl1 p" "\<forall>x \<in> set old. x + minute \<le> t"
    using recent_of_made [OF ok assms(3)] requests_simps(5) [of rl p t t'] assms(2) by auto
  moreover have "GetLimit rl1 p = GetLimit rl p" using limits_unchanged(4) [of rl p t t' p] assms(2) by simp
  ultimately show ?thesis using ok assms(3) by (auto simp: history_ok_def intro!: exI [of _ old] intro: order_trans)
qed

text \<open>
  C35. Requests that are made as they are admitted, one for each admission, keep the configured limit. The
  record of a new limiter is faithful and within the limit, and it stays so when a request is admitted and
  then made and recorded, after the delay or the wait it was given, and when the limiter learns limits or
  a wait ends. While the limit is positive, admission never indexes an empty list, and when it gives up
  it stops the provider.
\<close>

theorem rate_limit_respected:
  assumes "history_ok provider n (rl, made, now)" and "n > 0" and "now \<le> t" "t \<le> t'"
  shows "(case admit rl provider t t' of
      (rl1, IndexOutOfRange) \<Rightarrow> False
    | (rl1, LimitReached limit) \<Rightarrow> rl_providerStopped rl1 provider \<and> history_ok provider n (rl1, made, t)
    | (rl1, Delay d) \<Rightarrow> \<forall>t'' \<ge> max t' (t' + d).
        history_ok provider n (RecordRequest t'' provider rl1, made @ [t''], t'')
    | (rl1, WaitFor d) \<Rightarrow> history_ok provider n (end_wait False provider rl1, made, t) \<and> (\<forall>t'' \<ge> t' + d.
        history_ok provider n (RecordRequest t'' provider (end_wait True provider rl1), made @ [t''], t''))) \<and>
    history_ok provider n (UpdateFromResponse t info rl, made, t) \<and>
    history_ok provider n (end_wait completed provider rl, made, t) \<and>
    (if GetLimit (NewRateLimiter cfg) provider = int n
     then history_ok provider n (NewRateLimiter cfg, [], t) else True)"
proof -
  obtain rl1 a where a: "admit rl provider t t' = (rl1, a)" by (metis surj_pair)
  have kept: "history_ok provider n (rl1, made, t)" using history_kept [OF assms(1) a assms(3)] .
  have "case a of IndexOutOfRange \<Rightarrow> False
    | LimitReached limit \<Rightarrow> rl_providerStopped rl1 provider \<and> history_ok provider n (rl1, made, t)
    | Delay d \<Rightarrow> \<forall>t'' \<ge> max t' (t' + d). history_ok provider n (RecordRequest t'' provider rl1, made @ [t''], t'')
    | WaitFor d \<Rightarrow> history_ok provider n (end_wait False provider rl1, made, t) \<and> (\<forall>t'' \<ge> t' + d.
        history_ok provider n (RecordRequest t'' provider (end_wait True provider rl1), made @ [t''], t''))"
  proof (cases a)
    case IndexOutOfRange
    have "0 < effective_limit rl provider"
      using assms(1,2) by (auto simp: effective_limit_def history_ok_def Let_def split: option.split)
    with a IndexOutOfRange show ?thesis by (auto simp: admit_def Let_def split: if_splits list.splits)
  next
    case (LimitReached limit)
    with a have "rl_providerStopped rl1 provider"
      by (auto simp: admit_def StopProvider_def Let_def split: if_splits list.splits)
    with LimitReached kept show ?thesis by simp
  next
    case (Delay d)
    have "history_ok provider n (RecordRequest t'' provider rl1, made @ [t''], t'')" if "max t' (t' + d) \<le> t''" for t''
      using history_record [OF assms(1,2) a assms(3,4), of t'' d rl1] that Delay by simp
    with Delay show ?thesis by simp
  next
    case (WaitFor d)
    then have "0 < d" using a by (auto simp: admit_def Let_def split: if_splits list.splits)
    then have "history_ok provider n (RecordRequest t'' provider (end_wait True provider rl1), made @ [t''], t'')"
      if "t' + d \<le> t''" for t''
      using history_record [OF assms(1,2) a assms(3,4), of t'' d "end_wait True provider rl1"] that WaitFor by simp
    moreover have "history_ok provider n (end_wait False provider rl1, made, t)"
      using kept by (rule history_later) simp_all
    ultimately show ?thesis using WaitFor by simp
  qed
  moreover have "history_ok provider n (UpdateFromResponse t info rl, made, t)"
    "history_ok provider n (end_wait completed provider rl, made, t)"
    using assms(1,3) by (auto intro: history_later)
  moreover have "history_ok provider n (NewRateLimiter cfg, [], t)" if "GetLimit (NewRateLimiter cfg) provider = int n"
    using that by (simp add: history_ok_def spaced_def NewRateLimiter_def)
  ultimately show ?thesis unfolding a by (cases a) simp_all
qed

text \<open>
  The first request to a provider makes the limiter index an empty slice exactly when the provider's
  limit is not positive, as for an entry of \<^verbatim>\<open>rate_limits\<close> without \<^verbatim>\<open>requests_per_minute\<close>; and admission never
  does this while the limit is positive.
\<close>

lemma admission_panics_exactly:
  "(snd (admit (NewRateLimiter cfg) provider t t') = IndexOutOfRange \<longleftrightarrow> GetLimit (NewRateLimiter cfg) provider \<le> 0) \<and>
   (if GetLimit rl provider > 0 then snd (admit rl provider t t') \<noteq> IndexOutOfRange else True)"
proof -
  have "0 < effective_limit rl provider" if "GetLimit rl provider > 0"
    using that by (auto simp: effective_limit_def Let_def split: option.split)
  moreover have "effective_limit (NewRateLimiter cfg) provider = GetLimit (NewRateLimiter cfg) provider"
    by (simp add: effective_limit_def NewRateLimiter_def)
  ultimately show ?thesis
    by (auto simp: admit_def Let_def NewRateLimiter_def split: list.split)
qed

section \<open>Goroutines\<close>

text \<open>
  Where a goroutine is in \<open>callAIProvider\<close>: in \<open>WaitBeforeRequest\<close>, before the slot (\<open>Begin\<close>), before the
  lock (\<open>Enter\<close>), in \<^verbatim>\<open>cond.Wait\<close> (\<open>Blocked\<close>), waiting for the window until a time, or delaying the request;
  sending the request; in \<open>Handle429WithInfo\<close>, before the lock, in \<^verbatim>\<open>cond.Wait\<close> or waiting until a time;
  and releasing the slot, after an error of \<open>WaitBeforeRequest\<close> or at the end.
\<close>

datatype pc =
    Idle | Begin | Enter | Blocked | Waiting int | Delaying int | Sending
  | Throttled "RateLimitInfo option" | ThrottledBlocked "RateLimitInfo option" | Backoff int
  | GivingUp | Returning | Panicked

record world =
  w_rl :: RateLimiter
  w_now :: int
  w_pc :: "nat \<Rightarrow> pc"

definition goto :: "nat \<Rightarrow> pc \<Rightarrow> RateLimiter \<Rightarrow> int \<Rightarrow> world \<Rightarrow> world" where
  "goto g c rl t w = \<lparr> w_rl = rl, w_now = t, w_pc = (w_pc w)(g := c) \<rparr>"

lemma goto_simps [simp]:
  "w_rl (goto g c rl t w) = rl" "w_now (goto g c rl t w) = t" "w_pc (goto g c rl t w) = (w_pc w)(g := c)"
  "goto g c rl t (goto g c' rl' t' w) = goto g c rl t w"
  by (simp_all add: goto_def)

definition after_admission :: "int \<Rightarrow> admission \<Rightarrow> pc" where
  "after_admission now a =
     (case a of
        IndexOutOfRange \<Rightarrow> Panicked
      | LimitReached limit \<Rightarrow> GivingUp
      | WaitFor d \<Rightarrow> Waiting (now + d)
      | Delay d \<Rightarrow> Delaying (now + d))"

definition announce_wait :: "string \<Rightarrow> RateLimiter \<Rightarrow> RateLimiter" where
  "announce_wait provider rl = rl\<lparr> rl_providerWaiting := (rl_providerWaiting rl)(provider := True) \<rparr>"

text \<open>The request is recorded, and the headers of its response are learned.\<close>

definition record_response :: "int \<Rightarrow> string \<Rightarrow> RateLimitInfo option \<Rightarrow> RateLimiter \<Rightarrow> RateLimiter" where
  "record_response now provider info rl = UpdateFromResponse now info (RecordRequest now provider rl)"

inductive go_step :: "(nat \<Rightarrow> string) \<Rightarrow> world \<Rightarrow> world \<Rightarrow> bool" for prov where
  Called: "w_pc w g = Idle \<Longrightarrow> go_step prov w (goto g Begin (w_rl w) (w_now w) w)"
| NoSlot: "w_pc w g = Begin \<Longrightarrow> \<not> rl_providerSequential (w_rl w) (prov g) \<Longrightarrow>
    go_step prov w (goto g Enter (w_rl w) (w_now w) w)"
| Slot: "w_pc w g = Begin \<Longrightarrow> rl_providerSequential (w_rl w) (prov g) \<Longrightarrow> rl_providerSemaphore (w_rl w) (prov g) = 0 \<Longrightarrow>
    go_step prov w (goto g Enter (take_slot (prov g) (w_rl w)) (w_now w) w)"
| SlotCancelled: "w_pc w g = Begin \<Longrightarrow> rl_providerSequential (w_rl w) (prov g) \<Longrightarrow>
    go_step prov w (goto g Idle (w_rl w) (w_now w) w)"
| Refused: "w_pc w g \<in> {Enter, Blocked} \<Longrightarrow> rl_providerStopped (w_rl w) (prov g) \<Longrightarrow>
    go_step prov w (goto g GivingUp (w_rl w) (w_now w) w)"
| Block: "w_pc w g = Enter \<Longrightarrow> \<not> rl_providerStopped (w_rl w) (prov g) \<Longrightarrow> rl_providerWaiting (w_rl w) (prov g) \<Longrightarrow>
    go_step prov w (goto g Blocked (w_rl w) (w_now w) w)"
| WakeCancelled: "w_pc w g = Blocked \<Longrightarrow> go_step prov w (goto g GivingUp (w_rl w) (w_now w) w)"
| Admitted: "w_pc w g \<in> {Enter, Blocked} \<Longrightarrow> \<not> rl_providerStopped (w_rl w) (prov g) \<Longrightarrow>
    \<not> rl_providerWaiting (w_rl w) (prov g) \<Longrightarrow> w_now w \<le> t' \<Longrightarrow> admit (w_rl w) (prov g) (w_now w) t' = (rl1, a) \<Longrightarrow>
    go_step prov w (goto g (after_admission t' a) rl1 t' w)"
| Waited: "w_pc w g = Waiting t \<Longrightarrow> t \<le> w_now w \<Longrightarrow>
    go_step prov w (goto g Sending (end_wait True (prov g) (w_rl w)) (w_now w) w)"
| WaitCancelled: "w_pc w g = Waiting t \<Longrightarrow>
    go_step prov w (goto g GivingUp (end_wait False (prov g) (w_rl w)) (w_now w) w)"
| Delayed: "w_pc w g = Delaying t \<Longrightarrow> t \<le> w_now w \<Longrightarrow> go_step prov w (goto g Sending (w_rl w) (w_now w) w)"
| DelayCancelled: "w_pc w g = Delaying t \<Longrightarrow> go_step prov w (goto g GivingUp (w_rl w) (w_now w) w)"
| Answered: "w_pc w g = Sending \<Longrightarrow>
    go_step prov w (goto g Returning (record_response (w_now w) (prov g) info (w_rl w)) (w_now w) w)"
| Truncated: "w_pc w g = Sending \<Longrightarrow>
    go_step prov w (goto g Sending (record_response (w_now w) (prov g) info (w_rl w)) (w_now w) w)"
| TooMany: "w_pc w g = Sending \<Longrightarrow>
    go_step prov w (goto g (Throttled info) (record_response (w_now w) (prov g) info (w_rl w)) (w_now w) w)"
| ThrottleStop: "w_pc w g = Throttled info \<Longrightarrow> \<not> rl_waitOnLimit (w_rl w) \<Longrightarrow>
    go_step prov w (goto g Returning (StopProvider (prov g) (w_rl w)) (w_now w) w)"
| ThrottleBlock: "w_pc w g = Throttled info \<Longrightarrow> rl_waitOnLimit (w_rl w) \<Longrightarrow> rl_providerWaiting (w_rl w) (prov g) \<Longrightarrow>
    go_step prov w (goto g (ThrottledBlocked info) (w_rl w) (w_now w) w)"
| ThrottleWait: "w_pc w g = Throttled info \<Longrightarrow> rl_waitOnLimit (w_rl w) \<Longrightarrow> \<not> rl_providerWaiting (w_rl w) (prov g) \<Longrightarrow>
    go_step prov w (goto g (Backoff (w_now w + retry_wait (w_rl w) (w_now w) info))
      (announce_wait (prov g) (w_rl w)) (w_now w) w)"
| ThrottleCancelled: "w_pc w g = ThrottledBlocked info \<Longrightarrow> go_step prov w (goto g Returning (w_rl w) (w_now w) w)"
| ThrottleWoken: "w_pc w g = ThrottledBlocked info \<Longrightarrow>
    rl_providerStopped (w_rl w) (prov g) \<or> rl_providerSequential (w_rl w) (prov g) \<Longrightarrow>
    go_step prov w (goto g Returning (w_rl w) (w_now w) w)"
| ThrottleTurn: "w_pc w g = ThrottledBlocked info \<Longrightarrow>
    \<not> (rl_providerStopped (w_rl w) (prov g) \<or> rl_providerSequential (w_rl w) (prov g)) \<Longrightarrow>
    \<not> rl_providerWaiting (w_rl w) (prov g) \<Longrightarrow>
    go_step prov w (goto g (Backoff (w_now w + retry_wait (w_rl w) (w_now w) info))
      (announce_wait (prov g) (w_rl w)) (w_now w) w)"
| BackedOff: "w_pc w g = Backoff t \<Longrightarrow> t \<le> w_now w \<Longrightarrow>
    go_step prov w (goto g Returning (end_wait True (prov g) (w_rl w)) (w_now w) w)"
| BackoffCancelled: "w_pc w g = Backoff t \<Longrightarrow>
    go_step prov w (goto g Returning (end_wait False (prov g) (w_rl w)) (w_now w) w)"
| Released: "w_pc w g \<in> {GivingUp, Returning} \<Longrightarrow>
    go_step prov w (goto g Idle (releaseSequentialSlotIfNeeded (prov g) (w_rl w)) (w_now w) w)"
| Tick: "w_now w \<le> t \<Longrightarrow> go_step prov w (w\<lparr> w_now := t \<rparr>)"

definition start :: "RateLimiterConfig \<Rightarrow> int \<Rightarrow> world" where
  "start cfg now = \<lparr> w_rl = NewRateLimiter cfg, w_now = now, w_pc = (\<lambda>_. Idle) \<rparr>"

section \<open>At most one goroutine waits for a provider\<close>

definition waits :: "pc \<Rightarrow> bool" where
  "waits c = (case c of Waiting t \<Rightarrow> True | Backoff t \<Rightarrow> True | _ \<Rightarrow> False)"

definition one_waiter :: "(nat \<Rightarrow> string) \<Rightarrow> world \<Rightarrow> bool" where
  "one_waiter prov w \<longleftrightarrow> (\<forall>p.
     if rl_providerWaiting (w_rl w) p then \<exists>!g. prov g = p \<and> waits (w_pc w g)
     else \<forall>g. prov g = p \<longrightarrow> \<not> waits (w_pc w g))"

lemma waits_simps [simp]:
  "waits (Waiting t)" "waits (Backoff t)" "\<not> waits Idle" "\<not> waits Begin" "\<not> waits Enter" "\<not> waits Blocked"
  "\<not> waits (Delaying t)" "\<not> waits Sending" "\<not> waits (Throttled i)" "\<not> waits (ThrottledBlocked i)"
  "\<not> waits GivingUp" "\<not> waits Returning" "\<not> waits Panicked"
  by (simp_all add: waits_def)

lemma waiting_unchanged [simp]:
  "rl_providerWaiting (record_response t p info rl) = rl_providerWaiting rl"
  "rl_providerWaiting (StopProvider p rl) = rl_providerWaiting rl"
  "rl_providerWaiting (take_slot p rl) = rl_providerWaiting rl"
  "rl_providerWaiting (releaseSequentialSlotIfNeeded p rl) = rl_providerWaiting rl"
  "rl_providerWaiting (end_wait c p rl) = (rl_providerWaiting rl)(p := False)"
  "rl_providerWaiting (announce_wait p rl) = (rl_providerWaiting rl)(p := True)"
  by (simp_all add: record_response_def UpdateFromResponse_def RecordRequest_def StopProvider_def take_slot_def
      releaseSequentialSlotIfNeeded_def end_wait_def announce_wait_def Let_def split: option.split)

lemma admit_effect:
  "admit rl p t t' = (rl1, a) \<Longrightarrow>
     rl_providerWaiting rl1 = (case a of WaitFor d \<Rightarrow> (rl_providerWaiting rl)(p := True) | _ \<Rightarrow> rl_providerWaiting rl)"
  by (auto simp: admit_def StopProvider_def Let_def split: if_splits list.splits)

lemma one_waiter_keep:
  assumes "one_waiter prov w" "rl_providerWaiting rl' = rl_providerWaiting (w_rl w)" "waits c = waits (w_pc w g)"
  shows "one_waiter prov (goto g c rl' t w)"
proof -
  have "waits (((w_pc w)(g := c)) h) = waits (w_pc w h)" for h using assms(3) by simp
  with assms show ?thesis by (simp add: one_waiter_def)
qed

lemma one_waiter_begin:
  assumes "one_waiter prov w" "\<not> rl_providerWaiting (w_rl w) (prov g)"
    "rl_providerWaiting rl' = (rl_providerWaiting (w_rl w))(prov g := True)" "waits c"
  shows "one_waiter prov (goto g c rl' t w)"
proof -
  have no: "\<not> waits (w_pc w h)" if "prov h = prov g" for h
    using assms(1,2) that by (auto simp: one_waiter_def split: if_splits)
  then have new: "waits (((w_pc w)(g := c)) h) = (if prov h = prov g then h = g else waits (w_pc w h))" for h
    using assms(4) by auto
  have same: "(prov h = p \<and> (if prov h = prov g then h = g else waits (w_pc w h))) = (prov h = p \<and> waits (w_pc w h))"
    if "p \<noteq> prov g" for h p
    using that by auto
  show ?thesis
    unfolding one_waiter_def goto_simps new assms(3)
    using assms(1) same by (auto simp: one_waiter_def)
qed

lemma one_waiter_end:
  assumes "one_waiter prov w" "waits (w_pc w g)"
    "rl_providerWaiting rl' = (rl_providerWaiting (w_rl w))(prov g := False)" "\<not> waits c"
  shows "one_waiter prov (goto g c rl' t w)"
proof -
  have only: "waits (w_pc w h) \<longleftrightarrow> h = g" if "prov h = prov g" for h
    using assms(1,2) that by (auto simp: one_waiter_def split: if_splits)
  then have new: "waits (((w_pc w)(g := c)) h) = (if prov h = prov g then False else waits (w_pc w h))" for h
    using assms(4) by auto
  have same: "(prov h = p \<and> (if prov h = prov g then False else waits (w_pc w h))) = (prov h = p \<and> waits (w_pc w h))"
    if "p \<noteq> prov g" for h p
    using that by auto
  show ?thesis
    unfolding one_waiter_def goto_simps new assms(3)
    using assms(1) same by (auto simp: one_waiter_def)
qed

lemma go_step_one_waiter: "go_step prov w w' \<Longrightarrow> one_waiter prov w \<Longrightarrow> one_waiter prov w'"
proof (induction rule: go_step.induct)
  case (Admitted w g t' rl1 a)
  note e = admit_effect [OF Admitted.hyps(5)]
  show ?case
  proof (cases a)
    case (WaitFor d)
    with Admitted e show ?thesis by (intro one_waiter_begin) (auto simp: after_admission_def)
  next
    case IndexOutOfRange
    with Admitted e show ?thesis by (intro one_waiter_keep) (auto simp: after_admission_def)
  next
    case (LimitReached l)
    with Admitted e show ?thesis by (intro one_waiter_keep) (auto simp: after_admission_def)
  next
    case (Delay d)
    with Admitted e show ?thesis by (intro one_waiter_keep) (auto simp: after_admission_def)
  qed
next
  case (Waited w g t)
  then show ?case by (intro one_waiter_end) simp_all
next
  case (WaitCancelled w g t)
  then show ?case by (intro one_waiter_end) simp_all
next
  case (BackedOff w g t)
  then show ?case by (intro one_waiter_end) simp_all
next
  case (BackoffCancelled w g t)
  then show ?case by (intro one_waiter_end) simp_all
next
  case (ThrottleWait w g info)
  then show ?case by (intro one_waiter_begin) simp_all
next
  case (ThrottleTurn w g info)
  then show ?case by (intro one_waiter_begin) simp_all
next
  case (Tick w t)
  then show ?case by (simp add: one_waiter_def)
next
  case (Refused w g)
  then show ?case by (intro one_waiter_keep) auto
next
  case (Released w g)
  then show ?case by (intro one_waiter_keep) auto
qed (intro one_waiter_keep, simp_all)+

text \<open>
  C36. However the goroutines of a test interleave, and whichever of them are cancelled, at most one at a
  time waits for the window of a provider, and the flag that makes the others wait quietly is set exactly
  while it does.
\<close>

theorem one_waiter_per_provider:
  assumes "(go_step prov)\<^sup>*\<^sup>* (start cfg now) w"
  shows "one_waiter prov w"
  using assms
proof (induction rule: rtranclp_induct)
  case base
  show ?case by (simp add: start_def one_waiter_def NewRateLimiter_def)
next
  case (step w w')
  then show ?case by (blast intro: go_step_one_waiter)
qed

section \<open>What the sequential mode does not ensure\<close>

text \<open>Some runs of one goroutine, while the others stand still.\<close>

lemma run_to_sending:
  assumes "w_pc w g = Idle" "\<not> rl_providerSequential (w_rl w) (prov g)" "\<not> rl_providerStopped (w_rl w) (prov g)"
    "\<not> rl_providerWaiting (w_rl w) (prov g)" "admit (w_rl w) (prov g) (w_now w) (w_now w) = (rl1, Delay d)" "d \<le> 0"
  shows "(go_step prov)\<^sup>*\<^sup>* w (goto g Sending rl1 (w_now w) w)"
proof -
  have "go_step prov w (goto g Begin (w_rl w) (w_now w) w)" by (rule Called) (rule assms(1))
  moreover have "go_step prov (goto g Begin (w_rl w) (w_now w) w) (goto g Enter (w_rl w) (w_now w) w)"
    using NoSlot [of "goto g Begin (w_rl w) (w_now w) w" g prov] assms(2) by simp
  moreover have "(go_step prov)\<^sup>*\<^sup>* (goto g Enter (w_rl w) (w_now w) w) (goto g (Delaying (w_now w + d)) rl1 (w_now w) w)"
    using Admitted [of "goto g Enter (w_rl w) (w_now w) w" g prov "w_now w" rl1 "Delay d"] assms(3-5)
    by (simp add: after_admission_def r_into_rtranclp)
  moreover have "(go_step prov)\<^sup>*\<^sup>* (goto g (Delaying (w_now w + d)) rl1 (w_now w) w) (goto g Sending rl1 (w_now w) w)"
    using Delayed [of "goto g (Delaying (w_now w + d)) rl1 (w_now w) w" g "w_now w + d" prov] assms(6)
    by (simp add: r_into_rtranclp)
  ultimately show ?thesis by (meson converse_rtranclp_into_rtranclp rtranclp_trans)
qed

lemma run_with_slot:
  assumes "w_pc w g = Idle" "rl_providerSequential (w_rl w) (prov g)" "rl_providerSemaphore (w_rl w) (prov g) = 0"
    "\<not> rl_providerStopped (w_rl w) (prov g)" "\<not> rl_providerWaiting (w_rl w) (prov g)"
    "admit (take_slot (prov g) (w_rl w)) (prov g) (w_now w) (w_now w) = (rl1, Delay d)" "d \<le> 0"
  shows "(go_step prov)\<^sup>*\<^sup>* w (goto g Sending rl1 (w_now w) w)"
proof -
  let ?rl = "take_slot (prov g) (w_rl w)"
  have "go_step prov w (goto g Begin (w_rl w) (w_now w) w)" by (rule Called) (rule assms(1))
  moreover have "go_step prov (goto g Begin (w_rl w) (w_now w) w) (goto g Enter ?rl (w_now w) w)"
    using Slot [of "goto g Begin (w_rl w) (w_now w) w" g prov] assms(2,3) by simp
  moreover have "(go_step prov)\<^sup>*\<^sup>* (goto g Enter ?rl (w_now w) w) (goto g (Delaying (w_now w + d)) rl1 (w_now w) w)"
    using Admitted [of "goto g Enter ?rl (w_now w) w" g prov "w_now w" rl1 "Delay d"] assms(4-6)
    by (simp add: after_admission_def take_slot_def r_into_rtranclp)
  moreover have "(go_step prov)\<^sup>*\<^sup>* (goto g (Delaying (w_now w + d)) rl1 (w_now w) w) (goto g Sending rl1 (w_now w) w)"
    using Delayed [of "goto g (Delaying (w_now w + d)) rl1 (w_now w) w" g "w_now w + d" prov] assms(7)
    by (simp add: r_into_rtranclp)
  ultimately show ?thesis by (meson converse_rtranclp_into_rtranclp rtranclp_trans)
qed

lemma run_to_waiting:
  assumes "w_pc w g = Idle" "\<not> rl_providerSequential (w_rl w) (prov g)" "\<not> rl_providerStopped (w_rl w) (prov g)"
    "\<not> rl_providerWaiting (w_rl w) (prov g)" "admit (w_rl w) (prov g) (w_now w) (w_now w) = (rl1, WaitFor d)"
  shows "(go_step prov)\<^sup>*\<^sup>* w (goto g (Waiting (w_now w + d)) rl1 (w_now w) w)"
proof -
  let ?w = "goto g (Waiting (w_now w + d)) rl1 (w_now w) w"
  have "go_step prov w (goto g Begin (w_rl w) (w_now w) w)" by (rule Called) (rule assms(1))
  moreover have "go_step prov (goto g Begin (w_rl w) (w_now w) w) (goto g Enter (w_rl w) (w_now w) w)"
    using NoSlot [of "goto g Begin (w_rl w) (w_now w) w" g prov] assms(2) by simp
  moreover have "(go_step prov)\<^sup>*\<^sup>* (goto g Enter (w_rl w) (w_now w) w) ?w"
    using Admitted [of "goto g Enter (w_rl w) (w_now w) w" g prov "w_now w" rl1 "WaitFor d"] assms(3-5)
    by (simp add: after_admission_def r_into_rtranclp)
  ultimately show ?thesis by (meson converse_rtranclp_into_rtranclp rtranclp_trans)
qed

lemma run_waiting:
  assumes "w_pc w g = Idle" "\<not> rl_providerSequential (w_rl w) (prov g)" "\<not> rl_providerStopped (w_rl w) (prov g)"
    "\<not> rl_providerWaiting (w_rl w) (prov g)" "admit (w_rl w) (prov g) (w_now w) (w_now w) = (rl1, WaitFor d)" "d \<ge> 0"
  shows "(go_step prov)\<^sup>*\<^sup>* w (goto g Sending (end_wait True (prov g) rl1) (w_now w + d) w)"
proof -
  let ?w = "goto g (Waiting (w_now w + d)) rl1 (w_now w) w"
  have "(go_step prov)\<^sup>*\<^sup>* w ?w" by (rule run_to_waiting) (rule assms(1-5))+
  moreover have "(go_step prov)\<^sup>*\<^sup>* ?w (goto g (Waiting (w_now w + d)) rl1 (w_now w + d) w)"
    using Tick [of ?w "w_now w + d" prov] assms(6) by (simp add: goto_def r_into_rtranclp)
  moreover have "(go_step prov)\<^sup>*\<^sup>* (goto g (Waiting (w_now w + d)) rl1 (w_now w + d) w)
      (goto g Sending (end_wait True (prov g) rl1) (w_now w + d) w)"
    using Waited [of "goto g (Waiting (w_now w + d)) rl1 (w_now w + d) w" g "w_now w + d" prov]
    by (simp add: r_into_rtranclp)
  ultimately show ?thesis by (meson converse_rtranclp_into_rtranclp rtranclp_trans)
qed

lemma run_answered:
  assumes "w_pc w g = Sending"
  shows "(go_step prov)\<^sup>*\<^sup>* w (goto g Idle (releaseSequentialSlotIfNeeded (prov g) (record_response (w_now w) (prov g) info (w_rl w))) (w_now w) w)"
proof -
  let ?w = "goto g Returning (record_response (w_now w) (prov g) info (w_rl w)) (w_now w) w"
  have "go_step prov w ?w" by (rule Answered) (rule assms)
  moreover have "go_step prov ?w (goto g Idle (releaseSequentialSlotIfNeeded (prov g) (w_rl ?w)) (w_now w) w)"
    using Released [of ?w g prov] by simp
  ultimately show ?thesis by (simp add: converse_rtranclp_into_rtranclp)
qed

definition example_limits :: RateLimiterConfig where
  "example_limits = \<lparr> rlc_ProviderLimits = [(''p'', 1)], rlc_DefaultLimit = 0, rlc_DelayBetweenRequestsMs = 0,
     rlc_RateLimitBufferMs = 0, rlc_OverrideRPM = 0, rlc_WaitOnLimit = True \<rparr>"

lemmas limiter_defs = example_limits_def start_def NewRateLimiter_def admit_def effective_limit_def GetLimit_def
  min_delay_def record_response_def UpdateFromResponse_def RecordRequest_def releaseSequentialSlotIfNeeded_def
  end_wait_def take_slot_def Let_def

lemma sequential_overlap:
  "\<exists>w. (go_step (\<lambda>_. ''p''))\<^sup>*\<^sup>* (start example_limits 0) w \<and> rl_providerSequential (w_rl w) ''p'' \<and>
      w_pc w 0 = Sending \<and> w_pc w 1 = Sending"
proof -
  let ?prov = "\<lambda>_ :: nat. ''p''"
  define rl where "rl = fst (admit (NewRateLimiter example_limits) ''p'' 0 0)"
  define w1 where "w1 = goto 0 Sending rl 0 (start example_limits 0)"
  have s1: "(go_step ?prov)\<^sup>*\<^sup>* (start example_limits 0) w1"
    using run_to_sending [of "start example_limits 0" 0 ?prov rl 0] by (simp add: w1_def rl_def limiter_defs)
  have rl: "rl_providerRequests rl ''p'' = []" "rl_providerLimits rl = [(''p'', 1)]" "rl_waitOnLimit rl"
    "rl_providerWaiting rl = (\<lambda>_. False)" "rl_providerStopped rl = (\<lambda>_. False)" "rl_learnedLimits rl = (\<lambda>_. None)"
    "rl_providerSequential rl = (\<lambda>_. False)" "rl_providerSemaphore rl = (\<lambda>_. 0)"
    by (simp_all add: rl_def limiter_defs)
  define rl2 where "rl2 = RecordRequest 0 ''p'' rl"
  define w2 where "w2 = goto 0 Idle rl2 0 (start example_limits 0)"
  have s2: "(go_step ?prov)\<^sup>*\<^sup>* w1 w2"
    using run_answered [of w1 0 ?prov None] rl
    by (simp add: w1_def w2_def rl2_def record_response_def UpdateFromResponse_def releaseSequentialSlotIfNeeded_def RecordRequest_def)
  define rl3 where "rl3 = fst (admit rl2 ''p'' 0 0)"
  define w3 where "w3 = goto 0 Sending (end_wait True ''p'' rl3) minute (start example_limits 0)"
  have a3: "admit rl2 ''p'' 0 0 = (rl3, WaitFor minute)"
    using rl by (simp add: rl3_def rl2_def RecordRequest_def admit_def effective_limit_def GetLimit_def Let_def)
  have rl3: "rl_providerRequests rl3 ''p'' = [0]" "rl_providerLimits rl3 = [(''p'', 1)]" "rl_providerStopped rl3 = (\<lambda>_. False)"
    "rl_learnedLimits rl3 = (\<lambda>_. None)" "rl_providerSemaphore rl3 = (\<lambda>_. 0)"
    using rl by (simp_all add: rl3_def rl2_def RecordRequest_def admit_def effective_limit_def GetLimit_def Let_def)
  have s3: "(go_step ?prov)\<^sup>*\<^sup>* w2 w3"
    using run_waiting [of w2 0 ?prov rl3 minute] a3 rl by (simp add: w2_def w3_def rl2_def RecordRequest_def)
  define rl4 where "rl4 = fst (admit (take_slot ''p'' (end_wait True ''p'' rl3)) ''p'' minute minute)"
  have "admit (take_slot ''p'' (end_wait True ''p'' rl3)) ''p'' minute minute = (rl4, Delay 0)"
    using rl3 by (simp add: rl4_def take_slot_def end_wait_def admit_def effective_limit_def GetLimit_def min_delay_def Let_def)
  then have "(go_step ?prov)\<^sup>*\<^sup>* w3 (goto 1 Sending rl4 minute w3)"
    using run_with_slot [of w3 1 ?prov rl4 0] rl3 by (simp add: w3_def start_def end_wait_def Let_def)
  moreover have "rl_providerSequential rl4 ''p''"
    using rl3 by (simp add: rl4_def take_slot_def end_wait_def admit_def effective_limit_def GetLimit_def Let_def)
  ultimately show ?thesis
    using s1 s2 s3 by (intro exI [of _ "goto 1 Sending rl4 minute w3"]) (auto simp: w3_def)
qed

lemma unrecorded_overlap:
  "\<exists>w. (go_step (\<lambda>_. ''p''))\<^sup>*\<^sup>* (start example_limits 0) w \<and> GetLimit (w_rl w) ''p'' = 1 \<and>
      rl_providerRequests (w_rl w) ''p'' = [0, 0]"
proof -
  let ?prov = "\<lambda>_ :: nat. ''p''"
  define rl where "rl = fst (admit (NewRateLimiter example_limits) ''p'' 0 0)"
  have rl: "rl_providerRequests rl ''p'' = []" "rl_providerLimits rl = [(''p'', 1)]" "rl_learnedLimits rl = (\<lambda>_. None)"
    "rl_providerWaiting rl = (\<lambda>_. False)" "rl_providerStopped rl = (\<lambda>_. False)" "rl_providerSequential rl = (\<lambda>_. False)"
    by (simp_all add: rl_def limiter_defs)
  define w1 where "w1 = goto 0 Sending rl 0 (start example_limits 0)"
  have s1: "(go_step ?prov)\<^sup>*\<^sup>* (start example_limits 0) w1"
    using run_to_sending [of "start example_limits 0" 0 ?prov rl 0] by (simp add: w1_def rl_def limiter_defs)
  define rl2 where "rl2 = fst (admit rl ''p'' 0 0)"
  define w2 where "w2 = goto 1 Sending rl2 0 w1"
  have "admit rl ''p'' 0 0 = (rl2, Delay 0)"
    using rl by (simp add: rl2_def admit_def effective_limit_def GetLimit_def min_delay_def Let_def)
  then have s2: "(go_step ?prov)\<^sup>*\<^sup>* w1 w2"
    using run_to_sending [of w1 1 ?prov rl2 0] rl by (simp add: w1_def w2_def start_def)
  have rl2: "rl_providerRequests rl2 ''p'' = []" "rl_providerLimits rl2 = [(''p'', 1)]" "rl_providerSequential rl2 = (\<lambda>_. False)"
    using rl by (simp_all add: rl2_def admit_def effective_limit_def GetLimit_def Let_def)
  define w3 where "w3 = goto 0 Idle (RecordRequest 0 ''p'' rl2) 0 w2"
  have s3: "(go_step ?prov)\<^sup>*\<^sup>* w2 w3"
    using run_answered [of w2 0 ?prov None] rl2
    by (simp add: w1_def w2_def w3_def record_response_def UpdateFromResponse_def releaseSequentialSlotIfNeeded_def RecordRequest_def)
  define w4 where "w4 = goto 1 Idle (RecordRequest 0 ''p'' (RecordRequest 0 ''p'' rl2)) 0 w3"
  have s4: "(go_step ?prov)\<^sup>*\<^sup>* w3 w4"
    using run_answered [of w3 1 ?prov None] rl2
    by (simp add: w2_def w3_def w4_def record_response_def UpdateFromResponse_def releaseSequentialSlotIfNeeded_def RecordRequest_def)
  show ?thesis
    using s1 s2 s3 s4 rl2 by (intro exI [of _ w4]) (auto simp: w4_def RecordRequest_def GetLimit_def)
qed

text \<open>
  The sequential mode does not keep the requests of a provider apart: the goroutine that has waited
  for the window switches the mode on and sends its request without the slot, so that another one can
  take the slot and send at the same time. And before that mode the limit itself is only kept by callers
  that take turns: of two goroutines admitted before either has recorded its request, both send, so that a
  limit of one request a minute allows two at once.
\<close>

lemma concurrency_breaks_limits:
  "(\<exists>w. (go_step (\<lambda>_. ''p''))\<^sup>*\<^sup>* (start example_limits 0) w \<and> rl_providerSequential (w_rl w) ''p'' \<and>
      w_pc w 0 = Sending \<and> w_pc w 1 = Sending) \<and>
   (\<exists>w. (go_step (\<lambda>_. ''p''))\<^sup>*\<^sup>* (start example_limits 0) w \<and> GetLimit (w_rl w) ''p'' = 1 \<and>
      rl_providerRequests (w_rl w) ''p'' = [0, 0])"
  using sequential_overlap unrecorded_overlap by blast

text \<open>
  Nor does a single goroutine keep the limit when answers are truncated: each scaled-up request is made
  and recorded without asking for admission again.
\<close>

lemma truncation_breaks_limit:
  "\<exists>w. (go_step (\<lambda>_. ''p''))\<^sup>*\<^sup>* (start example_limits 0) w \<and> GetLimit (w_rl w) ''p'' = 1 \<and>
      rl_providerRequests (w_rl w) ''p'' = [0, 0] \<and> (\<forall>g. w_pc w g = Idle)"
proof -
  let ?prov = "\<lambda>_ :: nat. ''p''"
  define rl where "rl = fst (admit (NewRateLimiter example_limits) ''p'' 0 0)"
  have rl: "rl_providerRequests rl ''p'' = []" "rl_providerLimits rl = [(''p'', 1)]" "rl_providerSequential rl = (\<lambda>_. False)"
    by (simp_all add: rl_def limiter_defs)
  define w1 where "w1 = goto 0 Sending rl 0 (start example_limits 0)"
  have s1: "(go_step ?prov)\<^sup>*\<^sup>* (start example_limits 0) w1"
    using run_to_sending [of "start example_limits 0" 0 ?prov rl 0] by (simp add: w1_def rl_def limiter_defs)
  define w2 where "w2 = goto 0 Sending (RecordRequest 0 ''p'' rl) 0 w1"
  have s2: "go_step ?prov w1 w2"
    using Truncated [of w1 0 ?prov None] by (simp add: w1_def w2_def record_response_def UpdateFromResponse_def)
  define w3 where "w3 = goto 0 Idle (RecordRequest 0 ''p'' (RecordRequest 0 ''p'' rl)) 0 w2"
  have s3: "(go_step ?prov)\<^sup>*\<^sup>* w2 w3"
    using run_answered [of w2 0 ?prov None] rl
    by (simp add: w2_def w3_def w1_def record_response_def UpdateFromResponse_def releaseSequentialSlotIfNeeded_def RecordRequest_def)
  from s1 s2 s3 have "(go_step ?prov)\<^sup>*\<^sup>* (start example_limits 0) w3"
    by (meson rtranclp.rtrancl_into_rtrancl rtranclp_trans)
  then show ?thesis
    using rl by (intro exI [of _ w3]) (auto simp: w3_def w2_def w1_def start_def RecordRequest_def GetLimit_def)
qed

section \<open>Witnesses\<close>

text \<open>After one request at 0, the next one is told to wait for a minute, and keeps the limit of 1 after it.\<close>

lemma rate_limit_respected_witness:
  "let rl = RecordRequest 0 ''p'' (NewRateLimiter example_limits)
   in history_ok ''p'' 1 (rl, [0], 0) \<and> snd (admit rl ''p'' 0 0) = WaitFor minute \<and>
     history_ok ''p'' 1 (RecordRequest minute ''p'' (end_wait True ''p'' (fst (admit rl ''p'' 0 0))), [0, minute], minute)"
proof -
  let ?rl = "RecordRequest 0 ''p'' (NewRateLimiter example_limits)"
  have h: "history_ok ''p'' 1 (?rl, [0], 0)"
    by (simp add: history_ok_def spaced_def limiter_defs)
  have a: "admit ?rl ''p'' 0 0 = (fst (admit ?rl ''p'' 0 0), WaitFor minute)"
    by (simp add: limiter_defs)
  from rate_limit_respected [OF h, of 0 0 None True example_limits] a
  have "history_ok ''p'' 1 (RecordRequest minute ''p'' (end_wait True ''p'' (fst (admit ?rl ''p'' 0 0))), [0, minute], minute)"
    by (subst (asm) a) auto
  with h a show ?thesis by (simp add: Let_def) (metis snd_conv)
qed

text \<open>
  A run in which a goroutine waits for the window: it has made a request, and the limit is one a minute.
\<close>

lemma one_waiter_per_provider_witness:
  "\<exists>w. one_waiter (\<lambda>_. ''p'') w \<and> rl_providerWaiting (w_rl w) ''p'' \<and> w_pc w 0 = Waiting minute"
proof -
  let ?prov = "\<lambda>_ :: nat. ''p''"
  define rl where "rl = fst (admit (NewRateLimiter example_limits) ''p'' 0 0)"
  have rl: "rl_providerRequests rl ''p'' = []" "rl_providerLimits rl = [(''p'', 1)]" "rl_waitOnLimit rl"
    "rl_providerWaiting rl = (\<lambda>_. False)" "rl_providerStopped rl = (\<lambda>_. False)" "rl_learnedLimits rl = (\<lambda>_. None)"
    "rl_providerSequential rl = (\<lambda>_. False)"
    by (simp_all add: rl_def limiter_defs)
  define w1 where "w1 = goto 0 Sending rl 0 (start example_limits 0)"
  have s1: "(go_step ?prov)\<^sup>*\<^sup>* (start example_limits 0) w1"
    using run_to_sending [of "start example_limits 0" 0 ?prov rl 0] by (simp add: w1_def rl_def limiter_defs)
  define rl2 where "rl2 = RecordRequest 0 ''p'' rl"
  define w2 where "w2 = goto 0 Idle rl2 0 (start example_limits 0)"
  have s2: "(go_step ?prov)\<^sup>*\<^sup>* w1 w2"
    using run_answered [of w1 0 ?prov None] rl
    by (simp add: w1_def w2_def rl2_def record_response_def UpdateFromResponse_def releaseSequentialSlotIfNeeded_def RecordRequest_def)
  define rl3 where "rl3 = fst (admit rl2 ''p'' 0 0)"
  have a3: "admit rl2 ''p'' 0 0 = (rl3, WaitFor minute)"
    using rl by (simp add: rl3_def rl2_def RecordRequest_def admit_def effective_limit_def GetLimit_def Let_def)
  have s3: "(go_step ?prov)\<^sup>*\<^sup>* w2 (goto 0 (Waiting minute) rl3 0 w2)"
    using run_to_waiting [of w2 0 ?prov rl3 minute] a3 rl by (simp add: w2_def rl2_def RecordRequest_def)
  from s1 s2 s3 have "(go_step ?prov)\<^sup>*\<^sup>* (start example_limits 0) (goto 0 (Waiting minute) rl3 0 w2)" by (meson rtranclp_trans)
  from one_waiter_per_provider [OF this] show ?thesis
    using admit_effect [OF a3] by (intro exI [of _ "goto 0 (Waiting minute) rl3 0 w2"]) simp
qed

end
