(* ===== verification/AITestRunner.thy ===== *)
theory AITestRunner
  imports SuiteExecutor RateLimiter AIEngine AIResponseEngine
begin

text \<open>
  The execution of test cases against the AI provider (\<^verbatim>\<open>internal/testsuite/ai_executor.go\<close>). What the
  provider answers, what the rate limiter says, the JSON library, the environment and the clock are
  parameters; the goroutines of a test deliver their results in an order that is a parameter too. How the
  goroutines meet in the rate limiter is in \<^verbatim>\<open>RateLimiter\<close>.
\<close>

section \<open>Errors\<close>

text \<open>
  \<^verbatim>\<open>gateway.AIProviderError\<close> with the text of its cause, the two errors of a context, and other errors.
\<close>

datatype ai_error =
    ProviderError (ae_Category: string) (ae_Message: string) (ae_Retryable: bool) (ae_Cause: "string option")
  | DeadlineExceeded
  | Canceled
  | OtherError string

definition isRetryable :: "ai_error \<Rightarrow> bool" where
  "isRetryable err = (case err of ProviderError c m retryable cause \<Rightarrow> retryable | _ \<Rightarrow> False)"

definition classifyError :: "ai_error \<Rightarrow> int \<Rightarrow> TestError" where
  "classifyError err timeoutMs =
     (case err of
        ProviderError category message retryable cause \<Rightarrow>
          if category = ''timeout''
          then \<lparr> te_Type = category, te_Message = message @ '' (timeout_ms: '' @ Itoa timeoutMs @ '')'',
                 te_Details = ''increase execution.timeout_ms in suite config if this persists'' \<rparr>
          else \<lparr> te_Type = category, te_Message = message,
                 te_Details = (case cause of Some c \<Rightarrow> if category \<noteq> ''canceled'' then c else '''' | None \<Rightarrow> '''') \<rparr>
      | DeadlineExceeded \<Rightarrow>
          \<lparr> te_Type = ''timeout'', te_Message = ''test case timed out (timeout_ms: '' @ Itoa timeoutMs @ '')'',
            te_Details = ''increase execution.timeout_ms in suite config if this persists'' \<rparr>
      | Canceled \<Rightarrow> \<lparr> te_Type = ''canceled'', te_Message = ''test case was canceled'', te_Details = '''' \<rparr>
      | OtherError m \<Rightarrow> \<lparr> te_Type = ''unknown'', te_Message = m, te_Details = '''' \<rparr>)"

section \<open>Creating a runner\<close>

record AITestRunner =
  air_model :: ModelConfig
  air_policies :: "ConfigAIPolicy list"
  air_responsePolicies :: "ConfigAIResponsePolicy list"
  air_timeoutMs :: int
  air_maxTestDurationMs :: int
  air_retries :: int
  air_retryDelayMs :: int
  air_strictPolicyMatch :: bool
  air_includeDisabled :: bool

definition NewAITestRunner ::
  "(ModelConfig \<Rightarrow> string option) \<Rightarrow> suite_fs \<Rightarrow> ModelConfig \<Rightarrow> Suite \<Rightarrow> string \<Rightarrow> bool \<Rightarrow> string + AITestRunner" where
  "NewAITestRunner createClient F model suite suiteDir includeDisabled =
     (case createClient model of
        Some err \<Rightarrow> Inl (''failed to create AI provider client: '' @ err)
      | None \<Rightarrow>
          let x = su_Execution suite;
              runner = \<lparr> air_model = model, air_policies = [], air_responsePolicies = [],
                air_timeoutMs = (if exe_TimeoutMs x = 0 then 60000 else exe_TimeoutMs x),
                air_maxTestDurationMs = (if exe_MaxTestDurationMs x = 0 then 300000 else exe_MaxTestDurationMs x),
                air_retries = (if exe_Retries x = 0 then 2 else exe_Retries x),
                air_retryDelayMs = (if exe_RetryDelayMs x = 0 then 1000 else exe_RetryDelayMs x),
                air_strictPolicyMatch = IsStrictPolicyMatch (su_Acceptance suite),
                air_includeDisabled = includeDisabled \<rparr>;
              requestPath = spc_AIRequestRules (su_Policies suite);
              responsePath = spc_AIResponseRules (su_Policies suite)
          in case (if requestPath = '''' then Inr [] else loadAIPoliciesFromPath F requestPath suiteDir) of
               Inl err \<Rightarrow> Inl (''failed to load AI request rules: '' @ err)
             | Inr policies \<Rightarrow>
             (case (if responsePath = '''' then Inr [] else loadAIResponsePoliciesFromPath F responsePath suiteDir) of
               Inl err \<Rightarrow> Inl (''failed to load AI response rules: '' @ err)
             | Inr responsePolicies \<Rightarrow>
                 Inr (runner\<lparr> air_policies := policies, air_responsePolicies := responsePolicies \<rparr>)))"

definition resolveEnvVar :: "(string \<Rightarrow> string) \<Rightarrow> string \<Rightarrow> string" where
  "resolveEnvVar getenv s =
     (if length s > 3 \<and> take 2 s = ''${'' \<and> last s = CHR ''}''
      then getenv (drop 2 (butlast s)) else s)"

definition toStringMap :: "(dyn \<Rightarrow> string) \<Rightarrow> (string \<times> dyn) list \<Rightarrow> (string \<times> string) list" where
  "toStringMap sprint m = map (\<lambda>(k, v). (k, case v of DString s \<Rightarrow> s | _ \<Rightarrow> sprint v)) m"

section \<open>What the provider is asked\<close>

definition buildRequestContext :: "(Operation \<Rightarrow> go_error + string) \<Rightarrow> (dyn \<Rightarrow> string) \<Rightarrow> RequestConfig \<Rightarrow> string" where
  "buildRequestContext marshalIndent sprint req =
     (let op = \<lparr> op_Type = ''mcp_tool'', op_Name = trq_ToolName req, op_Arguments = trq_Arguments req \<rparr>
      in case marshalIndent op of
           Inl err \<Rightarrow> ''Tool call:'' @ nl @ ''Type: '' @ op_Type op @ nl @ ''Name: '' @ op_Name op @ nl @
                      ''Arguments: '' @ sprint (op_Arguments op)
         | Inr jsonBytes \<Rightarrow> ''Tool call:'' @ nl @ jsonBytes)"

fun context_items :: "nat \<Rightarrow> ContentItem list \<Rightarrow> string" where
  "context_items i [] = ''''"
| "context_items i (c # cs) =
     (if ci_Type c = ''text'' then ''  ['' @ Itoa (int i) @ ''] Text: '' @ ci_Text c @ nl
      else if ci_Type c = ''image'' then ''  ['' @ Itoa (int i) @ ''] Image (type: image)'' @ nl
      else ''  ['' @ Itoa (int i) @ ''] '' @ ci_Type c @ '': '' @ ci_Text c @ nl) @ context_items (Suc i) cs"

definition buildResponseContext :: "ResponseConfig option \<Rightarrow> string" where
  "buildResponseContext resp =
     (let formatted = ''IsError: false'' @ nl
      in ''Response content:'' @ nl @
         (case resp of
            None \<Rightarrow> formatted
          | Some r \<Rightarrow> if length (trs_Content r) > 0
              then formatted @ ''Content:'' @ nl @ context_items 0 (trs_Content r) else formatted))"

section \<open>Calling the provider\<close>

record completion =
  co_ParsedJSON :: string
  co_RawText :: string
  co_WasTruncated :: bool
  co_RateLimitInfo :: "RateLimitInfo option"

text \<open>
  The world of one call: the error of \<open>WaitBeforeRequest\<close>, if it refuses; the answer to the request of an
  attempt; and what \<open>Handle429WithInfo\<close> returns, always an error.
\<close>

record call_env =
  ce_Wait :: "string option"
  ce_Generate :: "nat \<Rightarrow> AIRequest \<Rightarrow> completion \<times> ai_error option"
  ce_Handle429 :: "RateLimitInfo option \<Rightarrow> ai_error"

abbreviation DefaultInitialMaxTokens :: int where "DefaultInitialMaxTokens \<equiv> 1024"
abbreviation AnthropicInitialMaxTokens :: int where "AnthropicInitialMaxTokens \<equiv> 128"
abbreviation MaxMaxTokens :: int where "MaxMaxTokens \<equiv> 1024"
abbreviation MaxScalingAttempts :: nat where "MaxScalingAttempts \<equiv> 4"

definition toInt :: "dyn \<Rightarrow> int option" where
  "toInt v = (case v of DInt i \<Rightarrow> Some i | DFloat f \<Rightarrow> Some (int_of_float f) | _ \<Rightarrow> None)"

definition copyParams :: "(string \<times> dyn) list \<Rightarrow> (string \<times> dyn) list" where
  "copyParams params = params"

definition initial_tokens :: "ModelConfig \<Rightarrow> int \<times> bool" where
  "initial_tokens model =
     (let start = (if mo_Provider model = ''anthropic'' then (AnthropicInitialMaxTokens, True)
                   else (DefaultInitialMaxTokens, False))
      in case map_of (mo_Parameters model) ''max_tokens'' of
           Some v \<Rightarrow> (case toInt v of Some mt \<Rightarrow> (mt, False) | None \<Rightarrow> start)
         | None \<Rightarrow> start)"

definition scaled_request :: "ModelConfig \<Rightarrow> string \<Rightarrow> dyn \<Rightarrow> int \<Rightarrow> AIRequest" where
  "scaled_request model userPrompt schema maxTokens =
     \<lparr> Model = mo_Model model, UserPrompt = userPrompt, ResponseSchema = schema,
       Parameters = AList.update ''max_tokens'' (DInt maxTokens) (copyParams (mo_Parameters model)) \<rparr>"

text \<open>
  The loop that raises \<^verbatim>\<open>max_tokens\<close> while answers are truncated; the last component lists the limits of
  the requests made. The factor is 2.0, which is exact on these numbers.
\<close>

function scaling_loop ::
  "call_env \<Rightarrow> ModelConfig \<Rightarrow> string \<Rightarrow> dyn \<Rightarrow> bool \<Rightarrow> nat \<Rightarrow> int \<Rightarrow> completion \<Rightarrow> int list \<Rightarrow>
     (ai_error + completion) \<times> int list" where
  "scaling_loop env model userPrompt schema autoScale attempt maxTokens result asked =
     (if \<not> attempt < MaxScalingAttempts then (Inr result, asked)
      else case ce_Generate env attempt (scaled_request model userPrompt schema maxTokens) of
        (result', err) \<Rightarrow>
          let asked' = asked @ [maxTokens] in
          case err of
            Some e \<Rightarrow>
              (Inl (case e of ProviderError category m rt c \<Rightarrow>
                      if category = ''rate_limited'' then ce_Handle429 env (co_RateLimitInfo result') else e
                    | _ \<Rightarrow> e), asked')
          | None \<Rightarrow>
              if \<not> co_WasTruncated result' \<or> \<not> autoScale then (Inr result', asked')
              else let nextMaxTokens = 2 * maxTokens
                   in if nextMaxTokens > MaxMaxTokens then (Inr result', asked')
                      else scaling_loop env model userPrompt schema autoScale (Suc attempt) nextMaxTokens result' asked')"
  by pat_completeness auto
termination by (relation "measure (\<lambda>(env, model, p, s, a, attempt, mt, r, asked). MaxScalingAttempts - attempt)") auto

declare scaling_loop.simps [simp del]

definition no_completion :: completion where
  "no_completion = \<lparr> co_ParsedJSON = '''', co_RawText = '''', co_WasTruncated = False, co_RateLimitInfo = None \<rparr>"

definition callAIProvider ::
  "call_env \<Rightarrow> ModelConfig \<Rightarrow> string \<Rightarrow> string \<Rightarrow> dyn \<Rightarrow> (ai_error + completion) \<times> int list" where
  "callAIProvider env model prompt promptContext schema =
     (case ce_Wait env of
        Some err \<Rightarrow> (Inl (ProviderError ''rate_limited'' err False None), [])
      | None \<Rightarrow>
          let userPrompt = prompt @ nl @ nl @ promptContext in
          case initial_tokens model of (maxTokens, autoScale) \<Rightarrow>
            scaling_loop env model userPrompt schema autoScale 0 maxTokens no_completion [])"

text \<open>Decoding an answer: the JSON the library found, or the text without a Markdown fence.\<close>

abbreviation fence :: string where "fence \<equiv> ''```''"

definition last_index :: "string \<Rightarrow> string \<Rightarrow> nat option" where
  "last_index sub s =
     (case rev (filter (\<lambda>i. HasPrefix (drop i s) sub) [0..<Suc (length s)]) of [] \<Rightarrow> None | i # _ \<Rightarrow> Some i)"

definition index_of :: "char \<Rightarrow> string \<Rightarrow> nat option" where
  "index_of c s = (let n = length (takeWhile (\<lambda>x. x \<noteq> c) s) in if n < length s then Some n else None)"

definition stripMarkdownCodeFence :: "string \<Rightarrow> string" where
  "stripMarkdownCodeFence s =
     (let body = TrimSpace s in
      if \<not> HasPrefix body fence then body
      else case index_of (CHR 0x0A) body of
        None \<Rightarrow> body
      | Some firstNewline \<Rightarrow>
          (case last_index fence body of
             None \<Rightarrow> body
           | Some lastFence \<Rightarrow>
               if lastFence \<le> firstNewline then body
               else TrimSpace (drop (firstNewline + 1) (take lastFence body))))"

definition parseAIResult :: "(string \<Rightarrow> string + 'a) \<Rightarrow> completion \<Rightarrow> ai_error + 'a" where
  "parseAIResult unmarshal result =
     (let from_text = (\<lambda>what. case unmarshal (SanitizeJSONEscapes (stripMarkdownCodeFence (co_RawText result))) of
            Inl err \<Rightarrow> Inl (OtherError (what @ err)) | Inr parsed \<Rightarrow> Inr parsed)
      in if length (co_ParsedJSON result) > 0 then
           (case unmarshal (SanitizeJSONEscapes (co_ParsedJSON result)) of
              Inl _ \<Rightarrow> from_text ''failed to parse AI response: ''
            | Inr parsed \<Rightarrow> Inr parsed)
         else if co_RawText result \<noteq> '''' then from_text ''failed to parse AI response from raw text: ''
         else Inl (OtherError ''empty AI response''))"

definition ask_provider ::
  "(string \<Rightarrow> string + 'a) \<Rightarrow> call_env \<Rightarrow> ModelConfig \<Rightarrow> string \<Rightarrow> string \<Rightarrow> dyn \<Rightarrow> ai_error + 'a" where
  "ask_provider unmarshal env model prompt promptContext schema =
     (case fst (callAIProvider env model prompt promptContext schema) of
        Inl err \<Rightarrow> Inl err
      | Inr result \<Rightarrow> parseAIResult unmarshal result)"

section \<open>Evaluating the policies of a case\<close>

record aiPolicyResult =
  apr_policyName :: string
  apr_decision :: string
  apr_reasoning :: string
  apr_elapsedMs :: int

record aiEvalResult =
  aer_decision :: string
  aer_reasoning :: string
  aer_policyResults :: "aiPolicyResult list"

text \<open>
  The world of one evaluation: the call of the \<open>i\<close>-th goroutine and the time it takes, the order in which
  the goroutines deliver, and the libraries.
\<close>

record test_env =
  tv_call :: "nat \<Rightarrow> call_env"
  tv_elapsed :: "nat \<Rightarrow> int"
  tv_order :: "nat list"
  tv_unmarshal :: "string \<Rightarrow> string + AIResponse"
  tv_unmarshalResponse :: "string \<Rightarrow> string + AIResponseEvaluation"
  tv_marshalIndent :: "Operation \<Rightarrow> go_error + string"
  tv_sprint :: "dyn \<Rightarrow> string"
  tv_schema :: dyn
  tv_responseSchema :: dyn

definition no_eval :: aiEvalResult where
  "no_eval = \<lparr> aer_decision = ''allow'', aer_reasoning = '''', aer_policyResults = [] \<rparr>"

text \<open>
  Collecting from the channel: with an error, the one that arrived first; otherwise all results, in the
  order of the policies.
\<close>

definition collect_answers :: "nat list \<Rightarrow> (ai_error + 'r) list \<Rightarrow> ai_error + 'r list" where
  "collect_answers order answers =
     (case filter (\<lambda>i. i < length answers \<and> isl (answers ! i)) order of
        i # _ \<Rightarrow> Inl (projl (answers ! i))
      | [] \<Rightarrow> Inr (map projr answers))"

text \<open>A policy's result, whether it is a denial, and the action it was configured with.\<close>

definition request_answer ::
  "test_env \<Rightarrow> ModelConfig \<Rightarrow> string \<Rightarrow> nat \<Rightarrow> ConfigAIPolicy \<Rightarrow> ai_error + aiPolicyResult \<times> bool \<times> string" where
  "request_answer env model reqContext i p =
     (case ask_provider (tv_unmarshal env) (tv_call env i) model (cap_Prompt p) reqContext (tv_schema env) of
        Inl err \<Rightarrow> Inl err
      | Inr aiResp \<Rightarrow>
          Inr (\<lparr> apr_policyName = cap_Name p, apr_decision = (if ai_Allowed aiResp then ''allow'' else cap_Action p),
                 apr_reasoning = ai_Message aiResp, apr_elapsedMs = Milliseconds (tv_elapsed env i) \<rparr>,
               \<not> ai_Allowed aiResp, cap_Action p))"

definition merge_request :: "aiEvalResult \<Rightarrow> aiPolicyResult \<times> bool \<times> string \<Rightarrow> aiEvalResult" where
  "merge_request acc res =
     (case res of (pr, isDeny, action) \<Rightarrow>
        let acc1 = acc\<lparr> aer_policyResults := aer_policyResults acc @ [pr] \<rparr>
        in if isDeny then acc1\<lparr> aer_decision := action, aer_reasoning := apr_reasoning pr \<rparr> else acc1)"

definition evaluateRequestPolicies :: "test_env \<Rightarrow> AITestRunner \<Rightarrow> TestCase \<Rightarrow> ai_error + aiEvalResult" where
  "evaluateRequestPolicies env r tc =
     (let reqContext = buildRequestContext (tv_marshalIndent env) (tv_sprint env) (tc_Request tc);
          enabledPolicies = filter (\<lambda>p. AIPolicy_IsEnabled p \<or> air_includeDisabled r) (air_policies r)
      in if length enabledPolicies = 0 then Inr no_eval
         else case collect_answers (tv_order env) (map2 (request_answer env (air_model r) reqContext)
                     [0..<length enabledPolicies] enabledPolicies) of
           Inl firstErr \<Rightarrow> Inl firstErr
         | Inr results \<Rightarrow> Inr (foldl merge_request no_eval results))"

definition response_answer ::
  "test_env \<Rightarrow> ModelConfig \<Rightarrow> string \<Rightarrow> nat \<Rightarrow> ConfigAIResponsePolicy \<Rightarrow> ai_error + aiPolicyResult" where
  "response_answer env model respContext i p =
     (case ask_provider (tv_unmarshalResponse env) (tv_call env i) model (carp_Prompt p) respContext (tv_responseSchema env) of
        Inl err \<Rightarrow> Inl err
      | Inr aiResp \<Rightarrow>
          Inr \<lparr> apr_policyName = carp_Name p,
                apr_decision = DetermineResponseDecision (carp_Action p) (ev_Allowed aiResp) (ev_RedactedContent aiResp) respContext,
                apr_reasoning = ev_Message aiResp, apr_elapsedMs = Milliseconds (tv_elapsed env i) \<rparr>)"

definition merge_response :: "aiEvalResult \<Rightarrow> aiPolicyResult \<Rightarrow> aiEvalResult" where
  "merge_response acc pr =
     (let acc1 = acc\<lparr> aer_policyResults := aer_policyResults acc @ [pr] \<rparr>
      in if apr_decision pr = ''deny'' then acc1\<lparr> aer_decision := ''deny'', aer_reasoning := apr_reasoning pr \<rparr>
         else if apr_decision pr = ''redact'' then
           (if aer_decision acc1 \<noteq> ''deny''
            then acc1\<lparr> aer_decision := ''redact'', aer_reasoning := apr_reasoning pr \<rparr> else acc1)
         else acc1)"

definition evaluateResponsePolicies :: "test_env \<Rightarrow> AITestRunner \<Rightarrow> TestCase \<Rightarrow> ai_error + aiEvalResult" where
  "evaluateResponsePolicies env r tc =
     (let respContext = buildResponseContext (tc_Response tc);
          enabledPolicies = filter (\<lambda>p. AIResponsePolicy_IsEnabled p \<or> air_includeDisabled r) (air_responsePolicies r)
      in if length enabledPolicies = 0 then Inr no_eval
         else case collect_answers (tv_order env) (map2 (response_answer env (air_model r) respContext)
                     [0..<length enabledPolicies] enabledPolicies) of
           Inl firstErr \<Rightarrow> Inl firstErr
         | Inr results \<Rightarrow> Inr (foldl merge_response no_eval results))"

definition evaluateWithRetry :: "test_env \<Rightarrow> AITestRunner \<Rightarrow> TestCase \<Rightarrow> ai_error + aiEvalResult" where
  "evaluateWithRetry env r tc =
     (if tc_Phase tc = ''request'' \<or> tc_Phase tc = ''both'' then evaluateRequestPolicies env r tc
      else if tc_Phase tc = ''response'' then evaluateResponsePolicies env r tc
      else Inl (OtherError (''unknown phase: '' @ tc_Phase tc)))"

section \<open>Executing a case\<close>

text \<open>
  The attempts that are left, and the number of the next; \<open>last\<close> is the outcome so far, \<open>None\<close> before the
  first attempt.
\<close>

fun attempts ::
  "(nat \<Rightarrow> ai_error + aiEvalResult) \<Rightarrow> nat \<Rightarrow> nat \<Rightarrow> (ai_error + aiEvalResult) option \<Rightarrow> (ai_error + aiEvalResult) option" where
  "attempts evaluate 0 attempt outcome = outcome"
| "attempts evaluate (Suc left) attempt outcome =
     (case evaluate attempt of
        Inr res \<Rightarrow> Some (Inr res)
      | Inl err \<Rightarrow> if \<not> isRetryable err then Some (Inl err)
                    else attempts evaluate left (attempt + 1) (Some (Inl err)))"

text \<open>
  \<open>envs\<close> has the world of each attempt; \<open>test_expired\<close> says that the deadline of the test, but not that of
  the run, has passed. The result is \<open>None\<close> when the code dereferences a nil pointer: without a single
  attempt there is neither a result nor an error.
\<close>

definition executeTest ::
  "(string \<Rightarrow> string) \<Rightarrow> (nat \<Rightarrow> test_env) \<Rightarrow> int \<Rightarrow> bool \<Rightarrow> AITestRunner \<Rightarrow> TestCase \<Rightarrow> TestResult option" where
  "executeTest q envs elapsed test_expired r tc =
     (let result = no_test_result\<lparr> tr_CaseID := tc_CaseID tc, tr_Title := tc_Title tc, tr_Phase := tc_Phase tc,
            tr_Engine := ''ai'', tr_Model := mo_Provider (air_model r) @ '':'' @ mo_Model (air_model r),
            tr_Expected := expected_of tc, tr_ElapsedMs := Milliseconds elapsed \<rparr>
      in case attempts (\<lambda>i. evaluateWithRetry (envs i) r tc) (nat (air_retries r + 1)) 0 None of
           None \<Rightarrow> None
         | Some (Inl err) \<Rightarrow>
             Some (result\<lparr> tr_Status := ''errored'', tr_Error := Some
               (if test_expired
                then \<lparr> te_Type = ''test_timeout'',
                       te_Message = ''test case exceeded max duration ('' @ Itoa (air_maxTestDurationMs r) @ ''ms)'',
                       te_Details = ''increase execution.max_test_duration_ms in suite config if this persists'' \<rparr>
                else classifyError err (air_timeoutMs r)) \<rparr>)
         | Some (Inr evalResult) \<Rightarrow>
             Some (judge q (air_strictPolicyMatch r) (result\<lparr> tr_Actual := no_actual\<lparr>
               act_Decision := aer_decision evalResult, act_Confidence := 1, act_Reasoning := aer_reasoning evalResult,
               act_PoliciesExecuted := map (\<lambda>pr. \<lparr> plr_PolicyName = apr_policyName pr, plr_Decision = apr_decision pr,
                 plr_ElapsedMs = apr_elapsedMs pr, plr_Reasoning = apr_reasoning pr \<rparr>) (aer_policyResults evalResult) \<rparr> \<rparr>)))"

definition rate_limited :: "TestResult \<Rightarrow> bool" where
  "rate_limited tr \<longleftrightarrow> (case tr_Error tr of Some e \<Rightarrow> te_Type e = ''rate_limited'' | None \<Rightarrow> False)"

definition skipped_by_limit :: "TestCase \<Rightarrow> TestResult" where
  "skipped_by_limit tc = no_test_result\<lparr> tr_CaseID := tc_CaseID tc, tr_Title := tc_Title tc, tr_Status := ''skipped'',
     tr_Error := Some \<lparr> te_Type = ''rate_limited'', te_Message = ''Skipped due to rate limit'', te_Details = '''' \<rparr> \<rparr>"

text \<open>
  The loop over the cases: the executed results, which the progress callback sees, and the results of the
  cases skipped after the limit was reached. \<open>exec\<close> executes the n-th test; \<open>None\<close> is a panic.
\<close>

fun ExecuteTests ::
  "(nat \<Rightarrow> TestCase \<Rightarrow> TestResult option) \<Rightarrow> nat \<Rightarrow> TestCase list \<Rightarrow> (TestResult list \<times> TestResult list) option" where
  "ExecuteTests exec n [] = Some ([], [])"
| "ExecuteTests exec n (tc # cases) =
     (if \<not> targets ''ai'' tc then ExecuteTests exec n cases
      else case exec n tc of
        None \<Rightarrow> None
      | Some result \<Rightarrow>
          if rate_limited result
          then Some ([result], map skipped_by_limit (filter (targets ''ai'') cases))
          else (case ExecuteTests exec (Suc n) cases of
              None \<Rightarrow> None
            | Some (executed, skipped) \<Rightarrow> Some (result # executed, skipped)))"

section \<open>How much the provider is asked for\<close>

lemmas scaling_steps =
  scaling_loop.simps [where attempt = 0] scaling_loop.simps [where attempt = "Suc 0"]
  scaling_loop.simps [where attempt = "Suc (Suc 0)"] scaling_loop.simps [where attempt = "Suc (Suc (Suc 0))"]
  scaling_loop.simps [where attempt = "Suc (Suc (Suc (Suc 0)))"]

lemma scaling_once:
  "scaling_loop env model p s False 0 mt c [] = (res, asked) \<Longrightarrow> asked = [mt]"
  by (auto simp: scaling_steps(1) Let_def split: prod.splits option.splits)

lemma scaling_doubles:
  "case scaling_loop env model p s True 0 128 c [] of (res, asked) \<Rightarrow>
     prefix asked [128, 256, 512, 1024] \<and> asked \<noteq> [] \<and>
     (case res of Inr result \<Rightarrow> co_WasTruncated result \<longrightarrow> asked = [128, 256, 512, 1024] | Inl _ \<Rightarrow> True)"
  by (simp add: scaling_steps Let_def split: prod.split option.split)

text \<open>
  Calling the provider asks for at most four completions: with an explicit \<^verbatim>\<open>max_tokens\<close> one, of that
  size; else one of 1024 tokens, or for Anthropic of 128, 256, 512 and 1024 tokens in turn, as long as the
  answers are truncated, so that a truncated answer is only accepted at the maximum. Nothing is asked
  when the rate limiter refuses.
\<close>

lemma tokens_asked:
  "case callAIProvider env model prompt promptContext schema of (res, asked) \<Rightarrow>
     if ce_Wait env \<noteq> None then asked = [] \<and> isl res
     else case map_option toInt (map_of (mo_Parameters model) ''max_tokens'') of
       Some (Some mt) \<Rightarrow> asked = [mt]
     | _ \<Rightarrow> if mo_Provider model \<noteq> ''anthropic'' then asked = [1024]
            else prefix asked [128, 256, 512, 1024] \<and> asked \<noteq> [] \<and>
              (case res of Inr result \<Rightarrow> (if co_WasTruncated result then asked = [128, 256, 512, 1024] else True)
               | Inl _ \<Rightarrow> True)"
  using scaling_doubles [of env model "prompt @ nl @ nl @ promptContext" schema no_completion]
  by (auto simp: callAIProvider_def initial_tokens_def Let_def dest: scaling_once
      split: option.split prod.splits sum.splits)

section \<open>What a test asks, and what the gateway asks\<close>

lemma context_items_text:
  assumes "list_all (\<lambda>c. ci_Type c = ''text'') cs"
  shows "context_items i cs = format_items env i (map (\<lambda>c. TextContent (ci_Text c)) cs)"
  using assms by (induction cs arbitrary: i) auto

text \<open>
  The prompt of a test is the prompt of the gateway: always for a request, for the same rule; and for
  a response of texts exactly when the case does not set \<^verbatim>\<open>is_error\<close>, since the test always says that the
  response is no error.
\<close>

lemma test_prompts_agree:
  "prompt @ nl @ nl @ buildRequestContext (ai_MarshalIndent env) (ai_Sprint env) req =
     prompt @ newline @ newline @ ''Tool call:'' @ newline @
       formatOperation env (NewMCPOperation (buildCallToolRequest req)) \<and>
   (if list_all (\<lambda>c. ci_Type c = ''text'') (trs_Content r)
    then (prompt @ nl @ nl @ buildResponseContext (Some r) =
            prompt @ newline @ newline @ ''Response content:'' @ newline @
              formatResponseForAI env' (buildCallToolResult (Some r))) = (\<not> trs_IsError r)
    else True)"
proof -
  have "filter (\<lambda>item. ci_Type item = ''text'') (trs_Content r) = trs_Content r"
    if "list_all (\<lambda>c. ci_Type c = ''text'') (trs_Content r)"
    using that by (simp add: filter_id_conv list_all_iff)
  then show ?thesis
    by (simp add: buildRequestContext_def formatOperation_def NewMCPOperation_def buildCallToolRequest_def Let_def
        buildResponseContext_def formatResponseForAI_def buildCallToolResult_def context_items_text [where env = env']
        split: sum.split)
qed

section \<open>The verdict of a test\<close>

lemma collect_ok:
  assumes "{..<length answers} \<subseteq> set order"
  shows "case collect_answers order answers of
     Inl err \<Rightarrow> Inl err \<in> set answers
   | Inr results \<Rightarrow> map Inr results = answers"
proof (cases "filter (\<lambda>i. i < length answers \<and> isl (answers ! i)) order")
  case Nil
  then have n: "\<not> isl (answers ! i)" if "i < length answers" for i
    using assms that by (auto simp: filter_empty_conv)
  have "map Inr (map projr answers) ! i = answers ! i" if "i < length answers" for i
    using n [OF that] that by (cases "answers ! i") auto
  then have "map Inr (map projr answers) = answers" by (intro nth_equalityI) simp_all
  with Nil show ?thesis by (simp add: collect_answers_def)
next
  case (Cons i rest)
  then have "i \<in> set (filter (\<lambda>i. i < length answers \<and> isl (answers ! i)) order)" by simp
  then have "i < length answers" "isl (answers ! i)" by simp_all
  then have "Inl (projl (answers ! i)) \<in> set answers" by (metis nth_mem sum.collapse(1))
  with Cons show ?thesis by (simp add: collect_answers_def)
qed

lemma merge_response_foldl:
  "aer_policyResults (foldl merge_response acc prs) = aer_policyResults acc @ prs \<and>
   aer_decision (foldl merge_response acc prs) =
     (if aer_decision acc = ''deny'' \<or> ''deny'' \<in> set (map apr_decision prs) then ''deny''
      else if ''redact'' \<in> set (map apr_decision prs) then ''redact'' else aer_decision acc)"
  by (induction prs arbitrary: acc) (auto simp: merge_response_def Let_def)

lemma merge_request_foldl:
  "aer_policyResults (foldl merge_request acc rs) = aer_policyResults acc @ map fst rs \<and>
   aer_decision (foldl merge_request acc rs) =
     (if filter (\<lambda>r. fst (snd r)) rs = [] then aer_decision acc
      else snd (snd (last (filter (\<lambda>r. fst (snd r)) rs))))"
  by (induction rs arbitrary: acc rule: rev_induct) (auto simp: merge_request_def Let_def split: prod.split)

text \<open>The policies a case is evaluated with, and their answers.\<close>

definition test_requests :: "test_env \<Rightarrow> AITestRunner \<Rightarrow> TestCase \<Rightarrow> (ai_error + aiPolicyResult \<times> bool \<times> string) list" where
  "test_requests env r tc =
     (let ps = filter (\<lambda>p. AIPolicy_IsEnabled p \<or> air_includeDisabled r) (air_policies r)
      in map2 (request_answer env (air_model r)
           (buildRequestContext (tv_marshalIndent env) (tv_sprint env) (tc_Request tc))) [0..<length ps] ps)"

definition test_responses :: "test_env \<Rightarrow> AITestRunner \<Rightarrow> TestCase \<Rightarrow> (ai_error + aiPolicyResult) list" where
  "test_responses env r tc =
     (let ps = filter (\<lambda>p. AIResponsePolicy_IsEnabled p \<or> air_includeDisabled r) (air_responsePolicies r)
      in map2 (response_answer env (air_model r) (buildResponseContext (tc_Response tc))) [0..<length ps] ps)"

lemma evaluateRequestPolicies_answers:
  "evaluateRequestPolicies env r tc =
     (case collect_answers (tv_order env) (test_requests env r tc) of
        Inl e \<Rightarrow> Inl e | Inr results \<Rightarrow> Inr (foldl merge_request no_eval results))"
  by (auto simp: evaluateRequestPolicies_def test_requests_def Let_def collect_answers_def split: list.split)

lemma evaluateResponsePolicies_answers:
  "evaluateResponsePolicies env r tc =
     (case collect_answers (tv_order env) (test_responses env r tc) of
        Inl e \<Rightarrow> Inl e | Inr results \<Rightarrow> Inr (foldl merge_response no_eval results))"
  by (auto simp: evaluateResponsePolicies_def test_responses_def Let_def collect_answers_def split: list.split)

text \<open>
  A request is decided by the action of the last policy that does not allow it, whatever the others say:
  a policy that denies is overruled by a later one that refuses with another action.
\<close>

lemma request_verdict_exact:
  assumes "{..<length (test_requests env r tc)} \<subseteq> set (tv_order env)"
  shows "case evaluateRequestPolicies env r tc of
      Inl e \<Rightarrow> Inl e \<in> set (test_requests env r tc)
    | Inr res \<Rightarrow> \<exists>rs. test_requests env r tc = map Inr rs \<and> aer_policyResults res = map fst rs \<and>
        aer_decision res =
          (if filter (\<lambda>r. fst (snd r)) rs = [] then ''allow'' else snd (snd (last (filter (\<lambda>r. fst (snd r)) rs))))"
proof (cases "collect_answers (tv_order env) (test_requests env r tc)")
  case (Inl e)
  with collect_ok [OF assms(1)] show ?thesis by (simp add: evaluateRequestPolicies_answers)
next
  case (Inr rs)
  with collect_ok [OF assms(1)] have rs: "test_requests env r tc = map Inr rs" by simp
  note m = merge_request_foldl [of no_eval rs]
  show ?thesis
    unfolding evaluateRequestPolicies_answers Inr sum.case
    by (rule exI [of _ rs]) (simp only: m rs, simp add: no_eval_def)
qed

lemma response_verdict_exact:
  assumes "{..<length (test_responses env r tc)} \<subseteq> set (tv_order env)"
  shows "case evaluateResponsePolicies env r tc of
      Inl e \<Rightarrow> Inl e \<in> set (test_responses env r tc)
    | Inr res \<Rightarrow> test_responses env r tc = map Inr (aer_policyResults res) \<and>
        aer_decision res = (if ''deny'' \<in> set (map apr_decision (aer_policyResults res)) then ''deny''
          else if ''redact'' \<in> set (map apr_decision (aer_policyResults res)) then ''redact'' else ''allow'')"
proof (cases "collect_answers (tv_order env) (test_responses env r tc)")
  case (Inl e)
  with collect_ok [OF assms] show ?thesis by (simp add: evaluateResponsePolicies_answers)
next
  case (Inr prs)
  with collect_ok [OF assms] have prs: "test_responses env r tc = map Inr prs" by simp
  note m = merge_response_foldl [of no_eval prs]
  show ?thesis
    unfolding evaluateResponsePolicies_answers Inr sum.case
    by (simp only: m prs, simp add: no_eval_def)
qed

text \<open>
  C37. Whatever the order in which the policies of a case answer, its evaluation either fails with the
  error of one of them, or has the result of each policy in the order of the rule file. A request that every
  policy allows is then allowed, and one that some refuse, all of these with the action deny, is denied. A
  response has the most restrictive of the answers: deny before redact before allow.
\<close>

theorem ai_test_verdict:
  assumes "{..<length (test_requests env r tc)} \<subseteq> set (tv_order env)"
    and "{..<length (test_responses env r tc)} \<subseteq> set (tv_order env)"
  shows "(case evaluateRequestPolicies env r tc of
       Inl e \<Rightarrow> Inl e \<in> set (test_requests env r tc)
     | Inr res \<Rightarrow> \<exists>rs. test_requests env r tc = map Inr rs \<and> aer_policyResults res = map fst rs \<and>
         (let refusals = filter (fst \<circ> snd) rs in
          if refusals = [] then aer_decision res = ''allow''
          else if list_all (\<lambda>r. snd (snd r) = ''deny'') refusals then aer_decision res = ''deny''
          else True)) \<and>
    (case evaluateResponsePolicies env r tc of
       Inl e \<Rightarrow> Inl e \<in> set (test_responses env r tc)
     | Inr res \<Rightarrow> test_responses env r tc = map Inr (aer_policyResults res) \<and>
         aer_decision res = (if ''deny'' \<in> set (map apr_decision (aer_policyResults res)) then ''deny''
            else if ''redact'' \<in> set (map apr_decision (aer_policyResults res)) then ''redact'' else ''allow''))"
proof
  have last: "snd (snd (last xs)) = a" if "list_all (\<lambda>r. snd (snd r) = a) xs" "xs \<noteq> []" for xs :: "('a \<times> 'b \<times> 'c) list" and a
    using that by (simp add: list_all_iff)
  show "case evaluateRequestPolicies env r tc of
       Inl e \<Rightarrow> Inl e \<in> set (test_requests env r tc)
     | Inr res \<Rightarrow> \<exists>rs. test_requests env r tc = map Inr rs \<and> aer_policyResults res = map fst rs \<and>
         (let refusals = filter (fst \<circ> snd) rs in
          if refusals = [] then aer_decision res = ''allow''
          else if list_all (\<lambda>r. snd (snd r) = ''deny'') refusals then aer_decision res = ''deny''
          else True)"
  proof (cases "evaluateRequestPolicies env r tc")
    case (Inl e)
    with request_verdict_exact [OF assms(1)] show ?thesis by simp
  next
    case (Inr res)
    with request_verdict_exact [OF assms(1)] obtain rs where rs: "test_requests env r tc = map Inr rs"
      "aer_policyResults res = map fst rs"
      "aer_decision res = (if filter (fst \<circ> snd) rs = [] then ''allow'' else snd (snd (last (filter (fst \<circ> snd) rs))))"
      by (auto simp: comp_def)
    with Inr show ?thesis by (auto simp: Let_def last)
  qed
qed (rule response_verdict_exact [OF assms(2)])

definition sample_rule :: "string \<Rightarrow> ConfigAIPolicy" where
  "sample_rule name = \<lparr> cap_Name = name, cap_Description = '''', cap_Prompt = ''p'', cap_Action = ''deny'',
     cap_Message = '''', cap_Enabled = None, cap_Mode = ''enforce'' \<rparr>"

definition sample_response_rule :: ConfigAIResponsePolicy where
  "sample_response_rule = \<lparr> carp_Name = ''secrets'', carp_Description = '''', carp_Prompt = ''p'',
     carp_Action = ''redact'', carp_Message = '''', carp_Enabled = None, carp_Mode = ''enforce'' \<rparr>"

definition sample_runner :: "int \<Rightarrow> AITestRunner" where
  "sample_runner retries =
     \<lparr> air_model = \<lparr> mo_Provider = ''openai'', mo_Endpoint = '''', mo_Model = ''m'', mo_APIKey = '''',
         mo_Parameters = [], mo_QueryParams = [], mo_Headers = [], mo_Enabled = None \<rparr>,
       air_policies = [sample_rule ''a'', sample_rule ''b''], air_responsePolicies = [sample_response_rule],
       air_timeoutMs = 60000, air_maxTestDurationMs = 300000, air_retries = retries, air_retryDelayMs = 1000,
       air_strictPolicyMatch = True, air_includeDisabled = False \<rparr>"

definition sample_case :: "string \<Rightarrow> TestCase" where
  "sample_case phase =
     \<lparr> tc_CaseID = ''c'', tc_Title = ''t'', tc_Tags = [], tc_Notes = [], tc_Phase = phase, tc_Engine = ''ai'',
       tc_Request = \<lparr> trq_ToolName = ''files__read'', trq_Arguments = DMap [] \<rparr>, tc_Response = None,
       tc_Expectations = \<lparr> ex_Decision = ''deny'', ex_Policies = [], ex_RedactedContent = [] \<rparr> \<rparr>"

text \<open>A provider that answers, but whose answers are not JSON; the goroutines deliver in reverse.\<close>

definition sample_env :: test_env where
  "sample_env =
     \<lparr> tv_call = (\<lambda>i. \<lparr> ce_Wait = None, ce_Generate = (\<lambda>n req. (no_completion\<lparr> co_RawText := ''no'' \<rparr>, None)),
         ce_Handle429 = (\<lambda>info. OtherError ''429'') \<rparr>),
       tv_elapsed = (\<lambda>i. 0), tv_order = [1, 0], tv_unmarshal = (\<lambda>s. Inr \<lparr> ai_Allowed = False, ai_Message = s \<rparr>),
       tv_unmarshalResponse = (\<lambda>s. Inl ''no JSON''), tv_marshalIndent = (\<lambda>op. Inr ''{}''), tv_sprint = (\<lambda>v. ''{}''),
       tv_schema = DNil, tv_responseSchema = DNil \<rparr>"

lemma sample_lengths:
  "length (test_requests sample_env (sample_runner n) tc) = 2"
  "length (test_responses sample_env (sample_runner n) tc) = 1"
  by (simp_all add: test_requests_def test_responses_def sample_runner_def sample_rule_def sample_response_rule_def
      AIPolicy_IsEnabled_def AIResponsePolicy_IsEnabled_def Let_def)

lemma ai_test_verdict_witness:
  "case evaluateRequestPolicies sample_env (sample_runner 0) (sample_case ''request'') of
     Inl e \<Rightarrow> Inl e \<in> set (test_requests sample_env (sample_runner 0) (sample_case ''request''))
   | Inr res \<Rightarrow> \<exists>rs. test_requests sample_env (sample_runner 0) (sample_case ''request'') = map Inr rs \<and>
       aer_policyResults res = map fst rs \<and>
       (let refusals = filter (fst \<circ> snd) rs in
        if refusals = [] then aer_decision res = ''allow''
        else if list_all (\<lambda>r. snd (snd r) = ''deny'') refusals then aer_decision res = ''deny''
        else True)"
proof -
  have two: "{..<2 :: nat} \<subseteq> set (tv_order sample_env)" by (auto simp: sample_env_def)
  have one: "{..<1 :: nat} \<subseteq> set (tv_order sample_env)" by (auto simp: sample_env_def)
  show ?thesis
    by (rule ai_test_verdict [of sample_env "sample_runner 0" "sample_case ''request''", THEN conjunct1])
      (simp_all only: sample_lengths two one)
qed

section \<open>What a test can and cannot see\<close>

lemma attempts_result:
  "attempts evaluate n i outcome =
     (if n = 0 then outcome
      else let final = (\<lambda>k. k = n - 1 \<or> \<not> (isl (evaluate (i + k)) \<and> isRetryable (projl (evaluate (i + k)))))
           in Some (evaluate (i + (LEAST k. final k))))"
proof (induction evaluate n i outcome rule: attempts.induct)
  case (2 evaluate left i outcome)
  let ?stop = "\<lambda>k. \<not> (isl (evaluate k) \<and> isRetryable (projl (evaluate k)))"
  let ?final = "\<lambda>k. k = left \<or> ?stop (i + k)"
  show ?case
  proof (cases "?stop i")
    case True
    then have "(LEAST k. ?final k) = 0" by (intro Least_equality) auto
    with True show ?thesis by (cases "evaluate i") (auto simp: Let_def)
  next
    case False
    then obtain err where err: "evaluate i = Inl err" "isRetryable err" by (cases "evaluate i") auto
    show ?thesis
    proof (cases left)
      case 0
      then have "(LEAST k. ?final k) = 0" by (intro Least_equality) auto
      with 0 err show ?thesis by (simp add: Let_def)
    next
      case (Suc m)
      have "?final left" by simp
      then have "(LEAST k. ?final k) = Suc (LEAST k. ?final (Suc k))"
        using False Suc by (intro Least_Suc) auto
      with Suc err 2 show ?thesis by (simp add: Let_def)
    qed
  qed
qed simp

text \<open>
  A test that sends a request is decided by its request alone: for the phases \<^verbatim>\<open>request\<close> and
  \<^verbatim>\<open>both\<close> neither the response of the case nor the response rules of the suite change its result. And
  whatever the phase, a case that expects redacted content never passes against the AI engine.
\<close>

lemma ai_tests_ignore_redaction:
  "(if tc_Phase tc \<in> {''request'', ''both''}
    then executeTest q envs elapsed expired (r\<lparr> air_responsePolicies := rps \<rparr>) (tc\<lparr> tc_Response := resp \<rparr>) =
         executeTest q envs elapsed expired r tc else True) \<and>
   (case executeTest q envs elapsed expired r tc of
      None \<Rightarrow> air_retries r < 0
    | Some res \<Rightarrow>
        if extractExpectedRedactedContent (ex_RedactedContent (tc_Expectations tc)) \<noteq> ''''
        then tr_Status res \<in> {''failed'', ''errored''} else True)"
proof (intro conjI)
  have "evaluateWithRetry env (r\<lparr> air_responsePolicies := rps \<rparr>) (tc\<lparr> tc_Response := resp \<rparr>) = evaluateWithRetry env r tc"
    if "tc_Phase tc \<in> {''request'', ''both''}" for env
    using that by (auto simp: evaluateWithRetry_def evaluateRequestPolicies_def Let_def)
  then show "if tc_Phase tc \<in> {''request'', ''both''}
    then executeTest q envs elapsed expired (r\<lparr> air_responsePolicies := rps \<rparr>) (tc\<lparr> tc_Response := resp \<rparr>) =
         executeTest q envs elapsed expired r tc else True"
    by (simp add: executeTest_def expected_of_def Let_def del: insert_iff cong: option.case_cong sum.case_cong if_cong)
  show "case executeTest q envs elapsed expired r tc of
      None \<Rightarrow> air_retries r < 0
    | Some res \<Rightarrow>
        if extractExpectedRedactedContent (ex_RedactedContent (tc_Expectations tc)) \<noteq> ''''
        then tr_Status res \<in> {''failed'', ''errored''} else True"
  proof (cases "attempts (\<lambda>i. evaluateWithRetry (envs i) r tc) (nat (air_retries r + 1)) 0 None")
    case None
    then show ?thesis by (simp add: executeTest_def attempts_result Let_def split: if_splits)
  next
    case (Some out)
    then show ?thesis
      by (cases out) (simp_all add: executeTest_def Let_def judge_status expected_of_def expectation_met_def no_actual_def)
  qed
qed

text \<open>
  A run of a model takes the cases for the AI engine in order: it executes them up to and including
  the first one that is rate limited, gives each of the others one skipped result, and executes none of
  them. It panics exactly when one of the tests it executes does.
\<close>

lemma ai_run_stops_at_limit:
  "case ExecuteTests exec n cases of
     None \<Rightarrow> (\<exists>k < length (filter (targets ''ai'') cases). exec (n + k) (filter (targets ''ai'') cases ! k) = None)
   | Some (executed, skipped) \<Rightarrow>
       (let ts = filter (targets ''ai'') cases; k = length executed
        in map Some executed = map2 exec [n..<n + k] (take k ts) \<and>
           skipped = map skipped_by_limit (drop k ts) \<and>
           list_all (\<lambda>res. \<not> rate_limited res) (butlast executed) \<and>
           (if skipped = [] then True else executed \<noteq> [] \<and> rate_limited (last executed)))"
proof (induction exec n cases rule: ExecuteTests.induct)
  case (2 exec n tc cases)
  show ?case
  proof (cases "targets ''ai'' tc")
    case False
    then have "filter (targets ''ai'') (tc # cases) = filter (targets ''ai'') cases"
      "ExecuteTests exec n (tc # cases) = ExecuteTests exec n cases" by simp_all
    with 2(1) [OF False] show ?thesis by (simp only: )
  next
    case ai: True
    show ?thesis
    proof (cases "exec n tc")
      case None
      with ai show ?thesis by (auto intro!: exI [of _ 0])
    next
      case (Some res)
      show ?thesis
      proof (cases "rate_limited res")
        case True
        with ai Some show ?thesis by (simp add: Let_def)
      next
        case False
        note IH = 2(2) [OF _ Some]
        show ?thesis
        proof (cases "ExecuteTests exec (Suc n) cases")
          case None
          with IH ai False obtain k where "k < length (filter (targets ''ai'') cases)"
            "exec (Suc n + k) (filter (targets ''ai'') cases ! k) = None" by auto
          then show ?thesis using ai Some False None by (auto intro!: exI [of _ "Suc k"])
        next
          case (Some p)
          obtain executed skipped where p: "p = (executed, skipped)" by (cases p)
          with IH ai False Some \<open>exec n tc = Some res\<close> show ?thesis
            by (auto simp: Let_def upt_conv_Cons)
        qed
      qed
    qed
  qed
qed simp

end
