(* ===== verification/SuiteRunner.thy ===== *)
theory SuiteRunner
  imports SuiteReport AITestRunner
begin

text \<open>
  A run of the policy test suite (\<^verbatim>\<open>internal/testsuite/runner.go\<close>): executing the tests of each model,
  with the cache of results, and the whole of \<open>Run\<close>. What is printed is not modelled. How the providers
  answer, the clocks and the failures of the file system are parameters; the requests of a run meet in the
  rate limiter, whose effect on a test is in those answers. A panic is the value \<open>None\<close>.
\<close>

section \<open>The world of a run\<close>

text \<open>
  The functions of two numbers take the numbers of the model and of the test it executes; \<open>rw_env\<close> also
  that of the attempt. \<open>rw_celEnv\<close> is the environment of the CEL engines, if it can be created.
\<close>

record ('ast, 'prg, 're) run_world =
  rw_mkCelEnv :: "go_error + ('ast, 'prg) cel_env"
  rw_celEnv :: "('ast, 'prg) cel_env"
  rw_regexp :: "'re regexp_lib"
  rw_celClock :: "int \<Rightarrow> clock"
  rw_reqClock :: "int \<Rightarrow> clock"
  rw_respClock :: "int \<Rightarrow> clock"
  rw_client :: "ModelConfig \<Rightarrow> string option"
  rw_env :: "nat \<Rightarrow> nat \<Rightarrow> nat \<Rightarrow> test_env"
  rw_elapsed :: "nat \<Rightarrow> nat \<Rightarrow> int"
  rw_expired :: "nat \<Rightarrow> nat \<Rightarrow> bool"
  rw_now :: "nat \<Rightarrow> nat \<Rightarrow> int"
  rw_saveNow :: "nat \<Rightarrow> nat \<Rightarrow> int"
  rw_saveFault :: "nat \<Rightarrow> nat \<Rightarrow> save_faults"
  rw_closeNow :: int
  rw_closeFault :: save_faults
  rw_loadNow :: int
  rw_marshalState :: "StateFile \<Rightarrow> string"
  rw_unmarshalState :: "string \<Rightarrow> go_error + StateFile"
  rw_readFault :: "string \<Rightarrow> go_error option"
  rw_writeFault :: "string \<Rightarrow> string option"
  rw_timestamp :: string
  rw_marshalJSON :: "JSONOutput \<Rightarrow> string + string"
  rw_marshalJUnit :: "JUnitTestSuites \<Rightarrow> string + string"
  rw_xmlHeader :: string
  rw_fmt4 :: "rat \<Rightarrow> string"

section \<open>The tests of a model\<close>

definition content_hash_of :: "Runner \<Rightarrow> string \<Rightarrow> string" where
  "content_hash_of r caseID = (case map_of (rn_testCaseHashes r) caseID of Some h \<Rightarrow> h | None \<Rightarrow> '''')"

definition is_skipped :: "Runner \<Rightarrow> StateManager option \<Rightarrow> string \<Rightarrow> TestCase \<Rightarrow> bool" where
  "is_skipped r sm modelKey tc =
     (case sm of
        None \<Rightarrow> False
      | Some m \<Rightarrow> \<not> opt_Force (rn_opts r) \<and>
          ShouldSkip m (content_hash_of r (tc_CaseID tc)) (slice_of (rn_policyHashes r)) modelKey (opt_RetryFailed (rn_opts r)))"

definition cached_skip :: "Runner \<Rightarrow> StateManager option \<Rightarrow> string \<Rightarrow> TestCase \<Rightarrow> TestResult" where
  "cached_skip r sm modelKey tc =
     (let hash = content_hash_of r (tc_CaseID tc); ps = slice_of (rn_policyHashes r);
          status = (case sm of Some m \<Rightarrow> GetCachedStatus m hash ps modelKey | None \<Rightarrow> '''');
          duration = (case sm of Some m \<Rightarrow> GetCachedDuration m hash ps modelKey | None \<Rightarrow> 0)
      in no_test_result\<lparr> tr_CaseID := tc_CaseID tc, tr_Title := tc_Title tc, tr_Engine := ''ai'', tr_Model := modelKey,
           tr_Status := ''skipped'', tr_ElapsedMs := duration,
           tr_Error := Some \<lparr> te_Type = ''cached'', te_Message = ''cached '' @ status, te_Details = '''' \<rparr> \<rparr>)"

definition runner_failed :: "ModelConfig \<Rightarrow> string \<Rightarrow> TestCase \<Rightarrow> TestResult" where
  "runner_failed model err tc =
     no_test_result\<lparr> tr_CaseID := tc_CaseID tc, tr_Title := tc_Title tc, tr_Engine := ''ai'',
       tr_Model := ModelKey (mo_Provider model) (mo_Model model), tr_Status := ''errored'',
       tr_Error := Some \<lparr> te_Type = ''config_error'',
         te_Message = ''Failed to create AI runner for '' @ mo_Provider model @ ''/'' @ mo_Model model @ '': '' @ err,
         te_Details = '''' \<rparr> \<rparr>"

fun number_results :: "int \<Rightarrow> int \<Rightarrow> TestResult list \<Rightarrow> TestResult list" where
  "number_results n total' [] = []"
| "number_results n total' (tr # trs) =
     tr\<lparr> tr_TestNumber := n + 1, tr_TestTotal := total' \<rparr> # number_results (n + 1) total' trs"

text \<open>
  What the progress callback does to the cache with the result of a test, and the result it passes on: a
  copy with its number and, from the second run on, its pass rates. A failed save is only printed.
\<close>

definition to_cache :: "int \<Rightarrow> TestResult \<Rightarrow> CachedResult" where
  "to_cache now tr = \<lparr> cres_Status = tr_Status tr, cres_Confidence = act_Confidence (tr_Actual tr), cres_LastRun = now,
     cres_DurationMs = tr_ElapsedMs tr, cres_ExtraPolicyOnly = tr_ExtraPolicyOnly tr, cres_History = [] \<rparr>"

definition with_rates :: "CachedResult \<Rightarrow> TestResult \<Rightarrow> TestResult" where
  "with_rates cr tr =
     (if length (cres_History cr) \<ge> 2
      then tr\<lparr> tr_PassRate := fst (PassRate cr), tr_PassRateRuns := snd (PassRate cr),
             tr_PassRateSinceChange := fst (PassRateSincePolicyChange cr),
             tr_PassRateSinceChangeRuns := snd (PassRateSincePolicyChange cr) \<rparr>
      else tr)"

type_synonym cache = "StateManager \<times> files"

definition record_test ::
  "('ast, 'prg, 're) run_world \<Rightarrow> nat \<Rightarrow> string \<Rightarrow> string list option \<Rightarrow> nat \<Rightarrow> cache \<Rightarrow> string \<times> TestResult \<Rightarrow>
     (cache \<times> CachedResult) option" where
  "record_test W k modelKey policyHashes i st entry =
     (case (st, entry) of ((sm, fs), (hash, tr)) \<Rightarrow>
        case RecordResult sm hash (tr_CaseID tr) policyHashes modelKey (to_cache (rw_now W k i) tr) of
          None \<Rightarrow> None
        | Some (sm1, cr) \<Rightarrow>
            (case Save (rw_saveFault W k i) (rw_marshalState W) (rw_saveNow W k i) sm1 fs of
               (_, sm2, fs2) \<Rightarrow> Some ((sm2, fs2), cr)))"

text \<open>The callbacks of a model's tests, from the \<open>i\<close>-th on; \<open>n\<close> is the number of the last test.\<close>

fun record_tests ::
  "('ast, 'prg, 're) run_world \<Rightarrow> nat \<Rightarrow> string \<Rightarrow> string list option \<Rightarrow> int \<Rightarrow> int \<Rightarrow> nat \<Rightarrow> cache \<Rightarrow>
     (string \<times> TestResult) list \<Rightarrow> (TestResult list \<times> cache) option" where
  "record_tests W k modelKey policyHashes n total' i st [] = Some ([], st)"
| "record_tests W k modelKey policyHashes n total' i st ((hash, tr) # entries) =
     (case record_test W k modelKey policyHashes i st (hash, tr) of
        None \<Rightarrow> None
      | Some (st1, cr) \<Rightarrow>
          (case record_tests W k modelKey policyHashes (n + 1) total' (Suc i) st1 entries of
             None \<Rightarrow> None
           | Some (streamed, st2) \<Rightarrow>
               Some (with_rates cr (tr\<lparr> tr_TestNumber := n + 1, tr_TestTotal := total' \<rparr>) # streamed, st2)))"

definition run_callbacks ::
  "('ast, 'prg, 're) run_world \<Rightarrow> nat \<Rightarrow> Runner \<Rightarrow> string \<Rightarrow> int \<Rightarrow> int \<Rightarrow> TestResult list \<Rightarrow> StateManager option \<times> files \<Rightarrow>
     (TestResult list \<times> StateManager option \<times> files) option" where
  "run_callbacks W k r modelKey n total' executed st =
     (case st of
        (None, fs) \<Rightarrow> Some (number_results n total' executed, None, fs)
      | (Some sm, fs) \<Rightarrow>
          (case record_tests W k modelKey (rn_policyHashes r) n total' 0 (sm, fs)
                  (map (\<lambda>tr. (content_hash_of r (tr_CaseID tr), tr)) executed) of
             None \<Rightarrow> None
           | Some (streamed, sm', fs') \<Rightarrow> Some (streamed, Some sm', fs')))"

definition limit_tests :: "Runner \<Rightarrow> TestCase list \<Rightarrow> TestCase list" where
  "limit_tests r cases =
     (if opt_MaxTests (rn_opts r) > 0 \<and> int (length cases) > opt_MaxTests (rn_opts r)
      then take (nat (opt_MaxTests (rn_opts r))) cases else cases)"

text \<open>The tests of the \<open>k\<close>-th model: the results, what is passed on while it runs, and the cache.\<close>

definition run_model ::
  "suite_lib \<Rightarrow> ('ast, 'prg, 're) run_world \<Rightarrow> Runner \<Rightarrow> TestCase list \<Rightarrow> nat \<Rightarrow> ModelConfig \<Rightarrow> StateManager option \<times> files \<Rightarrow>
     (TestResult list \<times> TestResult list \<times> StateManager option \<times> files) option" where
  "run_model L W r cases k model st =
     (let modelKey = ModelKey (mo_Provider model) (mo_Model model) in
      case NewAITestRunner (rw_client W) (slb_fs L) model (rn_suite r) (rn_suiteDir r) (opt_IncludeDisabled (rn_opts r)) of
        Inl err \<Rightarrow> let failed = map (runner_failed model err) cases in Some (failed, failed, st)
      | Inr runner \<Rightarrow>
          let aiCases = filter (targets ''ai'') cases;
              cached = filter (is_skipped r (fst st) modelKey) aiCases;
              casesToRun = filter (\<lambda>tc. \<not> is_skipped r (fst st) modelKey tc) aiCases;
              sectionTotal = int (length cached) + int (length casesToRun);
              skippedCached = number_results 0 sectionTotal (map (cached_skip r (fst st) modelKey) cached)
          in case ExecuteTests (\<lambda>i. executeTest (slb_Quote L) (rw_env W k i) (rw_elapsed W k i) (rw_expired W k i) runner)
                    0 (limit_tests r casesToRun) of
               None \<Rightarrow> None
             | Some (executed, rateLimited) \<Rightarrow>
                 (case run_callbacks W k r modelKey (int (length cached)) sectionTotal executed st of
                    None \<Rightarrow> None
                  | Some (streamed, st') \<Rightarrow>
                      Some (skippedCached @ executed @ rateLimited, skippedCached @ streamed, st')))"

fun run_models ::
  "suite_lib \<Rightarrow> ('ast, 'prg, 're) run_world \<Rightarrow> Runner \<Rightarrow> TestCase list \<Rightarrow> nat \<Rightarrow> ModelConfig list \<Rightarrow> StateManager option \<times> files \<Rightarrow>
     (TestResult list \<times> TestResult list \<times> StateManager option \<times> files) option" where
  "run_models L W r cases k [] st = Some ([], [], st)"
| "run_models L W r cases k (model # models) st =
     (case run_model L W r cases k model st of
        None \<Rightarrow> None
      | Some (results, streamed, st1) \<Rightarrow>
          (case run_models L W r cases (Suc k) models st1 of
             None \<Rightarrow> None
           | Some (results2, streamed2, st2) \<Rightarrow> Some (results @ results2, streamed @ streamed2, st2)))"

definition no_models :: "TestCase \<Rightarrow> TestResult" where
  "no_models tc = no_test_result\<lparr> tr_CaseID := tc_CaseID tc, tr_Title := tc_Title tc, tr_Status := ''skipped'',
     tr_Error := Some \<lparr> te_Type = ''config_error'', te_Message = ''No AI models configured in model_matrix'', te_Details = '''' \<rparr> \<rparr>"

definition executeAITests ::
  "suite_lib \<Rightarrow> ('ast, 'prg, 're) run_world \<Rightarrow> Runner \<Rightarrow> TestCase list \<Rightarrow> ModelConfig list \<Rightarrow> StateManager option \<times> files \<Rightarrow>
     (TestResult list \<times> TestResult list \<times> StateManager option \<times> files) option" where
  "executeAITests L W r cases models st =
     (if length models = 0 then Some (map no_models cases, map no_models cases, st)
      else case (if length models > 1 then interleaveByProvider models else Some models) of
        None \<Rightarrow> None
      | Some models' \<Rightarrow> run_models L W r cases 0 models' st)"

section \<open>The whole run\<close>

text \<open>Writing the report of a run; the report on standard output is not modelled.\<close>

definition outputResults ::
  "suite_lib \<Rightarrow> ('ast, 'prg, 're) run_world \<Rightarrow> Runner \<Rightarrow> TestResult list \<Rightarrow> RunResult \<Rightarrow> files \<Rightarrow>
     (suite_error option \<times> files) option" where
  "outputResults L W r results summary fs =
     (let coverage = (case generateCoverageReport L r of Inl _ \<Rightarrow> None | Inr c \<Rightarrow> Some c);
          comparison = buildModelComparison r results;
          file' = opt_OutputFile (rn_opts r);
          write = (\<lambda>out. case rw_writeFault W file' of
            Some err \<Rightarrow> Some (Some (OtherSuiteError (''failed to write output file: '' @ err)), fs)
          | None \<Rightarrow> Some (None, fs(file' \<mapsto> out)))
      in if file' = '''' then Some (None, fs)
         else if opt_OutputFormat (rn_opts r) = ''junit'' then
           (case formatJUnitOutput (rw_marshalJUnit W) (rw_xmlHeader W) (rw_fmt4 W) (rn_suite r) results summary of
              None \<Rightarrow> None
            | Some (Inl err) \<Rightarrow> Some (Some (OtherSuiteError (''failed to format JUnit output: '' @ err)), fs)
            | Some (Inr out) \<Rightarrow> write out)
         else case loadAllPoliciesWithStatus L r of
           Inl err \<Rightarrow> Some (Some (OtherSuiteError (''failed to load policies for JSON output: '' @
               suite_error_text (slb_Quote L) (\<lambda>_. '''') err)), fs)
         | Inr infos \<Rightarrow>
             (case formatJSONOutput (rw_marshalJSON W) (rw_timestamp W) (rn_suite r) results summary coverage comparison infos of
                Inl err \<Rightarrow> Some (Some (OtherSuiteError (''failed to format JSON output: '' @ err)), fs)
              | Inr out \<Rightarrow> write out))"

definition cel_results :: "suite_lib \<Rightarrow> ('ast, 'prg, 're) run_world \<Rightarrow> Runner \<Rightarrow> Executor \<Rightarrow> TestCase list \<Rightarrow> TestResult list" where
  "cel_results L W r e cases =
     (if shouldRunEngine r ''cel'' \<and> scel_Enabled (eng_CEL (su_Engines (rn_suite r)))
      then ExecuteCELTests (rw_celEnv W) (rw_regexp W) (slb_Quote L) (rw_celClock W) (rw_reqClock W) (rw_respClock W) e
             (filterCasesForEngine cases ''cel'')
      else [])"

definition ai_only :: "TestResult list \<Rightarrow> TestCase list \<Rightarrow> TestCase list" where
  "ai_only celResults cases =
     filter (\<lambda>tc. \<not> list_ex (\<lambda>tr. tr_CaseID tr = tc_CaseID tc) celResults) (filterCasesForEngine cases ''ai'')"

definition executeTests ::
  "suite_lib \<Rightarrow> ('ast, 'prg, 're) run_world \<Rightarrow> Runner \<Rightarrow> StateManager option \<times> files \<Rightarrow>
     ((suite_error + RunResult \<times> TestResult list) \<times> StateManager option \<times> files) option" where
  "executeTests L W r st =
     (case NewExecutor (rw_mkCelEnv W) (slb_fs L) (rn_suite r) (rn_suiteDir r) (opt_IncludeDisabled (rn_opts r)) of
        Inl err \<Rightarrow> Some (Inl (ExecutorError err), st)
      | Inr executor \<Rightarrow>
          let cases = fst (filterTestCases r);
              runAI = (shouldRunEngine r ''ai'' \<and> sai_Enabled (eng_AI (su_Engines (rn_suite r))))
          in case (if runAI then getModelsToTest (slb_Quote L) r else Inr []) of
               Inl err \<Rightarrow> Some (Inl (OtherSuiteError err), st)
             | Inr models \<Rightarrow>
                 if \<not> opt_Quiet (rn_opts r) \<and> length cases = 0
                 then Some (Inr (no_run_result\<lparr> run_ThresholdsMet := True, run_TotalCases := 0 \<rparr>, []), st)
                 else let celResults = cel_results L W r executor cases; aiCases = ai_only celResults cases
                 in case (if runAI \<and> length aiCases > 0 then executeAITests L W r aiCases models st else Some ([], [], st)) of
                      None \<Rightarrow> None
                    | Some (aiResults, _, sm, fs) \<Rightarrow>
                        let allResults = celResults @ aiResults; result = calculateResults r allResults
                        in case outputResults L W (r\<lparr> rn_stateManager := sm \<rparr>) allResults result fs of
                             None \<Rightarrow> None
                           | Some (Some err, fs') \<Rightarrow> Some (Inl err, sm, fs')
                           | Some (None, fs') \<Rightarrow> Some (Inr (result, allResults), sm, fs'))"

definition read_state :: "('ast, 'prg, 're) run_world \<Rightarrow> files \<Rightarrow> string \<Rightarrow> (go_error + string) option" where
  "read_state W fs path =
     (case rw_readFault W path of Some err \<Rightarrow> Some (Inl err) | None \<Rightarrow> map_option Inr (fs path))"

definition init_state :: "('ast, 'prg, 're) run_world \<Rightarrow> Runner \<Rightarrow> files \<Rightarrow> suite_error + StateManager option" where
  "init_state W r fs =
     (let o' = rn_opts r in
      if opt_StateFile o' = '''' then Inr None
      else let historyDepth = (if opt_HistoryDepth o' > 0 then opt_HistoryDepth o' else exe_HistoryDepth (su_Execution (rn_suite r)));
               productVersion = (if opt_ProductVersion o' = '''' then ''dev'' else opt_ProductVersion o')
           in case NewStateManager (read_state W fs) (rw_unmarshalState W) (rw_loadNow W) (opt_StateFile o')
                     (su_BundleID (rn_suite r)) productVersion historyDepth of
                Inl err \<Rightarrow> Inl (OtherSuiteError (''failed to initialize state manager: '' @ error_text err))
              | Inr sm \<Rightarrow> Inr (Some sm))"

text \<open>The deferred call that closes the state manager; its error is only printed.\<close>

definition close_state :: "('ast, 'prg, 're) run_world \<Rightarrow> StateManager option \<Rightarrow> files \<Rightarrow> files" where
  "close_state W sm fs =
     (case sm of
        None \<Rightarrow> fs
      | Some m \<Rightarrow> (case stm_Close (rw_closeFault W) (rw_marshalState W) (rw_closeNow W) m fs of (_, _, fs') \<Rightarrow> fs'))"

definition prune_state :: "Runner \<Rightarrow> StateManager option \<Rightarrow> StateManager option" where
  "prune_state r sm = map_option (\<lambda>m. PruneStaleHashes m (map snd (rn_testCaseHashes r))) sm"

text \<open>The phases before the first test: the runner is ready, or an error.\<close>

definition prepare_run :: "suite_lib \<Rightarrow> Runner \<Rightarrow> suite_error + Runner" where
  "prepare_run L r =
     (case loadSuite L r of
        Inl err \<Rightarrow> Inl err
      | Inr r1 \<Rightarrow> (case discoverTestCases L r1 of
          Inl err \<Rightarrow> Inl err
        | Inr r2 \<Rightarrow> (case validatePolicyIntegrity L r2 of
            Some err \<Rightarrow> Inl err
          | None \<Rightarrow> computePolicyHashes L r2)))"

definition Run ::
  "suite_lib \<Rightarrow> ('ast, 'prg, 're) run_world \<Rightarrow> Runner \<Rightarrow> files \<Rightarrow> ((suite_error + RunResult) \<times> files) option" where
  "Run L W r0 fs =
     (case prepare_run L r0 of
        Inl err \<Rightarrow> Some (Inl err, fs)
      | Inr r \<Rightarrow>
          if opt_ValidateOnly (rn_opts r)
          then Some (Inr (no_run_result\<lparr> run_ThresholdsMet := True, run_TotalCases := int (length (rn_testCases r)) \<rparr>), fs)
          else case init_state W r fs of
            Inl err \<Rightarrow> Some (Inl err, fs)
          | Inr sm \<Rightarrow>
              if opt_SummaryOnly (rn_opts r) then
                (case runSummaryOnly (r\<lparr> rn_stateManager := sm \<rparr>) of
                   None \<Rightarrow> None
                 | Some (result, _) \<Rightarrow> Some (Inr result, close_state W sm fs))
              else (case executeTests L W r (sm, fs) of
                None \<Rightarrow> None
              | Some (Inl err, sm', fs') \<Rightarrow> Some (Inl err, close_state W sm' fs')
              | Some (Inr (result, _), sm', fs') \<Rightarrow> Some (Inr result, close_state W (prune_state r sm') fs')))"


section \<open>What the cache holds after a run\<close>

text \<open>
  A store of results: putting a value under a key makes a result found there, whose view is that of the
  value, and leaves the other keys alone. So after a sequence of puts each key has its last value.
\<close>

fun puts :: "(nat \<Rightarrow> 's \<Rightarrow> 'k \<times> 'v \<Rightarrow> ('s \<times> 'r) option) \<Rightarrow> nat \<Rightarrow> 's \<Rightarrow> ('k \<times> 'v) list \<Rightarrow> ('r list \<times> 's) option" where
  "puts put i s [] = Some ([], s)"
| "puts put i s (e # es) =
     (case put i s e of
        None \<Rightarrow> None
      | Some (s1, r) \<Rightarrow> map_option (\<lambda>(rs, s2). (r # rs, s2)) (puts put (Suc i) s1 es))"

locale result_store =
  fixes put :: "nat \<Rightarrow> 's \<Rightarrow> 'k \<times> 'v \<Rightarrow> ('s \<times> 'r) option"
    and get :: "'s \<Rightarrow> 'k \<Rightarrow> 'r option"
    and view :: "'r \<Rightarrow> 'a"
    and shown :: "'v \<Rightarrow> 'a"
  assumes put_get: "put i s (k, v) = Some (s', r) \<Longrightarrow> get s' k' = (if k' = k then Some r else get s k')"
    and put_view: "put i s (k, v) = Some (s', r) \<Longrightarrow> view r = shown v"
begin

lemma last_put_found:
  assumes "puts put i s es = Some (rs, s')"
  shows "map_option view (get s' k) =
    (case map_of (rev es) k of Some v \<Rightarrow> Some (shown v) | None \<Rightarrow> map_option view (get s k))"
  using assms
proof (induction es arbitrary: i s rs)
  case (Cons e es)
  obtain k1 v where e: "e = (k1, v)" by (cases e)
  with Cons.prems obtain s1 r rs' where 1: "put i s (k1, v) = Some (s1, r)" and "puts put (Suc i) s1 es = Some (rs', s')"
    by (auto split: option.splits)
  from Cons.IH [OF this(2)] show ?case
    by (simp add: e put_get [OF 1] put_view [OF 1] map_add_def split: option.split)
qed simp

end

lemma Save_keeps_results: "sf_Results (stm_state (fst (snd (Save f m t sm fs)))) = sf_Results (stm_state sm)"
  by (simp add: Save_def Let_def split: option.split prod.split)

lemma cached_result_cong:
  "sf_Results (stm_state a) = sf_Results (stm_state b) \<Longrightarrow> cached_result a h ps mk = cached_result b h ps mk"
  by (simp add: cached_result_def)

lemma any_result_cached: "cached_result sm h ps mk \<noteq> None \<Longrightarrow> any_result sm h mk = cached_result sm h ps mk"
  by (auto simp: cached_result_def any_result_def split: option.splits if_splits)

lemma record_test_Some:
  assumes "record_test W k mk ps i (sm, fs) (h, tr) = Some (st', cr)"
  obtains sm1 where "RecordResult sm h (tr_CaseID tr) ps mk (to_cache (rw_now W k i) tr) = Some (sm1, cr)"
    "sf_Results (stm_state (fst st')) = sf_Results (stm_state sm1)"
proof -
  from assms obtain sm1 where 1: "RecordResult sm h (tr_CaseID tr) ps mk (to_cache (rw_now W k i) tr) = Some (sm1, cr)"
    by (auto simp: record_test_def split: option.splits prod.splits)
  with assms have "fst st' = fst (snd (Save (rw_saveFault W k i) (rw_marshalState W) (rw_saveNow W k i) sm1 fs))"
    by (auto simp: record_test_def split: prod.splits)
  with 1 show thesis by (intro that) (simp_all add: Save_keeps_results)
qed

text \<open>What a later run reads of a result.\<close>

definition outcome_of :: "CachedResult \<Rightarrow> string \<times> int \<times> bool" where
  "outcome_of cr = (cres_Status cr, cres_DurationMs cr, cres_ExtraPolicyOnly cr)"

definition test_outcome :: "TestResult \<Rightarrow> string \<times> int \<times> bool" where
  "test_outcome tr = (tr_Status tr, tr_ElapsedMs tr, tr_ExtraPolicyOnly tr)"

interpretation rs: result_store "record_test W k mk ps" "\<lambda>st h. cached_result (fst st) h (slice_of ps) mk"
  outcome_of test_outcome
proof
  fix i st h tr st' cr h'
  assume put: "record_test W k mk ps i st (h, tr) = Some (st', cr)"
  obtain sm fs where st: "st = (sm, fs)" by (cases st)
  obtain sm1 where 1: "RecordResult sm h (tr_CaseID tr) ps mk (to_cache (rw_now W k i) tr) = Some (sm1, cr)"
    and 2: "sf_Results (stm_state (fst st')) = sf_Results (stm_state sm1)"
    by (rule record_test_Some [OF put [unfolded st]])
  show "cached_result (fst st') h' (slice_of ps) mk =
      (if h' = h then Some cr else cached_result (fst st) h' (slice_of ps) mk)"
    unfolding cached_result_cong [OF 2] by (simp add: record_lookup [OF 1] st)
  show "outcome_of cr = test_outcome tr"
  proof -
    obtain hist where "cr = to_cache (rw_now W k i) tr\<lparr> cres_History := hist \<rparr>"
      using record_keeps_caller_fields [OF 1] by blast
    then show ?thesis by (simp add: outcome_of_def test_outcome_def to_cache_def)
  qed
qed

lemma record_tests_puts:
  "map_option snd (record_tests W k mk ps n total' i st es) = map_option snd (puts (record_test W k mk ps) i st es)"
proof (induction es arbitrary: n i st)
  case (Cons e es)
  obtain h tr where e: "e = (h, tr)" by (cases e)
  show ?case
  proof (cases "record_test W k mk ps i st (h, tr)")
    case (Some p)
    obtain st1 cr where p: "p = (st1, cr)" by (cases p)
    show ?thesis
      using Cons [of "n + 1" "Suc i" st1] Some
      by (cases "record_tests W k mk ps (n + 1) total' (Suc i) st1 es"; cases "puts (record_test W k mk ps) (Suc i) st1 es")
        (auto simp: e p)
  qed (simp add: e)
qed simp

section \<open>The results of a model\<close>

lemma executeTest_result:
  assumes "executeTest q envs elapsed expired runner tc = Some res"
  shows "tr_CaseID res = tc_CaseID tc \<and> tr_Status res \<in> {''passed'', ''failed'', ''errored''} \<and> tr_PassRateRuns res = 0"
  using assms
  by (auto simp: executeTest_def judge_def no_test_result_def Let_def split: option.splits sum.splits)

definition of_tests :: "TestCase list \<Rightarrow> TestResult list \<Rightarrow> TestResult list \<Rightarrow> bool" where
  "of_tests ts executed limited \<longleftrightarrow>
     map tr_CaseID (executed @ limited) = map tc_CaseID ts \<and>
     (\<forall>res \<in> set executed. tr_Status res \<noteq> ''skipped'' \<and> tr_PassRateRuns res = 0) \<and>
     (\<forall>res \<in> set limited. tr_Status res = ''skipped'' \<and> tr_PassRateRuns res = 0)"

lemma ExecuteTests_of_tests:
  assumes "\<And>i tc res. exec i tc = Some res \<Longrightarrow>
      tr_CaseID res = tc_CaseID tc \<and> tr_Status res \<in> {''passed'', ''failed'', ''errored''} \<and> tr_PassRateRuns res = 0"
    and "ExecuteTests exec n cases = Some (executed, limited)"
  shows "of_tests (filter (targets ''ai'') cases) executed limited"
  using assms(2)
proof (induction cases arbitrary: n executed)
  case (Cons tc cases)
  show ?case
  proof (cases "targets ''ai'' tc")
    case True
    with Cons.prems obtain res where res: "exec n tc = Some res" by (auto split: option.splits)
    note 1 = assms(1) [OF res]
    show ?thesis
    proof (cases "rate_limited res")
      case True
      with \<open>targets ''ai'' tc\<close> res 1 Cons.prems show ?thesis
        by (auto simp: of_tests_def skipped_by_limit_def no_test_result_def)
    next
      case False
      with \<open>targets ''ai'' tc\<close> res Cons.prems obtain executed' where
        "ExecuteTests exec (Suc n) cases = Some (executed', limited)" "executed = res # executed'"
        by (auto split: option.splits)
      with Cons.IH 1 \<open>targets ''ai'' tc\<close> show ?thesis by (auto simp: of_tests_def)
    qed
  next
    case False
    with Cons show ?thesis by simp
  qed
qed (simp add: of_tests_def)

lemma number_results_fields [simp]:
  "map tr_CaseID (number_results n total' rs) = map tr_CaseID rs"
  "map tr_Status (number_results n total' rs) = map tr_Status rs"
  "map tr_PassRateRuns (number_results n total' rs) = map tr_PassRateRuns rs"
  by (induction n total' rs rule: number_results.induct) simp_all

lemma all_mapped: "map f xs = map (\<lambda>_. c) ys \<Longrightarrow> x \<in> set xs \<Longrightarrow> f x = c"
  by (induction xs arbitrary: ys) (auto simp: Cons_eq_map_conv)

definition model_key :: "ModelConfig \<Rightarrow> string" where
  "model_key model = ModelKey (mo_Provider model) (mo_Model model)"

definition cached_cases :: "Runner \<Rightarrow> StateManager option \<Rightarrow> ModelConfig \<Rightarrow> TestCase list \<Rightarrow> TestCase list" where
  "cached_cases r sm model cases = filter (is_skipped r sm (model_key model)) (filter (targets ''ai'') cases)"

definition other_cases :: "Runner \<Rightarrow> StateManager option \<Rightarrow> ModelConfig \<Rightarrow> TestCase list \<Rightarrow> TestCase list" where
  "other_cases r sm model cases = filter (\<lambda>tc. \<not> is_skipped r sm (model_key model) tc) (filter (targets ''ai'') cases)"

lemma limit_tests_ai: "filter (targets e) (limit_tests r (filter P (filter (targets e) cases))) =
  limit_tests r (filter P (filter (targets e) cases))"
  by (auto simp: limit_tests_def filter_id_conv dest: in_set_takeD)

lemma run_model_ran:
  assumes "run_model L W r cases k model st = Some (results, streamed, st')"
    and "NewAITestRunner (rw_client W) (slb_fs L) model (rn_suite r) (rn_suiteDir r) (opt_IncludeDisabled (rn_opts r)) = Inr runner"
  obtains n total' executed limited cached streamed' where
    "run_callbacks W k r (model_key model) n total' executed st = Some (streamed', st')"
    "results = cached @ executed @ limited"
    "map tr_CaseID cached = map tc_CaseID (cached_cases r (fst st) model cases)"
    "\<forall>res \<in> set cached. tr_Status res = ''skipped'' \<and> tr_PassRateRuns res = 0"
    "of_tests (limit_tests r (other_cases r (fst st) model cases)) executed limited"
proof -
  let ?exec = "\<lambda>i. executeTest (slb_Quote L) (rw_env W k i) (rw_elapsed W k i) (rw_expired W k i) runner"
  let ?c = "cached_cases r (fst st) model cases" and ?o = "other_cases r (fst st) model cases"
  define n where "n = int (length ?c)"
  define total' where "total' = n + int (length ?o)"
  define cached where "cached = number_results 0 total' (map (cached_skip r (fst st) (model_key model)) ?c)"
  from assms obtain executed limited streamed' where
    ex: "ExecuteTests ?exec 0 (limit_tests r ?o) = Some (executed, limited)" and
    1: "run_callbacks W k r (model_key model) n total' executed st = Some (streamed', st')"
      "results = cached @ executed @ limited"
    unfolding run_model_def cached_cases_def other_cases_def n_def total'_def cached_def model_key_def Let_def
    by (auto split: option.splits)
  have "of_tests (filter (targets ''ai'') (limit_tests r ?o)) executed limited"
    using ex by (rule ExecuteTests_of_tests [rotated]) (rule executeTest_result)
  then have 2: "of_tests (limit_tests r ?o) executed limited"
    unfolding other_cases_def limit_tests_ai .
  have 3: "map tr_CaseID cached = map tc_CaseID ?c" "map tr_Status cached = map (\<lambda>_. ''skipped'') ?c"
    "map tr_PassRateRuns cached = map (\<lambda>_. 0) ?c"
    by (simp_all add: cached_def cached_skip_def no_test_result_def Let_def)
  then have "tr_Status res = ''skipped'' \<and> tr_PassRateRuns res = 0" if "res \<in> set cached" for res
    using that by (blast intro: all_mapped)
  then show thesis using 1 2 3(1) by (intro that) auto
qed

lemma find_map_of: "find (\<lambda>v. f v = k) vs = map_of (map (\<lambda>v. (f v, v)) vs) k"
  by (induction vs) auto

text \<open>
  C39. What a run of a model leaves in the cache. Under the content hash of a test case the cache has,
  for the model and the policies of the run, the outcome of the last executed test with that hash: its
  status, whether passed, failed or errored, its duration and its extra policy flag. Under a hash of which
  no test was executed, the cache has for this model and these policies what it had before, and when no
  runner can be created nothing changes. Nothing is said of other models or other policies.
\<close>

theorem model_results_cached:
  "case run_model L W r cases k model (Some sm, fs) of
     None \<Rightarrow> True
   | Some (results, streamed, cache', fs') \<Rightarrow>
       (let ps = slice_of (rn_policyHashes r); mk = ModelKey (mo_Provider model) (mo_Model model);
            ran = filter (\<lambda>tr. tr_Status tr \<noteq> ''skipped'') results
        in case NewAITestRunner (rw_client W) (slb_fs L) model (rn_suite r) (rn_suiteDir r) (opt_IncludeDisabled (rn_opts r)) of
          Inl err \<Rightarrow> cache' = Some sm \<and> fs' = fs
        | Inr runner \<Rightarrow> (case cache' of
            None \<Rightarrow> False
          | Some sm' \<Rightarrow>
              map_option outcome_of (cached_result sm' h ps mk) =
              (case find (\<lambda>tr. content_hash_of r (tr_CaseID tr) = h) (rev ran) of
                 Some tr \<Rightarrow> Some (test_outcome tr)
               | None \<Rightarrow> map_option outcome_of (cached_result sm h ps mk))))"
proof (cases "run_model L W r cases k model (Some sm, fs)")
  case (Some p)
  obtain results streamed cache' fs' where p: "p = (results, streamed, cache', fs')" by (cases p)
  show ?thesis
  proof (cases "NewAITestRunner (rw_client W) (slb_fs L) model (rn_suite r) (rn_suiteDir r) (opt_IncludeDisabled (rn_opts r))")
    case (Inl err)
    with Some p show ?thesis by (simp add: run_model_def Let_def)
  next
    case (Inr runner)
    let ?hash = "\<lambda>tr. content_hash_of r (tr_CaseID tr)"
    obtain n total' executed limited cached streamed' where
      cb: "run_callbacks W k r (model_key model) n total' executed (Some sm, fs) = Some (streamed', cache', fs')"
      and results: "results = cached @ executed @ limited"
      and cached: "\<forall>res \<in> set cached. tr_Status res = ''skipped'' \<and> tr_PassRateRuns res = 0"
      and tests: "of_tests (limit_tests r (other_cases r (fst (Some sm, fs)) model cases)) executed limited"
      by (rule run_model_ran [OF Some [unfolded p] Inr])
    have ran: "filter (\<lambda>tr. tr_Status tr \<noteq> ''skipped'') results = executed"
      using cached tests by (simp add: results of_tests_def filter_id_conv filter_empty_conv)
    let ?es = "map (\<lambda>tr. (?hash tr, tr)) executed"
    from cb obtain sm' where
      1: "map_option snd (record_tests W k (model_key model) (rn_policyHashes r) n total' 0 (sm, fs) ?es) = Some (sm', fs')"
      and cache': "cache' = Some sm'"
      by (auto simp: run_callbacks_def split: option.splits)
    then obtain rs where 2: "puts (record_test W k (model_key model) (rn_policyHashes r)) 0 (sm, fs) ?es = Some (rs, sm', fs')"
      unfolding record_tests_puts by auto
    show ?thesis
      using rs.last_put_found [OF 2, of h]
      unfolding Some p Inr ran cache' find_map_of model_key_def rev_map Let_def option.case prod.case sum.case fst_conv
      by simp
  qed
qed simp


lemma run_model_results:
  assumes "run_model L W r cases k model st = Some (results, streamed, st')"
  shows "map tr_CaseID results =
      (case NewAITestRunner (rw_client W) (slb_fs L) model (rn_suite r) (rn_suiteDir r) (opt_IncludeDisabled (rn_opts r)) of
         Inl err \<Rightarrow> map tc_CaseID cases
       | Inr runner \<Rightarrow> map tc_CaseID
           (cached_cases r (fst st) model cases @ limit_tests r (other_cases r (fst st) model cases))) \<and>
    list_all (\<lambda>tr. tr_PassRateRuns tr = 0) results"
proof (cases "NewAITestRunner (rw_client W) (slb_fs L) model (rn_suite r) (rn_suiteDir r) (opt_IncludeDisabled (rn_opts r))")
  case (Inl err)
  with assms have "results = map (runner_failed model err) cases" by (simp add: run_model_def Let_def)
  then show ?thesis
    unfolding Inl by (simp add: runner_failed_def no_test_result_def list_all_iff)
next
  case (Inr runner)
  obtain n total' executed limited cached streamed' where
    "results = cached @ executed @ limited"
    "map tr_CaseID cached = map tc_CaseID (cached_cases r (fst st) model cases)"
    "\<forall>res \<in> set cached. tr_Status res = ''skipped'' \<and> tr_PassRateRuns res = 0"
    "of_tests (limit_tests r (other_cases r (fst st) model cases)) executed limited"
    by (rule run_model_ran [OF assms Inr])
  then show ?thesis
    unfolding Inr by (auto simp: of_tests_def list_all_iff)
qed

text \<open>
  A run of a model has one result for each test case: first those with a cached result, then the
  others in order, as many as the limit allows; with no runner one for each test case.
\<close>

lemma model_run_accounts:
  "case run_model L W r cases k model st of
     None \<Rightarrow> True
   | Some (results, streamed, st') \<Rightarrow>
       map tr_CaseID results =
         (case NewAITestRunner (rw_client W) (slb_fs L) model (rn_suite r) (rn_suiteDir r) (opt_IncludeDisabled (rn_opts r)) of
            Inl err \<Rightarrow> map tc_CaseID cases
          | Inr runner \<Rightarrow> map tc_CaseID
              (cached_cases r (fst st) model cases @ limit_tests r (other_cases r (fst st) model cases)))"
proof (cases "run_model L W r cases k model st")
  case (Some p)
  obtain results streamed st' where p: "p = (results, streamed, st')" by (cases p)
  show ?thesis
    using run_model_results [OF Some [unfolded p]] unfolding Some p by simp
qed simp

lemma run_models_rates:
  "run_models L W r cases k models st = Some (results, streamed, st') \<Longrightarrow> list_all (\<lambda>tr. tr_PassRateRuns tr = 0) results"
proof (induction models arbitrary: k st results streamed)
  case (Cons model models)
  from Cons.prems obtain res1 str1 st1 res2 str2 where "run_model L W r cases k model st = Some (res1, str1, st1)"
    "run_models L W r cases (Suc k) models st1 = Some (res2, str2, st')" and results: "results = res1 @ res2"
    by (auto split: option.splits)
  then have "list_all (\<lambda>tr. tr_PassRateRuns tr = 0) res1" "list_all (\<lambda>tr. tr_PassRateRuns tr = 0) res2"
    by (blast dest: run_model_results Cons.IH)+
  then show ?case by (simp add: results)
qed simp

text \<open>
  The reports never show a pass rate: no result of the AI tests has one, whatever the history of
  the cache, so the JSON report leaves out both its pass rate fields for every test.
\<close>

lemma pass_rates_not_reported:
  "case executeAITests L W r cases models st of
     None \<Rightarrow> True
   | Some (results, streamed, st') \<Rightarrow>
       list_all (\<lambda>tr. jtr_PassRate (json_result tr) = None \<and> jtr_PassRateSinceChange (json_result tr) = None) results"
proof -
  have "list_all (\<lambda>tr. tr_PassRateRuns tr = 0) results"
    if "executeAITests L W r cases models st = Some (results, streamed, st')" for results streamed st'
    using that
    by (auto simp: executeAITests_def no_models_def no_test_result_def list_all_iff
        split: if_splits option.splits dest!: run_models_rates)
  then show ?thesis
    by (fastforce simp: json_result_def list_all_iff split: option.split prod.split)
qed

text \<open>
  A run whose results all come from the cache counts the recorded statuses, but the cached results
  have lost the flag of a failure that only extra rules cause: none is counted as such, all count as
  failed, and the match rate is the share of the passed ones alone.
\<close>

lemma cached_run_counts_extra_as_failed:
  "let res = calculateResults r (map (cached_skip r (Some m) mk) cases);
       status = (\<lambda>tc. map_option cres_Status
         (cached_result m (content_hash_of r (tc_CaseID tc)) (slice_of (rn_policyHashes r)) mk));
       passed = number_of (\<lambda>tc. status tc = Some ''passed'') cases;
       failed = number_of (\<lambda>tc. status tc = Some ''failed'') cases
   in run_CachedCount res = int (length cases) \<and> run_ExtraPolicyOnly res = 0 \<and>
      run_Passed res = passed \<and> run_Failed res = failed \<and>
      run_Errored res = number_of (\<lambda>tc. status tc = Some ''errored'') cases \<and>
      run_MatchRate res = (if passed + failed = 0 then 0 else of_int passed / of_int (passed + failed))"
proof -
  let ?skip = "cached_skip r (Some m) mk"
  let ?status = "\<lambda>tc. map_option cres_Status
    (cached_result m (content_hash_of r (tc_CaseID tc)) (slice_of (rn_policyHashes r)) mk)"
  have eff: "effectiveStatus (?skip tc) = (case ?status tc of None \<Rightarrow> '''' | Some s \<Rightarrow> s)" for tc
    using TrimPrefix_append [of "''cached ''"]
    by (simp add: effectiveStatus_def cached_skip_def GetCachedStatus_def Let_def split: option.split)
  have extra: "\<not> tr_ExtraPolicyOnly (?skip tc)" for tc
    by (simp add: cached_skip_def no_test_result_def Let_def)
  have kind: "not_run ''cached'' (?skip tc)" for tc
    by (simp add: cached_skip_def not_run_def Let_def)
  have n: "number_of P (map ?skip cases) = number_of (\<lambda>tc. P (?skip tc)) cases" for P
    by (simp add: number_of_def filter_map comp_def)
  have counts: "passes (?skip tc) = (?status tc = Some ''passed'')" "fails (?skip tc) = (?status tc = Some ''failed'')"
    "fails_extra (?skip tc) = False" "errs (?skip tc) = (?status tc = Some ''errored'')" for tc
    unfolding outcome_defs eff by (auto simp: extra split: option.split)
  have 0: "number_of (\<lambda>tc. False) cases = 0" "number_of (\<lambda>tc. True) cases = int (length cases)"
    by (simp_all add: number_of_def)
  show ?thesis
    using calculateResults_rate(1) [OF refl, of r "map ?skip cases"]
    unfolding Let_def calculateResults_sel n counts kind [THEN eqTrueI] 0 by simp
qed

text \<open>
  A suite with CEL rules never gets past its first phases: whatever the options, unless the run only
  validates or summarises, it ends in an error, even when no CEL test would be run. Without such rules
  loading the executor never fails.
\<close>

lemma suite_with_cel_rules_fails:
  "case prepare_run L r0 of
     Inl err \<Rightarrow> Run L W r0 fs = Some (Inl err, fs)
   | Inr r \<Rightarrow>
       (let p = su_Policies (rn_suite r) in
        if spc_CELRequestRules p = '''' \<and> spc_CELResponseRules p = '''' then
          \<not> isl (NewExecutor (rw_mkCelEnv W) (slb_fs L) (rn_suite r) (rn_suiteDir r) (opt_IncludeDisabled (rn_opts r)))
        else if opt_ValidateOnly (rn_opts r) \<or> opt_SummaryOnly (rn_opts r) then True
        else case Run L W r0 fs of Some (Inl err, fs') \<Rightarrow> True | _ \<Rightarrow> False)"
proof (cases "prepare_run L r0")
  case (Inr r)
  let ?e = "NewExecutor (rw_mkCelEnv W) (slb_fs L) (rn_suite r) (rn_suiteDir r) (opt_IncludeDisabled (rn_opts r))"
  let ?p = "su_Policies (rn_suite r)"
  have no: "isl ?e" if "\<not> (spc_CELRequestRules ?p = '''' \<and> spc_CELResponseRules ?p = '''')"
    using that executor_without_cel [where mk_env = "rw_mkCelEnv W" and F = "slb_fs L" and suite = "rn_suite r" and
        suiteDir = "rn_suiteDir r" and includeDisabled = "opt_IncludeDisabled (rn_opts r)"]
    by (cases ?e) auto
  have yes: "\<not> isl ?e" if "spc_CELRequestRules ?p = ''''" "spc_CELResponseRules ?p = ''''"
    using that by (simp add: NewExecutor_def load_engine_def Let_def)
  have "case Run L W r0 fs of Some (Inl err, fs') \<Rightarrow> True | _ \<Rightarrow> False"
    if "isl ?e" "\<not> (opt_ValidateOnly (rn_opts r) \<or> opt_SummaryOnly (rn_opts r))"
  proof -
    from that(1) obtain err where "?e = Inl err" by (cases ?e) auto
    with that(2) Inr show ?thesis
      by (simp add: Run_def executeTests_def split: sum.split)
  qed
  with no yes Inr show ?thesis by (simp add: Let_def)
qed (simp add: Run_def)

end
