(* ===== verification/CLIProxy.thy ===== *)
theory CLIProxy
  imports CLIValidation CallerAuth
begin

text \<open>
  The wrapper \<^verbatim>\<open>maybe-dont cli\<close> that validates a command at the gateway before it runs it
  (\<^verbatim>\<open>internal/cliproxy\<close>, \<^verbatim>\<open>cmd/cli.go\<close>), and the gateway's routes as it sees them
  (\<^verbatim>\<open>internal/gateway/server.go\<close>). The operating system, the HTTP library and the JSON codec are fields
  of \<open>proxy_world\<close>; what an encoded body is, is a parameter. On Unix a command that starts replaces the wrapper.
\<close>

section \<open>The client of the gateway\<close>

record ValidationRequest =
  vq_Command :: string
  vq_Arguments :: "string list option"
  vq_WorkingDirectory :: string
  vq_ClientInfo :: "CLIClientInfo option"

record ValidationResponse =
  vp_RequestID :: string
  vp_Allowed :: bool
  vp_ValidationRequired :: bool
  vp_Message :: string
  vp_ActionReason :: string
  vp_ServerVersion :: string
  vp_ClientVersion :: string
  vp_Results :: "CLIPolicyResult list"

record ProxyClientConfig =
  pcc_ServerURL :: string
  pcc_Timeout :: int
  pcc_ClientID :: string

record ProxyClient =
  pcl_serverURL :: string
  pcl_clientID :: string
  pcl_timeout :: int

text \<open>
  \<open>pw_Do\<close> sends a request: the URL, the headers and the body, and answers a status and a body.
  \<open>pw_ctxErr\<close> is the error of the request's context when sending failed.
\<close>

record 'b proxy_world =
  pw_Args :: "string list"
  pw_Getwd :: "go_error + string"
  pw_GOOS :: string
  pw_GOARCH :: string
  pw_Hostname :: "go_error + string"
  pw_Username :: "go_error + string"
  pw_Getenv :: "string \<Rightarrow> string"
  pw_Environ :: "string list"
  pw_LookPath :: "string \<Rightarrow> go_error + string"
  pw_Exec :: "string \<Rightarrow> string list \<Rightarrow> string list \<Rightarrow> go_error option"
  pw_Marshal :: "ValidationRequest \<Rightarrow> go_error + 'b"
  pw_NewRequest :: "string \<Rightarrow> go_error option"
  pw_Do :: "string \<Rightarrow> (string \<times> string) list \<Rightarrow> 'b \<Rightarrow> go_error + nat \<times> 'b"
  pw_ctxErr :: "go_error option"
  pw_Decode :: "'b \<Rightarrow> go_error + ValidationResponse"
  pw_DecodeError :: "'b \<Rightarrow> go_error + CLIValidationError"

definition DefaultTimeout :: int where
  "DefaultTimeout = 30 * 1000000000"

definition validateEndpoint :: string where
  "validateEndpoint = ''/api/v1/cli/validate''"

definition NewClient :: "ProxyClientConfig \<Rightarrow> ProxyClient" where
  "NewClient cfg =
     (let timeout = (if pcc_Timeout cfg = 0 then DefaultTimeout else pcc_Timeout cfg)
      in \<lparr> pcl_serverURL = pcc_ServerURL cfg, pcl_clientID = pcc_ClientID cfg, pcl_timeout = timeout \<rparr>)"

definition proxy_headers :: "ProxyClient \<Rightarrow> (string \<times> string) list" where
  "proxy_headers c =
     (''Content-Type'', ''application/json'') #
     (if pcl_clientID c \<noteq> '''' then [(''X-Maybe-Dont-Client-ID'', pcl_clientID c)] else [])"

definition proxy_Validate :: "'b proxy_world \<Rightarrow> ProxyClient \<Rightarrow> ValidationRequest \<Rightarrow> go_error + ValidationResponse" where
  "proxy_Validate W c req =
     (case pw_Marshal W req of
        Inl err \<Rightarrow> Inl (PlainError (''failed to marshal request: '' @ error_text err))
      | Inr body \<Rightarrow>
          let url = pcl_serverURL c @ validateEndpoint
          in case pw_NewRequest W url of
               Some err \<Rightarrow> Inl (PlainError (''failed to create request: '' @ error_text err))
             | None \<Rightarrow> (case pw_Do W url (proxy_headers c) body of
                 Inl err \<Rightarrow> (case pw_ctxErr W of
                     Some cerr \<Rightarrow> Inl cerr
                   | None \<Rightarrow> Inl (PlainError (''request failed: '' @ error_text err)))
               | Inr (status, answer) \<Rightarrow>
                   if status \<ge> 400 then
                     (case pw_DecodeError W answer of
                        Inl err \<Rightarrow> Inl (PlainError (''server returned status '' @ Itoa (int status)))
                      | Inr e \<Rightarrow> Inl (PlainError (ve_Error e @ '': '' @ ve_Message e)))
                   else (case pw_Decode W answer of
                       Inl err \<Rightarrow> Inl (PlainError (''failed to decode response: '' @ error_text err))
                     | Inr resp \<Rightarrow> Inr resp)))"

section \<open>What the wrapper knows of its caller\<close>

definition getShellFromEnv :: "'b proxy_world \<Rightarrow> string" where
  "getShellFromEnv W = (if pw_GOOS W = ''windows'' then pw_Getenv W ''COMSPEC'' else pw_Getenv W ''SHELL'')"

definition getOSVersion :: string where
  "getOSVersion = ''''"

definition CollectClientInfo :: "'b proxy_world \<Rightarrow> string \<Rightarrow> CLIClientInfo" where
  "CollectClientInfo W cliVersion =
     \<lparr> Hostname = (case pw_Hostname W of Inr h \<Rightarrow> h | Inl _ \<Rightarrow> ''''),
       Username = (case pw_Username W of Inr u \<Rightarrow> u | Inl _ \<Rightarrow> ''''),
       OS = pw_GOOS W, OSVersion = getOSVersion, Arch = pw_GOARCH W, Shell = getShellFromEnv W,
       CLIVersion = cliVersion \<rparr>"

section \<open>Running the command\<close>

text \<open>How the wrapper ends: the process is replaced, or it returns, or it exits with a code.\<close>

datatype proxy_end = Replaced string "string list" "string list" | Returned "go_error option" | Exited int

definition ExecuteCommand :: "'b proxy_world \<Rightarrow> string \<Rightarrow> string list option \<Rightarrow> string list option \<Rightarrow> proxy_end" where
  "ExecuteCommand W command args env =
     (case pw_LookPath W command of
        Inl err \<Rightarrow> Returned (Some err)
      | Inr path \<Rightarrow>
          let argv = command # (case args of Some as \<Rightarrow> as | None \<Rightarrow> []);
              environment = (case env of None \<Rightarrow> pw_Environ W | Some e \<Rightarrow> e)
          in case pw_Exec W path argv environment of
               Some err \<Rightarrow> Returned (Some err)
             | None \<Rightarrow> Replaced path argv environment)"

definition usage :: string where
  "usage = ''usage: maybe-dont cli [flags] -- <command> [args...]''"

definition parseCommandFromArgs :: "string list \<Rightarrow> go_error + string \<times> string list option" where
  "parseCommandFromArgs args =
     (case dropWhile (\<lambda>arg. arg \<noteq> ''--'') args of
        [] \<Rightarrow> Inl (PlainError (''missing -- separator: '' @ usage))
      | _ # afterSeparator \<Rightarrow>
          (case afterSeparator of
             [] \<Rightarrow> Inl (PlainError (''no command specified after --: '' @ usage))
           | command # rest \<Rightarrow> Inr (command, if length rest > 0 then Some rest else None)))"

record cli_flags =
  clf_server :: string
  clf_timeout :: int
  clf_dryRun :: bool

record proxy_run =
  pr_stdout :: "string list"
  pr_stderr :: "string list"
  pr_end :: proxy_end

definition denied_lines :: "ValidationResponse \<Rightarrow> string list" where
  "denied_lines resp =
     [''Error: Command denied by policy'', ''  Request ID: '' @ vp_RequestID resp, ''  Reason: '' @ vp_Message resp] @
     map (\<lambda>result. ''  Policy: '' @ cpr_PolicyName result @ '' ('' @ cpr_PolicyType result @ '') - '' @ cpr_Message result)
       (filter (\<lambda>result. cpr_Action result = ''deny'') (vp_Results resp))"

definition dry_run_lines :: "ValidationResponse \<Rightarrow> string list" where
  "dry_run_lines resp =
     [''Dry-run: validation passed'', ''  Request ID: '' @ vp_RequestID resp, ''  Message: '' @ vp_Message resp,
      if vp_ValidationRequired resp then ''  Policies evaluated: '' @ Itoa (int (length (vp_Results resp)))
      else ''  Validation: not required (command not in validate_commands list)'']"

text \<open>The request the wrapper makes for a command.\<close>

definition proxy_request :: "'b proxy_world \<Rightarrow> string \<Rightarrow> string \<Rightarrow> string list option \<Rightarrow> ValidationRequest" where
  "proxy_request W version command cmdArgs =
     \<lparr> vq_Command = command, vq_Arguments = cmdArgs,
       vq_WorkingDirectory = (case pw_Getwd W of Inr d \<Rightarrow> d | Inl _ \<Rightarrow> ''''),
       vq_ClientInfo = Some (CollectClientInfo W version) \<rparr>"

definition proxy_client :: "'b proxy_world \<Rightarrow> cli_flags \<Rightarrow> ProxyClient" where
  "proxy_client W flags =
     NewClient \<lparr> pcc_ServerURL = clf_server flags, pcc_Timeout = clf_timeout flags,
       pcc_ClientID = pw_Getenv W ''MAYBE_DONT_CLIENT_ID'' \<rparr>"

definition runCLI :: "'b proxy_world \<Rightarrow> string \<Rightarrow> cli_flags \<Rightarrow> proxy_run" where
  "runCLI W version flags =
     (case parseCommandFromArgs (pw_Args W) of
        Inl err \<Rightarrow> \<lparr> pr_stdout = [], pr_stderr = [], pr_end = Returned (Some err) \<rparr>
      | Inr (command, cmdArgs) \<Rightarrow>
          (case proxy_Validate W (proxy_client W flags) (proxy_request W version command cmdArgs) of
             Inl err \<Rightarrow>
               let warning = [''Warning: Gateway validation failed ('' @ error_text err @ ''), proceeding with command'']
               in if clf_dryRun flags
                  then \<lparr> pr_stdout = [''Dry-run: command would execute (gateway unreachable)''], pr_stderr = warning,
                         pr_end = Returned None \<rparr>
                  else \<lparr> pr_stdout = [], pr_stderr = warning, pr_end = ExecuteCommand W command cmdArgs None \<rparr>
           | Inr resp \<Rightarrow>
               if \<not> vp_Allowed resp
               then \<lparr> pr_stdout = [], pr_stderr = denied_lines resp, pr_end = Exited 1 \<rparr>
               else if clf_dryRun flags
               then \<lparr> pr_stdout = dry_run_lines resp, pr_stderr = [], pr_end = Returned None \<rparr>
               else \<lparr> pr_stdout = [], pr_stderr = [], pr_end = ExecuteCommand W command cmdArgs None \<rparr>))"

section \<open>The gateway's routes\<close>

datatype transport = HTTPTransport | SSETransport

datatype route = MCPRoute | SSERoute | MessageRoute | TransportOff string | CLIRoute | ActionRoute | InterceptRoute

definition mux :: "transport \<Rightarrow> (string \<times> route) list" where
  "mux t =
     (case t of
        SSETransport \<Rightarrow>
          [(''/sse'', SSERoute), (''/message'', MessageRoute),
           (''/mcp'', TransportOff ''Not Found: HTTP transport not enabled. Server configured for SSE transport.'')]
      | HTTPTransport \<Rightarrow>
          [(''/mcp'', MCPRoute),
           (''/sse'', TransportOff ''Not Found: SSE transport not enabled. Server configured for HTTP transport.'')]) @
     [(validateEndpoint, CLIRoute), (''/api/v1/action/validate'', ActionRoute), (''/api/v1/intercept'', InterceptRoute)]"

text \<open>The settings of the gateway that the command endpoint gets.\<close>

record gateway_settings =
  gs_auth :: "CallerAuthConfig option"
  gs_Enabled :: bool
  gs_ValidateCommands :: "string list"
  gs_version :: string
  gs_auditWriter :: bool
  gs_evaluator :: PolicyEvaluator
  gs_IncludeArgumentValues :: bool

definition cli_handler_config :: "gateway_settings \<Rightarrow> CLIValidationHandlerConfig" where
  "cli_handler_config S =
     \<lparr> vh_Enabled = gs_Enabled S, vh_ValidateCommands = gs_ValidateCommands S, vh_Version = gs_version S,
       vh_AuditWriter = gs_auditWriter S, vh_Evaluator = Some (gs_evaluator S),
       vh_IncludeArgumentValues = gs_IncludeArgumentValues S \<rparr>"

text \<open>The codec of the gateway, its clock, and the routes that are not modelled here.\<close>

record 'b gateway_lib =
  gl_Unmarshal :: "'b \<Rightarrow> go_error + CLIValidationRequest"
  gl_Marshal :: "CLIValidationResponse \<Rightarrow> 'b"
  gl_MarshalError :: "CLIValidationError \<Rightarrow> 'b"
  gl_Text :: "string \<Rightarrow> 'b"
  gl_newID :: "go_error + string"
  gl_T :: clock
  gl_inTime :: bool
  gl_other :: "route \<Rightarrow> (string \<Rightarrow> string) \<Rightarrow> 'b \<Rightarrow> nat \<times> 'b"

definition serve_route ::
  "'b gateway_lib \<Rightarrow> gateway_settings \<Rightarrow> transport \<Rightarrow> string \<Rightarrow> string \<Rightarrow> 'b \<Rightarrow> (string \<Rightarrow> string) \<Rightarrow> nat \<times> 'b" where
  "serve_route L S t path remote body header =
     (case map_of (mux t) path of
        None \<Rightarrow> (404, gl_Text L ''404 page not found'')
      | Some (TransportOff message) \<Rightarrow> (404, gl_Text L message)
      | Some CLIRoute \<Rightarrow>
          (case ho_reply (cli_ServeHTTP (cli_handler_config S) (gl_T L) (gl_inTime L)
                  \<lparr> hr_Header = header, hr_RemoteAddr = remote, hr_Body = gl_Unmarshal L body, hr_newID = gl_newID L \<rparr>) of
             Reply resp \<Rightarrow> (200, gl_Marshal L resp)
           | ErrorReply status err \<Rightarrow> (status, gl_MarshalError L err))
      | Some r \<Rightarrow> gl_other L r header body)"

definition gateway_serve ::
  "'b gateway_lib \<Rightarrow> gateway_settings \<Rightarrow> transport \<Rightarrow> string \<Rightarrow> string \<Rightarrow> (string \<Rightarrow> string) \<Rightarrow> 'b \<Rightarrow> nat \<times> 'b" where
  "gateway_serve L S t path remote header body =
     (case AuthMiddleware (gs_auth S) (serve_route L S t path remote body) header of
        Unauthorized message \<Rightarrow> (401, gl_Text L message)
      | Served answer \<Rightarrow> answer)"


section \<open>The wrapper and the gateway\<close>

definition as_request :: "ValidationRequest \<Rightarrow> CLIValidationRequest" where
  "as_request q = \<lparr> Command = vq_Command q, CArguments = (case vq_Arguments q of Some as \<Rightarrow> as | None \<Rightarrow> []),
     WorkingDirectory = vq_WorkingDirectory q, ClientInfo = vq_ClientInfo q \<rparr>"

text \<open>The headers the gateway receives: those that were set, and what the HTTP library adds.\<close>

definition headers_received :: "(string \<Rightarrow> string) \<Rightarrow> (string \<times> string) list \<Rightarrow> string \<Rightarrow> string" where
  "headers_received lib headers k = (case map_of headers k of Some v \<Rightarrow> v | None \<Rightarrow> lib k)"

text \<open>
  JSON carries texts of valid UTF-8 unchanged and replaces other bytes. \<open>utf8\<close> is the encoding, without
  overlong forms, surrogates or values above \<^verbatim>\<open>U+10FFFF\<close>.
\<close>

definition continuation :: "char \<Rightarrow> bool" where
  "continuation c \<longleftrightarrow> (let n = of_char c :: nat in 128 \<le> n \<and> n \<le> 191)"

definition second_byte :: "char \<Rightarrow> char \<Rightarrow> bool" where
  "second_byte a b \<longleftrightarrow> (let m = of_char a :: nat; n = of_char b :: nat
     in continuation b \<and> (m = 224 \<longrightarrow> 160 \<le> n) \<and> (m = 237 \<longrightarrow> n \<le> 159) \<and> (m = 240 \<longrightarrow> 144 \<le> n) \<and> (m = 244 \<longrightarrow> n \<le> 143))"

fun utf8 :: "string \<Rightarrow> bool" where
  "utf8 [] = True"
| "utf8 (a # s) =
     (let m = of_char a :: nat in
      if m < 128 then utf8 s
      else case s of
        [] \<Rightarrow> False
      | b # s1 \<Rightarrow>
          if 194 \<le> m \<and> m \<le> 223 then continuation b \<and> utf8 s1
          else case s1 of
            [] \<Rightarrow> False
          | c # s2 \<Rightarrow>
              if 224 \<le> m \<and> m \<le> 239 then second_byte a b \<and> continuation c \<and> utf8 s2
              else case s2 of
                [] \<Rightarrow> False
              | d # s3 \<Rightarrow> 240 \<le> m \<and> m \<le> 244 \<and> second_byte a b \<and> continuation c \<and> continuation d \<and> utf8 s3)"

definition utf8_request :: "ValidationRequest \<Rightarrow> bool" where
  "utf8_request q \<longleftrightarrow>
     list_all utf8 ([vq_Command q, vq_WorkingDirectory q] @ (case vq_Arguments q of None \<Rightarrow> [] | Some as \<Rightarrow> as) @
       (case vq_ClientInfo q of
          None \<Rightarrow> []
        | Some i \<Rightarrow> [Hostname i, Username i, OS i, OSVersion i, Arch i, Shell i, CLIVersion i]))"

text \<open>
  The wrapper reaches the gateway: requests of its client to the endpoint get there. The gateway decodes a
  request of valid texts as it was encoded, a nil slice of arguments being an empty one on its side; and from
  its answer the wrapper reads whether the command is allowed.
\<close>

definition connected ::
  "'b proxy_world \<Rightarrow> 'b gateway_lib \<Rightarrow> gateway_settings \<Rightarrow> transport \<Rightarrow> cli_flags \<Rightarrow> (string \<Rightarrow> string) \<Rightarrow> string \<Rightarrow> bool" where
  "connected W L S t flags lib remote \<longleftrightarrow>
     (let url = clf_server flags @ validateEndpoint; headers = proxy_headers (proxy_client W flags) in
      (\<forall>q. utf8_request q \<longrightarrow> (\<exists>b. pw_Marshal W q = Inr b \<and> gl_Unmarshal L b = Inr (as_request q))) \<and>
      (\<forall>r. \<exists>r'. pw_Decode W (gl_Marshal L r) = Inr r' \<and> vp_Allowed r' = cvr_Allowed r) \<and>
      pw_NewRequest W url = None \<and>
      (\<forall>b. pw_Do W url headers b = Inr (gateway_serve L S t validateEndpoint remote (headers_received lib headers) b)))"

definition auth_passes :: "gateway_settings \<Rightarrow> (string \<Rightarrow> string) \<Rightarrow> bool" where
  "auth_passes S header \<longleftrightarrow>
     (case gs_auth S of
        None \<Rightarrow> True
      | Some c \<Rightarrow> if ca_Enabled c then header (ca_HeaderName c) \<noteq> '''' \<and> MatchesAny c (header (ca_HeaderName c)) else True)"

text \<open>What the wrapper does with a command it does not stop.\<close>

definition goes_ahead :: "'b proxy_world \<Rightarrow> cli_flags \<Rightarrow> string \<Rightarrow> string list option \<Rightarrow> proxy_end" where
  "goes_ahead W flags command cmdArgs =
     (if clf_dryRun flags then Returned None else ExecuteCommand W command cmdArgs None)"

lemma goes_ahead_not_exited [simp]: "goes_ahead W flags command cmdArgs \<noteq> Exited n"
  by (auto simp: goes_ahead_def ExecuteCommand_def Let_def split: sum.split option.split)

lemma runCLI_end:
  assumes "parseCommandFromArgs (pw_Args W) = Inr (command, cmdArgs)"
  shows "pr_end (runCLI W version flags) =
    (case proxy_Validate W (proxy_client W flags) (proxy_request W version command cmdArgs) of
       Inl err \<Rightarrow> goes_ahead W flags command cmdArgs
     | Inr resp \<Rightarrow> if vp_Allowed resp then goes_ahead W flags command cmdArgs else Exited 1)"
  by (auto simp: runCLI_def assms goes_ahead_def Let_def split: sum.split)

lemma cli_route: "map_of (mux t) validateEndpoint = Some CLIRoute"
  by (cases t) (simp_all add: mux_def validateEndpoint_def)

lemma client_url: "pcl_serverURL (proxy_client W flags) = clf_server flags"
  by (simp add: proxy_client_def NewClient_def Let_def)

text \<open>The request the gateway's handler gets, and how its answer comes back.\<close>

definition received_request ::
  "'b gateway_lib \<Rightarrow> string \<Rightarrow> (string \<Rightarrow> string) \<Rightarrow> CLIValidationRequest \<Rightarrow> CLIValidationRequest http_request" where
  "received_request L remote header req =
     \<lparr> hr_Header = header, hr_RemoteAddr = remote, hr_Body = Inr req, hr_newID = gl_newID L \<rparr>"

lemma Validate_connected:
  fixes W :: "'b proxy_world"
  assumes "connected W L S t flags lib remote" and "utf8_request q"
  defines "header \<equiv> headers_received lib (proxy_headers (proxy_client W flags))"
  shows "if auth_passes S header
    then (case ho_reply (cli_ServeHTTP (cli_handler_config S) (gl_T L) (gl_inTime L)
              (received_request L remote header (as_request q))) of
            Reply resp \<Rightarrow> (\<exists>r'. proxy_Validate W (proxy_client W flags) q = Inr r' \<and> vp_Allowed r' = cvr_Allowed resp)
          | ErrorReply status err \<Rightarrow> (if status \<ge> 400 then isl (proxy_Validate W (proxy_client W flags) q) else True))
    else isl (proxy_Validate W (proxy_client W flags) q)"
proof -
  from assms(1,2) obtain b where b: "pw_Marshal W q = Inr b" "gl_Unmarshal L b = Inr (as_request q)"
    unfolding connected_def Let_def by blast
  have d: "pw_NewRequest W (clf_server flags @ validateEndpoint) = None"
    "pw_Do W (clf_server flags @ validateEndpoint) (proxy_headers (proxy_client W flags)) b =
      Inr (gateway_serve L S t validateEndpoint remote header b)"
    "\<exists>r'. pw_Decode W (gl_Marshal L r) = Inr r' \<and> vp_Allowed r' = cvr_Allowed r" for r
    using assms(1,3) unfolding connected_def Let_def by blast+
  have serve: "gateway_serve L S t validateEndpoint remote header b =
      (if auth_passes S header
       then (case ho_reply (cli_ServeHTTP (cli_handler_config S) (gl_T L) (gl_inTime L)
              (received_request L remote header (as_request q))) of
            Reply resp \<Rightarrow> (200, gl_Marshal L resp) | ErrorReply status err \<Rightarrow> (status, gl_MarshalError L err))
       else (401, gl_Text L (case AuthMiddleware (gs_auth S) (\<lambda>_. ()) header of Unauthorized m \<Rightarrow> m)))"
    by (auto simp: gateway_serve_def AuthMiddleware_def auth_passes_def serve_route_def cli_route received_request_def b
        Let_def split: option.split)
  show ?thesis
  proof (cases "auth_passes S header")
    case False
    then show ?thesis by (auto simp: proxy_Validate_def b d client_url serve Let_def split: sum.split)
  next
    case True
    show ?thesis
    proof (cases "ho_reply (cli_ServeHTTP (cli_handler_config S) (gl_T L) (gl_inTime L)
        (received_request L remote header (as_request q)))")
      case (Reply resp)
      obtain r' where "pw_Decode W (gl_Marshal L resp) = Inr r'" "vp_Allowed r' = cvr_Allowed resp" using d(3) by blast
      with True Reply show ?thesis by (simp add: proxy_Validate_def b d(1,2) client_url serve Let_def)
    next
      case (ErrorReply status err)
      with True show ?thesis
        by (auto simp: proxy_Validate_def b d(1,2) client_url serve Let_def split: sum.split)
    qed
  qed
qed

lemma content_type: "headers_received lib (proxy_headers c) ''Content-Type'' = ''application/json''"
  by (simp add: headers_received_def proxy_headers_def)

lemma handler_accepts:
  assumes "gs_Enabled S" "Command req \<noteq> ''''"
  shows "cli_accepted (cli_handler_config S) (received_request L remote (headers_received lib (proxy_headers c)) req) = Some req"
  using assms
  by (simp add: cli_accepted_def cli_handler_config_def hasJSONContentType_def received_request_def content_type HasPrefix_def)

text \<open>
  C7. A wrapped command is held to the gateway's policies, when the wrapper reaches a gateway whose command
  endpoint is enabled and that lets the wrapper pass its caller authentication, and the texts of the
  request are valid UTF-8. A listed command that a CEL rule refuses is then never started: the wrapper exits with
  code 1. Of the other listed ones it stops, if the AI rules answer in time, exactly those that an enforcing AI rule
  denied, and none but those otherwise; every other command is started, or reported on a dry run.
\<close>

theorem wrapped_command_enforced:
  assumes "connected W L S t flags lib remote"
    and "auth_passes S (headers_received lib (proxy_headers (proxy_client W flags)))"
    and "gs_Enabled S" and "gs_evaluator S = loaded_evaluator cenv cps cT aenv acfg aps sch aT maxMs"
    and "parseCommandFromArgs (pw_Args W) = Inr (command, cmdArgs)" and "command \<noteq> ''''"
    and "utf8_request (proxy_request W version command cmdArgs)"
  shows "let req = as_request (proxy_request W version command cmdArgs);
      listed = (''*'' \<in> set (gs_ValidateCommands S) \<or> command \<in> set (gs_ValidateCommands S));
      denied = list_ex ai_denies (ai_cli_answers aenv acfg aps req);
      outcome = pr_end (runCLI W version flags)
    in if listed \<and> command_refused cenv cps req then outcome = Exited 1
       else if listed \<and> denied \<and> command_in_time cenv cps cT aT (newBlockingBudget (gl_T L 0 1) (gs_evaluator S)) req
       then outcome = Exited 1
       else if outcome = Exited 1 then listed \<and> denied
       else outcome = goes_ahead W flags command cmdArgs"
proof -
  let ?q = "proxy_request W version command cmdArgs"
  let ?req = "as_request ?q"
  let ?r = "received_request L remote (headers_received lib (proxy_headers (proxy_client W flags))) ?req"
  let ?cfg = "cli_handler_config S"
  have cmd: "Command ?req = command" by (simp add: as_request_def proxy_request_def)
  note v = Validate_connected [OF assms(1,7), unfolded if_P [OF assms(2)]]
  have acc: "cli_accepted ?cfg ?r = Some ?req"
    using assms(3,6) by (intro handler_accepts) (simp_all add: cmd)
  have listed_iff: "requiresValidation ?cfg command \<longleftrightarrow>
      ''*'' \<in> set (gs_ValidateCommands S) \<or> command \<in> set (gs_ValidateCommands S)"
    by (simp add: requiresValidation_iff cli_handler_config_def)
  show ?thesis
  proof (cases rule: cli_ServeHTTP_cases [of ?cfg ?r "gl_T L" "gl_inTime L"])
    case (refused s e)
    with acc show ?thesis by simp
  next
    case (unlisted req resp)
    with acc v obtain r' where "proxy_Validate W (proxy_client W flags) ?q = Inr r'" "vp_Allowed r' = cvr_Allowed resp"
      by auto
    moreover have "\<not> requiresValidation ?cfg command" "cvr_Allowed resp" using unlisted acc cmd by auto
    ultimately show ?thesis
      by (simp add: runCLI_end [OF assms(5)] Let_def listed_iff [symmetric])
  next
    case (listed req resp verdict)
    with acc v obtain r' where a: "proxy_Validate W (proxy_client W flags) ?q = Inr r'" "vp_Allowed r' = cvr_Allowed resp"
      by auto
    have "verdict = pe_EvaluateCLICommand (gl_T L 0 1) (gs_evaluator S) ?req"
      using listed(1,3) acc by (simp add: cli_evaluatePolicies_def cli_handler_config_def)
    then have p: "policy_verdict (command_in_time cenv cps cT aT (newBlockingBudget (gl_T L 0 1) (gs_evaluator S)) ?req)
        (command_refused cenv cps ?req) (ai_cli_answers aenv acfg aps ?req) verdict"
      using cli_command_policy [OF assms(4)] by simp
    from policy_verdictD(3) [OF this] listed(4) have
      "if command_refused cenv cps ?req then \<not> cvr_Allowed resp
       else if command_in_time cenv cps cT aT (newBlockingBudget (gl_T L 0 1) (gs_evaluator S)) ?req
       then cvr_Allowed resp \<longleftrightarrow> \<not> list_ex ai_denies (ai_cli_answers aenv acfg aps ?req)
       else cvr_Allowed resp \<or> list_ex ai_denies (ai_cli_answers aenv acfg aps ?req)" by simp
    moreover have "requiresValidation ?cfg command" using listed(1,2) acc cmd by auto
    ultimately show ?thesis using a
      by (auto simp: runCLI_end [OF assms(5)] Let_def listed_iff [symmetric] split: if_splits)
  qed
qed

text \<open>
  The wrapper goes ahead whenever the gateway answers with an error, not only when it cannot
  reach it: a gateway that requires a header the wrapper does not send, and it sends none but its content type
  and client id, or one that does not validate commands, stops no command whatever its policies say.
\<close>

lemma wrapper_fails_open:
  assumes "connected W L S t flags lib remote"
    and "parseCommandFromArgs (pw_Args W) = Inr (command, cmdArgs)"
    and "utf8_request (proxy_request W version command cmdArgs)"
    and "if gs_Enabled S then \<not> auth_passes S (headers_received lib (proxy_headers (proxy_client W flags))) else True"
  shows "pr_end (runCLI W version flags) = goes_ahead W flags command cmdArgs"
proof -
  let ?q = "proxy_request W version command cmdArgs"
  let ?header = "headers_received lib (proxy_headers (proxy_client W flags))"
  have "isl (proxy_Validate W (proxy_client W flags) ?q)"
  proof (cases "auth_passes S ?header")
    case True
    with assms(4) have "\<not> gs_Enabled S" by (simp split: if_splits)
    then obtain e where "ho_reply (cli_ServeHTTP (cli_handler_config S) (gl_T L) (gl_inTime L)
        (received_request L remote ?header (as_request ?q))) = ErrorReply 400 e"
      by (simp add: cli_ServeHTTP_def cli_handler_config_def writeError_def)
    with Validate_connected [OF assms(1,3)] True show ?thesis by simp
  next
    case False
    with Validate_connected [OF assms(1,3)] show ?thesis by simp
  qed
  then show ?thesis by (cases "proxy_Validate W (proxy_client W flags) ?q") (simp_all add: runCLI_end [OF assms(2)])
qed

section \<open>Witnesses\<close>

text \<open>A gateway that refuses every listed command, and a wrapper that reaches it to run \<open>rm -r\<close>.\<close>

datatype example_body = ERequest ValidationRequest | EResponse CLIValidationResponse | EError CLIValidationError | EText string

definition as_response :: "CLIValidationResponse \<Rightarrow> ValidationResponse" where
  "as_response r = \<lparr> vp_RequestID = cvr_RequestID r, vp_Allowed = cvr_Allowed r,
     vp_ValidationRequired = cvr_ValidationRequired r, vp_Message = cvr_Message r, vp_ActionReason = cvr_ActionReason r,
     vp_ServerVersion = cvr_ServerVersion r, vp_ClientVersion = cvr_ClientVersion r, vp_Results = cvr_Results r \<rparr>"

definition refuse_commands :: CELPolicy where
  "refuse_commands = \<lparr> cp_Name = ''no'', cp_Description = '''', cp_MCPExpression = '''', cp_CLIExpression = ''true'',
     cp_Action = PolicyActionDeny, cp_Message = ''no'', cp_Mode = PolicyModeEnforce \<rparr>"

definition example_gateway :: "CallerAuthConfig option \<Rightarrow> gateway_settings" where
  "example_gateway auth =
     \<lparr> gs_auth = auth, gs_Enabled = True, gs_ValidateCommands = [''*''], gs_version = ''1'', gs_auditWriter = False,
       gs_evaluator = loaded_evaluator always_true_env [refuse_commands] (\<lambda>n k. 0) refusing_env sample_cfg [] []
         (\<lambda>n k. 0) 1000, gs_IncludeArgumentValues = False \<rparr>"

definition example_gateway_lib :: "example_body gateway_lib" where
  "example_gateway_lib =
     \<lparr> gl_Unmarshal = (\<lambda>b. case b of ERequest q \<Rightarrow> Inr (as_request q) | _ \<Rightarrow> Inl (PlainError ''not a request'')),
       gl_Marshal = EResponse, gl_MarshalError = EError, gl_Text = EText, gl_newID = Inr ''id'', gl_T = (\<lambda>n k. 0),
       gl_inTime = True, gl_other = (\<lambda>r h b. (404, EText '''')) \<rparr>"

definition example_world :: "gateway_settings \<Rightarrow> example_body proxy_world" where
  "example_world S =
     \<lparr> pw_Args = [''maybe-dont'', ''cli'', ''--'', ''rm'', ''-r''], pw_Getwd = Inr ''/'', pw_GOOS = ''linux'',
       pw_GOARCH = ''amd64'', pw_Hostname = Inr ''h'', pw_Username = Inr ''u'', pw_Getenv = (\<lambda>_. ''''), pw_Environ = [],
       pw_LookPath = (\<lambda>c. Inr (''/bin/'' @ c)), pw_Exec = (\<lambda>p a e. None), pw_Marshal = (\<lambda>q. Inr (ERequest q)),
       pw_NewRequest = (\<lambda>u. None),
       pw_Do = (\<lambda>u headers b. Inr (gateway_serve example_gateway_lib S HTTPTransport (drop (length ''http://g'') u) ''peer''
         (headers_received (\<lambda>_. '''') headers) b)),
       pw_ctxErr = None,
       pw_Decode = (\<lambda>b. case b of EResponse r \<Rightarrow> Inr (as_response r) | _ \<Rightarrow> Inl (PlainError ''not a response'')),
       pw_DecodeError = (\<lambda>b. case b of EError e \<Rightarrow> Inr e | _ \<Rightarrow> Inl (PlainError ''not an error'')) \<rparr>"

definition example_flags :: cli_flags where
  "example_flags = \<lparr> clf_server = ''http://g'', clf_timeout = DefaultTimeout, clf_dryRun = False \<rparr>"

lemma example_connected:
  "connected (example_world S) example_gateway_lib S HTTPTransport example_flags (\<lambda>_. '''') ''peer''"
  by (simp add: connected_def example_world_def example_gateway_lib_def example_flags_def as_response_def Let_def)

lemma example_utf8: "utf8_request (proxy_request (example_world S) ''1'' ''rm'' (Some [''-r'']))"
  by (simp add: utf8_request_def proxy_request_def example_world_def CollectClientInfo_def getShellFromEnv_def
      getOSVersion_def Let_def)

lemma example_args: "parseCommandFromArgs (pw_Args (example_world S)) = Inr (''rm'', Some [''-r''])"
  by (simp add: parseCommandFromArgs_def example_world_def)

lemma example_refused: "command_refused always_true_env [refuse_commands] req"
  by (simp add: command_refused_def cel_decide_def stops_def cli_outcome_def expr_outcome_def run_outcome_def
      always_true_env_def refuse_commands_def IsAuditOnly_def)

lemma wrapped_command_enforced_witness:
  "pr_end (runCLI (example_world (example_gateway None)) ''1'' example_flags) = Exited 1"
proof -
  let ?S = "example_gateway None"
  have S: "auth_passes ?S h" "gs_Enabled ?S" "gs_ValidateCommands ?S = [''*'']"
    "gs_evaluator ?S = loaded_evaluator always_true_env [refuse_commands] (\<lambda>n k. 0) refusing_env sample_cfg [] []
       (\<lambda>n k. 0) 1000" for h
    by (simp_all add: example_gateway_def auth_passes_def)
  show ?thesis
    using wrapped_command_enforced [OF example_connected S(1,2,4) example_args _ example_utf8]
    by (simp add: S(3) example_refused Let_def)
qed

lemma wrapper_fails_open_witness:
  "pr_end (runCLI (example_world (example_gateway (Some \<lparr> ca_HeaderName = ''X-Key'', ca_AllowedValues = [], ca_Enabled = True \<rparr>)))
     ''1'' example_flags) = Replaced ''/bin/rm'' [''rm'', ''-r''] []"
  using wrapper_fails_open [OF example_connected example_args example_utf8, where
      S = "example_gateway (Some \<lparr> ca_HeaderName = ''X-Key'', ca_AllowedValues = [], ca_Enabled = True \<rparr>)"]
  by (simp add: auth_passes_def example_gateway_def MatchesAny_def goes_ahead_def ExecuteCommand_def example_flags_def
      example_world_def Let_def)

end
