(* ===== verification/AIProviders.thy ===== *)
theory AIProviders
  imports Retry AIEngine RateLimiter
begin

text \<open>
  The clients of the AI providers (\<^verbatim>\<open>internal/gateway/ai_provider.go\<close>, \<^verbatim>\<open>ai_provider_openai.go\<close>,
  \<^verbatim>\<open>ai_provider_openai_compatible.go\<close>, \<^verbatim>\<open>ai_provider_anthropic.go\<close>): building a request, classifying
  errors and reading an answer, with the retries of theory \<^verbatim>\<open>Retry\<close>. The prefixes are \<open>oa_\<close>, \<open>oc_\<close> and
  \<open>an_\<close>. The HTTP library, the JSON codec and the parsers of times and URLs are fields of \<open>http_lib\<close>.
  The three methods \<^verbatim>\<open>doGenerate\<close> are one combinator applied to what differs.
\<close>

section \<open>Requests, results and errors\<close>

text \<open>The whole of \<^verbatim>\<open>AIRequest\<close> and \<^verbatim>\<open>AICompletionResult\<close>, of which the engine uses a part.\<close>

record ProviderRequest = AIRequest +
  SystemPrompt :: string

record ProviderResult = AICompletionResult +
  prs_RawText :: string
  prs_RateLimitInfo :: "RateLimitInfo option"
  prs_StopReason :: string
  prs_WasTruncated :: bool

definition no_result :: ProviderResult where
  "no_result = \<lparr> ParsedJSON = '''', ProviderRequestID = '''', prs_RawText = '''', prs_RateLimitInfo = None,
     prs_StopReason = '''', prs_WasTruncated = False \<rparr>"

record AIProviderInfo =
  api_Provider :: string
  api_Model :: string
  api_EndpointHost :: string
  api_EndpointPath :: string

text \<open>An error of the libraries, with what \<^verbatim>\<open>errors.Is\<close> says of it.\<close>

datatype cause = DeadlineExceeded string | Canceled string | OtherCause string

fun cause_text :: "cause \<Rightarrow> string" where
  "cause_text (DeadlineExceeded s) = s"
| "cause_text (Canceled s) = s"
| "cause_text (OtherCause s) = s"

record provider_error =
  pe_Category :: string
  pe_Message :: string
  pe_Retryable :: bool
  pe_Cause :: "cause option"

definition pe_Error :: "provider_error \<Rightarrow> string" where
  "pe_Error e =
     (case pe_Cause e of
        Some c \<Rightarrow> pe_Category e @ '': '' @ pe_Message e @ '' (cause: '' @ cause_text c @ '')''
      | None \<Rightarrow> pe_Category e @ '': '' @ pe_Message e)"

definition failure :: "string \<Rightarrow> string \<Rightarrow> bool \<Rightarrow> cause option \<Rightarrow> provider_error" where
  "failure category message retryable c =
     \<lparr> pe_Category = category, pe_Message = message, pe_Retryable = retryable, pe_Cause = c \<rparr>"

section \<open>The world\<close>

text \<open>A request as it is sent: the URL, its query if that is changed, the headers and the body.\<close>

record http_post =
  hp_URL :: string
  hp_Query :: "(string \<times> string list) list option"
  hp_Headers :: "(string \<times> string) list"
  hp_Body :: string

record http_response =
  hrs_StatusCode :: int
  hrs_Header :: "string \<Rightarrow> string"
  hrs_Body :: "cause + string"

record openai_answer =
  oaa_ID :: string
  oaa_Choices :: "(string \<times> string) list"

record anthropic_answer =
  ana_ID :: string
  ana_StopReason :: string
  ana_Content :: "(string \<times> string) list"

record http_lib =
  hl_ParseURL :: "string \<Rightarrow> (string \<times> string) option"
  hl_URLQuery :: "string \<Rightarrow> (string \<times> string list) list"
  hl_NewRequest :: "string \<Rightarrow> cause option"
  hl_Do :: "http_post \<Rightarrow> cause + http_response"
  hl_Marshal :: "dyn \<Rightarrow> cause + string"
  hl_UnmarshalOpenAI :: "string \<Rightarrow> cause + openai_answer"
  hl_UnmarshalAnthropic :: "string \<Rightarrow> cause + anthropic_answer"
  hl_ParseDuration :: "string \<Rightarrow> int option"
  hl_ParseRFC3339 :: "string \<Rightarrow> int option"
  hl_Now :: int

section \<open>A configured provider\<close>

record ai_settings =
  ais_Provider :: string
  ais_Endpoint :: string
  ais_Model :: string
  ais_APIKey :: string
  ais_Parameters :: "(string \<times> dyn) list"
  ais_Headers :: "(string \<times> string) list"
  ais_QueryParams :: "(string \<times> string) list"

record provider_client =
  prv_endpoint :: string
  prv_apiKey :: string
  prv_model :: string
  prv_parameters :: "(string \<times> dyn) list"
  prv_headers :: "(string \<times> string) list"
  prv_queryParams :: "(string \<times> string) list"
  prv_info :: AIProviderInfo

datatype AIProviderClient = openAIProvider provider_client | openAICompatibleProvider provider_client
  | anthropicProvider provider_client

definition parseEndpointURL :: "http_lib \<Rightarrow> string \<Rightarrow> string \<times> string" where
  "parseEndpointURL L endpoint =
     (if endpoint = '''' then ('''', '''')
      else case hl_ParseURL L endpoint of None \<Rightarrow> (endpoint, '''') | Some (host, path) \<Rightarrow> (host, path))"

definition make_client :: "http_lib \<Rightarrow> string \<Rightarrow> string \<Rightarrow> ai_settings \<Rightarrow> provider_client" where
  "make_client L provider endpoint cfg =
     \<lparr> prv_endpoint = endpoint, prv_apiKey = ais_APIKey cfg, prv_model = ais_Model cfg,
       prv_parameters = ais_Parameters cfg, prv_headers = ais_Headers cfg, prv_queryParams = ais_QueryParams cfg,
       prv_info = \<lparr> api_Provider = provider, api_Model = ais_Model cfg,
         api_EndpointHost = fst (parseEndpointURL L endpoint), api_EndpointPath = snd (parseEndpointURL L endpoint) \<rparr> \<rparr>"

definition newOpenAIProvider :: "http_lib \<Rightarrow> ai_settings \<Rightarrow> AIProviderClient" where
  "newOpenAIProvider L cfg =
     (let endpoint = (if ais_Endpoint cfg = '''' then ''https://api.openai.com/v1/chat/completions'' else ais_Endpoint cfg)
      in openAIProvider (make_client L ''openai'' endpoint cfg))"

definition newOpenAICompatibleProvider :: "http_lib \<Rightarrow> ai_settings \<Rightarrow> AIProviderClient" where
  "newOpenAICompatibleProvider L cfg =
     openAICompatibleProvider (make_client L ''openai_compatible'' (ais_Endpoint cfg) cfg)"

text \<open>The client for Anthropic has no query parameters.\<close>

definition newAnthropicProvider :: "http_lib \<Rightarrow> ai_settings \<Rightarrow> AIProviderClient" where
  "newAnthropicProvider L cfg =
     (let endpoint = (if ais_Endpoint cfg = '''' then ''https://api.anthropic.com/v1/messages'' else ais_Endpoint cfg)
      in anthropicProvider ((make_client L ''anthropic'' endpoint cfg)\<lparr> prv_queryParams := [] \<rparr>))"

text \<open>\<open>None\<close> is the panic on a provider that validation should have refused.\<close>

definition NewAIProviderClient :: "http_lib \<Rightarrow> ai_settings \<Rightarrow> AIProviderClient option" where
  "NewAIProviderClient L cfg =
     (let provider = (if ais_Provider cfg = '''' then ''openai'' else ais_Provider cfg)
      in if provider = ''openai'' then Some (newOpenAIProvider L cfg)
         else if provider = ''openai_compatible'' then Some (newOpenAICompatibleProvider L cfg)
         else if provider = ''anthropic'' then Some (newAnthropicProvider L cfg)
         else None)"

fun client_of :: "AIProviderClient \<Rightarrow> provider_client" where
  "client_of (openAIProvider p) = p"
| "client_of (openAICompatibleProvider p) = p"
| "client_of (anthropicProvider p) = p"

definition ProviderInfo :: "AIProviderClient \<Rightarrow> AIProviderInfo" where
  "ProviderInfo c = prv_info (client_of c)"

section \<open>Errors\<close>

definition context_error :: "string \<Rightarrow> cause \<Rightarrow> provider_error option" where
  "context_error name err =
     (case err of
        DeadlineExceeded _ \<Rightarrow> Some (failure ''timeout'' (''request to '' @ name @ '' timed out'') False (Some err))
      | Canceled _ \<Rightarrow> Some (failure ''canceled'' ''request was canceled'' False (Some err))
      | OtherCause _ \<Rightarrow> None)"

definition status_error :: "cause \<Rightarrow> int \<Rightarrow> provider_error" where
  "status_error err statusCode =
     (if statusCode = 429 then failure ''rate_limited'' ''rate limited'' True (Some err)
      else if statusCode \<in> {401, 403} then failure ''auth_error'' ''authentication failed'' False (Some err)
      else if statusCode \<in> {400, 422} then failure ''invalid_request'' ''invalid request'' False (Some err)
      else if statusCode \<ge> 500 \<and> statusCode < 600
      then failure ''api_error'' (''server error: '' @ cause_text err) True (Some err)
      else if statusCode = 0 then failure ''api_error'' (''network error: '' @ cause_text err) True (Some err)
      else failure ''api_error'' (''API error: '' @ cause_text err) False (Some err))"

definition oa_normalizeError :: "cause \<Rightarrow> int \<Rightarrow> provider_error" where
  "oa_normalizeError err statusCode =
     (case context_error ''OpenAI'' err of Some e \<Rightarrow> e | None \<Rightarrow> status_error err statusCode)"

definition oc_normalizeError :: "cause \<Rightarrow> int \<Rightarrow> provider_error" where
  "oc_normalizeError err statusCode =
     (case context_error ''provider'' err of Some e \<Rightarrow> e | None \<Rightarrow> status_error err statusCode)"

definition an_normalizeError :: "cause \<Rightarrow> int \<Rightarrow> provider_error" where
  "an_normalizeError err statusCode =
     (case context_error ''Anthropic'' err of
        Some e \<Rightarrow> e
      | None \<Rightarrow> if statusCode = 529 then failure ''rate_limited'' ''Anthropic API overloaded'' True (Some err)
                else status_error err statusCode)"

section \<open>Rate limit headers\<close>

text \<open>
  The number of a header, 0 if there is none. The code drops the error of \<^verbatim>\<open>strconv.Atoi\<close>, which
  answers 0 for a text that is no number and the nearest number of the type for one out of range.
\<close>

definition atoi_value :: "string \<Rightarrow> int" where
  "atoi_value s =
     (case Atoi s of
        Some v \<Rightarrow> v
      | None \<Rightarrow>
          let neg = (s \<noteq> '''' \<and> hd s = CHR ''-'');
              ds = (if s \<noteq> '''' \<and> (hd s = CHR ''-'' \<or> hd s = CHR ''+'') then tl s else s)
          in if ds = '''' \<or> list_ex (\<lambda>c. decimal c = None) ds then 0
             else if neg then - (2 ^ 63) else 2 ^ 63 - 1)"

definition header_number :: "(string \<Rightarrow> string) \<Rightarrow> string \<Rightarrow> int" where
  "header_number header name = (let v = header name in if v \<noteq> '''' then atoi_value v else 0)"

definition header_time :: "(string \<Rightarrow> string) \<Rightarrow> (string \<Rightarrow> int option) \<Rightarrow> string \<Rightarrow> int option" where
  "header_time header parse name = (let v = header name in if v \<noteq> '''' then parse v else None)"

text \<open>A duration is a 64-bit number of nanoseconds, and the product wraps around.\<close>

definition retry_after :: "(string \<Rightarrow> string) \<Rightarrow> int" where
  "retry_after header =
     (let v = header ''retry-after''
      in if v \<noteq> '''' then (case Atoi v of Some secs \<Rightarrow> wrap64 (secs * 1000000000) | None \<Rightarrow> 0) else 0)"

definition parseOpenAIResetTime :: "http_lib \<Rightarrow> string \<Rightarrow> int option" where
  "parseOpenAIResetTime L v = map_option (\<lambda>d. hl_Now L + d) (hl_ParseDuration L v)"

definition parseOpenAICompatibleResetTime :: "http_lib \<Rightarrow> string \<Rightarrow> int option" where
  "parseOpenAICompatibleResetTime L v = map_option (\<lambda>d. hl_Now L + d) (hl_ParseDuration L v)"

definition oa_parseRateLimitHeaders :: "http_lib \<Rightarrow> (string \<Rightarrow> string) \<Rightarrow> RateLimitInfo" where
  "oa_parseRateLimitHeaders L header =
     \<lparr> rli_Provider = ''openai'',
       rli_RequestsLimit = header_number header ''x-ratelimit-limit-requests'',
       rli_RequestsRemaining = header_number header ''x-ratelimit-remaining-requests'',
       rli_RequestsReset = header_time header (parseOpenAIResetTime L) ''x-ratelimit-reset-requests'',
       rli_TokensLimit = header_number header ''x-ratelimit-limit-tokens'',
       rli_TokensRemaining = header_number header ''x-ratelimit-remaining-tokens'',
       rli_TokensReset = header_time header (parseOpenAIResetTime L) ''x-ratelimit-reset-tokens'',
       rli_RetryAfter = retry_after header \<rparr>"

definition oc_parseRateLimitHeaders :: "http_lib \<Rightarrow> (string \<Rightarrow> string) \<Rightarrow> RateLimitInfo" where
  "oc_parseRateLimitHeaders L header =
     \<lparr> rli_Provider = ''openai_compatible'',
       rli_RequestsLimit = header_number header ''x-ratelimit-limit-requests'',
       rli_RequestsRemaining = header_number header ''x-ratelimit-remaining-requests'',
       rli_RequestsReset = header_time header (parseOpenAICompatibleResetTime L) ''x-ratelimit-reset-requests'',
       rli_TokensLimit = header_number header ''x-ratelimit-limit-tokens'',
       rli_TokensRemaining = header_number header ''x-ratelimit-remaining-tokens'',
       rli_TokensReset = header_time header (parseOpenAICompatibleResetTime L) ''x-ratelimit-reset-tokens'',
       rli_RetryAfter = retry_after header \<rparr>"

definition an_parseRateLimitHeaders :: "http_lib \<Rightarrow> (string \<Rightarrow> string) \<Rightarrow> RateLimitInfo" where
  "an_parseRateLimitHeaders L header =
     \<lparr> rli_Provider = ''anthropic'',
       rli_RequestsLimit = header_number header ''anthropic-ratelimit-requests-limit'',
       rli_RequestsRemaining = header_number header ''anthropic-ratelimit-requests-remaining'',
       rli_RequestsReset = header_time header (hl_ParseRFC3339 L) ''anthropic-ratelimit-requests-reset'',
       rli_TokensLimit = header_number header ''anthropic-ratelimit-tokens-limit'',
       rli_TokensRemaining = header_number header ''anthropic-ratelimit-tokens-remaining'',
       rli_TokensReset = header_time header (hl_ParseRFC3339 L) ''anthropic-ratelimit-tokens-reset'',
       rli_RetryAfter = retry_after header \<rparr>"

section \<open>The body of a request\<close>

text \<open>Assigning the entries of a map, whose keys are distinct, to a map.\<close>

definition put_all :: "(string \<times> dyn) list \<Rightarrow> (string \<times> dyn) list \<Rightarrow> (string \<times> dyn) list" where
  "put_all kvs body = foldl (\<lambda>b (k, v). AList.update k v b) body kvs"

definition message_of :: "string \<Rightarrow> string \<Rightarrow> dyn" where
  "message_of role content = DMap [(''role'', DString role), (''content'', DString content)]"

definition chat_messages :: "ProviderRequest \<Rightarrow> dyn list" where
  "chat_messages req =
     (if SystemPrompt req \<noteq> '''' then [message_of ''system'' (SystemPrompt req)] else []) @
     [message_of ''user'' (UserPrompt req)]"

definition chat_body :: "provider_client \<Rightarrow> ProviderRequest \<Rightarrow> (string \<times> dyn) list" where
  "chat_body p req =
     (let body = [(''model'', DString (prv_model p)), (''messages'', DList (chat_messages req))];
          body1 = (if ResponseSchema req \<noteq> DNil
            then AList.update ''response_format'' (DMap [(''type'', DString ''json_schema''),
                   (''json_schema'', DMap [(''name'', DString ''response''), (''schema'', ResponseSchema req),
                      (''strict'', DBool True)])]) body
            else body)
      in put_all (Parameters req) (put_all (prv_parameters p) body1))"

definition oa_body :: "provider_client \<Rightarrow> ProviderRequest \<Rightarrow> (string \<times> dyn) list" where
  "oa_body p req =
     (let body = chat_body p req
      in case map_of body ''max_tokens'' of
           Some v \<Rightarrow> AList.delete ''max_tokens'' (AList.update ''max_completion_tokens'' v body)
         | None \<Rightarrow> body)"

definition oa_buildRequestBody :: "http_lib \<Rightarrow> provider_client \<Rightarrow> ProviderRequest \<Rightarrow> cause + string" where
  "oa_buildRequestBody L p req = hl_Marshal L (DMap (oa_body p req))"

definition oc_buildRequestBody :: "http_lib \<Rightarrow> provider_client \<Rightarrow> ProviderRequest \<Rightarrow> cause + string" where
  "oc_buildRequestBody L p req = hl_Marshal L (DMap (chat_body p req))"

text \<open>\<^verbatim>\<open>toInt\<close> of the provider: the error names the type.\<close>

definition provider_toInt :: "dyn \<Rightarrow> cause + int" where
  "provider_toInt v =
     (case v of
        DInt i \<Rightarrow> Inr i
      | DFloat f \<Rightarrow> Inr (int_of_float f)
      | DNil \<Rightarrow> Inl (OtherCause ''cannot convert <nil> to int'')
      | DBool _ \<Rightarrow> Inl (OtherCause ''cannot convert bool to int'')
      | DString _ \<Rightarrow> Inl (OtherCause ''cannot convert string to int'')
      | DList _ \<Rightarrow> Inl (OtherCause ''cannot convert []interface {} to int'')
      | DMap _ \<Rightarrow> Inl (OtherCause ''cannot convert map[string]interface {} to int''))"

definition max_tokens_of :: "string \<Rightarrow> (string \<times> dyn) list \<Rightarrow> int \<Rightarrow> cause + int" where
  "max_tokens_of what parameters maxTokens =
     (case map_of parameters ''max_tokens'' of
        None \<Rightarrow> Inr maxTokens
      | Some v \<Rightarrow> (case provider_toInt v of
          Inl err \<Rightarrow> Inl (OtherCause (''invalid max_tokens in '' @ what @ '' parameters: '' @ cause_text err))
        | Inr mt \<Rightarrow> Inr mt))"

definition anthropicDefaultMaxTokens :: int where
  "anthropicDefaultMaxTokens = 256"

definition an_body :: "provider_client \<Rightarrow> ProviderRequest \<Rightarrow> int \<Rightarrow> (string \<times> dyn) list" where
  "an_body p req maxTokens =
     (let body = [(''model'', DString (prv_model p)), (''messages'', DList [message_of ''user'' (UserPrompt req)])];
          body1 = (if SystemPrompt req \<noteq> '''' then AList.update ''system'' (DString (SystemPrompt req)) body else body);
          body2 = AList.update ''max_tokens'' (DInt maxTokens) body1;
          body3 = (if ResponseSchema req \<noteq> DNil
            then AList.update ''output_config'' (DMap [(''format'', DMap [(''type'', DString ''json_schema''),
                   (''schema'', ResponseSchema req)])]) body2
            else body2);
          others = filter (\<lambda>kv. fst kv \<noteq> ''max_tokens'')
      in put_all (others (Parameters req)) (put_all (others (prv_parameters p)) body3))"

definition an_buildRequestBody :: "http_lib \<Rightarrow> provider_client \<Rightarrow> ProviderRequest \<Rightarrow> cause + string" where
  "an_buildRequestBody L p req =
     (case max_tokens_of ''provider'' (prv_parameters p) anthropicDefaultMaxTokens of
        Inl err \<Rightarrow> Inl err
      | Inr mt \<Rightarrow> (case max_tokens_of ''request'' (Parameters req) mt of
          Inl err \<Rightarrow> Inl err
        | Inr maxTokens \<Rightarrow> hl_Marshal L (DMap (an_body p req maxTokens))))"

section \<open>Reading an answer\<close>

type_synonym attempt_outcome = "ProviderResult \<times> int \<times> provider_error option"

definition chat_result :: "string \<Rightarrow> string \<Rightarrow> string \<Rightarrow> bool \<Rightarrow> ProviderResult" where
  "chat_result answerID content stop truncated =
     \<lparr> ParsedJSON = content, ProviderRequestID = answerID, prs_RawText = content, prs_RateLimitInfo = None,
       prs_StopReason = stop, prs_WasTruncated = truncated \<rparr>"

definition read_chat :: "http_lib \<Rightarrow> string \<Rightarrow> string \<Rightarrow> string \<Rightarrow> string \<Rightarrow> attempt_outcome" where
  "read_chat L unparsed no_choices no_content respBody =
     (case hl_UnmarshalOpenAI L respBody of
        Inl err \<Rightarrow> (no_result, 0, Some (failure ''parse_error'' unparsed False (Some err)))
      | Inr resp \<Rightarrow> (case oaa_Choices resp of
          [] \<Rightarrow> (no_result, 0, Some (failure ''no_response'' no_choices False None))
        | (content, finishReason) # _ \<Rightarrow>
            if content = '''' then (no_result, 0, Some (failure ''no_response'' no_content False None))
            else (chat_result (oaa_ID resp) content finishReason (finishReason = ''length''), 200, None)))"

definition oa_parseResponse :: "http_lib \<Rightarrow> string \<Rightarrow> attempt_outcome" where
  "oa_parseResponse L = read_chat L ''failed to parse OpenAI response'' ''OpenAI returned no choices''
     ''OpenAI returned empty response content''"

definition oc_parseResponse :: "http_lib \<Rightarrow> string \<Rightarrow> attempt_outcome" where
  "oc_parseResponse L = read_chat L ''failed to parse response'' ''provider returned no choices''
     ''provider returned empty response content''"

definition an_parseResponse :: "http_lib \<Rightarrow> string \<Rightarrow> attempt_outcome" where
  "an_parseResponse L respBody =
     (case hl_UnmarshalAnthropic L respBody of
        Inl err \<Rightarrow> (no_result, 0, Some (failure ''parse_error'' ''failed to parse Anthropic response'' False (Some err)))
      | Inr resp \<Rightarrow>
          let content = (case find (\<lambda>block. fst block = ''text'') (ana_Content resp) of
                Some block \<Rightarrow> snd block | None \<Rightarrow> '''')
          in if content = ''''
             then (no_result, 0, Some (failure ''no_response'' ''Anthropic returned no text content'' False None))
             else (chat_result (ana_ID resp) content (ana_StopReason resp) (ana_StopReason resp = ''max_tokens''), 200, None))"

section \<open>One call\<close>

text \<open>\<^verbatim>\<open>http.CanonicalHeaderKey\<close>, under which a header is set.\<close>

fun canonical_from :: "bool \<Rightarrow> string \<Rightarrow> string" where
  "canonical_from upper [] = []"
| "canonical_from upper (c # cs) = (if upper then ToUpper [c] else ToLower [c]) @ canonical_from (c = CHR ''-'') cs"

definition token_char :: "char \<Rightarrow> bool" where
  "token_char c \<longleftrightarrow>
     (let n = (of_char c :: nat)
      in (48 \<le> n \<and> n \<le> 57) \<or> (65 \<le> n \<and> n \<le> 90) \<or> (97 \<le> n \<and> n \<le> 122) \<or>
         List.member ''!#$%&*+-.^_|~'' c \<or> n = 39 \<or> n = 96)"

definition CanonicalHeaderKey :: "string \<Rightarrow> string" where
  "CanonicalHeaderKey s = (if list_all token_char s then canonical_from True s else s)"

definition set_header :: "string \<Rightarrow> string \<Rightarrow> (string \<times> string) list \<Rightarrow> (string \<times> string) list" where
  "set_header k v headers = AList.update (CanonicalHeaderKey k) v headers"

definition set_headers :: "(string \<times> string) list \<Rightarrow> (string \<times> string) list \<Rightarrow> (string \<times> string) list" where
  "set_headers kvs headers = foldl (\<lambda>hs (k, v). set_header k v hs) headers kvs"

definition set_query :: "http_lib \<Rightarrow> provider_client \<Rightarrow> (string \<times> string list) list option" where
  "set_query L p =
     (if length (prv_queryParams p) > 0
      then Some (foldl (\<lambda>q (k, v). AList.update k [v] q) (hl_URLQuery L (prv_endpoint p)) (prv_queryParams p))
      else None)"

definition with_limits :: "RateLimitInfo \<Rightarrow> ProviderResult \<Rightarrow> ProviderResult" where
  "with_limits info result = result\<lparr> prs_RateLimitInfo := Some info \<rparr>"

definition do_generate ::
  "http_lib \<Rightarrow> cause + string \<Rightarrow> string \<Rightarrow> (string \<times> string list) list option \<Rightarrow> (string \<times> string) list \<Rightarrow>
     (cause \<Rightarrow> int \<Rightarrow> provider_error) \<Rightarrow> ((string \<Rightarrow> string) \<Rightarrow> RateLimitInfo) \<Rightarrow> (string \<Rightarrow> attempt_outcome) \<Rightarrow>
     attempt_outcome" where
  "do_generate L built endpoint query headers normalizeError parseRateLimitHeaders parseResponse =
     (case built of
        Inl err \<Rightarrow> (no_result, 0, Some (failure ''invalid_request'' ''failed to build request body'' False (Some err)))
      | Inr body \<Rightarrow> (case hl_NewRequest L endpoint of
          Some err \<Rightarrow> (no_result, 0, Some (failure ''invalid_request'' ''failed to create HTTP request'' False (Some err)))
        | None \<Rightarrow> (case hl_Do L \<lparr> hp_URL = endpoint, hp_Query = query, hp_Headers = headers, hp_Body = body \<rparr> of
            Inl err \<Rightarrow> (no_result, 0, Some (normalizeError err 0))
          | Inr resp \<Rightarrow> (case hrs_Body resp of
              Inl err \<Rightarrow> (no_result, hrs_StatusCode resp,
                Some (failure ''api_error'' ''failed to read response body'' False (Some err)))
            | Inr respBody \<Rightarrow>
                let rateLimitInfo = parseRateLimitHeaders (hrs_Header resp) in
                if hrs_StatusCode resp \<noteq> 200
                then (with_limits rateLimitInfo no_result, hrs_StatusCode resp,
                      Some (normalizeError (OtherCause (''HTTP '' @ Itoa (hrs_StatusCode resp) @ '': '' @ respBody))
                        (hrs_StatusCode resp)))
                else (case parseResponse respBody of
                  (result, statusCode, Some err) \<Rightarrow> (result, statusCode, Some err)
                | (result, statusCode, None) \<Rightarrow> (with_limits rateLimitInfo result, statusCode, None))))))"

definition chat_headers :: "provider_client \<Rightarrow> (string \<times> string) list" where
  "chat_headers p = set_headers (prv_headers p)
     (set_header ''Authorization'' (''Bearer '' @ prv_apiKey p) (set_header ''Content-Type'' ''application/json'' []))"

definition oa_doGenerate :: "http_lib \<Rightarrow> provider_client \<Rightarrow> ProviderRequest \<Rightarrow> attempt_outcome" where
  "oa_doGenerate L p req = do_generate L (oa_buildRequestBody L p req) (prv_endpoint p) (set_query L p) (chat_headers p)
     oa_normalizeError (oa_parseRateLimitHeaders L) (oa_parseResponse L)"

definition oc_doGenerate :: "http_lib \<Rightarrow> provider_client \<Rightarrow> ProviderRequest \<Rightarrow> attempt_outcome" where
  "oc_doGenerate L p req = do_generate L (oc_buildRequestBody L p req) (prv_endpoint p) (set_query L p) (chat_headers p)
     oc_normalizeError (oc_parseRateLimitHeaders L) (oc_parseResponse L)"

definition an_doGenerate :: "http_lib \<Rightarrow> provider_client \<Rightarrow> ProviderRequest \<Rightarrow> attempt_outcome" where
  "an_doGenerate L p req = do_generate L (an_buildRequestBody L p req) (prv_endpoint p) None
     (set_headers (prv_headers p) (set_header ''anthropic-version'' ''2023-06-01''
        (set_header ''x-api-key'' (prv_apiKey p) (set_header ''Content-Type'' ''application/json'' []))))
     an_normalizeError (an_parseRateLimitHeaders L) (an_parseResponse L)"

fun doGenerate :: "http_lib \<Rightarrow> AIProviderClient \<Rightarrow> ProviderRequest \<Rightarrow> attempt_outcome" where
  "doGenerate L (openAIProvider p) req = oa_doGenerate L p req"
| "doGenerate L (openAICompatibleProvider p) req = oc_doGenerate L p req"
| "doGenerate L (anthropicProvider p) req = an_doGenerate L p req"

section \<open>Generating, with retries\<close>

text \<open>
  The errors as the retry loop sees them. It asks whether an error is one of the context only when no
  status came back, and then that is so exactly for the categories \<^verbatim>\<open>timeout\<close> and \<^verbatim>\<open>canceled\<close>.
\<close>

definition go_error_of :: "provider_error \<Rightarrow> go_error" where
  "go_error_of e = AIProviderError (pe_Category e) (pe_Error e)"

fun is_context_error :: "go_error \<Rightarrow> bool" where
  "is_context_error (AIProviderError c m) \<longleftrightarrow> c = ''timeout'' \<or> c = ''canceled''"
| "is_context_error (PlainError m) \<longleftrightarrow> False"

text \<open>The world of a call: the libraries at each attempt, and the context and the random numbers.\<close>

record call_world =
  cw_lib :: "nat \<Rightarrow> http_lib"
  cw_ctxErr :: "nat \<Rightarrow> go_error option"
  cw_ctxDone :: "nat \<Rightarrow> go_error option"
  cw_random :: "nat \<Rightarrow> rat"

definition retry_world :: "call_world \<Rightarrow> AIProviderClient \<Rightarrow> ProviderRequest \<Rightarrow> ProviderResult retry_env" where
  "retry_world W c req =
     \<lparr> re_operation = (\<lambda>k. case doGenerate (cw_lib W k) c req of
         (result, statusCode, err) \<Rightarrow> (result, statusCode, map_option go_error_of err)),
       re_ctxErr = cw_ctxErr W, re_ctxDone = cw_ctxDone W, re_random = cw_random W,
       re_isContextError = is_context_error, re_zero = no_result \<rparr>"

definition Generate :: "call_world \<Rightarrow> AIProviderClient \<Rightarrow> ProviderRequest \<Rightarrow> (go_error + ProviderResult) \<times> retry_trace" where
  "Generate W c req = retryOperation (retry_world W c req)"

section \<open>What is sent\<close>

text \<open>The entry of a key in a list of assignments, and the value a request gives a key of its body.\<close>

definition assigned :: "(string \<times> dyn) list \<Rightarrow> string \<Rightarrow> dyn option" where
  "assigned kvs k = map_of (rev kvs) k"

lemma map_of_put_all: "map_of (put_all kvs body) k = (case assigned kvs k of Some v \<Rightarrow> Some v | None \<Rightarrow> map_of body k)"
  unfolding assigned_def put_all_def
  by (induction kvs arbitrary: body) (auto simp: update_conv' map_add_def split: option.split prod.split)

definition given :: "provider_client \<Rightarrow> ProviderRequest \<Rightarrow> string \<Rightarrow> dyn option" where
  "given p req k =
     (case assigned (Parameters req) k of Some v \<Rightarrow> Some v | None \<Rightarrow> assigned (prv_parameters p) k)"

lemma map_of_chat_body:
  "map_of (chat_body p req) k =
     (case given p req k of
        Some v \<Rightarrow> Some v
      | None \<Rightarrow>
          if k = ''model'' then Some (DString (prv_model p))
          else if k = ''messages'' then Some (DList (chat_messages req))
          else if k = ''response_format'' \<and> ResponseSchema req \<noteq> DNil
          then Some (DMap [(''type'', DString ''json_schema''),
                 (''json_schema'', DMap [(''name'', DString ''response''), (''schema'', ResponseSchema req),
                    (''strict'', DBool True)])])
          else None)"
  unfolding chat_body_def Let_def map_of_put_all given_def
  by (cases "assigned (Parameters req) k"; cases "assigned (prv_parameters p) k"; cases "ResponseSchema req = DNil")
    (auto simp: update_conv')

text \<open>
  The body of a request to OpenAI, key by key: parameters of the request override those of the
  configuration, which override the model, the messages and the schema; \<^verbatim>\<open>max_tokens\<close> is never sent, its
  value is sent as \<^verbatim>\<open>max_completion_tokens\<close>, also when it is the configuration's and the request sets
  \<^verbatim>\<open>max_completion_tokens\<close> itself. A compatible provider gets the same body without that translation.
\<close>

lemma request_body_exact:
  "map_of (oa_body p req) k =
     (if k = ''max_tokens'' then None
      else if k = ''max_completion_tokens'' \<and> given p req ''max_tokens'' \<noteq> None then given p req ''max_tokens''
      else map_of (chat_body p req) k) \<and>
   (if given p req ''max_tokens'' = None then oa_body p req = chat_body p req else True)"
proof (cases "given p req ''max_tokens''")
  case None
  then have "map_of (chat_body p req) ''max_tokens'' = None" by (simp add: map_of_chat_body)
  with None show ?thesis by (simp add: oa_body_def Let_def)
next
  case (Some v)
  then have "map_of (chat_body p req) ''max_tokens'' = Some v" by (simp add: map_of_chat_body)
  with Some show ?thesis by (simp add: oa_body_def Let_def delete_conv' update_conv')
qed

text \<open>
  For Anthropic the number of tokens is the request's, else the configuration's, else 256; one that is no
  number makes the request fail before anything is sent.
\<close>

lemma map_of_others: "map_of (rev (filter (\<lambda>kv. fst kv \<noteq> k) kvs)) k = None"
  by (auto simp: map_of_eq_None_iff)

lemma anthropic_tokens_exact:
  "map_of (an_body p req n) ''max_tokens'' = Some (DInt n) \<and>
   (case an_buildRequestBody L p req of
      Inl err \<Rightarrow> True
    | Inr body \<Rightarrow> \<exists>n. hl_Marshal L (DMap (an_body p req n)) = Inr body \<and>
        n = (case map_of (Parameters req) ''max_tokens'' of
               Some (DInt i) \<Rightarrow> i
             | Some (DFloat f) \<Rightarrow> int_of_float f
             | _ \<Rightarrow> (case map_of (prv_parameters p) ''max_tokens'' of
                 Some (DInt i) \<Rightarrow> i | Some (DFloat f) \<Rightarrow> int_of_float f | _ \<Rightarrow> 256)))"
proof
  show "map_of (an_body p req n) ''max_tokens'' = Some (DInt n)"
    by (simp add: an_body_def map_of_put_all assigned_def map_of_others update_conv' Let_def)
  show "case an_buildRequestBody L p req of
      Inl err \<Rightarrow> True
    | Inr body \<Rightarrow> \<exists>n. hl_Marshal L (DMap (an_body p req n)) = Inr body \<and>
        n = (case map_of (Parameters req) ''max_tokens'' of
               Some (DInt i) \<Rightarrow> i
             | Some (DFloat f) \<Rightarrow> int_of_float f
             | _ \<Rightarrow> (case map_of (prv_parameters p) ''max_tokens'' of
                 Some (DInt i) \<Rightarrow> i | Some (DFloat f) \<Rightarrow> int_of_float f | _ \<Rightarrow> 256))"
    by (auto simp: an_buildRequestBody_def max_tokens_of_def provider_toInt_def anthropicDefaultMaxTokens_def
        split: option.splits dyn.splits sum.splits)
qed

section \<open>What comes back\<close>

lemma read_chat_cases:
  "case read_chat L a b c body of (res, status, err) \<Rightarrow>
     (case err of
        None \<Rightarrow> status = 200 \<and> prs_RawText res \<noteq> '''' \<and> ParsedJSON res = prs_RawText res
      | Some e \<Rightarrow> res = no_result \<and> status = 0 \<and> pe_Category e \<in> {''parse_error'', ''no_response''} \<and> \<not> pe_Retryable e)"
  by (auto simp: read_chat_def chat_result_def failure_def split: sum.split list.split)

lemma an_parse_cases:
  "case an_parseResponse L body of (res, status, err) \<Rightarrow>
     (case err of
        None \<Rightarrow> status = 200 \<and> prs_RawText res \<noteq> '''' \<and> ParsedJSON res = prs_RawText res
      | Some e \<Rightarrow> res = no_result \<and> status = 0 \<and> pe_Category e \<in> {''parse_error'', ''no_response''} \<and> \<not> pe_Retryable e)"
  by (auto simp: an_parseResponse_def chat_result_def failure_def Let_def split: sum.split option.split)

text \<open>How one call ends: with a text from an answer of status 200, and its limits, or with an error.\<close>

lemma doGenerate_success:
  assumes "doGenerate L c req = (res, status, None)"
  shows "status = 200 \<and> prs_RawText res \<noteq> '''' \<and> ParsedJSON res = prs_RawText res \<and> prs_RateLimitInfo res \<noteq> None"
proof (cases c)
  case (openAIProvider p)
  with assms read_chat_cases show ?thesis
    by (fastforce simp: oa_doGenerate_def do_generate_def oa_parseResponse_def with_limits_def Let_def
        split: sum.splits option.splits prod.splits if_splits)
next
  case (openAICompatibleProvider p)
  with assms read_chat_cases show ?thesis
    by (fastforce simp: oc_doGenerate_def do_generate_def oc_parseResponse_def with_limits_def Let_def
        split: sum.splits option.splits prod.splits if_splits)
next
  case (anthropicProvider p)
  with assms an_parse_cases show ?thesis
    by (fastforce simp: an_doGenerate_def do_generate_def with_limits_def Let_def
        split: sum.splits option.splits prod.splits if_splits)
qed

text \<open>
  The text in an answer as the provider gives it: for Anthropic the first block of text, else the content of
  the first choice. A provider answered with a text when a request to its endpoint came back with the
  status 200 and a body that holds this text.
\<close>

definition answer_text :: "http_lib \<Rightarrow> AIProviderClient \<Rightarrow> string \<Rightarrow> string" where
  "answer_text L c body =
     (case c of
        anthropicProvider p \<Rightarrow>
          (case hl_UnmarshalAnthropic L body of
             Inl err \<Rightarrow> ''''
           | Inr a \<Rightarrow> (case find (\<lambda>block. fst block = ''text'') (ana_Content a) of Some block \<Rightarrow> snd block | None \<Rightarrow> ''''))
      | _ \<Rightarrow>
          (case hl_UnmarshalOpenAI L body of
             Inl err \<Rightarrow> ''''
           | Inr a \<Rightarrow> (case oaa_Choices a of [] \<Rightarrow> '''' | (content, finish) # _ \<Rightarrow> content)))"

definition endpoint_of :: "AIProviderClient \<Rightarrow> string" where
  "endpoint_of c =
     (case c of openAIProvider p \<Rightarrow> prv_endpoint p | openAICompatibleProvider p \<Rightarrow> prv_endpoint p
      | anthropicProvider p \<Rightarrow> prv_endpoint p)"

definition answered_with :: "http_lib \<Rightarrow> AIProviderClient \<Rightarrow> string \<Rightarrow> bool" where
  "answered_with L c t \<longleftrightarrow>
     (\<exists>post resp body. hl_Do L post = Inr resp \<and> hp_URL post = endpoint_of c \<and> hrs_StatusCode resp = 200 \<and>
        hrs_Body resp = Inr body \<and> answer_text L c body = t)"

lemma do_generate_success:
  assumes "do_generate L built endpoint query headers ne pl parse = (res, status, None)"
  obtains post resp body result where "hl_Do L post = Inr resp" "hp_URL post = endpoint" "hrs_StatusCode resp = 200"
    "hrs_Body resp = Inr body" "parse body = (result, status, None)" "prs_RawText res = prs_RawText result"
  using assms
  by (auto simp: do_generate_def with_limits_def Let_def split: sum.splits option.splits prod.splits if_splits)

lemma parsed_text:
  "oa_parseResponse L body = (result, status, None) \<Longrightarrow> answer_text L (openAIProvider p) body = prs_RawText result"
  "oc_parseResponse L body = (result, status, None) \<Longrightarrow> answer_text L (openAICompatibleProvider p) body = prs_RawText result"
  "an_parseResponse L body = (result, status, None) \<Longrightarrow> answer_text L (anthropicProvider p) body = prs_RawText result"
  by (auto simp: oa_parseResponse_def oc_parseResponse_def read_chat_def an_parseResponse_def answer_text_def
      chat_result_def Let_def split: sum.splits list.splits if_splits option.splits)

lemma doGenerate_answered:
  assumes "doGenerate L c req = (res, status, None)"
  shows "answered_with L c (prs_RawText res)"
proof (cases c)
  case (openAIProvider p)
  with assms have d: "oa_doGenerate L p req = (res, status, None)" by simp
  from d [unfolded oa_doGenerate_def] obtain post resp body result where "hl_Do L post = Inr resp" "hp_URL post = prv_endpoint p"
    "hrs_StatusCode resp = 200" "hrs_Body resp = Inr body" "oa_parseResponse L body = (result, status, None)"
    "prs_RawText res = prs_RawText result"
    by (rule do_generate_success)
  with openAIProvider parsed_text show ?thesis
    unfolding answered_with_def
    by (intro exI [of _ post] exI [of _ resp] exI [of _ body])
      (simp add: endpoint_of_def)
next
  case (openAICompatibleProvider p)
  with assms have d: "oc_doGenerate L p req = (res, status, None)" by simp
  from d [unfolded oc_doGenerate_def] obtain post resp body result where "hl_Do L post = Inr resp" "hp_URL post = prv_endpoint p"
    "hrs_StatusCode resp = 200" "hrs_Body resp = Inr body" "oc_parseResponse L body = (result, status, None)"
    "prs_RawText res = prs_RawText result"
    by (rule do_generate_success)
  with openAICompatibleProvider parsed_text show ?thesis
    unfolding answered_with_def
    by (intro exI [of _ post] exI [of _ resp] exI [of _ body])
      (simp add: endpoint_of_def)
next
  case (anthropicProvider p)
  with assms have d: "an_doGenerate L p req = (res, status, None)" by simp
  from d [unfolded an_doGenerate_def] obtain post resp body result where "hl_Do L post = Inr resp" "hp_URL post = prv_endpoint p"
    "hrs_StatusCode resp = 200" "hrs_Body resp = Inr body" "an_parseResponse L body = (result, status, None)"
    "prs_RawText res = prs_RawText result"
    by (rule do_generate_success)
  with anthropicProvider parsed_text show ?thesis
    unfolding answered_with_def
    by (intro exI [of _ post] exI [of _ resp] exI [of _ body]) (simp add: endpoint_of_def)
qed

text \<open>
  C20. A text is only ever the answer of a provider. When generating succeeds, after at most three
  calls, the text is not empty, and in the last call a request to the configured endpoint came back with
  status 200 and a body that holds just this text. A failed run returns none.
\<close>

theorem generate_sound:
  "case Generate W c req of
     (Inl err, tr) \<Rightarrow> rt_calls tr \<le> 3
   | (Inr res, tr) \<Rightarrow>
       rt_calls tr \<in> {1, 2, 3} \<and> prs_RawText res \<noteq> '''' \<and> ParsedJSON res = prs_RawText res \<and>
       answered_with (cw_lib W (rt_calls tr - 1)) c (prs_RawText res)"
proof -
  let ?env = "retry_world W c req"
  obtain out tr where g: "Generate W c req = (out, tr)" by (cases "Generate W c req")
  note r = retry_outcome [of ?env, folded Generate_def, unfolded g Let_def prod.case]
  show ?thesis
  proof (cases out)
    case (Inl err)
    with r g show ?thesis by simp
  next
    case (Inr res)
    define n where "n = length (takeWhile (transient ?env) [0, 1])"
    note r' = r [folded n_def, unfolded Inr]
    have "find (cancelled ?env n) [0..<Suc n] = None"
    proof (rule ccontr)
      assume "\<not> ?thesis"
      then obtain k where "find (cancelled ?env n) [0..<Suc n] = Some k" by blast
      with r' show False by (cases "re_ctxErr ?env k") (simp_all del: upt_Suc)
    qed
    with r' have n: "attempt_result ?env n = Inr res" "rt_calls tr = n + 1" "rt_calls tr \<le> 3"
      by (simp_all del: upt_Suc)
    then obtain status where d: "doGenerate (cw_lib W n) c req = (res, status, None)"
      by (auto simp: attempt_result_def retry_world_def split: prod.splits option.splits)
    from doGenerate_success [OF d] doGenerate_answered [OF d] n(2,3) show ?thesis by (auto simp: g Inr)
  qed
qed

text \<open>
  The retry loop does not look at the flag of an error: an answer that cannot be read, or holds no text, is asked
  for again although the error says that this is no use, and an overloaded Anthropic (529) is not, although
  its error says that it can be.
\<close>

lemma retries_ignore_flag:
  "case doGenerate (cw_lib W k) c req of (res, status, err) \<Rightarrow>
     (case err of
        None \<Rightarrow> \<not> transient (retry_world W c req) k
      | Some e \<Rightarrow>
          if status = 0 \<and> pe_Category e \<in> {''parse_error'', ''no_response'', ''invalid_request''}
          then transient (retry_world W c req) k
          else if status = 529 then \<not> transient (retry_world W c req) k
          else True)"
  by (auto simp: transient_def retry_world_def go_error_of_def split: prod.split option.split)

lemma normalizeError_flags:
  "pe_Retryable (an_normalizeError (OtherCause s) 529)"
  "pe_Retryable (oa_normalizeError err status) \<longleftrightarrow>
     (case err of OtherCause s \<Rightarrow> status = 429 \<or> status = 0 \<or> (500 \<le> status \<and> status < 600) | _ \<Rightarrow> False)"
  "pe_Retryable (oc_normalizeError err status) \<longleftrightarrow> pe_Retryable (oa_normalizeError err status)"
  "pe_Retryable (an_normalizeError err status) \<longleftrightarrow> pe_Retryable (oa_normalizeError err status)"
  by (auto simp: an_normalizeError_def oa_normalizeError_def oc_normalizeError_def context_error_def status_error_def
      failure_def split: cause.split)

end
