(* ===== verification/ConfigEnv.thy ===== *)
theory ConfigEnv
  imports DownstreamConfig Complex_Main
begin

text \<open>
  The environment in the configuration (\<^verbatim>\<open>internal/config/config.go\<close>): expanding variables in its texts
  and overriding its fields, which the code does by reflection over any structure, and the directories it
  is read from and logs to. A structure is a value of \<open>gval\<close>: what reflection sees of it. Printed
  warnings are left out.
\<close>

section \<open>Values by reflection\<close>

text \<open>
  A field of a structure has its \<^verbatim>\<open>mapstructure\<close> tag, empty if it has none; every field is exported. A
  slice of texts, a pointer to a truth value and a map to any values are kinds of their own, since the code
  treats them so; \<open>GAny\<close> is an interface value, nil or not, whose contents cannot be set.
\<close>

datatype gval =
    GString string
  | GBool bool
  | GInt int
  | GInt64 int
  | GFloat rat
  | GStrings "string list option"
  | GSlice "gval list"
  | GPtrBool "bool option"
  | GPtr "gval option"
  | GStruct "(string \<times> gval) list"
  | GStringMap "(string \<times> string) list option"
  | GAnyMap "(string \<times> dyn) list option"
  | GMap "(string \<times> gval) list option"
  | GAny "dyn option"

section \<open>Expanding variables in a text\<close>

text \<open>\<^verbatim>\<open>os.ExpandEnv\<close>: the name after a dollar sign, and how many characters it takes.\<close>

definition isShellSpecialVar :: "char \<Rightarrow> bool" where
  "isShellSpecialVar c \<longleftrightarrow> List.member ''*#$@!?-0123456789'' c"

definition isAlphaNum :: "char \<Rightarrow> bool" where
  "isAlphaNum c \<longleftrightarrow>
     (let n = (of_char c :: nat)
      in c = CHR ''_'' \<or> (48 \<le> n \<and> n \<le> 57) \<or> (97 \<le> n \<and> n \<le> 122) \<or> (65 \<le> n \<and> n \<le> 90))"

definition getShellName :: "string \<Rightarrow> string \<times> nat" where
  "getShellName s =
     (case s of
        [] \<Rightarrow> ('''', 0)
      | c # cs \<Rightarrow>
          if c = CHR ''{'' then
            (if length cs \<ge> 2 \<and> isShellSpecialVar (cs ! 0) \<and> cs ! 1 = CHR ''}'' then ([cs ! 0], 3)
             else if \<not> list_ex (\<lambda>x. x = CHR ''}'') cs then ('''', 1)
             else let name = takeWhile (\<lambda>x. x \<noteq> CHR ''}'') cs in (name, length name + 2))
          else if isShellSpecialVar c then ([c], 1)
          else let name = takeWhile isAlphaNum s in (name, length name))"

function ExpandEnv :: "(string \<Rightarrow> string) \<Rightarrow> string \<Rightarrow> string" where
  "ExpandEnv getenv [] = []"
| "ExpandEnv getenv (c # cs) =
     (if c = CHR ''$'' \<and> cs \<noteq> []
      then (case getShellName cs of (name, w) \<Rightarrow>
              (if name = '''' \<and> w > 0 then '''' else if name = '''' then [c] else getenv name) @
              ExpandEnv getenv (drop w cs))
      else c # ExpandEnv getenv cs)"
  by pat_completeness auto
termination by (relation "measure (\<lambda>(g, s). length s)") auto

text \<open>
  The walk over a structure. An element of a map is copied, expanded and put back; the contents of an
  interface value cannot be set, so nothing is expanded there, nor in a map of such values.
\<close>

fun expandEnvironmentVariables :: "(string \<Rightarrow> string) \<Rightarrow> gval \<Rightarrow> gval" where
  "expandEnvironmentVariables getenv (GString s) = GString (ExpandEnv getenv s)"
| "expandEnvironmentVariables getenv (GStruct fs) =
     GStruct (map (\<lambda>(tag, v). (tag, expandEnvironmentVariables getenv v)) fs)"
| "expandEnvironmentVariables getenv (GStrings xs) = GStrings (map_option (map (ExpandEnv getenv)) xs)"
| "expandEnvironmentVariables getenv (GSlice vs) = GSlice (map (expandEnvironmentVariables getenv) vs)"
| "expandEnvironmentVariables getenv (GStringMap m) =
     GStringMap (map_option (map (\<lambda>(k, s). (k, ExpandEnv getenv s))) m)"
| "expandEnvironmentVariables getenv (GMap m) =
     GMap (map_option (map (\<lambda>(k, v). (k, expandEnvironmentVariables getenv v))) m)"
| "expandEnvironmentVariables getenv (GPtr p) = GPtr (map_option (expandEnvironmentVariables getenv) p)"
| "expandEnvironmentVariables getenv v = v"

section \<open>Overriding fields\<close>

text \<open>
  The environment: its entries \<^verbatim>\<open>KEY=value\<close>, of which \<open>getenv\<close> finds the value of a key, and the parser of
  floating point numbers.
\<close>

record config_env =
  ce_Environ :: "string list"
  ce_Getenv :: "string \<Rightarrow> string"
  ce_ParseFloat :: "string \<Rightarrow> rat option"

definition env_entry :: "string \<Rightarrow> (string \<times> string) option" where
  "env_entry env =
     (let key = takeWhile (\<lambda>c. c \<noteq> CHR ''='') env
      in if key = '''' \<or> key = env then None else Some (key, drop (length key + 1) env))"

definition parse_any :: "config_env \<Rightarrow> string \<Rightarrow> dyn" where
  "parse_any E v =
     (case ce_ParseFloat E v of
        Some f \<Rightarrow> DFloat f
      | None \<Rightarrow> (case ParseBool v of Some b \<Rightarrow> DBool b | None \<Rightarrow> DString v))"

definition set_any :: "config_env \<Rightarrow> string \<Rightarrow> (string \<times> dyn) list option \<Rightarrow> string \<Rightarrow> (string \<times> dyn) list option" where
  "set_any E prefix' m env =
     (case env_entry env of
        None \<Rightarrow> m
      | Some (key, v) \<Rightarrow>
          if \<not> HasPrefix key prefix' then m
          else let mapKey = ToLower (drop (length prefix') key)
               in if mapKey = '''' then m
                  else Some (AList.update mapKey (parse_any E v) (case m of Some kvs \<Rightarrow> kvs | None \<Rightarrow> [])))"

definition applyMapFromEnv ::
  "config_env \<Rightarrow> string \<Rightarrow> (string \<times> dyn) list option \<Rightarrow> (string \<times> dyn) list option" where
  "applyMapFromEnv E envKeyPrefix m = foldl (set_any E (envKeyPrefix @ ''_'')) m (ce_Environ E)"

definition comma_parts :: "string \<Rightarrow> string list" where
  "comma_parts s = filter (\<lambda>p. p \<noteq> '''') (map TrimSpace (split_on (CHR '','') s))"

text \<open>A field of a simple kind whose variable is set; an invalid value only gives a warning.\<close>

definition set_field :: "config_env \<Rightarrow> string \<Rightarrow> gval \<Rightarrow> gval" where
  "set_field E envVal v =
     (case v of
        GString _ \<Rightarrow> GString envVal
      | GBool _ \<Rightarrow> (case ParseBool envVal of Some b \<Rightarrow> GBool b | None \<Rightarrow> v)
      | GInt _ \<Rightarrow> (case Atoi envVal of Some i \<Rightarrow> GInt i | None \<Rightarrow> v)
      | GInt64 _ \<Rightarrow> (case Atoi envVal of Some i \<Rightarrow> GInt64 i | None \<Rightarrow> v)
      | GFloat _ \<Rightarrow> (case ce_ParseFloat E envVal of Some f \<Rightarrow> GFloat f | None \<Rightarrow> v)
      | GStrings _ \<Rightarrow> GStrings (Some (comma_parts envVal))
      | GPtrBool _ \<Rightarrow> (case ParseBool envVal of Some b \<Rightarrow> GPtrBool (Some b) | None \<Rightarrow> v)
      | _ \<Rightarrow> v)"

definition full_path :: "string \<Rightarrow> string \<Rightarrow> string" where
  "full_path pathPrefix tag = (if pathPrefix = '''' then tag else pathPrefix @ ''_'' @ tag)"

definition env_key :: "string \<Rightarrow> string \<Rightarrow> string" where
  "env_key envPrefix path = envPrefix @ ''_'' @ ToUpper path"

lemma size_field: "(tag, v) \<in> set fs \<Longrightarrow> size v \<le> size_list (size_prod (\<lambda>x. 0) size) fs"
  by (induction fs) auto

function (sequential) applyEnvironmentOverrides :: "config_env \<Rightarrow> string \<Rightarrow> string \<Rightarrow> gval \<Rightarrow> gval"
  and override_field :: "config_env \<Rightarrow> string \<Rightarrow> string \<Rightarrow> string \<times> gval \<Rightarrow> string \<times> gval" where
  "applyEnvironmentOverrides E envPrefix pathPrefix (GStruct fs) =
     GStruct (map (override_field E envPrefix pathPrefix) fs)"
| "applyEnvironmentOverrides E envPrefix pathPrefix (GPtr (Some v)) =
     GPtr (Some (applyEnvironmentOverrides E envPrefix pathPrefix v))"
| "applyEnvironmentOverrides E envPrefix pathPrefix v = v"
| "override_field E envPrefix pathPrefix (tag, v) =
     (if tag = '''' then (tag, v)
      else let fullPath = full_path pathPrefix tag;
               envKey = env_key envPrefix fullPath;
               envVal = ce_Getenv E envKey
           in (tag, case v of
                GStruct _ \<Rightarrow> applyEnvironmentOverrides E envPrefix fullPath v
              | GPtr (Some w) \<Rightarrow>
                  if envVal = '''' then GPtr (Some (applyEnvironmentOverrides E envPrefix fullPath w)) else v
              | GAnyMap m \<Rightarrow> if envVal = '''' then GAnyMap (applyMapFromEnv E envKey m) else v
              | _ \<Rightarrow> if envVal = '''' then v else set_field E envVal v))"
  by pat_completeness auto
termination
  by (relation "measure (case_sum (\<lambda>(E, p, q, v). 2 * size v) (\<lambda>(E, p, q, t, v). 2 * size v + 1))")
    (auto simp: less_Suc_eq_le dest: size_field)

section \<open>Directories\<close>

text \<open>
  \<open>dw_EnsureDir\<close> says whether a directory exists or can be created; what creating the log directory
  answers is not looked at.
\<close>

record dir_world =
  dw_Home :: "string + string"
  dw_Getenv :: "string \<Rightarrow> string"
  dw_Join :: "string list \<Rightarrow> string"
  dw_IsDir :: "string \<Rightarrow> bool"
  dw_MkdirAll :: "string \<Rightarrow> bool"

definition ensureDir :: "dir_world \<Rightarrow> string \<Rightarrow> bool" where
  "ensureDir D path = (if dw_IsDir D path then True else if \<not> dw_MkdirAll D path then False else True)"

definition ResolveConfigDir :: "dir_world \<Rightarrow> string \<Rightarrow> string + string" where
  "ResolveConfigDir D configDir =
     (if configDir \<noteq> '''' then Inr configDir
      else case dw_Home D of
        Inl err \<Rightarrow> Inl (''cannot determine home directory: '' @ err)
      | Inr homeDir \<Rightarrow>
          let xdgConfig = dw_Getenv D ''XDG_CONFIG_HOME'';
              xdgPath = dw_Join D [xdgConfig, ''maybe-dont''];
              xdgDefault = dw_Join D [homeDir, ''.config'', ''maybe-dont'']
          in if xdgConfig \<noteq> '''' \<and> ensureDir D xdgPath then Inr xdgPath
             else if ensureDir D xdgDefault then Inr xdgDefault
             else Inl (''no config directory found; set --config-dir, MAYBE_DONT_CONFIG_DIR, or create '' @ xdgDefault))"

definition ResolveLogDir :: "dir_world \<Rightarrow> string \<Rightarrow> string + string" where
  "ResolveLogDir D logDir =
     (if logDir \<noteq> '''' then Inr logDir
      else case dw_Home D of
        Inl err \<Rightarrow> Inl (''cannot determine home directory: '' @ err)
      | Inr homeDir \<Rightarrow>
          let xdgState = dw_Getenv D ''XDG_STATE_HOME''
          in if xdgState \<noteq> '''' then Inr (dw_Join D [xdgState, ''maybe-dont''])
             else Inr (dw_Join D [homeDir, ''.local'', ''state'', ''maybe-dont'']))"

section \<open>Expanding\<close>

lemma expand_plain: "CHR ''$'' \<notin> set s \<Longrightarrow> ExpandEnv getenv s = s"
  by (induction getenv s rule: ExpandEnv.induct) auto

text \<open>The texts that the walk reaches, which are not those in interface values.\<close>

fun texts_of :: "gval \<Rightarrow> string list" where
  "texts_of (GString s) = [s]"
| "texts_of (GStruct fs) = concat (map (\<lambda>(tag, v). texts_of v) fs)"
| "texts_of (GStrings xs) = (case xs of Some ss \<Rightarrow> ss | None \<Rightarrow> [])"
| "texts_of (GSlice vs) = concat (map texts_of vs)"
| "texts_of (GStringMap m) = (case m of Some kvs \<Rightarrow> map snd kvs | None \<Rightarrow> [])"
| "texts_of (GMap m) = (case m of Some kvs \<Rightarrow> concat (map (\<lambda>(k, v). texts_of v) kvs) | None \<Rightarrow> [])"
| "texts_of (GPtr p) = (case p of Some v \<Rightarrow> texts_of v | None \<Rightarrow> [])"
| "texts_of v = []"

lemma concat_map_cong: "(\<And>x. x \<in> set xs \<Longrightarrow> f x = map h (g x)) \<Longrightarrow> concat (map f xs) = map h (concat (map g xs))"
  by (induction xs) auto

text \<open>
  Expanding a configuration expands each of its texts, and a configuration without dollar signs is left
  as it is. Parameters for the AI provider, a map of any values, are not expanded.
\<close>

lemma expanded_texts: "texts_of (expandEnvironmentVariables getenv v) = map (ExpandEnv getenv) (texts_of v)"
  by (induction getenv v rule: expandEnvironmentVariables.induct)
    (auto simp: comp_def case_prod_unfold intro!: concat_map_cong split: option.split)

lemma expand_without_dollar:
  "list_all (\<lambda>s. CHR ''$'' \<notin> set s) (texts_of v) \<Longrightarrow> expandEnvironmentVariables getenv v = v"
proof (induction getenv v rule: expandEnvironmentVariables.induct)
  case (2 getenv fs)
  then show ?case
    by (fastforce simp: list_all_iff intro: map_idI)
next
  case (4 getenv vs)
  then show ?case by (auto simp: list_all_iff intro: map_idI)
next
  case (3 getenv xs)
  then show ?case by (cases xs) (auto simp: list_all_iff expand_plain intro: map_idI)
next
  case (5 getenv m)
  then show ?case by (cases m) (fastforce simp: list_all_iff expand_plain intro: map_idI)+
next
  case (6 getenv m)
  then show ?case
    by (cases m) (fastforce simp: list_all_iff intro: map_idI)+
next
  case (7 getenv p)
  then show ?case by (cases p) (auto simp: list_all_iff)
qed (auto simp: list_all_iff expand_plain)

section \<open>Overriding\<close>

text \<open>The value at a path of tags through nested structures, and the values that are set as a whole.\<close>

fun value_at :: "string list \<Rightarrow> gval \<Rightarrow> gval option" where
  "value_at [] v = Some v"
| "value_at (t # ts) (GStruct fs) = (case map_of fs t of Some v \<Rightarrow> value_at ts v | None \<Rightarrow> None)"
| "value_at (t # ts) v = None"

definition simple_value :: "gval \<Rightarrow> bool" where
  "simple_value v \<longleftrightarrow> (case v of GStruct _ \<Rightarrow> False | GPtr _ \<Rightarrow> False | GAnyMap _ \<Rightarrow> False | _ \<Rightarrow> True)"

lemma override_field_simple:
  assumes "simple_value v" "tag \<noteq> ''''"
  shows "override_field E envPrefix pathPrefix (tag, v) =
    (tag, let x = ce_Getenv E (env_key envPrefix (full_path pathPrefix tag)) in if x = '''' then v else set_field E x v)"
  using assms by (cases v) (simp_all add: simple_value_def set_field_def Let_def split: option.split)

lemma map_of_override:
  "map_of (map (override_field E envPrefix pathPrefix) fs) t =
     map_option (\<lambda>v. snd (override_field E envPrefix pathPrefix (t, v))) (map_of fs t)"
proof (induction fs)
  case (Cons f fs)
  obtain a b where f: "f = (a, b)" by (cases f)
  have "fst (override_field E envPrefix pathPrefix (a, b)) = a" by (simp add: Let_def)
  with Cons f show ?case by (simp del: override_field.simps)
qed simp

text \<open>
  Each setting has its variable: \<^verbatim>\<open>MAYBE_DONT_\<close> and the tags on the way to it, in capitals, joined by
  underscores. A setting is what its variable says, if that is set and is a valid value of its kind, and is
  as configured otherwise; every other variable leaves it alone.
\<close>

lemma override_exact:
  assumes "value_at (t # ts) v = Some w" "simple_value w" "list_all (\<lambda>t. t \<noteq> '''') (t # ts)"
  shows "value_at (t # ts) (applyEnvironmentOverrides E envPrefix pathPrefix v) =
    Some (let x = ce_Getenv E (env_key envPrefix (foldl full_path pathPrefix (t # ts))) in
          if x = '''' then w else set_field E x w)"
  using assms
proof (induction ts arbitrary: t v pathPrefix)
  case Nil
  then obtain fs where fs: "v = GStruct fs" "map_of fs t = Some w" by (cases v) (auto split: option.splits)
  with Nil show ?case by (simp add: map_of_override override_field_simple del: override_field.simps)
next
  case (Cons t' ts)
  then obtain fs u where fs: "v = GStruct fs" "map_of fs t = Some u" "value_at (t' # ts) u = Some w"
    by (cases v) (auto split: option.splits)
  then obtain gs where u: "u = GStruct gs" by (cases u) auto
  have "snd (override_field E envPrefix pathPrefix (t, u)) =
      applyEnvironmentOverrides E envPrefix (full_path pathPrefix t) u"
    using Cons.prems(3) u by (simp add: Let_def)
  then have "value_at (t # t' # ts) (applyEnvironmentOverrides E envPrefix pathPrefix v) =
      value_at (t' # ts) (applyEnvironmentOverrides E envPrefix (full_path pathPrefix t) u)"
    unfolding fs(1) applyEnvironmentOverrides.simps value_at.simps(2) map_of_override fs(2) by simp
  with Cons.IH [OF fs(3) Cons.prems(2), of "full_path pathPrefix t"] Cons.prems(3) show ?case by simp
qed

end
