(* ===== verification/Startup.thy ===== *)
theory Startup
  imports Server Gateway ConfigValidation AuditWriter AIProviders CLIProxy CELResponse AIResponseEngine ResponseChain
begin

text \<open>
  From a configuration to a running gateway and to its end (\<^verbatim>\<open>New\<close>, \<^verbatim>\<open>Start\<close> and \<^verbatim>\<open>Stop\<close> of
  \<^verbatim>\<open>internal/gateway/gateway.go\<close>, \<^verbatim>\<open>initServer\<close> of \<^verbatim>\<open>server.go\<close>): the engines are built from the enabled
  phases, wired into the chains and served. Here the parts meet: what a configuration file says about a
  call, the engines, the providers behind the AI rules and the handling of the call.
\<close>

section \<open>Building the engines\<close>

text \<open>\<open>UnknownProvider\<close> is a panic, on a provider that validation should have refused.\<close>

datatype startup_error =
    AuditWriterError go_error
  | CELEngineError string go_error
  | LoadError string load_error
  | UnknownProvider
  | CallerAuthError go_error
  | StartupFailed string go_error
  | UnsupportedServerType string

text \<open>
  What the start asks of libraries and the environment: creating the two CEL environments, the HTTP
  library, the AI settings that \<open>Config\<close> leaves out, the files, and the variables for caller
  authentication.
\<close>

record ('ast, 'prg) startup_env =
  su_cel :: "go_error + ('ast, 'prg) cel_env"
  su_respCEL :: "go_error + ('ast, 'prg) cel_env"
  su_http :: http_lib
  su_Parameters :: "(string \<times> dyn) list"
  su_Headers :: "(string \<times> string) list"
  su_QueryParams :: "(string \<times> string) list"
  su_notWritable :: "string \<Rightarrow> go_error option"
  su_present :: "string \<Rightarrow> string"
  su_callerHeader :: string
  su_callerValues :: string

definition build_cel ::
  "string \<Rightarrow> go_error + 'env \<Rightarrow> ('env \<Rightarrow> PolicyMode \<Rightarrow> 'rule list \<Rightarrow> load_error option \<times> 'loaded list) \<Rightarrow>
     bool \<Rightarrow> PolicyMode \<Rightarrow> 'rule list \<Rightarrow> startup_error + ('env \<times> 'loaded list) option" where
  "build_cel phase newEnv load enabled mode rules =
     (if enabled
      then (case newEnv of
          Inl err \<Rightarrow> Inl (CELEngineError phase err)
        | Inr env \<Rightarrow> (case load env mode rules of
            (Some err, _) \<Rightarrow> Inl (LoadError phase err)
          | (None, loaded) \<Rightarrow> Inr (Some (env, loaded))))
      else Inr None)"

definition build_ai ::
  "string \<Rightarrow> AIProviderClient option \<Rightarrow> (PolicyMode \<Rightarrow> 'loaded list \<Rightarrow> 'rule list \<Rightarrow> load_error option \<times> 'loaded list) \<Rightarrow>
     bool \<Rightarrow> PolicyMode \<Rightarrow> 'rule list \<Rightarrow> startup_error + (AIProviderClient \<times> 'loaded list) option" where
  "build_ai phase client load enabled mode rules =
     (if enabled
      then (case client of
          None \<Rightarrow> Inl UnknownProvider
        | Some c \<Rightarrow> (case load mode [] rules of
            (Some err, _) \<Rightarrow> Inl (LoadError phase err)
          | (None, loaded) \<Rightarrow> Inr (Some (c, loaded))))
      else Inr None)"

definition ai_settings_of :: "('ast, 'prg) startup_env \<Rightarrow> Config \<Rightarrow> ai_settings" where
  "ai_settings_of E cfg =
     \<lparr> ais_Provider = cf_AIProvider cfg, ais_Endpoint = cf_AIEndpoint cfg, ais_Model = cf_AIModel cfg,
       ais_APIKey = cf_AIAPIKey cfg, ais_Parameters = su_Parameters E, ais_Headers = su_Headers E,
       ais_QueryParams = su_QueryParams E \<rparr>"

definition NewAuditAIProvider :: "AIProviderInfo \<Rightarrow> AuditAIProvider" where
  "NewAuditAIProvider info =
     \<lparr> aip_Provider = api_Provider info, aip_Model = api_Model info, aip_EndpointHost = api_EndpointHost info,
       aip_EndpointPath = api_EndpointPath info \<rparr>"

section \<open>The gateway as it is created\<close>

record ('ast, 'prg) Gateway =
  gw_config :: Config
  gw_aiConfig :: ai_config
  gw_version :: string
  gw_auditWriter :: JSONLAuditWriter
  gw_policyEngine :: "(('ast, 'prg) cel_env \<times> CELPolicy list) option"
  gw_aiPolicyEngine :: "(AIProviderClient \<times> AIPolicy list) option"
  gw_responsePolicyEngine :: "(('ast, 'prg) cel_env \<times> CELResponsePolicy list) option"
  gw_aiResponsePolicyEngine :: "(AIProviderClient \<times> AIResponsePolicy list) option"
  gw_aiProviderInfo :: "AuditAIProvider option"
  gw_sessionTimeout :: int
  gw_auditLogPath :: string
  gw_trustedProxyChecker :: TrustedProxyChecker
  gw_callerAuthConfig :: CallerAuthConfig

definition session_timeout :: "Config \<Rightarrow> int" where
  "session_timeout cfg =
     (if cf_SessionTimeoutMinutes cfg > 0 then wrap64 (cf_SessionTimeoutMinutes cfg * 60000000000)
      else 30 * 60 * 1000000000)"

definition provider_info ::
  "(AIProviderClient \<times> 'a) option \<Rightarrow> (AIProviderClient \<times> 'b) option \<Rightarrow> AuditAIProvider option" where
  "provider_info ai aiResponse =
     (case ai of
        Some (c, _) \<Rightarrow> Some (NewAuditAIProvider (ProviderInfo c))
      | None \<Rightarrow> (case aiResponse of
          Some (c, _) \<Rightarrow> Some (NewAuditAIProvider (ProviderInfo c))
        | None \<Rightarrow> None))"

definition New ::
  "('ast, 'prg) startup_env \<Rightarrow> Config \<Rightarrow> string \<Rightarrow> string \<Rightarrow> startup_error + ('ast, 'prg) Gateway" where
  "New E cfg version logDir =
     (let p = cf_Phases cfg;
          auditPath = (if cf_AuditPath cfg = '''' then ''maybedont-audit.log'' else cf_AuditPath cfg);
          client = NewAIProviderClient (su_http E) (ai_settings_of E cfg)
      in case NewJSONLAuditWriter (su_notWritable E) (su_present E) auditPath logDir (cf_AuditFilter cfg) of
           Inl err \<Rightarrow> Inl (AuditWriterError err)
         | Inr writer \<Rightarrow>
      (case build_cel ''CEL request'' (su_cel E) (\<lambda>env mode. cel_LoadPolicies env [] mode [])
              (pf_Enabled (cf_ReqCEL cfg)) (pm_ReqCELMode p) (pm_ReqCELRules p) of
         Inl err \<Rightarrow> Inl err
       | Inr policyEngine \<Rightarrow>
      (case build_ai ''AI request'' client ai_LoadPolicies (pf_Enabled (cf_ReqAI cfg)) (pm_ReqAIMode p) (pm_ReqAIRules p) of
         Inl err \<Rightarrow> Inl err
       | Inr aiPolicyEngine \<Rightarrow>
      (case build_cel ''CEL response'' (su_respCEL E) (\<lambda>env mode. celr_LoadPolicies env [] mode [])
              (pf_Enabled (cf_RespCEL cfg)) (pm_RespCELMode p) (pm_RespCELRules p) of
         Inl err \<Rightarrow> Inl err
       | Inr responsePolicyEngine \<Rightarrow>
      (case build_ai ''AI response'' client air_LoadPolicies (pf_Enabled (cf_RespAI cfg)) (pm_RespAIMode p) (pm_RespAIRules p) of
         Inl err \<Rightarrow> Inl err
       | Inr aiResponsePolicyEngine \<Rightarrow>
      (case LoadCallerAuthConfig (su_callerHeader E) (su_callerValues E) of
         Inl err \<Rightarrow> Inl (CallerAuthError err)
       | Inr callerAuth \<Rightarrow>
           Inr \<lparr> gw_config = cfg,
             gw_aiConfig = \<lparr> cfg_Model = cf_AIModel cfg, cfg_Parameters = su_Parameters E,
               maxRuleEvaluationMs = cf_MaxRuleEvaluationMs cfg \<rparr>,
             gw_version = version, gw_auditWriter = writer, gw_policyEngine = policyEngine,
             gw_aiPolicyEngine = aiPolicyEngine, gw_responsePolicyEngine = responsePolicyEngine,
             gw_aiResponsePolicyEngine = aiResponsePolicyEngine,
             gw_aiProviderInfo = provider_info aiPolicyEngine aiResponsePolicyEngine,
             gw_sessionTimeout = session_timeout cfg,
             gw_auditLogPath = ResolveAuditLogPath (cf_AuditPath cfg) logDir,
             gw_trustedProxyChecker = NewTrustedProxyChecker (cf_TrustedProxies cfg),
             gw_callerAuthConfig = callerAuth \<rparr>))))))"

section \<open>Starting\<close>

text \<open>
  What happens while the gateway runs: the clocks and schedules of the engines, what the providers
  answer to each rule, and how long that takes.
\<close>

record 're runtime =
  rn_celT :: clock
  rn_aiT :: clock
  rn_aiSchedule :: "nat option list"
  rn_aiCodec :: ai_env
  rn_aiCalls :: "nat \<Rightarrow> int \<Rightarrow> call_world"
  rn_aiElapsed :: "nat \<Rightarrow> int"
  rn_regexp :: "'re regexp_lib"
  rn_respT :: clock
  rn_airT :: clock
  rn_airSchedule :: "nat option list"
  rn_airCodec :: air_env
  rn_airCalls :: "nat \<Rightarrow> int \<Rightarrow> call_world"
  rn_airElapsed :: "nat \<Rightarrow> int"

definition provider_request :: "AIRequest \<Rightarrow> ProviderRequest" where
  "provider_request req = AIRequest.extend req (ProviderRequest.fields '''')"

text \<open>A rule asks its provider with \<^verbatim>\<open>Generate\<close>, within the rule's time.\<close>

definition ask_rule_provider ::
  "(nat \<Rightarrow> int \<Rightarrow> call_world) \<Rightarrow> (nat \<Rightarrow> int) \<Rightarrow> AIProviderClient \<Rightarrow> nat \<Rightarrow> int \<Rightarrow> AIRequest \<Rightarrow>
     int \<times> (go_error + AICompletionResult)" where
  "ask_rule_provider calls elapsed client i ruleTimeout req =
     (elapsed i, map_sum id AICompletionResult.truncate (fst (Generate (calls i ruleTimeout) client (provider_request req))))"

definition ai_world :: "'re runtime \<Rightarrow> AIProviderClient \<Rightarrow> ai_env" where
  "ai_world R client = (rn_aiCodec R)\<lparr> ai_Generate := ask_rule_provider (rn_aiCalls R) (rn_aiElapsed R) client \<rparr>"

definition air_world :: "'re runtime \<Rightarrow> AIProviderClient \<Rightarrow> air_env" where
  "air_world R client = (rn_airCodec R)\<lparr> are_Generate := ask_rule_provider (rn_airCalls R) (rn_airElapsed R) client \<rparr>"

definition start_chains :: "'re runtime \<Rightarrow> ('ast, 'prg) Gateway \<Rightarrow> 'c gateway \<Rightarrow> 'c gateway" where
  "start_chains R g =
     wire_chains
       (map_option (\<lambda>(env, ps) req. cel_EvaluateToolCall env ps req (rn_celT R)) (gw_policyEngine g))
       (map_option (\<lambda>(client, ps) req. ai_tool_engine (ai_world R client) (gw_aiConfig g) ps req (rn_aiSchedule R) (rn_aiT R))
         (gw_aiPolicyEngine g))
       (map_option (\<lambda>(env, ps) req result. celr_EvaluateResponse env (rn_regexp R) ps req result (rn_respT R))
         (gw_responsePolicyEngine g))
       (map_option (\<lambda>(client, ps) req result. air_engine (air_world R client) (gw_aiConfig g) ps result (rn_airSchedule R) (rn_airT R))
         (gw_aiResponsePolicyEngine g))"

text \<open>The fields that handling a call reads; the chains are set by the start.\<close>

definition handler_of ::
  "(CallToolRequest \<Rightarrow> 'c SessionManager \<Rightarrow> (go_error + CallToolResult) \<times> 'c SessionManager) \<Rightarrow>
     ('c SessionClientInfo \<Rightarrow> CallToolRequest \<Rightarrow> go_error + CallToolResult) \<Rightarrow> ('ast, 'prg) Gateway \<Rightarrow> 'c gateway" where
  "handler_of nativeTools callTool g =
     \<lparr> g_aiProviderInfo = gw_aiProviderInfo g, g_IncludeArgumentValues = cf_IncludeArgumentValues (gw_config g),
       g_MaxBlockingMs = cf_MaxBlockingMs (gw_config g), g_validationChain = (\<lambda>req. []), g_responseValidationChain = None,
       g_nativeTools = nativeTools, g_CallTool = callTool \<rparr>"

record 'c running =
  ru_gateway :: "'c gateway"
  ru_clientConfigs :: client_configs
  ru_options :: server_options
  ru_server :: "'c mcp_server"
  ru_routes :: "(string \<times> route) list"
  ru_writer :: JSONLAuditWriter
  ru_stopped :: bool

text \<open>
  \<open>listenErr kind\<close> is the error with which a server of that kind ends within its first tenth of a second, if
  it does; a later one is only logged.
\<close>

definition initServer ::
  "(string \<Rightarrow> go_error option) \<Rightarrow> string \<Rightarrow> startup_error + (string \<times> route) list" where
  "initServer listenErr serverType =
     (if serverType = ''stdio''
      then (case listenErr ''STDIO'' of Some err \<Rightarrow> Inl (StartupFailed ''STDIO'' err) | None \<Rightarrow> Inr [])
      else if serverType = ''sse''
      then (case listenErr ''SSE'' of Some err \<Rightarrow> Inl (StartupFailed ''SSE'' err) | None \<Rightarrow> Inr (mux SSETransport))
      else if serverType = ''http''
      then (case listenErr ''HTTP'' of Some err \<Rightarrow> Inl (StartupFailed ''HTTP'' err) | None \<Rightarrow> Inr (mux HTTPTransport))
      else Inl (UnsupportedServerType serverType))"

definition Start ::
  "'re runtime \<Rightarrow> 'c mcp_env \<Rightarrow> (string \<Rightarrow> bool) \<Rightarrow> (string \<Rightarrow> go_error option) \<Rightarrow> string list \<Rightarrow>
     (CallToolRequest \<Rightarrow> 'c SessionManager \<Rightarrow> (go_error + CallToolResult) \<times> 'c SessionManager) \<Rightarrow>
     ('c SessionClientInfo \<Rightarrow> CallToolRequest \<Rightarrow> go_error + CallToolResult) \<Rightarrow> ('ast, 'prg) Gateway \<Rightarrow>
     startup_error + 'c running" where
  "Start R env template listenErr nativeNames nativeTools callTool g =
     (let clientConfigs = InitializeClients (cf_Servers (gw_config g)) [];
          m = \<lparr> cm_sessions = NewSessionManagerWithTimeout (gw_sessionTimeout g), cm_opened = [], cm_attempts = 0 \<rparr>;
          (options, sv) = initMCPServer env template nativeNames clientConfigs m
      in case initServer listenErr (cf_ServerType (gw_config g)) of
           Inl err \<Rightarrow> Inl err
         | Inr routes \<Rightarrow>
             Inr \<lparr> ru_gateway = start_chains R g (handler_of nativeTools callTool g), ru_clientConfigs = clientConfigs,
               ru_options = options, ru_server = sv, ru_routes = routes, ru_writer = gw_auditWriter g, ru_stopped = False \<rparr>)"

section \<open>Stopping\<close>

text \<open>
  \<^verbatim>\<open>Stop\<close> closes the stop channel, which panics when done twice (\<open>None\<close>), then the sessions, waits for
  the pending audit writes, here the entries in the order in which they are written, and closes the writer.
\<close>

definition Stop ::
  "('c \<Rightarrow> go_error option) \<Rightarrow> (AuditEntry \<Rightarrow> go_error + string) \<Rightarrow> AuditEntry list \<Rightarrow> 'c running \<Rightarrow>
     (string list \<times> 'c running) option" where
  "Stop closeErr Marshal pending r =
     (if ru_stopped r then None
      else case CloseAllSessions closeErr (cm_sessions (sv_manager (ru_server r))) of
        (errs, sm) \<Rightarrow>
          let writer = fold (\<lambda>entry w. snd (aw_Write Marshal None (Some entry) w)) pending (ru_writer r)
          in Some (errs, r\<lparr> ru_server := with_manager (with_sessions sm (sv_manager (ru_server r))) (ru_server r),
               ru_writer := writer, ru_stopped := True \<rparr>))"

section \<open>What the configuration says of a call\<close>

text \<open>
  The specification, over the rules of the file: the first enabled and enforced rule whose expression fails
  or, if it is a denial, matches, decides; it refuses the call unless it failed.
\<close>

definition rule_expression :: "Policy \<Rightarrow> string" where
  "rule_expression r = (if p_MCPExpression r = '''' then p_Expression r else p_MCPExpression r)"

definition decisive :: "('ast, 'prg) cel_env \<Rightarrow> dyn \<Rightarrow> Policy \<Rightarrow> bool" where
  "decisive env vars r \<longleftrightarrow>
     Policy_IsEnabled r \<and> \<not> IsAuditOnly (p_Mode r) \<and>
     (expr_outcome env vars (rule_expression r) = Failed \<or>
      expr_outcome env vars (rule_expression r) = Matched \<and> p_Action r = PolicyActionDeny)"

definition refused_by_rules :: "('ast, 'prg) cel_env \<Rightarrow> dyn \<Rightarrow> Policy list \<Rightarrow> bool" where
  "refused_by_rules env vars rules \<longleftrightarrow>
     (case find (decisive env vars) rules of
        None \<Rightarrow> False
      | Some r \<Rightarrow> expr_outcome env vars (rule_expression r) \<noteq> Failed)"

definition rules_refuse :: "('ast, 'prg) startup_env \<Rightarrow> Config \<Rightarrow> CallToolRequest \<Rightarrow> bool" where
  "rules_refuse E cfg req \<longleftrightarrow>
     (case su_cel E of
        Inl err \<Rightarrow> False
      | Inr env \<Rightarrow> pf_Enabled (cf_ReqCEL cfg) \<and> pm_ReqCELMode (cf_Phases cfg) = PolicyModeEnforce \<and>
          refused_by_rules env (mcp_vars req) (pm_ReqCELRules (cf_Phases cfg)))"

text \<open>A provider, asked with the prompt of an enabled and enforced rule, answered that the call is not allowed.\<close>

definition provider_refuses :: "('ast, 'prg) startup_env \<Rightarrow> 're runtime \<Rightarrow> Config \<Rightarrow> CallToolRequest \<Rightarrow> bool" where
  "provider_refuses E R cfg req \<longleftrightarrow>
     pf_Enabled (cf_ReqAI cfg) \<and> pm_ReqAIMode (cf_Phases cfg) = PolicyModeEnforce \<and>
     (\<exists>client rule i t asked res answer.
        NewAIProviderClient (su_http E) (ai_settings_of E cfg) = Some client \<and>
        rule \<in> set (pm_ReqAIRules (cf_Phases cfg)) \<and> AIPolicy_IsEnabled rule \<and> \<not> IsAuditOnly (cap_Mode rule) \<and>
        HasPrefix (UserPrompt asked) (cap_Prompt rule) \<and>
        fst (Generate (rn_aiCalls R i t) client asked) = Inr res \<and>
        ai_Unmarshal (rn_aiCodec R) (SanitizeJSONEscapes (ParsedJSON res)) = Inr answer \<and> \<not> ai_Allowed answer)"

section \<open>The engines hold the rules of the file\<close>

lemma find_list_all2:
  "list_all2 Rel xs ys \<Longrightarrow> (\<And>x y. Rel x y \<Longrightarrow> P x \<longleftrightarrow> Q y) \<Longrightarrow> rel_option Rel (find P xs) (find Q ys)"
  by (induction rule: list_all2_induct) auto

lemma find_filter: "find P (filter E xs) = find (\<lambda>x. E x \<and> P x) xs"
  by (induction xs) auto

lemma cel_decide_Refuse:
  "(\<exists>p. cel_decide oc ps = Refuse p) \<longleftrightarrow> (case find (stops oc) ps of None \<Rightarrow> False | Some p \<Rightarrow> oc p \<noteq> Failed)"
  by (simp add: cel_decide_def split: option.split)

lemma loaded_rules_decide:
  assumes "cel_LoadPolicies env [] tm [] rules = (None, ps)"
  shows "(\<exists>p. cel_decide (mcp_outcome env vars) ps = Refuse p) \<longleftrightarrow> tm = PolicyModeEnforce \<and> refused_by_rules env vars rules"
proof (cases "IsAuditOnly tm")
  case True
  have "IsAuditOnly (cp_Mode p)" if "p \<in> set ps" for p
    using cel_rules.audit_only_phase [OF True, of p env "[]" rules] assms that by simp
  then have "find (stops (mcp_outcome env vars)) ps = None" by (auto simp: find_None_iff stops_def)
  with True show ?thesis by (simp add: cel_decide_Refuse IsAuditOnly_def)
next
  case False
  from assms have valid: "PolicyMode_IsValid tm" using cel_rules.mode_law [of env "[]" tm "[]" rules] by simp
  with False have tm: "tm = PolicyModeEnforce" by (auto simp: PolicyMode_IsValid_def IsAuditOnly_def)
  have loaded: "list_all2 (cel_loaded_as env False tm) (filter Policy_IsEnabled rules) ps"
    using cel_load_exact [of "[]" tm rules env "[]"] assms by (auto simp: Let_def split: if_splits)
  have oc: "mcp_outcome env vars c = expr_outcome env vars (rule_expression r)"
    if "cel_loaded_as env False tm r c" for r c
    using that by (simp add: cel_loaded_as_def mcp_outcome_def rule_expression_def)
  have kept: "cp_Action c = p_Action r" "IsAuditOnly (cp_Mode c) \<longleftrightarrow> IsAuditOnly (p_Mode r)"
    if "cel_loaded_as env False tm r c" for r c
    using that False by (simp_all add: cel_loaded_as_def)
  let ?P = "\<lambda>r. \<not> IsAuditOnly (p_Mode r) \<and> (expr_outcome env vars (rule_expression r) = Failed \<or>
      expr_outcome env vars (rule_expression r) = Matched \<and> p_Action r = PolicyActionDeny)"
  have "rel_option (cel_loaded_as env False tm) (find ?P (filter Policy_IsEnabled rules)) (find (stops (mcp_outcome env vars)) ps)"
    by (rule find_list_all2 [OF loaded]) (simp add: stops_def oc kept)
  then have "rel_option (cel_loaded_as env False tm) (find (decisive env vars) rules) (find (stops (mcp_outcome env vars)) ps)"
    unfolding find_filter decisive_def [abs_def] by simp
  with oc show ?thesis
    by (auto simp: cel_decide_Refuse refused_by_rules_def tm elim!: option.rel_cases split: option.splits)
qed

section \<open>The engines at work\<close>

lemma cel_turn:
  obtains r b1 where "cel_EvaluateToolCall env ps req T (Some bud) = (Inr r, Some b1)" "DenyCount r \<ge> 0"
    "DenyCount r > 0 \<longleftrightarrow> (\<exists>p. cel_decide (mcp_outcome env (mcp_vars req)) ps = Refuse p)"
proof -
  obtain r b where c: "cel_EvaluateToolCall env ps req T (Some bud) = (Inr r, b)"
    "refines_decision (cel_decide (mcp_outcome env (mcp_vars req)) ps) (mcp_outcome env (mcp_vars req)) ps r"
    using cel_run_all_decision [of env "mcp_vars req" ps T "Some bud"]
    by (cases "cel_run_all env (mcp_vars req) ps T (Some bud)") (auto simp: cel_EvaluateToolCall_run_all)
  moreover obtain b1 where "b = Some b1" using cel_tool.budget_law [of "Some bud" env ps req T] c(1) by auto
  ultimately show thesis using that [of r b1] by (auto simp: refines_decision_def split: decision.splits)
qed

lemma ai_turn:
  obtains r b1 where "ai_tool_engine env cfg ps req sch T (Some bud) = (Inr r, b1)" "DenyCount r \<ge> 0"
    "DenyCount r > 0 \<longrightarrow> (\<exists>a \<in> set (ai_answers env cfg ps req). ai_denies a)"
proof -
  obtain out b1 where out: "ai_EvaluateToolCall env cfg ps req sch T (Some bud) = Some (out, b1)"
    "\<not> isl out" "ai_meets (ai_on_time (Some bud) T) (ai_answers env cfg ps req) (projr out)"
    using ai_tool_rule.evaluate_spec [of env cfg "formatOperation env (NewMCPOperation req)" ps sch T "Some bud"]
    by (auto simp: ai_EvaluateToolCall_evaluate ai_answers_def)
  then obtain r where "out = Inr r" by (cases out) auto
  with out have "ai_tool_engine env cfg ps req sch T (Some bud) = (Inr r, b1)"
    "ai_meets (ai_on_time (Some bud) T) (ai_answers env cfg ps req) r" by (simp_all add: ai_tool_engine_def)
  with that show thesis by (auto simp: ai_meets_def split: if_splits)
qed

text \<open>Whether the engines of a gateway refuse a call.\<close>

definition cel_refuses :: "('ast, 'prg) Gateway \<Rightarrow> CallToolRequest \<Rightarrow> bool" where
  "cel_refuses g req \<longleftrightarrow>
     (case gw_policyEngine g of
        None \<Rightarrow> False
      | Some (env, ps) \<Rightarrow> (\<exists>p. cel_decide (mcp_outcome env (mcp_vars req)) ps = Refuse p))"

definition ai_refuses :: "'re runtime \<Rightarrow> ('ast, 'prg) Gateway \<Rightarrow> CallToolRequest \<Rightarrow> bool" where
  "ai_refuses R g req \<longleftrightarrow>
     (case gw_aiPolicyEngine g of
        None \<Rightarrow> False
      | Some (client, ps) \<Rightarrow> list_ex ai_denies (ai_answers (ai_world R client) (gw_aiConfig g) ps req))"

lemma started_request_chain:
  fixes g :: "('ast, 'prg) Gateway"
  obtains v b where
    "chain_Handle (g_validationChain (start_chains R g h) req) (Some bud) = ((v, None), b)"
    "cel_refuses g req \<longrightarrow> DenyCount v > 0" "DenyCount v > 0 \<longrightarrow> cel_refuses g req \<or> ai_refuses R g req"
proof (cases "gw_policyEngine g")
  case cel: None
  show thesis
  proof (cases "gw_aiPolicyEngine g")
    case None
    with cel show thesis
      by (intro that [of "chain_finish chain_init" "Some bud"])
        (simp_all add: start_chains_def wire_chains_def handlers_of_def chain_Handle_def cel_refuses_def chain_init_def no_results_def)
  next
    case (Some ai)
    obtain client ps where ai: "ai = (client, ps)" by (cases ai)
    obtain r b1 where r: "ai_tool_engine (ai_world R client) (gw_aiConfig g) ps req (rn_aiSchedule R) (rn_aiT R) (Some bud) = (Inr r, b1)"
      "DenyCount r \<ge> 0" "DenyCount r > 0 \<longrightarrow> (\<exists>a \<in> set (ai_answers (ai_world R client) (gw_aiConfig g) ps req). ai_denies a)"
      by (rule ai_turn)
    from cel Some ai r show thesis
      by (intro that [of "chain_finish (chain_merge r chain_init)" b1])
        (simp_all add: start_chains_def wire_chains_def handlers_of_def chain_Handle_def cel_refuses_def ai_refuses_def
          chain_init_def no_results_def list_ex_iff)
  qed
next
  case (Some cel)
  obtain env cps where cel: "cel = (env, cps)" by (cases cel)
  obtain r b1 where r: "cel_EvaluateToolCall env cps req (rn_celT R) (Some bud) = (Inr r, Some b1)" "DenyCount r \<ge> 0"
    "DenyCount r > 0 \<longleftrightarrow> (\<exists>p. cel_decide (mcp_outcome env (mcp_vars req)) cps = Refuse p)"
    by (rule cel_turn)
  show thesis
  proof (cases "gw_aiPolicyEngine g")
    case None
    with Some cel r show thesis
      by (intro that [of "chain_finish (chain_merge r chain_init)" "Some b1"])
        (simp_all add: start_chains_def wire_chains_def handlers_of_def chain_Handle_def cel_refuses_def chain_init_def no_results_def)
  next
    case (Some ai)
    obtain client ps where ai: "ai = (client, ps)" by (cases ai)
    obtain ra b2 where a: "ai_tool_engine (ai_world R client) (gw_aiConfig g) ps req (rn_aiSchedule R) (rn_aiT R) (Some b1) = (Inr ra, b2)"
      "DenyCount ra \<ge> 0" "DenyCount ra > 0 \<longrightarrow> (\<exists>a \<in> set (ai_answers (ai_world R client) (gw_aiConfig g) ps req). ai_denies a)"
      by (rule ai_turn)
    show thesis
    proof (rule that [of "chain_finish (chain_merge ra (chain_merge r chain_init))" b2])
      show "chain_Handle (g_validationChain (start_chains R g h) req) (Some bud) =
          ((chain_finish (chain_merge ra (chain_merge r chain_init)), None), b2)"
        using \<open>gw_policyEngine g = Some cel\<close> Some cel ai r(1) a(1)
        by (simp add: start_chains_def wire_chains_def handlers_of_def chain_Handle_def chain_init_def)
      have d: "DenyCount (chain_finish (chain_merge ra (chain_merge r chain_init))) = DenyCount r + DenyCount ra"
        by (simp add: chain_init_def no_results_def)
      show "cel_refuses g req \<longrightarrow> DenyCount (chain_finish (chain_merge ra (chain_merge r chain_init))) > 0"
        using r(2,3) a(2) \<open>gw_policyEngine g = Some cel\<close> cel unfolding d by (auto simp: cel_refuses_def)
      show "DenyCount (chain_finish (chain_merge ra (chain_merge r chain_init))) > 0 \<longrightarrow> cel_refuses g req \<or> ai_refuses R g req"
      proof
        assume "DenyCount (chain_finish (chain_merge ra (chain_merge r chain_init))) > 0"
        then have "DenyCount r > 0 \<or> DenyCount ra > 0" unfolding d using r(2) a(2) by linarith
        with r(3) a(3) \<open>gw_policyEngine g = Some cel\<close> Some cel ai show "cel_refuses g req \<or> ai_refuses R g req"
          by (auto simp: cel_refuses_def ai_refuses_def list_ex_iff)
      qed
    qed
  qed
qed

text \<open>How a call ends by the verdict of the chain.\<close>

lemma request_chain_outcome:
  assumes ch: "chain_Handle (g_validationChain g req) (Some (NewBlockingBudget (T 0 1) (g_MaxBlockingMs g))) = ((v, None), b)"
  shows "let out = HandleToolCall g ctx sm T req in
    if IsNativeTool (ToolName req) \<or> isl (ParsePrefixedName (ToolName req)) then out_calls out = []
    else if DenyCount v > 0 then out_calls out = [] \<and> (\<exists>m d. out_result out = Inl (PolicyDeniedError m d))
    else case out_result out of
        Inl (PolicyDeniedError m d) \<Rightarrow> out_calls out \<noteq> []
      | Inl (ValidationError e) \<Rightarrow> False
      | _ \<Rightarrow> True"
proof (cases "IsNativeTool (ToolName req)")
  case True
  then show ?thesis by (simp add: HandleToolCall_def Let_def split: prod.split)
next
  case False
  then show ?thesis
  proof (cases rule: HandleToolCall_cases [of req g ctx sm T])
    case (parse e)
    then show ?thesis by (simp add: failed_def Let_def)
  next
    case (error c n v e b)
    with ch show ?thesis by simp
  next
    case (denied c n v' b' m d a)
    with ch False show ?thesis by (simp add: Let_def)
  next
    case (allowed c n v' b')
    with ch have "v' = v" "b' = b" by auto
    note allowed = allowed [unfolded this]
    let ?ac = "populateRequestValidationAudit v (prepare_audit g ctx (T 0 0) req c n)"
    show ?thesis
    proof (cases rule: forward_call_cases [of g ctx sm T req c n "request_verdict v" ?ac b])
      case (no_client e sm')
      with allowed False show ?thesis by (cases e) (simp_all add: failed_def Let_def)
    next
      case (failed_call info q e sm')
      with allowed False show ?thesis by (simp add: failed_def Let_def)
    next
      case (answered info q raw res w sm' d)
      from answered(2) show ?thesis
        by (cases rule: screen_response_cases) (use allowed(1,3,4) answered(3) False in \<open>simp_all add: Let_def\<close>)
    qed
  qed
qed

section \<open>What was configured is what runs\<close>

lemma build_cel_Inr:
  "build_cel phase newEnv load enabled mode rules = Inr e \<Longrightarrow>
     (if enabled then \<exists>env loaded. newEnv = Inr env \<and> e = Some (env, loaded) \<and> load env mode rules = (None, loaded)
      else e = None)"
  by (auto simp: build_cel_def split: if_splits sum.splits prod.splits option.splits)

lemma build_ai_Inr:
  "build_ai phase client load enabled mode rules = Inr e \<Longrightarrow>
     (if enabled then \<exists>c loaded. client = Some c \<and> e = Some (c, loaded) \<and> load mode [] rules = (None, loaded)
      else e = None)"
  by (auto simp: build_ai_def split: if_splits prod.splits option.splits)

lemma New_Inr:
  assumes "New E cfg version logDir = Inr g"
  shows "gw_config g = cfg"
    "build_cel ''CEL request'' (su_cel E) (\<lambda>env mode. cel_LoadPolicies env [] mode [])
       (pf_Enabled (cf_ReqCEL cfg)) (pm_ReqCELMode (cf_Phases cfg)) (pm_ReqCELRules (cf_Phases cfg)) = Inr (gw_policyEngine g)"
    "build_ai ''AI request'' (NewAIProviderClient (su_http E) (ai_settings_of E cfg)) ai_LoadPolicies
       (pf_Enabled (cf_ReqAI cfg)) (pm_ReqAIMode (cf_Phases cfg)) (pm_ReqAIRules (cf_Phases cfg)) = Inr (gw_aiPolicyEngine g)"
  using assms by (auto simp: New_def Let_def split: sum.splits)

lemma cel_refuses_configured:
  assumes "New E cfg version logDir = Inr g"
  shows "cel_refuses g req \<longleftrightarrow> rules_refuse E cfg req"
  using build_cel_Inr [OF New_Inr(2) [OF assms]]
  by (auto simp: cel_refuses_def rules_refuse_def loaded_rules_decide split: if_splits sum.split)

lemma ai_rule_denial:
  assumes "ai_denies (ai_rule_eval env cfg op i p)"
  obtains t asked result answer where "\<not> IsAuditOnly (ap_Mode p)" "HasPrefix (UserPrompt asked) (ap_Prompt p)"
    "snd (ai_Generate env i t asked) = Inr result"
    "ai_Unmarshal env (SanitizeJSONEscapes (ParsedJSON result)) = Inr answer" "\<not> ai_Allowed answer"
proof -
  let ?asked = "\<lparr> Model = cfg_Model cfg, UserPrompt = ap_Prompt p @ newline @ newline @ ''Tool call:'' @ newline @ op,
     ResponseSchema = ai_Schema env, Parameters = cfg_Parameters cfg \<rparr>"
  have "HasPrefix (UserPrompt ?asked) (ap_Prompt p)" by (simp add: HasPrefix_def)
  with assms that [of ?asked "ai_ruleTimeout cfg"] show thesis
    by (auto simp: ai_denies_def enforced_def ai_rule_eval_def ai_rule_error_def Let_def split: prod.splits sum.splits if_splits)
qed

lemma ai_loaded_rule:
  assumes "ai_LoadPolicies tm [] rules = (None, ps)" "p \<in> set ps"
  obtains r where "r \<in> set rules" "AIPolicy_IsEnabled r" "ap_Prompt p = cap_Prompt r" "ap_Mode p = ResolvePolicyMode tm (cap_Mode r)"
proof -
  from assms have "p \<in> set (snd (load_rules cap_Name (ai_check_policy tm) tm [] rules))"
    by (simp add: ai_LoadPolicies_def)
  with load_rules_append [of cap_Name "ai_check_policy tm" tm "[]" rules] obtain r where
    "r \<in> set rules" "ai_check_policy tm r = Inr (Some p)" by auto
  with that show thesis by (auto simp: ai_check_policy_def Let_def split: if_splits)
qed

lemma ai_refuses_configured:
  fixes R :: "'re runtime"
  assumes new: "New E cfg version logDir = Inr g" and refuses: "ai_refuses R g req"
  shows "provider_refuses E R cfg req"
proof -
  from refuses build_ai_Inr [OF New_Inr(3) [OF new]] obtain client ps where
    on: "pf_Enabled (cf_ReqAI cfg)" and client: "NewAIProviderClient (su_http E) (ai_settings_of E cfg) = Some client"
      "gw_aiPolicyEngine g = Some (client, ps)"
    and load: "ai_LoadPolicies (pm_ReqAIMode (cf_Phases cfg)) [] (pm_ReqAIRules (cf_Phases cfg)) = (None, ps)"
    by (auto simp: ai_refuses_def split: if_splits)
  let ?op = "formatOperation (ai_world R client) (NewMCPOperation req)"
  from refuses client(2) obtain i where i: "i < length ps"
    "ai_denies (ai_rule_eval (ai_world R client) (gw_aiConfig g) ?op i (ps ! i))"
    by (auto simp: ai_refuses_def ai_answers_def ai_launch_def list_ex_iff set_zip)
  obtain t asked result answer where d: "\<not> IsAuditOnly (ap_Mode (ps ! i))" "HasPrefix (UserPrompt asked) (ap_Prompt (ps ! i))"
    "snd (ai_Generate (ai_world R client) i t asked) = Inr result"
    "ai_Unmarshal (ai_world R client) (SanitizeJSONEscapes (ParsedJSON result)) = Inr answer" "\<not> ai_Allowed answer"
    using i(2) by (rule ai_rule_denial)
  from d(3) obtain res where res: "fst (Generate (rn_aiCalls R i t) client (provider_request asked)) = Inr res"
    "ParsedJSON res = ParsedJSON result"
    by (cases "fst (Generate (rn_aiCalls R i t) client (provider_request asked))")
      (auto simp: ai_world_def ask_rule_provider_def AICompletionResult.truncate_def)
  obtain r where r: "r \<in> set (pm_ReqAIRules (cf_Phases cfg))" "AIPolicy_IsEnabled r" "ap_Prompt (ps ! i) = cap_Prompt r"
    "ap_Mode (ps ! i) = ResolvePolicyMode (pm_ReqAIMode (cf_Phases cfg)) (cap_Mode r)"
    using i(1) by (auto intro: ai_loaded_rule [OF load, of "ps ! i"])
  from d(1) have enforced: "\<not> IsAuditOnly (pm_ReqAIMode (cf_Phases cfg))" "\<not> IsAuditOnly (cap_Mode r)" by (simp_all add: r(4))
  then have "pm_ReqAIMode (cf_Phases cfg) = PolicyModeEnforce" "\<not> IsAuditOnly (cap_Mode r)"
    using ai_rules.mode_law [of "pm_ReqAIMode (cf_Phases cfg)" "[]" "pm_ReqAIRules (cf_Phases cfg)"] load
    by (auto simp: PolicyMode_IsValid_def IsAuditOnly_def)
  moreover have "HasPrefix (UserPrompt (provider_request asked)) (cap_Prompt r)"
    using d(2) by (simp add: r(3) provider_request_def AIRequest.extend_def)
  moreover have "ai_Unmarshal (rn_aiCodec R) (SanitizeJSONEscapes (ParsedJSON res)) = Inr answer"
    using d(4) by (simp add: ai_world_def res(2))
  ultimately show ?thesis
    unfolding provider_refuses_def using on client(1) r(1,2) d(5) res(1) by blast
qed

lemma outcome_of_verdict:
  assumes "let out = result in
      if local then out_calls out = []
      else if DenyCount v > 0 then out_calls out = [] \<and> (\<exists>m d. out_result out = Inl (PolicyDeniedError m d))
      else case out_result out of
          Inl (PolicyDeniedError m d) \<Rightarrow> out_calls out \<noteq> []
        | Inl (ValidationError e) \<Rightarrow> False
        | _ \<Rightarrow> True"
    and "cel \<longrightarrow> DenyCount v > 0" "DenyCount v > 0 \<longrightarrow> cel \<or> ai"
  shows "if local then out_calls result = []
      else if cel then out_calls result = [] \<and> (\<exists>m d. out_result result = Inl (PolicyDeniedError m d))
      else (case out_result result of
          Inl (PolicyDeniedError m d) \<Rightarrow> (if out_calls result = [] then ai else True)
        | Inl (ValidationError e) \<Rightarrow> False
        | _ \<Rightarrow> True)"
proof (cases "local \<or> cel")
  case True
  with assms(1,2) show ?thesis by (auto simp: Let_def)
next
  case False
  show ?thesis
  proof (cases "DenyCount v > 0")
    case True
    with False assms(1) obtain m d where "out_calls result = []" "out_result result = Inl (PolicyDeniedError m d)"
      by (auto simp: Let_def)
    with False True assms(3) show ?thesis by simp
  next
    case no: False
    with False assms(1) show ?thesis by (simp add: Let_def split: sum.splits gateway_error.splits)
  qed
qed

lemma weaker_refusal:
  assumes "if local then out_calls result = []
      else if cel then out_calls result = [] \<and> (\<exists>m d. out_result result = Inl (PolicyDeniedError m d))
      else (case out_result result of
          Inl (PolicyDeniedError m d) \<Rightarrow> (if out_calls result = [] then ai else True)
        | Inl (ValidationError e) \<Rightarrow> False
        | _ \<Rightarrow> True)"
    and "ai \<Longrightarrow> ai'"
  shows "if local then out_calls result = []
      else if cel then out_calls result = [] \<and> (\<exists>m d. out_result result = Inl (PolicyDeniedError m d))
      else (case out_result result of
          Inl (PolicyDeniedError m d) \<Rightarrow> (if out_calls result = [] then ai' else True)
        | Inl (ValidationError e) \<Rightarrow> False
        | _ \<Rightarrow> True)"
proof (cases "local \<or> cel")
  case True
  with assms(1) show ?thesis by auto
next
  case False
  with assms show ?thesis by (simp split: sum.splits gateway_error.splits if_splits)
qed

text \<open>
  C1. The gateway that is started from an accepted configuration enforces its request rules. Whatever
  else is configured, and under every schedule, clock and behaviour of the providers: a call that the rules of
  the file refuse reaches no tool and ends in a policy denial; and any other call is denied before its
  tool only if a provider, asked with the prompt of an enabled and enforced AI rule of the file,
  answered that it is not allowed.
\<close>

theorem started_gateway_enforces:
  "case finish_config L F dir found config of
     Inl e \<Rightarrow> True
   | Inr cfg \<Rightarrow>
       (case New E cfg version logDir of
          Inl e \<Rightarrow> True
        | Inr g \<Rightarrow>
            (case Start R env template listenErr nativeNames nativeTools callTool g of
               Inl e \<Rightarrow> True
             | Inr r \<Rightarrow>
                 let out = HandleToolCall (ru_gateway r) ctx sm T req in
                 if IsNativeTool (ToolName req) \<or> isl (ParsePrefixedName (ToolName req)) then out_calls out = []
                 else if rules_refuse E cfg req
                 then out_calls out = [] \<and> (\<exists>m d. out_result out = Inl (PolicyDeniedError m d))
                 else (case out_result out of
                     Inl (PolicyDeniedError m d) \<Rightarrow> (if out_calls out = [] then provider_refuses E R cfg req else True)
                   | Inl (ValidationError e) \<Rightarrow> False
                   | _ \<Rightarrow> True)))"
proof -
  {
    fix cfg g r
    assume new: "New E cfg version logDir = Inr g"
      and start: "Start R env template listenErr nativeNames nativeTools callTool g = Inr r"
    from start have gw: "ru_gateway r = start_chains R g (handler_of nativeTools callTool g)"
      by (auto simp: Start_def Let_def split: prod.splits sum.splits)
    let ?g = "ru_gateway r"
    let ?out = "HandleToolCall ?g ctx sm T req"
    obtain v b where ch: "chain_Handle (g_validationChain ?g req)
        (Some (NewBlockingBudget (T 0 1) (g_MaxBlockingMs ?g))) = ((v, None), b)"
      and v: "cel_refuses g req \<longrightarrow> DenyCount v > 0" "DenyCount v > 0 \<longrightarrow> cel_refuses g req \<or> ai_refuses R g req"
      unfolding gw by (rule started_request_chain)
    have "if IsNativeTool (ToolName req) \<or> isl (ParsePrefixedName (ToolName req)) then out_calls ?out = []
       else if cel_refuses g req then out_calls ?out = [] \<and> (\<exists>m d. out_result ?out = Inl (PolicyDeniedError m d))
       else (case out_result ?out of
           Inl (PolicyDeniedError m d) \<Rightarrow> (if out_calls ?out = [] then ai_refuses R g req else True)
         | Inl (ValidationError e) \<Rightarrow> False
         | _ \<Rightarrow> True)"
      using outcome_of_verdict [OF request_chain_outcome [where g = ?g and req = req and T = T, OF ch, of ctx sm] v] .
    then have "if IsNativeTool (ToolName req) \<or> isl (ParsePrefixedName (ToolName req)) then out_calls ?out = []
       else if rules_refuse E cfg req then out_calls ?out = [] \<and> (\<exists>m d. out_result ?out = Inl (PolicyDeniedError m d))
       else (case out_result ?out of
           Inl (PolicyDeniedError m d) \<Rightarrow> (if out_calls ?out = [] then provider_refuses E R cfg req else True)
         | Inl (ValidationError e) \<Rightarrow> False
         | _ \<Rightarrow> True)"
      unfolding cel_refuses_configured [OF new]
      by (rule weaker_refusal) (rule ai_refuses_configured [OF new])
  }
  note step = this
  show ?thesis
  proof (cases "finish_config L F dir found config")
    case cfg: (Inr cfg)
    show ?thesis
    proof (cases "New E cfg version logDir")
      case g: (Inr g)
      show ?thesis
      proof (cases "Start R env template listenErr nativeNames nativeTools callTool g")
        case (Inr r)
        show ?thesis unfolding cfg g Inr sum.case Let_def by (rule step [OF g Inr])
      qed (simp add: cfg g)
    qed (simp add: cfg)
  qed simp
qed

section \<open>Starting and stopping\<close>

text \<open>A gateway with an accepted configuration starts unless its server ends at once.\<close>

lemma accepted_config_starts:
  "case finish_config L F dir found config of
     Inl e \<Rightarrow> True
   | Inr cfg \<Rightarrow>
       (case New E cfg version logDir of
          Inl e \<Rightarrow> True
        | Inr g \<Rightarrow> isl (Start R env template listenErr nativeNames nativeTools callTool g) \<longleftrightarrow>
            listenErr (ToUpper (cf_ServerType cfg)) \<noteq> None)"
proof -
  {
    fix cfg g
    assume "finish_config L F dir found config = Inr cfg" and "New E cfg version logDir = Inr g"
    then have "server_ok cfg" "gw_config g = cfg"
      by (auto simp: finish_config_cases config_ok_def New_Inr Let_def split: prod.splits if_splits)
    moreover have "ToUpper ''stdio'' = ''STDIO''" "ToUpper ''sse'' = ''SSE''" "ToUpper ''http'' = ''HTTP''" by code_simp+
    ultimately have "isl (Start R env template listenErr nativeNames nativeTools callTool g) \<longleftrightarrow>
        listenErr (ToUpper (cf_ServerType cfg)) \<noteq> None"
      by (auto simp: Start_def initServer_def server_ok_def Let_def split: prod.splits option.splits)
  }
  then show ?thesis by (auto split: sum.split)
qed

text \<open>The lines of the pending entries are in the file when the gateway has stopped, and no session is left.\<close>

definition entry_line :: "(AuditEntry \<Rightarrow> go_error + string) \<Rightarrow> string \<Rightarrow> AuditEntry \<Rightarrow> string" where
  "entry_line Marshal flt e =
     (if flt = ''deny_only'' \<and> ae_Action e \<noteq> PolicyActionDeny then ''''
      else case Marshal e of Inl err \<Rightarrow> '''' | Inr data \<Rightarrow> data @ [CHR 0x0A])"

lemma write_entry:
  "aw_written (snd (aw_Write Marshal None (Some e) w)) = aw_written w @ entry_line Marshal (aw_filter w) e"
  "aw_filter (snd (aw_Write Marshal None (Some e) w)) = aw_filter w"
  by (auto simp: aw_Write_def entry_line_def split: sum.split)

lemma write_entries:
  "aw_written (fold (\<lambda>e w. snd (aw_Write Marshal None (Some e) w)) es w) =
     aw_written w @ concat (map (entry_line Marshal (aw_filter w)) es)"
  by (induction es arbitrary: w) (simp_all add: write_entry)

lemma close_sessions_map: "sm_sessions (snd (close_sessions closeErr ids sm)) = sm_sessions sm"
  by (induction closeErr ids sm rule: close_sessions.induct)
    (auto simp: close_at_def Let_def split: prod.splits)

lemma stop_writes_pending:
  assumes "Stop closeErr Marshal pending r = Some (errs, r')"
  shows "aw_written (ru_writer r') =
      aw_written (ru_writer r) @ concat (map (entry_line Marshal (aw_filter (ru_writer r))) pending)"
    "sm_sessions (cm_sessions (sv_manager (ru_server r'))) = []"
    "Stop closeErr Marshal again r' = None"
proof -
  obtain sm where sm: "CloseAllSessions closeErr (cm_sessions (sv_manager (ru_server r))) = (errs, sm)" "\<not> ru_stopped r"
    and r': "r' = r\<lparr> ru_server := with_manager (with_sessions sm (sv_manager (ru_server r))) (ru_server r),
      ru_writer := fold (\<lambda>entry w. snd (aw_Write Marshal None (Some entry) w)) pending (ru_writer r), ru_stopped := True \<rparr>"
    using assms by (auto simp: Stop_def Let_def split: if_splits prod.splits)
  show "aw_written (ru_writer r') =
      aw_written (ru_writer r) @ concat (map (entry_line Marshal (aw_filter (ru_writer r))) pending)"
    by (simp add: r' write_entries)
  have "sm_sessions sm = []"
    using close_sessions_map [of closeErr "sm_sessions (cm_sessions (sv_manager (ru_server r)))"
        "(cm_sessions (sv_manager (ru_server r)))\<lparr> sm_sessions := [] \<rparr>"] sm(1)
    by (simp add: CloseAllSessions_def)
  then show "sm_sessions (cm_sessions (sv_manager (ru_server r'))) = []"
    by (simp add: r' with_manager_def with_sessions_def)
  show "Stop closeErr Marshal again r' = None" by (simp add: r' Stop_def)
qed

section \<open>An example\<close>

text \<open>A configuration with one CEL rule, which denies everything, and a call to a tool of the server \<open>fs\<close>.\<close>

definition example_rule :: Policy where
  "example_rule = \<lparr> p_Name = ''no'', p_Description = '''', p_Expression = ''true'', p_MCPExpression = '''',
     p_CLIExpression = '''', p_Action = PolicyActionDeny, p_Message = ''no'', p_Enabled = None, p_Mode = '''' \<rparr>"

definition example_files :: rule_files where
  "example_files = \<lparr> rf_ReadFile = Inr, rf_Policies = (\<lambda>s. Inr [example_rule]), rf_AIPolicies = (\<lambda>s. Inr []),
     rf_ResponsePolicies = (\<lambda>s. Inr []), rf_AIResponsePolicies = (\<lambda>s. Inr []) \<rparr>"

definition example_config :: Config where
  "example_config =
     \<lparr> cf_ServerType = '''', cf_ListenAddr = '''', cf_TLSEnabled = False, cf_TLSCertFile = '''', cf_TLSKeyFile = '''',
       cf_TrustedProxies = [], cf_SessionTimeoutMinutes = 30, cf_MaxBlockingMs = 90000, cf_MaxRuleEvaluationMs = 45000,
       cf_AIProvider = '''', cf_AIEndpoint = '''', cf_AIModel = '''', cf_AIAPIKey = '''',
       cf_ReqCEL = \<lparr> pf_Enabled = True, pf_RulesFile = ''r'' \<rparr>, cf_ReqAI = \<lparr> pf_Enabled = False, pf_RulesFile = '''' \<rparr>,
       cf_RespCEL = \<lparr> pf_Enabled = False, pf_RulesFile = '''' \<rparr>, cf_RespAI = \<lparr> pf_Enabled = False, pf_RulesFile = '''' \<rparr>,
       cf_Phases = \<lparr> pm_ReqCELMode = PolicyModeEnforce, pm_ReqCELRules = [], pm_ReqAIMode = '''', pm_ReqAIRules = [],
         pm_RespCELMode = '''', pm_RespCELRules = [], pm_RespAIMode = '''', pm_RespAIRules = [] \<rparr>,
       cf_CLIEnabled = False, cf_ValidateCommands = [], cf_InterceptEnabled = False, cf_ShellToolNames = [],
       cf_Servers = [], cf_AuditPath = ''stdout'', cf_AuditFilter = ''all'', cf_IncludeArgumentValues = None,
       cf_LoggerLevel = ''info'', cf_LoggerPath = ''stderr'', cf_AuditLogEnabled = False, cf_AuditLogMaxEntries = 0,
       cf_AuditReportEnabled = False, cf_AuditReportMaxEntries = 0, cf_AuditReportTimeoutSeconds = 0,
       cf_AuditReportSystemPrompt = ''p'', cf_ListServersEnabled = False, cf_ListSessionsEnabled = False \<rparr>"

definition example_startup :: "(unit, unit) startup_env" where
  "example_startup =
     \<lparr> su_cel = Inr always_true_env, su_respCEL = Inr always_true_env,
       su_http = \<lparr> hl_ParseURL = (\<lambda>u. None), hl_URLQuery = (\<lambda>u. []), hl_NewRequest = (\<lambda>u. None),
         hl_Do = (\<lambda>r. Inl (OtherCause '''')), hl_Marshal = (\<lambda>d. Inr ''''), hl_UnmarshalOpenAI = (\<lambda>s. Inl (OtherCause '''')),
         hl_UnmarshalAnthropic = (\<lambda>s. Inl (OtherCause '''')), hl_ParseDuration = (\<lambda>s. None),
         hl_ParseRFC3339 = (\<lambda>s. None), hl_Now = 0 \<rparr>,
       su_Parameters = [], su_Headers = [], su_QueryParams = [], su_notWritable = (\<lambda>p. None), su_present = (\<lambda>p. ''''),
       su_callerHeader = '''', su_callerValues = '''' \<rparr>"

lemma example_refuses:
  "case finish_config \<lparr> cl_Quote = id, cl_UrlError = (\<lambda>u. None) \<rparr> example_files ''/etc'' True example_config of
     Inl e \<Rightarrow> False
   | Inr cfg \<Rightarrow> \<not> isl (New example_startup cfg ''1'' ''/log'') \<and> rules_refuse example_startup cfg req"
proof -
  let ?L = "\<lparr> cl_Quote = id, cl_UrlError = (\<lambda>u. None) \<rparr>"
  have v: "ValidateRelativePath ''r'' = None" "Clean ''/etc/r'' = ''/etc/r''" by code_simp+
  let ?p = "(cf_Phases example_config)\<lparr> pm_ReqCELRules := [example_rule] \<rparr>"
  let ?cfg = "normalized_config ?p (server_defaults example_config)"
  have "load_phases example_files ''/etc'' (server_defaults example_config) = ([], ?p)"
    by (simp add: load_phases_def phase_rules_def LoadPoliciesFromFile_def read_rules_def example_files_def example_config_def
        server_defaults_def v resolveRulesFilePath_def Let_def IsAbs_def path_join_def)
  moreover have "config_ok ?L ?cfg"
    by (simp add: config_ok_def modes_ok_def server_ok_def ai_ok_def ai_needed_def path_ok_def in_range_def normalized_config_def
        normalizePolicyModes_def server_defaults_def example_config_def example_rule_def PolicyMode_Normalize_def PolicyMode_IsValid_def)
  ultimately have "finish_config ?L example_files ''/etc'' True example_config = Inr ?cfg"
    by (simp add: finish_config_cases)
  moreover have "\<not> isl (New example_startup ?cfg ''1'' ''/log'')"
    by (simp add: New_def build_cel_def build_ai_def NewJSONLAuditWriter_def example_startup_def LoadCallerAuthConfig_def
        TrimSpace_def cel_LoadPolicies_def load_rules_def cel_check_policy_def compile_issue_def always_true_env_def
        normalized_config_def normalizePolicyModes_def server_defaults_def example_config_def example_rule_def
        PolicyMode_Normalize_def PolicyMode_IsValid_def Policy_IsEnabled_def Let_def)
  moreover have "rules_refuse example_startup ?cfg req"
    by (simp add: rules_refuse_def refused_by_rules_def decisive_def rule_expression_def expr_outcome_def run_outcome_def
        example_startup_def always_true_env_def IsAuditOnly_def Policy_IsEnabled_def
        normalized_config_def normalizePolicyModes_def server_defaults_def example_config_def example_rule_def
        PolicyMode_Normalize_def Let_def)
  ultimately show ?thesis by simp
qed

end
