(* ===== verification/ConfigLoad.thy ===== *)
theory ConfigLoad
  imports ConfigEnv ConfigValidation AuditLog
begin

text \<open>
  Loading a configuration (\<^verbatim>\<open>LoadConfig\<close> of \<^verbatim>\<open>internal/config/config.go\<close>) out of the parts of theories
  \<open>ConfigEnv\<close>, \<open>DownstreamConfig\<close> and \<open>ConfigValidation\<close>, the files a fresh installation gets
  (\<^verbatim>\<open>internal/config/defaults.go\<close>), and the loggers (\<^verbatim>\<open>GetLogger\<close>, \<^verbatim>\<open>session_logger.go\<close>). Reading a file into
  a structure, with its defaults, is the work of the viper library and a parameter.
\<close>

section \<open>Loading\<close>

definition TrimSuffix :: "string \<Rightarrow> string \<Rightarrow> string" where
  "TrimSuffix s suf =
     (if length suf \<le> length s \<and> drop (length s - length suf) s = suf then take (length s - length suf) s else s)"

text \<open>
  \<open>vp_Read dir name\<close> is the file that is found and read, if it can be parsed; \<open>vp_Unmarshal\<close> the
  structure that it, the variables and the defaults give, as reflection sees it, and \<open>vp_Config\<close> the settings
  in such a structure.
\<close>

record viper_lib =
  vp_Read :: "string \<Rightarrow> string \<Rightarrow> string option"
  vp_Dir :: "string \<Rightarrow> string"
  vp_Unmarshal :: "string option \<Rightarrow> string + gval"
  vp_Config :: "gval \<Rightarrow> Config"

definition config_base_name :: "string \<Rightarrow> string" where
  "config_base_name configFileName =
     (if configFileName \<noteq> '''' then TrimSuffix (TrimSuffix configFileName ''.yaml'') ''.yml'' else ''maybe-dont'')"

definition LoadConfig ::
  "dir_world \<Rightarrow> viper_lib \<Rightarrow> config_env \<Rightarrow> ((string \<times> string) list \<Rightarrow> (string \<times> string) list) \<Rightarrow> config_lib \<Rightarrow> rule_files \<Rightarrow>
     string \<Rightarrow> string \<Rightarrow> string + Config" where
  "LoadConfig D V E order L F configDir configFileName =
     (case ResolveConfigDir D configDir of
        Inl err \<Rightarrow> Inl (''failed to resolve config directory: '' @ err)
      | Inr resolvedConfigDir \<Rightarrow>
          let used = vp_Read V resolvedConfigDir (config_base_name configFileName);
              configFileDir = (case used of Some f \<Rightarrow> vp_Dir V f | None \<Rightarrow> resolvedConfigDir)
          in case vp_Unmarshal V used of
               Inl err \<Rightarrow> (case used of
                   Some f \<Rightarrow> Inl (''error unmarshaling config from '' @ f @ '': '' @ err)
                 | None \<Rightarrow> Inl (''error unmarshaling config: '' @ err))
             | Inr v \<Rightarrow>
                 let v1 = expandEnvironmentVariables (ce_Getenv E) v;
                     v2 = applyEnvironmentOverrides E ''MAYBE_DONT'' '''' v1;
                     config = vp_Config V v2;
                     config1 = config\<lparr> cf_Servers := parseDownstreamServersFromEnv order (cf_Servers config) ''MAYBE_DONT'' (ce_Environ E) \<rparr>
                 in finish_config L F configFileDir (used \<noteq> None) config1)"

section \<open>The default files\<close>

type_synonym file_system = "string \<Rightarrow> string option"

text \<open>The embedded contents are a parameter.\<close>

definition GetDefaultFiles :: "(string \<Rightarrow> string) \<Rightarrow> (string \<times> string) list" where
  "GetDefaultFiles content =
     map (\<lambda>name. (name, content name))
       [''maybe-dont.yaml'', ''cel_request_rules.yaml'', ''ai_request_rules.yaml'', ''cel_response_rules.yaml'',
        ''ai_response_rules.yaml'']"

text \<open>
  \<open>statErr\<close> is an error of asking for a file other than its absence, \<open>writeErr\<close> one of writing it; a
  file that cannot be written stays as it was. The result has the files created and what is printed.
\<close>

record file_faults =
  ff_stat :: "string \<Rightarrow> string option"
  ff_write :: "string \<Rightarrow> string option"
  ff_mkdir :: "string \<Rightarrow> string option"

record bootstrap =
  bs_created :: "string list"
  bs_notes :: "string list"
  bs_files :: file_system

definition write_default ::
  "(string list \<Rightarrow> string) \<Rightarrow> file_faults \<Rightarrow> string \<Rightarrow> string \<times> string \<Rightarrow> bootstrap \<Rightarrow> bootstrap" where
  "write_default join X configDir d b =
     (case d of (name, content) \<Rightarrow>
        let path = join [configDir, name] in
        case ff_write X path of
          Some err \<Rightarrow> b\<lparr> bs_notes := bs_notes b @ [''Note: Skipping default '' @ name @ '' (cannot write: '' @ err @
            ''). This is optional if configuring via environment variables.''] \<rparr>
        | None \<Rightarrow> b\<lparr> bs_created := bs_created b @ [name],
            bs_notes := bs_notes b @ [''Created default '' @ name @ '' at '' @ path],
            bs_files := (bs_files b)(path \<mapsto> content) \<rparr>)"

definition WriteDefaultsIfMissing ::
  "(string list \<Rightarrow> string) \<Rightarrow> file_faults \<Rightarrow> (string \<Rightarrow> string) \<Rightarrow> string \<Rightarrow> file_system \<Rightarrow> bootstrap" where
  "WriteDefaultsIfMissing join X content configDir fs =
     (let mainConfigPath = join [configDir, ''maybe-dont.yaml'']; b = \<lparr> bs_created = [], bs_notes = [], bs_files = fs \<rparr>
      in case ff_stat X mainConfigPath of
           Some err \<Rightarrow> b\<lparr> bs_notes := [''Note: Cannot check if config exists at '' @ mainConfigPath @ '': '' @ err @
             ''. Skipping bootstrap.''] \<rparr>
         | None \<Rightarrow>
             if fs mainConfigPath \<noteq> None then b
             else fold (write_default join X configDir) (GetDefaultFiles content) b)"

fun dump_files ::
  "(string list \<Rightarrow> string) \<Rightarrow> file_faults \<Rightarrow> bool \<Rightarrow> string \<Rightarrow> (string \<times> string) list \<Rightarrow> string list \<times> file_system \<Rightarrow>
     string option \<times> string list \<times> file_system" where
  "dump_files join X force outputDir [] (out, fs) = (None, out, fs)"
| "dump_files join X force outputDir ((name, content) # ds) (out, fs) =
     (let path = join [outputDir, name] in
      if \<not> force \<and> ff_stat X path = None \<and> fs path \<noteq> None
      then dump_files join X force outputDir ds (out @ [''Skipped '' @ path @ '' (already exists, use --force to overwrite)''], fs)
      else case ff_write X path of
        Some err \<Rightarrow> (Some (''failed to write '' @ name @ '': '' @ err), out, fs)
      | None \<Rightarrow> dump_files join X force outputDir ds
          (out @ [(if force then ''Overwrote '' else ''Created '') @ path], fs(path \<mapsto> content)))"

definition DumpDefaults ::
  "(string list \<Rightarrow> string) \<Rightarrow> file_faults \<Rightarrow> (string \<Rightarrow> string) \<Rightarrow> string \<Rightarrow> bool \<Rightarrow> file_system \<Rightarrow>
     string option \<times> string list \<times> file_system" where
  "DumpDefaults join X content outputDir force fs =
     (case ff_mkdir X outputDir of
        Some err \<Rightarrow> (Some (''failed to create output directory: '' @ err), [], fs)
      | None \<Rightarrow> dump_files join X force outputDir (GetDefaultFiles content) ([], fs))"

section \<open>Loggers\<close>

datatype log_sink = LogStderr | LogStdout | LogFile string

text \<open>\<open>lw_ParseLevel\<close> is the error of a level that is not known, \<open>lw_Open\<close> one of opening a file to append.\<close>

record log_world =
  lw_ParseLevel :: "string \<Rightarrow> string option"
  lw_Join :: "string list \<Rightarrow> string"
  lw_Dir :: "string \<Rightarrow> string"
  lw_MkdirAll :: "string \<Rightarrow> string option"
  lw_Open :: "string \<Rightarrow> string option"
  lw_Close :: "string \<Rightarrow> string option"

definition ensureFileWritable :: "log_world \<Rightarrow> string \<Rightarrow> string option" where
  "ensureFileWritable W path =
     (let dir = lw_Dir W path in
      case lw_MkdirAll W dir of
        Some err \<Rightarrow> Some (''cannot create directory '' @ dir @ '': '' @ err)
      | None \<Rightarrow> (case lw_Open W path of Some err \<Rightarrow> Some err | None \<Rightarrow> lw_Close W path))"

definition GetLogger :: "log_world \<Rightarrow> Config \<Rightarrow> string \<Rightarrow> string + log_sink" where
  "GetLogger W cfg logDir =
     (case lw_ParseLevel W (cf_LoggerLevel cfg) of
        Some err \<Rightarrow> Inl (''invalid log level: '' @ err)
      | None \<Rightarrow>
          let logPath = cf_LoggerPath cfg in
          if logPath = '''' \<or> logPath = ''stderr'' then Inr LogStderr
          else if logPath = ''stdout'' then Inr LogStdout
          else let fullPath = lw_Join W [logDir, logPath]
               in case ensureFileWritable W fullPath of
                    Some err \<Rightarrow> Inl (''cannot write to log file '' @ fullPath @ '': '' @ err)
                  | None \<Rightarrow> Inr (LogFile fullPath))"

text \<open>A log field is a key and a value; the identifiers come from the request's context.\<close>

definition extract_id :: "string option \<Rightarrow> string" where
  "extract_id v = (case v of Some i \<Rightarrow> i | None \<Rightarrow> ''-'')"

definition buildFields :: "string option \<Rightarrow> string option \<Rightarrow> (string \<times> 'v) list \<Rightarrow> (string \<Rightarrow> 'v) \<Rightarrow> (string \<times> 'v) list" where
  "buildFields requestID sessionID flds text_value =
     (let hasRequestID = list_ex (\<lambda>f. fst f = ''request_id'') flds;
          hasSessionID = list_ex (\<lambda>f. fst f = ''session_id'') flds
      in (if \<not> hasRequestID then [(''request_id'', text_value (extract_id requestID))] else []) @
         (if \<not> hasSessionID then [(''session_id'', text_value (extract_id sessionID))] else []) @ flds)"

lemma has_field [simp]: "list_ex (\<lambda>f. fst f = k) flds \<longleftrightarrow> k \<in> fst ` set flds"
  by (auto simp: list_ex_iff)

lemma buildFields_keys:
  "distinct (map fst flds) \<Longrightarrow> distinct (map fst (buildFields r s flds f))"
  "{''request_id'', ''session_id''} \<subseteq> set (map fst (buildFields r s flds f))"
  by (cases "''request_id'' \<in> fst ` set flds"; cases "''session_id'' \<in> fst ` set flds"; simp add: buildFields_def Let_def)+

section \<open>What the default files do\<close>

text \<open>The files after writing those that can be written.\<close>

lemma fold_write_default:
  assumes "inj_on (\<lambda>d. join [dir, fst d]) (set ds)" "distinct ds"
  shows "bs_files (fold (write_default join X dir) ds b) path =
    (case find (\<lambda>d. join [dir, fst d] = path) ds of
       Some d \<Rightarrow> if ff_write X path = None then Some (snd d) else bs_files b path
     | None \<Rightarrow> bs_files b path)"
  using assms
proof (induction ds arbitrary: b)
  case (Cons d ds)
  obtain name content where d: "d = (name, content)" by (cases d)
  have one: "bs_files (write_default join X dir (name, content) b) p =
      (if p = join [dir, name] \<and> ff_write X p = None then Some content else bs_files b p)" for p
    by (auto simp: write_default_def Let_def split: option.split)
  have none: "find (\<lambda>d. join [dir, fst d] = join [dir, name]) ds = None"
    using Cons.prems by (force simp: find_None_iff d inj_on_def)
  have ih: "bs_files (fold (write_default join X dir) ds b') path =
    (case find (\<lambda>d. join [dir, fst d] = path) ds of
       Some d \<Rightarrow> if ff_write X path = None then Some (snd d) else bs_files b' path
     | None \<Rightarrow> bs_files b' path)" for b'
    using Cons.prems by (intro Cons.IH) (auto intro: inj_on_subset)
  show ?case
  proof (cases "join [dir, name] = path")
    case True
    with none show ?thesis by (auto simp: ih one d)
  next
    case False
    then show ?thesis by (auto simp: ih one d split: option.split)
  qed
qed simp

lemma default_names: "map fst (GetDefaultFiles content) =
    [''maybe-dont.yaml'', ''cel_request_rules.yaml'', ''ai_request_rules.yaml'', ''cel_response_rules.yaml'',
     ''ai_response_rules.yaml'']"
  by (simp add: GetDefaultFiles_def)

lemma default_content: "d \<in> set (GetDefaultFiles content) \<Longrightarrow> snd d = content (fst d)"
  by (auto simp: GetDefaultFiles_def)

text \<open>
  Nothing is written when the main file exists or cannot be looked for. Otherwise each of the five files
  that can be written has its default contents afterwards, whatever it held before: rule files that
  the operator had put there, to be used with a main file of another name or with variables alone, are lost.
\<close>

lemma bootstrap_exact:
  assumes "inj_on (\<lambda>name. join [dir, name]) (set (map fst (GetDefaultFiles content)))"
    and "name \<in> set (map fst (GetDefaultFiles content))"
  shows "let main = join [dir, ''maybe-dont.yaml'']; path = join [dir, name];
      fs' = bs_files (WriteDefaultsIfMissing join X content dir fs)
    in if ff_stat X main \<noteq> None \<or> fs main \<noteq> None then fs' = fs
       else fs' path = (if ff_write X path = None then Some (content name) else fs path)"
proof -
  let ?ds = "GetDefaultFiles content"
  from assms(2) obtain d where d: "d \<in> set ?ds" "fst d = name" by auto
  have inj: "inj_on (\<lambda>d. join [dir, fst d]) (set ?ds)"
  proof (rule inj_onI)
    fix x y assume xy: "x \<in> set ?ds" "y \<in> set ?ds" "join [dir, fst x] = join [dir, fst y]"
    then have "fst x = fst y" using assms(1) by (auto simp: inj_on_def)
    with xy(1,2) show "x = y" by (metis default_content prod.collapse)
  qed
  have dist: "distinct ?ds" by (simp add: GetDefaultFiles_def)
  obtain d' where d': "find (\<lambda>d. join [dir, fst d] = join [dir, name]) ?ds = Some d'"
    using d by (metis (mono_tags) find_None_iff option.exhaust)
  then have "d' \<in> set ?ds" "join [dir, fst d'] = join [dir, name]" by (auto simp: find_Some_iff)
  with inj d have "d' = d" by (auto simp: inj_on_def)
  with d d' show ?thesis
    by (auto simp: WriteDefaultsIfMissing_def fold_write_default [OF inj dist] default_content Let_def split: option.split)
qed

text \<open>Exporting without force keeps every file there is.\<close>

lemma dump_keeps:
  "fs path = Some c \<Longrightarrow> ff_stat X path = None \<Longrightarrow>
     snd (snd (dump_files join X False dir ds (out, fs))) path = Some c"
proof (induction ds arbitrary: out fs)
  case (Cons d ds)
  obtain name content where d: "d = (name, content)" by (cases d)
  show ?case
  proof (cases "join [dir, name] = path")
    case True
    with Cons show ?thesis by (simp add: d)
  next
    case False
    with Cons show ?thesis by (simp add: d Let_def split: option.split)
  qed
qed simp

end
