(* ===== verification/Commands.thy ===== *)
theory Commands
  imports ConfigLoad Startup SuiteRunner
begin

text \<open>
  The commands (\<^verbatim>\<open>cmd\<close>): what each asks of the parts modelled elsewhere, in which order, and with which code
  the process ends. Parsing the flags and printing help is the work of the cobra library; the flags are
  records. The embedded hook scripts and skills (\<^verbatim>\<open>internal/hooks\<close>, \<^verbatim>\<open>internal/skills\<close>) are looked up here.
\<close>

section \<open>How a command ends\<close>

text \<open>A command returns, with an error or without, or exits with a code after writing to standard error.\<close>

datatype command_end = Done | Failure string | Exit int "string list"

text \<open>\<^verbatim>\<open>Execute\<close>: the code of the process and what it writes to standard error.\<close>

definition Execute :: "command_end \<Rightarrow> int \<times> string list" where
  "Execute e =
     (case e of
        Done \<Rightarrow> (0, [])
      | Failure err \<Rightarrow> (1, [''Error: '' @ err])
      | Exit code messages \<Rightarrow> (code, messages))"

definition exit_code :: "command_end \<Rightarrow> int" where
  "exit_code e = fst (Execute e)"

section \<open>Directories and files of the gateway\<close>

record gateway_flags =
  gf_configDir :: string
  gf_logDir :: string
  gf_configFileName :: string

definition flag_or_env :: "dir_world \<Rightarrow> string \<Rightarrow> string \<Rightarrow> string" where
  "flag_or_env D flag variable = (if flag = '''' then dw_Getenv D variable else flag)"

definition config_info :: "dir_world \<Rightarrow> gateway_flags \<Rightarrow> command_end \<times> string list" where
  "config_info D f =
     (case ResolveConfigDir D (flag_or_env D (gf_configDir f) ''MAYBE_DONT_CONFIG_DIR'') of
        Inl err \<Rightarrow> (Failure (''failed to resolve config directory: '' @ err), [])
      | Inr configDir \<Rightarrow>
      (case ResolveLogDir D (flag_or_env D (gf_logDir f) ''MAYBE_DONT_LOG_DIR'') of
         Inl err \<Rightarrow> (Failure (''failed to resolve log directory: '' @ err), [])
       | Inr logDir \<Rightarrow> (Done, [''Config directory: '' @ configDir, ''Log directory:    '' @ logDir])))"

definition defaults_export ::
  "(string list \<Rightarrow> string) \<Rightarrow> file_faults \<Rightarrow> (string \<Rightarrow> string) \<Rightarrow> string \<Rightarrow> bool \<Rightarrow> file_system \<Rightarrow>
     command_end \<times> string list \<times> file_system" where
  "defaults_export join X content outputDir force fs =
     (if outputDir = '''' then (Failure ''--output-dir is required'', [], fs)
      else case DumpDefaults join X content outputDir force fs of
        (Some err, out, fs') \<Rightarrow> (Failure (''failed to export defaults: '' @ err), out, fs')
      | (None, out, fs') \<Rightarrow> (Done, out, fs'))"

text \<open>
  The preparation of every gateway command. \<open>load\<close> is \<open>LoadConfig\<close> with the world as the bootstrap left
  it, which writes the default files.
\<close>

record prepared =
  pp_config :: Config
  pp_logDir :: string
  pp_logger :: log_sink

definition gateway_prepare ::
  "dir_world \<Rightarrow> log_world \<Rightarrow> file_faults \<Rightarrow> (string \<Rightarrow> string) \<Rightarrow> (file_system \<Rightarrow> string \<Rightarrow> string \<Rightarrow> string + Config) \<Rightarrow>
     gateway_flags \<Rightarrow> file_system \<Rightarrow> (string + prepared) \<times> string list \<times> file_system" where
  "gateway_prepare D W X content load f fs =
     (case ResolveConfigDir D (flag_or_env D (gf_configDir f) ''MAYBE_DONT_CONFIG_DIR'') of
        Inl err \<Rightarrow> (Inl (''failed to resolve config directory: '' @ err), [], fs)
      | Inr configDir \<Rightarrow>
          let name0 = flag_or_env D (gf_configFileName f) ''MAYBE_DONT_CONFIG_FILE_NAME'';
              fileName = (if name0 = '''' then ''maybe-dont.yaml'' else name0);
              b = WriteDefaultsIfMissing (dw_Join D) X content configDir fs;
              out = [if length (bs_created b) > 0 then ''Configuration initialized at '' @ configDir
                     else ''Using configuration '' @ dw_Join D [configDir, fileName]]
          in case ResolveLogDir D (flag_or_env D (gf_logDir f) ''MAYBE_DONT_LOG_DIR'') of
               Inl err \<Rightarrow> (Inl (''failed to resolve log directory: '' @ err), out, bs_files b)
             | Inr logDir \<Rightarrow>
             (case load (bs_files b) configDir fileName of
                Inl err \<Rightarrow> (Inl (''failed to load config: '' @ err), out, bs_files b)
              | Inr cfg \<Rightarrow>
                  let out1 = out @ (if cf_LoggerPath cfg \<notin> {'''', ''stdout'', ''stderr''} then [''Logging to '' @ logDir] else [])
                  in case GetLogger W cfg logDir of
                       Inl err \<Rightarrow> (Inl (''failed to create logger: '' @ err), out1, bs_files b)
                     | Inr sink \<Rightarrow> (Inr \<lparr> pp_config = cfg, pp_logDir = logDir, pp_logger = sink \<rparr>, out1, bs_files b)))"

section \<open>Starting the gateway\<close>

text \<open>
  \<open>errText\<close> is the text of a startup error, \<open>pending\<close> the entries still to be written when the signal to stop
  arrives. \<open>None\<close> is a panic.
\<close>

definition start_command ::
  "(startup_error \<Rightarrow> string) \<Rightarrow> ('ast, 'prg) startup_env \<Rightarrow> 're runtime \<Rightarrow> 'c mcp_env \<Rightarrow> (string \<Rightarrow> bool) \<Rightarrow>
     (string \<Rightarrow> go_error option) \<Rightarrow> string list \<Rightarrow>
     (CallToolRequest \<Rightarrow> 'c SessionManager \<Rightarrow> (go_error + CallToolResult) \<times> 'c SessionManager) \<Rightarrow>
     ('c SessionClientInfo \<Rightarrow> CallToolRequest \<Rightarrow> go_error + CallToolResult) \<Rightarrow> string \<Rightarrow> prepared \<Rightarrow> command_end + 'c running" where
  "start_command errText E R env template listenErr nativeNames nativeTools callTool version p =
     (case New E (pp_config p) version (pp_logDir p) of
        Inl err \<Rightarrow> Inl (Failure (''failed to create gateway: '' @ errText err))
      | Inr g \<Rightarrow> (case Start R env template listenErr nativeNames nativeTools callTool g of
          Inl err \<Rightarrow> Inl (Failure (''failed to start gateway: '' @ errText err))
        | Inr r \<Rightarrow> Inr r))"

definition stop_command ::
  "('c \<Rightarrow> go_error option) \<Rightarrow> (AuditEntry \<Rightarrow> go_error + string) \<Rightarrow> AuditEntry list \<Rightarrow> 'c running \<Rightarrow>
     (command_end \<times> 'c running) option" where
  "stop_command closeErr Marshal pending r =
     (case Stop closeErr Marshal pending r of None \<Rightarrow> None | Some (_, stopped) \<Rightarrow> Some (Done, stopped))"

section \<open>Testing policies\<close>

record test_flags =
  tf_suiteDir :: string
  tf_engine :: string
  tf_model :: string
  tf_runMatrix :: bool
  tf_outputFormat :: string
  tf_outputFile :: string
  tf_quiet :: bool
  tf_tags :: string
  tf_excludeTags :: string
  tf_casePattern :: string
  tf_validateOnly :: bool
  tf_includeDisabled :: bool
  tf_timeout :: int
  tf_requestsPerMinute :: int
  tf_maxTests :: int
  tf_wait :: bool
  tf_stateFile :: string
  tf_incremental :: bool
  tf_full :: bool
  tf_retryFailed :: bool
  tf_summaryOnly :: bool
  tf_historyDepth :: int

definition useState :: "test_flags \<Rightarrow> bool" where
  "useState f \<longleftrightarrow> tf_incremental f \<or> tf_full f \<or> tf_summaryOnly f"

definition flag_error :: "test_flags \<Rightarrow> string option" where
  "flag_error f =
     (if tf_incremental f \<and> tf_full f then Some ''cannot use both --incremental and --full''
      else if tf_model f \<noteq> '''' \<and> tf_runMatrix f
      then Some ''cannot use both --model and --matrix; --model selects specific models, --matrix runs all enabled models''
      else if tf_stateFile f \<noteq> '''' \<and> \<not> useState f then Some ''--state-file requires --incremental or --full''
      else if tf_wait f \<and> \<not> useState f then Some ''--wait requires --incremental or --full''
      else if tf_summaryOnly f \<and> tf_validateOnly f then Some ''cannot use both --summary-only and --validate-only''
      else None)"

definition defaultStateFilePath :: "dir_world \<Rightarrow> string + string" where
  "defaultStateFilePath D =
     (let xdgState = dw_Getenv D ''XDG_STATE_HOME''
      in if xdgState \<noteq> '''' then Inr (dw_Join D [dw_Join D [xdgState, ''maybe-dont''], ''policy-test-state.json''])
         else case dw_Home D of
           Inl err \<Rightarrow> Inl (''cannot determine home directory: '' @ err)
         | Inr homeDir \<Rightarrow>
             Inr (dw_Join D [dw_Join D [homeDir, ''.local'', ''state'', ''maybe-dont''], ''policy-test-state.json'']))"

definition runner_options :: "string \<Rightarrow> string \<Rightarrow> test_flags \<Rightarrow> RunnerOptions" where
  "runner_options version stateFile f =
     \<lparr> opt_SuiteDir = tf_suiteDir f, opt_Engine = tf_engine f, opt_Model = tf_model f, opt_RunMatrix = tf_runMatrix f,
       opt_OutputFormat = tf_outputFormat f, opt_OutputFile = tf_outputFile f, opt_Quiet = tf_quiet f, opt_Tags = tf_tags f,
       opt_ExcludeTags = tf_excludeTags f, opt_CasePattern = tf_casePattern f, opt_ValidateOnly = tf_validateOnly f,
       opt_IncludeDisabled = tf_includeDisabled f, opt_TimeoutMs = tf_timeout f,
       opt_RequestsPerMinute = tf_requestsPerMinute f, opt_MaxTests = tf_maxTests f, opt_Wait = tf_wait f,
       opt_StateFile = stateFile, opt_Force = tf_full f, opt_RetryFailed = tf_retryFailed f,
       opt_SummaryOnly = tf_summaryOnly f, opt_HistoryDepth = tf_historyDepth f, opt_ProductVersion = version \<rparr>"

text \<open>\<open>xt\<close> is the text of an error of the executor.\<close>

definition handleRunnerError :: "suite_lib \<Rightarrow> (executor_error \<Rightarrow> string) \<Rightarrow> suite_error \<Rightarrow> command_end" where
  "handleRunnerError L xt err =
     (let text' = suite_error_text (slb_Quote L) xt err
      in case err of
           SchemaValidationError _ _ \<Rightarrow> Exit 2 [''Schema validation failed: '' @ text']
         | PolicyIntegrityError _ _ \<Rightarrow> Exit 3 [''Policy integrity check failed: '' @ text']
         | PathResolutionError _ _ \<Rightarrow> Exit 4 [''Path resolution failed: '' @ text']
         | _ \<Rightarrow> Failure text')"

definition state_path :: "dir_world \<Rightarrow> test_flags \<Rightarrow> string + string" where
  "state_path D f = (if useState f \<and> tf_stateFile f = '''' then defaultStateFilePath D else Inr (tf_stateFile f))"

text \<open>\<open>None\<close> is a panic in the run. \<open>dirOf\<close> is \<^verbatim>\<open>filepath.Dir\<close> and \<open>mkdirErr\<close> the error of making a directory.\<close>

definition runTestPolicies ::
  "dir_world \<Rightarrow> (string \<Rightarrow> string) \<Rightarrow> (string \<Rightarrow> string option) \<Rightarrow> (executor_error \<Rightarrow> string) \<Rightarrow> suite_lib \<Rightarrow>
     ('ast, 'prg, 're) run_world \<Rightarrow> string \<Rightarrow> test_flags \<Rightarrow> files \<Rightarrow> (command_end \<times> files) option" where
  "runTestPolicies D dirOf mkdirErr xt L W version f fs =
     (case flag_error f of
        Some err \<Rightarrow> Some (Failure err, fs)
      | None \<Rightarrow>
      (case state_path D f of
         Inl err \<Rightarrow> Some (Failure (''failed to determine default state file path: '' @ err), fs)
       | Inr stateFile \<Rightarrow>
      (case (if stateFile \<noteq> '''' then mkdirErr (dirOf stateFile) else None) of
         Some err \<Rightarrow> Some (Failure (''failed to create state directory '' @ dirOf stateFile @ '': '' @ err), fs)
       | None \<Rightarrow>
      (case NewRunner L (runner_options version stateFile f) of
         Inl err \<Rightarrow> Some (handleRunnerError L xt err, fs)
       | Inr runner \<Rightarrow>
      (case Run L W runner fs of
         None \<Rightarrow> None
       | Some (Inl err, fs') \<Rightarrow> Some (handleRunnerError L xt err, fs')
       | Some (Inr result, fs') \<Rightarrow>
           Some (if run_MoreTestsRemain result then Exit 5 []
                 else if \<not> run_ThresholdsMet result then Exit 1 []
                 else Done, fs'))))))"

section \<open>Embedded scripts and skills\<close>

record Hook =
  hk_Name :: string
  hk_Description :: string
  hk_Script :: string
  hk_Config :: string

text \<open>\<open>script\<close> and \<open>conf\<close> are the embedded contents by agent.\<close>

definition Hooks :: "(string \<Rightarrow> string) \<Rightarrow> (string \<Rightarrow> string) \<Rightarrow> Hook list" where
  "Hooks script conf =
     map (\<lambda>(name, description). \<lparr> hk_Name = name, hk_Description = description, hk_Script = script name, hk_Config = conf name \<rparr>)
       [(''claude-code'', ''Claude Code PreToolUse/PostToolUse hooks''), (''cursor'', ''Cursor shell and MCP execution hooks''),
        (''gemini-cli'', ''Gemini CLI BeforeTool/AfterTool hooks''), (''cline'', ''Cline PreToolUse/PostToolUse hooks''),
        (''copilot'', ''GitHub Copilot PreToolUse/PostToolUse hooks'')]"

definition GetHook :: "Hook list \<Rightarrow> string \<Rightarrow> Hook option" where
  "GetHook hooks name = find (\<lambda>h. hk_Name h = name) hooks"

definition HookNames :: "Hook list \<Rightarrow> string list" where
  "HookNames hooks = map hk_Name hooks"

text \<open>What is printed, and how the command ends.\<close>

definition runHooksExport :: "Hook list \<Rightarrow> string \<Rightarrow> bool \<Rightarrow> string \<times> command_end" where
  "runHooksExport hooks agent conf =
     (case GetHook hooks agent of
        None \<Rightarrow> ('''', Exit 1 ([''Error: agent '' @ squote agent @ '' not found'', '''', ''Available agents:''] @
          map (\<lambda>h. ''  '' @ hk_Name h) hooks))
      | Some hook \<Rightarrow> (if conf then hk_Config hook else hk_Script hook, Done))"

definition pad_right :: "nat \<Rightarrow> string \<Rightarrow> string" where
  "pad_right n s = s @ replicate (n - length s) CHR '' ''"

definition runHooksList :: "Hook list \<Rightarrow> string list" where
  "runHooksList hooks =
     [''Available hook agents:''] @ map (\<lambda>h. ''  '' @ pad_right 12 (hk_Name h) @ '' '' @ hk_Description h) hooks @
     ['''', ''Use 'maybe-dont hooks export --agent <name>' to output a hook script.'',
      ''Use 'maybe-dont hooks export --agent <name> --config' to output a config snippet.'']"

record Skill =
  sk_Name :: string
  sk_Description :: string
  sk_Formats :: "(string \<times> string) list"

definition AvailableFormats :: "string list" where
  "AvailableFormats = [''claude'', ''cursor'', ''copilot'', ''generic'']"

definition Skills :: "(string \<Rightarrow> string \<Rightarrow> string) \<Rightarrow> Skill list" where
  "Skills content =
     map (\<lambda>(name, description). \<lparr> sk_Name = name, sk_Description = description,
            sk_Formats = map (\<lambda>f. (f, content name f)) AvailableFormats \<rparr>)
       [(''cli'', ''CLI command validation skill for AI agents''), (''cel-policy'', ''CEL deterministic policy authoring guide''),
        (''ai-policy'', ''AI LLM-powered policy authoring guide''),
        (''test-case'', ''Policy test case and suite configuration guide'')]"

definition GetSkill :: "Skill list \<Rightarrow> string \<Rightarrow> Skill option" where
  "GetSkill skills name = find (\<lambda>s. sk_Name s = name) skills"

definition runSkillView :: "Skill list \<Rightarrow> string \<Rightarrow> string \<Rightarrow> string \<times> command_end" where
  "runSkillView skills name format =
     (case GetSkill skills name of
        None \<Rightarrow> ('''', Exit 1 ([''Error: skill '' @ squote name @ '' not found'', '''', ''Available skills:''] @
          map (\<lambda>s. ''  '' @ sk_Name s) skills))
      | Some skill \<Rightarrow> (case map_of (sk_Formats skill) format of
          None \<Rightarrow> ('''', Exit 1 ([''Error: format '' @ squote format @ '' not supported'', '''', ''Available formats:''] @
            map (\<lambda>f. ''  '' @ f) AvailableFormats))
        | Some content \<Rightarrow> (content, Done)))"

definition runSkillList :: "Skill list \<Rightarrow> string list" where
  "runSkillList skills =
     [''Available skills:''] @ map (\<lambda>s. ''  '' @ pad_right 8 (sk_Name s) @ '' '' @ sk_Description s) skills @
     ['''', ''Supported formats: '' @ join_with '', '' AvailableFormats, '''',
      ''Use 'maybe-dont skill view <name> --format <format>' to output a skill definition.'']"

text \<open>The listed names are those the other commands know.\<close>

lemma hook_exported:
  assumes "agent \<in> set (HookNames (Hooks script conf))"
  shows "runHooksExport (Hooks script conf) agent c = (if c then conf agent else script agent, Done)"
  using assms by (auto simp: runHooksExport_def GetHook_def HookNames_def Hooks_def)

lemma skill_viewed:
  assumes "name \<in> set (map sk_Name (Skills content))" and "format \<in> set AvailableFormats"
  shows "runSkillView (Skills content) name format = (content name format, Done)"
  using assms by (auto simp: runSkillView_def GetSkill_def Skills_def AvailableFormats_def)

section \<open>What the exit code of a test run says\<close>

text \<open>Enough of the decided results passed, and tests are left that the limit did not allow.\<close>

definition enough_passed :: "Runner \<Rightarrow> TestResult list \<Rightarrow> bool" where
  "enough_passed r results =
     (let good = number_of passes results + number_of fails_extra results;
          decided = good + number_of fails results
      in if decided = 0 then True else min_match_rate (rn_suite r) \<le> of_int good / of_int decided)"

definition tests_left :: "Runner \<Rightarrow> TestResult list \<Rightarrow> bool" where
  "tests_left r results \<longleftrightarrow>
     opt_MaxTests (rn_opts r) > 0 \<and> length results < length (fst (filterTestCases r))"

lemma calculateResults_end:
  "run_ThresholdsMet (calculateResults r results) = enough_passed r results"
  "run_MoreTestsRemain (calculateResults r results) = tests_left r results"
proof -
  let ?d = "number_of passes results + number_of fails results + number_of fails_extra results"
  have d: "number_of passes results + number_of fails_extra results + number_of fails results = ?d" by simp
  show "run_ThresholdsMet (calculateResults r results) = enough_passed r results"
    unfolding calculateResults_rate(2) [OF refl] calculateResults_rate(1) [OF refl] enough_passed_def Let_def d by simp
  show "run_MoreTestsRemain (calculateResults r results) = tests_left r results"
    unfolding calculateResults_def foldl_count_result Let_def
    by (auto simp: set_remaining_def tally_def no_run_result_def tests_left_def Let_def)
qed

lemma executeTests_end:
  assumes "executeTests L W r st = Some (Inr (res, results), st')"
  shows "run_ThresholdsMet res = enough_passed r results" and "run_MoreTestsRemain res = tests_left r results"
proof -
  have "res = calculateResults r results \<or>
      res = no_run_result\<lparr> run_ThresholdsMet := True, run_TotalCases := 0 \<rparr> \<and> results = [] \<and> fst (filterTestCases r) = []"
    using assms by (auto simp: executeTests_def Let_def split: sum.splits if_splits option.splits prod.splits)
  then show "run_ThresholdsMet res = enough_passed r results" "run_MoreTestsRemain res = tests_left r results"
    by (auto simp: calculateResults_end no_run_result_def enough_passed_def tests_left_def number_of_def)
qed

lemma prepare_run_opts: "prepare_run L r0 = Inr r \<Longrightarrow> rn_opts r = rn_opts r0"
  by (auto simp: prepare_run_def loadSuite_def discoverTestCases_def computePolicyHashes_def Let_def
      split: sum.splits option.splits if_splits prod.splits)

lemma NewRunner_opts: "NewRunner L opts = Inr r \<Longrightarrow> rn_opts r = opts"
  by (auto simp: NewRunner_def split: sum.splits if_splits)

lemma Run_end:
  assumes "Run L W runner fs = Some (Inr result, fs')"
    and "\<not> opt_ValidateOnly (rn_opts runner)" and "\<not> opt_SummaryOnly (rn_opts runner)"
  shows "\<exists>r sm results st'. prepare_run L runner = Inr r \<and>
    executeTests L W r (sm, fs) = Some (Inr (result, results), st')"
proof (cases "prepare_run L runner")
  case (Inr r)
  have "rn_opts r = rn_opts runner" using Inr by (rule prepare_run_opts)
  with assms Inr show ?thesis
    unfolding Run_def by (auto split: sum.splits option.splits prod.splits)
qed (use assms in \<open>simp add: Run_def\<close>)

text \<open>The suite cannot be run: its runner is not made, or the run ends with an error.\<close>

definition suite_stopped ::
  "suite_lib \<Rightarrow> ('ast, 'prg, 're) run_world \<Rightarrow> string \<Rightarrow> test_flags \<Rightarrow> files \<Rightarrow> suite_error \<Rightarrow> bool" where
  "suite_stopped L W version f fs err \<longleftrightarrow>
     (\<exists>stateFile. NewRunner L (runner_options version stateFile f) = Inl err \<or>
       (\<exists>runner fs'. NewRunner L (runner_options version stateFile f) = Inr runner \<and>
          Run L W runner fs = Some (Inl err, fs')))"

lemma suite_stoppedI:
  "NewRunner L (runner_options version stateFile f) = Inl err \<Longrightarrow> suite_stopped L W version f fs err"
  "NewRunner L (runner_options version stateFile f) = Inr runner \<Longrightarrow> Run L W runner fs = Some (Inl err, fs') \<Longrightarrow>
     suite_stopped L W version f fs err"
  by (auto simp: suite_stopped_def)

text \<open>The tests of the suite ran, with these results.\<close>

definition suite_ran ::
  "suite_lib \<Rightarrow> ('ast, 'prg, 're) run_world \<Rightarrow> string \<Rightarrow> test_flags \<Rightarrow> files \<Rightarrow> Runner \<Rightarrow> TestResult list \<Rightarrow> bool" where
  "suite_ran L W version f fs r results \<longleftrightarrow>
     (\<exists>stateFile runner sm res st'. NewRunner L (runner_options version stateFile f) = Inr runner \<and>
       prepare_run L runner = Inr r \<and> executeTests L W r (sm, fs) = Some (Inr (res, results), st'))"

lemma runTestPolicies_cases:
  assumes "runTestPolicies D dirOf mkdirErr xt L W version f fs = Some (e, fs')"
    and "\<not> tf_validateOnly f" "\<not> tf_summaryOnly f"
  obtains (failed) m where "e = Failure m"
  | (stopped) err where "e = handleRunnerError L xt err" "suite_stopped L W version f fs err"
  | (ran) r results where "suite_ran L W version f fs r results"
      "e = (if tests_left r results then Exit 5 [] else if \<not> enough_passed r results then Exit 1 [] else Done)"
proof -
  consider (err) m where "e = Failure m"
    | (suite) err where "e = handleRunnerError L xt err" "suite_stopped L W version f fs err"
    | (ran) stateFile runner result fs2 where
        "NewRunner L (runner_options version stateFile f) = Inr runner" "Run L W runner fs = Some (Inr result, fs2)"
        "e = (if run_MoreTestsRemain result then Exit 5 [] else if \<not> run_ThresholdsMet result then Exit 1 [] else Done)"
    using assms(1) unfolding runTestPolicies_def
    by (fastforce intro: suite_stoppedI split: option.splits sum.splits prod.splits)
  then show thesis
  proof cases
    case r: (ran stateFile runner result fs2)
    have "\<not> opt_ValidateOnly (rn_opts runner)" "\<not> opt_SummaryOnly (rn_opts runner)"
      using NewRunner_opts [OF r(1)] assms(2,3) by (simp_all add: runner_options_def)
    from Run_end [OF r(2) this] obtain r1 sm results st' where x: "prepare_run L runner = Inr r1"
      "executeTests L W r1 (sm, fs) = Some (Inr (result, results), st')" by blast
    with r(1) have "suite_ran L W version f fs r1 results" unfolding suite_ran_def by blast
    then show thesis by (rule ran) (simp only: r(3) executeTests_end [OF x(2)])
  qed (use failed stopped in auto)
qed


end
