(* ===== verification/Spec2Isabelle.thy ===== *)
theory Spec2Isabelle
  imports CELCli AICli CELResponse AIResponseEngine Evaluator ToolNames ResponseChain Gateway
    CLIValidation ActionValidation Intercept CallerAuth Retry ConfigValidation Server
    SuiteRunner CLIProxy AIProviders ConfigEnv Startup ConfigLoad Commands
begin

text \<open>
  Maybe Don't is a gateway between AI agents and the tools they call. An agent connects to the
  gateway as to one MCP server; the gateway keeps a session for it, with a connection to each
  downstream server, checks every tool call against the operator's policies before it is forwarded
  and every response before it is passed back, and writes an audit record of what was decided. The
  same policies are also offered over HTTP to command line proxies, agent hooks and other programs.

  \<^bold>\<open>The way of a call.\<close> \<^verbatim>\<open>Gateway.HandleToolCall\<close> takes the name of a tool apart (theory
  \<^verbatim>\<open>ToolNames\<close>), runs the request chain (\<^verbatim>\<open>Evaluator\<close>) over the CEL engine (\<^verbatim>\<open>CELEngine\<close>) and the AI
  engine (\<^verbatim>\<open>AIEngine\<close>) with one blocking budget (\<^verbatim>\<open>Budget\<close>), looks up the session's connection
  (\<^verbatim>\<open>Session\<close>), calls the tool, runs the response chain (\<^verbatim>\<open>ResponseChain\<close>) over the two response
  engines (\<^verbatim>\<open>CELResponse\<close>, \<^verbatim>\<open>AIResponseEngine\<close>) and finalises the audit entry (\<^verbatim>\<open>AuditLog\<close>). The whole
  handler is in \<^verbatim>\<open>Gateway\<close>. This theory states what holds of the parts together: a refused call never
  reaches a tool, a refused response never reaches the agent, and a phase configured audit_only
  never blocks.

  \<^bold>\<open>The theories\<close>, each with the files it models under \<^verbatim>\<open>src/internal\<close>:

    \<^item> \<^verbatim>\<open>Prelude\<close>: Go strings, errors, clock readings and buffered channels; lemma collections.
    \<^item> \<^verbatim>\<open>Budget\<close> (\<^verbatim>\<open>gateway/blocking_budget.go\<close>): the budget of a request and the tracker of a phase. A
      method runs under the lock of the budget and is one step; the lemmas say what steps can do to a
      budget, and that charges never add up to more than its maximum.
    \<^item> \<^verbatim>\<open>Policies\<close>, \<^verbatim>\<open>Loading\<close> (\<^verbatim>\<open>config/config.go\<close> and the four \<^verbatim>\<open>LoadPolicies\<close> methods): the rule
      records, modes and their resolution, and the loading loop with its contract.
    \<^item> \<^verbatim>\<open>Results\<close> (\<^verbatim>\<open>gateway/tool_validation.go\<close>, \<^verbatim>\<open>response_validation.go\<close>, \<^verbatim>\<open>audit_entry.go\<close>): the
      records the components exchange. \<^verbatim>\<open>EngineContract\<close>: what the chains and the evaluator rely on in
      an engine, interpreted by all four engines.
    \<^item> \<^verbatim>\<open>CELEngine\<close>, \<^verbatim>\<open>CELCli\<close> (\<^verbatim>\<open>gateway/cel_engine.go\<close>): loading, the loop over the rules for calls and
      for commands, the masking of arguments. The loop refines a decision by the first rule that
      stops it, and the command loop is the call loop on other expressions.
    \<^item> \<^verbatim>\<open>AIEngine\<close>, \<^verbatim>\<open>AICli\<close> (\<^verbatim>\<open>gateway/ai_engine.go\<close>): one goroutine for each rule, the loop that collects
      their answers until the deadline, an early denial or the last answer, and the background
      collectors of the audit trail. \<^verbatim>\<open>JsonSanitize\<close> (\<^verbatim>\<open>gateway/json_sanitize.go\<close>) repairs the answers.
    \<^item> \<^verbatim>\<open>CELResponse\<close>, \<^verbatim>\<open>AIResponseEngine\<close> (\<^verbatim>\<open>gateway/cel_response_engine.go\<close>,
      \<^verbatim>\<open>ai_response_engine.go\<close>): the same for responses, with redaction.
    \<^item> \<^verbatim>\<open>Evaluator\<close> (\<^verbatim>\<open>gateway/policy_evaluator.go\<close>, \<^verbatim>\<open>tool_validation.go\<close>), \<^verbatim>\<open>ResponseChain\<close>
      (\<^verbatim>\<open>response_validation.go\<close>): the two compositions of the request engines, which agree, and the
      chain of response handlers. "What the loaded policies decide" in \<^verbatim>\<open>Evaluator\<close> is the
      specification that the HTTP endpoints are held to.
    \<^item> \<^verbatim>\<open>Session\<close> (\<^verbatim>\<open>gateway/session.go\<close>): sessions and their connections, sequentially and as steps as
      fine as the locks, with every interleaving; connections are accounted for in a multiset.
    \<^item> \<^verbatim>\<open>HttpHandlers\<close>, \<^verbatim>\<open>CLIValidation\<close>, \<^verbatim>\<open>ActionValidation\<close>, \<^verbatim>\<open>Intercept\<close> (\<^verbatim>\<open>gateway/context.go\<close>,
      \<^verbatim>\<open>cli_validation.go\<close>, \<^verbatim>\<open>action_validation.go\<close>, \<^verbatim>\<open>intercept_handler.go\<close>): the HTTP endpoints, from the
      checks of a request to its reply and audit entries.
    \<^item> \<^verbatim>\<open>TrustedProxy\<close>, \<^verbatim>\<open>CallerAuth\<close>, \<^verbatim>\<open>Retry\<close> (\<^verbatim>\<open>gateway/trusted_proxy.go\<close>, \<^verbatim>\<open>auth_middleware.go\<close>,
      \<^verbatim>\<open>ai_provider_retry.go\<close>): the address of a client, the required header, repeated provider calls.
    \<^item> \<^verbatim>\<open>AuditWriter\<close>, \<^verbatim>\<open>AuditReader\<close> (\<^verbatim>\<open>gateway/audit_writer.go\<close>, \<^verbatim>\<open>audit_log_tool.go\<close>): the file of
      audit entries, one JSON text on a line, and the tool that reads it backwards in chunks. The chunks
      make no difference, and what was written is read.
    \<^item> \<^verbatim>\<open>ConfigPaths\<close>, \<^verbatim>\<open>DownstreamConfig\<close>, \<^verbatim>\<open>ConfigValidation\<close> (\<^verbatim>\<open>config/config.go\<close>): file names, downstream
      servers from environment variables, rule files, defaults and validation.
    \<^item> \<^verbatim>\<open>ClientManager\<close>, \<^verbatim>\<open>Discovery\<close>, \<^verbatim>\<open>Server\<close> (\<^verbatim>\<open>gateway/client_manager.go\<close>, \<^verbatim>\<open>gateway.go\<close>,
      \<^verbatim>\<open>server.go\<close>): the clients of downstream servers with their credentials, probing and retries; which
      tools are registered at start and which are found when a session with credentials asks; the hooks of
      the MCP server and its tool list.
    \<^item> \<^verbatim>\<open>NativeTools\<close>, \<^verbatim>\<open>AuditReport\<close> (\<^verbatim>\<open>gateway/native_tools.go\<close>, \<^verbatim>\<open>list_sessions_tool.go\<close>,
      \<^verbatim>\<open>list_servers_tool.go\<close>, \<^verbatim>\<open>discover_tools_tool.go\<close>, \<^verbatim>\<open>audit_report_tool.go\<close>): the tools the gateway offers
      itself, and the statistics, samples and text of the audit report.
    \<^item> \<^verbatim>\<open>AIProviders\<close> (\<^verbatim>\<open>gateway/ai_provider.go\<close>, \<^verbatim>\<open>ai_provider_openai.go\<close>,
      \<^verbatim>\<open>ai_provider_openai_compatible.go\<close>, \<^verbatim>\<open>ai_provider_anthropic.go\<close>): the clients of the providers, from the
      body of a request to the text of the answer or its error.
    \<^item> \<^verbatim>\<open>ConfigEnv\<close> (\<^verbatim>\<open>config/config.go\<close>): variables in the texts of a configuration and variables that
      override its fields, over what reflection sees of a structure; the directories.
    \<^item> \<^verbatim>\<open>CLIProxy\<close> (\<^verbatim>\<open>cmd/cli.go\<close>, \<^verbatim>\<open>internal/cliproxy\<close>, the routes of \<^verbatim>\<open>gateway/server.go\<close>): the wrapper that
      asks the gateway before it starts a command. A wrapped command is held to the gateway's policies, but
      any error of the gateway lets it run.
    \<^item> \<^verbatim>\<open>Startup\<close> (\<^verbatim>\<open>New\<close>, \<^verbatim>\<open>Start\<close> and \<^verbatim>\<open>Stop\<close> of \<^verbatim>\<open>gateway/gateway.go\<close>, \<^verbatim>\<open>initServer\<close> of \<^verbatim>\<open>server.go\<close>): the
      engines built from the configuration, wired into the chains and served, and the end, which writes
      what is pending. Its theorem is about the whole way from the rule files to a handled call, with the
      providers' clients behind the AI rules.
    \<^item> \<^verbatim>\<open>ConfigLoad\<close> (\<^verbatim>\<open>config/config.go\<close>, \<^verbatim>\<open>defaults.go\<close>, \<^verbatim>\<open>session_logger.go\<close>): loading a configuration, the
      default files, the loggers.
    \<^item> \<^verbatim>\<open>Commands\<close> (\<^verbatim>\<open>cmd\<close>, \<^verbatim>\<open>hooks/hooks.go\<close>, \<^verbatim>\<open>skills/skills.go\<close>): what each command does with these
      parts, in which order, and the code with which it ends.

  \<^bold>\<open>The policy test suite\<close> (\<^verbatim>\<open>src/internal/testsuite\<close>) runs test cases against the rules, beside the gateway:

    \<^item> \<^verbatim>\<open>SuiteTypes\<close> (\<^verbatim>\<open>types.go\<close>, \<^verbatim>\<open>executor.go\<close>): the suite, its cases, results and options. \<^verbatim>\<open>SuiteState\<close>
      (\<^verbatim>\<open>state.go\<close>): the cache of results in a file that is saved by a rename.
    \<^item> \<^verbatim>\<open>SuiteExecutor\<close> (\<^verbatim>\<open>executor.go\<close>): tests against the CEL engines of the gateway's own theories, the
      comparison with the expectation, and what a passed test says about the gateway.
    \<^item> \<^verbatim>\<open>RateLimiter\<close>, \<^verbatim>\<open>AITestRunner\<close> (\<^verbatim>\<open>ratelimiter.go\<close>, \<^verbatim>\<open>ai_executor.go\<close>): the limit of requests per
      minute, for requests made as they are admitted, and the goroutines as steps as fine as the locks;
      tests against the AI rules.
    \<^item> \<^verbatim>\<open>SuiteLoading\<close>, \<^verbatim>\<open>SuiteSelection\<close> (\<^verbatim>\<open>runner.go\<close>): loading and checking a suite, hashing of rules and
      cases, coverage; the choice of cases and models.
    \<^item> \<^verbatim>\<open>SuiteReport\<close>, \<^verbatim>\<open>SuiteRunner\<close> (\<^verbatim>\<open>runner.go\<close>, \<^verbatim>\<open>output.go\<close>): the numbers of a run, the comparison of
      models, the JSON and JUnit reports up to their encoding; the run of a model with the cache, which is
      a store of results by content hash, and the whole run. In \<^verbatim>\<open>run_world\<close> are the providers' answers, the
      clocks and the faults of the file system, by the numbers of the model and the test.

  A rate is an exact rational where Go has a \<^verbatim>\<open>float64\<close>, and so is a number with a fraction in decoded JSON
  or YAML; converting it to an integer cuts it off as Go does.

  \<^bold>\<open>Conventions.\<close> A struct is a record whose fields carry a short prefix, a method a function with the
  name of the method and the receiver as an argument; a method of a common name has a prefix for its
  type (\<open>cel_\<close>, \<open>ai_\<close>, \<open>celr_\<close>, \<open>air_\<close>, \<open>pe_\<close>, \<open>cm_\<close>, \<open>sm_\<close>). A pointer that may be nil is an option. An
  error is a value of \<open>go_error\<close> or of a datatype for the component, in a sum. An engine takes the
  budget and returns it, which is how the source threads it through the request's context.

  \<^bold>\<open>Parameters.\<close> What is not under \<^verbatim>\<open>src/\<close> is an argument of the definitions that use it: the CEL
  compiler and interpreter, the AI provider, the JSON and YAML codecs, regular expressions in
  redaction rules, the tools themselves, random numbers. Clock readings are a function from program
  points, and the order in which goroutines deliver is a schedule; the theorems hold for all of them.
  A schedule is a finite list of choices, each letting the polling timer fire or a pending goroutine
  send; when it is used up the pending goroutines send in their order, so that each schedule is a
  complete run, each interleaving is the run of a schedule, and no fuel is needed.

  \<^bold>\<open>Bounds.\<close> Go's \<^verbatim>\<open>int\<close> is \<^typ>\<open>int\<close> where the source only counts, adds bounded times or compares, as
  for milliseconds, whose sums stay far below the 64-bit range; where milliseconds are multiplied into a
  duration in nanoseconds the product wraps around at 64 bits (\<open>milliseconds\<close> in \<^verbatim>\<open>Prelude\<close>); internet
  addresses are 128-bit words. An AI rule answers "in time" when the engine receives its answer before
  the deadline; only then is a verdict exact, since an answer that comes later is not waited for.
  Every recursion terminates; there is no fuel.

  \<^bold>\<open>Not modelled.\<close> Listening for connections and the shutdown of the HTTP server, and the constant texts of
  tool definitions and prompts: plumbing over the MCP library. What viper reads from the configuration
  file, from variables and from its defaults, and what cobra makes of the command line: both are libraries,
  whose results are parameters. The text the policy test suite prints and its progress indicator. Help and
  version texts, and the contents of the embedded hooks, skills and default files.
\<close>

section \<open>The request policies, through the gateway\<close>

lemma wired_request_chain:
  fixes cenv :: "('ast, 'prg) cel_env"
  assumes cel_def: "cel = (\<lambda>r. cel_EvaluateToolCall cenv cps r cT)"
    and ai_def: "ai = (\<lambda>r. ai_tool_engine aenv cfg aps r sch aT)"
  obtains v b where "chain_Handle (g_validationChain (wire_chains (Some cel) (Some ai) cr ar g) req) (Some bud) = ((v, None), b)"
    "budget_step_opt (Some bud) b"
    "(\<exists>p. cel_decide (mcp_outcome cenv (mcp_vars req)) cps = Refuse p) \<Longrightarrow> DenyCount v > 0"
    "DenyCount v > 0 \<Longrightarrow> (\<exists>p. cel_decide (mcp_outcome cenv (mcp_vars req)) cps = Refuse p) \<or>
       (\<exists>r \<in> set (ai_answers aenv cfg aps req). ai_denies r)"
proof -
  obtain r b1 where c: "cel_EvaluateToolCall cenv cps req cT (Some bud) = (Inr r, b1)"
    "refines_decision (cel_decide (mcp_outcome cenv (mcp_vars req)) cps) (mcp_outcome cenv (mcp_vars req)) cps r"
    using cel_run_all_decision [of cenv "mcp_vars req" cps cT "Some bud"]
    by (cases "cel_run_all cenv (mcp_vars req) cps cT (Some bud)") (auto simp: cel_EvaluateToolCall_run_all)
  have s1: "budget_step_opt (Some bud) b1"
    using cel_tool.budget_law [of "Some bud" cenv cps req cT] c(1) by simp
  then obtain b1' where [simp]: "b1 = Some b1'" by auto
  obtain out b2 where out: "ai_EvaluateToolCall aenv cfg aps req sch aT b1 = Some (out, b2)"
    "budget_step_opt b1 b2" "\<not> isl out" "ai_meets (ai_on_time b1 aT) (ai_answers aenv cfg aps req) (projr out)"
    using ai_tool_rule.evaluate_spec [of aenv cfg "formatOperation aenv (NewMCPOperation req)" aps sch aT b1]
    by (auto simp: ai_EvaluateToolCall_evaluate ai_answers_def)
  then obtain ra where ra: "out = Inr ra" by (cases out) auto
  note a = out(1) [unfolded ra] out(2) out(4) [unfolded ra sum.sel]
  have a': "ai_tool_engine aenv cfg aps req sch aT (Some b1') = (Inr ra, b2)"
    using a(1) by (simp add: ai_tool_engine_def)
  have n: "0 \<le> DenyCount r" "0 \<le> DenyCount ra"
    using cel_tool.count_law [of cenv cps req cT "Some bud" r] c(1)
      ai_tool.count_law [of aenv cfg aps req sch aT "Some b1'" ra] a' by simp_all
  let ?st = "chain_merge ra (chain_merge r chain_init)"
  have ch: "chain_Handle (g_validationChain (wire_chains (Some cel) (Some ai) cr ar g) req) (Some bud) =
      ((chain_finish ?st, None), b2)"
    using c(1) a' by (simp add: wire_chains_def handlers_of_def chain_Handle_def cel_def ai_def chain_init_def)
  have d: "DenyCount (chain_finish ?st) = DenyCount r + DenyCount ra"
    by (simp add: chain_init_def no_results_def)
  have "DenyCount r > 0 \<longleftrightarrow> (\<exists>p. cel_decide (mcp_outcome cenv (mcp_vars req)) cps = Refuse p)"
    using c(2) by (auto simp: refines_decision_def split: decision.splits)
  moreover have "DenyCount ra > 0 \<Longrightarrow> \<exists>r \<in> set (ai_answers aenv cfg aps req). ai_denies r"
    using a(3) ai_tool.verdict_law [of aenv cfg aps req sch aT "Some b1'" ra] a'
    by (auto simp: ai_meets_def split: if_splits)
  moreover have "budget_step_opt (Some bud) b2" using s1 a(2) by (rule budget_step_opt_trans)
  ultimately show thesis
    using that [OF ch] d n by auto
qed

text \<open>
  The request policies hold at the gateway. A call that a CEL rule refuses never reaches a tool,
  and ends in a policy denial; no other call is denied before its tool runs, except when an enforcing
  AI rule answered with a denial; and the validation itself never fails with an error.
\<close>

lemma request_policies_enforced:
  "let g' = wire_chains (Some (\<lambda>r. cel_EvaluateToolCall cenv cps r cT))
              (Some (\<lambda>r. ai_tool_engine aenv cfg aps r sch aT)) cr ar g;
       out = HandleToolCall g' ctx sm T req;
       refused = (\<exists>p. cel_decide (mcp_outcome cenv (mcp_vars req)) cps = Refuse p) in
   (if refused then out_calls out = [] else True) \<and>
   (if IsNativeTool (ToolName req) \<or> isl (ParsePrefixedName (ToolName req)) then True
    else if refused then (\<exists>m d. out_result out = Inl (PolicyDeniedError m d))
    else case out_result out of
        Inl (PolicyDeniedError m d) \<Rightarrow>
          (if out_calls out = [] then \<exists>r \<in> set (ai_answers aenv cfg aps req). ai_denies r else True)
      | Inl (ValidationError e) \<Rightarrow> False
      | _ \<Rightarrow> True)"
proof (cases "IsNativeTool (ToolName req)")
  case True
  then show ?thesis by (simp add: HandleToolCall_def split: prod.split)
next
  case False
  let ?g = "wire_chains (Some (\<lambda>r. cel_EvaluateToolCall cenv cps r cT))
              (Some (\<lambda>r. ai_tool_engine aenv cfg aps r sch aT)) cr ar g"
  obtain v b where ch: "chain_Handle (g_validationChain ?g req)
      (Some (NewBlockingBudget (T 0 1) (g_MaxBlockingMs ?g))) = ((v, None), b)"
    and v: "(\<exists>p. cel_decide (mcp_outcome cenv (mcp_vars req)) cps = Refuse p) \<Longrightarrow> DenyCount v > 0"
      "DenyCount v > 0 \<Longrightarrow> (\<exists>p. cel_decide (mcp_outcome cenv (mcp_vars req)) cps = Refuse p) \<or>
        (\<exists>r \<in> set (ai_answers aenv cfg aps req). ai_denies r)"
    by (rule wired_request_chain [OF refl refl, where bud = "NewBlockingBudget (T 0 1) (g_MaxBlockingMs ?g)"
          and req = req and cr = cr and ar = ar and g = g]) blast
  from False show ?thesis
  proof (cases rule: HandleToolCall_cases [of req ?g ctx sm T])
    case (parse e)
    then show ?thesis by (simp add: failed_def)
  next
    case (error c n v e b)
    with ch show ?thesis by simp
  next
    case (denied c n v' b' m d a)
    with ch v False show ?thesis by auto
  next
    case (allowed c n v' b')
    let ?ac = "populateRequestValidationAudit v' (prepare_audit ?g ctx (T 0 0) req c n)"
    have nr: "\<not> (\<exists>p. cel_decide (mcp_outcome cenv (mcp_vars req)) cps = Refuse p)"
      using allowed(2,3) ch v(1) by auto
    show ?thesis
    proof (cases rule: forward_call_cases [of ?g ctx sm T req c n "request_verdict v'" ?ac b'])
      case (no_client e sm')
      with nr allowed(4) show ?thesis by (cases e) (simp_all add: failed_def)
    next
      case (failed_call info q e sm')
      with nr allowed show ?thesis by (simp add: failed_def)
    next
      case (answered info q raw res w sm' d)
      from answered(2) show ?thesis
        by (cases rule: screen_response_cases) (use nr allowed(4) answered(3) in simp_all)
    qed
  qed
qed

section \<open>The response policies, through the gateway\<close>

lemma wired_response_verdict:
  fixes env :: "('ast, 'prg) cel_env" and lib :: "'re regexp_lib"
  assumes cr_def: "cr = (\<lambda>r result. celr_EvaluateResponse env lib rps r result rT)"
    and ar_def: "ar = (\<lambda>r result. air_engine renv cfg arps result sch arT)"
    and f: "rchain_Handle (the (g_responseValidationChain (wire_chains ce ae (Some cr) (Some ar) g)) req) raw b =
      ((f, cur), b')"
    and oc_def: "oc = response_outcome env (response_vars req raw)"
    and red_def: "red = cel_redaction lib (getTextContent raw) oc rps"
  obtains b1 where
    "rAllowed f \<longleftrightarrow> \<not> cel_denies_response oc rps \<and>
       \<not> list_ex rr_denies (air_answers renv cfg arps (redact_result red raw) b1)"
    "chosen_text (air_answers renv cfg arps (redact_result red raw) b1) red (rRedactedContent f)"
proof -
  from f have "rchain_Handle [cr req, ar req] raw b = ((f, cur), b')"
    by (simp add: wire_chains_def handlers_of_def)
  from loaded_response_verdict [OF _ _ this oc_def red_def] show thesis
    using that unfolding cr_def ar_def by blast
qed

text \<open>
  C2. The response policies hold at the gateway. When the client of an executed tool returns content,
  the agent gets a policy denial instead of it exactly if the CEL response rules deny it or an
  enforcing AI rule, shown the response as the CEL rules redact it, does. Otherwise it gets that
  content, in which only the first text may be another: the text an enforcing AI redact rule gave if one
  redacts, else the redaction the CEL rules compute from it, if they compute one, else none.
\<close>

theorem response_policies_enforced:
  "let g' = wire_chains ce ae (Some (\<lambda>r result. celr_EvaluateResponse env lib rps r result rT))
              (Some (\<lambda>r result. air_engine renv cfg arps result sch arT)) g;
       out = HandleToolCall g' ctx sm T req in
   case out_calls out of
     [] \<Rightarrow> IsNativeTool (ToolName req) \<or> isl (out_result out)
   | (info, q) # _ \<Rightarrow>
       (case g_CallTool g info q of
          Inl e \<Rightarrow> out_result out = Inl (ToolCallFailed e)
        | Inr raw \<Rightarrow>
            let oc = response_outcome env (response_vars req raw);
                red = cel_redaction lib (getTextContent raw) oc rps
            in if Content raw = [] then \<exists>r. out_result out = Inr r \<and> Content r = []
            else \<exists>b. let answers = air_answers renv cfg arps (redact_result red raw) b in
              if cel_denies_response oc rps \<or> list_ex rr_denies answers
              then \<exists>m d. out_result out = Inl (PolicyDeniedError m d)
              else \<exists>x r. chosen_text answers red x \<and> out_result out = Inr r \<and>
                Content r = Content (redact_result x raw))"
proof (cases "IsNativeTool (ToolName req)")
  case True
  then show ?thesis by (simp add: HandleToolCall_def split: prod.split)
next
  case False
  let ?cr = "\<lambda>r result. celr_EvaluateResponse env lib rps r result rT"
  let ?ar = "\<lambda>r :: CallToolRequest. \<lambda>result. air_engine renv cfg arps result sch arT"
  let ?g = "wire_chains ce ae (Some ?cr) (Some ?ar) g"
  from False show ?thesis
  proof (cases rule: HandleToolCall_cases [of req ?g ctx sm T])
    case (allowed c n v b)
    let ?ac = "populateRequestValidationAudit v (prepare_audit ?g ctx (T 0 0) req c n)"
    show ?thesis
    proof (cases rule: forward_call_cases [of ?g ctx sm T req c n "request_verdict v" ?ac b])
      case (answered info q raw res w sm' d)
      then have raw: "g_CallTool g info q = Inr raw" by (simp add: wire_chains_def)
      have out: "out_calls (HandleToolCall ?g ctx sm T req) = [(info, q)]"
        "out_result (HandleToolCall ?g ctx sm T req) = res"
        using allowed(4) answered(3) by simp_all
      let ?oc = "response_outcome env (response_vars req raw)"
      let ?red = "cel_redaction lib (getTextContent raw) ?oc rps"
      let ?answers = "\<lambda>b. air_answers renv cfg arps (redact_result ?red raw) b"
      show ?thesis
      proof (cases "Content raw = []")
        case True
        then have "screened ?g req b raw = Some raw" by (simp add: screened_def split: option.split)
        with answered(2) have "\<exists>r. res = Inr r \<and> Content r = []"
          by (cases rule: screen_response_cases) (use True in auto)
        with out raw True show ?thesis by simp
      next
        case nonempty: False
        obtain f cur b' where f: "rchain_Handle (the (g_responseValidationChain ?g) req) raw b = ((f, cur), b')"
          by (metis surj_pair)
        obtain b1 where r: "rAllowed f \<longleftrightarrow> \<not> cel_denies_response ?oc rps \<and> \<not> list_ex rr_denies (?answers b1)"
            "chosen_text (?answers b1) ?red (rRedactedContent f)"
          by (rule wired_response_verdict [OF refl refl f refl refl])
        have s: "screened ?g req b raw = (if rAllowed f then Some (redact_result (rRedactedContent f) raw) else None)"
          using f nonempty by (simp add: screened_def wire_chains_def)
        have "if cel_denies_response ?oc rps \<or> list_ex rr_denies (?answers b1)
            then \<exists>m d. res = Inl (PolicyDeniedError m d)
            else \<exists>x r. chosen_text (?answers b1) ?red x \<and> res = Inr r \<and> Content r = Content (redact_result x raw)"
          using answered(2)
        proof (cases rule: screen_response_cases)
          case (withheld m d)
          with s r(1) show ?thesis by (auto split: if_splits)
        next
          case (delivered r r')
          with s have "rAllowed f" "Content r = Content (redact_result (rRedactedContent f) raw)"
            by (auto split: if_splits)
          with r delivered(2) show ?thesis by auto
        qed
        note released = this
        have ne: "(Content raw = []) = False" using nonempty by simp
        show ?thesis
          unfolding Let_def out list.case prod.case raw sum.case ne if_False using released by (rule exI)
      qed
    qed (use allowed(4) in \<open>simp_all add: failed_def wire_chains_def\<close>)
  qed (simp_all add: failed_def)
qed

section \<open>What is configured audit_only never blocks\<close>

text \<open>
  C10. A phase configured \<^verbatim>\<open>audit_only\<close> never blocks. Under an accepted configuration, with whatever
  rules its file holds and whatever those rules say of their own modes, the CEL and the AI request phase
  then allow every call, count no denial and never fail open, and the CEL and the AI response phase
  allow every response unchanged, whatever the providers answer, for every budget, clock and schedule.
\<close>

theorem audit_only_phases_never_block:
  "case finish_config L F dir found config of
     Inl e \<Rightarrow> True
   | Inr cfg \<Rightarrow>
       (let given = cf_Phases config; p = cf_Phases cfg in
         (if pm_ReqCELMode given = PolicyModeAuditOnly
          then \<exists>r. fst (cel_EvaluateToolCall cenv
                 (snd (cel_LoadPolicies cenv inc (pm_ReqCELMode p) [] (pm_ReqCELRules p))) req T b) = Inr r \<and>
               Allowed r \<and> \<not> FailedOpen r \<and> DenyCount r = 0
          else True) \<and>
         (if pm_ReqAIMode given = PolicyModeAuditOnly
          then \<exists>v b'. ai_EvaluateToolCall aenv acfg
                 (snd (ai_LoadPolicies (pm_ReqAIMode p) [] (pm_ReqAIRules p))) req sch T b = Some (Inr v, b') \<and>
               Allowed v \<and> \<not> FailedOpen v \<and> DenyCount v = 0
          else True) \<and>
         (if pm_RespCELMode given = PolicyModeAuditOnly
          then \<exists>r. fst (celr_EvaluateResponse renv lib
                 (snd (celr_LoadPolicies renv inc (pm_RespCELMode p) [] (pm_RespCELRules p))) req result T b) = Inr r \<and>
               rAllowed r \<and> \<not> rFailedOpen r \<and> rRedactedContent r = None
          else True) \<and>
         (if pm_RespAIMode given = PolicyModeAuditOnly
          then \<exists>v b'. air_EvaluateResponse arenv acfg
                 (snd (air_LoadPolicies (pm_RespAIMode p) [] (pm_RespAIRules p))) result sch T b = Some (Inr v, b') \<and>
               rAllowed v \<and> \<not> rFailedOpen v \<and> rRedactedContent v = None
          else True))"
proof (cases "finish_config L F dir found config")
  case (Inr cfg)
  have n: "PolicyMode_Normalize PolicyModeAuditOnly PolicyModeAuditOnly = PolicyModeAuditOnly"
    by (simp add: PolicyMode_Normalize_def)
  note m = configured_modes [OF Inr]
  show ?thesis
    using cel_audit_only_phase_allows [of cenv inc "pm_ReqCELRules (cf_Phases cfg)" req T b]
      ai_audit_only_phase_allows [of aenv acfg "pm_ReqAIRules (cf_Phases cfg)" req sch T b]
      celr_audit_only_phase_passes [of renv lib inc "pm_RespCELRules (cf_Phases cfg)" req result T b]
      air_audit_only_phase_passes [of arenv acfg "pm_RespAIRules (cf_Phases cfg)" result sch T b]
    by (auto simp: Inr Let_def m n)
qed simp

end
